(* ===== verification/IDR_Prelude.thy ===== *)
theory IDR_Prelude
  imports Main "HOL-Library.Word" "HOL-Library.List_Lexorder" "HOL-Library.Char_ord"
begin

text \<open>
  Shared vocabulary of the development: Rust's \<open>Result\<close> with its \<open>?\<close> operator, checked
  machine arithmetic, Rust strings as their UTF-8 bytes, ordered maps and sets, and the
  generic transition-system interface that the state machines of the components interpret.

  A Rust \<open>String\<close> is modelled by the list of its UTF-8 bytes (a HOL \<open>string\<close>: a \<open>char\<close>
  is a byte), so that \<open>len()\<close>, \<open>==\<close>, \<open>as_bytes()\<close> and \<open>Ord\<close> of the source are
  \<open>length\<close>, equality, the list itself and the lexicographic order.
\<close>

section \<open>Types\<close>

type_synonym u8 = "8 word"
type_synonym u16 = "16 word"
type_synonym u32 = "32 word"
type_synonym u64 = "64 word"
type_synonym uuid = "128 word"
type_synonym bytes = string

section \<open>Results\<close>

datatype ('e, 'a) result = Err 'e | Ok 'a

named_theorems result_simps \<open>rewriting of results and of the question-mark operator\<close>

text \<open>Rust's \<open>r?\<close> followed by the rest of the function body.\<close>

fun and_then :: "('e, 'a) result \<Rightarrow> ('a \<Rightarrow> ('e, 'b) result) \<Rightarrow> ('e, 'b) result" where
  "and_then (Err e) f = Err e"
| "and_then (Ok x) f = f x"

fun map_err :: "('e \<Rightarrow> 'f) \<Rightarrow> ('e, 'a) result \<Rightarrow> ('f, 'a) result" where
  "map_err g (Err e) = Err (g e)"
| "map_err g (Ok x) = Ok x"

fun is_err :: "('e, 'a) result \<Rightarrow> bool" where
  "is_err (Err e) = True"
| "is_err (Ok x) = False"

fun ok_or :: "'a option \<Rightarrow> 'e \<Rightarrow> ('e, 'a) result" where
  "ok_or None e = Err e"
| "ok_or (Some x) e = Ok x"

text \<open>A loop whose body may return early with an error.\<close>

fun for_each :: "('a \<Rightarrow> ('e, unit) result) \<Rightarrow> 'a list \<Rightarrow> ('e, unit) result" where
  "for_each f [] = Ok ()"
| "for_each f (x # xs) = and_then (f x) (\<lambda>_. for_each f xs)"

text \<open>\<open>iter().map(f).collect::<Result<Vec<_>, _>>()\<close>\<close>

fun collect_results :: "('a \<Rightarrow> ('e, 'b) result) \<Rightarrow> 'a list \<Rightarrow> ('e, 'b list) result" where
  "collect_results f [] = Ok []"
| "collect_results f (x # xs) =
     and_then (f x) (\<lambda>y. and_then (collect_results f xs) (\<lambda>ys. Ok (y # ys)))"

lemma and_then_eq_Ok [result_simps]:
  "and_then r f = Ok y \<longleftrightarrow> (\<exists>x. r = Ok x \<and> f x = Ok y)"
  by (cases r) auto

lemma and_then_cong [fundef_cong]:
  "r = r' \<Longrightarrow> (\<And>x. r' = Ok x \<Longrightarrow> f x = g x) \<Longrightarrow> and_then r f = and_then r' g"
  by (cases r') auto

lemma map_err_eq_Ok [result_simps]: "map_err g r = Ok y \<longleftrightarrow> r = Ok y"
  by (cases r) auto

lemma ok_or_eq_Ok [result_simps]: "ok_or x e = Ok y \<longleftrightarrow> x = Some y"
  by (cases x) auto

lemma is_err_iff [result_simps]: "is_err r \<longleftrightarrow> (\<nexists>x. r = Ok x)"
  by (cases r) auto

lemma for_each_eq_Ok [result_simps]:
  "for_each f xs = Ok u \<longleftrightarrow> (\<forall>x \<in> set xs. f x = Ok ())"
  by (induction xs) (auto simp: and_then_eq_Ok)

lemma collect_results_cong [fundef_cong]:
  "xs = ys \<Longrightarrow> (\<And>x. x \<in> set ys \<Longrightarrow> f x = g x) \<Longrightarrow> collect_results f xs = collect_results g ys"
  by (induction xs arbitrary: ys) auto

lemma for_each_cong [fundef_cong]:
  "xs = ys \<Longrightarrow> (\<And>x. x \<in> set ys \<Longrightarrow> f x = g x) \<Longrightarrow> for_each f xs = for_each g ys"
  by (induction xs arbitrary: ys) auto

lemma collect_results_length: "collect_results f xs = Ok ys \<Longrightarrow> length ys = length xs"
  by (induction xs arbitrary: ys) (auto simp: and_then_eq_Ok)

lemma collect_results_nth:
  "collect_results f xs = Ok ys \<Longrightarrow> i < length xs \<Longrightarrow> f (xs ! i) = Ok (ys ! i)"
  by (induction xs arbitrary: ys i) (auto simp: and_then_eq_Ok less_Suc_eq_0_disj)

lemma collect_results_Ok_iff:
  "(\<exists>ys. collect_results f xs = Ok ys) \<longleftrightarrow> (\<forall>x \<in> set xs. \<exists>y. f x = Ok y)"
  by (induction xs) (auto simp: and_then_eq_Ok)

lemma collect_results_set:
  "collect_results f xs = Ok ys \<Longrightarrow> y \<in> set ys \<Longrightarrow> \<exists>x \<in> set xs. f x = Ok y"
  by (induction xs arbitrary: ys) (auto simp: and_then_eq_Ok)

section \<open>Checked arithmetic\<close>

text \<open>Rust's \<open>checked_add\<close> on an unsigned integer of the given width.\<close>

definition checked_add :: "'w::len word \<Rightarrow> 'w word \<Rightarrow> 'w word option" where
  "checked_add a b = (if unat a + unat b < 2 ^ LENGTH('w) then Some (a + b) else None)"

lemma checked_add_unat: "checked_add a b = Some c \<Longrightarrow> unat c = unat a + unat b"
  by (auto simp: checked_add_def unat_word_ariths split: if_splits)

lemma checked_add_1_unat [dest]:
  "checked_add (a :: 'w::len word) 1 = Some c \<Longrightarrow> unat c = Suc (unat a)"
  using checked_add_unat [of a 1 c] by simp

lemma checked_add_1_less: "checked_add (a :: 'w::len word) 1 = Some c \<Longrightarrow> a < c"
  by (simp add: word_less_nat_alt checked_add_1_unat)

lemma checked_add_Some_eq: "checked_add a b = Some c \<Longrightarrow> c = a + b"
  by (simp add: checked_add_def split: if_splits)

section \<open>Strings\<close>

text \<open>
  \<open>str::trim\<close> strips code points with the Unicode property White_Space, and
  \<open>char::is_control\<close> holds for U+0000 to U+001F and U+007F to U+009F; both are stated
  on the UTF-8 bytes of the code points concerned.
\<close>

definition ws1 :: "char \<Rightarrow> bool" where
  "ws1 a \<longleftrightarrow> (let n = (of_char a :: nat) in 9 \<le> n \<and> n \<le> 13 \<or> n = 32)"

definition ws2 :: "char \<Rightarrow> char \<Rightarrow> bool" where
  "ws2 a b \<longleftrightarrow> a = CHR 0xC2 \<and> (b = CHR 0x85 \<or> b = CHR 0xA0)"

definition ws3 :: "char \<Rightarrow> char \<Rightarrow> char \<Rightarrow> bool" where
  "ws3 a b c \<longleftrightarrow>
     a = CHR 0xE1 \<and> b = CHR 0x9A \<and> c = CHR 0x80 \<or>
     a = CHR 0xE2 \<and> b = CHR 0x80 \<and>
       (let n = (of_char c :: nat) in 0x80 \<le> n \<and> n \<le> 0x8A \<or> n = 0xA8 \<or> n = 0xA9 \<or> n = 0xAF) \<or>
     a = CHR 0xE2 \<and> b = CHR 0x81 \<and> c = CHR 0x9F \<or>
     a = CHR 0xE3 \<and> b = CHR 0x80 \<and> c = CHR 0x80"

fun strip_ws ::
  "(char \<Rightarrow> char \<Rightarrow> bool) \<Rightarrow> (char \<Rightarrow> char \<Rightarrow> char \<Rightarrow> bool) \<Rightarrow> string \<Rightarrow> string" where
  "strip_ws p2 p3 [] = []"
| "strip_ws p2 p3 (a # r) =
     (if ws1 a then strip_ws p2 p3 r
      else (case r of [] \<Rightarrow> a # r | b # r2 \<Rightarrow>
        if p2 a b then strip_ws p2 p3 r2
        else (case r2 of [] \<Rightarrow> a # r | c # r3 \<Rightarrow>
          if p3 a b c then strip_ws p2 p3 r3 else a # r)))"

definition str_trim :: "string \<Rightarrow> string" where
  "str_trim s =
     rev (strip_ws (\<lambda>b a. ws2 a b) (\<lambda>c b a. ws3 a b c) (rev (strip_ws ws2 ws3 s)))"

fun has_control :: "string \<Rightarrow> bool" where
  "has_control [] = False"
| "has_control (a # r) =
     ((of_char a :: nat) < 32 \<or> a = CHR 0x7F \<or>
      a = CHR 0xC2 \<and> (case r of [] \<Rightarrow> False | b # _ \<Rightarrow>
        (0x80 :: nat) \<le> of_char b \<and> (of_char b :: nat) \<le> 0x9F) \<or>
      has_control r)"

text \<open>\<open>str::strip_prefix\<close>\<close>

fun strip_prefix :: "string \<Rightarrow> string \<Rightarrow> string option" where
  "strip_prefix [] s = Some s"
| "strip_prefix (p # ps) [] = None"
| "strip_prefix (p # ps) (c # cs) = (if p = c then strip_prefix ps cs else None)"

lemma strip_prefix_Some: "strip_prefix p s = Some r \<longleftrightarrow> s = p @ r"
  by (induction p s rule: strip_prefix.induct) auto

text \<open>Lower-case hexadecimal bytes, and the 64-byte digests the protocol exchanges.\<close>

definition hex_byte :: "char \<Rightarrow> bool" where
  "hex_byte c \<longleftrightarrow> CHR ''0'' \<le> c \<and> c \<le> CHR ''9'' \<or> CHR ''a'' \<le> c \<and> c \<le> CHR ''f''"

definition valid_digest :: "string \<Rightarrow> bool" where
  "valid_digest s \<longleftrightarrow> length s = 64 \<and> list_all hex_byte s"

lemma valid_digest_nonempty: "valid_digest s \<Longrightarrow> s \<noteq> []"
  by (auto simp: valid_digest_def)

section \<open>Ordered maps\<close>

text \<open>
  A \<open>BTreeMap\<close> is the list of its entries in key order. The interface every client relies
  on is the locale \<open>ordered_map\<close>; the list representation is its interpretation.
\<close>

locale ordered_map =
  fixes get :: "'m \<Rightarrow> 'k \<Rightarrow> 'v option"
    and put :: "'k \<Rightarrow> 'v \<Rightarrow> 'm \<Rightarrow> 'm"
    and wf :: "'m \<Rightarrow> bool"
    and empty :: "'m"
  assumes wf_empty: "wf empty"
    and get_empty: "get empty k = None"
    and wf_put: "wf m \<Longrightarrow> wf (put k v m)"
    and get_put: "wf m \<Longrightarrow> get (put k v m) k' = (if k' = k then Some v else get m k')"
begin

lemma get_put_same: "wf m \<Longrightarrow> get (put k v m) k = Some v"
  by (simp add: get_put)

lemma wf_foldl: "wf m \<Longrightarrow> wf (foldl (\<lambda>acc (k, v). put k v acc) m kvs)"
  by (induction kvs arbitrary: m) (auto simp: wf_put)

lemma get_foldl:
  "wf m \<Longrightarrow> get (foldl (\<lambda>acc (k, v). put k v acc) m kvs) k =
     (case map_of (rev kvs) k of None \<Rightarrow> get m k | Some v \<Rightarrow> Some v)"
proof (induction kvs arbitrary: m)
  case Nil
  then show ?case by simp
next
  case (Cons kv kvs)
  obtain k0 v0 where kv: "kv = (k0, v0)" by force
  from Cons.prems have "wf (put k0 v0 m)" by (rule wf_put)
  from Cons.IH [OF this] Cons.prems show ?case
    by (simp add: kv get_put map_add_def split: option.splits)
qed

end

fun bt_insert :: "'k::linorder \<Rightarrow> 'v \<Rightarrow> ('k \<times> 'v) list \<Rightarrow> ('k \<times> 'v) list" where
  "bt_insert k v [] = [(k, v)]"
| "bt_insert k v ((k', v') # m) =
     (if k < k' then (k, v) # (k', v') # m
      else if k = k' then (k, v) # m
      else (k', v') # bt_insert k v m)"

definition bt_get :: "('k \<times> 'v) list \<Rightarrow> 'k \<Rightarrow> 'v option" where
  "bt_get m k = map_of m k"

definition bt_wf :: "('k::linorder \<times> 'v) list \<Rightarrow> bool" where
  "bt_wf m \<longleftrightarrow> sorted_wrt (<) (map fst m)"

lemma bt_insert_keys: "fst ` set (bt_insert k v m) = insert k (fst ` set m)"
  by (induction k v m rule: bt_insert.induct) (auto simp: image_iff)

lemma bt_insert_wf: "bt_wf m \<Longrightarrow> bt_wf (bt_insert k v m)"
proof (induction k v m rule: bt_insert.induct)
  case (2 k v k' v' m)
  have keys: "\<forall>x \<in> set (map fst (bt_insert k v m)). x = k \<or> x \<in> set (map fst m)"
    using bt_insert_keys [of k v m] by auto
  show ?case
  proof (cases "k < k' \<or> k = k'")
    case True
    with 2(2) show ?thesis by (auto simp: bt_wf_def)
  next
    case False
    then have "k' < k" by auto
    moreover have "\<forall>x \<in> set (map fst m). k' < x" using 2(2) by (simp add: bt_wf_def)
    ultimately have "\<forall>x \<in> set (map fst (bt_insert k v m)). k' < x" using keys by metis
    with False 2 show ?thesis by (simp add: bt_wf_def)
  qed
qed (simp add: bt_wf_def)

lemma bt_get_insert:
  "bt_get (bt_insert k v m) k' = (if k' = k then Some v else bt_get m k')"
  by (induction k v m rule: bt_insert.induct) (auto simp: bt_get_def)

interpretation btree: ordered_map bt_get bt_insert bt_wf "[]"
  by unfold_locales (simp_all add: bt_wf_def [of "[]"] bt_get_def [of "[]"] bt_insert_wf bt_get_insert)

section \<open>Transition systems\<close>

text \<open>
  Runs of a partial step function: a run is accepted when every command is. The two locales
  below are the interfaces the engines of the later theories implement: an optimistic
  version counter, and an invariant kept by every accepted step.
\<close>

fun run_steps :: "('s \<Rightarrow> 'c \<Rightarrow> 's option) \<Rightarrow> 's \<Rightarrow> 'c list \<Rightarrow> 's option" where
  "run_steps step s [] = Some s"
| "run_steps step s (c # cs) = (case step s c of None \<Rightarrow> None | Some t \<Rightarrow> run_steps step t cs)"

lemma run_steps_append:
  "run_steps step s (cs @ ds) = (case run_steps step s cs of None \<Rightarrow> None | Some t \<Rightarrow> run_steps step t ds)"
  by (induction cs arbitrary: s) (auto split: option.splits)

locale invariant_machine =
  fixes step :: "'s \<Rightarrow> 'c \<Rightarrow> 's option"
    and inv :: "'s \<Rightarrow> bool"
  assumes step_inv: "inv s \<Longrightarrow> step s c = Some t \<Longrightarrow> inv t"
begin

lemma run_inv: "inv s \<Longrightarrow> run_steps step s cs = Some t \<Longrightarrow> inv t"
  by (induction cs arbitrary: s) (auto split: option.splits dest: step_inv)

end

locale versioned_machine =
  fixes step :: "'s \<Rightarrow> 'c \<Rightarrow> 's option"
    and version :: "'s \<Rightarrow> nat"
  assumes step_version: "step s c = Some t \<Longrightarrow> version t = Suc (version s)"
begin

lemma run_version: "run_steps step s cs = Some t \<Longrightarrow> version t = version s + length cs"
  by (induction cs arbitrary: s) (auto split: option.splits dest: step_version)

lemma run_never_returns: "run_steps step s cs = Some t \<Longrightarrow> cs \<noteq> [] \<Longrightarrow> t \<noteq> s"
  using run_version by (metis add_eq_self_zero length_0_conv)

end

end
