(* ===== verification/IDR_Json.thy ===== *)
theory IDR_Json
  imports IDR_Prelude
begin

text \<open>
  The JSON profile of the production wire boundary (\<open>production.rs\<close>): the resource limits on
  untrusted payloads and the canonical encoder whose bytes are hashed and signed. The limits
  are shown equivalent to a structural specification, and the encoder is shown injective on
  the values it accepts, which is what makes a signature or a digest bind a value.

  A \<open>serde_json::Value\<close> object is a \<open>BTreeMap\<close>: the list of its entries in key order.
\<close>

section \<open>Values\<close>

datatype jnum = IntNum int | FloatNum u64

datatype json =
    JNull
  | JBool bool
  | JNum jnum
  | JStr string
  | JArr "json list"
  | JObj "(string \<times> json) list"

datatype ProductionProtocolErrorV1 =
    UnsupportedWireVersion
  | UnsupportedCriticalFeature
  | InvalidCandidate
  | InvalidProof
  | InvalidKey
  | InvalidTrustRoot
  | ProofVerificationFailed
  | CanonicalEncoding
  | NonIntegralNumber
  | UnsafeInteger

text \<open>
  The third-party crates the program calls (\<open>sha2\<close>, \<open>serde_json\<close>'s string escaping
  and its decimals of a 64-bit float, \<open>uuid\<close>, \<open>ed25519_dalek\<close>) are one record of functions, an argument of every definition
  that uses one of them.
\<close>

record crates =
  x_sha256_hex :: "bytes \<Rightarrow> string"
  x_json_to_string :: "string \<Rightarrow> string option"
  x_f64_to_string :: "u64 \<Rightarrow> string"
  x_uuid_display :: "uuid \<Rightarrow> string"
  x_uuid_parse :: "string \<Rightarrow> uuid option"
  x_uuid_is_rfc4122 :: "uuid \<Rightarrow> bool"
  x_uuid_version_num :: "uuid \<Rightarrow> nat"
  x_verifying_key_ok :: "u8 list \<Rightarrow> bool"
  x_ed25519_verify :: "u8 list \<Rightarrow> bytes \<Rightarrow> u8 list \<Rightarrow> bool"

text \<open>A JSON object built by inserting fields one after the other.\<close>

definition json_object :: "(string \<times> json) list \<Rightarrow> json" where
  "json_object kvs = JObj (foldl (\<lambda>m (k, v). bt_insert k v m) [] kvs)"

definition jint :: "int \<Rightarrow> json" where
  "jint i = JNum (IntNum i)"

definition ju64 :: "u64 \<Rightarrow> json" where
  "ju64 w = JNum (IntNum (uint w))"

fun jopt :: "('a \<Rightarrow> json) \<Rightarrow> 'a option \<Rightarrow> json" where
  "jopt f None = JNull"
| "jopt f (Some x) = f x"

text \<open>\<open>Value::get\<close> on an object, \<open>Value::as_str\<close>.\<close>

fun json_get :: "json \<Rightarrow> string \<Rightarrow> json option" where
  "json_get (JObj kvs) k = bt_get kvs k"
| "json_get _ k = None"

fun json_as_str :: "json \<Rightarrow> string option" where
  "json_as_str (JStr s) = Some s"
| "json_as_str _ = None"

fun json_as_array :: "json \<Rightarrow> json list option" where
  "json_as_array (JArr vs) = Some vs"
| "json_as_array _ = None"

fun json_as_object :: "json \<Rightarrow> (string \<times> json) list option" where
  "json_as_object (JObj kvs) = Some kvs"
| "json_as_object _ = None"

fun json_as_u64 :: "json \<Rightarrow> u64 option" where
  "json_as_u64 (JNum (IntNum i)) = (if 0 \<le> i \<and> i < 2 ^ 64 then Some (word_of_int i) else None)"
| "json_as_u64 _ = None"

fun json_as_bool :: "json \<Rightarrow> bool option" where
  "json_as_bool (JBool b) = Some b"
| "json_as_bool _ = None"

text \<open>Objects are ordered maps at every depth.\<close>

fun json_wf :: "json \<Rightarrow> bool" where
  "json_wf (JArr vs) = (\<forall>v \<in> set vs. json_wf v)"
| "json_wf (JObj kvs) = (bt_wf kvs \<and> (\<forall>kv \<in> set kvs. json_wf (snd kv)))"
| "json_wf _ = True"

section \<open>Numbers\<close>

definition IDR_MAX_SAFE_WIRE_INTEGER_V1 :: int where
  "IDR_MAX_SAFE_WIRE_INTEGER_V1 = 9007199254740991"

fun number_as_i64 :: "jnum \<Rightarrow> int option" where
  "number_as_i64 (IntNum i) = (if - (2 ^ 63) \<le> i \<and> i < 2 ^ 63 then Some i else None)"
| "number_as_i64 (FloatNum _) = None"

fun number_as_u64 :: "jnum \<Rightarrow> int option" where
  "number_as_u64 (IntNum i) = (if 0 \<le> i \<and> i < 2 ^ 64 then Some i else None)"
| "number_as_u64 (FloatNum _) = None"

definition validate_canonical_number :: "jnum \<Rightarrow> (ProductionProtocolErrorV1, unit) result" where
  "validate_canonical_number number =
     (case number_as_i64 number of
        Some i \<Rightarrow>
          if \<not> (- IDR_MAX_SAFE_WIRE_INTEGER_V1 \<le> i \<and> i \<le> IDR_MAX_SAFE_WIRE_INTEGER_V1)
          then Err UnsafeInteger else Ok ()
      | None \<Rightarrow>
          (case number_as_u64 number of
             Some i \<Rightarrow> if i > IDR_MAX_SAFE_WIRE_INTEGER_V1 then Err UnsafeInteger else Ok ()
           | None \<Rightarrow> Err NonIntegralNumber))"

lemma validate_canonical_number_Ok:
  "validate_canonical_number n = Ok () \<longleftrightarrow>
     (\<exists>i. n = IntNum i \<and> \<bar>i\<bar> \<le> IDR_MAX_SAFE_WIRE_INTEGER_V1)"
  by (cases n) (auto simp: validate_canonical_number_def IDR_MAX_SAFE_WIRE_INTEGER_V1_def)

section \<open>Resource limits\<close>

text \<open>
  The work stack of \<open>validate_json_limits\<close>, its top at the head of the list: the source pushes
  the children in order and pops from the end of the vector.
\<close>

definition push_children :: "nat \<Rightarrow> json list \<Rightarrow> (json \<times> nat) list \<Rightarrow> (json \<times> nat) list" where
  "push_children d vs stack = rev (map (\<lambda>v. (v, d)) vs) @ stack"

definition stack_size :: "(json \<times> nat) list \<Rightarrow> nat" where
  "stack_size stack = sum_list (map (\<lambda>vd. Suc (size (fst vd))) stack)"

lemma stack_size_push [simp]:
  "stack_size (push_children d vs stack) = sum_list (map (\<lambda>v. Suc (size v)) vs) + stack_size stack"
  by (simp add: stack_size_def push_children_def rev_map [symmetric] sum_list_rev o_def)

lemma sum_size_list: "sum_list (map (\<lambda>v. Suc (size v)) vs) = size_list size vs"
  by (induction vs) auto

lemma sum_size_values:
  "sum_list (map ((\<lambda>v. Suc (size v)) \<circ> snd) kvs) \<le> size_list (size_prod (\<lambda>x. 0) size) kvs"
  by (induction kvs) (auto simp del: size_prod_simp split: prod.splits)

function json_limits_loop ::
  "(json \<times> nat) list \<Rightarrow> nat \<Rightarrow> (ProductionProtocolErrorV1, unit) result" where
  "json_limits_loop [] nodes = Ok ()"
| "json_limits_loop ((v, depth) # stack) nodes =
     (let nodes = nodes + 1 in
      if depth > 32 \<or> nodes > 10000 then Err InvalidCandidate
      else (case v of
              JArr vs \<Rightarrow> json_limits_loop (push_children (depth + 1) vs stack) nodes
            | JObj kvs \<Rightarrow> json_limits_loop (push_children (depth + 1) (map snd kvs) stack) nodes
            | JNum n \<Rightarrow> and_then (validate_canonical_number n) (\<lambda>_. json_limits_loop stack nodes)
            | _ \<Rightarrow> json_limits_loop stack nodes))"
  by pat_completeness auto
termination
  apply (relation "measure (\<lambda>(stack, nodes). stack_size stack)")
  apply (simp_all add: stack_size_def [of "(_, _) # _"] stack_size_def [symmetric] sum_size_list
      le_imp_less_Suc le_SucI sum_size_values)
  done

definition validate_json_limits :: "json \<Rightarrow> (ProductionProtocolErrorV1, unit) result" where
  "validate_json_limits v = json_limits_loop [(v, 1)] 0"

text \<open>The structural specification of the limits.\<close>

fun json_nodes :: "json \<Rightarrow> nat" where
  "json_nodes (JArr vs) = Suc (sum_list (map json_nodes vs))"
| "json_nodes (JObj kvs) = Suc (sum_list (map (\<lambda>kv. json_nodes (snd kv)) kvs))"
| "json_nodes _ = 1"

fun json_depth :: "json \<Rightarrow> nat" where
  "json_depth (JArr vs) = Suc (fold max (map json_depth vs) 0)"
| "json_depth (JObj kvs) = Suc (fold max (map (\<lambda>kv. json_depth (snd kv)) kvs) 0)"
| "json_depth _ = 1"

fun json_numbers_ok :: "json \<Rightarrow> bool" where
  "json_numbers_ok (JArr vs) = (\<forall>v \<in> set vs. json_numbers_ok v)"
| "json_numbers_ok (JObj kvs) = (\<forall>kv \<in> set kvs. json_numbers_ok (snd kv))"
| "json_numbers_ok (JNum n) = (validate_canonical_number n = Ok ())"
| "json_numbers_ok _ = True"

definition within_limits :: "nat \<Rightarrow> (json \<times> nat) list \<Rightarrow> bool" where
  "within_limits nodes stack \<longleftrightarrow>
     nodes + sum_list (map (\<lambda>vd. json_nodes (fst vd)) stack) \<le> 10000 \<and>
     (\<forall>vd \<in> set stack. snd vd + json_depth (fst vd) \<le> 33 \<and> json_numbers_ok (fst vd))"

lemma fold_max_le: "fold max ds (m :: nat) \<le> b \<longleftrightarrow> m \<le> b \<and> (\<forall>d \<in> set ds. d \<le> b)"
  by (induction ds arbitrary: m) auto

lemma fold_max_add_le:
  "d + fold max ds (0 :: nat) \<le> b \<longleftrightarrow> d \<le> b \<and> (\<forall>e \<in> set ds. d + e \<le> b)"
  using fold_max_le [of ds 0 "b - d"] by (cases "d \<le> b") (auto simp: le_diff_conv2 add.commute)

lemma json_depth_pos: "0 < json_depth v"
  by (cases v) auto

lemma json_nodes_pos: "0 < json_nodes v"
  by (cases v) auto

lemma sum_nodes_rev:
  "sum_list (map (\<lambda>vd. json_nodes (fst vd)) (push_children d vs stack)) =
     sum_list (map json_nodes vs) + sum_list (map (\<lambda>vd. json_nodes (fst vd)) stack)"
  by (simp add: push_children_def rev_map [symmetric] sum_list_rev o_def)

lemma within_limits_push:
  "within_limits nodes (push_children d vs stack) \<longleftrightarrow>
     within_limits (nodes + sum_list (map json_nodes vs)) stack \<and>
     (\<forall>v \<in> set vs. d + json_depth v \<le> 33 \<and> json_numbers_ok v)"
  unfolding within_limits_def sum_nodes_rev by (auto simp: push_children_def ball_Un)

lemma within_limits_Cons:
  "within_limits nodes ((v, d) # stack) \<longleftrightarrow>
     within_limits (nodes + json_nodes v) stack \<and> d + json_depth v \<le> 33 \<and> json_numbers_ok v"
  by (auto simp: within_limits_def add.assoc)

lemma within_limits_nodes: "within_limits nodes stack \<Longrightarrow> nodes \<le> 10000"
  by (simp add: within_limits_def)

lemma json_limits_loop_spec:
  "nodes \<le> 10000 \<Longrightarrow> json_limits_loop stack nodes = Ok () \<longleftrightarrow> within_limits nodes stack"
proof (induction stack nodes rule: json_limits_loop.induct)
  case (1 nodes)
  then show ?case by (simp add: within_limits_def)
next
  case (2 v depth stack nodes)
  show ?case
  proof (cases "depth > 32 \<or> nodes + 1 > 10000")
    case True
    then show ?thesis
      using json_nodes_pos [of v] json_depth_pos [of v]
      by (auto simp: within_limits_Cons dest: within_limits_nodes)
  next
    case False
    then show ?thesis
      using 2 by (cases v)
        (auto simp: within_limits_push within_limits_Cons fold_max_add_le and_then_eq_Ok o_def
          add.commute add.left_commute)
  qed
qed

text \<open>
  \<open>json_limits_spec\<close>: the stack loop accepts exactly the values of depth at most 32 with at most
  10000 nodes whose numbers are all safe integers.
\<close>

lemma json_limits_spec:
  "validate_json_limits v = Ok () \<longleftrightarrow>
     json_depth v \<le> 32 \<and> json_nodes v \<le> 10000 \<and> json_numbers_ok v"
  unfolding validate_json_limits_def
  by (subst json_limits_loop_spec) (auto simp: within_limits_def)

section \<open>The canonical encoder\<close>

text \<open>\<open>str::encode_utf16\<close> on the UTF-8 bytes of a string.\<close>

fun utf16_units :: "string \<Rightarrow> nat list" where
  "utf16_units [] = []"
| "utf16_units (a # r) =
     (let n = (of_char a :: nat) in
      if n < 0x80 then n # utf16_units r
      else case r of [] \<Rightarrow> [n] | b # r2 \<Rightarrow>
        if n < 0xE0 then ((n mod 32) * 64 + of_char b mod 64) # utf16_units r2
        else case r2 of [] \<Rightarrow> [n] | c # r3 \<Rightarrow>
          if n < 0xF0
          then ((n mod 16) * 4096 + (of_char b mod 64) * 64 + of_char c mod 64) # utf16_units r3
          else case r3 of [] \<Rightarrow> [n] | d # r4 \<Rightarrow>
            (let cp = (n mod 8) * 262144 + (of_char b mod 64) * 4096 + (of_char c mod 64) * 64
                        + of_char d mod 64 - 0x10000
             in (0xD800 + cp div 1024) # (0xDC00 + cp mod 1024) # utf16_units r4))"

text \<open>Decimal rendering of integers (\<open>Number::to_string\<close>).\<close>

definition digit_char :: "nat \<Rightarrow> char" where
  "digit_char d = char_of (48 + d)"

fun show_nat :: "nat \<Rightarrow> string" where
  "show_nat n = (if n < 10 then [digit_char n] else show_nat (n div 10) @ [digit_char (n mod 10)])"

declare show_nat.simps [simp del]

definition show_int :: "int \<Rightarrow> string" where
  "show_int i = (if i < 0 then CHR ''-'' # show_nat (nat (- i)) else show_nat (nat i))"

fun number_to_string :: "jnum \<Rightarrow> string" where
  "number_to_string (IntNum i) = show_int i"
| "number_to_string (FloatNum w) = []"

fun join_comma :: "string list \<Rightarrow> string" where
  "join_comma [] = []"
| "join_comma (x # xs) = x @ concat (map (\<lambda>y. CHR '','' # y) xs)"

definition write_string :: "crates \<Rightarrow> string \<Rightarrow> (ProductionProtocolErrorV1, bytes) result" where
  "write_string X s = ok_or (x_json_to_string X s) CanonicalEncoding"

text \<open>
  \<open>write_canonical_value\<close>. The bytes a call appends to \<open>output\<close> are its result; on an error the
  partially filled buffer is dropped by \<open>canonical_json_bytes_v1\<close>. A float never reaches
  \<open>to_string\<close>: \<open>validate_canonical_number\<close> rejects it.
\<close>

function write_canonical_value :: "crates \<Rightarrow> json \<Rightarrow> (ProductionProtocolErrorV1, bytes) result" where
  "write_canonical_value X JNull = Ok ''null''"
| "write_canonical_value X (JBool b) = Ok (if b then ''true'' else ''false'')"
| "write_canonical_value X (JNum n) =
     and_then (validate_canonical_number n) (\<lambda>_. Ok (number_to_string n))"
| "write_canonical_value X (JStr s) = write_string X s"
| "write_canonical_value X (JArr vs) =
     and_then (collect_results (write_canonical_value X) vs) (\<lambda>os.
     Ok (''['' @ join_comma os @ '']''))"
| "write_canonical_value X (JObj kvs) =
     and_then (collect_results
         (\<lambda>kv. and_then (write_string X (fst kv)) (\<lambda>ko.
                and_then (write_canonical_value X (snd kv)) (\<lambda>vo. Ok (ko @ '':'' @ vo))))
         (sort_key (\<lambda>kv. utf16_units (fst kv)) kvs)) (\<lambda>os.
     Ok (''{'' @ join_comma os @ ''}''))"
  by pat_completeness auto
termination
proof (relation "measure (\<lambda>(X, v). size v)", goal_cases)
  case (3 X kvs kv ko)
  then have "kv \<in> set kvs" by simp
  then have "size_prod (\<lambda>x. 0) size kv \<le> size_list (size_prod (\<lambda>x. 0) size) kvs"
    by (rule size_list_estimation') simp
  then show ?case by (cases kv) simp
qed (auto simp: less_Suc_eq_le intro: size_list_estimation')

definition canonical_json_bytes_v1 :: "crates \<Rightarrow> json \<Rightarrow> (ProductionProtocolErrorV1, bytes) result" where
  "canonical_json_bytes_v1 X v = write_canonical_value X v"

definition canonical_digest_v1 ::
  "crates \<Rightarrow> string \<Rightarrow> json \<Rightarrow> (ProductionProtocolErrorV1, string) result" where
  "canonical_digest_v1 X domain v =
     and_then (canonical_json_bytes_v1 X (JArr [JStr domain, v])) (\<lambda>bytes.
     Ok (x_sha256_hex X bytes))"

section \<open>Injectivity of the encoder\<close>

definition is_digit :: "char \<Rightarrow> bool" where
  "is_digit c \<longleftrightarrow> (48 :: nat) \<le> of_char c \<and> (of_char c :: nat) \<le> 57"

text \<open>What may follow an encoded value: the end, or a byte that does not continue a number.\<close>

definition delim :: "string \<Rightarrow> bool" where
  "delim r \<longleftrightarrow> (case r of [] \<Rightarrow> True | c # _ \<Rightarrow> \<not> is_digit c)"

lemma of_digit_char: "d < 10 \<Longrightarrow> (of_char (digit_char d) :: nat) = 48 + d"
  by (simp add: digit_char_def)

lemma is_digit_digit_char: "d < 10 \<Longrightarrow> is_digit (digit_char d)"
  by (simp add: is_digit_def of_digit_char)

lemma show_nat_digits: "list_all is_digit (show_nat n) \<and> show_nat n \<noteq> []"
proof (induction n rule: show_nat.induct)
  case (1 n)
  then show ?case
    by (subst (1 2) show_nat.simps) (auto simp: is_digit_digit_char)
qed

definition read_nat :: "string \<Rightarrow> nat" where
  "read_nat s = foldl (\<lambda>a c. 10 * a + (of_char c - 48)) 0 s"

lemma read_show_nat: "read_nat (show_nat n) = n"
proof (induction n rule: show_nat.induct)
  case (1 n)
  then show ?case
    by (subst show_nat.simps) (auto simp: read_nat_def of_digit_char)
qed

lemma takeWhile_digits:
  "list_all is_digit ds \<Longrightarrow> delim r \<Longrightarrow> takeWhile is_digit (ds @ r) = ds"
  by (auto simp: delim_def list_all_iff takeWhile_append split: list.splits)

lemma show_nat_unique:
  assumes "show_nat m @ r = show_nat n @ s" "delim r" "delim s"
  shows "m = n \<and> r = s"
proof -
  have "show_nat m = show_nat n"
    using assms takeWhile_digits show_nat_digits by metis
  then show ?thesis using assms read_show_nat by (metis same_append_eq)
qed

lemma show_nat_not_minus: "show_nat n @ r \<noteq> CHR ''-'' # s"
proof -
  obtain c t where "show_nat n = c # t" "is_digit c"
    using show_nat_digits [of n] by (cases "show_nat n") auto
  then show ?thesis by (auto simp: is_digit_def)
qed

lemma show_int_unique:
  assumes eq: "show_int i @ r = show_int j @ s" and d: "delim r" "delim s"
  shows "i = j \<and> r = s"
proof (cases "i < 0")
  case True
  show ?thesis
  proof (cases "j < 0")
    case True
    with \<open>i < 0\<close> eq have "show_nat (nat (- i)) @ r = show_nat (nat (- j)) @ s"
      by (simp add: show_int_def)
    from show_nat_unique [OF this d] True \<open>i < 0\<close> show ?thesis by auto
  next
    case False
    with \<open>i < 0\<close> eq show ?thesis by (metis append_Cons show_int_def show_nat_not_minus)
  qed
next
  case False
  show ?thesis
  proof (cases "j < 0")
    case True
    with False eq show ?thesis by (metis append_Cons show_int_def show_nat_not_minus)
  next
    case False
    with \<open>\<not> i < 0\<close> eq have "show_nat (nat i) @ r = show_nat (nat j) @ s"
      by (simp add: show_int_def)
    from show_nat_unique [OF this d] False \<open>\<not> i < 0\<close> show ?thesis by auto
  qed
qed

text \<open>
  What the encoder relies on of \<open>serde_json::to_string\<close> on a string: it returns a JSON string
  literal, which starts with a quotation mark and which a reader can split from what follows.
\<close>

definition json_strings_delimited :: "crates \<Rightarrow> bool" where
  "json_strings_delimited X \<longleftrightarrow>
     (\<forall>s. \<exists>t. x_json_to_string X s = Some (CHR 0x22 # t)) \<and>
     (\<forall>s s' t t' r r'. x_json_to_string X s = Some t \<longrightarrow> x_json_to_string X s' = Some t' \<longrightarrow>
        t @ r = t' @ r' \<longrightarrow> s = s' \<and> r = r')"

lemma write_string_unique:
  assumes "json_strings_delimited X" "write_string X s = Ok o1" "write_string X s' = Ok o2"
    "o1 @ r = o2 @ r'"
  shows "s = s' \<and> r = r'"
  using assms unfolding json_strings_delimited_def write_string_def ok_or_eq_Ok by blast

lemma write_string_total: "json_strings_delimited X \<Longrightarrow> \<exists>t. write_string X s = Ok (CHR 0x22 # t)"
  unfolding json_strings_delimited_def write_string_def by (metis ok_or.simps(2))

text \<open>The first byte of an encoding tells the constructor.\<close>

fun first_byte :: "json \<Rightarrow> char \<Rightarrow> bool" where
  "first_byte JNull c = (c = CHR ''n'')"
| "first_byte (JBool b) c = (c = (if b then CHR ''t'' else CHR ''f''))"
| "first_byte (JNum n) c = (c = CHR ''-'' \<or> is_digit c)"
| "first_byte (JStr s) c = (c = CHR 0x22)"
| "first_byte (JArr vs) c = (c = CHR ''['')"
| "first_byte (JObj kvs) c = (c = CHR ''{'')"

lemma write_first_byte:
  assumes "json_strings_delimited X" "write_canonical_value X v = Ok o1"
  shows "\<exists>c t. o1 = c # t \<and> first_byte v c"
proof (cases v)
  case (JNum n)
  with assms(2) obtain i where i: "n = IntNum i"
    by (auto simp: and_then_eq_Ok validate_canonical_number_Ok)
  have "\<exists>c t. show_nat k = c # t \<and> is_digit c" for k
    using show_nat_digits [of k] by (cases "show_nat k") auto
  then obtain c t where "show_nat (nat i) = c # t" "is_digit c" by blast
  with JNum assms(2) i show ?thesis by (auto simp: and_then_eq_Ok show_int_def)
next
  case (JStr s)
  with assms write_string_total [OF assms(1), of s] show ?thesis by auto
qed (use assms(2) in \<open>auto simp: and_then_eq_Ok split: if_splits\<close>)

text \<open>Comma-separated sequences of uniquely readable items, up to the closing bracket.\<close>

lemma delim_simps [simp]:
  "delim []" "delim (CHR '','' # r)" "delim (CHR '']'' # r)" "delim (CHR ''}'' # r)"
  by (simp_all add: delim_def is_digit_def)

definition uniquely_readable :: "('a \<Rightarrow> ('e, string) result) \<Rightarrow> 'a \<Rightarrow> 'a \<Rightarrow> bool" where
  "uniquely_readable enc x y \<longleftrightarrow>
     (\<forall>o1 o2 r s. enc x = Ok o1 \<longrightarrow> enc y = Ok o2 \<longrightarrow> o1 @ r = o2 @ s \<longrightarrow> delim r \<longrightarrow> delim s
        \<longrightarrow> x = y \<and> r = s)"

lemma uniquely_readableD:
  "uniquely_readable enc x y \<Longrightarrow> enc x = Ok o1 \<Longrightarrow> enc y = Ok o2 \<Longrightarrow> o1 @ r = o2 @ s \<Longrightarrow> delim r \<Longrightarrow>
     delim s \<Longrightarrow> x = y \<and> r = s"
  unfolding uniquely_readable_def by blast

lemma comma_tail_unique:
  assumes "collect_results enc xs = Ok os" "collect_results enc ys = Ok ps"
    and "\<And>x y. x \<in> set xs \<Longrightarrow> y \<in> set ys \<Longrightarrow> uniquely_readable enc x y"
    and "concat (map (\<lambda>z. CHR '','' # z) os) @ c # r = concat (map (\<lambda>z. CHR '','' # z) ps) @ c # s"
    and c: "c = CHR '']'' \<or> c = CHR ''}''"
  shows "xs = ys \<and> r = s"
  using assms(1-4)
proof (induction xs arbitrary: os ys ps)
  case Nil
  with c show ?case by (cases ys) (auto simp: and_then_eq_Ok)
next
  case (Cons x xs)
  then obtain o1 os' where o1: "enc x = Ok o1" "collect_results enc xs = Ok os'" "os = o1 # os'"
    by (auto simp: and_then_eq_Ok)
  with Cons.prems c obtain y ys' o2 ps' where o2: "ys = y # ys'" "enc y = Ok o2"
    "collect_results enc ys' = Ok ps'" "ps = o2 # ps'"
    by (cases ys) (auto simp: and_then_eq_Ok)
  have dl: "delim (concat (map (\<lambda>z. CHR '','' # z) zs) @ c # t)" for zs t
    using c by (cases zs) auto
  have "uniquely_readable enc x y" using Cons.prems(3) o2 by simp
  from uniquely_readableD [OF this o1(1) o2(2) _ dl dl] Cons.prems(4) o1 o2
  have eq: "x = y" "concat (map (\<lambda>z. CHR '','' # z) os') @ c # r =
      concat (map (\<lambda>z. CHR '','' # z) ps') @ c # s" by auto
  from Cons.IH [OF o1(2) o2(3) _ eq(2)] Cons.prems(3) o2 eq(1) show ?case by simp
qed

lemma join_comma_unique:
  assumes "collect_results enc xs = Ok os" "collect_results enc ys = Ok ps"
    and "\<And>x y. x \<in> set xs \<Longrightarrow> y \<in> set ys \<Longrightarrow> uniquely_readable enc x y"
    and "\<And>x o1. enc x = Ok o1 \<Longrightarrow> \<exists>d t. o1 = d # t \<and> d \<noteq> CHR '']'' \<and> d \<noteq> CHR ''}''"
    and "join_comma os @ c # r = join_comma ps @ c # s"
    and c: "c = CHR '']'' \<or> c = CHR ''}''"
  shows "xs = ys \<and> r = s"
proof (cases xs)
  case Nil
  with assms show ?thesis by (cases ys) (fastforce simp: and_then_eq_Ok)+
next
  case (Cons x xs')
  show ?thesis
  proof (cases ys)
    case Nil
    with Cons assms show ?thesis by (fastforce simp: and_then_eq_Ok)
  next
    case (Cons y ys')
    with \<open>xs = x # xs'\<close> have "collect_results enc xs = Ok os" "collect_results enc ys = Ok ps"
      "os \<noteq> []" "ps \<noteq> []" using assms(1,2) by (auto simp: and_then_eq_Ok)
    then have "concat (map (\<lambda>z. CHR '','' # z) os) @ c # r = concat (map (\<lambda>z. CHR '','' # z) ps) @ c # s"
      using assms(5) by (cases os; cases ps) auto
    from comma_tail_unique [OF assms(1-3) this c] show ?thesis .
  qed
qed

lemma bt_wf_set_unique: "bt_wf m \<Longrightarrow> bt_wf m' \<Longrightarrow> set m = set m' \<Longrightarrow> m = m'"
proof (induction m arbitrary: m')
  case (Cons a m)
  then obtain b n where m': "m' = b # n" by (cases m') auto
  have lt: "fst a < fst x" if "x \<in> set m" for x using that Cons.prems(1) by (auto simp: bt_wf_def)
  moreover have lt': "fst b < fst x" if "x \<in> set n" for x using that Cons.prems(2) m' by (auto simp: bt_wf_def)
  moreover have "a = b \<or> a \<in> set n" "a = b \<or> b \<in> set m" using Cons.prems(3) m' by auto
  ultimately have "a = b" using less_asym by blast
  moreover have "a \<notin> set m" "b \<notin> set n"
    using lt lt' by blast+
  ultimately have "set m = set n" using Cons.prems(3) m' by auto
  moreover have "bt_wf m" "bt_wf n" using Cons.prems m' by (auto simp: bt_wf_def)
  ultimately have "m = n" by (intro Cons.IH)
  with m' \<open>a = b\<close> show ?case by simp
qed simp

lemma sort_key_bt_unique:
  "bt_wf m \<Longrightarrow> bt_wf m' \<Longrightarrow> sort_key f m = sort_key f m' \<Longrightarrow> m = m'"
  by (metis bt_wf_set_unique set_sort)

text \<open>An object's entry, as the encoder writes it.\<close>

definition write_entry :: "crates \<Rightarrow> string \<times> json \<Rightarrow> (ProductionProtocolErrorV1, bytes) result" where
  "write_entry X kv =
     and_then (write_string X (fst kv)) (\<lambda>ko.
     and_then (write_canonical_value X (snd kv)) (\<lambda>vo. Ok (ko @ '':'' @ vo)))"

lemma write_entry_eq_Ok:
  "write_entry X kv = Ok u \<longleftrightarrow> (\<exists>ko vo. write_string X (fst kv) = Ok ko \<and>
     write_canonical_value X (snd kv) = Ok vo \<and> u = ko @ '':'' @ vo)"
  by (auto simp: write_entry_def and_then_eq_Ok)

lemma write_canonical_object:
  "write_canonical_value X (JObj kvs) =
     and_then (collect_results (write_entry X) (sort_key (\<lambda>kv. utf16_units (fst kv)) kvs)) (\<lambda>os.
     Ok (''{'' @ join_comma os @ ''}''))"
  unfolding write_canonical_value.simps write_entry_def ..

lemma write_entry_unique:
  assumes X: "json_strings_delimited X"
    and v: "uniquely_readable (write_canonical_value X) (snd kv) (snd kw)"
  shows "uniquely_readable (write_entry X) kv kw"
proof -
  have "kv = kw \<and> r = s" if enc: "write_entry X kv = Ok o1" "write_entry X kw = Ok o2"
    and eq: "o1 @ r = o2 @ s" and d: "delim r" "delim s" for o1 o2 r s
  proof -
    from enc obtain ka va kb vb where a: "write_string X (fst kv) = Ok ka"
        "write_canonical_value X (snd kv) = Ok va" "o1 = ka @ '':'' @ va"
      and b: "write_string X (fst kw) = Ok kb"
        "write_canonical_value X (snd kw) = Ok vb" "o2 = kb @ '':'' @ vb"
      by (auto simp: write_entry_eq_Ok)
    from eq a(3) b(3) have "ka @ ('':'' @ va @ r) = kb @ ('':'' @ vb @ s)" by simp
    from write_string_unique [OF X a(1) b(1) this]
    have k: "fst kv = fst kw" and "va @ r = vb @ s" by auto
    from uniquely_readableD [OF v a(2) b(2) this(2) d] k show ?thesis
      by (simp add: prod_eq_iff)
  qed
  then show ?thesis unfolding uniquely_readable_def by blast
qed

lemma write_open_bracket:
  assumes X: "json_strings_delimited X"
    and v: "write_canonical_value X v = Ok o1" and w: "write_canonical_value X w = Ok o2"
    and eq: "o1 @ r = o2 @ s"
  shows "\<exists>c. first_byte v c \<and> first_byte w c"
  using write_first_byte [OF X v] write_first_byte [OF X w] eq by auto

lemma write_array_cases:
  "first_byte w (CHR ''['') \<Longrightarrow> \<exists>ws. w = JArr ws" "first_byte w (CHR ''{'') \<Longrightarrow> \<exists>ws. w = JObj ws"
  by (cases w; simp add: is_digit_def split: if_splits)+

lemma write_item_start:
  assumes "json_strings_delimited X" "write_canonical_value X v = Ok o1"
  shows "\<exists>d t. o1 = d # t \<and> d \<noteq> CHR '']'' \<and> d \<noteq> CHR ''}''"
  using write_first_byte [OF assms] by (cases v) (auto simp: is_digit_def)

lemma write_entry_start:
  assumes X: "json_strings_delimited X" and "write_entry X kv = Ok o1"
  shows "\<exists>d t. o1 = d # t \<and> d \<noteq> CHR '']'' \<and> d \<noteq> CHR ''}''"
  using assms(2) write_string_total [OF X, of "fst kv"] by (auto simp: write_entry_eq_Ok)

lemma write_array_unique:
  assumes X: "json_strings_delimited X"
    and IH: "\<And>v w. v \<in> set vs \<Longrightarrow> w \<in> set ws \<Longrightarrow> uniquely_readable (write_canonical_value X) v w"
    and enc: "write_canonical_value X (JArr vs) = Ok o1" "write_canonical_value X (JArr ws) = Ok o2"
    and eq: "o1 @ r = o2 @ s"
  shows "vs = ws \<and> r = s"
proof -
  from enc obtain os ps where o: "collect_results (write_canonical_value X) vs = Ok os"
      "o1 = ''['' @ join_comma os @ '']''"
    and p: "collect_results (write_canonical_value X) ws = Ok ps"
      "o2 = ''['' @ join_comma ps @ '']''" by (auto simp: and_then_eq_Ok)
  from eq o(2) p(2) have "join_comma os @ CHR '']'' # r = join_comma ps @ CHR '']'' # s" by simp
  from join_comma_unique [OF o(1) p(1) IH write_item_start [OF X] this] show ?thesis by simp
qed

lemma write_object_unique:
  assumes X: "json_strings_delimited X"
    and IH: "\<And>kv kw. kv \<in> set kvs \<Longrightarrow> kw \<in> set kws \<Longrightarrow>
      uniquely_readable (write_canonical_value X) (snd kv) (snd kw)"
    and wf: "bt_wf kvs" "bt_wf kws"
    and enc: "write_canonical_value X (JObj kvs) = Ok o1" "write_canonical_value X (JObj kws) = Ok o2"
    and eq: "o1 @ r = o2 @ s"
  shows "kvs = kws \<and> r = s"
proof -
  let ?sort = "sort_key (\<lambda>kv. utf16_units (fst kv)) :: (string \<times> json) list \<Rightarrow> _"
  from enc obtain os ps where o: "collect_results (write_entry X) (?sort kvs) = Ok os"
      "o1 = ''{'' @ join_comma os @ ''}''"
    and p: "collect_results (write_entry X) (?sort kws) = Ok ps"
      "o2 = ''{'' @ join_comma ps @ ''}''"
    unfolding write_canonical_object by (auto simp: and_then_eq_Ok)
  from eq o(2) p(2) have j: "join_comma os @ CHR ''}'' # r = join_comma ps @ CHR ''}'' # s" by simp
  have "?sort kvs = ?sort kws \<and> r = s"
    by (rule join_comma_unique [OF o(1) p(1) _ write_entry_start [OF X] j])
      (auto intro!: write_entry_unique [OF X] IH)
  with sort_key_bt_unique [OF wf] show ?thesis by blast
qed

lemma write_canonical_readable:
  assumes X: "json_strings_delimited X"
  shows "json_wf v \<Longrightarrow> json_wf w \<Longrightarrow> uniquely_readable (write_canonical_value X) v w"
proof (induction "size v" arbitrary: v w rule: less_induct)
  case less
  have "v = w \<and> r = s" if enc: "write_canonical_value X v = Ok o1" "write_canonical_value X w = Ok o2"
    and eq: "o1 @ r = o2 @ s" and d: "delim r" "delim s" for o1 o2 r s
  proof -
    from write_open_bracket [OF X enc eq] obtain c where c: "first_byte v c" "first_byte w c" by blast
    show ?thesis
    proof (cases v)
      case (JArr vs)
      with c obtain ws where w: "w = JArr ws" using write_array_cases(1) by auto
      have "vs = ws \<and> r = s"
      proof (rule write_array_unique [OF X _ _ _ eq])
        fix a b assume "a \<in> set vs" "b \<in> set ws"
        moreover have "size a < size v" using \<open>a \<in> set vs\<close> JArr
          by (auto simp: less_Suc_eq_le intro: size_list_estimation')
        ultimately show "uniquely_readable (write_canonical_value X) a b"
          using less JArr w by simp
      qed (use enc JArr w in simp_all)
      with JArr w show ?thesis by simp
    next
      case (JObj kvs)
      with c obtain kws where w: "w = JObj kws" using write_array_cases(2) by auto
      have "kvs = kws \<and> r = s"
      proof (rule write_object_unique [OF X _ _ _ _ _ eq])
        fix kv kw assume kv: "kv \<in> set kvs" "kw \<in> set kws"
        have "size_prod (\<lambda>x. 0) size kv \<le> size_list (size_prod (\<lambda>x. 0) size) kvs"
          using kv(1) by (rule size_list_estimation') simp
        then have "size (snd kv) < size v" using JObj by (cases kv) simp
        with kv less JObj w show "uniquely_readable (write_canonical_value X) (snd kv) (snd kw)"
          by simp
      qed (use enc JObj w less.prems in simp_all)
      with JObj w show ?thesis by simp
    next
      case (JStr a)
      with c obtain b where "w = JStr b"
        by (cases w) (auto simp: is_digit_def split: if_splits)
      with JStr enc eq write_string_unique [OF X, of a o1 b o2 r s] show ?thesis by simp
    next
      case (JNum m)
      with c obtain n where "w = JNum n" by (cases w) (auto simp: is_digit_def split: if_splits)
      with JNum enc obtain i j where "v = JNum (IntNum i)" "w = JNum (IntNum j)"
        "o1 = show_int i" "o2 = show_int j"
        by (auto simp: and_then_eq_Ok validate_canonical_number_Ok)
      with eq d show_int_unique [of i r j s] show ?thesis by simp
    qed (use enc eq c in \<open>cases w; auto simp: is_digit_def split: if_splits\<close>)+
  qed
  then show ?case unfolding uniquely_readable_def by blast
qed

text \<open>The encoder fails only on a number outside the profile.\<close>

lemma write_canonical_total:
  assumes X: "json_strings_delimited X"
  shows "(\<exists>b. write_canonical_value X v = Ok b) \<longleftrightarrow> json_numbers_ok v"
proof (induction v)
  case (JNum n)
  then show ?case by (auto simp: and_then_eq_Ok)
next
  case (JStr s)
  then show ?case using write_string_total [OF X, of s] by auto
next
  case (JArr vs)
  have "(\<exists>b. write_canonical_value X (JArr vs) = Ok b) \<longleftrightarrow>
      (\<exists>os. collect_results (write_canonical_value X) vs = Ok os)" by (auto simp: and_then_eq_Ok)
  with JArr show ?case by (auto simp: collect_results_Ok_iff)
next
  case (JObj kvs)
  have "(\<exists>b. write_canonical_value X (JObj kvs) = Ok b) \<longleftrightarrow>
      (\<exists>os. collect_results (write_entry X) (sort_key (\<lambda>kv. utf16_units (fst kv)) kvs) = Ok os)"
    unfolding write_canonical_object by (auto simp: and_then_eq_Ok)
  also have "\<dots> \<longleftrightarrow> (\<forall>kv \<in> set kvs. \<exists>u. write_entry X kv = Ok u)" by (simp add: collect_results_Ok_iff)
  also have "\<dots> \<longleftrightarrow> (\<forall>kv \<in> set kvs. \<exists>b. write_canonical_value X (snd kv) = Ok b)"
    using write_string_total [OF X] by (auto simp: write_entry_eq_Ok) (metis snd_conv)+
  finally show ?case using JObj by (auto simp: snds.simps)
qed auto

section \<open>A concrete instance of the crates\<close>

text \<open>
  Concrete functions for the crates' operations, to evaluate the model on: strings are escaped
  as JSON does for the quotation mark and the backslash, the other functions are the simplest
  of their type that meet what is relied on.
\<close>

definition sample_escape_char :: "char \<Rightarrow> string" where
  "sample_escape_char c = (if c = CHR 0x22 \<or> c = CHR 0x5C then [CHR 0x5C, c] else [c])"

definition sample_escape :: "string \<Rightarrow> string" where
  "sample_escape s = CHR 0x22 # concat (map sample_escape_char s) @ [CHR 0x22]"

definition sample_crates :: crates where
  "sample_crates = \<lparr>
     x_sha256_hex = (\<lambda>b. replicate 64 (CHR ''a'')),
     x_json_to_string = (\<lambda>s. Some (sample_escape s)),
     x_f64_to_string = (\<lambda>w. show_nat (unat w) @ ''.0''),
     x_uuid_display = (\<lambda>u. show_nat (unat u)),
     x_uuid_parse = (\<lambda>s. if s \<noteq> [] \<and> list_all is_digit s then Some (of_nat (read_nat s)) else None),
     x_uuid_is_rfc4122 = (\<lambda>u. True),
     x_uuid_version_num = (\<lambda>u. 4),
     x_verifying_key_ok = (\<lambda>k. True),
     x_ed25519_verify = (\<lambda>k m s. True)\<rparr>"

lemma sample_escape_unique:
  "concat (map sample_escape_char s) @ CHR 0x22 # r = concat (map sample_escape_char s') @ CHR 0x22 # r'
     \<Longrightarrow> s = s' \<and> r = r'"
proof (induction s arbitrary: s')
  case Nil
  then show ?case by (cases s') (auto simp: sample_escape_char_def split: if_splits)
next
  case (Cons c s)
  then obtain d t where s': "s' = d # t"
    by (cases s') (auto simp: sample_escape_char_def split: if_splits)
  with Cons.prems have "c = d" "concat (map sample_escape_char s) @ CHR 0x22 # r =
      concat (map sample_escape_char t) @ CHR 0x22 # r'"
    by (auto simp: sample_escape_char_def [of c] sample_escape_char_def [of d] split: if_splits)
  with Cons.IH s' show ?case by blast
qed

lemma sample_strings_delimited: "json_strings_delimited sample_crates"
proof -
  have "s = s' \<and> r = r'" if "sample_escape s @ r = sample_escape s' @ r'" for s s' r r'
    using sample_escape_unique [of s r s' r'] that by (simp add: sample_escape_def)
  moreover have "\<exists>t. sample_escape s = CHR 0x22 # t" for s by (simp add: sample_escape_def)
  ultimately show ?thesis
    unfolding json_strings_delimited_def sample_crates_def crates.simps option.inject by blast
qed

section \<open>Properties\<close>

text \<open>
  C31: the canonical encoder is injective on JSON values: two values (with objects as ordered
  maps) that encode to the same bytes are the same value. The bytes that are signed or hashed
  therefore determine the claims, candidate or command they stand for.
\<close>

theorem canonical_json_injective:
  assumes "json_strings_delimited X" "json_wf v" "json_wf w"
    and "canonical_json_bytes_v1 X v = Ok b" "canonical_json_bytes_v1 X w = Ok b"
  shows "v = w"
  using uniquely_readableD [OF write_canonical_readable [OF assms(1-3)], of b b "[]" "[]"] assms(4,5)
  by (simp add: canonical_json_bytes_v1_def)

theorem canonical_json_injective_witness:
  "canonical_json_bytes_v1 sample_crates (json_object [(''b'', jint 1), (''a'', JArr [JNull])]) =
     Ok ''{\"a\":[null],\"b\":1}'' \<and>
   json_object [(''b'', jint 1), (''a'', JArr [JNull])] = json_object [(''a'', JArr [JNull]), (''b'', jint 1)]"
proof
  let ?v = "json_object [(''b'', jint 1), (''a'', JArr [JNull])]"
  let ?w = "json_object [(''a'', JArr [JNull]), (''b'', jint 1)]"
  let ?b = "''{\"a\":[null],\"b\":1}''"
  show v: "canonical_json_bytes_v1 sample_crates ?v = Ok ?b" by code_simp
  have w: "canonical_json_bytes_v1 sample_crates ?w = Ok ?b" by code_simp
  have wf: "json_wf ?v" "json_wf ?w" by code_simp+
  show "?v = ?w"
    by (rule canonical_json_injective [OF sample_strings_delimited wf v w])
qed

text \<open>
  the iterative limit check over an explicit stack accepts exactly the values of depth at
  most 32, with at most 10000 nodes, whose numbers are all integers of the safe range.
\<close>

theorem validate_json_limits_exact:
  "validate_json_limits v = Ok () \<longleftrightarrow>
     json_depth v \<le> 32 \<and> json_nodes v \<le> 10000 \<and> json_numbers_ok v"
  by (rule json_limits_spec)

text \<open>
  A payload that passes the limit check always has canonical bytes, so a validated candidate
  or assertion can always be hashed and signed.
\<close>

theorem limits_imply_encodable:
  assumes "json_strings_delimited X" and "validate_json_limits v = Ok ()"
  shows "\<exists>b. canonical_json_bytes_v1 X v = Ok b"
  using assms by (simp add: canonical_json_bytes_v1_def write_canonical_total json_limits_spec)

theorem limits_imply_encodable_witness:
  "validate_json_limits (JArr [jint 7, JStr ''x'']) = Ok () \<and>
   (\<exists>b. canonical_json_bytes_v1 sample_crates (JArr [jint 7, JStr ''x'']) = Ok b)"
proof
  show "validate_json_limits (JArr [jint 7, JStr ''x'']) = Ok ()" by code_simp
  then show "\<exists>b. canonical_json_bytes_v1 sample_crates (JArr [jint 7, JStr ''x'']) = Ok b"
    by (rule limits_imply_encodable [OF sample_strings_delimited])
qed

end
