(* ===== verification/IDR_Reference.thy ===== *)
theory IDR_Reference
  imports IDR_Prelude
begin

text \<open>
  The identifiers of the protocol crate (\<open>idr-protocol/src/lib.rs\<close>): validated references and
  the authority context that names who acts for whom. A \<open>ReferenceV1\<close> is a string that
  \<open>ReferenceV1::new\<close> accepted; deserialization goes through the same constructor.
\<close>

type_synonym ReferenceV1 = string

datatype ReferenceValidationErrorV1 = ReferenceValidationErrorV1

definition ReferenceV1_new :: "string \<Rightarrow> (ReferenceValidationErrorV1, ReferenceV1) result" where
  "ReferenceV1_new value =
     (if str_trim value = [] \<or> str_trim value \<noteq> value \<or> length value > 512 \<or> has_control value
      then Err ReferenceValidationErrorV1
      else Ok value)"

definition valid_reference :: "string \<Rightarrow> bool" where
  "valid_reference s \<longleftrightarrow> ReferenceV1_new s = Ok s"

record AuthorityContextV1 =
  ac_subject_ref :: ReferenceV1
  ac_actor_ref :: ReferenceV1
  ac_caller_ref :: ReferenceV1
  ac_tenant_ref :: ReferenceV1
  ac_scope_ref :: ReferenceV1
  ac_purpose_ref :: ReferenceV1
  ac_operation_ref :: ReferenceV1

definition AuthorityContextV1_validate ::
  "AuthorityContextV1 \<Rightarrow> (ReferenceValidationErrorV1, unit) result" where
  "AuthorityContextV1_validate c =
     for_each (\<lambda>reference. and_then (ReferenceV1_new reference) (\<lambda>_. Ok ()))
       [ac_subject_ref c, ac_actor_ref c, ac_caller_ref c, ac_tenant_ref c, ac_scope_ref c,
        ac_purpose_ref c, ac_operation_ref c]"

section \<open>Lemmas\<close>

lemma ReferenceV1_new_Ok [result_simps]:
  "ReferenceV1_new s = Ok r \<longleftrightarrow>
     r = s \<and> s \<noteq> [] \<and> str_trim s = s \<and> length s \<le> 512 \<and> \<not> has_control s"
  by (auto simp: ReferenceV1_new_def)

lemma valid_reference_iff:
  "valid_reference s \<longleftrightarrow> s \<noteq> [] \<and> str_trim s = s \<and> length s \<le> 512 \<and> \<not> has_control s"
  by (auto simp: valid_reference_def ReferenceV1_new_Ok)

text \<open>What a reference never contains at its ends: ASCII white space.\<close>

lemma strip_ws_length: "length (strip_ws p q u) \<le> length u"
proof (induction "length u" arbitrary: u rule: less_induct)
  case less
  have IH: "length v < length u \<Longrightarrow> length v \<le> n \<Longrightarrow> length (strip_ws p q v) \<le> n" for v n
    using less le_trans by blast
  show ?case
  proof (cases u)
    case (Cons a r)
    then show ?thesis
      by (simp only: strip_ws.simps) (auto intro: IH simp del: strip_ws.simps(2) split: list.splits)
  qed simp
qed

lemma valid_reference_hd: "valid_reference (c # s) \<Longrightarrow> \<not> ws1 c"
proof
  assume v: "valid_reference (c # s)" and w: "ws1 c"
  have "length (str_trim (c # s)) \<le> length s"
    using w strip_ws_length [of "\<lambda>b a. ws2 a b" "\<lambda>c b a. ws3 a b c" "rev (strip_ws ws2 ws3 s)"]
      strip_ws_length [of ws2 ws3 s]
    by (simp add: str_trim_def)
  with v show False by (simp add: valid_reference_iff)
qed

lemma AuthorityContextV1_validate_Ok:
  "AuthorityContextV1_validate c = Ok () \<longleftrightarrow>
     (\<forall>r \<in> {ac_subject_ref c, ac_actor_ref c, ac_caller_ref c, ac_tenant_ref c, ac_scope_ref c,
       ac_purpose_ref c, ac_operation_ref c}. valid_reference r)"
  by (auto simp: AuthorityContextV1_validate_def for_each_eq_Ok and_then_eq_Ok valid_reference_def
      ReferenceV1_new_Ok)

end
