(* ===== verification/IDR_Production.thy ===== *)
theory IDR_Production
  imports IDR_Json IDR_Reference "HOL-Library.Multiset"
begin

text \<open>
  The production wire boundary (\<open>idr-protocol/src/production.rs\<close>): candidate submissions, signed
  proof envelopes, issuer keys and trust-root snapshots, with the validation of each and the
  verification of a proof against a snapshot.

  Each struct is a record (field names carry a prefix of the struct), each enum a datatype, and
  \<open><type>_json\<close> is the value its derived \<open>Serialize\<close> produces.
\<close>

section \<open>Constants and enumerations\<close>

definition IDR_WIRE_SCHEMA_VERSION_V1 :: u16 where
  "IDR_WIRE_SCHEMA_VERSION_V1 = 1"

definition IDR_MINIMUM_READER_VERSION_V1 :: u16 where
  "IDR_MINIMUM_READER_VERSION_V1 = 1"

definition IDR_PROOF_ALGORITHM_ED25519_V1 :: string where
  "IDR_PROOF_ALGORITHM_ED25519_V1 = ''ed25519''"

definition IDR_MAX_AUTHORITY_EPOCH_SECONDS_V1 :: u64 where
  "IDR_MAX_AUTHORITY_EPOCH_SECONDS_V1 = 253402300799"

datatype TrustDomainV1 = TD_Shadow | TD_Production

fun TrustDomainV1_name :: "TrustDomainV1 \<Rightarrow> string" where
  "TrustDomainV1_name TD_Shadow = ''shadow''"
| "TrustDomainV1_name TD_Production = ''production''"

definition TrustDomainV1_json :: "TrustDomainV1 \<Rightarrow> json" where
  "TrustDomainV1_json d = JStr (TrustDomainV1_name d)"

datatype ProductionProofKindV1 =
    PK_CallerAuthentication
  | PK_InputAdmission
  | PK_ContextSnapshot
  | PK_IntentFastPathAdmission
  | PK_DecisionNecessityAdmission
  | PK_TurnCoordinationAdmission
  | PK_ResponsePolicy
  | PK_ResponseAdmission
  | PK_Authority
  | PK_Capability
  | PK_Policy
  | PK_ExactAuthorization
  | PK_ActionAdmission
  | PK_ExecutionPermit
  | PK_ProviderReceipt
  | PK_OutcomeObservation
  | PK_HumanModelPromotion
  | PK_HumanModelUserConfirmation
  | PK_HumanModelCorrection

text \<open>The derived \<open>Ord\<close> of the enumerations compares the positions of the constructors.\<close>

fun proof_kind_index :: "ProductionProofKindV1 \<Rightarrow> nat" where
  "proof_kind_index PK_CallerAuthentication = 0"
| "proof_kind_index PK_InputAdmission = 1"
| "proof_kind_index PK_ContextSnapshot = 2"
| "proof_kind_index PK_IntentFastPathAdmission = 3"
| "proof_kind_index PK_DecisionNecessityAdmission = 4"
| "proof_kind_index PK_TurnCoordinationAdmission = 5"
| "proof_kind_index PK_ResponsePolicy = 6"
| "proof_kind_index PK_ResponseAdmission = 7"
| "proof_kind_index PK_Authority = 8"
| "proof_kind_index PK_Capability = 9"
| "proof_kind_index PK_Policy = 10"
| "proof_kind_index PK_ExactAuthorization = 11"
| "proof_kind_index PK_ActionAdmission = 12"
| "proof_kind_index PK_ExecutionPermit = 13"
| "proof_kind_index PK_ProviderReceipt = 14"
| "proof_kind_index PK_OutcomeObservation = 15"
| "proof_kind_index PK_HumanModelPromotion = 16"
| "proof_kind_index PK_HumanModelUserConfirmation = 17"
| "proof_kind_index PK_HumanModelCorrection = 18"

lemma proof_kind_index_inj: "proof_kind_index a = proof_kind_index b \<Longrightarrow> a = b"
  by (cases a; cases b) simp_all

instantiation ProductionProofKindV1 :: linorder
begin

definition less_eq_ProductionProofKindV1 :: "ProductionProofKindV1 \<Rightarrow> ProductionProofKindV1 \<Rightarrow> bool" where
  "less_eq_ProductionProofKindV1 a b \<longleftrightarrow> proof_kind_index a \<le> proof_kind_index b"

definition less_ProductionProofKindV1 :: "ProductionProofKindV1 \<Rightarrow> ProductionProofKindV1 \<Rightarrow> bool" where
  "less_ProductionProofKindV1 a b \<longleftrightarrow> proof_kind_index a < proof_kind_index b"

instance
  by standard
    (auto simp: less_eq_ProductionProofKindV1_def less_ProductionProofKindV1_def
      dest: proof_kind_index_inj)

end

fun proof_kind_name :: "ProductionProofKindV1 \<Rightarrow> string" where
  "proof_kind_name PK_CallerAuthentication = ''caller_authentication''"
| "proof_kind_name PK_InputAdmission = ''input_admission''"
| "proof_kind_name PK_ContextSnapshot = ''context_snapshot''"
| "proof_kind_name PK_IntentFastPathAdmission = ''intent_fast_path_admission''"
| "proof_kind_name PK_DecisionNecessityAdmission = ''decision_necessity_admission''"
| "proof_kind_name PK_TurnCoordinationAdmission = ''turn_coordination_admission''"
| "proof_kind_name PK_ResponsePolicy = ''response_policy''"
| "proof_kind_name PK_ResponseAdmission = ''response_admission''"
| "proof_kind_name PK_Authority = ''authority''"
| "proof_kind_name PK_Capability = ''capability''"
| "proof_kind_name PK_Policy = ''policy''"
| "proof_kind_name PK_ExactAuthorization = ''exact_authorization''"
| "proof_kind_name PK_ActionAdmission = ''action_admission''"
| "proof_kind_name PK_ExecutionPermit = ''execution_permit''"
| "proof_kind_name PK_ProviderReceipt = ''provider_receipt''"
| "proof_kind_name PK_OutcomeObservation = ''outcome_observation''"
| "proof_kind_name PK_HumanModelPromotion = ''human_model_promotion''"
| "proof_kind_name PK_HumanModelUserConfirmation = ''human_model_user_confirmation''"
| "proof_kind_name PK_HumanModelCorrection = ''human_model_correction''"

definition proof_kind_json :: "ProductionProofKindV1 \<Rightarrow> json" where
  "proof_kind_json k = JStr (proof_kind_name k)"

lemma proof_kind_name_inj: "proof_kind_name a = proof_kind_name b \<Longrightarrow> a = b"
  by (cases a; cases b) simp_all

datatype CandidateKindV1 =
    CK_CanonicalInput
  | CK_ContextSnapshot
  | CK_Intent
  | CK_Decision
  | CK_TurnCoordination
  | CK_Response
  | CK_Action
  | CK_ActionAdmissionDecision
  | CK_ExecutionReceipt
  | CK_Outcome
  | CK_HumanModelCandidate
  | CK_HumanModelPromotionDecision
  | CK_HumanModelAssertion

fun candidate_kind_name :: "CandidateKindV1 \<Rightarrow> string" where
  "candidate_kind_name CK_CanonicalInput = ''canonical_input''"
| "candidate_kind_name CK_ContextSnapshot = ''context_snapshot''"
| "candidate_kind_name CK_Intent = ''intent''"
| "candidate_kind_name CK_Decision = ''decision''"
| "candidate_kind_name CK_TurnCoordination = ''turn_coordination''"
| "candidate_kind_name CK_Response = ''response''"
| "candidate_kind_name CK_Action = ''action''"
| "candidate_kind_name CK_ActionAdmissionDecision = ''action_admission_decision''"
| "candidate_kind_name CK_ExecutionReceipt = ''execution_receipt''"
| "candidate_kind_name CK_Outcome = ''outcome''"
| "candidate_kind_name CK_HumanModelCandidate = ''human_model_candidate''"
| "candidate_kind_name CK_HumanModelPromotionDecision = ''human_model_promotion_decision''"
| "candidate_kind_name CK_HumanModelAssertion = ''human_model_assertion''"

definition candidate_kind_json :: "CandidateKindV1 \<Rightarrow> json" where
  "candidate_kind_json k = JStr (candidate_kind_name k)"

lemma candidate_kind_name_inj: "candidate_kind_name a = candidate_kind_name b \<Longrightarrow> a = b"
  by (cases a; cases b) simp_all

section \<open>Release gates\<close>

record ProductionReleaseGatesV1 =
  rg_trust_chain_closure_complete :: bool
  rg_production_trust_root_blocked :: bool
  rg_production_authorization_enabled :: bool
  rg_production_execution_enabled :: bool
  rg_human_model_long_term_write_enabled :: bool
  rg_aegis_production_adapter_enabled :: bool

definition release_gates_BLOCKED :: ProductionReleaseGatesV1 where
  "release_gates_BLOCKED = \<lparr>
     rg_trust_chain_closure_complete = False,
     rg_production_trust_root_blocked = True,
     rg_production_authorization_enabled = False,
     rg_production_execution_enabled = False,
     rg_human_model_long_term_write_enabled = False,
     rg_aegis_production_adapter_enabled = False\<rparr>"

section \<open>Wire compatibility and candidates\<close>

text \<open>A \<open>BTreeSet\<close> of strings is the list of its members in order.\<close>

record WireCompatibilityV1 =
  wc_schema_version :: u16
  wc_minimum_reader_version :: u16
  wc_critical_feature_flags :: "string list"

definition WireCompatibilityV1_v1 :: WireCompatibilityV1 where
  "WireCompatibilityV1_v1 = \<lparr>
     wc_schema_version = IDR_WIRE_SCHEMA_VERSION_V1,
     wc_minimum_reader_version = IDR_MINIMUM_READER_VERSION_V1,
     wc_critical_feature_flags = []\<rparr>"

definition WireCompatibilityV1_validate ::
  "WireCompatibilityV1 \<Rightarrow> (ProductionProtocolErrorV1, unit) result" where
  "WireCompatibilityV1_validate c =
     (if wc_schema_version c \<noteq> IDR_WIRE_SCHEMA_VERSION_V1 \<or>
         wc_minimum_reader_version c > IDR_WIRE_SCHEMA_VERSION_V1 \<or>
         list_ex (\<lambda>flag. flag = [] \<or> length flag > 128 \<or> has_control flag)
           (wc_critical_feature_flags c)
      then Err UnsupportedWireVersion
      else if wc_critical_feature_flags c \<noteq> [] then Err UnsupportedCriticalFeature
      else Ok ())"

definition WireCompatibilityV1_json :: "WireCompatibilityV1 \<Rightarrow> json" where
  "WireCompatibilityV1_json c = json_object [
     (''schema_version'', jint (uint (wc_schema_version c))),
     (''minimum_reader_version'', jint (uint (wc_minimum_reader_version c))),
     (''critical_feature_flags'', JArr (map JStr (wc_critical_feature_flags c)))]"

definition uuid_is_nil :: "uuid \<Rightarrow> bool" where
  "uuid_is_nil u \<longleftrightarrow> u = 0"

definition valid_wire_uuid :: "crates \<Rightarrow> uuid \<Rightarrow> bool" where
  "valid_wire_uuid X u \<longleftrightarrow>
     \<not> uuid_is_nil u \<and> x_uuid_is_rfc4122 X u \<and>
     1 \<le> x_uuid_version_num X u \<and> x_uuid_version_num X u \<le> 8"

definition uuid_json :: "crates \<Rightarrow> uuid \<Rightarrow> json" where
  "uuid_json X u = JStr (x_uuid_display X u)"

record CandidateSubmissionV1 =
  cs_compatibility :: WireCompatibilityV1
  cs_candidate_id :: uuid
  cs_candidate_kind :: CandidateKindV1
  cs_run_id :: uuid
  cs_turn_id :: uuid
  cs_subject_ref :: ReferenceV1
  cs_tenant_ref :: ReferenceV1
  cs_scope_ref :: ReferenceV1
  cs_purpose_ref :: ReferenceV1
  cs_policy_revision_ref :: ReferenceV1
  cs_valid_from :: u64
  cs_valid_until :: u64
  cs_payload :: json

text \<open>The condition is evaluated from left to right: the encoding error of the last disjunct is
  returned only when the others are false.\<close>

definition CandidateSubmissionV1_validate ::
  "crates \<Rightarrow> CandidateSubmissionV1 \<Rightarrow> (ProductionProtocolErrorV1, unit) result" where
  "CandidateSubmissionV1_validate X c =
     and_then (WireCompatibilityV1_validate (cs_compatibility c)) (\<lambda>_.
     if uuid_is_nil (cs_candidate_id c) \<or>
        \<not> valid_wire_uuid X (cs_run_id c) \<or>
        \<not> valid_wire_uuid X (cs_turn_id c) \<or>
        cs_valid_from c = 0 \<or>
        cs_valid_until c \<le> cs_valid_from c \<or>
        cs_valid_until c > IDR_MAX_AUTHORITY_EPOCH_SECONDS_V1
     then Err InvalidCandidate
     else and_then (canonical_json_bytes_v1 X (cs_payload c)) (\<lambda>bytes.
       if length bytes > 1048576 then Err InvalidCandidate
       else validate_json_limits (cs_payload c)))"

text \<open>\<open>new\<close> draws the candidate identifier with \<open>Uuid::new_v4\<close>: it is an argument here.\<close>

definition CandidateSubmissionV1_new ::
  "crates \<Rightarrow> uuid \<Rightarrow> CandidateKindV1 \<Rightarrow> uuid \<Rightarrow> uuid \<Rightarrow> ReferenceV1 \<Rightarrow> ReferenceV1 \<Rightarrow> ReferenceV1 \<Rightarrow>
   ReferenceV1 \<Rightarrow> ReferenceV1 \<Rightarrow> u64 \<Rightarrow> u64 \<Rightarrow> json \<Rightarrow>
   (ProductionProtocolErrorV1, CandidateSubmissionV1) result" where
  "CandidateSubmissionV1_new X fresh_id kind run_id turn_id subject tenant scope purpose policy
       valid_from valid_until payload =
     (let candidate = \<lparr>
        cs_compatibility = WireCompatibilityV1_v1,
        cs_candidate_id = fresh_id,
        cs_candidate_kind = kind,
        cs_run_id = run_id,
        cs_turn_id = turn_id,
        cs_subject_ref = subject,
        cs_tenant_ref = tenant,
        cs_scope_ref = scope,
        cs_purpose_ref = purpose,
        cs_policy_revision_ref = policy,
        cs_valid_from = valid_from,
        cs_valid_until = valid_until,
        cs_payload = payload\<rparr> in
      and_then (CandidateSubmissionV1_validate X candidate) (\<lambda>_. Ok candidate))"

definition CandidateSubmissionV1_json :: "crates \<Rightarrow> CandidateSubmissionV1 \<Rightarrow> json" where
  "CandidateSubmissionV1_json X c = json_object [
     (''compatibility'', WireCompatibilityV1_json (cs_compatibility c)),
     (''candidate_id'', uuid_json X (cs_candidate_id c)),
     (''candidate_kind'', candidate_kind_json (cs_candidate_kind c)),
     (''run_id'', uuid_json X (cs_run_id c)),
     (''turn_id'', uuid_json X (cs_turn_id c)),
     (''subject_ref'', JStr (cs_subject_ref c)),
     (''tenant_ref'', JStr (cs_tenant_ref c)),
     (''scope_ref'', JStr (cs_scope_ref c)),
     (''purpose_ref'', JStr (cs_purpose_ref c)),
     (''policy_revision_ref'', JStr (cs_policy_revision_ref c)),
     (''valid_from'', ju64 (cs_valid_from c)),
     (''valid_until'', ju64 (cs_valid_until c)),
     (''payload'', cs_payload c)]"

definition CandidateSubmissionV1_canonical_digest ::
  "crates \<Rightarrow> CandidateSubmissionV1 \<Rightarrow> (ProductionProtocolErrorV1, string) result" where
  "CandidateSubmissionV1_canonical_digest X c =
     canonical_digest_v1 X ''idr-candidate-v1'' (CandidateSubmissionV1_json X c)"

section \<open>Hexadecimal coding\<close>

definition decode_nibble :: "char \<Rightarrow> u8 option" where
  "decode_nibble c =
     (let n = (of_char c :: nat) in
      if 48 \<le> n \<and> n \<le> 57 then Some (of_nat (n - 48))
      else if 97 \<le> n \<and> n \<le> 102 then Some (of_nat (n - 97 + 10))
      else None)"

unbundle bit_operations_syntax

fun decode_pairs :: "string \<Rightarrow> u8 list option" where
  "decode_pairs (h # l # rest) =
     (case decode_nibble h of None \<Rightarrow> None | Some high \<Rightarrow>
      (case decode_nibble l of None \<Rightarrow> None | Some low \<Rightarrow>
       (case decode_pairs rest of None \<Rightarrow> None | Some slots \<Rightarrow>
         Some ((push_bit 4 high OR low) # slots))))"
| "decode_pairs _ = Some []"

definition decode_hex :: "nat \<Rightarrow> string \<Rightarrow> u8 list option" where
  "decode_hex N s = (if length s \<noteq> N * 2 then None else decode_pairs s)"

definition hex_digit :: "u8 \<Rightarrow> char" where
  "hex_digit n = (if n < 10 then char_of (48 + unat n) else char_of (87 + unat n))"

definition encode_hex :: "u8 list \<Rightarrow> string" where
  "encode_hex bytes = concat (map (\<lambda>b. [hex_digit (drop_bit 4 b), hex_digit (b AND 15)]) bytes)"

lemma nibble_cases: "(n :: u8) < 16 \<Longrightarrow> n \<in> {0, 1, 2, 3, 4, 5, 6, 7, 8, 9, 10, 11, 12, 13, 14, 15}"
  unfolding insert_iff by (simp add: word_less_nat_alt word_unat_eq_iff) arith

lemma unat_of_nat_u8: "k < 256 \<Longrightarrow> unat (of_nat k :: u8) = k"
  by (simp add: unsigned_of_nat take_bit_nat_eq_self)

lemma decode_nibble_hex_digit: "n < 16 \<Longrightarrow> decode_nibble (hex_digit n) = Some n"
  by (drule nibble_cases, elim insertE) (simp_all add: hex_digit_def decode_nibble_def)

lemma hex_digit_decode_nibble: "decode_nibble c = Some n \<Longrightarrow> hex_digit n = c \<and> n < 16"
proof -
  assume d: "decode_nibble c = Some n"
  have bound: "(of_char c :: nat) < 256" by simp
  consider "48 \<le> (of_char c :: nat)" "(of_char c :: nat) \<le> 57" "n = of_nat (of_char c - 48)"
    | "97 \<le> (of_char c :: nat)" "(of_char c :: nat) \<le> 102" "n = of_nat (of_char c - 97 + 10)"
    using d by (auto simp: Let_def decode_nibble_def split: if_splits)
  then show ?thesis
  proof cases
    case 1
    then have u: "unat n = of_char c - 48" by (metis bound less_imp_diff_less unat_of_nat_u8)
    moreover have "of_char c - 48 < (10 :: nat)" using 1 by arith
    ultimately show ?thesis using 1(1) by (simp add: hex_digit_def word_less_nat_alt del: unat_eq_zero)
  next
    case 2
    then have "unat n = of_char c - 97 + 10" using unat_of_nat_u8 [of "of_char c - 97 + 10"] by simp
    with 2 have u: "unat n = of_char c - 87" by simp
    moreover have "\<not> of_char c - 87 < (10 :: nat)" "of_char c - 87 < (16 :: nat)" using 2 by arith+
    ultimately show ?thesis using 2(1) by (simp add: hex_digit_def word_less_nat_alt)
  qed
qed

lemma byte_nibbles: "push_bit 4 (drop_bit 4 b) OR (b AND 15) = (b :: u8)"
proof -
  have "b AND 15 = take_bit 4 b" by (simp add: take_bit_eq_mask mask_eq_exp_minus_1)
  then show ?thesis by (auto intro!: bit_eqI simp: bit_simps)
qed

lemma nibbles_byte:
  "(h :: u8) < 16 \<Longrightarrow> (l :: u8) < 16 \<Longrightarrow>
     drop_bit 4 (push_bit 4 h OR l) = h \<and> (push_bit 4 h OR l) AND 15 = l"
  by (drule nibble_cases, drule nibble_cases, elim insertE) simp_all

lemma nibble_bounds: "drop_bit 4 (b :: u8) < 16 \<and> b AND 15 < 16"
proof -
  have "unat (drop_bit 4 b) = unat b div 16" by (simp only: unat_drop_bit_eq) (simp add: drop_bit_eq_div)
  moreover have "unat b < 256" using unsigned_less [of b] by simp
  moreover have "b AND 15 \<le> 15" by (rule word_and_le1)
  then have "b AND 15 < 16" by (rule order_le_less_trans) simp
  ultimately show ?thesis by (simp add: word_less_nat_alt)
qed

lemma encode_hex_simps:
  "encode_hex [] = []"
  "encode_hex (b # bs) = hex_digit (drop_bit 4 b) # hex_digit (b AND 15) # encode_hex bs"
  by (simp_all add: encode_hex_def)

lemma decode_pairs_encode: "decode_pairs (encode_hex bs) = Some bs"
proof (induction bs)
  case (Cons b bs)
  have "decode_nibble (hex_digit (drop_bit 4 b)) = Some (drop_bit 4 b)"
    "decode_nibble (hex_digit (b AND 15)) = Some (b AND 15)"
    using nibble_bounds [of b] decode_nibble_hex_digit by blast+
  with Cons show ?case by (simp only: encode_hex_simps decode_pairs.simps option.case byte_nibbles)
qed (simp add: encode_hex_simps)

lemma length_encode_hex: "length (encode_hex bs) = 2 * length bs"
  by (induction bs) (simp_all add: encode_hex_simps)

lemma decode_encode_hex: "length bs = N \<Longrightarrow> decode_hex N (encode_hex bs) = Some bs"
  by (simp add: decode_hex_def length_encode_hex decode_pairs_encode)

lemma encode_decode_pairs:
  "decode_pairs s = Some bs \<Longrightarrow> even (length s) \<Longrightarrow> encode_hex bs = s \<and> 2 * length bs = length s"
proof (induction s arbitrary: bs rule: decode_pairs.induct)
  case (1 h l rest)
  then obtain x y bs' where *: "decode_nibble h = Some x" "decode_nibble l = Some y"
      "decode_pairs rest = Some bs'" "bs = (push_bit 4 x OR y) # bs'"
    by (auto split: option.splits)
  with 1 have "encode_hex bs' = rest \<and> 2 * length bs' = length rest" by simp
  moreover have "hex_digit x = h" "x < 16" "hex_digit y = l" "y < 16"
    using hex_digit_decode_nibble [OF *(1)] hex_digit_decode_nibble [OF *(2)] by simp_all
  ultimately show ?case
    unfolding *(4) encode_hex_simps using nibbles_byte [of x y] by (simp del: drop_bit_or)
qed (auto simp: encode_hex_simps)

lemma encode_decode_hex: "decode_hex N s = Some bs \<Longrightarrow> encode_hex bs = s \<and> length bs = N"
  using encode_decode_pairs [of s bs] by (auto simp: decode_hex_def split: if_splits)

section \<open>Proof claims and envelopes\<close>

definition json_outcome :: "string \<Rightarrow> json" where
  "json_outcome o1 = json_object [(''outcome'', JStr o1)]"

fun default_proof_assertion :: "ProductionProofKindV1 \<Rightarrow> json" where
  "default_proof_assertion PK_CallerAuthentication = json_outcome ''authenticate''"
| "default_proof_assertion PK_ExactAuthorization = json_object [(''decision'', JStr ''approve'')]"
| "default_proof_assertion PK_InputAdmission = json_outcome ''admit''"
| "default_proof_assertion PK_ContextSnapshot = json_outcome ''attest''"
| "default_proof_assertion PK_IntentFastPathAdmission = json_outcome ''admit''"
| "default_proof_assertion PK_DecisionNecessityAdmission = json_outcome ''admit''"
| "default_proof_assertion PK_TurnCoordinationAdmission = json_outcome ''admit''"
| "default_proof_assertion PK_ResponsePolicy = json_outcome ''allow''"
| "default_proof_assertion PK_ResponseAdmission = json_outcome ''allow''"
| "default_proof_assertion PK_Authority = json_outcome ''allow''"
| "default_proof_assertion PK_Capability = json_outcome ''allow''"
| "default_proof_assertion PK_Policy = json_outcome ''allow''"
| "default_proof_assertion PK_ActionAdmission = json_outcome ''allow''"
| "default_proof_assertion PK_ExecutionPermit = json_outcome ''issue''"
| "default_proof_assertion PK_ProviderReceipt = json_outcome ''attest''"
| "default_proof_assertion PK_OutcomeObservation = json_outcome ''observe''"
| "default_proof_assertion PK_HumanModelPromotion = json_outcome ''promote''"
| "default_proof_assertion PK_HumanModelUserConfirmation = json_outcome ''confirm''"
| "default_proof_assertion PK_HumanModelCorrection = json_outcome ''correct''"

record ProductionProofClaimsV1 =
  pc_compatibility :: WireCompatibilityV1
  pc_proof_id :: uuid
  pc_trust_domain :: TrustDomainV1
  pc_environment_ref :: ReferenceV1
  pc_proof_kind :: ProductionProofKindV1
  pc_issuer_ref :: ReferenceV1
  pc_subject_ref :: ReferenceV1
  pc_subject_digest :: string
  pc_audience_ref :: ReferenceV1
  pc_tenant_ref :: ReferenceV1
  pc_scope_ref :: ReferenceV1
  pc_purpose_ref :: ReferenceV1
  pc_policy_revision_ref :: ReferenceV1
  pc_issued_at :: u64
  pc_not_before :: u64
  pc_expires_at :: u64
  pc_nonce :: string
  pc_principal_digest :: string
  pc_assertion :: json

definition ProductionProofClaimsV1_validate ::
  "ProductionProofClaimsV1 \<Rightarrow> (ProductionProtocolErrorV1, unit) result" where
  "ProductionProofClaimsV1_validate c =
     and_then (WireCompatibilityV1_validate (pc_compatibility c)) (\<lambda>_.
     if uuid_is_nil (pc_proof_id c) \<or>
        \<not> valid_digest (pc_subject_digest c) \<or>
        pc_issued_at c = 0 \<or>
        pc_not_before c < pc_issued_at c \<or>
        pc_expires_at c \<le> pc_not_before c \<or>
        pc_expires_at c > IDR_MAX_AUTHORITY_EPOCH_SECONDS_V1 \<or>
        \<not> valid_digest (pc_nonce c) \<or>
        \<not> valid_digest (pc_principal_digest c)
     then Err InvalidProof
     else validate_json_limits (pc_assertion c))"

definition ProductionProofClaimsV1_new ::
  "uuid \<Rightarrow> TrustDomainV1 \<Rightarrow> ReferenceV1 \<Rightarrow> ProductionProofKindV1 \<Rightarrow> ReferenceV1 \<Rightarrow> ReferenceV1 \<Rightarrow>
   string \<Rightarrow> ReferenceV1 \<Rightarrow> ReferenceV1 \<Rightarrow> ReferenceV1 \<Rightarrow> ReferenceV1 \<Rightarrow> ReferenceV1 \<Rightarrow>
   u64 \<Rightarrow> u64 \<Rightarrow> u64 \<Rightarrow> string \<Rightarrow> (ProductionProtocolErrorV1, ProductionProofClaimsV1) result" where
  "ProductionProofClaimsV1_new fresh_id domain env kind issuer subject subject_digest audience tenant
       scope purpose policy issued_at not_before expires_at nonce =
     (let claims = \<lparr>
        pc_compatibility = WireCompatibilityV1_v1,
        pc_proof_id = fresh_id,
        pc_trust_domain = domain,
        pc_environment_ref = env,
        pc_proof_kind = kind,
        pc_issuer_ref = issuer,
        pc_subject_ref = subject,
        pc_subject_digest = subject_digest,
        pc_audience_ref = audience,
        pc_tenant_ref = tenant,
        pc_scope_ref = scope,
        pc_purpose_ref = purpose,
        pc_policy_revision_ref = policy,
        pc_issued_at = issued_at,
        pc_not_before = not_before,
        pc_expires_at = expires_at,
        pc_nonce = nonce,
        pc_principal_digest = replicate 64 (CHR ''0''),
        pc_assertion = default_proof_assertion kind\<rparr> in
      and_then (ProductionProofClaimsV1_validate claims) (\<lambda>_. Ok claims))"

definition ProductionProofClaimsV1_with_assertion ::
  "ProductionProofClaimsV1 \<Rightarrow> json \<Rightarrow> (ProductionProtocolErrorV1, ProductionProofClaimsV1) result" where
  "ProductionProofClaimsV1_with_assertion c assertion =
     and_then (validate_json_limits assertion) (\<lambda>_.
     let c = c\<lparr>pc_assertion := assertion\<rparr> in
     and_then (ProductionProofClaimsV1_validate c) (\<lambda>_. Ok c))"

definition ProductionProofClaimsV1_with_principal_binding ::
  "crates \<Rightarrow> ProductionProofClaimsV1 \<Rightarrow> ReferenceV1 \<Rightarrow> ReferenceV1 \<Rightarrow>
   (ProductionProtocolErrorV1, ProductionProofClaimsV1) result" where
  "ProductionProofClaimsV1_with_principal_binding X c actor_ref caller_ref =
     and_then (canonical_digest_v1 X ''idr-command-principal-v1'' (JArr [JStr actor_ref, JStr caller_ref])) (\<lambda>d.
     let c = c\<lparr>pc_principal_digest := d\<rparr> in
     and_then (ProductionProofClaimsV1_validate c) (\<lambda>_. Ok c))"

definition ProductionProofClaimsV1_json :: "crates \<Rightarrow> ProductionProofClaimsV1 \<Rightarrow> json" where
  "ProductionProofClaimsV1_json X c = json_object [
     (''compatibility'', WireCompatibilityV1_json (pc_compatibility c)),
     (''proof_id'', uuid_json X (pc_proof_id c)),
     (''trust_domain'', TrustDomainV1_json (pc_trust_domain c)),
     (''environment_ref'', JStr (pc_environment_ref c)),
     (''proof_kind'', proof_kind_json (pc_proof_kind c)),
     (''issuer_ref'', JStr (pc_issuer_ref c)),
     (''subject_ref'', JStr (pc_subject_ref c)),
     (''subject_digest'', JStr (pc_subject_digest c)),
     (''audience_ref'', JStr (pc_audience_ref c)),
     (''tenant_ref'', JStr (pc_tenant_ref c)),
     (''scope_ref'', JStr (pc_scope_ref c)),
     (''purpose_ref'', JStr (pc_purpose_ref c)),
     (''policy_revision_ref'', JStr (pc_policy_revision_ref c)),
     (''issued_at'', ju64 (pc_issued_at c)),
     (''not_before'', ju64 (pc_not_before c)),
     (''expires_at'', ju64 (pc_expires_at c)),
     (''nonce'', JStr (pc_nonce c)),
     (''principal_digest'', JStr (pc_principal_digest c)),
     (''assertion'', pc_assertion c)]"

definition ProductionProofClaimsV1_canonical_signing_bytes ::
  "crates \<Rightarrow> ProductionProofClaimsV1 \<Rightarrow> (ProductionProtocolErrorV1, bytes) result" where
  "ProductionProofClaimsV1_canonical_signing_bytes X c =
     canonical_json_bytes_v1 X (JArr [JStr ''idr-production-proof-v1'', ProductionProofClaimsV1_json X c])"

record ProductionProofEnvelopeV1 =
  pe_claims :: ProductionProofClaimsV1
  pe_key_id :: ReferenceV1
  pe_algorithm :: string
  pe_signature :: string

definition ProductionProofEnvelopeV1_validate_shape ::
  "ProductionProofEnvelopeV1 \<Rightarrow> (ProductionProtocolErrorV1, unit) result" where
  "ProductionProofEnvelopeV1_validate_shape e =
     and_then (ProductionProofClaimsV1_validate (pe_claims e)) (\<lambda>_.
     if pe_algorithm e \<noteq> IDR_PROOF_ALGORITHM_ED25519_V1 \<or> decode_hex 64 (pe_signature e) = None
     then Err InvalidProof else Ok ())"

definition ProductionProofEnvelopeV1_new ::
  "ProductionProofClaimsV1 \<Rightarrow> ReferenceV1 \<Rightarrow> string \<Rightarrow>
   (ProductionProtocolErrorV1, ProductionProofEnvelopeV1) result" where
  "ProductionProofEnvelopeV1_new claims key_id signature =
     (let e = \<lparr>pe_claims = claims, pe_key_id = key_id,
        pe_algorithm = IDR_PROOF_ALGORITHM_ED25519_V1, pe_signature = signature\<rparr> in
      and_then (ProductionProofEnvelopeV1_validate_shape e) (\<lambda>_. Ok e))"

definition ProductionProofEnvelopeV1_json :: "crates \<Rightarrow> ProductionProofEnvelopeV1 \<Rightarrow> json" where
  "ProductionProofEnvelopeV1_json X e = json_object [
     (''claims'', ProductionProofClaimsV1_json X (pe_claims e)),
     (''key_id'', JStr (pe_key_id e)),
     (''algorithm'', JStr (pe_algorithm e)),
     (''signature'', JStr (pe_signature e))]"

section \<open>Issuer keys and trust roots\<close>

record ExpectedProductionProofV1 =
  ep_trust_domain :: TrustDomainV1
  ep_environment_ref :: ReferenceV1
  ep_proof_kind :: ProductionProofKindV1
  ep_issuer_ref :: ReferenceV1
  ep_subject_ref :: ReferenceV1
  ep_subject_digest :: string
  ep_audience_ref :: ReferenceV1
  ep_tenant_ref :: ReferenceV1
  ep_scope_ref :: ReferenceV1
  ep_purpose_ref :: ReferenceV1
  ep_policy_revision_ref :: ReferenceV1

text \<open>A \<open>VerifyingKey\<close> is its 32 bytes; a \<open>BTreeSet\<close> of proof kinds is the list of its members in
  order.\<close>

record ProductionIssuerKeyV1 =
  ik_trust_domain :: TrustDomainV1
  ik_environment_ref :: ReferenceV1
  ik_issuer_ref :: ReferenceV1
  ik_key_id :: ReferenceV1
  ik_public_key :: "u8 list"
  ik_audience_ref :: ReferenceV1
  ik_tenant_ref :: ReferenceV1
  ik_allowed_proof_kinds :: "ProductionProofKindV1 list"
  ik_valid_from :: u64
  ik_valid_until :: u64
  ik_revoked_at :: "u64 option"

definition audience_matches_environment ::
  "TrustDomainV1 \<Rightarrow> ReferenceV1 \<Rightarrow> ReferenceV1 \<Rightarrow> bool" where
  "audience_matches_environment trust_domain environment_ref audience_ref =
     (let domain = (case trust_domain of TD_Shadow \<Rightarrow> ''shadow'' | TD_Production \<Rightarrow> ''production'') in
      (case strip_prefix (''environment:idr:'' @ domain @ '':'') environment_ref of
         None \<Rightarrow> False
       | Some environment \<Rightarrow>
           environment \<noteq> [] \<and> audience_ref = ''audience:idr:'' @ domain @ '':'' @ environment))"

definition ProductionIssuerKeyV1_new ::
  "crates \<Rightarrow> TrustDomainV1 \<Rightarrow> ReferenceV1 \<Rightarrow> ReferenceV1 \<Rightarrow> ReferenceV1 \<Rightarrow> string \<Rightarrow> ReferenceV1 \<Rightarrow>
   ReferenceV1 \<Rightarrow> ProductionProofKindV1 list \<Rightarrow> u64 \<Rightarrow> u64 \<Rightarrow> u64 option \<Rightarrow>
   (ProductionProtocolErrorV1, ProductionIssuerKeyV1) result" where
  "ProductionIssuerKeyV1_new X trust_domain environment_ref issuer_ref key_id public_key_hex
       audience_ref tenant_ref allowed_proof_kinds valid_from valid_until revoked_at =
     and_then (ok_or (decode_hex 32 public_key_hex) InvalidKey) (\<lambda>key.
     if \<not> x_verifying_key_ok X key then Err InvalidKey
     else if allowed_proof_kinds = [] \<or>
        valid_from = 0 \<or>
        valid_until \<le> valid_from \<or>
        valid_until > IDR_MAX_AUTHORITY_EPOCH_SECONDS_V1 \<or>
        (case revoked_at of None \<Rightarrow> False
         | Some revoked \<Rightarrow> revoked < valid_from \<or> revoked > valid_until) \<or>
        \<not> audience_matches_environment trust_domain environment_ref audience_ref
     then Err InvalidKey
     else Ok \<lparr>
       ik_trust_domain = trust_domain,
       ik_environment_ref = environment_ref,
       ik_issuer_ref = issuer_ref,
       ik_key_id = key_id,
       ik_public_key = key,
       ik_audience_ref = audience_ref,
       ik_tenant_ref = tenant_ref,
       ik_allowed_proof_kinds = allowed_proof_kinds,
       ik_valid_from = valid_from,
       ik_valid_until = valid_until,
       ik_revoked_at = revoked_at\<rparr>)"

record TrustRootSnapshotV1 =
  tr_trust_domain :: TrustDomainV1
  tr_environment_ref :: ReferenceV1
  tr_root_version :: u64
  tr_root_digest :: string
  tr_loaded_at :: u64
  tr_keys :: "(string \<times> ProductionIssuerKeyV1) list"

fun trust_root_insert_policies ::
  "TrustDomainV1 \<Rightarrow> ReferenceV1 \<Rightarrow> ProductionIssuerKeyV1 list \<Rightarrow> (string \<times> ProductionIssuerKeyV1) list \<Rightarrow>
   (ProductionProtocolErrorV1, (string \<times> ProductionIssuerKeyV1) list) result" where
  "trust_root_insert_policies d env [] keys = Ok keys"
| "trust_root_insert_policies d env (policy # policies) keys =
     (if ik_trust_domain policy \<noteq> d \<or> ik_environment_ref policy \<noteq> env then Err InvalidTrustRoot
      else if bt_get keys (ik_key_id policy) \<noteq> None then Err InvalidKey
      else trust_root_insert_policies d env policies (bt_insert (ik_key_id policy) policy keys))"

definition trust_root_key_json :: "string \<times> ProductionIssuerKeyV1 \<Rightarrow> json" where
  "trust_root_key_json kp = (case kp of (key_id, policy) \<Rightarrow> JArr [
     JStr key_id,
     TrustDomainV1_json (ik_trust_domain policy),
     JStr (ik_environment_ref policy),
     JStr (ik_issuer_ref policy),
     JStr (ik_audience_ref policy),
     JStr (ik_tenant_ref policy),
     ju64 (ik_valid_from policy),
     ju64 (ik_valid_until policy),
     jopt ju64 (ik_revoked_at policy),
     JArr (map proof_kind_json (ik_allowed_proof_kinds policy)),
     JStr (encode_hex (ik_public_key policy))])"

definition TrustRootSnapshotV1_new ::
  "crates \<Rightarrow> TrustDomainV1 \<Rightarrow> ReferenceV1 \<Rightarrow> u64 \<Rightarrow> u64 \<Rightarrow> ProductionIssuerKeyV1 list \<Rightarrow>
   (ProductionProtocolErrorV1, TrustRootSnapshotV1) result" where
  "TrustRootSnapshotV1_new X trust_domain environment_ref root_version loaded_at policies =
     and_then (trust_root_insert_policies trust_domain environment_ref policies []) (\<lambda>keys.
     if root_version = 0 \<or> loaded_at = 0 \<or> keys = [] then Err InvalidTrustRoot
     else and_then (canonical_digest_v1 X ''idr-trust-root-v1'' (JArr [
         TrustDomainV1_json trust_domain,
         JStr environment_ref,
         ju64 root_version,
         ju64 loaded_at,
         JArr (map trust_root_key_json keys)])) (\<lambda>root_digest.
     Ok \<lparr>
       tr_trust_domain = trust_domain,
       tr_environment_ref = environment_ref,
       tr_root_version = root_version,
       tr_root_digest = root_digest,
       tr_loaded_at = loaded_at,
       tr_keys = keys\<rparr>))"

record VerifiedProductionProofV1 =
  vp_proof_id :: uuid
  vp_nonce :: string
  vp_trust_domain :: TrustDomainV1
  vp_environment_ref :: ReferenceV1
  vp_proof_kind :: ProductionProofKindV1
  vp_expires_at :: u64
  vp_trust_root_version :: u64
  vp_trust_root_digest :: string
  vp_verified_at :: u64

text \<open>The 25 disjuncts of the mismatch condition of \<open>verify_at\<close>, in source order.\<close>

definition verify_at_mismatch ::
  "TrustRootSnapshotV1 \<Rightarrow> ProductionProofEnvelopeV1 \<Rightarrow> ExpectedProductionProofV1 \<Rightarrow> u64 \<Rightarrow>
   ProductionIssuerKeyV1 \<Rightarrow> bool" where
  "verify_at_mismatch root envelope expected trusted_now key =
     (let claims = pe_claims envelope in
      tr_trust_domain root \<noteq> ep_trust_domain expected \<or>
      tr_environment_ref root \<noteq> ep_environment_ref expected \<or>
      pc_trust_domain claims \<noteq> ep_trust_domain expected \<or>
      pc_environment_ref claims \<noteq> ep_environment_ref expected \<or>
      ik_trust_domain key \<noteq> ep_trust_domain expected \<or>
      ik_environment_ref key \<noteq> ep_environment_ref expected \<or>
      pc_proof_kind claims \<noteq> ep_proof_kind expected \<or>
      pc_issuer_ref claims \<noteq> ep_issuer_ref expected \<or>
      pc_subject_ref claims \<noteq> ep_subject_ref expected \<or>
      pc_subject_digest claims \<noteq> ep_subject_digest expected \<or>
      pc_audience_ref claims \<noteq> ep_audience_ref expected \<or>
      pc_audience_ref claims \<noteq> ik_audience_ref key \<or>
      pc_tenant_ref claims \<noteq> ep_tenant_ref expected \<or>
      pc_scope_ref claims \<noteq> ep_scope_ref expected \<or>
      pc_purpose_ref claims \<noteq> ep_purpose_ref expected \<or>
      pc_policy_revision_ref claims \<noteq> ep_policy_revision_ref expected \<or>
      pc_issuer_ref claims \<noteq> ik_issuer_ref key \<or>
      pc_tenant_ref claims \<noteq> ik_tenant_ref key \<or>
      pe_key_id envelope \<noteq> ik_key_id key \<or>
      pc_proof_kind claims \<notin> set (ik_allowed_proof_kinds key) \<or>
      trusted_now < pc_not_before claims \<or>
      trusted_now \<ge> pc_expires_at claims \<or>
      pc_issued_at claims < ik_valid_from key \<or>
      trusted_now \<ge> ik_valid_until key \<or>
      (case ik_revoked_at key of None \<Rightarrow> False | Some revoked \<Rightarrow> trusted_now \<ge> revoked))"

definition TrustRootSnapshotV1_verify_at ::
  "crates \<Rightarrow> TrustRootSnapshotV1 \<Rightarrow> ProductionProofEnvelopeV1 \<Rightarrow> ExpectedProductionProofV1 \<Rightarrow> u64 \<Rightarrow>
   (ProductionProtocolErrorV1, VerifiedProductionProofV1) result" where
  "TrustRootSnapshotV1_verify_at X root envelope expected trusted_now =
     and_then (ProductionProofEnvelopeV1_validate_shape envelope) (\<lambda>_.
     let claims = pe_claims envelope in
     and_then (ok_or (bt_get (tr_keys root) (pe_key_id envelope)) ProofVerificationFailed) (\<lambda>key.
     if verify_at_mismatch root envelope expected trusted_now key then Err ProofVerificationFailed
     else and_then (ok_or (decode_hex 64 (pe_signature envelope)) ProofVerificationFailed) (\<lambda>signature.
     and_then (ProductionProofClaimsV1_canonical_signing_bytes X claims) (\<lambda>bytes.
     if \<not> x_ed25519_verify X (ik_public_key key) bytes signature then Err ProofVerificationFailed
     else Ok \<lparr>
       vp_proof_id = pc_proof_id claims,
       vp_nonce = pc_nonce claims,
       vp_trust_domain = pc_trust_domain claims,
       vp_environment_ref = pc_environment_ref claims,
       vp_proof_kind = pc_proof_kind claims,
       vp_expires_at = pc_expires_at claims,
       vp_trust_root_version = tr_root_version root,
       vp_trust_root_digest = tr_root_digest root,
       vp_verified_at = trusted_now\<rparr>))))"

section \<open>Lemmas\<close>

text \<open>JSON objects built from a list of fields, as maps.\<close>

lemma json_get_object: "json_get (json_object kvs) k = map_of (rev kvs) k"
  using btree.get_foldl [of "[]" kvs k]
  by (simp add: json_object_def btree.wf_empty bt_get_def split: option.splits)

lemma foldl_bt_insert_values:
  "snd ` set (foldl (\<lambda>m (k, v). bt_insert k v m) m kvs) \<subseteq> snd ` set m \<union> snd ` set kvs"
proof (induction kvs arbitrary: m)
  case (Cons kv kvs)
  have ins: "snd ` set (bt_insert k v n) \<subseteq> insert v (snd ` set n)" for k v n
    by (induction k v n rule: bt_insert.induct) auto
  obtain k v where kv: "kv = (k, v)" by force
  show ?case using Cons.IH [of "bt_insert k v m"] ins [of k v m] by (auto simp: kv)
qed simp

lemma json_wf_object: "(\<forall>kv \<in> set kvs. json_wf (snd kv)) \<Longrightarrow> json_wf (json_object kvs)"
proof -
  assume v: "\<forall>kv \<in> set kvs. json_wf (snd kv)"
  have "bt_wf (foldl (\<lambda>m (k, v). bt_insert k v m) [] kvs)"
    by (rule btree.wf_foldl) (simp add: bt_wf_def)
  moreover have "json_wf (snd kv)" if "kv \<in> set (foldl (\<lambda>m (k, v). bt_insert k v m) [] kvs)" for kv
  proof -
    from that have "snd kv \<in> snd ` set kvs" using foldl_bt_insert_values [of "[]" kvs] by auto
    with v show ?thesis by auto
  qed
  ultimately show ?thesis by (simp add: json_object_def)
qed

lemma map_of_rev_distinct: "distinct (map fst A) \<Longrightarrow> map_of (rev A) = map_of A"
  by (rule map_of_eqI) (auto simp: map_of_eq_Some_iff rev_map [symmetric])

lemma json_object_field:
  "json_object A = json_object B \<Longrightarrow> map_of (rev A) k = map_of (rev B) k"
  by (metis json_get_object)

lemma map_of_nth_key: "distinct (map fst A) \<Longrightarrow> i < length A \<Longrightarrow> map_of A (fst (A ! i)) = Some (snd (A ! i))"
  by (metis map_of_is_SomeI nth_mem prod.collapse)

lemma alist_by_keys: "distinct (map fst A) \<Longrightarrow> A = map (\<lambda>k. (k, the (map_of A k))) (map fst A)"
  by (rule nth_equalityI) (simp_all add: map_of_nth_key prod_eq_iff)

lemma json_object_eq_iff:
  assumes "map fst A = map fst B" "distinct (map fst A)"
  shows "json_object A = json_object B \<longleftrightarrow> A = B"
proof
  assume eq: "json_object A = json_object B"
  have "map_of A k = map_of B k" for k
    using json_object_field [OF eq, of k] assms by (simp add: map_of_rev_distinct)
  then have "map_of A = map_of B" by (rule ext)
  then have "map (\<lambda>k. (k, the (map_of A k))) (map fst A) = map (\<lambda>k. (k, the (map_of B k))) (map fst B)"
    using assms(1) by simp
  with alist_by_keys [of A] alist_by_keys [of B] assms show "A = B" by simp
qed simp

lemma json_wf_leaves [simp]:
  "json_wf (JArr (map JStr ss))" "json_wf (jint i)" "json_wf (ju64 w)" "json_wf (uuid_json X u)"
  "json_wf (TrustDomainV1_json d)" "json_wf (proof_kind_json k)" "json_wf (candidate_kind_json ck)"
  by (simp_all add: jint_def ju64_def uuid_json_def TrustDomainV1_json_def proof_kind_json_def
      candidate_kind_json_def)

lemma json_leaves_inj [simp]:
  "ju64 a = ju64 b \<longleftrightarrow> a = b" "jint i = jint j \<longleftrightarrow> i = j"
  "TrustDomainV1_json d = TrustDomainV1_json d' \<longleftrightarrow> d = d'"
  "proof_kind_json k = proof_kind_json k' \<longleftrightarrow> k = k'"
  "candidate_kind_json c = candidate_kind_json c' \<longleftrightarrow> c = c'"
  by (auto simp: ju64_def jint_def TrustDomainV1_json_def proof_kind_json_def candidate_kind_json_def
      word_uint_eq_iff
      dest: proof_kind_name_inj candidate_kind_name_inj) (cases d; cases d'; simp)

lemma WireCompatibilityV1_json_wf [simp]: "json_wf (WireCompatibilityV1_json c)"
  by (simp add: WireCompatibilityV1_json_def json_wf_object)

lemma JStr_map_inj: "map JStr a = map JStr b \<longleftrightarrow> a = b"
  by (simp add: inj_map_eq_map inj_def)

lemma WireCompatibilityV1_json_inj:
  "WireCompatibilityV1_json c = WireCompatibilityV1_json c' \<longleftrightarrow> c = c'"
  by (auto simp: WireCompatibilityV1_json_def json_object_eq_iff JStr_map_inj word_uint_eq_iff)

text \<open>Distinct identifiers print differently.\<close>

definition uuid_display_injective :: "crates \<Rightarrow> bool" where
  "uuid_display_injective X \<longleftrightarrow> (\<forall>u v. x_uuid_display X u = x_uuid_display X v \<longrightarrow> u = v)"

lemma sample_uuid_display_injective: "uuid_display_injective sample_crates"
  unfolding uuid_display_injective_def sample_crates_def
  by (simp add: word_unat_eq_iff) (metis read_show_nat)

lemma uuid_json_inj: "uuid_display_injective X \<Longrightarrow> uuid_json X u = uuid_json X v \<longleftrightarrow> u = v"
  by (auto simp: uuid_json_def uuid_display_injective_def)

lemma ProductionProofClaimsV1_json_wf:
  "json_wf (pc_assertion c) \<Longrightarrow> json_wf (ProductionProofClaimsV1_json X c)"
  by (simp add: ProductionProofClaimsV1_json_def json_wf_object)

lemma ProductionProofClaimsV1_json_inj:
  "uuid_display_injective X \<Longrightarrow>
     ProductionProofClaimsV1_json X c = ProductionProofClaimsV1_json X c' \<longleftrightarrow> c = c'"
  by (auto simp: ProductionProofClaimsV1_json_def json_object_eq_iff WireCompatibilityV1_json_inj
      uuid_json_inj)

text \<open>The key table of a trust root holds exactly the policies it was built from.\<close>

lemma bt_insert_set_fresh: "bt_get m k = None \<Longrightarrow> set (bt_insert k v m) = insert (k, v) (set m)"
  by (induction k v m rule: bt_insert.induct) (auto simp: bt_get_def split: if_splits)

lemma trust_root_insert_Ok:
  "bt_wf keys \<Longrightarrow> trust_root_insert_policies d env ps keys = Ok m \<longleftrightarrow>
     (\<forall>p \<in> set ps. ik_trust_domain p = d \<and> ik_environment_ref p = env) \<and>
     distinct (map ik_key_id ps) \<and> (\<forall>p \<in> set ps. bt_get keys (ik_key_id p) = None) \<and>
     bt_wf m \<and> set m = (\<lambda>p. (ik_key_id p, p)) ` set ps \<union> set keys"
proof (induction ps arbitrary: keys)
  case Nil
  then show ?case using bt_wf_set_unique by auto
next
  case (Cons p ps)
  have wf: "bt_wf (bt_insert (ik_key_id p) p keys)" using Cons.prems by (rule btree.wf_put)
  show ?case
  proof (cases "bt_get keys (ik_key_id p) = None")
    case True
    have fresh: "(\<forall>q \<in> set ps. bt_get (bt_insert (ik_key_id p) p keys) (ik_key_id q) = None) \<longleftrightarrow>
        ik_key_id p \<notin> ik_key_id ` set ps \<and> (\<forall>q \<in> set ps. bt_get keys (ik_key_id q) = None)"
      by (auto simp: bt_get_insert image_iff)
    have "trust_root_insert_policies d env (p # ps) keys = Ok m \<longleftrightarrow>
        ik_trust_domain p = d \<and> ik_environment_ref p = env \<and>
        trust_root_insert_policies d env ps (bt_insert (ik_key_id p) p keys) = Ok m"
      using True by auto
    then show ?thesis
      unfolding Cons.IH [OF wf] fresh bt_insert_set_fresh [OF True] using True by auto
  qed auto
qed

lemma trust_root_insert_perm:
  assumes "mset ps = mset qs" "trust_root_insert_policies d env ps [] = Ok m"
  shows "trust_root_insert_policies d env qs [] = Ok m"
proof -
  have wf: "bt_wf []" by (rule btree.wf_empty)
  have "set ps = set qs" using assms(1) by (rule mset_eq_setD)
  moreover have "distinct (map ik_key_id ps) = distinct (map ik_key_id qs)"
    using assms(1) by (metis mset_eq_imp_distinct_iff mset_map)
  ultimately show ?thesis using assms(2) unfolding trust_root_insert_Ok [OF wf] by simp
qed

lemma trust_root_keys:
  assumes "TrustRootSnapshotV1_new X d env v l ps = Ok root"
  shows "tr_trust_domain root = d" "tr_environment_ref root = env"
    "bt_get (tr_keys root) k = Some key \<Longrightarrow> key \<in> set ps \<and> ik_key_id key = k"
proof -
  have wf: "bt_wf []" by (rule btree.wf_empty)
  from assms have "set (tr_keys root) = (\<lambda>p. (ik_key_id p, p)) ` set ps"
    by (auto simp: TrustRootSnapshotV1_new_def and_then_eq_Ok trust_root_insert_Ok [OF wf] split: if_splits)
  then show "bt_get (tr_keys root) k = Some key \<Longrightarrow> key \<in> set ps \<and> ik_key_id key = k"
    by (auto simp: bt_get_def dest!: map_of_SomeD)
qed (use assms in \<open>auto simp: TrustRootSnapshotV1_new_def and_then_eq_Ok split: if_splits\<close>)

text \<open>What acceptance of a proof establishes.\<close>

definition proof_accepted_by ::
  "crates \<Rightarrow> ProductionIssuerKeyV1 \<Rightarrow> ProductionProofEnvelopeV1 \<Rightarrow> ExpectedProductionProofV1 \<Rightarrow> u64 \<Rightarrow> bool" where
  "proof_accepted_by X key e expected now \<longleftrightarrow>
     (let c = pe_claims e in
      ik_key_id key = pe_key_id e \<and> ik_issuer_ref key = pc_issuer_ref c \<and>
      ik_audience_ref key = pc_audience_ref c \<and> ik_tenant_ref key = pc_tenant_ref c \<and>
      pc_proof_kind c \<in> set (ik_allowed_proof_kinds key) \<and>
      ik_valid_from key \<le> pc_issued_at c \<and> now < ik_valid_until key \<and>
      (case ik_revoked_at key of None \<Rightarrow> True | Some t \<Rightarrow> now < t) \<and>
      pc_not_before c \<le> now \<and> now < pc_expires_at c \<and>
      \<lparr>ep_trust_domain = pc_trust_domain c, ep_environment_ref = pc_environment_ref c,
       ep_proof_kind = pc_proof_kind c, ep_issuer_ref = pc_issuer_ref c,
       ep_subject_ref = pc_subject_ref c, ep_subject_digest = pc_subject_digest c,
       ep_audience_ref = pc_audience_ref c, ep_tenant_ref = pc_tenant_ref c,
       ep_scope_ref = pc_scope_ref c, ep_purpose_ref = pc_purpose_ref c,
       ep_policy_revision_ref = pc_policy_revision_ref c\<rparr> = expected \<and>
      (\<exists>sig bytes. encode_hex sig = pe_signature e \<and>
         ProductionProofClaimsV1_canonical_signing_bytes X c = Ok bytes \<and>
         x_ed25519_verify X (ik_public_key key) bytes sig))"

lemma verify_at_mismatch_False:
  "\<not> verify_at_mismatch root e expected now key \<Longrightarrow>
     ik_trust_domain key = ep_trust_domain expected \<and> ik_environment_ref key = ep_environment_ref expected \<and>
     tr_trust_domain root = ep_trust_domain expected \<and> tr_environment_ref root = ep_environment_ref expected"
  by (simp add: verify_at_mismatch_def Let_def)

lemma verify_at_key:
  assumes "TrustRootSnapshotV1_verify_at X root e expected now = Ok p"
  shows "\<exists>key. bt_get (tr_keys root) (pe_key_id e) = Some key \<and>
     \<not> verify_at_mismatch root e expected now key \<and> proof_accepted_by X key e expected now \<and>
     vp_proof_id p = pc_proof_id (pe_claims e) \<and> vp_nonce p = pc_nonce (pe_claims e) \<and>
     vp_proof_kind p = ep_proof_kind expected \<and> vp_trust_domain p = ep_trust_domain expected \<and>
     vp_expires_at p = pc_expires_at (pe_claims e) \<and> vp_trust_root_digest p = tr_root_digest root"
proof -
  from assms obtain key sig bytes where
    k: "bt_get (tr_keys root) (pe_key_id e) = Some key"
    and m: "\<not> verify_at_mismatch root e expected now key"
    and s: "decode_hex 64 (pe_signature e) = Some sig"
      "ProductionProofClaimsV1_canonical_signing_bytes X (pe_claims e) = Ok bytes"
      "x_ed25519_verify X (ik_public_key key) bytes sig"
    and p: "vp_proof_id p = pc_proof_id (pe_claims e)" "vp_nonce p = pc_nonce (pe_claims e)"
      "vp_proof_kind p = pc_proof_kind (pe_claims e)" "vp_trust_domain p = pc_trust_domain (pe_claims e)"
      "vp_expires_at p = pc_expires_at (pe_claims e)" "vp_trust_root_digest p = tr_root_digest root"
    by (auto simp: TrustRootSnapshotV1_verify_at_def Let_def and_then_eq_Ok ok_or_eq_Ok split: if_splits)
  from encode_decode_hex [OF s(1)] have "encode_hex sig = pe_signature e" by simp
  with m s(2,3) have "proof_accepted_by X key e expected now"
    by (auto simp: proof_accepted_by_def verify_at_mismatch_def Let_def not_less not_le split: option.splits)
  with k m p show ?thesis by (auto simp: verify_at_mismatch_def Let_def)
qed

section \<open>Concrete data\<close>

definition sample_environment :: ReferenceV1 where
  "sample_environment = ''environment:idr:shadow:ci''"

definition sample_issuer_key :: ProductionIssuerKeyV1 where
  "sample_issuer_key = \<lparr>
     ik_trust_domain = TD_Shadow, ik_environment_ref = sample_environment,
     ik_issuer_ref = ''issuer:a'', ik_key_id = ''key:1'', ik_public_key = replicate 32 170,
     ik_audience_ref = ''audience:idr:shadow:ci'', ik_tenant_ref = ''tenant:t'',
     ik_allowed_proof_kinds = [PK_CallerAuthentication], ik_valid_from = 10, ik_valid_until = 1000,
     ik_revoked_at = None\<rparr>"

definition sample_claims :: ProductionProofClaimsV1 where
  "sample_claims = \<lparr>
     pc_compatibility = WireCompatibilityV1_v1, pc_proof_id = 7, pc_trust_domain = TD_Shadow,
     pc_environment_ref = sample_environment, pc_proof_kind = PK_CallerAuthentication,
     pc_issuer_ref = ''issuer:a'', pc_subject_ref = ''command:1'',
     pc_subject_digest = replicate 64 (CHR ''a''), pc_audience_ref = ''audience:idr:shadow:ci'',
     pc_tenant_ref = ''tenant:t'', pc_scope_ref = ''scope:s'', pc_purpose_ref = ''purpose:p'',
     pc_policy_revision_ref = ''policy:1'', pc_issued_at = 100, pc_not_before = 100,
     pc_expires_at = 200, pc_nonce = replicate 64 (CHR ''b''),
     pc_principal_digest = replicate 64 (CHR ''0''),
     pc_assertion = default_proof_assertion PK_CallerAuthentication\<rparr>"

definition sample_envelope :: ProductionProofEnvelopeV1 where
  "sample_envelope = \<lparr>pe_claims = sample_claims, pe_key_id = ''key:1'', pe_algorithm = ''ed25519'',
     pe_signature = replicate 128 (CHR ''c'')\<rparr>"

definition sample_expected :: ExpectedProductionProofV1 where
  "sample_expected = \<lparr>
     ep_trust_domain = TD_Shadow, ep_environment_ref = sample_environment,
     ep_proof_kind = PK_CallerAuthentication, ep_issuer_ref = ''issuer:a'',
     ep_subject_ref = ''command:1'', ep_subject_digest = replicate 64 (CHR ''a''),
     ep_audience_ref = ''audience:idr:shadow:ci'', ep_tenant_ref = ''tenant:t'',
     ep_scope_ref = ''scope:s'', ep_purpose_ref = ''purpose:p'', ep_policy_revision_ref = ''policy:1''\<rparr>"

definition sample_root :: TrustRootSnapshotV1 where
  "sample_root = \<lparr>
     tr_trust_domain = TD_Shadow, tr_environment_ref = sample_environment, tr_root_version = 1,
     tr_root_digest = replicate 64 (CHR ''a''), tr_loaded_at = 50,
     tr_keys = [(''key:1'', sample_issuer_key), (''key:2'', sample_issuer_key\<lparr>ik_key_id := ''key:2''\<rparr>)]\<rparr>"

definition sample_verified :: VerifiedProductionProofV1 where
  "sample_verified = \<lparr>
     vp_proof_id = 7, vp_nonce = replicate 64 (CHR ''b''), vp_trust_domain = TD_Shadow,
     vp_environment_ref = sample_environment, vp_proof_kind = PK_CallerAuthentication,
     vp_expires_at = 200, vp_trust_root_version = 1, vp_trust_root_digest = replicate 64 (CHR ''a''),
     vp_verified_at = 150\<rparr>"

lemma sample_root_new:
  "TrustRootSnapshotV1_new sample_crates TD_Shadow sample_environment 1 50
     [sample_issuer_key\<lparr>ik_key_id := ''key:2''\<rparr>, sample_issuer_key] = Ok sample_root"
  by code_simp

lemma sample_root_verifies:
  "TrustRootSnapshotV1_verify_at sample_crates sample_root sample_envelope sample_expected 150 =
     Ok sample_verified"
  by code_simp

section \<open>Properties\<close>

text \<open>
  C30: a proof that a trust root verifies is signed, over the canonical bytes of exactly its claims,
  by one of the issuer keys the root was built from; that key belongs to the root's trust domain
  and environment, is entitled to the proof kind, audience and tenant, is neither expired nor
  revoked; and the claims agree with every expectation of the verifier and are within their own
  validity window.
\<close>

theorem verify_at_sound:
  assumes "TrustRootSnapshotV1_new X d env version loaded_at policies = Ok root"
    and "TrustRootSnapshotV1_verify_at X root envelope expected now = Ok verified"
  shows "\<exists>key \<in> set policies.
     ik_trust_domain key = d \<and> ik_environment_ref key = env \<and>
     ep_trust_domain expected = d \<and> ep_environment_ref expected = env \<and>
     proof_accepted_by X key envelope expected now \<and>
     vp_proof_id verified = pc_proof_id (pe_claims envelope) \<and>
     vp_proof_kind verified = ep_proof_kind expected"
proof -
  from verify_at_key [OF assms(2)] obtain key where
    key: "bt_get (tr_keys root) (pe_key_id envelope) = Some key"
      "\<not> verify_at_mismatch root envelope expected now key"
      "proof_accepted_by X key envelope expected now"
      "vp_proof_id verified = pc_proof_id (pe_claims envelope)"
      "vp_proof_kind verified = ep_proof_kind expected" by blast
  from trust_root_keys [OF assms(1)] key(1) verify_at_mismatch_False [OF key(2)] key(3-)
  show ?thesis by metis
qed

theorem verify_at_sound_witness:
  "\<exists>key \<in> {sample_issuer_key\<lparr>ik_key_id := ''key:2''\<rparr>, sample_issuer_key}.
     proof_accepted_by sample_crates key sample_envelope sample_expected 150"
  using verify_at_sound [OF sample_root_new sample_root_verifies] by auto

text \<open>
  the bytes an issuer signs determine the claims: claims with the same canonical signing bytes
  are equal in every field, so a signature cannot be moved to other claims.
\<close>

theorem signing_bytes_injective:
  assumes "json_strings_delimited X" "uuid_display_injective X"
    and "json_wf (pc_assertion c)" "json_wf (pc_assertion c')"
    and "ProductionProofClaimsV1_canonical_signing_bytes X c = Ok b"
    and "ProductionProofClaimsV1_canonical_signing_bytes X c' = Ok b"
  shows "c = c'"
proof -
  let ?j = "\<lambda>c. JArr [JStr ''idr-production-proof-v1'', ProductionProofClaimsV1_json X c]"
  have wf: "json_wf (?j c)" "json_wf (?j c')" using assms(3,4) ProductionProofClaimsV1_json_wf by auto
  have "uniquely_readable (write_canonical_value X) (?j c) (?j c')"
    by (rule write_canonical_readable [OF assms(1) wf])
  from uniquely_readableD [OF this, of b b "[]" "[]"] assms(5,6) have "?j c = ?j c'"
    by (simp add: ProductionProofClaimsV1_canonical_signing_bytes_def canonical_json_bytes_v1_def)
  then show ?thesis by (simp add: ProductionProofClaimsV1_json_inj [OF assms(2)])
qed

theorem signing_bytes_injective_witness:
  "\<exists>b. ProductionProofClaimsV1_canonical_signing_bytes sample_crates sample_claims = Ok b \<and>
     ProductionProofClaimsV1_canonical_signing_bytes sample_crates (sample_claims\<lparr>pc_expires_at := 300\<rparr>) \<noteq> Ok b"
proof -
  have w: "json_wf (pc_assertion sample_claims)"
    "json_wf (pc_assertion (sample_claims\<lparr>pc_expires_at := 300\<rparr>))" by code_simp+
  have "\<not> is_err (ProductionProofClaimsV1_canonical_signing_bytes sample_crates sample_claims)" by code_simp
  then obtain b where b: "ProductionProofClaimsV1_canonical_signing_bytes sample_crates sample_claims = Ok b"
    by (auto simp: is_err_iff)
  have "sample_claims \<noteq> sample_claims\<lparr>pc_expires_at := 300\<rparr>" by code_simp
  with signing_bytes_injective [OF sample_strings_delimited sample_uuid_display_injective w b] b
  show ?thesis by blast
qed

text \<open>
  Hexadecimal decoding to N bytes succeeds exactly on the lower-case encodings of N bytes and
  inverts the encoding, so keys and signatures have a unique textual form.
\<close>

theorem decode_hex_iff: "decode_hex N s = Some bytes \<longleftrightarrow> length bytes = N \<and> s = encode_hex bytes"
  using encode_decode_hex decode_encode_hex by blast

text \<open>
  An audience belongs to one trust domain and one environment: an issuer key for the shadow
  domain never shares its audience with a key of the production domain or of another environment.
\<close>

theorem audience_isolates_environments:
  assumes "audience_matches_environment d env aud" "audience_matches_environment d' env' aud"
  shows "d = d' \<and> env = env'"
  using assms
  by (cases d; cases d')
    (auto simp: audience_matches_environment_def Let_def strip_prefix_Some split: option.splits)

theorem audience_isolates_environments_witness:
  "audience_matches_environment TD_Shadow ''environment:idr:shadow:ci'' ''audience:idr:shadow:ci''
   \<and> (\<forall>d. audience_matches_environment d ''environment:idr:shadow:ci'' ''audience:idr:shadow:ci''
        = (d = TD_Shadow))"
proof -
  have m: "audience_matches_environment TD_Shadow ''environment:idr:shadow:ci'' ''audience:idr:shadow:ci''"
    by code_simp
  then show ?thesis using audience_isolates_environments [OF m] by blast
qed

text \<open>
  A trust-root snapshot, its digest included, does not depend on the order in which its issuer
  policies are listed.
\<close>

theorem trust_root_order_independent:
  assumes "mset policies = mset policies'"
    and "TrustRootSnapshotV1_new X d env version loaded_at policies = Ok root"
  shows "TrustRootSnapshotV1_new X d env version loaded_at policies' = Ok root"
proof -
  from assms(2) obtain keys where "trust_root_insert_policies d env policies [] = Ok keys"
    by (auto simp: TrustRootSnapshotV1_new_def and_then_eq_Ok)
  with trust_root_insert_perm [OF assms(1) this] assms(2) show ?thesis
    by (simp add: TrustRootSnapshotV1_new_def)
qed

theorem trust_root_order_independent_witness:
  "TrustRootSnapshotV1_new sample_crates TD_Shadow sample_environment 1 50
     [sample_issuer_key, sample_issuer_key\<lparr>ik_key_id := ''key:2''\<rparr>] = Ok sample_root"
  by (rule trust_root_order_independent [OF _ sample_root_new]) simp

end
