(* ===== verification/IDR_Command.thy ===== *)
theory IDR_Command
  imports IDR_Production
begin

text \<open>
  The data of the trust-chain control plane (\<open>idr-runtime/src/trust_chain.rs\<close>): run and execution
  states, authoritative records and their references, the commands with their envelope, and the
  validation of an envelope before anything else looks at it.
\<close>

section \<open>Errors\<close>

datatype IdrRuntimeErrorV1 =
    RE_InvalidCommand
  | RE_AggregateVersionConflict
  | RE_IdempotencyConflict
  | RE_IntegrityViolation
  | RE_MissingRequiredProof
  | RE_ProofReplay
  | RE_MissingDependency
  | RE_BindingMismatch
  | RE_ActionNotAdmitted
  | RE_ActionDerivationMismatch
  | RE_ExecutionAlreadyReserved
  | RE_InvalidExecutionTransition
  | RE_ExecutionLeaseExpired
  | RE_ExpiredAuthority
  | RE_ExecutionRequiresReconciliation
  | RE_ActionInvalidated
  | RE_InvalidRunTransition
  | RE_LineageMismatch
  | RE_PrincipalMismatch
  | RE_Serialization
  | RE_Repository string
  | RE_Protocol ProductionProtocolErrorV1
  | RE_InvalidReference ReferenceValidationErrorV1

text \<open>The \<open>From\<close> conversions the \<open>?\<close> operator applies.\<close>

abbreviation from_protocol :: "(ProductionProtocolErrorV1, 'a) result \<Rightarrow> (IdrRuntimeErrorV1, 'a) result" where
  "from_protocol \<equiv> map_err RE_Protocol"

abbreviation from_reference :: "(ReferenceValidationErrorV1, 'a) result \<Rightarrow> (IdrRuntimeErrorV1, 'a) result" where
  "from_reference \<equiv> map_err RE_InvalidReference"

section \<open>States\<close>

datatype IdrRunStateV1 =
    RS_Pending
  | RS_Running
  | RS_WaitingInput
  | RS_WaitingAuthorization
  | RS_WaitingDependency
  | RS_ReconciliationRequired
  | RS_Succeeded
  | RS_Rejected
  | RS_Failed
  | RS_Cancelled
  | RS_TimedOut
  | RS_Invalidated

datatype ExecutionAggregateStateV1 =
    ES_None
  | ES_ReservationCreated
  | ES_PermitIssued
  | ES_PermitDelivered
  | ES_DispatchStarted
  | ES_AwaitingProvider
  | ES_ReconciliationRequired
  | ES_Succeeded
  | ES_Failed
  | ES_Rejected
  | ES_Cancelled
  | ES_Compensated
  | ES_Expired

definition execution_is_terminal :: "ExecutionAggregateStateV1 \<Rightarrow> bool" where
  "execution_is_terminal s \<longleftrightarrow>
     s \<in> {ES_Succeeded, ES_Failed, ES_Rejected, ES_Cancelled, ES_Compensated, ES_Expired}"

section \<open>Records\<close>

record AuthoritativeRecordRefV1 =
  rr_record_id :: uuid
  rr_revision :: u64
  rr_candidate_kind :: CandidateKindV1
  rr_trust_domain :: TrustDomainV1
  rr_environment_ref :: ReferenceV1
  rr_valid_from :: u64
  rr_valid_until :: u64
  rr_record_digest :: string

definition AuthoritativeRecordRefV1_json :: "crates \<Rightarrow> AuthoritativeRecordRefV1 \<Rightarrow> json" where
  "AuthoritativeRecordRefV1_json X r = json_object [
     (''record_id'', uuid_json X (rr_record_id r)),
     (''revision'', ju64 (rr_revision r)),
     (''candidate_kind'', candidate_kind_json (rr_candidate_kind r)),
     (''trust_domain'', TrustDomainV1_json (rr_trust_domain r)),
     (''environment_ref'', JStr (rr_environment_ref r)),
     (''valid_from'', ju64 (rr_valid_from r)),
     (''valid_until'', ju64 (rr_valid_until r)),
     (''record_digest'', JStr (rr_record_digest r))]"

record AuthoritativeRecordV1 =
  ar_record_ref :: AuthoritativeRecordRefV1
  ar_trust_domain :: TrustDomainV1
  ar_environment_ref :: ReferenceV1
  ar_run_id :: uuid
  ar_turn_id :: uuid
  ar_tenant_ref :: ReferenceV1
  ar_subject_ref :: ReferenceV1
  ar_policy_revision_ref :: ReferenceV1
  ar_candidate_id :: uuid
  ar_candidate_digest :: string
  ar_payload :: json
  ar_issued_by_command_id :: uuid
  ar_issued_at :: u64
  ar_valid_from :: u64
  ar_valid_until :: u64
  ar_proof_ids :: "uuid list"

record AuthoritativeRecordDigestMaterialV1 =
  dm_record_id :: uuid
  dm_revision :: u64
  dm_candidate_kind :: CandidateKindV1
  dm_trust_domain :: TrustDomainV1
  dm_environment_ref :: ReferenceV1
  dm_valid_from :: u64
  dm_valid_until :: u64
  dm_run_id :: uuid
  dm_turn_id :: uuid
  dm_tenant_ref :: ReferenceV1
  dm_subject_ref :: ReferenceV1
  dm_policy_revision_ref :: ReferenceV1
  dm_candidate_id :: uuid
  dm_candidate_digest :: string
  dm_payload :: json
  dm_issued_by_command_id :: uuid
  dm_issued_at :: u64
  dm_proof_ids :: "uuid list"

definition digest_material_json :: "crates \<Rightarrow> AuthoritativeRecordDigestMaterialV1 \<Rightarrow> json" where
  "digest_material_json X m = json_object [
     (''record_id'', uuid_json X (dm_record_id m)),
     (''revision'', ju64 (dm_revision m)),
     (''candidate_kind'', candidate_kind_json (dm_candidate_kind m)),
     (''trust_domain'', TrustDomainV1_json (dm_trust_domain m)),
     (''environment_ref'', JStr (dm_environment_ref m)),
     (''valid_from'', ju64 (dm_valid_from m)),
     (''valid_until'', ju64 (dm_valid_until m)),
     (''run_id'', uuid_json X (dm_run_id m)),
     (''turn_id'', uuid_json X (dm_turn_id m)),
     (''tenant_ref'', JStr (dm_tenant_ref m)),
     (''subject_ref'', JStr (dm_subject_ref m)),
     (''policy_revision_ref'', JStr (dm_policy_revision_ref m)),
     (''candidate_id'', uuid_json X (dm_candidate_id m)),
     (''candidate_digest'', JStr (dm_candidate_digest m)),
     (''payload'', dm_payload m),
     (''issued_by_command_id'', uuid_json X (dm_issued_by_command_id m)),
     (''issued_at'', ju64 (dm_issued_at m)),
     (''proof_ids'', JArr (map (uuid_json X) (dm_proof_ids m)))]"

section \<open>Commands\<close>

datatype ReconciliationResolutionV1 =
    RR_Succeeded | RR_Failed | RR_Rejected | RR_Compensated | RR_Unknown

datatype IdrCommandV1 =
    StartRun (sr_input: CandidateSubmissionV1)
  | RecordContext (rc_context: CandidateSubmissionV1)
  | RecordIntent (ri_intent: CandidateSubmissionV1)
  | RecordDecision (rd_decision: CandidateSubmissionV1)
  | RecordTurn (rt_turn: CandidateSubmissionV1)
  | RecordResponse (rp_response: CandidateSubmissionV1)
  | ConsumeResponseSend (crs_response_ref: AuthoritativeRecordRefV1) (crs_rendered_bytes: "u8 list")
      (crs_channel_ref: ReferenceV1) (crs_audience_ref: ReferenceV1) (crs_send_nonce: string)
  | RecordAction (ra_action: CandidateSubmissionV1)
  | AdmitAction (aa_action_ref: AuthoritativeRecordRefV1) (aa_action_digest: string)
      (aa_provider_ref: ReferenceV1) (aa_owner_ref: ReferenceV1) (aa_idempotency_key: string)
  | ReserveExecution (re_action_admission_ref: AuthoritativeRecordRefV1)
      (re_action_ref: AuthoritativeRecordRefV1) (re_action_digest: string)
      (re_provider_ref: ReferenceV1) (re_owner_ref: ReferenceV1) (re_idempotency_key: string)
      (re_attempt: u32) (re_lease_until: u64) (re_dispatch_nonce: string)
  | RecoverPermit (rcp_reservation_id: uuid)
  | DeliverPermit (dp_reservation_id: uuid) (dp_permit_id: uuid)
  | StartDispatch (sd_reservation_id: uuid) (sd_permit_id: uuid)
  | CommitExecutionReceipt (cer_receipt: CandidateSubmissionV1) (cer_reservation_id: uuid)
      (cer_permit_id: uuid) (cer_provider_ref: ReferenceV1) (cer_dispatch_nonce: string)
      (cer_attempt: u32)
  | ReconcileExecution (rex_reservation_id: uuid) (rex_resolution: ReconciliationResolutionV1)
  | ExpireExecutionLease (eel_reservation_id: uuid)
  | InvalidateRecord (ir_record_ref: AuthoritativeRecordRefV1) (ir_reason_ref: ReferenceV1)
  | RecordOutcome (ro_outcome: CandidateSubmissionV1)
  | ProposeHumanModelCandidate (phm_candidate: CandidateSubmissionV1)
  | RecordHumanModelPromotion (rhm_decision: CandidateSubmissionV1)
      (rhm_source_candidate_ref: AuthoritativeRecordRefV1)
  | PromoteHumanModelAssertion (pha_assertion: CandidateSubmissionV1)
      (pha_promotion_decision_ref: AuthoritativeRecordRefV1)
  | CorrectHumanModelAssertion (cha_assertion_ref: AuthoritativeRecordRefV1)
      (cha_correction: CandidateSubmissionV1)
  | CancelRun (cr_reason_ref: ReferenceV1)

definition IDR_MAX_RENDERED_BYTES_V1 :: nat where
  "IDR_MAX_RENDERED_BYTES_V1 = 1048576"

definition IDR_MAX_IDEMPOTENCY_KEY_BYTES_V1 :: nat where
  "IDR_MAX_IDEMPOTENCY_KEY_BYTES_V1 = 256"

definition idempotency_key_out_of_budget :: "string \<Rightarrow> bool" where
  "idempotency_key_out_of_budget key \<longleftrightarrow>
     key = [] \<or> length key > IDR_MAX_IDEMPOTENCY_KEY_BYTES_V1 \<or> has_control key"

fun validate_budgets :: "IdrCommandV1 \<Rightarrow> (IdrRuntimeErrorV1, unit) result" where
  "validate_budgets (ConsumeResponseSend response_ref rendered_bytes channel_ref audience_ref send_nonce) =
     (if length rendered_bytes > IDR_MAX_RENDERED_BYTES_V1 then Err RE_InvalidCommand else Ok ())"
| "validate_budgets (AdmitAction action_ref action_digest provider_ref owner_ref idempotency_key) =
     (if idempotency_key_out_of_budget idempotency_key then Err RE_InvalidCommand else Ok ())"
| "validate_budgets (ReserveExecution admission_ref action_ref action_digest provider_ref owner_ref
       idempotency_key attempt lease_until dispatch_nonce) =
     (if idempotency_key_out_of_budget idempotency_key then Err RE_InvalidCommand else Ok ())"
| "validate_budgets _ = Ok ()"

fun command_candidate :: "IdrCommandV1 \<Rightarrow> CandidateSubmissionV1 option" where
  "command_candidate (StartRun input) = Some input"
| "command_candidate (RecordContext context) = Some context"
| "command_candidate (RecordIntent intent) = Some intent"
| "command_candidate (RecordDecision decision) = Some decision"
| "command_candidate (RecordTurn turn) = Some turn"
| "command_candidate (RecordResponse response) = Some response"
| "command_candidate (RecordAction action) = Some action"
| "command_candidate (CommitExecutionReceipt receipt _ _ _ _ _) = Some receipt"
| "command_candidate (RecordOutcome outcome) = Some outcome"
| "command_candidate (ProposeHumanModelCandidate candidate) = Some candidate"
| "command_candidate (RecordHumanModelPromotion decision _) = Some decision"
| "command_candidate (PromoteHumanModelAssertion assertion _) = Some assertion"
| "command_candidate (CorrectHumanModelAssertion _ correction) = Some correction"
| "command_candidate _ = None"

fun expected_candidate_kind :: "IdrCommandV1 \<Rightarrow> CandidateKindV1 option" where
  "expected_candidate_kind (StartRun _) = Some CK_CanonicalInput"
| "expected_candidate_kind (RecordContext _) = Some CK_ContextSnapshot"
| "expected_candidate_kind (RecordIntent _) = Some CK_Intent"
| "expected_candidate_kind (RecordDecision _) = Some CK_Decision"
| "expected_candidate_kind (RecordTurn _) = Some CK_TurnCoordination"
| "expected_candidate_kind (RecordResponse _) = Some CK_Response"
| "expected_candidate_kind (RecordAction _) = Some CK_Action"
| "expected_candidate_kind (CommitExecutionReceipt _ _ _ _ _ _) = Some CK_ExecutionReceipt"
| "expected_candidate_kind (RecordOutcome _) = Some CK_Outcome"
| "expected_candidate_kind (ProposeHumanModelCandidate _) = Some CK_HumanModelCandidate"
| "expected_candidate_kind (RecordHumanModelPromotion _ _) = Some CK_HumanModelPromotionDecision"
| "expected_candidate_kind (PromoteHumanModelAssertion _ _) = Some CK_HumanModelAssertion"
| "expected_candidate_kind (CorrectHumanModelAssertion _ _) = Some CK_HumanModelAssertion"
| "expected_candidate_kind _ = None"

definition payload_str :: "json \<Rightarrow> string \<Rightarrow> string option" where
  "payload_str payload field = Option.bind (json_get payload field) json_as_str"

fun command_required_proof_kinds :: "IdrCommandV1 \<Rightarrow> ProductionProofKindV1 set" where
  "command_required_proof_kinds (StartRun _) = {PK_InputAdmission}"
| "command_required_proof_kinds (RecordContext _) = {PK_ContextSnapshot}"
| "command_required_proof_kinds (RecordIntent _) = {PK_IntentFastPathAdmission}"
| "command_required_proof_kinds (RecordDecision _) = {PK_DecisionNecessityAdmission}"
| "command_required_proof_kinds (RecordTurn _) = {PK_TurnCoordinationAdmission}"
| "command_required_proof_kinds (RecordResponse _) = {}"
| "command_required_proof_kinds (ConsumeResponseSend _ _ _ _ _) = {PK_ResponsePolicy, PK_ResponseAdmission}"
| "command_required_proof_kinds (RecordAction _) = {}"
| "command_required_proof_kinds (AdmitAction _ _ _ _ _) =
     {PK_Capability, PK_Authority, PK_Policy, PK_ExactAuthorization, PK_ActionAdmission}"
| "command_required_proof_kinds (ReserveExecution _ _ _ _ _ _ _ _ _) = {PK_ExecutionPermit}"
| "command_required_proof_kinds (RecoverPermit _) = {PK_ExecutionPermit}"
| "command_required_proof_kinds (DeliverPermit _ _) = {PK_ExecutionPermit}"
| "command_required_proof_kinds (StartDispatch _ _) = {PK_ExecutionPermit}"
| "command_required_proof_kinds (ExpireExecutionLease _) = {PK_ExecutionPermit}"
| "command_required_proof_kinds (CancelRun _) = {PK_Authority}"
| "command_required_proof_kinds (CommitExecutionReceipt _ _ _ _ _ _) = {PK_ProviderReceipt}"
| "command_required_proof_kinds (ReconcileExecution _ _) = {PK_ProviderReceipt}"
| "command_required_proof_kinds (InvalidateRecord _ _) = {PK_Policy}"
| "command_required_proof_kinds (RecordOutcome _) = {PK_OutcomeObservation}"
| "command_required_proof_kinds (ProposeHumanModelCandidate _) = {PK_OutcomeObservation}"
| "command_required_proof_kinds (RecordHumanModelPromotion decision _) =
     {PK_HumanModelPromotion} \<union>
     (if payload_str (cs_payload decision) ''outcome'' = Some ''promote_user_confirmed''
      then {PK_HumanModelUserConfirmation} else {}) \<union>
     (if payload_str (cs_payload decision) ''outcome'' = Some ''promote_outcome_supported''
      then {PK_OutcomeObservation} else {})"
| "command_required_proof_kinds (PromoteHumanModelAssertion _ _) = {PK_HumanModelPromotion}"
| "command_required_proof_kinds (CorrectHumanModelAssertion _ _) = {PK_HumanModelCorrection}"

fun explicit_digests :: "IdrCommandV1 \<Rightarrow> string list" where
  "explicit_digests (ConsumeResponseSend _ _ _ _ send_nonce) = [send_nonce]"
| "explicit_digests (AdmitAction _ action_digest _ _ _) = [action_digest]"
| "explicit_digests (ReserveExecution _ _ action_digest _ _ _ _ _ dispatch_nonce) =
     [action_digest, dispatch_nonce]"
| "explicit_digests (CommitExecutionReceipt _ _ _ _ dispatch_nonce _) = [dispatch_nonce]"
| "explicit_digests _ = []"

fun ReconciliationResolutionV1_json :: "ReconciliationResolutionV1 \<Rightarrow> json" where
  "ReconciliationResolutionV1_json RR_Succeeded = JStr ''succeeded''"
| "ReconciliationResolutionV1_json RR_Failed = JStr ''failed''"
| "ReconciliationResolutionV1_json RR_Rejected = JStr ''rejected''"
| "ReconciliationResolutionV1_json RR_Compensated = JStr ''compensated''"
| "ReconciliationResolutionV1_json RR_Unknown = JStr ''unknown''"

text \<open>The adjacently tagged representation of a command.\<close>

definition tagged :: "string \<Rightarrow> (string \<times> json) list \<Rightarrow> json" where
  "tagged command content = json_object [(''command'', JStr command), (''payload'', json_object content)]"

fun IdrCommandV1_json :: "crates \<Rightarrow> IdrCommandV1 \<Rightarrow> json" where
  "IdrCommandV1_json X (StartRun input) =
     tagged ''start_run'' [(''input'', CandidateSubmissionV1_json X input)]"
| "IdrCommandV1_json X (RecordContext context) =
     tagged ''record_context'' [(''context'', CandidateSubmissionV1_json X context)]"
| "IdrCommandV1_json X (RecordIntent intent) =
     tagged ''record_intent'' [(''intent'', CandidateSubmissionV1_json X intent)]"
| "IdrCommandV1_json X (RecordDecision decision) =
     tagged ''record_decision'' [(''decision'', CandidateSubmissionV1_json X decision)]"
| "IdrCommandV1_json X (RecordTurn turn) =
     tagged ''record_turn'' [(''turn'', CandidateSubmissionV1_json X turn)]"
| "IdrCommandV1_json X (RecordResponse response) =
     tagged ''record_response'' [(''response'', CandidateSubmissionV1_json X response)]"
| "IdrCommandV1_json X (ConsumeResponseSend response_ref rendered_bytes channel_ref audience_ref send_nonce) =
     tagged ''consume_response_send'' [
       (''response_ref'', AuthoritativeRecordRefV1_json X response_ref),
       (''rendered_bytes'', JArr (map (\<lambda>b. jint (uint b)) rendered_bytes)),
       (''channel_ref'', JStr channel_ref),
       (''audience_ref'', JStr audience_ref),
       (''send_nonce'', JStr send_nonce)]"
| "IdrCommandV1_json X (RecordAction action) =
     tagged ''record_action'' [(''action'', CandidateSubmissionV1_json X action)]"
| "IdrCommandV1_json X (AdmitAction action_ref action_digest provider_ref owner_ref idempotency_key) =
     tagged ''admit_action'' [
       (''action_ref'', AuthoritativeRecordRefV1_json X action_ref),
       (''action_digest'', JStr action_digest),
       (''provider_ref'', JStr provider_ref),
       (''owner_ref'', JStr owner_ref),
       (''idempotency_key'', JStr idempotency_key)]"
| "IdrCommandV1_json X (ReserveExecution admission_ref action_ref action_digest provider_ref owner_ref
       idempotency_key attempt lease_until dispatch_nonce) =
     tagged ''reserve_execution'' [
       (''action_admission_ref'', AuthoritativeRecordRefV1_json X admission_ref),
       (''action_ref'', AuthoritativeRecordRefV1_json X action_ref),
       (''action_digest'', JStr action_digest),
       (''provider_ref'', JStr provider_ref),
       (''owner_ref'', JStr owner_ref),
       (''idempotency_key'', JStr idempotency_key),
       (''attempt'', jint (uint attempt)),
       (''lease_until'', ju64 lease_until),
       (''dispatch_nonce'', JStr dispatch_nonce)]"
| "IdrCommandV1_json X (RecoverPermit reservation_id) =
     tagged ''recover_permit'' [(''reservation_id'', uuid_json X reservation_id)]"
| "IdrCommandV1_json X (DeliverPermit reservation_id permit_id) =
     tagged ''deliver_permit'' [
       (''reservation_id'', uuid_json X reservation_id), (''permit_id'', uuid_json X permit_id)]"
| "IdrCommandV1_json X (StartDispatch reservation_id permit_id) =
     tagged ''start_dispatch'' [
       (''reservation_id'', uuid_json X reservation_id), (''permit_id'', uuid_json X permit_id)]"
| "IdrCommandV1_json X (CommitExecutionReceipt receipt reservation_id permit_id provider_ref
       dispatch_nonce attempt) =
     tagged ''commit_execution_receipt'' [
       (''receipt'', CandidateSubmissionV1_json X receipt),
       (''reservation_id'', uuid_json X reservation_id),
       (''permit_id'', uuid_json X permit_id),
       (''provider_ref'', JStr provider_ref),
       (''dispatch_nonce'', JStr dispatch_nonce),
       (''attempt'', jint (uint attempt))]"
| "IdrCommandV1_json X (ReconcileExecution reservation_id resolution) =
     tagged ''reconcile_execution'' [
       (''reservation_id'', uuid_json X reservation_id),
       (''resolution'', ReconciliationResolutionV1_json resolution)]"
| "IdrCommandV1_json X (ExpireExecutionLease reservation_id) =
     tagged ''expire_execution_lease'' [(''reservation_id'', uuid_json X reservation_id)]"
| "IdrCommandV1_json X (InvalidateRecord record_ref reason_ref) =
     tagged ''invalidate_record'' [
       (''record_ref'', AuthoritativeRecordRefV1_json X record_ref), (''reason_ref'', JStr reason_ref)]"
| "IdrCommandV1_json X (RecordOutcome outcome) =
     tagged ''record_outcome'' [(''outcome'', CandidateSubmissionV1_json X outcome)]"
| "IdrCommandV1_json X (ProposeHumanModelCandidate candidate) =
     tagged ''propose_human_model_candidate'' [(''candidate'', CandidateSubmissionV1_json X candidate)]"
| "IdrCommandV1_json X (RecordHumanModelPromotion decision source_candidate_ref) =
     tagged ''record_human_model_promotion'' [
       (''decision'', CandidateSubmissionV1_json X decision),
       (''source_candidate_ref'', AuthoritativeRecordRefV1_json X source_candidate_ref)]"
| "IdrCommandV1_json X (PromoteHumanModelAssertion assertion promotion_decision_ref) =
     tagged ''promote_human_model_assertion'' [
       (''assertion'', CandidateSubmissionV1_json X assertion),
       (''promotion_decision_ref'', AuthoritativeRecordRefV1_json X promotion_decision_ref)]"
| "IdrCommandV1_json X (CorrectHumanModelAssertion assertion_ref correction) =
     tagged ''correct_human_model_assertion'' [
       (''assertion_ref'', AuthoritativeRecordRefV1_json X assertion_ref),
       (''correction'', CandidateSubmissionV1_json X correction)]"
| "IdrCommandV1_json X (CancelRun reason_ref) =
     tagged ''cancel_run'' [(''reason_ref'', JStr reason_ref)]"

section \<open>Command envelopes\<close>

record IdrCommandEnvelopeV1 =
  ce_command_id :: uuid
  ce_trust_domain :: TrustDomainV1
  ce_environment_ref :: ReferenceV1
  ce_run_id :: uuid
  ce_expected_aggregate_version :: u64
  ce_actor_ref :: ReferenceV1
  ce_caller_ref :: ReferenceV1
  ce_tenant_ref :: ReferenceV1
  ce_scope_ref :: ReferenceV1
  ce_purpose_ref :: ReferenceV1
  ce_policy_revision_ref :: ReferenceV1
  ce_correlation_ref :: ReferenceV1
  ce_causation_ref :: ReferenceV1
  ce_command :: IdrCommandV1
  ce_proofs :: "ProductionProofEnvelopeV1 list"

fun validate_envelope_proofs ::
  "TrustDomainV1 \<Rightarrow> ProductionProofEnvelopeV1 list \<Rightarrow> uuid set \<Rightarrow> string set \<Rightarrow>
   (IdrRuntimeErrorV1, unit) result" where
  "validate_envelope_proofs d [] proof_ids nonces = Ok ()"
| "validate_envelope_proofs d (proof1 # proofs) proof_ids nonces =
     and_then (from_protocol (ProductionProofEnvelopeV1_validate_shape proof1)) (\<lambda>_.
     let claims = pe_claims proof1 in
     if pc_trust_domain claims \<noteq> d \<or> pc_proof_id claims \<in> proof_ids \<or> pc_nonce claims \<in> nonces
     then Err RE_ProofReplay
     else validate_envelope_proofs d proofs
            (insert (pc_proof_id claims) proof_ids) (insert (pc_nonce claims) nonces))"

text \<open>
  \<open>expected_candidate_kind().unwrap()\<close> never panics: a command with a candidate has an expected
  kind (lemma \<open>expected_kind_of_candidate\<close>).
\<close>

definition validate_envelope_candidate ::
  "crates \<Rightarrow> IdrCommandEnvelopeV1 \<Rightarrow> (IdrRuntimeErrorV1, unit) result" where
  "validate_envelope_candidate X e =
     (case command_candidate (ce_command e) of
        None \<Rightarrow> Ok ()
      | Some candidate \<Rightarrow>
          and_then (from_protocol (CandidateSubmissionV1_validate X candidate)) (\<lambda>_.
          if cs_run_id candidate \<noteq> ce_run_id e \<or>
             cs_tenant_ref candidate \<noteq> ce_tenant_ref e \<or>
             cs_scope_ref candidate \<noteq> ce_scope_ref e \<or>
             cs_purpose_ref candidate \<noteq> ce_purpose_ref e \<or>
             cs_policy_revision_ref candidate \<noteq> ce_policy_revision_ref e \<or>
             Some (cs_candidate_kind candidate) \<noteq> expected_candidate_kind (ce_command e)
          then Err RE_InvalidCommand else Ok ()))"

definition IdrCommandEnvelopeV1_validate ::
  "crates \<Rightarrow> IdrCommandEnvelopeV1 \<Rightarrow> (IdrRuntimeErrorV1, unit) result" where
  "IdrCommandEnvelopeV1_validate X e =
     (if uuid_is_nil (ce_command_id e) \<or> uuid_is_nil (ce_run_id e) \<or>
         ce_expected_aggregate_version e > 9007199254740991 \<or> length (ce_proofs e) > 32
      then Err RE_InvalidCommand
      else
        and_then (validate_envelope_proofs (ce_trust_domain e) (ce_proofs e) {} {}) (\<lambda>_.
        and_then (validate_envelope_candidate X e) (\<lambda>_.
        and_then (for_each (\<lambda>digest. if valid_digest digest then Ok () else Err RE_InvalidCommand)
                    (explicit_digests (ce_command e))) (\<lambda>_.
        validate_budgets (ce_command e)))))"

definition IdrCommandEnvelopeV1_new ::
  "crates \<Rightarrow> uuid \<Rightarrow> TrustDomainV1 \<Rightarrow> ReferenceV1 \<Rightarrow> uuid \<Rightarrow> u64 \<Rightarrow> ReferenceV1 \<Rightarrow> ReferenceV1 \<Rightarrow>
   ReferenceV1 \<Rightarrow> ReferenceV1 \<Rightarrow> ReferenceV1 \<Rightarrow> ReferenceV1 \<Rightarrow> ReferenceV1 \<Rightarrow> ReferenceV1 \<Rightarrow>
   IdrCommandV1 \<Rightarrow> ProductionProofEnvelopeV1 list \<Rightarrow> (IdrRuntimeErrorV1, IdrCommandEnvelopeV1) result" where
  "IdrCommandEnvelopeV1_new X fresh_id trust_domain environment_ref run_id expected_version actor caller
       tenant scope purpose policy correlation causation command proofs =
     (let e = \<lparr>
        ce_command_id = fresh_id,
        ce_trust_domain = trust_domain,
        ce_environment_ref = environment_ref,
        ce_run_id = run_id,
        ce_expected_aggregate_version = expected_version,
        ce_actor_ref = actor,
        ce_caller_ref = caller,
        ce_tenant_ref = tenant,
        ce_scope_ref = scope,
        ce_purpose_ref = purpose,
        ce_policy_revision_ref = policy,
        ce_correlation_ref = correlation,
        ce_causation_ref = causation,
        ce_command = command,
        ce_proofs = proofs\<rparr> in
      and_then (IdrCommandEnvelopeV1_validate X e) (\<lambda>_. Ok e))"

definition IdrCommandEnvelopeV1_with_proofs ::
  "crates \<Rightarrow> IdrCommandEnvelopeV1 \<Rightarrow> ProductionProofEnvelopeV1 list \<Rightarrow>
   (IdrRuntimeErrorV1, IdrCommandEnvelopeV1) result" where
  "IdrCommandEnvelopeV1_with_proofs X e proofs =
     (let e = e\<lparr>ce_proofs := proofs\<rparr> in
      and_then (IdrCommandEnvelopeV1_validate X e) (\<lambda>_. Ok e))"

text \<open>
  The fields shared by the serialization of \<open>UnsignedCommandEnvelopeV1\<close> and of the envelope,
  which appends the proofs.
\<close>

definition unsigned_envelope_fields :: "crates \<Rightarrow> IdrCommandEnvelopeV1 \<Rightarrow> (string \<times> json) list" where
  "unsigned_envelope_fields X e = [
     (''command_id'', uuid_json X (ce_command_id e)),
     (''trust_domain'', TrustDomainV1_json (ce_trust_domain e)),
     (''environment_ref'', JStr (ce_environment_ref e)),
     (''run_id'', uuid_json X (ce_run_id e)),
     (''expected_aggregate_version'', ju64 (ce_expected_aggregate_version e)),
     (''actor_ref'', JStr (ce_actor_ref e)),
     (''caller_ref'', JStr (ce_caller_ref e)),
     (''tenant_ref'', JStr (ce_tenant_ref e)),
     (''scope_ref'', JStr (ce_scope_ref e)),
     (''purpose_ref'', JStr (ce_purpose_ref e)),
     (''policy_revision_ref'', JStr (ce_policy_revision_ref e)),
     (''correlation_ref'', JStr (ce_correlation_ref e)),
     (''causation_ref'', JStr (ce_causation_ref e)),
     (''command'', IdrCommandV1_json X (ce_command e))]"

definition UnsignedCommandEnvelopeV1_json :: "crates \<Rightarrow> IdrCommandEnvelopeV1 \<Rightarrow> json" where
  "UnsignedCommandEnvelopeV1_json X e = json_object (unsigned_envelope_fields X e)"

definition IdrCommandEnvelopeV1_json :: "crates \<Rightarrow> IdrCommandEnvelopeV1 \<Rightarrow> json" where
  "IdrCommandEnvelopeV1_json X e = json_object (unsigned_envelope_fields X e @
     [(''proofs'', JArr (map (ProductionProofEnvelopeV1_json X) (ce_proofs e)))])"

definition IdrCommandEnvelopeV1_canonical_digest ::
  "crates \<Rightarrow> IdrCommandEnvelopeV1 \<Rightarrow> (IdrRuntimeErrorV1, string) result" where
  "IdrCommandEnvelopeV1_canonical_digest X e =
     from_protocol (canonical_digest_v1 X ''idr-command-envelope-v1'' (IdrCommandEnvelopeV1_json X e))"

definition proof_subject ::
  "crates \<Rightarrow> IdrCommandEnvelopeV1 \<Rightarrow> (IdrRuntimeErrorV1, ReferenceV1 \<times> string) result" where
  "proof_subject X e =
     and_then (from_protocol (canonical_digest_v1 X ''idr-unsigned-command-envelope-v1''
                 (UnsignedCommandEnvelopeV1_json X e))) (\<lambda>digest.
     and_then (from_reference (ReferenceV1_new (''command:'' @ x_uuid_display X (ce_command_id e)))) (\<lambda>r.
     Ok (r, digest)))"

definition envelope_required_proof_kinds :: "IdrCommandEnvelopeV1 \<Rightarrow> ProductionProofKindV1 set" where
  "envelope_required_proof_kinds e =
     insert PK_CallerAuthentication (command_required_proof_kinds (ce_command e))"

section \<open>Lemmas\<close>

lemma expected_kind_of_candidate:
  "command_candidate c = Some candidate \<Longrightarrow> expected_candidate_kind c \<noteq> None"
  by (cases c) simp_all

lemma caller_authentication_not_command_specific:
  "PK_CallerAuthentication \<notin> command_required_proof_kinds c"
  by (cases c) simp_all

lemma ball_neq_commute: "(\<forall>x \<in> A. f p \<noteq> f x) = (\<forall>x \<in> A. f x \<noteq> f p)"
  by auto

lemma validate_envelope_proofs_Ok:
  "validate_envelope_proofs d ps ids ns = Ok () \<longleftrightarrow>
     (\<forall>p \<in> set ps. ProductionProofEnvelopeV1_validate_shape p = Ok () \<and>
        pc_trust_domain (pe_claims p) = d \<and> pc_proof_id (pe_claims p) \<notin> ids \<and>
        pc_nonce (pe_claims p) \<notin> ns) \<and>
     distinct (map (pc_proof_id \<circ> pe_claims) ps) \<and> distinct (map (pc_nonce \<circ> pe_claims) ps)"
proof (induction ps arbitrary: ids ns)
  case (Cons p ps)
  have step: "validate_envelope_proofs d (p # ps) ids ns = Ok () \<longleftrightarrow>
      ProductionProofEnvelopeV1_validate_shape p = Ok () \<and> pc_trust_domain (pe_claims p) = d \<and>
      pc_proof_id (pe_claims p) \<notin> ids \<and> pc_nonce (pe_claims p) \<notin> ns \<and>
      validate_envelope_proofs d ps (insert (pc_proof_id (pe_claims p)) ids)
        (insert (pc_nonce (pe_claims p)) ns) = Ok ()"
    by (auto simp: and_then_eq_Ok map_err_eq_Ok Let_def)
  show ?case unfolding step Cons.IH
    by (simp add: image_iff o_def ball_conj_distrib ball_neq_commute [where p = p and f = "\<lambda>p. pc_proof_id (pe_claims p)"]
        ball_neq_commute [where p = p and f = "\<lambda>p. pc_nonce (pe_claims p)"]) argo
qed simp

text \<open>The serializations determine the values they come from.\<close>

lemma CandidateSubmissionV1_json_inj:
  "uuid_display_injective X \<Longrightarrow>
     CandidateSubmissionV1_json X c = CandidateSubmissionV1_json X c' \<longleftrightarrow> c = c'"
  by (auto simp: CandidateSubmissionV1_json_def json_object_eq_iff WireCompatibilityV1_json_inj uuid_json_inj)

lemma AuthoritativeRecordRefV1_json_inj:
  "uuid_display_injective X \<Longrightarrow>
     AuthoritativeRecordRefV1_json X r = AuthoritativeRecordRefV1_json X r' \<longleftrightarrow> r = r'"
  by (auto simp: AuthoritativeRecordRefV1_json_def json_object_eq_iff uuid_json_inj)

lemma tagged_eq_iff: "tagged t fs = tagged t' fs' \<longleftrightarrow> t = t' \<and> json_object fs = json_object fs'"
  by (auto simp: tagged_def json_object_eq_iff)

lemma byte_list_json_inj: "map (\<lambda>b. jint (uint (b :: u8))) xs = map (\<lambda>b. jint (uint b)) ys \<longleftrightarrow> xs = ys"
  by (rule inj_map_eq_map) (simp add: inj_def word_uint_eq_iff [symmetric])

lemma ReconciliationResolutionV1_json_inj:
  "ReconciliationResolutionV1_json a = ReconciliationResolutionV1_json b \<longleftrightarrow> a = b"
  by (cases a; cases b) simp_all

lemmas command_json_eq_iffs =
  CandidateSubmissionV1_json_inj AuthoritativeRecordRefV1_json_inj tagged_eq_iff json_object_eq_iff
  byte_list_json_inj ReconciliationResolutionV1_json_inj uuid_json_inj

fun command_tag :: "IdrCommandV1 \<Rightarrow> nat" where
  "command_tag (StartRun _) = 0"
| "command_tag (RecordContext _) = 1"
| "command_tag (RecordIntent _) = 2"
| "command_tag (RecordDecision _) = 3"
| "command_tag (RecordTurn _) = 4"
| "command_tag (RecordResponse _) = 5"
| "command_tag (ConsumeResponseSend _ _ _ _ _) = 6"
| "command_tag (RecordAction _) = 7"
| "command_tag (AdmitAction _ _ _ _ _) = 8"
| "command_tag (ReserveExecution _ _ _ _ _ _ _ _ _) = 9"
| "command_tag (RecoverPermit _) = 10"
| "command_tag (DeliverPermit _ _) = 11"
| "command_tag (StartDispatch _ _) = 12"
| "command_tag (CommitExecutionReceipt _ _ _ _ _ _) = 13"
| "command_tag (ReconcileExecution _ _) = 14"
| "command_tag (ExpireExecutionLease _) = 15"
| "command_tag (InvalidateRecord _ _) = 16"
| "command_tag (RecordOutcome _) = 17"
| "command_tag (ProposeHumanModelCandidate _) = 18"
| "command_tag (RecordHumanModelPromotion _ _) = 19"
| "command_tag (PromoteHumanModelAssertion _ _) = 20"
| "command_tag (CorrectHumanModelAssertion _ _) = 21"
| "command_tag (CancelRun _) = 22"

definition command_tags :: "string list" where
  "command_tags = [''start_run'', ''record_context'', ''record_intent'', ''record_decision'',
     ''record_turn'', ''record_response'', ''consume_response_send'', ''record_action'',
     ''admit_action'', ''reserve_execution'', ''recover_permit'', ''deliver_permit'',
     ''start_dispatch'', ''commit_execution_receipt'', ''reconcile_execution'',
     ''expire_execution_lease'', ''invalidate_record'', ''record_outcome'',
     ''propose_human_model_candidate'', ''record_human_model_promotion'',
     ''promote_human_model_assertion'', ''correct_human_model_assertion'', ''cancel_run'']"

lemma command_tags_distinct: "distinct command_tags" "length command_tags = 23"
  by (simp_all add: command_tags_def)

lemma command_tag_less: "command_tag c < 23"
  by (cases c) simp_all

lemma IdrCommandV1_json_tag: "\<exists>fs. IdrCommandV1_json X c = tagged (command_tags ! command_tag c) fs"
  by (cases c) (auto simp: command_tags_def)

lemma IdrCommandV1_json_same_tag:
  assumes "IdrCommandV1_json X c = IdrCommandV1_json X c'"
  shows "command_tag c = command_tag c'"
proof -
  obtain fs fs' where "IdrCommandV1_json X c = tagged (command_tags ! command_tag c) fs"
    "IdrCommandV1_json X c' = tagged (command_tags ! command_tag c') fs'"
    using IdrCommandV1_json_tag by metis
  with assms tagged_eq_iff have "command_tags ! command_tag c = command_tags ! command_tag c'" by metis
  then show ?thesis
    using nth_eq_iff_index_eq [OF command_tags_distinct(1)] command_tag_less
    by (simp add: command_tags_distinct(2))
qed

lemmas tag_neqs = zero_neq_numeral numeral_neq_zero zero_neq_one one_neq_zero one_eq_numeral_iff
  numeral_eq_one_iff numeral_eq_iff num.distinct num.inject False_implies_equals

lemma IdrCommandV1_json_inj:
  assumes U: "uuid_display_injective X"
  shows "IdrCommandV1_json X c = IdrCommandV1_json X c' \<longleftrightarrow> c = c'"
proof
  assume eq: "IdrCommandV1_json X c = IdrCommandV1_json X c'"
  from IdrCommandV1_json_same_tag [OF this] eq show "c = c'"
    by (cases c; cases c';
        (simp only: command_tag.simps tag_neqs)?;
        simp add: command_json_eq_iffs U word_uint_eq_iff [symmetric])
qed simp

lemma AuthoritativeRecordRefV1_json_wf [simp]: "json_wf (AuthoritativeRecordRefV1_json X r)"
  by (simp add: AuthoritativeRecordRefV1_json_def json_wf_object)

lemma CandidateSubmissionV1_json_wf: "json_wf (cs_payload c) \<Longrightarrow> json_wf (CandidateSubmissionV1_json X c)"
  by (simp add: CandidateSubmissionV1_json_def json_wf_object)

definition command_payload_wf :: "IdrCommandV1 \<Rightarrow> bool" where
  "command_payload_wf c \<longleftrightarrow> (case command_candidate c of None \<Rightarrow> True | Some x \<Rightarrow> json_wf (cs_payload x))"

lemma json_wf_tagged: "(\<forall>kv \<in> set fs. json_wf (snd kv)) \<Longrightarrow> json_wf (tagged t fs)"
  by (simp add: tagged_def json_wf_object)

lemma IdrCommandV1_json_wf: "command_payload_wf c \<Longrightarrow> json_wf (IdrCommandV1_json X c)"
proof (cases c)
  case (ReconcileExecution a b)
  then show ?thesis by (cases b) (simp_all add: json_wf_tagged)
qed (simp_all add: json_wf_tagged command_payload_wf_def CandidateSubmissionV1_json_wf)

lemma UnsignedCommandEnvelopeV1_json_wf:
  "command_payload_wf (ce_command e) \<Longrightarrow> json_wf (UnsignedCommandEnvelopeV1_json X e)"
  by (simp add: UnsignedCommandEnvelopeV1_json_def unsigned_envelope_fields_def json_wf_object
      IdrCommandV1_json_wf)

lemma UnsignedCommandEnvelopeV1_json_inj:
  assumes "uuid_display_injective X"
  shows "UnsignedCommandEnvelopeV1_json X e = UnsignedCommandEnvelopeV1_json X e' \<longleftrightarrow>
     e\<lparr>ce_proofs := []\<rparr> = e'\<lparr>ce_proofs := []\<rparr>"
  using assms
  by (cases e; cases e')
    (auto simp: UnsignedCommandEnvelopeV1_json_def unsigned_envelope_fields_def json_object_eq_iff
      IdrCommandV1_json_inj uuid_json_inj)

section \<open>Concrete data\<close>

definition sample_candidate :: "CandidateKindV1 \<Rightarrow> json \<Rightarrow> CandidateSubmissionV1" where
  "sample_candidate kind payload = \<lparr>
     cs_compatibility = WireCompatibilityV1_v1, cs_candidate_id = 11, cs_candidate_kind = kind,
     cs_run_id = 1, cs_turn_id = 2, cs_subject_ref = ''subject:s'', cs_tenant_ref = ''tenant:t'',
     cs_scope_ref = ''scope:s'', cs_purpose_ref = ''purpose:p'', cs_policy_revision_ref = ''policy:1'',
     cs_valid_from = 100, cs_valid_until = 1000, cs_payload = payload\<rparr>"

definition sample_command :: "u64 \<Rightarrow> ReferenceV1 \<Rightarrow> IdrCommandV1 \<Rightarrow> IdrCommandEnvelopeV1" where
  "sample_command version caller command = \<lparr>
     ce_command_id = 21, ce_trust_domain = TD_Shadow, ce_environment_ref = sample_environment,
     ce_run_id = 1, ce_expected_aggregate_version = version, ce_actor_ref = ''actor:a'',
     ce_caller_ref = caller, ce_tenant_ref = ''tenant:t'', ce_scope_ref = ''scope:s'',
     ce_purpose_ref = ''purpose:p'', ce_policy_revision_ref = ''policy:1'',
     ce_correlation_ref = ''correlation:1'', ce_causation_ref = ''causation:1'', ce_command = command,
     ce_proofs = [sample_envelope]\<rparr>"

section \<open>Properties\<close>

text \<open>
  C32: the proof target of a command covers every field of its envelope except the proofs
  themselves: two envelopes with the same canonical target bytes differ at most in their proofs,
  so a proof issued for one command cannot be redirected to another run, version, target record,
  caller or causation chain.
\<close>

theorem proof_target_binds_command:
  assumes "json_strings_delimited X" "uuid_display_injective X"
    and "command_payload_wf (ce_command e)" "command_payload_wf (ce_command e')"
    and "canonical_json_bytes_v1 X (JArr [JStr ''idr-unsigned-command-envelope-v1'', UnsignedCommandEnvelopeV1_json X e]) = Ok b"
    and "canonical_json_bytes_v1 X (JArr [JStr ''idr-unsigned-command-envelope-v1'', UnsignedCommandEnvelopeV1_json X e']) = Ok b"
  shows "e\<lparr>ce_proofs := []\<rparr> = e'\<lparr>ce_proofs := []\<rparr>"
proof -
  let ?j = "\<lambda>e. JArr [JStr ''idr-unsigned-command-envelope-v1'', UnsignedCommandEnvelopeV1_json X e]"
  have "json_wf (?j e)" "json_wf (?j e')" using assms(3,4) UnsignedCommandEnvelopeV1_json_wf by auto
  from uniquely_readableD [OF write_canonical_readable [OF assms(1) this], of b b "[]" "[]"] assms(5,6)
  have "?j e = ?j e'" by (simp add: canonical_json_bytes_v1_def)
  then show ?thesis by (simp add: UnsignedCommandEnvelopeV1_json_inj [OF assms(2)])
qed

theorem proof_target_binds_command_witness:
  "\<exists>b. canonical_json_bytes_v1 sample_crates (JArr [JStr ''idr-unsigned-command-envelope-v1'',
        UnsignedCommandEnvelopeV1_json sample_crates (sample_command 3 ''caller:c'' (RecoverPermit 5))]) = Ok b \<and>
     canonical_json_bytes_v1 sample_crates (JArr [JStr ''idr-unsigned-command-envelope-v1'',
        UnsignedCommandEnvelopeV1_json sample_crates (sample_command 3 ''caller:d'' (RecoverPermit 5))]) \<noteq> Ok b"
proof -
  let ?e = "\<lambda>c. sample_command 3 c (RecoverPermit 5)"
  let ?j = "\<lambda>c. JArr [JStr ''idr-unsigned-command-envelope-v1'', UnsignedCommandEnvelopeV1_json sample_crates (?e c)]"
  have "\<not> is_err (canonical_json_bytes_v1 sample_crates (?j ''caller:c''))" by code_simp
  then obtain b where b: "canonical_json_bytes_v1 sample_crates (?j ''caller:c'') = Ok b"
    by (auto simp: is_err_iff)
  have wf: "command_payload_wf (ce_command (?e c))" for c
    by (simp add: command_payload_wf_def sample_command_def)
  have "(?e ''caller:c'')\<lparr>ce_proofs := []\<rparr> \<noteq> (?e ''caller:d'')\<lparr>ce_proofs := []\<rparr>"
    by (simp add: sample_command_def)
  with proof_target_binds_command [OF sample_strings_delimited sample_uuid_display_injective wf wf b] b
  show ?thesis by blast
qed

text \<open>
  a validated envelope carries at most 32 well-formed proofs of its own trust domain with
  pairwise distinct identifiers and nonces.
\<close>

theorem validated_envelope_proofs:
  assumes "IdrCommandEnvelopeV1_validate X e = Ok ()"
  shows "length (ce_proofs e) \<le> 32 \<and> distinct (map (pc_proof_id \<circ> pe_claims) (ce_proofs e)) \<and>
     distinct (map (pc_nonce \<circ> pe_claims) (ce_proofs e)) \<and>
     (\<forall>p. p \<in> set (ce_proofs e) \<longrightarrow> ProductionProofEnvelopeV1_validate_shape p = Ok () \<and>
        pc_trust_domain (pe_claims p) = ce_trust_domain e)"
  using assms
  by (auto simp: IdrCommandEnvelopeV1_validate_def and_then_eq_Ok validate_envelope_proofs_Ok
      split: if_splits)

theorem validated_envelope_proofs_witness:
  "IdrCommandEnvelopeV1_validate sample_crates (sample_command 3 ''caller:c'' (RecoverPermit 5)) = Ok () \<and>
   pc_trust_domain sample_claims = TD_Shadow"
proof -
  have v: "IdrCommandEnvelopeV1_validate sample_crates (sample_command 3 ''caller:c'' (RecoverPermit 5)) = Ok ()"
    by code_simp
  then show ?thesis
    using validated_envelope_proofs [OF v] by (simp add: sample_command_def sample_envelope_def)
qed

end
