(* ===== verification/IDR_Payload.thy ===== *)
theory IDR_Payload
  imports IDR_Command
begin

text \<open>
  The validation of candidate payloads in the trust-chain engine (\<open>trust_chain.rs\<close>, from
  \<open>receipt_terminal_state\<close> to \<open>validate_human_model_correction\<close>): what a JSON payload must contain
  before a record is issued from it. The recursive cycle check on turn graphs is shown to
  terminate and to accept exactly the acyclic graphs.
\<close>

section \<open>Field access\<close>

definition required_payload_string :: "json \<Rightarrow> string \<Rightarrow> (IdrRuntimeErrorV1, string) result" where
  "required_payload_string payload field =
     (case payload_str payload field of
        None \<Rightarrow> Err RE_BindingMismatch
      | Some value \<Rightarrow> if value = [] then Err RE_BindingMismatch else Ok value)"

definition required_payload_digest :: "json \<Rightarrow> string \<Rightarrow> (IdrRuntimeErrorV1, string) result" where
  "required_payload_digest payload field =
     and_then (required_payload_string payload field) (\<lambda>value.
     if valid_digest value then Ok value else Err RE_BindingMismatch)"

definition payload_array :: "json \<Rightarrow> string \<Rightarrow> json list option" where
  "payload_array payload field = Option.bind (json_get payload field) json_as_array"

definition payload_u64 :: "json \<Rightarrow> string \<Rightarrow> u64 option" where
  "payload_u64 payload field = Option.bind (json_get payload field) json_as_u64"

definition payload_bool :: "json \<Rightarrow> string \<Rightarrow> bool option" where
  "payload_bool payload field = Option.bind (json_get payload field) json_as_bool"

definition payload_reference :: "json \<Rightarrow> string \<Rightarrow> (IdrRuntimeErrorV1, ReferenceV1) result" where
  "payload_reference payload field =
     and_then (required_payload_string payload field) (\<lambda>s. from_reference (ReferenceV1_new s))"

text \<open>A \<open>BTreeSet\<close> collected from a sequence, as the list of its members in order.\<close>

definition btree_set :: "'a::linorder list \<Rightarrow> 'a list" where
  "btree_set xs = remdups (sort xs)"

lemma set_btree_set [simp]: "set (btree_set xs) = set xs"
  by (simp add: btree_set_def)

lemma distinct_btree_set [simp]: "distinct (btree_set xs)"
  by (simp add: btree_set_def)

lemma length_btree_set: "length (btree_set xs) = card (set xs)"
  by (metis distinct_btree_set distinct_card set_btree_set)

section \<open>Receipts, intents, decisions, actions and outcomes\<close>

definition receipt_terminal_state :: "json \<Rightarrow> (IdrRuntimeErrorV1, ExecutionAggregateStateV1) result" where
  "receipt_terminal_state payload =
     (let s = payload_str payload ''state'' in
      if s = Some ''succeeded'' then Ok ES_Succeeded
      else if s = Some ''failed'' then Ok ES_Failed
      else if s = Some ''rejected'' then Ok ES_Rejected
      else if s = Some ''compensated'' then Ok ES_Compensated
      else Err RE_BindingMismatch)"

definition validate_intent_candidate :: "json \<Rightarrow> (IdrRuntimeErrorV1, unit) result" where
  "validate_intent_candidate payload =
     and_then (required_payload_string payload ''fast_path_outcome'') (\<lambda>outcome.
     and_then (required_payload_string payload ''resolution_method'') (\<lambda>resolution.
     if (outcome, resolution) = (''allow_fast_path'', ''deterministic_fast_path'') \<or>
        (outcome, resolution) = (''unknown'', ''full_path'')
     then Ok () else Err RE_BindingMismatch))"

definition decision_binding_values ::
  "json \<Rightarrow> (IdrRuntimeErrorV1, ReferenceV1 \<times> ReferenceV1 \<times> string) result" where
  "decision_binding_values payload =
     and_then (required_payload_string payload ''necessity_outcome'') (\<lambda>necessity.
     if necessity \<noteq> ''required'' \<and> necessity \<noteq> ''unknown'' then Err RE_BindingMismatch
     else
       and_then (payload_reference payload ''selected_option_ref'') (\<lambda>selected_option.
       and_then (payload_reference payload ''selected_action_operation_ref'') (\<lambda>operation.
       and_then (required_payload_digest payload ''selected_action_parameter_digest'') (\<lambda>parameter_digest.
       Ok (selected_option, operation, parameter_digest)))))"

definition action_binding_values ::
  "json \<Rightarrow> (IdrRuntimeErrorV1, ReferenceV1 \<times> ReferenceV1 \<times> string) result" where
  "action_binding_values payload =
     and_then (payload_reference payload ''selected_option_ref'') (\<lambda>selected_option.
     and_then (payload_reference payload ''operation_ref'') (\<lambda>operation.
     and_then (required_payload_digest payload ''parameter_digest'') (\<lambda>parameter_digest.
     Ok (selected_option, operation, parameter_digest))))"

definition require_exact_record_payload ::
  "crates \<Rightarrow> json \<Rightarrow> string \<Rightarrow> AuthoritativeRecordRefV1 \<Rightarrow> (IdrRuntimeErrorV1, unit) result" where
  "require_exact_record_payload X payload prefix1 expected =
     and_then (required_payload_string payload (prefix1 @ ''_record_id'')) (\<lambda>s.
     and_then (ok_or (x_uuid_parse X s) RE_BindingMismatch) (\<lambda>record_id.
     and_then (ok_or (payload_u64 payload (prefix1 @ ''_revision'')) RE_BindingMismatch) (\<lambda>revision.
     and_then (required_payload_digest payload (prefix1 @ ''_record_digest'')) (\<lambda>digest.
     if record_id = rr_record_id expected \<and> revision = rr_revision expected \<and>
        digest = rr_record_digest expected
     then Ok () else Err RE_BindingMismatch))))"

text \<open>\<open>u32::try_from\<close> on a \<open>u64\<close>.\<close>

definition u32_try_from :: "u64 \<Rightarrow> u32 option" where
  "u32_try_from w = (if unat w < 2 ^ 32 then Some (ucast w) else None)"

definition validate_execution_receipt_candidate ::
  "crates \<Rightarrow> json \<Rightarrow> uuid \<Rightarrow> ReferenceV1 \<Rightarrow> string \<Rightarrow> u32 \<Rightarrow> bool \<Rightarrow> string \<Rightarrow>
   (IdrRuntimeErrorV1, unit) result" where
  "validate_execution_receipt_candidate X payload permit_id provider_ref dispatch_nonce attempt
       action_was_invalidated expected_request_digest =
     and_then (required_payload_string payload ''permit_id'') (\<lambda>payload_permit.
     and_then (required_payload_string payload ''provider_ref'') (\<lambda>payload_provider.
     and_then (required_payload_string payload ''dispatch_nonce'') (\<lambda>payload_dispatch_nonce.
     and_then (ok_or (Option.bind (payload_u64 payload ''attempt'') u32_try_from) RE_BindingMismatch) (\<lambda>payload_attempt.
     and_then (ok_or (payload_bool payload ''action_was_invalidated'') RE_BindingMismatch) (\<lambda>payload_invalidated.
     and_then (required_payload_digest payload ''request_digest'') (\<lambda>request_digest.
     and_then (required_payload_digest payload ''result_digest'') (\<lambda>_.
     and_then (receipt_terminal_state payload) (\<lambda>_.
     if payload_permit = x_uuid_display X permit_id \<and>
        payload_provider = provider_ref \<and>
        payload_dispatch_nonce = dispatch_nonce \<and>
        payload_attempt = attempt \<and>
        payload_invalidated = action_was_invalidated \<and>
        request_digest = expected_request_digest
     then Ok () else Err RE_BindingMismatch))))))))"

definition validate_outcome_candidate :: "json \<Rightarrow> string \<Rightarrow> (IdrRuntimeErrorV1, unit) result" where
  "validate_outcome_candidate payload receipt_record_digest =
     and_then (required_payload_string payload ''receipt_record_digest'') (\<lambda>d.
     if d \<noteq> receipt_record_digest then Err RE_BindingMismatch
     else
       and_then (required_payload_digest payload ''observed_value_digest'') (\<lambda>_.
       and_then (required_payload_string payload ''observation'') (\<lambda>_. Ok ())))"

section \<open>Human model\<close>

text \<open>One element of \<open>evidence_refs\<close>: a string that is a valid reference.\<close>

definition evidence_reference :: "json \<Rightarrow> (IdrRuntimeErrorV1, string) result" where
  "evidence_reference v =
     (case json_as_str v of
        None \<Rightarrow> Err RE_BindingMismatch
      | Some s \<Rightarrow> if is_err (ReferenceV1_new s) then Err RE_BindingMismatch else Ok s)"

definition validate_human_model_candidate :: "json \<Rightarrow> (IdrRuntimeErrorV1, unit) result" where
  "validate_human_model_candidate payload =
     and_then (required_payload_string payload ''predicate'') (\<lambda>predicate.
     and_then (required_payload_string payload ''scope_ref'') (\<lambda>scope.
     and_then (required_payload_digest payload ''value_digest'') (\<lambda>_.
     and_then (ok_or (payload_array payload ''evidence_refs'') RE_BindingMismatch) (\<lambda>refs.
     and_then (collect_results evidence_reference refs) (\<lambda>evidence.
     and_then (case payload_array payload ''allowed_purposes'' of
                 None \<Rightarrow> Err RE_BindingMismatch
               | Some values \<Rightarrow> if values = [] then Err RE_BindingMismatch else Ok values) (\<lambda>usages.
     and_then (case payload_u64 payload ''maximum_impact_basis_points'' of
                 None \<Rightarrow> Err RE_BindingMismatch
               | Some value \<Rightarrow> if value \<le> 10000 then Ok value else Err RE_BindingMismatch) (\<lambda>_.
     if predicate = [] \<or> is_err (ReferenceV1_new scope) \<or> btree_set evidence = [] \<or>
        list_ex (\<lambda>usage. case json_as_str usage of
                   None \<Rightarrow> True | Some u \<Rightarrow> is_err (ReferenceV1_new u)) usages
     then Err RE_BindingMismatch else Ok ())))))))"

definition validate_human_model_promotion ::
  "json \<Rightarrow> string \<Rightarrow> json \<Rightarrow> (IdrRuntimeErrorV1, string) result" where
  "validate_human_model_promotion payload candidate_digest source_candidate =
     and_then (required_payload_string payload ''candidate_digest'') (\<lambda>d.
     if d \<noteq> candidate_digest then Err RE_BindingMismatch
     else
       and_then (required_payload_string payload ''outcome'') (\<lambda>outcome.
       let claimed_evidence_count =
         (case payload_u64 payload ''independent_evidence_count'' of None \<Rightarrow> 0 | Some n \<Rightarrow> n) in
       and_then (ok_or (payload_array source_candidate ''evidence_refs'') RE_BindingMismatch) (\<lambda>refs.
       and_then (collect_results evidence_reference refs) (\<lambda>evidence.
       let independent_evidence_count = length (btree_set evidence) in
       if \<not> independent_evidence_count < 2 ^ 64 then Err RE_BindingMismatch
       else if unat claimed_evidence_count \<noteq> independent_evidence_count then Err RE_BindingMismatch
       else
         let valid =
           (if outcome = ''keep_session'' \<or> outcome = ''store_candidate'' \<or> outcome = ''reject'' then True
            else if outcome = ''promote_provisional'' then independent_evidence_count \<ge> 2
            else outcome = ''promote_user_confirmed'' \<or> outcome = ''promote_outcome_supported'') in
         if valid then Ok outcome else Err RE_BindingMismatch))))"

definition validate_human_model_assertion_request ::
  "json \<Rightarrow> string \<Rightarrow> (IdrRuntimeErrorV1, unit) result" where
  "validate_human_model_assertion_request payload source_candidate_digest =
     and_then (ok_or (json_as_object payload) RE_BindingMismatch) (\<lambda>object.
     if length object \<noteq> 1 \<or> bt_get object ''source_candidate_digest'' = None
     then Err RE_BindingMismatch
     else and_then (required_payload_string payload ''source_candidate_digest'') (\<lambda>d.
       if d \<noteq> source_candidate_digest then Err RE_BindingMismatch else Ok ()))"

definition validate_human_model_correction :: "json \<Rightarrow> (IdrRuntimeErrorV1, unit) result" where
  "validate_human_model_correction payload =
     and_then (required_payload_string payload ''lifecycle_state'') (\<lambda>s.
     if s = ''corrected'' \<or> s = ''rejected'' \<or> s = ''deleted''
     then validate_human_model_candidate payload else Err RE_BindingMismatch)"

section \<open>Turn graphs\<close>

type_synonym adjacency = "(string \<times> string list) list"

text \<open>
  The recursive \<open>visit\<close> and the \<open>any\<close> loop over children. The result carries the two mutable sets.
  \<open>None\<close> stands for an index panic in \<open>adjacency[node]\<close> or for exhausted fuel; neither
  happens on the graphs the validator builds (\<open>visit_spec\<close> below).
\<close>

fun visit :: "nat \<Rightarrow> adjacency \<Rightarrow> string \<Rightarrow> string set \<Rightarrow> string set \<Rightarrow> (bool \<times> string set \<times> string set) option"
and visit_any :: "nat \<Rightarrow> adjacency \<Rightarrow> string list \<Rightarrow> string set \<Rightarrow> string set \<Rightarrow> (bool \<times> string set \<times> string set) option"
where
  "visit 0 adj node visiting visited = None"
| "visit (Suc fuel) adj node visiting visited =
     (if node \<in> visited then Some (True, visiting, visited)
      else if node \<in> visiting then Some (False, visiting, visited)
      else case bt_get adj node of
        None \<Rightarrow> None
      | Some children \<Rightarrow>
          (case visit_any fuel adj children (insert node visiting) visited of
             None \<Rightarrow> None
           | Some (ok, visiting, visited) \<Rightarrow>
               if \<not> ok then Some (False, visiting, visited)
               else Some (True, visiting - {node}, insert node visited)))"
| "visit_any fuel adj [] visiting visited = Some (True, visiting, visited)"
| "visit_any fuel adj (child # children) visiting visited =
     (case visit fuel adj child visiting visited of
        None \<Rightarrow> None
      | Some (ok, visiting, visited) \<Rightarrow>
          if \<not> ok then Some (False, visiting, visited)
          else visit_any fuel adj children visiting visited)"

definition turn_node_name :: "json \<Rightarrow> (IdrRuntimeErrorV1, string) result" where
  "turn_node_name node =
     (case json_as_str node of
        None \<Rightarrow> Err RE_BindingMismatch
      | Some s \<Rightarrow> if s = [] then Err RE_BindingMismatch else Ok s)"

fun turn_edge :: "json \<Rightarrow> (IdrRuntimeErrorV1, string \<times> string) result" where
  "turn_edge (JArr [a, b]) =
     and_then (ok_or (json_as_str a) RE_BindingMismatch) (\<lambda>from.
     and_then (ok_or (json_as_str b) RE_BindingMismatch) (\<lambda>to. Ok (from, to)))"
| "turn_edge _ = Err RE_BindingMismatch"

fun turn_add_edges :: "string list \<Rightarrow> json list \<Rightarrow> adjacency \<Rightarrow> (IdrRuntimeErrorV1, adjacency) result" where
  "turn_add_edges node_names [] adj = Ok adj"
| "turn_add_edges node_names (edge # edges) adj =
     and_then (turn_edge edge) (\<lambda>(from, to).
     if from = to \<or> from \<notin> set node_names \<or> to \<notin> set node_names then Err RE_BindingMismatch
     else and_then (ok_or (bt_get adj from) RE_BindingMismatch) (\<lambda>targets.
       turn_add_edges node_names edges (bt_insert from (targets @ [to]) adj)))"

definition turn_expected_mode :: "string list \<Rightarrow> json list \<Rightarrow> (IdrRuntimeErrorV1, string) result" where
  "turn_expected_mode node_names edges =
     (let has_response = (''response'' \<in> set node_names); has_action = (''action'' \<in> set node_names) in
      if has_response \<and> \<not> has_action then Ok ''respond_only''
      else if has_response \<and> has_action \<and> edges = [JArr [JStr ''action'', JStr ''response'']]
      then Ok ''act_then_respond''
      else if has_response \<and> has_action \<and> edges = [JArr [JStr ''response'', JStr ''action'']]
      then Ok ''respond_then_act''
      else Err RE_BindingMismatch)"

text \<open>A result of \<open>None\<close> is a call that does not return.\<close>

definition turn_acyclic :: "string list \<Rightarrow> adjacency \<Rightarrow> bool option" where
  "turn_acyclic node_names adj = map_option fst (visit_any (length node_names + 1) adj node_names {} {})"

definition turn_graph :: "json \<Rightarrow> (IdrRuntimeErrorV1, string list \<times> json list \<times> adjacency) result" where
  "turn_graph payload =
     and_then (ok_or (payload_array payload ''nodes'') RE_BindingMismatch) (\<lambda>nodes.
     and_then (collect_results turn_node_name nodes) (\<lambda>names.
     let node_names = btree_set names in
     if length node_names \<noteq> length nodes \<or> node_names = [] then Err RE_BindingMismatch
     else
       and_then (ok_or (payload_array payload ''edges'') RE_BindingMismatch) (\<lambda>edges.
       and_then (turn_add_edges node_names edges (map (\<lambda>node. (node, [])) node_names)) (\<lambda>adj.
       Ok (node_names, edges, adj)))))"

definition validate_turn_candidate :: "json \<Rightarrow> (IdrRuntimeErrorV1, unit) result option" where
  "validate_turn_candidate payload =
     (case and_then (required_payload_string payload ''mode'') (\<lambda>mode.
           and_then (turn_graph payload) (\<lambda>g. Ok (mode, g))) of
        Err e \<Rightarrow> Some (Err e)
      | Ok (mode, node_names, edges, adj) \<Rightarrow>
          (case turn_acyclic node_names adj of
             None \<Rightarrow> None
           | Some ok \<Rightarrow> Some (
               if \<not> ok then Err RE_BindingMismatch
               else and_then (turn_expected_mode node_names edges) (\<lambda>expected_mode.
                 if mode = expected_mode then Ok () else Err RE_BindingMismatch))))"

text \<open>The graph of an adjacency map, and what the two sets of the search mean.\<close>

definition adj_edges :: "adjacency \<Rightarrow> (string \<times> string) set" where
  "adj_edges adj = {(a, b). \<exists>children. bt_get adj a = Some children \<and> b \<in> set children}"

definition adj_closed :: "adjacency \<Rightarrow> bool" where
  "adj_closed adj \<longleftrightarrow> (\<forall>a b. (a, b) \<in> adj_edges adj \<longrightarrow> bt_get adj b \<noteq> None)"

definition search_ok :: "adjacency \<Rightarrow> string set \<Rightarrow> string set \<Rightarrow> bool" where
  "search_ok adj visiting visited \<longleftrightarrow>
     visiting \<inter> visited = {} \<and> visiting \<subseteq> dom (bt_get adj) \<and>
     (\<forall>a b. a \<in> visited \<longrightarrow> (a, b) \<in> adj_edges adj \<longrightarrow> b \<in> visited) \<and>
     (\<forall>a \<in> visited. (a, a) \<notin> (adj_edges adj)\<^sup>+)"

definition search_post ::
  "adjacency \<Rightarrow> string set \<Rightarrow> string set \<Rightarrow> string set \<Rightarrow> (bool \<times> string set \<times> string set) option \<Rightarrow> bool" where
  "search_post adj nodes visiting visited r \<longleftrightarrow>
     (\<exists>vd. r = Some (True, visiting, vd) \<and> search_ok adj visiting vd \<and> visited \<subseteq> vd \<and> nodes \<subseteq> vd) \<or>
     (\<exists>vi vd. r = Some (False, vi, vd) \<and> \<not> acyclic (adj_edges adj))"

lemma finite_adj_dom: "finite (dom (bt_get adj))"
  by (simp add: bt_get_def [abs_def] finite_dom_map_of)

lemma visit_any_post:
  assumes IH: "\<And>node vd. node \<in> dom (bt_get adj) \<Longrightarrow> search_ok adj vi vd \<Longrightarrow>
      (\<forall>x \<in> vi. (x, node) \<in> (adj_edges adj)\<^sup>+) \<Longrightarrow> search_post adj {node} vi vd (visit fuel adj node vi vd)"
  shows "set children \<subseteq> dom (bt_get adj) \<Longrightarrow> search_ok adj vi vd \<Longrightarrow>
      (\<forall>c \<in> set children. \<forall>x \<in> vi. (x, c) \<in> (adj_edges adj)\<^sup>+) \<Longrightarrow>
      search_post adj (set children) vi vd (visit_any fuel adj children vi vd)"
proof (induction children arbitrary: vd)
  case Nil
  then show ?case by (simp add: search_post_def)
next
  case (Cons c cs)
  have "search_post adj {c} vi vd (visit fuel adj c vi vd)" using Cons.prems by (intro IH) auto
  then consider (ok) vd' where "visit fuel adj c vi vd = Some (True, vi, vd')" "search_ok adj vi vd'"
      "vd \<subseteq> vd'" "c \<in> vd'"
    | (cycle) vi' vd' where "visit fuel adj c vi vd = Some (False, vi', vd')" "\<not> acyclic (adj_edges adj)"
    by (auto simp: search_post_def)
  then show ?case
  proof cases
    case ok
    have "search_post adj (set cs) vi vd' (visit_any fuel adj cs vi vd')"
      using Cons.prems ok by (intro Cons.IH) auto
    with ok show ?thesis by (fastforce simp: search_post_def)
  next
    case cycle
    then show ?thesis by (simp add: search_post_def)
  qed
qed

lemma search_ok_finish:
  assumes ok: "search_ok adj (insert node vi) vd" and new: "node \<notin> vi"
    and ch: "bt_get adj node = Some children" "set children \<subseteq> vd"
  shows "search_ok adj vi (insert node vd)"
proof -
  let ?E = "adj_edges adj"
  have closed: "(a, b) \<in> ?E \<Longrightarrow> a \<in> vd \<Longrightarrow> b \<in> vd" for a b using ok by (auto simp: search_ok_def)
  have reach: "(a, b) \<in> ?E\<^sup>+ \<Longrightarrow> a \<in> vd \<Longrightarrow> b \<in> vd" for a b
    by (induction rule: trancl_induct) (auto dest: closed)
  have out: "(node, b) \<in> ?E \<Longrightarrow> b \<in> vd" for b using ch by (auto simp: adj_edges_def)
  have "node \<notin> vd" using ok by (auto simp: search_ok_def)
  have "(node, node) \<notin> ?E\<^sup>+"
  proof
    assume "(node, node) \<in> ?E\<^sup>+"
    then obtain b where "(node, b) \<in> ?E" "b = node \<or> (b, node) \<in> ?E\<^sup>+"
      by (metis converse_tranclE)
    with out reach \<open>node \<notin> vd\<close> show False by blast
  qed
  with ok new closed out show ?thesis by (auto simp: search_ok_def)
qed

lemma visit_post:
  assumes closed: "adj_closed adj"
  shows "node \<in> dom (bt_get adj) \<Longrightarrow> search_ok adj vi vd \<Longrightarrow> (\<forall>x \<in> vi. (x, node) \<in> (adj_edges adj)\<^sup>+) \<Longrightarrow>
     card (dom (bt_get adj) - vi) < fuel \<Longrightarrow> search_post adj {node} vi vd (visit fuel adj node vi vd)"
proof (induction fuel arbitrary: node vi vd)
  case (Suc fuel)
  consider (seen) "node \<in> vd" | (onstack) "node \<notin> vd" "node \<in> vi" | (new) "node \<notin> vd" "node \<notin> vi" by blast
  then show ?case
  proof cases
    case seen
    with Suc.prems show ?thesis by (auto simp: search_post_def)
  next
    case onstack
    with Suc.prems(3) have "(node, node) \<in> (adj_edges adj)\<^sup>+" by blast
    with onstack show ?thesis by (auto simp: search_post_def acyclic_def)
  next
    case new
    from Suc.prems(1) obtain children where ch: "bt_get adj node = Some children" by auto
    have edge: "(node, c) \<in> adj_edges adj" if "c \<in> set children" for c
      using that ch by (auto simp: adj_edges_def)
    have sub: "set children \<subseteq> dom (bt_get adj)" using closed edge by (auto simp: adj_closed_def)
    have ok: "search_ok adj (insert node vi) vd" using Suc.prems new by (auto simp: search_ok_def)
    have paths: "\<forall>c \<in> set children. \<forall>x \<in> insert node vi. (x, c) \<in> (adj_edges adj)\<^sup>+"
      using Suc.prems(3) edge by (auto intro: trancl_into_trancl)
    have "node \<in> dom (bt_get adj) - vi" using Suc.prems(1) new by blast
    then have "card (dom (bt_get adj) - insert node vi) < card (dom (bt_get adj) - vi)"
      using finite_adj_dom by (intro psubset_card_mono) auto
    with Suc.prems(4) have fuel: "card (dom (bt_get adj) - insert node vi) < fuel" by simp
    have "search_post adj (set children) (insert node vi) vd
        (visit_any fuel adj children (insert node vi) vd)"
      by (rule visit_any_post [OF _ sub ok paths]) (rule Suc.IH [OF _ _ _ fuel])
    then show ?thesis
      using new ch search_ok_finish [of adj node vi _ children] by (fastforce simp: search_post_def)
  qed
qed simp

lemma turn_acyclic_spec:
  assumes closed: "adj_closed adj" and names: "dom (bt_get adj) = set names" "distinct names"
  shows "turn_acyclic names adj = Some (acyclic (adj_edges adj))"
proof -
  have "card (dom (bt_get adj) - {}) < length names + 1" using names by (simp add: distinct_card)
  then have "search_post adj (set names) {} {} (visit_any (length names + 1) adj names {} {})"
    using names by (intro visit_any_post visit_post [OF closed]) (auto simp: search_ok_def)
  moreover have "acyclic (adj_edges adj)" if "search_ok adj {} vd" "set names \<subseteq> vd" for vd
  proof -
    have "a \<in> vd" if cyc: "(a, a) \<in> (adj_edges adj)\<^sup>+" for a
    proof -
      from tranclD [OF cyc] obtain b where "(a, b) \<in> adj_edges adj" by blast
      then have "a \<in> dom (bt_get adj)" by (auto simp: adj_edges_def)
      with names(1) \<open>set names \<subseteq> vd\<close> show ?thesis by blast
    qed
    with that(1) show ?thesis unfolding acyclic_def search_ok_def by blast
  qed
  ultimately show ?thesis by (auto simp: search_post_def turn_acyclic_def)
qed

text \<open>The adjacency map built from the edges of a payload.\<close>

lemma adj_edges_insert:
  assumes "bt_get adj a = Some targets"
  shows "adj_edges (bt_insert a (targets @ [b]) adj) = insert (a, b) (adj_edges adj)"
  using assms by (auto simp: adj_edges_def bt_get_insert split: if_splits)

lemma adj_edges_initial: "adj_edges (map (\<lambda>n. (n, [])) names) = {}"
  by (auto simp: adj_edges_def bt_get_def map_of_map_restrict restrict_map_def dest!: map_of_SomeD)

lemma dom_adj_initial: "dom (bt_get (map (\<lambda>n. (n, [])) names)) = set names"
  by (simp add: bt_get_def [abs_def] dom_map_of_conv_image_fst image_image)

lemma turn_add_edges_Ok:
  "dom (bt_get adj) = set names \<Longrightarrow> turn_add_edges names edges adj = Ok adj' \<Longrightarrow>
     \<exists>pairs. collect_results turn_edge edges = Ok pairs \<and> dom (bt_get adj') = set names \<and>
       adj_edges adj' = set pairs \<union> adj_edges adj \<and>
       (\<forall>(a, b) \<in> set pairs. a \<noteq> b \<and> a \<in> set names \<and> b \<in> set names)"
proof (induction edges arbitrary: adj)
  case (Cons e es)
  then obtain a b targets where e: "turn_edge e = Ok (a, b)" "a \<noteq> b" "a \<in> set names" "b \<in> set names"
      "bt_get adj a = Some targets"
      "turn_add_edges names es (bt_insert a (targets @ [b]) adj) = Ok adj'"
    by (auto simp: and_then_eq_Ok ok_or_eq_Ok split: if_splits)
  have "dom (bt_get (bt_insert a (targets @ [b]) adj)) = set names"
    using Cons.prems(1) e(3) by (auto simp: bt_get_insert dom_def split: if_splits)
  from Cons.IH [OF this e(6)] obtain pairs where "collect_results turn_edge es = Ok pairs"
    "dom (bt_get adj') = set names"
    "adj_edges adj' = set pairs \<union> adj_edges (bt_insert a (targets @ [b]) adj)"
    "\<forall>(a, b) \<in> set pairs. a \<noteq> b \<and> a \<in> set names \<and> b \<in> set names" by blast
  with e show ?case by (auto simp: and_then_eq_Ok adj_edges_insert)
qed simp

lemma turn_add_edges_accepts:
  "dom (bt_get adj) = set names \<Longrightarrow> collect_results turn_edge edges = Ok pairs \<Longrightarrow>
     (\<forall>(a, b) \<in> set pairs. a \<noteq> b \<and> a \<in> set names \<and> b \<in> set names) \<Longrightarrow>
     \<exists>adj'. turn_add_edges names edges adj = Ok adj'"
proof (induction edges arbitrary: adj pairs)
  case (Cons e es)
  then obtain a b ps where e: "turn_edge e = Ok (a, b)" "collect_results turn_edge es = Ok ps"
    "pairs = (a, b) # ps" by (auto simp: and_then_eq_Ok)
  with Cons.prems have ab: "a \<noteq> b" "a \<in> set names" "b \<in> set names" by auto
  with Cons.prems(1) obtain targets where t: "bt_get adj a = Some targets" by auto
  have "dom (bt_get (bt_insert a (targets @ [b]) adj)) = set names"
    using Cons.prems(1) ab by (auto simp: bt_get_insert dom_def split: if_splits)
  moreover have "\<forall>(a, b) \<in> set ps. a \<noteq> b \<and> a \<in> set names \<and> b \<in> set names" using Cons.prems(3) e(3) by simp
  ultimately obtain adj' where "turn_add_edges names es (bt_insert a (targets @ [b]) adj) = Ok adj'"
    using Cons.IH [OF _ e(2)] by blast
  with e ab t show ?case by simp
qed simp

lemma turn_graph_acyclic:
  assumes "turn_graph payload = Ok (names, edges, adj)"
  shows "turn_acyclic names adj = Some (acyclic (adj_edges adj))"
proof -
  from assms obtain ns where names: "names = btree_set ns"
    and add: "turn_add_edges names edges (map (\<lambda>n. (n, [])) names) = Ok adj"
    by (auto simp: turn_graph_def Let_def and_then_eq_Ok split: if_splits)
  from turn_add_edges_Ok [OF dom_adj_initial add] have
    d: "dom (bt_get adj) = set names" and c: "\<And>a b. (a, b) \<in> adj_edges adj \<Longrightarrow> b \<in> set names"
    unfolding adj_edges_initial by auto
  have "adj_closed adj" using c d by (auto simp: adj_closed_def)
  then show ?thesis using d names by (intro turn_acyclic_spec) simp_all
qed

lemma validate_turn_returns: "\<exists>r. validate_turn_candidate payload = Some r"
  using turn_graph_acyclic
  by (fastforce simp: validate_turn_candidate_def and_then_eq_Ok split: result.splits option.splits)

section \<open>Properties\<close>

text \<open>
  C34: the recursive cycle check always returns: on no payload does the validation of a turn
  candidate recurse without end or index a missing node.
\<close>

theorem validate_turn_candidate_returns: "\<exists>r. validate_turn_candidate payload = Some r"
  by (rule validate_turn_returns)

text \<open>What an acceptable turn payload is, without the search.\<close>

definition turn_payload_ok :: "json \<Rightarrow> bool" where
  "turn_payload_ok payload \<longleftrightarrow>
     (\<exists>mode nodes names edges pairs.
        required_payload_string payload ''mode'' = Ok mode \<and>
        payload_array payload ''nodes'' = Some nodes \<and> collect_results turn_node_name nodes = Ok names \<and>
        names \<noteq> [] \<and> distinct names \<and>
        payload_array payload ''edges'' = Some edges \<and> collect_results turn_edge edges = Ok pairs \<and>
        (\<forall>(a, b) \<in> set pairs. a \<noteq> b \<and> a \<in> set names \<and> b \<in> set names) \<and>
        acyclic (set pairs) \<and> turn_expected_mode names edges = Ok mode)"

lemma turn_expected_mode_set:
  "set names = set names' \<Longrightarrow> turn_expected_mode names edges = turn_expected_mode names' edges"
  by (simp add: turn_expected_mode_def)

lemma btree_set_Nil [simp]: "btree_set xs = [] \<longleftrightarrow> xs = []"
  by (metis set_btree_set set_empty)

lemma btree_set_length_distinct: "length (btree_set xs) = length xs \<longleftrightarrow> distinct xs"
  by (metis card_distinct distinct_card length_btree_set)

text \<open>
  C33: a turn candidate is accepted exactly when its node names are non-empty, distinct strings, its
  edges join distinct declared nodes without a cycle, and its mode is the one the shape of the
  graph demands.
\<close>

theorem validate_turn_candidate_exact:
  "validate_turn_candidate payload = Some (Ok ()) \<longleftrightarrow> turn_payload_ok payload"
proof
  assume "validate_turn_candidate payload = Some (Ok ())"
  then obtain mode names edges adj where
    m: "required_payload_string payload ''mode'' = Ok mode" and g: "turn_graph payload = Ok (names, edges, adj)"
    and ac: "turn_acyclic names adj = Some True" and e: "turn_expected_mode names edges = Ok mode"
    by (auto simp: validate_turn_candidate_def and_then_eq_Ok split: result.splits option.splits if_splits)
  from g obtain nodes ns where ns: "payload_array payload ''nodes'' = Some nodes"
      "collect_results turn_node_name nodes = Ok ns" "names = btree_set ns" "length names = length nodes"
      "names \<noteq> []" "payload_array payload ''edges'' = Some edges"
      "turn_add_edges names edges (map (\<lambda>n. (n, [])) names) = Ok adj"
    by (auto simp: turn_graph_def Let_def and_then_eq_Ok ok_or_eq_Ok split: if_splits)
  from turn_add_edges_Ok [OF dom_adj_initial ns(7)] obtain pairs where
    p: "collect_results turn_edge edges = Ok pairs" "adj_edges adj = set pairs"
      "\<forall>(a, b) \<in> set pairs. a \<noteq> b \<and> a \<in> set names \<and> b \<in> set names"
    unfolding adj_edges_initial by auto
  have "distinct ns" using ns(3,4) collect_results_length [OF ns(2)] btree_set_length_distinct [of ns] by simp
  moreover have "acyclic (set pairs)" using turn_graph_acyclic [OF g] ac p(2) by simp
  moreover have "turn_expected_mode ns edges = Ok mode"
    using e turn_expected_mode_set [of names ns] ns(3) by simp
  ultimately show "turn_payload_ok payload"
    unfolding turn_payload_ok_def using m ns p by auto
next
  assume "turn_payload_ok payload"
  then obtain mode nodes ns edges pairs where m: "required_payload_string payload ''mode'' = Ok mode"
    and ns: "payload_array payload ''nodes'' = Some nodes" "collect_results turn_node_name nodes = Ok ns"
      "ns \<noteq> []" "distinct ns" "payload_array payload ''edges'' = Some edges"
    and p: "collect_results turn_edge edges = Ok pairs"
      "\<forall>(a, b) \<in> set pairs. a \<noteq> b \<and> a \<in> set ns \<and> b \<in> set ns" "acyclic (set pairs)"
    and e: "turn_expected_mode ns edges = Ok mode" unfolding turn_payload_ok_def by blast
  let ?names = "btree_set ns"
  have pn: "\<forall>(a, b) \<in> set pairs. a \<noteq> b \<and> a \<in> set ?names \<and> b \<in> set ?names" using p(2) by simp
  from turn_add_edges_accepts [OF dom_adj_initial p(1) pn] obtain adj where
    add: "turn_add_edges ?names edges (map (\<lambda>n. (n, [])) ?names) = Ok adj" by blast
  have "length ?names = length nodes" using ns(4) collect_results_length [OF ns(2)]
      btree_set_length_distinct [of ns] by simp
  then have g: "turn_graph payload = Ok (?names, edges, adj)" using ns add by (simp add: turn_graph_def)
  have "adj_edges adj = set pairs"
    using turn_add_edges_Ok [OF dom_adj_initial add] p(1) by (auto simp: adj_edges_initial)
  with turn_graph_acyclic [OF g] p(3) have "turn_acyclic ?names adj = Some True" by simp
  then show "validate_turn_candidate payload = Some (Ok ())"
    using m g e turn_expected_mode_set [of ?names ns] by (simp add: validate_turn_candidate_def)
qed

end
