(* ===== verification/IDR_Engine.thy ===== *)
theory IDR_Engine
  imports IDR_Payload
begin

text \<open>
  The authoritative transition of the trust-chain control plane (\<open>trust_chain.rs\<close>,
  \<open>evaluate_authoritative_transition_v1\<close>): the run projection, the helper checks, one definition
  per command handler in the order of the source's \<open>match\<close>, and the transition that runs the
  common checks, the handler and the common epilogue. The two repository hooks
  (\<open>action_admission_proof_failure\<close>, \<open>apply_repository_invalidation_closure\<close>) follow.

  Identifiers drawn with \<open>Uuid::new_v4\<close> are an argument (\<open>fresh_ids\<close>); a transition draws each
  kind at most once. The model is the non-test build: the proof set must equal the required set.
\<close>

section \<open>The run projection\<close>

record ExecutionProjectionV1 =
  ex_reservation_id :: uuid
  ex_action_admission_ref :: AuthoritativeRecordRefV1
  ex_action_ref :: AuthoritativeRecordRefV1
  ex_provider_ref :: ReferenceV1
  ex_owner_ref :: ReferenceV1
  ex_operation_ref :: ReferenceV1
  ex_parameter_digest :: string
  ex_request_digest :: string
  ex_idempotency_key :: string
  ex_attempt :: u32
  ex_permit_id :: uuid
  ex_exact_authorization_proof_id :: uuid
  ex_action_valid_until :: u64
  ex_admission_valid_until :: u64
  ex_authorization_valid_until :: u64
  ex_permit_valid_until :: u64
  ex_lease_until :: u64
  ex_dispatch_nonce :: string
  ex_state :: ExecutionAggregateStateV1

record ResponseBindingProjectionV1 =
  rb_response_ref :: AuthoritativeRecordRefV1
  rb_rendered_content_digest :: string
  rb_channel_ref :: ReferenceV1
  rb_audience_ref :: ReferenceV1

record HumanModelPromotionProjectionV1 =
  hp_decision_ref :: AuthoritativeRecordRefV1
  hp_source_candidate_ref :: AuthoritativeRecordRefV1
  hp_outcome_ref :: AuthoritativeRecordRefV1
  hp_outcome :: string

record HumanModelCandidateProjectionV1 =
  hc_candidate_ref :: AuthoritativeRecordRefV1
  hc_outcome_ref :: AuthoritativeRecordRefV1
  hc_materialized_payload :: json

record ActionAdmissionProofBindingV1 =
  pb_proof_id :: uuid
  pb_valid_until :: u64

record ActionAdmissionProjectionV1 =
  aa_admission_ref :: AuthoritativeRecordRefV1
  aa_action_record_ref :: AuthoritativeRecordRefV1
  aa_provider :: ReferenceV1
  aa_owner :: ReferenceV1
  aa_operation_ref :: ReferenceV1
  aa_parameter_digest :: string
  aa_request_digest :: string
  aa_idempotency :: string
  aa_proof_bindings :: "(ProductionProofKindV1 \<times> ActionAdmissionProofBindingV1) list"
  aa_exact_authorization_proof_id :: uuid
  aa_authorization_valid_until :: u64
  aa_valid_until :: u64

record DecisionBindingProjectionV1 =
  db_decision_ref :: AuthoritativeRecordRefV1
  db_selected_option_ref :: ReferenceV1
  db_operation_ref :: ReferenceV1
  db_parameter_digest :: string

record ActionBindingProjectionV1 =
  ab_action_ref :: AuthoritativeRecordRefV1
  ab_selected_option_ref :: ReferenceV1
  ab_operation_ref :: ReferenceV1
  ab_parameter_digest :: string
  ab_request_digest :: string

record IdrRunProjectionV1 =
  pj_trust_domain :: TrustDomainV1
  pj_environment_ref :: ReferenceV1
  pj_run_id :: uuid
  pj_tenant_ref :: ReferenceV1
  pj_subject_ref :: "ReferenceV1 option"
  pj_turn_id :: "uuid option"
  pj_aggregate_version :: u64
  pj_state :: IdrRunStateV1
  pj_records :: "CandidateKindV1 \<Rightarrow> AuthoritativeRecordRefV1 option"
  pj_invalidated_records :: "AuthoritativeRecordRefV1 set"
  pj_response_send_nonces :: "string set"
  pj_response_binding :: "ResponseBindingProjectionV1 option"
  pj_outcome_binding :: "AuthoritativeRecordRefV1 option"
  pj_human_model_candidate :: "HumanModelCandidateProjectionV1 option"
  pj_human_model_promotion :: "HumanModelPromotionProjectionV1 option"
  pj_decision_binding :: "DecisionBindingProjectionV1 option"
  pj_action_binding :: "ActionBindingProjectionV1 option"
  pj_action_admission :: "ActionAdmissionProjectionV1 option"
  pj_execution :: "ExecutionProjectionV1 option"
  pj_last_event_sequence :: u64

definition IdrRunProjectionV1_pending ::
  "TrustDomainV1 \<Rightarrow> ReferenceV1 \<Rightarrow> uuid \<Rightarrow> ReferenceV1 \<Rightarrow> IdrRunProjectionV1" where
  "IdrRunProjectionV1_pending trust_domain environment_ref run_id tenant_ref = \<lparr>
     pj_trust_domain = trust_domain,
     pj_environment_ref = environment_ref,
     pj_run_id = run_id,
     pj_tenant_ref = tenant_ref,
     pj_subject_ref = None,
     pj_turn_id = None,
     pj_aggregate_version = 0,
     pj_state = RS_Pending,
     pj_records = (\<lambda>_. None),
     pj_invalidated_records = {},
     pj_response_send_nonces = {},
     pj_response_binding = None,
     pj_outcome_binding = None,
     pj_human_model_candidate = None,
     pj_human_model_promotion = None,
     pj_decision_binding = None,
     pj_action_binding = None,
     pj_action_admission = None,
     pj_execution = None,
     pj_last_event_sequence = 0\<rparr>"

record IdrTransitionV1 =
  tn_projection :: IdrRunProjectionV1
  tn_authoritative_record :: "AuthoritativeRecordV1 option"
  tn_event_type :: string
  tn_event_payload :: json
  tn_consumed_proof_ids :: "uuid list"
  tn_consumed_nonces :: "string list"

record fresh_ids =
  fresh_record_id :: uuid
  fresh_candidate_id :: uuid
  fresh_reservation_id :: uuid
  fresh_permit_id :: uuid

text \<open>What a handler produces: the projection, the issued record and the event type.\<close>

type_synonym outcome = "IdrRunProjectionV1 \<times> AuthoritativeRecordV1 option \<times> string"

section \<open>Issuing records\<close>

definition issue_record ::
  "crates \<Rightarrow> CandidateSubmissionV1 \<Rightarrow> IdrCommandEnvelopeV1 \<Rightarrow> u64 \<Rightarrow> VerifiedProductionProofV1 list \<Rightarrow>
   TrustDomainV1 \<Rightarrow> uuid \<Rightarrow> u64 \<Rightarrow> (IdrRuntimeErrorV1, AuthoritativeRecordV1) result" where
  "issue_record X candidate command trusted_now proofs trust_domain record_id revision =
     and_then (from_protocol (CandidateSubmissionV1_validate X candidate)) (\<lambda>_.
     if trusted_now < cs_valid_from candidate \<or> trusted_now \<ge> cs_valid_until candidate
     then Err RE_ExpiredAuthority
     else
       and_then (from_protocol (CandidateSubmissionV1_canonical_digest X candidate)) (\<lambda>candidate_digest.
       let proof_ids = map vp_proof_id proofs in
       and_then (from_protocol (canonical_digest_v1 X ''idr-authoritative-record-v1''
         (digest_material_json X \<lparr>
            dm_record_id = record_id,
            dm_revision = revision,
            dm_candidate_kind = cs_candidate_kind candidate,
            dm_trust_domain = trust_domain,
            dm_environment_ref = ce_environment_ref command,
            dm_valid_from = cs_valid_from candidate,
            dm_valid_until = cs_valid_until candidate,
            dm_run_id = cs_run_id candidate,
            dm_turn_id = cs_turn_id candidate,
            dm_tenant_ref = cs_tenant_ref candidate,
            dm_subject_ref = cs_subject_ref candidate,
            dm_policy_revision_ref = cs_policy_revision_ref candidate,
            dm_candidate_id = cs_candidate_id candidate,
            dm_candidate_digest = candidate_digest,
            dm_payload = cs_payload candidate,
            dm_issued_by_command_id = ce_command_id command,
            dm_issued_at = trusted_now,
            dm_proof_ids = proof_ids\<rparr>))) (\<lambda>record_digest.
       Ok \<lparr>
         ar_record_ref = \<lparr>
           rr_record_id = record_id,
           rr_revision = revision,
           rr_candidate_kind = cs_candidate_kind candidate,
           rr_trust_domain = trust_domain,
           rr_environment_ref = ce_environment_ref command,
           rr_valid_from = cs_valid_from candidate,
           rr_valid_until = cs_valid_until candidate,
           rr_record_digest = record_digest\<rparr>,
         ar_trust_domain = trust_domain,
         ar_environment_ref = ce_environment_ref command,
         ar_run_id = cs_run_id candidate,
         ar_turn_id = cs_turn_id candidate,
         ar_tenant_ref = cs_tenant_ref candidate,
         ar_subject_ref = cs_subject_ref candidate,
         ar_policy_revision_ref = cs_policy_revision_ref candidate,
         ar_candidate_id = cs_candidate_id candidate,
         ar_candidate_digest = candidate_digest,
         ar_payload = cs_payload candidate,
         ar_issued_by_command_id = ce_command_id command,
         ar_issued_at = trusted_now,
         ar_valid_from = cs_valid_from candidate,
         ar_valid_until = cs_valid_until candidate,
         ar_proof_ids = proof_ids\<rparr>)))"

definition issue_internal_record ::
  "crates \<Rightarrow> fresh_ids \<Rightarrow> CandidateKindV1 \<Rightarrow> json \<Rightarrow> IdrCommandEnvelopeV1 \<Rightarrow> IdrRunProjectionV1 \<Rightarrow> u64 \<Rightarrow> u64 \<Rightarrow>
   VerifiedProductionProofV1 list \<Rightarrow> uuid \<Rightarrow> u64 \<Rightarrow> (IdrRuntimeErrorV1, AuthoritativeRecordV1) result" where
  "issue_internal_record X fresh candidate_kind payload command projection trusted_now valid_until proofs
       record_id revision =
     (if valid_until \<le> trusted_now then Err RE_ExpiredAuthority
      else
        and_then (ok_or (pj_subject_ref projection) RE_MissingDependency) (\<lambda>subject_ref.
        and_then (ok_or (pj_turn_id projection) RE_MissingDependency) (\<lambda>turn_id.
        let candidate_id = fresh_candidate_id fresh in
        and_then (from_protocol (canonical_digest_v1 X ''idr-internal-candidate-v1'' (JArr [
            uuid_json X candidate_id,
            candidate_kind_json candidate_kind,
            uuid_json X (pj_run_id projection),
            uuid_json X turn_id,
            JStr subject_ref,
            JStr (ce_tenant_ref command),
            JStr (ce_scope_ref command),
            JStr (ce_purpose_ref command),
            JStr (ce_policy_revision_ref command),
            payload]))) (\<lambda>candidate_digest.
        let proof_ids = map vp_proof_id proofs in
        and_then (from_protocol (canonical_digest_v1 X ''idr-authoritative-record-v1''
          (digest_material_json X \<lparr>
             dm_record_id = record_id,
             dm_revision = revision,
             dm_candidate_kind = candidate_kind,
             dm_trust_domain = pj_trust_domain projection,
             dm_environment_ref = pj_environment_ref projection,
             dm_valid_from = trusted_now,
             dm_valid_until = valid_until,
             dm_run_id = pj_run_id projection,
             dm_turn_id = turn_id,
             dm_tenant_ref = ce_tenant_ref command,
             dm_subject_ref = subject_ref,
             dm_policy_revision_ref = ce_policy_revision_ref command,
             dm_candidate_id = candidate_id,
             dm_candidate_digest = candidate_digest,
             dm_payload = payload,
             dm_issued_by_command_id = ce_command_id command,
             dm_issued_at = trusted_now,
             dm_proof_ids = proof_ids\<rparr>))) (\<lambda>record_digest.
        Ok \<lparr>
          ar_record_ref = \<lparr>
            rr_record_id = record_id,
            rr_revision = revision,
            rr_candidate_kind = candidate_kind,
            rr_trust_domain = pj_trust_domain projection,
            rr_environment_ref = pj_environment_ref projection,
            rr_valid_from = trusted_now,
            rr_valid_until = valid_until,
            rr_record_digest = record_digest\<rparr>,
          ar_trust_domain = pj_trust_domain projection,
          ar_environment_ref = pj_environment_ref projection,
          ar_run_id = pj_run_id projection,
          ar_turn_id = turn_id,
          ar_tenant_ref = ce_tenant_ref command,
          ar_subject_ref = subject_ref,
          ar_policy_revision_ref = ce_policy_revision_ref command,
          ar_candidate_id = candidate_id,
          ar_candidate_digest = candidate_digest,
          ar_payload = payload,
          ar_issued_by_command_id = ce_command_id command,
          ar_issued_at = trusted_now,
          ar_valid_from = trusted_now,
          ar_valid_until = valid_until,
          ar_proof_ids = proof_ids\<rparr>)))))"

text \<open>
  \<open>verify_authoritative_record_value_v1\<close> on the outcome of \<open>serde_json::from_value\<close>: \<open>None\<close> when
  the stored JSON does not deserialize.
\<close>

definition verify_authoritative_record_value_v1 ::
  "crates \<Rightarrow> AuthoritativeRecordV1 option \<Rightarrow> (IdrRuntimeErrorV1, AuthoritativeRecordRefV1) result" where
  "verify_authoritative_record_value_v1 X value =
     and_then (ok_or value RE_IntegrityViolation) (\<lambda>stored.
     let ref1 = ar_record_ref stored in
     if rr_trust_domain ref1 \<noteq> ar_trust_domain stored \<or>
        rr_environment_ref ref1 \<noteq> ar_environment_ref stored \<or>
        rr_valid_from ref1 \<noteq> ar_valid_from stored \<or>
        rr_valid_until ref1 \<noteq> ar_valid_until stored \<or>
        ar_valid_from stored = 0 \<or>
        ar_valid_until stored \<le> ar_valid_from stored \<or>
        ar_issued_at stored < ar_valid_from stored \<or>
        ar_issued_at stored \<ge> ar_valid_until stored \<or>
        \<not> valid_digest (ar_candidate_digest stored)
     then Err RE_IntegrityViolation
     else
       and_then (from_protocol (canonical_digest_v1 X ''idr-authoritative-record-v1''
         (digest_material_json X \<lparr>
            dm_record_id = rr_record_id ref1,
            dm_revision = rr_revision ref1,
            dm_candidate_kind = rr_candidate_kind ref1,
            dm_trust_domain = ar_trust_domain stored,
            dm_environment_ref = ar_environment_ref stored,
            dm_valid_from = ar_valid_from stored,
            dm_valid_until = ar_valid_until stored,
            dm_run_id = ar_run_id stored,
            dm_turn_id = ar_turn_id stored,
            dm_tenant_ref = ar_tenant_ref stored,
            dm_subject_ref = ar_subject_ref stored,
            dm_policy_revision_ref = ar_policy_revision_ref stored,
            dm_candidate_id = ar_candidate_id stored,
            dm_candidate_digest = ar_candidate_digest stored,
            dm_payload = ar_payload stored,
            dm_issued_by_command_id = ar_issued_by_command_id stored,
            dm_issued_at = ar_issued_at stored,
            dm_proof_ids = ar_proof_ids stored\<rparr>))) (\<lambda>expected_digest.
       if expected_digest \<noteq> rr_record_digest ref1 then Err RE_IntegrityViolation else Ok ref1))"

section \<open>Checks\<close>

definition require_state :: "IdrRunStateV1 \<Rightarrow> IdrRunStateV1 list \<Rightarrow> (IdrRuntimeErrorV1, unit) result" where
  "require_state current allowed = (if current \<in> set allowed then Ok () else Err RE_InvalidRunTransition)"

definition require_caller :: "IdrCommandEnvelopeV1 \<Rightarrow> ReferenceV1 \<Rightarrow> (IdrRuntimeErrorV1, unit) result" where
  "require_caller command expected_identity =
     (if ce_caller_ref command = expected_identity then Ok () else Err RE_PrincipalMismatch)"

definition verified_proof_binding ::
  "VerifiedProductionProofV1 list \<Rightarrow> ProductionProofKindV1 \<Rightarrow> TrustDomainV1 \<Rightarrow>
   (IdrRuntimeErrorV1, uuid \<times> u64) result" where
  "verified_proof_binding proofs proof_kind trust_domain =
     (case find (\<lambda>p. vp_proof_kind p = proof_kind \<and> vp_trust_domain p = trust_domain) proofs of
        Some p \<Rightarrow> Ok (vp_proof_id p, vp_expires_at p)
      | None \<Rightarrow> Err RE_MissingRequiredProof)"

definition ACTION_ADMISSION_PROOF_KINDS_V1 :: "ProductionProofKindV1 list" where
  "ACTION_ADMISSION_PROOF_KINDS_V1 =
     [PK_Capability, PK_Authority, PK_Policy, PK_ExactAuthorization, PK_ActionAdmission]"

definition verified_action_admission_proof_bindings ::
  "VerifiedProductionProofV1 list \<Rightarrow> TrustDomainV1 \<Rightarrow>
   (IdrRuntimeErrorV1, (ProductionProofKindV1 \<times> ActionAdmissionProofBindingV1) list) result" where
  "verified_action_admission_proof_bindings proofs trust_domain =
     and_then (collect_results
         (\<lambda>proof_kind. and_then (verified_proof_binding proofs proof_kind trust_domain)
            (\<lambda>(proof_id, valid_until).
               Ok (proof_kind, \<lparr>pb_proof_id = proof_id, pb_valid_until = valid_until\<rparr>)))
         ACTION_ADMISSION_PROOF_KINDS_V1) (\<lambda>kvs.
     Ok (foldl (\<lambda>m (k, v). bt_insert k v m) [] kvs))"

fun require_command_state :: "IdrRunStateV1 \<Rightarrow> IdrCommandV1 \<Rightarrow> (IdrRuntimeErrorV1, unit) result" where
  "require_command_state current command =
     (let allowed =
        (case command of
           StartRun _ \<Rightarrow> current = RS_Pending
         | CommitExecutionReceipt _ _ _ _ _ _ \<Rightarrow> current \<in> {RS_Running, RS_ReconciliationRequired, RS_Invalidated}
         | ReconcileExecution _ _ \<Rightarrow> current \<in> {RS_Running, RS_ReconciliationRequired, RS_Invalidated}
         | ExpireExecutionLease _ \<Rightarrow> current \<in> {RS_Running, RS_ReconciliationRequired, RS_Invalidated}
         | RecordOutcome _ \<Rightarrow> current \<in> {RS_Running, RS_ReconciliationRequired, RS_Invalidated,
             RS_Succeeded, RS_Rejected, RS_Failed}
         | ProposeHumanModelCandidate _ \<Rightarrow> current \<in> {RS_Running, RS_ReconciliationRequired, RS_Invalidated,
             RS_Succeeded, RS_Rejected, RS_Failed}
         | RecordHumanModelPromotion _ _ \<Rightarrow> current \<in> {RS_Running, RS_ReconciliationRequired, RS_Invalidated,
             RS_Succeeded, RS_Rejected, RS_Failed}
         | PromoteHumanModelAssertion _ _ \<Rightarrow> current \<in> {RS_Running, RS_ReconciliationRequired, RS_Invalidated,
             RS_Succeeded, RS_Rejected, RS_Failed}
         | CorrectHumanModelAssertion _ _ \<Rightarrow> current \<in> {RS_Running, RS_ReconciliationRequired, RS_Invalidated,
             RS_Succeeded, RS_Rejected, RS_Failed}
         | CancelRun _ \<Rightarrow> current \<in> {RS_Running, RS_WaitingInput, RS_WaitingAuthorization,
             RS_WaitingDependency, RS_ReconciliationRequired, RS_Invalidated}
         | _ \<Rightarrow> current \<in> {RS_Running, RS_WaitingInput, RS_WaitingAuthorization, RS_WaitingDependency})
      in if allowed then Ok () else Err RE_InvalidRunTransition)"

declare require_command_state.simps [simp del]

definition require_record_at ::
  "IdrRunProjectionV1 \<Rightarrow> CandidateKindV1 \<Rightarrow> u64 \<Rightarrow> (IdrRuntimeErrorV1, unit) result" where
  "require_record_at projection kind trusted_now =
     (case pj_records projection kind of
        None \<Rightarrow> Err RE_MissingDependency
      | Some record \<Rightarrow>
          if rr_valid_from record \<le> trusted_now \<and> trusted_now < rr_valid_until record \<and>
             record \<notin> pj_invalidated_records projection
          then Ok () else Err RE_MissingDependency)"

definition require_no_record ::
  "IdrRunProjectionV1 \<Rightarrow> CandidateKindV1 \<Rightarrow> (IdrRuntimeErrorV1, unit) result" where
  "require_no_record projection kind =
     (if pj_records projection kind \<noteq> None then Err RE_InvalidRunTransition else Ok ())"

definition require_exact_current_record_at ::
  "IdrRunProjectionV1 \<Rightarrow> AuthoritativeRecordRefV1 \<Rightarrow> u64 \<Rightarrow> (IdrRuntimeErrorV1, unit) result" where
  "require_exact_current_record_at projection expected trusted_now =
     (if pj_records projection (rr_candidate_kind expected) = Some expected \<and>
         rr_trust_domain expected = pj_trust_domain projection \<and>
         rr_valid_from expected \<le> trusted_now \<and>
         trusted_now < rr_valid_until expected \<and>
         expected \<notin> pj_invalidated_records projection
      then Ok () else Err RE_MissingDependency)"

definition require_historical_evidence_record ::
  "IdrRunProjectionV1 \<Rightarrow> AuthoritativeRecordRefV1 \<Rightarrow> u64 \<Rightarrow> u64 \<Rightarrow> (IdrRuntimeErrorV1, unit) result" where
  "require_historical_evidence_record projection expected trusted_now maximum_delay_seconds =
     and_then (ok_or (checked_add (rr_valid_until expected) maximum_delay_seconds) RE_ExpiredAuthority)
       (\<lambda>observation_deadline.
     if pj_records projection (rr_candidate_kind expected) = Some expected \<and>
        rr_trust_domain expected = pj_trust_domain projection \<and>
        rr_valid_from expected \<le> trusted_now \<and>
        trusted_now < observation_deadline \<and>
        expected \<notin> pj_invalidated_records projection
     then Ok () else Err RE_MissingDependency)"

definition require_exact_governance_target ::
  "IdrRunProjectionV1 \<Rightarrow> AuthoritativeRecordRefV1 \<Rightarrow> (IdrRuntimeErrorV1, unit) result" where
  "require_exact_governance_target projection expected =
     (if pj_records projection (rr_candidate_kind expected) = Some expected \<and>
         rr_trust_domain expected = pj_trust_domain projection \<and>
         expected \<notin> pj_invalidated_records projection
      then Ok () else Err RE_MissingDependency)"

definition next_revision :: "IdrRunProjectionV1 \<Rightarrow> CandidateKindV1 \<Rightarrow> (IdrRuntimeErrorV1, u64) result" where
  "next_revision projection kind =
     (case pj_records projection kind of
        None \<Rightarrow> Ok 1
      | Some record \<Rightarrow> ok_or (checked_add (rr_revision record) 1) RE_AggregateVersionConflict)"

definition record_id_for :: "fresh_ids \<Rightarrow> IdrRunProjectionV1 \<Rightarrow> CandidateKindV1 \<Rightarrow> uuid" where
  "record_id_for fresh projection kind =
     (case pj_records projection kind of None \<Rightarrow> fresh_record_id fresh | Some record \<Rightarrow> rr_record_id record)"

definition current_execution ::
  "IdrRunProjectionV1 \<Rightarrow> uuid \<Rightarrow> uuid \<Rightarrow> (IdrRuntimeErrorV1, ExecutionProjectionV1) result" where
  "current_execution projection reservation_id permit_id =
     (case pj_execution projection of
        None \<Rightarrow> Err RE_InvalidExecutionTransition
      | Some execution \<Rightarrow>
          if ex_reservation_id execution = reservation_id \<and> ex_permit_id execution = permit_id
          then Ok execution else Err RE_InvalidExecutionTransition)"

text \<open>The execution with a given reservation (\<open>as_mut().filter(..).ok_or(..)\<close>).\<close>

definition reserved_execution ::
  "IdrRunProjectionV1 \<Rightarrow> uuid \<Rightarrow> (IdrRuntimeErrorV1, ExecutionProjectionV1) result" where
  "reserved_execution projection reservation_id =
     (case pj_execution projection of
        None \<Rightarrow> Err RE_InvalidExecutionTransition
      | Some execution \<Rightarrow>
          if ex_reservation_id execution = reservation_id then Ok execution
          else Err RE_InvalidExecutionTransition)"

definition execution_authority_expired :: "ExecutionProjectionV1 \<Rightarrow> u64 \<Rightarrow> bool" where
  "execution_authority_expired execution trusted_now \<longleftrightarrow>
     trusted_now \<ge> ex_lease_until execution \<or>
     trusted_now \<ge> ex_action_valid_until execution \<or>
     trusted_now \<ge> ex_admission_valid_until execution \<or>
     trusted_now \<ge> ex_authorization_valid_until execution \<or>
     trusted_now \<ge> ex_permit_valid_until execution"

definition require_execution_state ::
  "ExecutionProjectionV1 \<Rightarrow> ExecutionAggregateStateV1 \<Rightarrow> (IdrRuntimeErrorV1, unit) result" where
  "require_execution_state execution expected =
     (if ex_state execution = expected then Ok () else Err RE_InvalidExecutionTransition)"

text \<open>
  The state an execution moves to when its authority is withdrawn, as three places of the engine
  write it: past the dispatch boundary it needs reconciliation, otherwise it is cancelled.
\<close>

definition withdrawn_state :: "ExecutionAggregateStateV1 \<Rightarrow> ExecutionAggregateStateV1" where
  "withdrawn_state s =
     (if s \<in> {ES_DispatchStarted, ES_AwaitingProvider} then ES_ReconciliationRequired else ES_Cancelled)"

definition set_execution_state ::
  "ExecutionProjectionV1 \<Rightarrow> ExecutionAggregateStateV1 \<Rightarrow> IdrRunProjectionV1 \<Rightarrow> IdrRunProjectionV1" where
  "set_execution_state execution s projection =
     projection\<lparr>pj_execution := Some (execution\<lparr>ex_state := s\<rparr>)\<rparr>"

text \<open>The projection after the call and the boolean the source returns.\<close>

definition ensure_current_execution_action ::
  "IdrRunProjectionV1 \<Rightarrow> uuid \<Rightarrow> uuid \<Rightarrow> u64 \<Rightarrow> (IdrRuntimeErrorV1, IdrRunProjectionV1 \<times> bool) result" where
  "ensure_current_execution_action projection reservation_id permit_id trusted_now =
     and_then (current_execution projection reservation_id permit_id) (\<lambda>execution.
     let action_ref = ex_action_ref execution;
         authority_is_current =
           pj_records projection CK_Action = Some action_ref \<and>
           action_ref \<notin> pj_invalidated_records projection \<and>
           \<not> execution_authority_expired execution trusted_now in
     if \<not> authority_is_current
     then Ok (set_execution_state execution (withdrawn_state (ex_state execution)) projection, False)
     else Ok (projection, True))"

section \<open>Handlers: input to response\<close>

text \<open>
  Every handler takes the projection whose version and event sequence the transition has already
  advanced. \<open>issue_for\<close> is the recurring call of \<open>issue_record\<close> with the current record's
  identifier and its next revision.
\<close>

definition issue_for ::
  "crates \<Rightarrow> fresh_ids \<Rightarrow> IdrRunProjectionV1 \<Rightarrow> IdrCommandEnvelopeV1 \<Rightarrow> u64 \<Rightarrow> VerifiedProductionProofV1 list \<Rightarrow>
   CandidateKindV1 \<Rightarrow> CandidateSubmissionV1 \<Rightarrow> (IdrRuntimeErrorV1, AuthoritativeRecordV1) result" where
  "issue_for X fresh projection command trusted_now proofs kind candidate =
     and_then (next_revision projection kind) (\<lambda>revision.
     issue_record X candidate command trusted_now proofs (pj_trust_domain projection)
       (record_id_for fresh projection kind) revision)"

definition handle_start_run ::
  "crates \<Rightarrow> fresh_ids \<Rightarrow> IdrRunProjectionV1 \<Rightarrow> IdrCommandEnvelopeV1 \<Rightarrow> u64 \<Rightarrow> VerifiedProductionProofV1 list \<Rightarrow>
   CandidateSubmissionV1 \<Rightarrow> (IdrRuntimeErrorV1, outcome) result" where
  "handle_start_run X fresh projection command trusted_now proofs input =
     and_then (require_state (pj_state projection) [RS_Pending]) (\<lambda>_.
     and_then (require_no_record projection CK_CanonicalInput) (\<lambda>_.
     let projection = projection\<lparr>
           pj_state := RS_Running,
           pj_subject_ref := Some (cs_subject_ref input),
           pj_turn_id := Some (cs_turn_id input)\<rparr> in
     and_then (issue_record X input command trusted_now proofs (pj_trust_domain projection)
                 (record_id_for fresh projection CK_CanonicalInput) 1) (\<lambda>record.
     Ok (projection, Some record, ''input_admitted''))))"

definition handle_record_context ::
  "crates \<Rightarrow> fresh_ids \<Rightarrow> IdrRunProjectionV1 \<Rightarrow> IdrCommandEnvelopeV1 \<Rightarrow> u64 \<Rightarrow> VerifiedProductionProofV1 list \<Rightarrow>
   CandidateSubmissionV1 \<Rightarrow> (IdrRuntimeErrorV1, outcome) result" where
  "handle_record_context X fresh projection command trusted_now proofs context =
     and_then (require_record_at projection CK_CanonicalInput trusted_now) (\<lambda>_.
     and_then (issue_for X fresh projection command trusted_now proofs CK_ContextSnapshot context) (\<lambda>record.
     Ok (projection, Some record, ''context_snapshotted'')))"

definition handle_record_intent ::
  "crates \<Rightarrow> fresh_ids \<Rightarrow> IdrRunProjectionV1 \<Rightarrow> IdrCommandEnvelopeV1 \<Rightarrow> u64 \<Rightarrow> VerifiedProductionProofV1 list \<Rightarrow>
   CandidateSubmissionV1 \<Rightarrow> (IdrRuntimeErrorV1, outcome) result" where
  "handle_record_intent X fresh projection command trusted_now proofs intent =
     and_then (require_record_at projection CK_ContextSnapshot trusted_now) (\<lambda>_.
     if payload_str (cs_payload intent) ''fast_path_outcome'' = Some ''block''
     then Ok (projection\<lparr>pj_state := RS_Rejected\<rparr>, None, ''intent_blocked'')
     else
       and_then (validate_intent_candidate (cs_payload intent)) (\<lambda>_.
       and_then (issue_for X fresh projection command trusted_now proofs CK_Intent intent) (\<lambda>record.
       Ok (projection, Some record, ''intent_admitted''))))"

definition handle_record_decision ::
  "crates \<Rightarrow> fresh_ids \<Rightarrow> IdrRunProjectionV1 \<Rightarrow> IdrCommandEnvelopeV1 \<Rightarrow> u64 \<Rightarrow> VerifiedProductionProofV1 list \<Rightarrow>
   CandidateSubmissionV1 \<Rightarrow> (IdrRuntimeErrorV1, outcome) result" where
  "handle_record_decision X fresh projection command trusted_now proofs decision =
     and_then (require_record_at projection CK_Intent trusted_now) (\<lambda>_.
     and_then (decision_binding_values (cs_payload decision))
       (\<lambda>(selected_option_ref, operation_ref, parameter_digest).
     and_then (issue_for X fresh projection command trusted_now proofs CK_Decision decision) (\<lambda>record.
     Ok (projection\<lparr>pj_decision_binding := Some \<lparr>
            db_decision_ref = ar_record_ref record,
            db_selected_option_ref = selected_option_ref,
            db_operation_ref = operation_ref,
            db_parameter_digest = parameter_digest\<rparr>\<rparr>,
         Some record, ''decision_admitted''))))"

text \<open>\<open>validate_turn_candidate\<close> always returns (\<open>validate_turn_returns\<close>).\<close>

definition handle_record_turn ::
  "crates \<Rightarrow> fresh_ids \<Rightarrow> IdrRunProjectionV1 \<Rightarrow> IdrCommandEnvelopeV1 \<Rightarrow> u64 \<Rightarrow> VerifiedProductionProofV1 list \<Rightarrow>
   CandidateSubmissionV1 \<Rightarrow> (IdrRuntimeErrorV1, outcome) result" where
  "handle_record_turn X fresh projection command trusted_now proofs turn =
     and_then (require_record_at projection CK_Intent trusted_now) (\<lambda>_.
     and_then (require_record_at projection CK_Decision trusted_now) (\<lambda>_.
     and_then (the (validate_turn_candidate (cs_payload turn))) (\<lambda>_.
     and_then (issue_for X fresh projection command trusted_now proofs CK_TurnCoordination turn) (\<lambda>record.
     Ok (projection, Some record, ''turn_admitted'')))))"

definition handle_record_response ::
  "crates \<Rightarrow> fresh_ids \<Rightarrow> IdrRunProjectionV1 \<Rightarrow> IdrCommandEnvelopeV1 \<Rightarrow> u64 \<Rightarrow> VerifiedProductionProofV1 list \<Rightarrow>
   CandidateSubmissionV1 \<Rightarrow> (IdrRuntimeErrorV1, outcome) result" where
  "handle_record_response X fresh projection command trusted_now proofs response =
     and_then (require_record_at projection CK_TurnCoordination trusted_now) (\<lambda>_.
     and_then (required_payload_digest (cs_payload response) ''rendered_content_digest'') (\<lambda>rendered_content_digest.
     and_then (payload_reference (cs_payload response) ''channel_ref'') (\<lambda>channel_ref.
     and_then (payload_reference (cs_payload response) ''audience_ref'') (\<lambda>audience_ref.
     and_then (issue_for X fresh projection command trusted_now proofs CK_Response response) (\<lambda>record.
     Ok (projection\<lparr>pj_response_binding := Some \<lparr>
            rb_response_ref = ar_record_ref record,
            rb_rendered_content_digest = rendered_content_digest,
            rb_channel_ref = channel_ref,
            rb_audience_ref = audience_ref\<rparr>\<rparr>,
         Some record, ''response_recorded''))))))"

text \<open>\<open>Sha256::digest(rendered_bytes)\<close> hashes the raw bytes.\<close>

definition bytes_string :: "u8 list \<Rightarrow> string" where
  "bytes_string bs = map (\<lambda>b. char_of (unat b)) bs"

definition handle_consume_response_send ::
  "crates \<Rightarrow> IdrRunProjectionV1 \<Rightarrow> u64 \<Rightarrow> AuthoritativeRecordRefV1 \<Rightarrow> u8 list \<Rightarrow> ReferenceV1 \<Rightarrow>
   ReferenceV1 \<Rightarrow> string \<Rightarrow> (IdrRuntimeErrorV1, outcome) result" where
  "handle_consume_response_send X projection trusted_now response_ref rendered_bytes channel_ref
       audience_ref send_nonce =
     and_then (require_exact_current_record_at projection response_ref trusted_now) (\<lambda>_.
     let rendered_digest = x_sha256_hex X (bytes_string rendered_bytes) in
     and_then (ok_or (pj_response_binding projection) RE_MissingDependency) (\<lambda>binding.
     if rb_response_ref binding \<noteq> response_ref \<or>
        rb_rendered_content_digest binding \<noteq> rendered_digest \<or>
        rb_channel_ref binding \<noteq> channel_ref \<or>
        rb_audience_ref binding \<noteq> audience_ref
     then Err RE_BindingMismatch
     else if send_nonce \<in> pj_response_send_nonces projection then Err RE_ProofReplay
     else Ok (projection\<lparr>pj_response_send_nonces := insert send_nonce (pj_response_send_nonces projection)\<rparr>,
              None, ''response_send_permit_consumed'')))"

section \<open>Handlers: action, admission and reservation\<close>

definition handle_record_action ::
  "crates \<Rightarrow> fresh_ids \<Rightarrow> IdrRunProjectionV1 \<Rightarrow> IdrCommandEnvelopeV1 \<Rightarrow> u64 \<Rightarrow> VerifiedProductionProofV1 list \<Rightarrow>
   CandidateSubmissionV1 \<Rightarrow> (IdrRuntimeErrorV1, outcome) result" where
  "handle_record_action X fresh projection command trusted_now proofs action =
     and_then (require_record_at projection CK_TurnCoordination trusted_now) (\<lambda>_.
     and_then (require_record_at projection CK_Decision trusted_now) (\<lambda>_.
     and_then (action_binding_values (cs_payload action))
       (\<lambda>(selected_option_ref, operation_ref, parameter_digest).
     and_then (case pj_decision_binding projection of
                 None \<Rightarrow> Err RE_MissingDependency
               | Some decision \<Rightarrow>
                   if pj_records projection CK_Decision = Some (db_decision_ref decision)
                   then Ok decision else Err RE_MissingDependency) (\<lambda>decision.
     if db_selected_option_ref decision \<noteq> selected_option_ref \<or>
        db_operation_ref decision \<noteq> operation_ref \<or>
        db_parameter_digest decision \<noteq> parameter_digest
     then Err RE_ActionDerivationMismatch
     else
       and_then (issue_for X fresh projection command trusted_now proofs CK_Action action) (\<lambda>record.
       and_then (from_protocol (canonical_digest_v1 X ''idr-execution-request-v1'' (JArr [
           AuthoritativeRecordRefV1_json X (ar_record_ref record), JStr operation_ref,
           JStr parameter_digest]))) (\<lambda>request_digest.
       Ok (projection\<lparr>
             pj_action_binding := Some \<lparr>
               ab_action_ref = ar_record_ref record,
               ab_selected_option_ref = selected_option_ref,
               ab_operation_ref = operation_ref,
               ab_parameter_digest = parameter_digest,
               ab_request_digest = request_digest\<rparr>,
             pj_execution := map_option (\<lambda>execution.
               if \<not> execution_is_terminal (ex_state execution)
               then execution\<lparr>ex_state := withdrawn_state (ex_state execution)\<rparr>
               else execution) (pj_execution projection),
             pj_action_admission := None\<rparr>,
           Some record, ''action_recorded'')))))))"

text \<open>\<open>Iterator::min\<close>.\<close>

fun u64_min :: "u64 list \<Rightarrow> u64 option" where
  "u64_min [] = None"
| "u64_min (x # xs) = Some (fold min xs x)"

definition proof_bindings_json ::
  "crates \<Rightarrow> (ProductionProofKindV1 \<times> ActionAdmissionProofBindingV1) list \<Rightarrow> json" where
  "proof_bindings_json X bindings = json_object (map (\<lambda>(kind, b). (proof_kind_name kind, json_object [
     (''proof_id'', uuid_json X (pb_proof_id b)), (''valid_until'', ju64 (pb_valid_until b))])) bindings)"

definition handle_admit_action ::
  "crates \<Rightarrow> fresh_ids \<Rightarrow> IdrRunProjectionV1 \<Rightarrow> IdrCommandEnvelopeV1 \<Rightarrow> u64 \<Rightarrow> VerifiedProductionProofV1 list \<Rightarrow>
   AuthoritativeRecordRefV1 \<Rightarrow> string \<Rightarrow> ReferenceV1 \<Rightarrow> ReferenceV1 \<Rightarrow> string \<Rightarrow>
   (IdrRuntimeErrorV1, outcome) result" where
  "handle_admit_action X fresh projection command trusted_now proofs action_ref action_digest
       provider_ref owner_ref idempotency_key =
     and_then (require_exact_current_record_at projection action_ref trusted_now) (\<lambda>_.
     and_then (verified_action_admission_proof_bindings proofs (pj_trust_domain projection)) (\<lambda>proof_bindings.
     and_then (ok_or (bt_get proof_bindings PK_ExactAuthorization) RE_MissingRequiredProof) (\<lambda>authorization.
     let authorization_proof_id = pb_proof_id authorization;
         authorization_valid_until = pb_valid_until authorization in
     and_then (ok_or (u64_min (map vp_expires_at proofs @
                 [rr_valid_until action_ref, authorization_valid_until])) RE_ExpiredAuthority) (\<lambda>admission_valid_until.
     if rr_record_digest action_ref \<noteq> action_digest \<or>
        trusted_now < rr_valid_from action_ref \<or>
        trusted_now \<ge> rr_valid_until action_ref \<or>
        admission_valid_until \<le> trusted_now \<or>
        idempotency_key = []
     then Err RE_BindingMismatch
     else
       and_then (case pj_action_binding projection of
                   None \<Rightarrow> Err RE_ActionDerivationMismatch
                 | Some binding \<Rightarrow>
                     if ab_action_ref binding = action_ref then Ok binding
                     else Err RE_ActionDerivationMismatch) (\<lambda>action_binding.
       and_then (next_revision projection CK_ActionAdmissionDecision) (\<lambda>revision.
       and_then (issue_internal_record X fresh CK_ActionAdmissionDecision (json_object [
           (''action_ref'', AuthoritativeRecordRefV1_json X action_ref),
           (''action_digest'', JStr action_digest),
           (''provider_ref'', JStr provider_ref),
           (''owner_ref'', JStr owner_ref),
           (''operation_ref'', JStr (ab_operation_ref action_binding)),
           (''parameter_digest'', JStr (ab_parameter_digest action_binding)),
           (''request_digest'', JStr (ab_request_digest action_binding)),
           (''idempotency_key'', JStr idempotency_key),
           (''outcome'', JStr ''admit''),
           (''action_valid_from'', ju64 (rr_valid_from action_ref)),
           (''action_valid_until'', ju64 (rr_valid_until action_ref)),
           (''proof_bindings'', proof_bindings_json X proof_bindings),
           (''exact_authorization_proof_id'', uuid_json X authorization_proof_id),
           (''authorization_valid_until'', ju64 authorization_valid_until),
           (''admission_valid_from'', ju64 trusted_now),
           (''admission_valid_until'', ju64 admission_valid_until),
           (''trust_root_versions'', JArr (map ju64 (btree_set (map vp_trust_root_version proofs))))])
         command projection trusted_now admission_valid_until proofs
         (record_id_for fresh projection CK_ActionAdmissionDecision) revision) (\<lambda>admission.
       Ok (projection\<lparr>pj_action_admission := Some \<lparr>
              aa_admission_ref = ar_record_ref admission,
              aa_action_record_ref = action_ref,
              aa_provider = provider_ref,
              aa_owner = owner_ref,
              aa_operation_ref = ab_operation_ref action_binding,
              aa_parameter_digest = ab_parameter_digest action_binding,
              aa_request_digest = ab_request_digest action_binding,
              aa_idempotency = idempotency_key,
              aa_proof_bindings = proof_bindings,
              aa_exact_authorization_proof_id = authorization_proof_id,
              aa_authorization_valid_until = authorization_valid_until,
              aa_valid_until = admission_valid_until\<rparr>\<rparr>,
           Some admission, ''action_admitted''))))))))"

text \<open>The reservation identifier of a new attempt, or why none is granted.\<close>

definition reservation_for ::
  "fresh_ids \<Rightarrow> IdrRunProjectionV1 \<Rightarrow> AuthoritativeRecordRefV1 \<Rightarrow> string \<Rightarrow> u32 \<Rightarrow>
   (IdrRuntimeErrorV1, uuid) result" where
  "reservation_for fresh projection action_ref idempotency_key attempt =
     (case pj_execution projection of
        Some execution \<Rightarrow>
          if ex_action_ref execution = action_ref
          then
            (if ex_state execution \<notin> {ES_Failed, ES_Rejected, ES_Expired} \<or>
                Some attempt \<noteq> checked_add (ex_attempt execution) 1 \<or>
                ex_idempotency_key execution \<noteq> idempotency_key
             then Err RE_ExecutionAlreadyReserved
             else Ok (ex_reservation_id execution))
          else
            (if ex_state execution \<noteq> ES_Cancelled \<or> attempt \<noteq> 1 then Err RE_ExecutionAlreadyReserved
             else Ok (fresh_reservation_id fresh))
      | None \<Rightarrow>
          if attempt \<noteq> 1 then Err RE_InvalidExecutionTransition else Ok (fresh_reservation_id fresh))"

definition handle_reserve_execution ::
  "fresh_ids \<Rightarrow> IdrRunProjectionV1 \<Rightarrow> IdrCommandEnvelopeV1 \<Rightarrow> u64 \<Rightarrow> VerifiedProductionProofV1 list \<Rightarrow>
   AuthoritativeRecordRefV1 \<Rightarrow> AuthoritativeRecordRefV1 \<Rightarrow> string \<Rightarrow> ReferenceV1 \<Rightarrow> ReferenceV1 \<Rightarrow> string \<Rightarrow>
   u32 \<Rightarrow> u64 \<Rightarrow> string \<Rightarrow> (IdrRuntimeErrorV1, outcome) result" where
  "handle_reserve_execution fresh projection command trusted_now proofs action_admission_ref action_ref
       action_digest provider_ref owner_ref idempotency_key attempt lease_until dispatch_nonce =
     and_then (require_exact_current_record_at projection action_ref trusted_now) (\<lambda>_.
     and_then (require_exact_current_record_at projection action_admission_ref trusted_now) (\<lambda>_.
     and_then (require_caller command owner_ref) (\<lambda>_.
     and_then (verified_proof_binding proofs PK_ExecutionPermit (pj_trust_domain projection))
       (\<lambda>(_, execution_permit_valid_until).
     and_then (ok_or (pj_action_admission projection) RE_ActionNotAdmitted) (\<lambda>admission.
     and_then (ok_or (u64_min [
         lease_until,
         rr_valid_until action_ref,
         rr_valid_until action_admission_ref,
         aa_authorization_valid_until admission,
         execution_permit_valid_until]) RE_ExpiredAuthority) (\<lambda>permit_valid_until.
     if rr_candidate_kind action_admission_ref \<noteq> CK_ActionAdmissionDecision \<or>
        aa_admission_ref admission \<noteq> action_admission_ref \<or>
        aa_action_record_ref admission \<noteq> action_ref \<or>
        aa_provider admission \<noteq> provider_ref \<or>
        aa_owner admission \<noteq> owner_ref \<or>
        aa_idempotency admission \<noteq> idempotency_key \<or>
        aa_valid_until admission \<noteq> rr_valid_until action_admission_ref \<or>
        rr_record_digest action_ref \<noteq> action_digest \<or>
        trusted_now < rr_valid_from action_ref \<or>
        trusted_now < rr_valid_from action_admission_ref \<or>
        trusted_now \<ge> rr_valid_until action_ref \<or>
        trusted_now \<ge> rr_valid_until action_admission_ref \<or>
        trusted_now \<ge> aa_authorization_valid_until admission \<or>
        attempt = 0 \<or>
        lease_until \<le> trusted_now \<or>
        lease_until > permit_valid_until \<or>
        idempotency_key = []
     then Err RE_ActionNotAdmitted
     else
       and_then (reservation_for fresh projection action_ref idempotency_key attempt) (\<lambda>reservation_id.
       Ok (projection\<lparr>pj_execution := Some \<lparr>
              ex_reservation_id = reservation_id,
              ex_action_admission_ref = action_admission_ref,
              ex_action_ref = action_ref,
              ex_provider_ref = provider_ref,
              ex_owner_ref = owner_ref,
              ex_operation_ref = aa_operation_ref admission,
              ex_parameter_digest = aa_parameter_digest admission,
              ex_request_digest = aa_request_digest admission,
              ex_idempotency_key = idempotency_key,
              ex_attempt = attempt,
              ex_permit_id = fresh_permit_id fresh,
              ex_exact_authorization_proof_id = aa_exact_authorization_proof_id admission,
              ex_action_valid_until = rr_valid_until action_ref,
              ex_admission_valid_until = rr_valid_until action_admission_ref,
              ex_authorization_valid_until = aa_authorization_valid_until admission,
              ex_permit_valid_until = permit_valid_until,
              ex_lease_until = lease_until,
              ex_dispatch_nonce = dispatch_nonce,
              ex_state = ES_PermitIssued\<rparr>\<rparr>,
           None, ''execution_permit_issued''))))))))"

section \<open>Handlers: execution\<close>

definition handle_recover_permit ::
  "IdrRunProjectionV1 \<Rightarrow> IdrCommandEnvelopeV1 \<Rightarrow> u64 \<Rightarrow> uuid \<Rightarrow> (IdrRuntimeErrorV1, outcome) result" where
  "handle_recover_permit projection command trusted_now reservation_id =
     and_then (reserved_execution projection reservation_id) (\<lambda>execution.
     and_then (require_caller command (ex_owner_ref execution)) (\<lambda>_.
     if ex_state execution \<in> {ES_DispatchStarted, ES_AwaitingProvider, ES_ReconciliationRequired}
     then Err RE_ExecutionRequiresReconciliation
     else if ex_state execution \<notin> {ES_PermitIssued, ES_PermitDelivered}
     then Err RE_InvalidExecutionTransition
     else if execution_authority_expired execution trusted_now
     then Ok (set_execution_state execution ES_Expired projection, None, ''execution_lease_expired'')
     else Ok (projection, None, ''execution_permit_recovered'')))"

text \<open>
  \<open>DeliverPermit\<close> and \<open>StartDispatch\<close> have the same body but for the state they require, the state
  they set and the event.
\<close>

definition handle_permit_step ::
  "IdrRunProjectionV1 \<Rightarrow> IdrCommandEnvelopeV1 \<Rightarrow> u64 \<Rightarrow> uuid \<Rightarrow> uuid \<Rightarrow> ExecutionAggregateStateV1 \<Rightarrow>
   ExecutionAggregateStateV1 \<Rightarrow> string \<Rightarrow> (IdrRuntimeErrorV1, outcome) result" where
  "handle_permit_step projection command trusted_now reservation_id permit_id from_state to_state event =
     and_then (current_execution projection reservation_id permit_id) (\<lambda>execution.
     and_then (require_caller command (ex_provider_ref execution)) (\<lambda>_.
     and_then (ensure_current_execution_action projection reservation_id permit_id trusted_now)
       (\<lambda>(projection, authority_is_current).
     and_then (current_execution projection reservation_id permit_id) (\<lambda>execution.
     if \<not> authority_is_current
     then (if ex_state execution = ES_Cancelled
           then Ok (projection, None, ''execution_cancelled_invalid_authority'')
           else if ex_state execution = ES_ReconciliationRequired
           then Ok (projection, None, ''execution_reconciliation_required_invalid_authority'')
           else Err RE_InvalidExecutionTransition)
     else
       and_then (require_execution_state execution from_state) (\<lambda>_.
       Ok (set_execution_state execution to_state projection, None, event))))))"

definition handle_deliver_permit ::
  "IdrRunProjectionV1 \<Rightarrow> IdrCommandEnvelopeV1 \<Rightarrow> u64 \<Rightarrow> uuid \<Rightarrow> uuid \<Rightarrow> (IdrRuntimeErrorV1, outcome) result" where
  "handle_deliver_permit projection command trusted_now reservation_id permit_id =
     handle_permit_step projection command trusted_now reservation_id permit_id
       ES_PermitIssued ES_PermitDelivered ''execution_permit_delivered''"

definition handle_start_dispatch ::
  "IdrRunProjectionV1 \<Rightarrow> IdrCommandEnvelopeV1 \<Rightarrow> u64 \<Rightarrow> uuid \<Rightarrow> uuid \<Rightarrow> (IdrRuntimeErrorV1, outcome) result" where
  "handle_start_dispatch projection command trusted_now reservation_id permit_id =
     handle_permit_step projection command trusted_now reservation_id permit_id
       ES_PermitDelivered ES_DispatchStarted ''execution_dispatch_started''"

definition handle_commit_execution_receipt ::
  "crates \<Rightarrow> fresh_ids \<Rightarrow> IdrRunProjectionV1 \<Rightarrow> IdrCommandEnvelopeV1 \<Rightarrow> u64 \<Rightarrow> VerifiedProductionProofV1 list \<Rightarrow>
   CandidateSubmissionV1 \<Rightarrow> uuid \<Rightarrow> uuid \<Rightarrow> ReferenceV1 \<Rightarrow> string \<Rightarrow> u32 \<Rightarrow> (IdrRuntimeErrorV1, outcome) result" where
  "handle_commit_execution_receipt X fresh projection command trusted_now proofs receipt reservation_id
       permit_id provider_ref dispatch_nonce attempt =
     and_then (next_revision projection CK_ExecutionReceipt) (\<lambda>receipt_revision.
     let receipt_record_id = record_id_for fresh projection CK_ExecutionReceipt;
         trust_domain = pj_trust_domain projection in
     and_then (current_execution projection reservation_id permit_id) (\<lambda>execution.
     let action_was_invalidated = (ex_action_ref execution \<in> pj_invalidated_records projection) in
     and_then (require_caller command (ex_provider_ref execution)) (\<lambda>_.
     if ex_state execution \<notin> {ES_DispatchStarted, ES_AwaitingProvider, ES_ReconciliationRequired} \<or>
        ex_provider_ref execution \<noteq> provider_ref \<or>
        ex_dispatch_nonce execution \<noteq> dispatch_nonce \<or>
        ex_attempt execution \<noteq> attempt
     then Err RE_BindingMismatch
     else
       and_then (validate_execution_receipt_candidate X (cs_payload receipt) permit_id provider_ref
                   dispatch_nonce attempt action_was_invalidated (ex_request_digest execution)) (\<lambda>_.
       and_then (issue_record X receipt command trusted_now proofs trust_domain receipt_record_id
                   receipt_revision) (\<lambda>record.
       and_then (receipt_terminal_state (cs_payload receipt)) (\<lambda>state.
       let projection = set_execution_state execution state projection in
       and_then (if state = ES_Succeeded \<or> state = ES_Compensated then Ok RS_Succeeded
                 else if state = ES_Failed then Ok RS_Failed
                 else if state = ES_Rejected then Ok RS_Rejected
                 else Err RE_InvalidExecutionTransition) (\<lambda>run_state.
       Ok (projection\<lparr>pj_state := run_state\<rparr>, Some record, ''execution_receipt_committed''))))))))"

definition handle_reconcile_execution ::
  "IdrRunProjectionV1 \<Rightarrow> IdrCommandEnvelopeV1 \<Rightarrow> uuid \<Rightarrow> ReconciliationResolutionV1 \<Rightarrow>
   (IdrRuntimeErrorV1, outcome) result" where
  "handle_reconcile_execution projection command reservation_id resolution =
     and_then (reserved_execution projection reservation_id) (\<lambda>execution.
     and_then (require_caller command (ex_provider_ref execution)) (\<lambda>_.
     and_then (require_execution_state execution ES_ReconciliationRequired) (\<lambda>_.
     if resolution \<noteq> RR_Unknown then Err RE_BindingMismatch
     else Ok (set_execution_state execution ES_ReconciliationRequired projection, None,
              ''execution_reconciliation_still_unknown''))))"

definition handle_expire_execution_lease ::
  "IdrRunProjectionV1 \<Rightarrow> IdrCommandEnvelopeV1 \<Rightarrow> u64 \<Rightarrow> uuid \<Rightarrow> (IdrRuntimeErrorV1, outcome) result" where
  "handle_expire_execution_lease projection command trusted_now reservation_id =
     and_then (reserved_execution projection reservation_id) (\<lambda>execution.
     and_then (require_caller command (ex_owner_ref execution)) (\<lambda>_.
     if \<not> execution_authority_expired execution trusted_now then Err RE_InvalidExecutionTransition
     else if ex_state execution \<in> {ES_PermitIssued, ES_PermitDelivered}
     then Ok (set_execution_state execution ES_Expired projection, None,
              ''execution_lease_expired_before_dispatch'')
     else if ex_state execution \<in> {ES_DispatchStarted, ES_AwaitingProvider}
     then Ok (set_execution_state execution ES_ReconciliationRequired projection, None,
              ''execution_lease_expired_after_dispatch'')
     else Err RE_InvalidExecutionTransition))"

definition handle_invalidate_record ::
  "IdrRunProjectionV1 \<Rightarrow> AuthoritativeRecordRefV1 \<Rightarrow> (IdrRuntimeErrorV1, outcome) result" where
  "handle_invalidate_record projection record_ref =
     and_then (require_exact_governance_target projection record_ref) (\<lambda>_.
     Ok (projection\<lparr>
           pj_invalidated_records := insert record_ref (pj_invalidated_records projection),
           pj_execution := map_option (\<lambda>execution.
             if rr_record_id (ex_action_ref execution) = rr_record_id record_ref \<and>
                \<not> execution_is_terminal (ex_state execution)
             then execution\<lparr>ex_state := withdrawn_state (ex_state execution)\<rparr>
             else execution) (pj_execution projection),
           pj_state := RS_Invalidated\<rparr>,
         None, ''record_invalidated''))"

section \<open>Handlers: outcome and human model\<close>

definition IDR_RECEIPT_OUTCOME_OBSERVATION_WINDOW_SECONDS_V1 :: u64 where
  "IDR_RECEIPT_OUTCOME_OBSERVATION_WINDOW_SECONDS_V1 = 86400"

definition IDR_OUTCOME_HUMAN_MODEL_WINDOW_SECONDS_V1 :: u64 where
  "IDR_OUTCOME_HUMAN_MODEL_WINDOW_SECONDS_V1 = 604800"

definition handle_record_outcome ::
  "crates \<Rightarrow> fresh_ids \<Rightarrow> IdrRunProjectionV1 \<Rightarrow> IdrCommandEnvelopeV1 \<Rightarrow> u64 \<Rightarrow> VerifiedProductionProofV1 list \<Rightarrow>
   CandidateSubmissionV1 \<Rightarrow> (IdrRuntimeErrorV1, outcome) result" where
  "handle_record_outcome X fresh projection command trusted_now proofs outcome =
     and_then (ok_or (pj_records projection CK_ExecutionReceipt) RE_MissingDependency) (\<lambda>receipt_ref.
     and_then (require_historical_evidence_record projection receipt_ref trusted_now
                 IDR_RECEIPT_OUTCOME_OBSERVATION_WINDOW_SECONDS_V1) (\<lambda>_.
     and_then (validate_outcome_candidate (cs_payload outcome) (rr_record_digest receipt_ref)) (\<lambda>_.
     and_then (issue_for X fresh projection command trusted_now proofs CK_Outcome outcome) (\<lambda>record.
     Ok (projection\<lparr>pj_outcome_binding := Some (ar_record_ref record)\<rparr>, Some record,
         ''outcome_observed'')))))"

definition handle_propose_human_model_candidate ::
  "crates \<Rightarrow> fresh_ids \<Rightarrow> IdrRunProjectionV1 \<Rightarrow> IdrCommandEnvelopeV1 \<Rightarrow> u64 \<Rightarrow> VerifiedProductionProofV1 list \<Rightarrow>
   CandidateSubmissionV1 \<Rightarrow> (IdrRuntimeErrorV1, outcome) result" where
  "handle_propose_human_model_candidate X fresh projection command trusted_now proofs candidate =
     and_then (ok_or (pj_outcome_binding projection) RE_MissingDependency) (\<lambda>outcome_ref.
     and_then (require_historical_evidence_record projection outcome_ref trusted_now
                 IDR_OUTCOME_HUMAN_MODEL_WINDOW_SECONDS_V1) (\<lambda>_.
     and_then (require_exact_record_payload X (cs_payload candidate) ''outcome'' outcome_ref) (\<lambda>_.
     and_then (validate_human_model_candidate (cs_payload candidate)) (\<lambda>_.
     and_then (issue_for X fresh projection command trusted_now proofs CK_HumanModelCandidate candidate) (\<lambda>record.
     Ok (projection\<lparr>pj_human_model_candidate := Some \<lparr>
            hc_candidate_ref = ar_record_ref record,
            hc_outcome_ref = outcome_ref,
            hc_materialized_payload = cs_payload candidate\<rparr>\<rparr>,
         Some record, ''human_model_candidate_recorded''))))))"

definition handle_record_human_model_promotion ::
  "crates \<Rightarrow> fresh_ids \<Rightarrow> IdrRunProjectionV1 \<Rightarrow> IdrCommandEnvelopeV1 \<Rightarrow> u64 \<Rightarrow> VerifiedProductionProofV1 list \<Rightarrow>
   CandidateSubmissionV1 \<Rightarrow> AuthoritativeRecordRefV1 \<Rightarrow> (IdrRuntimeErrorV1, outcome) result" where
  "handle_record_human_model_promotion X fresh projection command trusted_now proofs decision
       source_candidate_ref =
     and_then (require_exact_current_record_at projection source_candidate_ref trusted_now) (\<lambda>_.
     if rr_candidate_kind source_candidate_ref \<noteq> CK_HumanModelCandidate then Err RE_BindingMismatch
     else
       and_then (case pj_human_model_candidate projection of
                   None \<Rightarrow> Err RE_MissingDependency
                 | Some candidate \<Rightarrow>
                     if hc_candidate_ref candidate = source_candidate_ref then Ok candidate
                     else Err RE_MissingDependency) (\<lambda>source_candidate.
       and_then (validate_human_model_promotion (cs_payload decision)
                   (rr_record_digest source_candidate_ref) (hc_materialized_payload source_candidate)) (\<lambda>outcome.
       and_then (require_exact_record_payload X (cs_payload decision) ''outcome''
                   (hc_outcome_ref source_candidate)) (\<lambda>_.
       and_then (issue_for X fresh projection command trusted_now proofs CK_HumanModelPromotionDecision decision) (\<lambda>record.
       Ok (projection\<lparr>pj_human_model_promotion := Some \<lparr>
              hp_decision_ref = ar_record_ref record,
              hp_source_candidate_ref = source_candidate_ref,
              hp_outcome_ref = hc_outcome_ref source_candidate,
              hp_outcome = outcome\<rparr>\<rparr>,
           Some record, ''human_model_promotion_decided''))))))"

definition promotion_lifecycle_state :: "string \<Rightarrow> string option" where
  "promotion_lifecycle_state outcome =
     (if outcome = ''promote_provisional'' then Some ''provisional''
      else if outcome = ''promote_user_confirmed'' then Some ''user_confirmed''
      else if outcome = ''promote_outcome_supported'' then Some ''outcome_supported''
      else None)"

text \<open>The payload of a promoted assertion: the candidate's, with the promotion's provenance.\<close>

definition materialized_assertion ::
  "crates \<Rightarrow> HumanModelPromotionProjectionV1 \<Rightarrow> HumanModelCandidateProjectionV1 \<Rightarrow> string \<Rightarrow>
   (IdrRuntimeErrorV1, json) result" where
  "materialized_assertion X promotion source_candidate lifecycle_state =
     and_then (case payload_u64 (hc_materialized_payload source_candidate) ''maximum_impact_basis_points'' of
                 None \<Rightarrow> Err RE_BindingMismatch
               | Some value \<Rightarrow> if value \<le> 10000 then Ok value else Err RE_BindingMismatch)
       (\<lambda>maximum_impact_basis_points.
     and_then (ok_or (json_as_object (hc_materialized_payload source_candidate)) RE_BindingMismatch) (\<lambda>object.
     Ok (JObj (foldl (\<lambda>m (k, v). bt_insert k v m) object [
       (''source_candidate_digest'', JStr (rr_record_digest (hp_source_candidate_ref promotion))),
       (''lifecycle_state'', JStr lifecycle_state),
       (''maximum_impact_basis_points'', ju64 maximum_impact_basis_points),
       (''promotion_decision_record_id'', uuid_json X (rr_record_id (hp_decision_ref promotion))),
       (''promotion_decision_revision'', ju64 (rr_revision (hp_decision_ref promotion))),
       (''promotion_decision_record_digest'', JStr (rr_record_digest (hp_decision_ref promotion)))]))))"

definition handle_promote_human_model_assertion ::
  "crates \<Rightarrow> fresh_ids \<Rightarrow> IdrRunProjectionV1 \<Rightarrow> IdrCommandEnvelopeV1 \<Rightarrow> u64 \<Rightarrow> VerifiedProductionProofV1 list \<Rightarrow>
   CandidateSubmissionV1 \<Rightarrow> AuthoritativeRecordRefV1 \<Rightarrow> (IdrRuntimeErrorV1, outcome) result" where
  "handle_promote_human_model_assertion X fresh projection command trusted_now proofs assertion
       promotion_decision_ref =
     and_then (require_exact_current_record_at projection promotion_decision_ref trusted_now) (\<lambda>_.
     if rr_candidate_kind promotion_decision_ref \<noteq> CK_HumanModelPromotionDecision then Err RE_BindingMismatch
     else
       and_then (case pj_human_model_promotion projection of
                   None \<Rightarrow> Err RE_BindingMismatch
                 | Some promotion \<Rightarrow>
                     if hp_decision_ref promotion = promotion_decision_ref \<and>
                        promotion_lifecycle_state (hp_outcome promotion) \<noteq> None
                     then Ok promotion else Err RE_BindingMismatch) (\<lambda>promotion.
       and_then (case pj_human_model_candidate projection of
                   None \<Rightarrow> Err RE_MissingDependency
                 | Some candidate \<Rightarrow>
                     if hc_candidate_ref candidate = hp_source_candidate_ref promotion then Ok candidate
                     else Err RE_MissingDependency) (\<lambda>source_candidate.
       and_then (validate_human_model_assertion_request (cs_payload assertion)
                   (rr_record_digest (hp_source_candidate_ref promotion))) (\<lambda>_.
       and_then (ok_or (promotion_lifecycle_state (hp_outcome promotion)) RE_BindingMismatch) (\<lambda>lifecycle_state.
       and_then (materialized_assertion X promotion source_candidate lifecycle_state) (\<lambda>materialized_payload.
       and_then (ok_or (u64_min (map vp_expires_at proofs @ [
           cs_valid_until assertion,
           rr_valid_until (hp_decision_ref promotion),
           rr_valid_until (hp_source_candidate_ref promotion)])) RE_ExpiredAuthority) (\<lambda>assertion_valid_until.
       and_then (next_revision projection CK_HumanModelAssertion) (\<lambda>revision.
       and_then (issue_internal_record X fresh CK_HumanModelAssertion materialized_payload command
                   projection trusted_now assertion_valid_until proofs
                   (record_id_for fresh projection CK_HumanModelAssertion) revision) (\<lambda>record.
       Ok (projection, Some record, ''human_model_assertion_promoted''))))))))))"

definition handle_correct_human_model_assertion ::
  "crates \<Rightarrow> IdrRunProjectionV1 \<Rightarrow> IdrCommandEnvelopeV1 \<Rightarrow> u64 \<Rightarrow> VerifiedProductionProofV1 list \<Rightarrow>
   AuthoritativeRecordRefV1 \<Rightarrow> CandidateSubmissionV1 \<Rightarrow> (IdrRuntimeErrorV1, outcome) result" where
  "handle_correct_human_model_assertion X projection command trusted_now proofs assertion_ref correction =
     and_then (require_exact_governance_target projection assertion_ref) (\<lambda>_.
     and_then (validate_human_model_correction (cs_payload correction)) (\<lambda>_.
     and_then (ok_or (checked_add (rr_revision assertion_ref) 1) RE_AggregateVersionConflict) (\<lambda>revision.
     and_then (issue_record X correction command trusted_now proofs (pj_trust_domain projection)
                 (rr_record_id assertion_ref) revision) (\<lambda>record.
     Ok (projection\<lparr>pj_invalidated_records := insert assertion_ref (pj_invalidated_records projection)\<rparr>,
         Some record, ''human_model_assertion_corrected'')))))"

definition handle_cancel_run :: "IdrRunProjectionV1 \<Rightarrow> (IdrRuntimeErrorV1, outcome) result" where
  "handle_cancel_run projection =
     (if pj_state projection \<in> {RS_Succeeded, RS_Rejected, RS_Cancelled} then Err RE_InvalidRunTransition
      else Ok (projection\<lparr>pj_state := RS_Cancelled\<rparr>, None, ''run_cancelled''))"

section \<open>The transition\<close>

definition dispatch_command ::
  "crates \<Rightarrow> fresh_ids \<Rightarrow> IdrRunProjectionV1 \<Rightarrow> IdrCommandEnvelopeV1 \<Rightarrow> u64 \<Rightarrow> VerifiedProductionProofV1 list \<Rightarrow>
   (IdrRuntimeErrorV1, outcome) result" where
  "dispatch_command X fresh projection command trusted_now proofs =
     (case ce_command command of
        StartRun input \<Rightarrow> handle_start_run X fresh projection command trusted_now proofs input
      | RecordContext context \<Rightarrow> handle_record_context X fresh projection command trusted_now proofs context
      | RecordIntent intent \<Rightarrow> handle_record_intent X fresh projection command trusted_now proofs intent
      | RecordDecision decision \<Rightarrow> handle_record_decision X fresh projection command trusted_now proofs decision
      | RecordTurn turn \<Rightarrow> handle_record_turn X fresh projection command trusted_now proofs turn
      | RecordResponse response \<Rightarrow> handle_record_response X fresh projection command trusted_now proofs response
      | ConsumeResponseSend response_ref rendered_bytes channel_ref audience_ref send_nonce \<Rightarrow>
          handle_consume_response_send X projection trusted_now response_ref rendered_bytes channel_ref
            audience_ref send_nonce
      | RecordAction action \<Rightarrow> handle_record_action X fresh projection command trusted_now proofs action
      | AdmitAction action_ref action_digest provider_ref owner_ref idempotency_key \<Rightarrow>
          handle_admit_action X fresh projection command trusted_now proofs action_ref action_digest
            provider_ref owner_ref idempotency_key
      | ReserveExecution admission_ref action_ref action_digest provider_ref owner_ref idempotency_key
          attempt lease_until dispatch_nonce \<Rightarrow>
          handle_reserve_execution fresh projection command trusted_now proofs admission_ref action_ref
            action_digest provider_ref owner_ref idempotency_key attempt lease_until dispatch_nonce
      | RecoverPermit reservation_id \<Rightarrow> handle_recover_permit projection command trusted_now reservation_id
      | DeliverPermit reservation_id permit_id \<Rightarrow>
          handle_deliver_permit projection command trusted_now reservation_id permit_id
      | StartDispatch reservation_id permit_id \<Rightarrow>
          handle_start_dispatch projection command trusted_now reservation_id permit_id
      | CommitExecutionReceipt receipt reservation_id permit_id provider_ref dispatch_nonce attempt \<Rightarrow>
          handle_commit_execution_receipt X fresh projection command trusted_now proofs receipt
            reservation_id permit_id provider_ref dispatch_nonce attempt
      | ReconcileExecution reservation_id resolution \<Rightarrow>
          handle_reconcile_execution projection command reservation_id resolution
      | ExpireExecutionLease reservation_id \<Rightarrow>
          handle_expire_execution_lease projection command trusted_now reservation_id
      | InvalidateRecord record_ref reason_ref \<Rightarrow> handle_invalidate_record projection record_ref
      | RecordOutcome outcome \<Rightarrow> handle_record_outcome X fresh projection command trusted_now proofs outcome
      | ProposeHumanModelCandidate candidate \<Rightarrow>
          handle_propose_human_model_candidate X fresh projection command trusted_now proofs candidate
      | RecordHumanModelPromotion decision source_candidate_ref \<Rightarrow>
          handle_record_human_model_promotion X fresh projection command trusted_now proofs decision
            source_candidate_ref
      | PromoteHumanModelAssertion assertion promotion_decision_ref \<Rightarrow>
          handle_promote_human_model_assertion X fresh projection command trusted_now proofs assertion
            promotion_decision_ref
      | CorrectHumanModelAssertion assertion_ref correction \<Rightarrow>
          handle_correct_human_model_assertion X projection command trusted_now proofs assertion_ref correction
      | CancelRun reason_ref \<Rightarrow> handle_cancel_run projection)"

text \<open>The lineage check before the proofs: candidates of a running run belong to it and are current.\<close>

definition check_lineage ::
  "IdrRunProjectionV1 \<Rightarrow> IdrCommandV1 \<Rightarrow> u64 \<Rightarrow> (IdrRuntimeErrorV1, unit) result" where
  "check_lineage projection command trusted_now =
     (if (case command of StartRun _ \<Rightarrow> True | _ \<Rightarrow> False) then Ok ()
      else (case command_candidate command of
              None \<Rightarrow> Ok ()
            | Some candidate \<Rightarrow>
                if pj_subject_ref projection \<noteq> Some (cs_subject_ref candidate) \<or>
                   pj_turn_id projection \<noteq> Some (cs_turn_id candidate) \<or>
                   trusted_now < cs_valid_from candidate \<or>
                   trusted_now \<ge> cs_valid_until candidate
                then Err RE_LineageMismatch else Ok ()))"

definition found_proof_kinds :: "VerifiedProductionProofV1 list \<Rightarrow> ProductionProofKindV1 set" where
  "found_proof_kinds proofs =
     set (map vp_proof_kind (filter (\<lambda>p. vp_proof_kind p \<noteq> PK_CallerAuthentication) proofs))"

definition advance_versions :: "IdrRunProjectionV1 \<Rightarrow> (IdrRuntimeErrorV1, IdrRunProjectionV1) result" where
  "advance_versions projection =
     and_then (ok_or (checked_add (pj_aggregate_version projection) 1) RE_AggregateVersionConflict) (\<lambda>v.
     and_then (ok_or (checked_add (pj_last_event_sequence projection) 1) RE_AggregateVersionConflict) (\<lambda>s.
     Ok (projection\<lparr>pj_aggregate_version := v, pj_last_event_sequence := s\<rparr>)))"

definition store_record :: "AuthoritativeRecordV1 option \<Rightarrow> IdrRunProjectionV1 \<Rightarrow> IdrRunProjectionV1" where
  "store_record authoritative_record projection =
     (case authoritative_record of
        None \<Rightarrow> projection
      | Some record \<Rightarrow> projection\<lparr>pj_records := (pj_records projection)
          (rr_candidate_kind (ar_record_ref record) := Some (ar_record_ref record))\<rparr>)"

definition evaluate_authoritative_transition_v1 ::
  "crates \<Rightarrow> fresh_ids \<Rightarrow> IdrRunProjectionV1 \<Rightarrow> IdrCommandEnvelopeV1 \<Rightarrow> u64 \<Rightarrow> VerifiedProductionProofV1 list \<Rightarrow>
   (IdrRuntimeErrorV1, IdrTransitionV1) result" where
  "evaluate_authoritative_transition_v1 X fresh projection command trusted_now verified_proofs =
     and_then (IdrCommandEnvelopeV1_validate X command) (\<lambda>_.
     if pj_run_id projection \<noteq> ce_run_id command \<or>
        pj_trust_domain projection \<noteq> ce_trust_domain command \<or>
        pj_environment_ref projection \<noteq> ce_environment_ref command \<or>
        pj_tenant_ref projection \<noteq> ce_tenant_ref command \<or>
        pj_aggregate_version projection \<noteq> ce_expected_aggregate_version command
     then Err RE_AggregateVersionConflict
     else
       and_then (require_command_state (pj_state projection) (ce_command command)) (\<lambda>_.
       and_then (check_lineage projection (ce_command command) trusted_now) (\<lambda>_.
       if found_proof_kinds verified_proofs \<noteq> command_required_proof_kinds (ce_command command)
       then Err RE_MissingRequiredProof
       else
         let previous_version = pj_aggregate_version projection in
         and_then (advance_versions projection) (\<lambda>advanced.
         and_then (dispatch_command X fresh advanced command trusted_now verified_proofs)
           (\<lambda>(handled, authoritative_record, event_type).
         let projection = store_record authoritative_record handled in
         if pj_aggregate_version projection \<noteq> previous_version + 1 then Err RE_AggregateVersionConflict
         else Ok \<lparr>
           tn_projection = projection,
           tn_authoritative_record = authoritative_record,
           tn_event_type = event_type,
           tn_event_payload = IdrCommandV1_json X (ce_command command),
           tn_consumed_proof_ids = map vp_proof_id verified_proofs,
           tn_consumed_nonces = map vp_nonce verified_proofs\<rparr>)))))"

section \<open>Repository hooks\<close>

definition crossed_dispatch_states :: "ExecutionAggregateStateV1 set" where
  "crossed_dispatch_states = {ES_DispatchStarted, ES_AwaitingProvider, ES_ReconciliationRequired,
     ES_Succeeded, ES_Failed, ES_Rejected, ES_Compensated}"

definition action_admission_proof_failure ::
  "crates \<Rightarrow> IdrRunProjectionV1 \<Rightarrow> IdrCommandEnvelopeV1 \<Rightarrow> VerifiedProductionProofV1 list \<Rightarrow>
   (IdrRuntimeErrorV1, IdrTransitionV1) result" where
  "action_admission_proof_failure X projection command verified_proofs =
     and_then (ok_or (map_option aa_admission_ref (pj_action_admission projection)) RE_ActionNotAdmitted) (\<lambda>admission_ref.
     and_then (ok_or (checked_add (pj_aggregate_version projection) 1) RE_Serialization) (\<lambda>v.
     and_then (ok_or (checked_add (pj_last_event_sequence projection) 1) RE_Serialization) (\<lambda>s.
     let crossed_dispatch_boundary =
           (case pj_execution projection of None \<Rightarrow> False
            | Some execution \<Rightarrow> ex_state execution \<in> crossed_dispatch_states);
         projection = projection\<lparr>
           pj_aggregate_version := v,
           pj_last_event_sequence := s,
           pj_execution := map_option (\<lambda>execution. execution\<lparr>ex_state :=
             (if crossed_dispatch_boundary then ES_ReconciliationRequired else ES_Cancelled)\<rparr>)
             (pj_execution projection),
           pj_state := (if crossed_dispatch_boundary then RS_ReconciliationRequired
                        else RS_WaitingAuthorization)\<rparr> in
     Ok \<lparr>
       tn_projection = projection,
       tn_authoritative_record = None,
       tn_event_type = (if crossed_dispatch_boundary
         then ''action_admission_proof_revoked_reconciliation_required''
         else ''action_admission_proof_revoked_cancelled''),
       tn_event_payload = json_object [
         (''requested_command'', IdrCommandV1_json X (ce_command command)),
         (''failed_admission_ref'', AuthoritativeRecordRefV1_json X admission_ref),
         (''governance_disposition'', JStr (if crossed_dispatch_boundary then ''reconciliation_required''
            else ''cancelled''))],
       tn_consumed_proof_ids = map vp_proof_id verified_proofs,
       tn_consumed_nonces = map vp_nonce verified_proofs\<rparr>)))"

text \<open>\<open>Option::is_some_and\<close> and clearing a field when its content refers to the record.\<close>

definition clear_if :: "('a \<Rightarrow> bool) \<Rightarrow> 'a option \<Rightarrow> 'a option" where
  "clear_if P x = (case x of None \<Rightarrow> None | Some a \<Rightarrow> if P a then None else Some a)"

text \<open>
  One record of the closure. The \<open>match\<close> on the record's kind clears the bindings that rest on it.
\<close>

definition closure_clear_bindings ::
  "AuthoritativeRecordRefV1 \<Rightarrow> IdrRunProjectionV1 \<Rightarrow> IdrRunProjectionV1" where
  "closure_clear_bindings record p =
     (case rr_candidate_kind record of
        CK_Decision \<Rightarrow>
          p\<lparr>pj_decision_binding := clear_if (\<lambda>b. db_decision_ref b = record) (pj_decision_binding p)\<rparr>
      | CK_Response \<Rightarrow>
          p\<lparr>pj_response_binding := clear_if (\<lambda>b. rb_response_ref b = record) (pj_response_binding p)\<rparr>
      | CK_Action \<Rightarrow>
          p\<lparr>pj_action_binding := clear_if (\<lambda>b. ab_action_ref b = record) (pj_action_binding p),
            pj_action_admission := clear_if (\<lambda>a. aa_action_record_ref a = record) (pj_action_admission p)\<rparr>
      | CK_ActionAdmissionDecision \<Rightarrow>
          p\<lparr>pj_action_admission := clear_if (\<lambda>a. aa_admission_ref a = record) (pj_action_admission p)\<rparr>
      | CK_Outcome \<Rightarrow>
          if pj_outcome_binding p = Some record
          then p\<lparr>pj_outcome_binding := None,
                 pj_human_model_candidate := clear_if (\<lambda>c. hc_outcome_ref c = record) (pj_human_model_candidate p),
                 pj_human_model_promotion := clear_if (\<lambda>q. hp_outcome_ref q = record) (pj_human_model_promotion p)\<rparr>
          else p
      | CK_HumanModelCandidate \<Rightarrow>
          if (case pj_human_model_candidate p of None \<Rightarrow> False | Some c \<Rightarrow> hc_candidate_ref c = record)
          then p\<lparr>pj_human_model_candidate := None,
                 pj_human_model_promotion := clear_if (\<lambda>q. hp_source_candidate_ref q = record) (pj_human_model_promotion p)\<rparr>
          else p
      | CK_HumanModelPromotionDecision \<Rightarrow>
          p\<lparr>pj_human_model_promotion := clear_if (\<lambda>q. hp_decision_ref q = record) (pj_human_model_promotion p)\<rparr>
      | _ \<Rightarrow> p)"

definition closure_withdraw_execution ::
  "AuthoritativeRecordRefV1 \<Rightarrow> ExecutionProjectionV1 \<Rightarrow> ExecutionProjectionV1" where
  "closure_withdraw_execution record execution =
     (if ex_action_ref execution = record \<and> \<not> execution_is_terminal (ex_state execution)
      then execution\<lparr>ex_state :=
        (if ex_state execution \<in> {ES_DispatchStarted, ES_AwaitingProvider, ES_ReconciliationRequired}
         then ES_ReconciliationRequired else ES_Cancelled)\<rparr>
      else execution)"

definition closure_step :: "IdrRunProjectionV1 \<Rightarrow> AuthoritativeRecordRefV1 \<Rightarrow> IdrRunProjectionV1" where
  "closure_step p record =
     (let p = p\<lparr>pj_invalidated_records := insert record (pj_invalidated_records p)\<rparr>;
          p = closure_clear_bindings record p
      in p\<lparr>pj_execution := map_option (closure_withdraw_execution record) (pj_execution p)\<rparr>)"

definition apply_repository_invalidation_closure ::
  "IdrTransitionV1 \<Rightarrow> AuthoritativeRecordRefV1 list \<Rightarrow> bool \<Rightarrow> IdrTransitionV1" where
  "apply_repository_invalidation_closure t records invalidate_run =
     (let p = foldl closure_step (tn_projection t) records;
          p = (if invalidate_run then p\<lparr>pj_state := RS_Invalidated\<rparr>
               else if (case pj_execution p of None \<Rightarrow> False
                        | Some execution \<Rightarrow> ex_state execution = ES_ReconciliationRequired)
               then p\<lparr>pj_state := RS_ReconciliationRequired\<rparr>
               else p)
      in t\<lparr>tn_projection := p\<rparr>)"

section \<open>The database guard on execution states\<close>

text \<open>The serialization of an execution state, as the columns of the database hold it.\<close>

fun ExecutionAggregateStateV1_name :: "ExecutionAggregateStateV1 \<Rightarrow> string" where
  "ExecutionAggregateStateV1_name ES_None = ''none''"
| "ExecutionAggregateStateV1_name ES_ReservationCreated = ''reservation_created''"
| "ExecutionAggregateStateV1_name ES_PermitIssued = ''permit_issued''"
| "ExecutionAggregateStateV1_name ES_PermitDelivered = ''permit_delivered''"
| "ExecutionAggregateStateV1_name ES_DispatchStarted = ''dispatch_started''"
| "ExecutionAggregateStateV1_name ES_AwaitingProvider = ''awaiting_provider''"
| "ExecutionAggregateStateV1_name ES_ReconciliationRequired = ''reconciliation_required''"
| "ExecutionAggregateStateV1_name ES_Succeeded = ''succeeded''"
| "ExecutionAggregateStateV1_name ES_Failed = ''failed''"
| "ExecutionAggregateStateV1_name ES_Rejected = ''rejected''"
| "ExecutionAggregateStateV1_name ES_Cancelled = ''cancelled''"
| "ExecutionAggregateStateV1_name ES_Compensated = ''compensated''"
| "ExecutionAggregateStateV1_name ES_Expired = ''expired''"

text \<open>
  \<open>idr_execution_state_transition_allowed_v5\<close>: the changes the triggers of the reservations and of the
  attempts let through. \<open>purpose\<close> is the purpose of the current attestation, if there is one.
\<close>

definition idr_execution_state_transition_allowed :: "string option \<Rightarrow> string \<Rightarrow> string \<Rightarrow> bool" where
  "idr_execution_state_transition_allowed purpose old_state new_state \<longleftrightarrow>
     old_state = new_state \<or>
     old_state = ''reservation_created'' \<and> new_state = ''permit_issued'' \<or>
     old_state = ''permit_issued'' \<and> new_state \<in> {''permit_delivered'', ''expired'', ''cancelled''} \<or>
     old_state = ''permit_delivered'' \<and> new_state \<in> {''dispatch_started'', ''expired'', ''cancelled''} \<or>
     old_state \<in> {''dispatch_started'', ''awaiting_provider''} \<and>
       new_state \<in> {''reconciliation_required'', ''succeeded'', ''failed'', ''rejected'', ''compensated''} \<or>
     old_state = ''reconciliation_required'' \<and>
       new_state \<in> {''succeeded'', ''failed'', ''rejected'', ''compensated''} \<or>
     old_state \<in> {''failed'', ''rejected'', ''expired''} \<and> new_state = ''permit_issued'' \<or>
     new_state = ''reconciliation_required'' \<and> purpose = Some ''governance_proof_revocation''"

section \<open>Audit events\<close>

text \<open>The hash chain of audit events.\<close>

definition hash_event_v1 :: "crates \<Rightarrow> string \<Rightarrow> json \<Rightarrow> (IdrRuntimeErrorV1, string) result" where
  "hash_event_v1 X previous_hash event =
     and_then (from_protocol (canonical_json_bytes_v1 X (JArr [
       JStr ''idr-audit-event-v1'', JStr previous_hash, event]))) (\<lambda>bytes.
     Ok (x_sha256_hex X bytes))"

end
