(* ===== verification/IDR_Engine_Lemmas.thy ===== *)
theory IDR_Engine_Lemmas
  imports IDR_Engine
begin

text \<open>
  Lemmas on the authoritative transition: the anatomy of an accepted command, the effect of each
  handler (what it checked and what it returns), what no command changes, and the engine as a
  versioned machine over sequences of commands.
\<close>

section \<open>Anatomy of an accepted transition\<close>

lemmas check_defs =
  require_state_def require_caller_def require_no_record_def require_exact_current_record_at_def
  require_exact_governance_target_def require_execution_state_def

lemma transition_cases:
  assumes "evaluate_authoritative_transition_v1 X fresh p e now proofs = Ok t"
  obtains advanced handled r ev where
    "IdrCommandEnvelopeV1_validate X e = Ok ()"
    "pj_run_id p = ce_run_id e" "pj_trust_domain p = ce_trust_domain e"
    "pj_environment_ref p = ce_environment_ref e" "pj_tenant_ref p = ce_tenant_ref e"
    "pj_aggregate_version p = ce_expected_aggregate_version e"
    "require_command_state (pj_state p) (ce_command e) = Ok ()"
    "check_lineage p (ce_command e) now = Ok ()"
    "found_proof_kinds proofs = command_required_proof_kinds (ce_command e)"
    "advance_versions p = Ok advanced"
    "dispatch_command X fresh advanced e now proofs = Ok (handled, r, ev)"
    "tn_projection t = store_record r handled" "tn_authoritative_record t = r"
    "tn_event_type t = ev" "tn_event_payload t = IdrCommandV1_json X (ce_command e)"
    "tn_consumed_proof_ids t = map vp_proof_id proofs" "tn_consumed_nonces t = map vp_nonce proofs"
  using assms
  by (auto simp: evaluate_authoritative_transition_v1_def Let_def and_then_eq_Ok split: if_splits)

lemma advance_versions_Ok:
  assumes "advance_versions p = Ok q"
  shows "\<exists>v s. q = p\<lparr>pj_aggregate_version := v, pj_last_event_sequence := s\<rparr> \<and>
     unat v = Suc (unat (pj_aggregate_version p)) \<and> unat s = Suc (unat (pj_last_event_sequence p))"
proof -
  from assms obtain v s where "checked_add (pj_aggregate_version p) 1 = Some v"
    "checked_add (pj_last_event_sequence p) 1 = Some s"
    "q = p\<lparr>pj_aggregate_version := v, pj_last_event_sequence := s\<rparr>"
    by (auto simp: advance_versions_def and_then_eq_Ok ok_or_eq_Ok)
  then show ?thesis using checked_add_1_unat by blast
qed

text \<open>What no handler changes, and the two sets that only grow.\<close>

definition run_frame :: "IdrRunProjectionV1 \<Rightarrow> IdrRunProjectionV1 \<Rightarrow> bool" where
  "run_frame p q \<longleftrightarrow>
     pj_trust_domain q = pj_trust_domain p \<and> pj_environment_ref q = pj_environment_ref p \<and>
     pj_run_id q = pj_run_id p \<and> pj_tenant_ref q = pj_tenant_ref p \<and>
     pj_aggregate_version q = pj_aggregate_version p \<and>
     pj_last_event_sequence q = pj_last_event_sequence p \<and> pj_records q = pj_records p \<and>
     pj_invalidated_records p \<subseteq> pj_invalidated_records q \<and>
     pj_response_send_nonces p \<subseteq> pj_response_send_nonces q"

lemma ensure_current_Ok:
  "ensure_current_execution_action p rid pid now = Ok (q, ok) \<longleftrightarrow>
     (\<exists>x. current_execution p rid pid = Ok x \<and>
        ok = (pj_records p CK_Action = Some (ex_action_ref x) \<and>
          ex_action_ref x \<notin> pj_invalidated_records p \<and> \<not> execution_authority_expired x now) \<and>
        q = (if ok then p else set_execution_state x (withdrawn_state (ex_state x)) p))"
  by (auto simp: ensure_current_execution_action_def Let_def and_then_eq_Ok split: if_splits)

lemma current_execution_Ok [result_simps]:
  "current_execution p rid pid = Ok x \<longleftrightarrow>
     pj_execution p = Some x \<and> ex_reservation_id x = rid \<and> ex_permit_id x = pid"
  by (auto simp: current_execution_def split: option.splits)

lemma reserved_execution_Ok [result_simps]:
  "reserved_execution p rid = Ok x \<longleftrightarrow> pj_execution p = Some x \<and> ex_reservation_id x = rid"
  by (auto simp: reserved_execution_def split: option.splits)

section \<open>Effect of each handler\<close>

text \<open>
  For every handler, what it checked and the projection it returns. Later proofs use these facts
  and not the handlers' definitions.
\<close>

lemma if_Err_eq_Ok: "(if b then Err e else r) = Ok y \<longleftrightarrow> \<not> b \<and> r = Ok y"
  "(if b then r else Err e) = Ok y \<longleftrightarrow> b \<and> r = Ok y"
  by auto

lemma option_Err_eq_Ok:
  "(case x of None \<Rightarrow> Err e | Some a \<Rightarrow> f a) = Ok y \<longleftrightarrow> (\<exists>a. x = Some a \<and> f a = Ok y)"
  by (cases x) auto

lemma ex_unit_iff: "(\<exists>u :: unit. P u) \<longleftrightarrow> P ()"
  by auto

lemmas handler_simps = and_then_eq_Ok ok_or_eq_Ok map_err_eq_Ok Let_def

text \<open>Rewriting that turns a chain of checks ending in success into the facts it establishes.\<close>

lemmas chain_unfold = Let_def and_then_eq_Ok ok_or_eq_Ok if_Err_eq_Ok option_Err_eq_Ok
  split_paired_Ex ex_unit_iff prod.case result.inject prod.inject de_Morgan_disj not_le not_less not_not

lemma start_run_effect:
  assumes "handle_start_run X fresh p e now proofs input = Ok (q, r, ev)"
  shows "pj_state p = RS_Pending \<and> pj_records p CK_CanonicalInput = None \<and>
     q = p\<lparr>pj_state := RS_Running, pj_subject_ref := Some (cs_subject_ref input),
           pj_turn_id := Some (cs_turn_id input)\<rparr> \<and>
     (\<exists>rec. r = Some rec \<and> issue_record X input e now proofs (pj_trust_domain p) (fresh_record_id fresh) 1 = Ok rec)"
  using assms
  by (auto simp: handle_start_run_def handler_simps check_defs record_id_for_def split: if_splits)

lemma record_context_effect:
  assumes "handle_record_context X fresh p e now proofs c = Ok (q, r, ev)"
  shows "require_record_at p CK_CanonicalInput now = Ok () \<and> q = p \<and>
     (\<exists>rec. r = Some rec \<and> issue_for X fresh p e now proofs CK_ContextSnapshot c = Ok rec)"
  using assms by (auto simp: handle_record_context_def handler_simps)

lemma record_intent_effect:
  assumes "handle_record_intent X fresh p e now proofs c = Ok (q, r, ev)"
  shows "require_record_at p CK_ContextSnapshot now = Ok () \<and>
     (q = p\<lparr>pj_state := RS_Rejected\<rparr> \<and> r = None \<or>
      q = p \<and> (\<exists>rec. r = Some rec \<and> issue_for X fresh p e now proofs CK_Intent c = Ok rec))"
  using assms by (auto simp: handle_record_intent_def handler_simps split: if_splits)

lemma record_decision_effect:
  assumes "handle_record_decision X fresh p e now proofs c = Ok (q, r, ev)"
  shows "require_record_at p CK_Intent now = Ok () \<and>
     (\<exists>rec sel op dig. r = Some rec \<and> issue_for X fresh p e now proofs CK_Decision c = Ok rec \<and>
        decision_binding_values (cs_payload c) = Ok (sel, op, dig) \<and>
        q = p\<lparr>pj_decision_binding := Some \<lparr>db_decision_ref = ar_record_ref rec,
               db_selected_option_ref = sel, db_operation_ref = op, db_parameter_digest = dig\<rparr>\<rparr>)"
  using assms by (auto simp: handle_record_decision_def handler_simps)

lemma record_turn_effect:
  assumes "handle_record_turn X fresh p e now proofs c = Ok (q, r, ev)"
  shows "require_record_at p CK_Intent now = Ok () \<and> require_record_at p CK_Decision now = Ok () \<and>
     validate_turn_candidate (cs_payload c) = Some (Ok ()) \<and> q = p \<and>
     (\<exists>rec. r = Some rec \<and> issue_for X fresh p e now proofs CK_TurnCoordination c = Ok rec)"
proof -
  obtain v where "validate_turn_candidate (cs_payload c) = Some v"
    using validate_turn_returns by blast
  then show ?thesis using assms by (auto simp: handle_record_turn_def handler_simps)
qed

lemma record_response_effect:
  assumes "handle_record_response X fresh p e now proofs c = Ok (q, r, ev)"
  shows "require_record_at p CK_TurnCoordination now = Ok () \<and>
     (\<exists>rec dig ch aud. r = Some rec \<and> issue_for X fresh p e now proofs CK_Response c = Ok rec \<and>
        q = p\<lparr>pj_response_binding := Some \<lparr>rb_response_ref = ar_record_ref rec,
               rb_rendered_content_digest = dig, rb_channel_ref = ch, rb_audience_ref = aud\<rparr>\<rparr>)"
  using assms by (auto simp: handle_record_response_def handler_simps)

lemma consume_response_effect:
  assumes "handle_consume_response_send X p now ref bytes ch aud nonce = Ok (q, r, ev)"
  shows "require_exact_current_record_at p ref now = Ok () \<and> r = None \<and>
     nonce \<notin> pj_response_send_nonces p \<and>
     q = p\<lparr>pj_response_send_nonces := insert nonce (pj_response_send_nonces p)\<rparr> \<and>
     pj_response_binding p = Some \<lparr>rb_response_ref = ref,
       rb_rendered_content_digest = x_sha256_hex X (bytes_string bytes), rb_channel_ref = ch, rb_audience_ref = aud\<rparr>"
  using assms by (auto simp: handle_consume_response_send_def handler_simps split: if_splits)

lemma record_action_effect:
  assumes "handle_record_action X fresh p e now proofs c = Ok (q, r, ev)"
  shows "require_record_at p CK_TurnCoordination now = Ok () \<and> require_record_at p CK_Decision now = Ok () \<and>
     (\<exists>rec d req. r = Some rec \<and> issue_for X fresh p e now proofs CK_Action c = Ok rec \<and>
        pj_decision_binding p = Some d \<and> pj_records p CK_Decision = Some (db_decision_ref d) \<and>
        action_binding_values (cs_payload c) =
          Ok (db_selected_option_ref d, db_operation_ref d, db_parameter_digest d) \<and>
        q = p\<lparr>
          pj_action_binding := Some \<lparr>ab_action_ref = ar_record_ref rec,
            ab_selected_option_ref = db_selected_option_ref d, ab_operation_ref = db_operation_ref d,
            ab_parameter_digest = db_parameter_digest d, ab_request_digest = req\<rparr>,
          pj_execution := map_option (\<lambda>x. if \<not> execution_is_terminal (ex_state x)
            then x\<lparr>ex_state := withdrawn_state (ex_state x)\<rparr> else x) (pj_execution p),
          pj_action_admission := None\<rparr>)"
  using assms by (auto simp: handle_record_action_def handler_simps split: if_splits option.splits)

lemma issue_internal_shape:
  assumes "issue_internal_record X fresh kind payload e p now until proofs rid rv = Ok rec"
  shows "now < until \<and> ar_payload rec = payload \<and> ar_record_ref rec = \<lparr>rr_record_id = rid, rr_revision = rv,
     rr_candidate_kind = kind, rr_trust_domain = pj_trust_domain p, rr_environment_ref = pj_environment_ref p,
     rr_valid_from = now, rr_valid_until = until, rr_record_digest = rr_record_digest (ar_record_ref rec)\<rparr>"
  using assms by (auto simp: issue_internal_record_def handler_simps not_le split: if_splits)

lemma issue_record_shape:
  assumes "issue_record X c e now proofs d rid rv = Ok rec"
  shows "cs_valid_from c \<le> now \<and> now < cs_valid_until c \<and> ar_payload rec = cs_payload c \<and>
     ar_record_ref rec = \<lparr>rr_record_id = rid, rr_revision = rv,
     rr_candidate_kind = cs_candidate_kind c, rr_trust_domain = d, rr_environment_ref = ce_environment_ref e,
     rr_valid_from = cs_valid_from c, rr_valid_until = cs_valid_until c,
     rr_record_digest = rr_record_digest (ar_record_ref rec)\<rparr>"
  using assms by (auto simp: issue_record_def handler_simps not_le not_less split: if_splits)

lemma issue_for_shape:
  assumes "issue_for X fresh p e now proofs kind c = Ok rec"
  shows "\<exists>rv. next_revision p kind = Ok rv \<and> cs_valid_from c \<le> now \<and> now < cs_valid_until c \<and>
     ar_payload rec = cs_payload c \<and>
     ar_record_ref rec = \<lparr>rr_record_id = record_id_for fresh p kind, rr_revision = rv,
     rr_candidate_kind = cs_candidate_kind c, rr_trust_domain = pj_trust_domain p,
     rr_environment_ref = ce_environment_ref e, rr_valid_from = cs_valid_from c,
     rr_valid_until = cs_valid_until c, rr_record_digest = rr_record_digest (ar_record_ref rec)\<rparr>"
  using assms issue_record_shape by (fastforce simp: issue_for_def handler_simps)

lemma fold_min_le: "fold min xs x \<le> (x :: 'a::linorder) \<and> (\<forall>y \<in> set xs. fold min xs x \<le> y)"
proof (induction xs arbitrary: x)
  case (Cons z zs)
  from Cons [of "min z x"] show ?case by (auto simp: min_le_iff_disj intro: order_trans)
qed simp

lemma u64_min_le: "u64_min xs = Some m \<Longrightarrow> y \<in> set xs \<Longrightarrow> m \<le> y"
  using fold_min_le by (cases xs) auto

lemma admit_action_effect:
  assumes "handle_admit_action X fresh p e now proofs aref dig prov own key = Ok (q, r, ev)"
  shows "\<exists>rec b bindings auth until rv payload.
     require_exact_current_record_at p aref now = Ok () \<and> rr_record_digest aref = dig \<and> key \<noteq> [] \<and>
     verified_action_admission_proof_bindings proofs (pj_trust_domain p) = Ok bindings \<and>
     bt_get bindings PK_ExactAuthorization = Some auth \<and>
     u64_min (map vp_expires_at proofs @ [rr_valid_until aref, pb_valid_until auth]) = Some until \<and>
     now < until \<and> pj_action_binding p = Some b \<and> ab_action_ref b = aref \<and>
     next_revision p CK_ActionAdmissionDecision = Ok rv \<and>
     issue_internal_record X fresh CK_ActionAdmissionDecision payload e p now until proofs
       (record_id_for fresh p CK_ActionAdmissionDecision) rv = Ok rec \<and> Some rec = r \<and>
     p\<lparr>pj_action_admission := Some \<lparr>
       aa_admission_ref = ar_record_ref rec, aa_action_record_ref = aref, aa_provider = prov,
       aa_owner = own, aa_operation_ref = ab_operation_ref b,
       aa_parameter_digest = ab_parameter_digest b, aa_request_digest = ab_request_digest b,
       aa_idempotency = key, aa_proof_bindings = bindings,
       aa_exact_authorization_proof_id = pb_proof_id auth,
       aa_authorization_valid_until = pb_valid_until auth, aa_valid_until = until\<rparr>\<rparr> = q"
  using assms unfolding handle_admit_action_def chain_unfold
  by clarify (intro exI conjI, (assumption | rule refl)+)

lemma reservation_for_Ok:
  "reservation_for fresh p aref key att = Ok rid \<longleftrightarrow>
     (case pj_execution p of
        None \<Rightarrow> att = 1 \<and> rid = fresh_reservation_id fresh
      | Some x \<Rightarrow>
          if ex_action_ref x = aref
          then ex_state x \<in> {ES_Failed, ES_Rejected, ES_Expired} \<and>
            checked_add (ex_attempt x) 1 = Some att \<and> ex_idempotency_key x = key \<and> rid = ex_reservation_id x
          else ex_state x = ES_Cancelled \<and> att = 1 \<and> rid = fresh_reservation_id fresh)"
  by (auto simp: reservation_for_def split: option.splits if_splits)

lemma reserve_execution_effect:
  assumes "handle_reserve_execution fresh p e now proofs adref aref dig prov own key att lease nonce = Ok (q, r, ev)"
  shows "\<exists>a pid puntil until rid.
     require_exact_current_record_at p aref now = Ok () \<and>
     require_exact_current_record_at p adref now = Ok () \<and> require_caller e own = Ok () \<and> att \<noteq> 0 \<and>
     now < lease \<and> rr_record_digest aref = dig \<and> pj_action_admission p = Some a \<and>
     verified_proof_binding proofs PK_ExecutionPermit (pj_trust_domain p) = Ok (pid, puntil) \<and>
     aa_admission_ref a = adref \<and> aa_action_record_ref a = aref \<and> aa_provider a = prov \<and>
     aa_owner a = own \<and> aa_idempotency a = key \<and> rr_candidate_kind adref = CK_ActionAdmissionDecision \<and>
     u64_min [lease, rr_valid_until aref, rr_valid_until adref, aa_authorization_valid_until a, puntil] = Some until \<and>
     lease \<le> until \<and> reservation_for fresh p aref key att = Ok rid \<and> None = r \<and>
     p\<lparr>pj_execution := Some \<lparr>
       ex_reservation_id = rid, ex_action_admission_ref = adref, ex_action_ref = aref,
       ex_provider_ref = prov, ex_owner_ref = own, ex_operation_ref = aa_operation_ref a,
       ex_parameter_digest = aa_parameter_digest a, ex_request_digest = aa_request_digest a,
       ex_idempotency_key = key, ex_attempt = att, ex_permit_id = fresh_permit_id fresh,
       ex_exact_authorization_proof_id = aa_exact_authorization_proof_id a,
       ex_action_valid_until = rr_valid_until aref, ex_admission_valid_until = rr_valid_until adref,
       ex_authorization_valid_until = aa_authorization_valid_until a,
       ex_permit_valid_until = until, ex_lease_until = lease, ex_dispatch_nonce = nonce,
       ex_state = ES_PermitIssued\<rparr>\<rparr> = q"
  using assms unfolding handle_reserve_execution_def chain_unfold
  by (elim exE conjE) (intro exI conjI; assumption)

lemma recover_permit_effect:
  assumes "handle_recover_permit p e now rid = Ok (q, r, ev)"
  shows "\<exists>x. pj_execution p = Some x \<and> ex_reservation_id x = rid \<and> ce_caller_ref e = ex_owner_ref x \<and>
     ex_state x \<in> {ES_PermitIssued, ES_PermitDelivered} \<and> r = None \<and>
     q = (if execution_authority_expired x now then set_execution_state x ES_Expired p else p)"
  using assms
  by (auto simp: handle_recover_permit_def handler_simps reserved_execution_Ok check_defs split: if_splits)

lemma permit_step_effect:
  assumes "handle_permit_step p e now rid pid s1 s2 ev0 = Ok (q, r, ev)"
  shows "\<exists>x. pj_execution p = Some x \<and> ex_reservation_id x = rid \<and> ex_permit_id x = pid \<and>
     ce_caller_ref e = ex_provider_ref x \<and> r = None \<and>
     (if pj_records p CK_Action = Some (ex_action_ref x) \<and> ex_action_ref x \<notin> pj_invalidated_records p \<and>
         \<not> execution_authority_expired x now
      then ex_state x = s1 \<and> q = set_execution_state x s2 p
      else q = set_execution_state x (withdrawn_state (ex_state x)) p)"
proof -
  from assms obtain x where x: "pj_execution p = Some x" "ex_reservation_id x = rid" "ex_permit_id x = pid"
    and c: "ce_caller_ref e = ex_provider_ref x"
    unfolding handle_permit_step_def and_then_eq_Ok current_execution_Ok require_caller_def if_Err_eq_Ok by blast
  let ?C = "pj_records p CK_Action = Some (ex_action_ref x) \<and> ex_action_ref x \<notin> pj_invalidated_records p \<and>
    \<not> execution_authority_expired x now"
  have cur: "current_execution p rid pid = Ok x" using x by (simp add: current_execution_Ok)
  show ?thesis
  proof (cases ?C)
    case True
    then have "ensure_current_execution_action p rid pid now = Ok (p, True)"
      unfolding ensure_current_Ok using cur by simp
    with assms cur c True x show ?thesis
      by (simp add: handle_permit_step_def check_defs split: if_splits)
  next
    case False
    let ?q = "set_execution_state x (withdrawn_state (ex_state x)) p"
    have "ensure_current_execution_action p rid pid now = Ok (?q, False)"
      unfolding ensure_current_Ok using cur False by auto
    moreover have "current_execution ?q rid pid = Ok (x\<lparr>ex_state := withdrawn_state (ex_state x)\<rparr>)"
      using x by (simp add: current_execution_Ok set_execution_state_def)
    ultimately have "q = ?q \<and> r = None"
      using assms cur c by (simp add: handle_permit_step_def check_defs split: if_splits)
    with False x c show ?thesis by auto
  qed
qed

lemma commit_receipt_effect:
  assumes "handle_commit_execution_receipt X fresh p e now proofs c rid pid prov nonce att = Ok (q, r, ev)"
  shows "\<exists>x rec rv s run.
     next_revision p CK_ExecutionReceipt = Ok rv \<and> current_execution p rid pid = Ok x \<and>
     require_caller e (ex_provider_ref x) = Ok () \<and>
     ex_state x \<in> {ES_DispatchStarted, ES_AwaitingProvider, ES_ReconciliationRequired} \<and>
     ex_provider_ref x = prov \<and> ex_dispatch_nonce x = nonce \<and> ex_attempt x = att \<and>
     validate_execution_receipt_candidate X (cs_payload c) pid prov nonce att
       (ex_action_ref x \<in> pj_invalidated_records p) (ex_request_digest x) = Ok () \<and>
     issue_record X c e now proofs (pj_trust_domain p) (record_id_for fresh p CK_ExecutionReceipt) rv = Ok rec \<and>
     receipt_terminal_state (cs_payload c) = Ok s \<and>
     (if s = ES_Succeeded \<or> s = ES_Compensated then Ok RS_Succeeded
      else if s = ES_Failed then Ok RS_Failed
      else if s = ES_Rejected then Ok RS_Rejected else Err RE_InvalidExecutionTransition) = Ok run \<and>
     Some rec = r \<and> (set_execution_state x s p)\<lparr>pj_state := run\<rparr> = q"
  using assms
  unfolding handle_commit_execution_receipt_def Let_def and_then_eq_Ok ok_or_eq_Ok if_Err_eq_Ok(1)
    ex_unit_iff result.inject prod.inject de_Morgan_disj not_not prod.case
  by clarify (intro exI conjI, (assumption | rule refl)+)

lemma receipt_run_state:
  assumes "(if s = ES_Succeeded \<or> s = ES_Compensated then Ok RS_Succeeded
      else if s = ES_Failed then Ok RS_Failed
      else if s = ES_Rejected then Ok RS_Rejected else Err RE_InvalidExecutionTransition) = Ok run"
  shows "s \<in> {ES_Succeeded, ES_Compensated} \<and> run = RS_Succeeded \<or> s = ES_Failed \<and> run = RS_Failed \<or>
     s = ES_Rejected \<and> run = RS_Rejected"
  using assms by (auto split: if_splits)

lemma reconcile_effect:
  assumes "handle_reconcile_execution p e rid res = Ok (q, r, ev)"
  shows "\<exists>x. pj_execution p = Some x \<and> ex_reservation_id x = rid \<and> ce_caller_ref e = ex_provider_ref x \<and>
     ex_state x = ES_ReconciliationRequired \<and> res = RR_Unknown \<and> r = None \<and> q = p"
  using assms
  by (auto simp: handle_reconcile_execution_def handler_simps reserved_execution_Ok check_defs
      set_execution_state_def split: if_splits)

lemma expire_lease_effect:
  assumes "handle_expire_execution_lease p e now rid = Ok (q, r, ev)"
  shows "\<exists>x. pj_execution p = Some x \<and> ex_reservation_id x = rid \<and> ce_caller_ref e = ex_owner_ref x \<and>
     execution_authority_expired x now \<and> r = None \<and>
     (ex_state x \<in> {ES_PermitIssued, ES_PermitDelivered} \<and> q = set_execution_state x ES_Expired p \<or>
      ex_state x \<in> {ES_DispatchStarted, ES_AwaitingProvider} \<and> q = set_execution_state x ES_ReconciliationRequired p)"
  using assms
  by (auto simp: handle_expire_execution_lease_def handler_simps reserved_execution_Ok check_defs split: if_splits)

lemma invalidate_effect:
  assumes "handle_invalidate_record p ref = Ok (q, r, ev)"
  shows "require_exact_governance_target p ref = Ok () \<and> r = None \<and>
     q = p\<lparr>pj_invalidated_records := insert ref (pj_invalidated_records p),
           pj_execution := map_option (\<lambda>x.
             if rr_record_id (ex_action_ref x) = rr_record_id ref \<and> \<not> execution_is_terminal (ex_state x)
             then x\<lparr>ex_state := withdrawn_state (ex_state x)\<rparr> else x) (pj_execution p),
           pj_state := RS_Invalidated\<rparr>"
  using assms by (auto simp: handle_invalidate_record_def handler_simps)

lemma record_outcome_effect:
  assumes "handle_record_outcome X fresh p e now proofs c = Ok (q, r, ev)"
  shows "\<exists>rec receipt. r = Some rec \<and> issue_for X fresh p e now proofs CK_Outcome c = Ok rec \<and>
     pj_records p CK_ExecutionReceipt = Some receipt \<and>
     require_historical_evidence_record p receipt now IDR_RECEIPT_OUTCOME_OBSERVATION_WINDOW_SECONDS_V1 = Ok () \<and>
     validate_outcome_candidate (cs_payload c) (rr_record_digest receipt) = Ok () \<and>
     q = p\<lparr>pj_outcome_binding := Some (ar_record_ref rec)\<rparr>"
  using assms by (auto simp: handle_record_outcome_def handler_simps)

lemma propose_candidate_effect:
  assumes "handle_propose_human_model_candidate X fresh p e now proofs c = Ok (q, r, ev)"
  shows "\<exists>rec out. r = Some rec \<and> issue_for X fresh p e now proofs CK_HumanModelCandidate c = Ok rec \<and>
     pj_outcome_binding p = Some out \<and>
     require_historical_evidence_record p out now IDR_OUTCOME_HUMAN_MODEL_WINDOW_SECONDS_V1 = Ok () \<and>
     require_exact_record_payload X (cs_payload c) ''outcome'' out = Ok () \<and>
     validate_human_model_candidate (cs_payload c) = Ok () \<and>
     q = p\<lparr>pj_human_model_candidate := Some \<lparr>hc_candidate_ref = ar_record_ref rec, hc_outcome_ref = out,
            hc_materialized_payload = cs_payload c\<rparr>\<rparr>"
  using assms by (auto simp: handle_propose_human_model_candidate_def handler_simps)

lemma record_promotion_effect:
  assumes "handle_record_human_model_promotion X fresh p e now proofs c src = Ok (q, r, ev)"
  shows "\<exists>rec hc out. r = Some rec \<and>
     issue_for X fresh p e now proofs CK_HumanModelPromotionDecision c = Ok rec \<and>
     require_exact_current_record_at p src now = Ok () \<and> rr_candidate_kind src = CK_HumanModelCandidate \<and>
     pj_human_model_candidate p = Some hc \<and> hc_candidate_ref hc = src \<and>
     validate_human_model_promotion (cs_payload c) (rr_record_digest src) (hc_materialized_payload hc) = Ok out \<and>
     require_exact_record_payload X (cs_payload c) ''outcome'' (hc_outcome_ref hc) = Ok () \<and>
     q = p\<lparr>pj_human_model_promotion := Some \<lparr>hp_decision_ref = ar_record_ref rec,
            hp_source_candidate_ref = src, hp_outcome_ref = hc_outcome_ref hc, hp_outcome = out\<rparr>\<rparr>"
  using assms
  by (auto simp: handle_record_human_model_promotion_def handler_simps option_Err_eq_Ok if_Err_eq_Ok)

lemma promote_assertion_effect:
  assumes "handle_promote_human_model_assertion X fresh p e now proofs c pref = Ok (q, r, ev)"
  shows "\<exists>pr hc ls payload until rv rec.
     require_exact_current_record_at p pref now = Ok () \<and>
     rr_candidate_kind pref = CK_HumanModelPromotionDecision \<and>
     pj_human_model_promotion p = Some pr \<and> hp_decision_ref pr = pref \<and>
     pj_human_model_candidate p = Some hc \<and> hc_candidate_ref hc = hp_source_candidate_ref pr \<and>
     validate_human_model_assertion_request (cs_payload c) (rr_record_digest (hp_source_candidate_ref pr)) = Ok () \<and>
     promotion_lifecycle_state (hp_outcome pr) = Some ls \<and> materialized_assertion X pr hc ls = Ok payload \<and>
     u64_min (map vp_expires_at proofs @ [cs_valid_until c, rr_valid_until (hp_decision_ref pr),
       rr_valid_until (hp_source_candidate_ref pr)]) = Some until \<and>
     next_revision p CK_HumanModelAssertion = Ok rv \<and>
     issue_internal_record X fresh CK_HumanModelAssertion payload e p now until proofs
       (record_id_for fresh p CK_HumanModelAssertion) rv = Ok rec \<and> q = p \<and> r = Some rec"
  using assms unfolding handle_promote_human_model_assertion_def chain_unfold
  by clarify (intro exI conjI, (assumption | rule refl)+)

lemma correct_assertion_effect:
  assumes "handle_correct_human_model_assertion X p e now proofs ref c = Ok (q, r, ev)"
  shows "\<exists>rv rec. require_exact_governance_target p ref = Ok () \<and>
     validate_human_model_correction (cs_payload c) = Ok () \<and> checked_add (rr_revision ref) 1 = Some rv \<and>
     issue_record X c e now proofs (pj_trust_domain p) (rr_record_id ref) rv = Ok rec \<and> r = Some rec \<and>
     q = p\<lparr>pj_invalidated_records := insert ref (pj_invalidated_records p)\<rparr>"
  using assms by (auto simp: handle_correct_human_model_assertion_def handler_simps)

lemma cancel_effect:
  assumes "handle_cancel_run p = Ok (q, r, ev)"
  shows "r = None \<and> q = p\<lparr>pj_state := RS_Cancelled\<rparr>"
  using assms by (auto simp: handle_cancel_run_def split: if_splits)

lemmas handler_effects =
  start_run_effect record_context_effect record_intent_effect record_decision_effect record_turn_effect
  record_response_effect consume_response_effect record_action_effect admit_action_effect
  reserve_execution_effect recover_permit_effect permit_step_effect commit_receipt_effect reconcile_effect
  expire_lease_effect invalidate_effect record_outcome_effect propose_candidate_effect
  record_promotion_effect promote_assertion_effect correct_assertion_effect cancel_effect

lemmas permit_handlers = handle_deliver_permit_def handle_start_dispatch_def

section \<open>What every command keeps\<close>

lemma dispatch_frame:
  assumes "dispatch_command X fresh p e now proofs = Ok (q, r, ev)"
  shows "run_frame p q"
  using assms
  by (cases "ce_command e")
    (auto simp: dispatch_command_def permit_handlers run_frame_def set_execution_state_def
      dest!: handler_effects split: if_splits)

text \<open>The two projections a transition relates, through one accepted dispatch.\<close>

lemma transition_frame:
  assumes "evaluate_authoritative_transition_v1 X fresh p e now proofs = Ok t"
  shows "pj_trust_domain (tn_projection t) = pj_trust_domain p"
    "pj_environment_ref (tn_projection t) = pj_environment_ref p"
    "pj_run_id (tn_projection t) = pj_run_id p" "pj_tenant_ref (tn_projection t) = pj_tenant_ref p"
    "unat (pj_aggregate_version (tn_projection t)) = Suc (unat (pj_aggregate_version p))"
    "unat (pj_last_event_sequence (tn_projection t)) = Suc (unat (pj_last_event_sequence p))"
    "pj_invalidated_records p \<subseteq> pj_invalidated_records (tn_projection t)"
    "pj_response_send_nonces p \<subseteq> pj_response_send_nonces (tn_projection t)"
  using assms
  by (auto elim!: transition_cases dest!: dispatch_frame advance_versions_Ok
      simp: run_frame_def store_record_def split: option.splits)

text \<open>Runs of the engine: each command comes with its time, its verified proofs and fresh identifiers.\<close>

record engine_input =
  in_fresh :: fresh_ids
  in_command :: IdrCommandEnvelopeV1
  in_now :: u64
  in_proofs :: "VerifiedProductionProofV1 list"

definition engine_step :: "crates \<Rightarrow> IdrRunProjectionV1 \<Rightarrow> engine_input \<Rightarrow> IdrRunProjectionV1 option" where
  "engine_step X p i =
     (case evaluate_authoritative_transition_v1 X (in_fresh i) p (in_command i) (in_now i) (in_proofs i) of
        Err _ \<Rightarrow> None
      | Ok t \<Rightarrow> Some (tn_projection t))"

lemma engine_step_Some:
  "engine_step X p i = Some q \<longleftrightarrow>
     (\<exists>t. evaluate_authoritative_transition_v1 X (in_fresh i) p (in_command i) (in_now i) (in_proofs i) = Ok t
        \<and> q = tn_projection t)"
  by (auto simp: engine_step_def split: result.splits)

interpretation engine_version: versioned_machine "engine_step X" "\<lambda>p. unat (pj_aggregate_version p)"
  by unfold_locales (auto simp: engine_step_Some transition_frame)

interpretation engine_events: versioned_machine "engine_step X" "\<lambda>p. unat (pj_last_event_sequence p)"
  by unfold_locales (auto simp: engine_step_Some transition_frame)

end
