(* ===== verification/IDR_Engine_Props.thy ===== *)
theory IDR_Engine_Props
  imports IDR_Engine_Lemmas
begin

text \<open>
  Properties of the authoritative transition: how versions, records and the execution state machine
  move, what a permit, a dispatch, a receipt and a human-model promotion rest on, and what holds
  after whole sequences of commands.
\<close>

section \<open>The execution state machine\<close>

text \<open>
  The state changes of one execution attempt, by the command that causes them, written out state by
  state. A new attempt (\<open>ReserveExecution\<close>) replaces the projection and is treated apart. The last rule
  is where the handlers leave the state machine the documentation and the database guard describe: a
  withdrawal finds the attempt neither before its dispatch nor in flight, and cancels it all the same.
\<close>

fun withdraws :: "IdrCommandV1 \<Rightarrow> bool" where
  "withdraws (DeliverPermit _ _) = True"
| "withdraws (StartDispatch _ _) = True"
| "withdraws (RecordAction _) = True"
| "withdraws (InvalidateRecord _ _) = True"
| "withdraws _ = False"

definition live_states :: "ExecutionAggregateStateV1 set" where
  "live_states = {ES_PermitIssued, ES_PermitDelivered, ES_DispatchStarted, ES_AwaitingProvider}"

inductive execution_step :: "IdrCommandV1 \<Rightarrow> ExecutionAggregateStateV1 \<Rightarrow> ExecutionAggregateStateV1 \<Rightarrow> bool" where
  deliver: "execution_step (DeliverPermit rid pid) ES_PermitIssued ES_PermitDelivered"
| dispatch: "execution_step (StartDispatch rid pid) ES_PermitDelivered ES_DispatchStarted"
| withdrawn_before_dispatch: "withdraws c \<Longrightarrow> s \<in> {ES_PermitIssued, ES_PermitDelivered} \<Longrightarrow>
    execution_step c s ES_Cancelled"
| withdrawn_in_flight: "withdraws c \<Longrightarrow> s \<in> {ES_DispatchStarted, ES_AwaitingProvider} \<Longrightarrow>
    execution_step c s ES_ReconciliationRequired"
| recover_expired: "s \<in> {ES_PermitIssued, ES_PermitDelivered} \<Longrightarrow> execution_step (RecoverPermit rid) s ES_Expired"
| lease_expired: "s \<in> {ES_PermitIssued, ES_PermitDelivered} \<Longrightarrow> execution_step (ExpireExecutionLease rid) s ES_Expired"
| lease_expired_dispatched: "s \<in> {ES_DispatchStarted, ES_AwaitingProvider} \<Longrightarrow>
    execution_step (ExpireExecutionLease rid) s ES_ReconciliationRequired"
| receipt: "s \<in> {ES_DispatchStarted, ES_AwaitingProvider, ES_ReconciliationRequired} \<Longrightarrow>
    s' \<in> {ES_Succeeded, ES_Compensated, ES_Failed, ES_Rejected} \<Longrightarrow>
    execution_step (CommitExecutionReceipt c rid pid prov nonce att) s s'"
| withdrawn_late: "withdraws c \<Longrightarrow> s \<notin> live_states \<Longrightarrow>
    execution_is_terminal s \<longrightarrow> (\<exists>rid pid. c \<in> {DeliverPermit rid pid, StartDispatch rid pid}) \<Longrightarrow>
    execution_step c s ES_Cancelled"

inductive_simps execution_step_simps [simp]:
  "execution_step (DeliverPermit rid pid) s s'"
  "execution_step (StartDispatch rid pid) s s'"
  "execution_step (RecoverPermit rid) s s'"
  "execution_step (ExpireExecutionLease rid) s s'"
  "execution_step (CommitExecutionReceipt c rid pid prov nonce att) s s'"

lemma execution_step_withdrawn:
  "withdraws c \<Longrightarrow> execution_is_terminal s \<longrightarrow> (\<exists>rid pid. c \<in> {DeliverPermit rid pid, StartDispatch rid pid}) \<Longrightarrow>
     execution_step c s (withdrawn_state s)"
  using execution_step.intros(3,4,9) [of c s] by (auto simp: withdrawn_state_def live_states_def)

lemma permit_step_withdrawn:
  "execution_step (DeliverPermit rid pid) s (withdrawn_state s)"
  "execution_step (StartDispatch rid pid) s (withdrawn_state s)"
  by (rule execution_step_withdrawn; auto)+

lemma record_withdrawn:
  "\<not> execution_is_terminal s \<Longrightarrow> execution_step (RecordAction c) s (withdrawn_state s)"
  "\<not> execution_is_terminal s \<Longrightarrow> execution_step (InvalidateRecord ref reason) s (withdrawn_state s)"
  by (rule execution_step_withdrawn; simp)+

definition same_attempt :: "IdrCommandV1 \<Rightarrow> ExecutionProjectionV1 option \<Rightarrow> ExecutionProjectionV1 option \<Rightarrow> bool" where
  "same_attempt c x y \<longleftrightarrow> y = x \<or>
     (\<exists>a s. x = Some a \<and> y = Some (a\<lparr>ex_state := s\<rparr>) \<and> execution_step c (ex_state a) s)"

definition is_reserve :: "IdrCommandV1 \<Rightarrow> bool" where
  "is_reserve c \<longleftrightarrow> (case c of ReserveExecution _ _ _ _ _ _ _ _ _ \<Rightarrow> True | _ \<Rightarrow> False)"

lemma same_attempt_refl [simp]: "same_attempt c x x"
  by (simp add: same_attempt_def)

lemma same_attempt_set:
  "execution_step c (ex_state x) s \<Longrightarrow> same_attempt c (Some x) (pj_execution (set_execution_state x s p))"
  by (auto simp: same_attempt_def set_execution_state_def)

lemma same_attempt_map:
  "(\<And>a. x = Some a \<Longrightarrow> P a \<Longrightarrow> execution_step c (ex_state a) (f (ex_state a))) \<Longrightarrow>
     same_attempt c x (map_option (\<lambda>a. if P a then a\<lparr>ex_state := f (ex_state a)\<rparr> else a) x)"
  by (cases x) (auto simp: same_attempt_def)

lemma permit_step_same_attempt:
  assumes "handle_permit_step p e now rid pid s1 s2 ev0 = Ok (q, r, ev)"
    and "execution_step c s1 s2" and "\<And>s. execution_step c s (withdrawn_state s)"
  shows "same_attempt c (pj_execution p) (pj_execution q)"
  using permit_step_effect [OF assms(1)] assms(2,3) by (auto split: if_splits intro!: same_attempt_set)

lemma receipt_same_attempt:
  assumes "handle_commit_execution_receipt X fresh p e now proofs c rid pid prov nonce att = Ok (q, r, ev)"
  shows "same_attempt (CommitExecutionReceipt c rid pid prov nonce att) (pj_execution p) (pj_execution q)"
proof -
  from commit_receipt_effect [OF assms] obtain x s run where
    x: "current_execution p rid pid = Ok x"
      "ex_state x \<in> {ES_DispatchStarted, ES_AwaitingProvider, ES_ReconciliationRequired}"
    and s: "(if s = ES_Succeeded \<or> s = ES_Compensated then Ok RS_Succeeded
      else if s = ES_Failed then Ok RS_Failed
      else if s = ES_Rejected then Ok RS_Rejected else Err RE_InvalidExecutionTransition) = Ok run"
    and q: "(set_execution_state x s p)\<lparr>pj_state := run\<rparr> = q" by blast
  from receipt_run_state [OF s] have "s \<in> {ES_Succeeded, ES_Compensated, ES_Failed, ES_Rejected}" by blast
  with x q show ?thesis
    using same_attempt_set [of "CommitExecutionReceipt c rid pid prov nonce att" x s p]
    by (auto simp: current_execution_Ok)
qed

lemma dispatch_execution:
  assumes ok: "dispatch_command X fresh p e now proofs = Ok (q, r, ev)" and nr: "\<not> is_reserve (ce_command e)"
  shows "same_attempt (ce_command e) (pj_execution p) (pj_execution q)"
proof (cases "ce_command e")
  case (DeliverPermit rid pid)
  with ok show ?thesis
    by (auto simp: dispatch_command_def permit_handlers intro: permit_step_same_attempt [OF _ _ permit_step_withdrawn(1)]
        permit_step_same_attempt [OF _ _ permit_step_withdrawn(2)])
next
  case (StartDispatch rid pid)
  with ok show ?thesis
    by (auto simp: dispatch_command_def permit_handlers intro: permit_step_same_attempt [OF _ _ permit_step_withdrawn(1)]
        permit_step_same_attempt [OF _ _ permit_step_withdrawn(2)])
next
  case (CommitExecutionReceipt c rid pid prov nonce att)
  with ok receipt_same_attempt show ?thesis by (simp add: dispatch_command_def)
next
  case (RecordAction c)
  with ok show ?thesis
    by (auto simp: dispatch_command_def dest!: record_action_effect intro!: same_attempt_map record_withdrawn)
next
  case (InvalidateRecord ref reason)
  with ok show ?thesis
    by (auto simp: dispatch_command_def dest!: invalidate_effect intro!: same_attempt_map record_withdrawn)
next
  case (RecoverPermit rid)
  with ok show ?thesis
    by (auto simp: dispatch_command_def dest!: recover_permit_effect intro!: same_attempt_set split: if_splits)
next
  case (ExpireExecutionLease rid)
  with ok show ?thesis
    by (auto simp: dispatch_command_def dest!: expire_lease_effect intro!: same_attempt_set)
qed (use ok nr in \<open>auto simp: dispatch_command_def is_reserve_def dest!: handler_effects\<close>)

section \<open>Invariants\<close>

text \<open>
  The type invariant of a projection: the record filed under a kind is of that kind, of the run's
  trust domain and environment, with a non-empty validity window; and every window of an execution
  attempt encloses its lease.
\<close>

definition record_ok :: "IdrRunProjectionV1 \<Rightarrow> AuthoritativeRecordRefV1 \<Rightarrow> bool" where
  "record_ok p r \<longleftrightarrow> rr_trust_domain r = pj_trust_domain p \<and> rr_environment_ref r = pj_environment_ref p \<and>
     rr_valid_from r < rr_valid_until r \<and> 1 \<le> rr_revision r"

definition execution_ok :: "ExecutionProjectionV1 \<Rightarrow> bool" where
  "execution_ok x \<longleftrightarrow> ex_lease_until x = ex_permit_valid_until x \<and>
     ex_lease_until x \<le> ex_action_valid_until x \<and> ex_lease_until x \<le> ex_admission_valid_until x \<and>
     ex_lease_until x \<le> ex_authorization_valid_until x \<and> 1 \<le> ex_attempt x"

definition projection_ok :: "IdrRunProjectionV1 \<Rightarrow> bool" where
  "projection_ok p \<longleftrightarrow>
     (\<forall>k r. pj_records p k = Some r \<longrightarrow> rr_candidate_kind r = k \<and> record_ok p r) \<and>
     (\<forall>x. pj_execution p = Some x \<longrightarrow> execution_ok x)"

lemma execution_ok_state [simp]: "execution_ok (x\<lparr>ex_state := s\<rparr>) = execution_ok x"
  by (simp add: execution_ok_def)

lemma word_one_le: "(w :: 'a::len word) \<noteq> 0 \<Longrightarrow> 1 \<le> w"
  by (simp add: word_le_nat_alt Suc_le_eq unat_gt_0)

lemma checked_add_1_pos: "checked_add (a :: 'w::len word) 1 = Some c \<Longrightarrow> 1 \<le> c"
  using checked_add_1_unat [of a c] by (simp add: word_le_nat_alt)

lemma next_revision_pos: "next_revision p k = Ok v \<Longrightarrow> 1 \<le> v"
  by (auto simp: next_revision_def ok_or_eq_Ok checked_add_1_pos split: option.splits)

text \<open>Where the records a transition issues come from.\<close>

lemma issued_by_candidate_ok:
  assumes "issue_record X c e now proofs (pj_trust_domain p) rid v = Ok rec"
    and "ce_environment_ref e = pj_environment_ref p" "1 \<le> v"
  shows "record_ok p (ar_record_ref rec)" "rr_candidate_kind (ar_record_ref rec) = cs_candidate_kind c"
proof -
  note sh = issue_record_shape [OF assms(1)]
  from sh have "cs_valid_from c < cs_valid_until c" by (metis order_le_less_trans)
  moreover obtain d where "ar_record_ref rec = \<lparr>rr_record_id = rid, rr_revision = v,
     rr_candidate_kind = cs_candidate_kind c, rr_trust_domain = pj_trust_domain p,
     rr_environment_ref = ce_environment_ref e, rr_valid_from = cs_valid_from c,
     rr_valid_until = cs_valid_until c, rr_record_digest = d\<rparr>" using sh by blast
  ultimately show "record_ok p (ar_record_ref rec)"
      "rr_candidate_kind (ar_record_ref rec) = cs_candidate_kind c"
    using assms(2,3) by (simp_all add: record_ok_def)
qed

lemma issued_for_ok:
  assumes "issue_for X fresh p e now proofs k c = Ok rec" and "ce_environment_ref e = pj_environment_ref p"
  shows "record_ok p (ar_record_ref rec)" "rr_candidate_kind (ar_record_ref rec) = cs_candidate_kind c"
  using assms issued_by_candidate_ok next_revision_pos
  by (fastforce simp: issue_for_def and_then_eq_Ok)+

lemma issued_internal_ok:
  assumes "issue_internal_record X fresh k payload e p now until proofs rid v = Ok rec" and "1 \<le> v"
  shows "record_ok p (ar_record_ref rec)" "rr_candidate_kind (ar_record_ref rec) = k"
proof -
  note sh = issue_internal_shape [OF assms(1)]
  obtain d where "ar_record_ref rec = \<lparr>rr_record_id = rid, rr_revision = v, rr_candidate_kind = k,
     rr_trust_domain = pj_trust_domain p, rr_environment_ref = pj_environment_ref p,
     rr_valid_from = now, rr_valid_until = until, rr_record_digest = d\<rparr>" using sh by blast
  with sh assms(2) show "record_ok p (ar_record_ref rec)" "rr_candidate_kind (ar_record_ref rec) = k"
    by (simp_all add: record_ok_def)
qed

lemma dispatch_record_ok:
  assumes ok: "dispatch_command X fresh p e now proofs = Ok (q, Some rec, ev)"
    and env: "ce_environment_ref e = pj_environment_ref p"
  shows "record_ok p (ar_record_ref rec)"
proof (cases "ce_command e")
  case (AdmitAction a b c d k)
  with ok obtain payload until v where "issue_internal_record X fresh CK_ActionAdmissionDecision payload e p now until
      proofs (record_id_for fresh p CK_ActionAdmissionDecision) v = Ok rec"
      "next_revision p CK_ActionAdmissionDecision = Ok v"
    by (auto simp: dispatch_command_def dest!: admit_action_effect)
  then show ?thesis using issued_internal_ok(1) [OF _ next_revision_pos] by blast
next
  case (PromoteHumanModelAssertion a b)
  with ok obtain payload until v where "issue_internal_record X fresh CK_HumanModelAssertion payload e p now until
      proofs (record_id_for fresh p CK_HumanModelAssertion) v = Ok rec"
      "next_revision p CK_HumanModelAssertion = Ok v"
    by (auto simp: dispatch_command_def dest!: promote_assertion_effect)
  then show ?thesis using issued_internal_ok(1) [OF _ next_revision_pos] by blast
next
  case (StartRun c)
  with ok env show ?thesis
    by (auto simp: dispatch_command_def dest!: start_run_effect intro: issued_by_candidate_ok(1))
next
  case (CommitExecutionReceipt c rid pid prov nonce att)
  with ok obtain v where "issue_record X c e now proofs (pj_trust_domain p)
      (record_id_for fresh p CK_ExecutionReceipt) v = Ok rec" "next_revision p CK_ExecutionReceipt = Ok v"
    by (auto simp: dispatch_command_def dest!: commit_receipt_effect)
  with env issued_by_candidate_ok(1) next_revision_pos show ?thesis by blast
next
  case (CorrectHumanModelAssertion ref c)
  with ok obtain v where "issue_record X c e now proofs (pj_trust_domain p) (rr_record_id ref) v = Ok rec"
      "checked_add (rr_revision ref) 1 = Some v"
    by (auto simp: dispatch_command_def dest!: correct_assertion_effect)
  with env issued_by_candidate_ok(1) checked_add_1_pos show ?thesis by blast
qed (use ok env in \<open>auto simp: dispatch_command_def permit_handlers dest!: handler_effects intro: issued_for_ok(1)\<close>)

lemma reserve_execution_ok:
  assumes "handle_reserve_execution fresh p e now proofs adref aref dig prov own key att lease nonce = Ok (q, r, ev)"
  shows "\<exists>x. pj_execution q = Some x \<and> execution_ok x"
proof -
  from reserve_execution_effect [OF assms] obtain a :: ActionAdmissionProjectionV1 and puntil until rid where
    att: "att \<noteq> 0" and until: "lease \<le> until"
      "u64_min [lease, rr_valid_until aref, rr_valid_until adref, aa_authorization_valid_until a, puntil] = Some until"
    and q: "p\<lparr>pj_execution := Some \<lparr>
       ex_reservation_id = rid, ex_action_admission_ref = adref, ex_action_ref = aref,
       ex_provider_ref = prov, ex_owner_ref = own, ex_operation_ref = aa_operation_ref a,
       ex_parameter_digest = aa_parameter_digest a, ex_request_digest = aa_request_digest a,
       ex_idempotency_key = key, ex_attempt = att, ex_permit_id = fresh_permit_id fresh,
       ex_exact_authorization_proof_id = aa_exact_authorization_proof_id a,
       ex_action_valid_until = rr_valid_until aref, ex_admission_valid_until = rr_valid_until adref,
       ex_authorization_valid_until = aa_authorization_valid_until a,
       ex_permit_valid_until = until, ex_lease_until = lease, ex_dispatch_nonce = nonce,
       ex_state = ES_PermitIssued\<rparr>\<rparr> = q" by blast
  note le = u64_min_le [OF until(2)]
  have "until = lease" using until(1) le [of lease] by simp
  with att le show ?thesis
    by (simp add: q [symmetric] execution_ok_def word_one_le)
qed

lemma dispatch_execution_ok:
  assumes ok: "dispatch_command X fresh p e now proofs = Ok (q, r, ev)"
    and inv: "\<forall>x. pj_execution p = Some x \<longrightarrow> execution_ok x" and y: "pj_execution q = Some y"
  shows "execution_ok y"
proof (cases "is_reserve (ce_command e)")
  case True
  then obtain adref aref dig prov own key att lease nonce where
    c: "ce_command e = ReserveExecution adref aref dig prov own key att lease nonce"
    by (auto simp: is_reserve_def split: IdrCommandV1.splits)
  with ok have "handle_reserve_execution fresh p e now proofs adref aref dig prov own key att lease nonce = Ok (q, r, ev)"
    by (simp add: dispatch_command_def)
  from reserve_execution_ok [OF this] y show ?thesis by simp
next
  case False
  from dispatch_execution [OF ok this] inv y show ?thesis by (auto simp: same_attempt_def)
qed

lemma transition_projection_ok:
  assumes inv: "projection_ok p"
    and ok: "evaluate_authoritative_transition_v1 X fresh p e now proofs = Ok t"
  shows "projection_ok (tn_projection t)"
  using ok
proof (rule transition_cases)
  fix adv q r ev
  assume env: "pj_environment_ref p = ce_environment_ref e" and adv: "advance_versions p = Ok adv"
    and d: "dispatch_command X fresh adv e now proofs = Ok (q, r, ev)"
    and t: "tn_projection t = store_record r q"
  from advance_versions_Ok [OF adv] obtain v s
    where a: "adv = p\<lparr>pj_aggregate_version := v, pj_last_event_sequence := s\<rparr>" by blast
  have "projection_ok adv = projection_ok p" by (simp add: a projection_ok_def record_ok_def)
  with inv env have inv': "projection_ok adv" "ce_environment_ref e = pj_environment_ref adv"
    by (simp_all add: a)
  have fr: "run_frame adv q" using d by (rule dispatch_frame)
  have x: "\<forall>x. pj_execution q = Some x \<longrightarrow> execution_ok x"
    using dispatch_execution_ok [OF d] inv'(1) unfolding projection_ok_def by blast
  have "pj_records q = pj_records adv" "record_ok q = record_ok adv"
    using fr by (simp_all add: run_frame_def record_ok_def fun_eq_iff)
  then have old: "\<forall>k s. pj_records q k = Some s \<longrightarrow> rr_candidate_kind s = k \<and> record_ok q s"
    using inv'(1) unfolding projection_ok_def by simp
  show ?thesis
  proof (cases r)
    case None
    with t x old show ?thesis unfolding projection_ok_def by (simp only: store_record_def option.case)
  next
    case (Some rec)
    have "record_ok adv (ar_record_ref rec)" using d Some inv'(2) by (auto intro: dispatch_record_ok)
    then have "record_ok q (ar_record_ref rec)" using fr by (simp add: run_frame_def record_ok_def)
    with Some t x old show ?thesis
      unfolding projection_ok_def record_ok_def by (simp add: store_record_def)
  qed
qed

interpretation engine_inv: invariant_machine "engine_step X" projection_ok
  by unfold_locales (auto simp: engine_step_Some transition_projection_ok)

lemma pending_projection_ok: "projection_ok (IdrRunProjectionV1_pending d env run tenant)"
  by (simp add: projection_ok_def IdrRunProjectionV1_pending_def)

end
