(* ===== verification/IDR_Engine_Runs.thy ===== *)
theory IDR_Engine_Runs
  imports IDR_Engine_Props "HOL-Library.Code_Target_Nat"
begin

text \<open>
  Properties of whole runs of the engine and of single accepted commands, each with a concrete run
  on which it applies: optimistic concurrency and replay, the reachable projections, the execution
  state machine, what admission, dispatch and receipts rest on, and how invalidation acts.
\<close>

section \<open>Concrete data\<close>

definition sample_digest :: string where
  "sample_digest = replicate 64 (CHR ''a'')"

definition sample_ref :: "CandidateKindV1 \<Rightarrow> AuthoritativeRecordRefV1" where
  "sample_ref kind = \<lparr>
     rr_record_id = 31, rr_revision = 1, rr_candidate_kind = kind, rr_trust_domain = TD_Shadow,
     rr_environment_ref = sample_environment, rr_valid_from = 100, rr_valid_until = 900,
     rr_record_digest = sample_digest\<rparr>"

definition sample_proof :: "ProductionProofKindV1 \<Rightarrow> VerifiedProductionProofV1" where
  "sample_proof kind = sample_verified\<lparr>vp_proof_kind := kind, vp_expires_at := 800\<rparr>"

definition sample_fresh :: fresh_ids where
  "sample_fresh = \<lparr>fresh_record_id = 41, fresh_candidate_id = 42, fresh_reservation_id = 43, fresh_permit_id = 44\<rparr>"

definition sample_execution :: "ExecutionAggregateStateV1 \<Rightarrow> ExecutionProjectionV1" where
  "sample_execution s = \<lparr>
     ex_reservation_id = 51, ex_action_admission_ref = sample_ref CK_ActionAdmissionDecision,
     ex_action_ref = sample_ref CK_Action, ex_provider_ref = ''provider:p'', ex_owner_ref = ''owner:o'',
     ex_operation_ref = ''operation:o'', ex_parameter_digest = sample_digest,
     ex_request_digest = sample_digest, ex_idempotency_key = ''key'', ex_attempt = 1,
     ex_permit_id = 52, ex_exact_authorization_proof_id = 7, ex_action_valid_until = 900,
     ex_admission_valid_until = 900, ex_authorization_valid_until = 900, ex_permit_valid_until = 500,
     ex_lease_until = 500, ex_dispatch_nonce = sample_digest, ex_state = s\<rparr>"

definition sample_admission :: ActionAdmissionProjectionV1 where
  "sample_admission = \<lparr>
     aa_admission_ref = sample_ref CK_ActionAdmissionDecision, aa_action_record_ref = sample_ref CK_Action,
     aa_provider = ''provider:p'', aa_owner = ''owner:o'', aa_operation_ref = ''operation:o'',
     aa_parameter_digest = sample_digest, aa_request_digest = sample_digest, aa_idempotency = ''key'',
     aa_proof_bindings = [], aa_exact_authorization_proof_id = 7, aa_authorization_valid_until = 900,
     aa_valid_until = 900\<rparr>"

text \<open>A running projection with a record of every kind and everything bound to it.\<close>

definition sample_projection :: "ExecutionProjectionV1 option \<Rightarrow> IdrRunProjectionV1" where
  "sample_projection x = \<lparr>
     pj_trust_domain = TD_Shadow, pj_environment_ref = sample_environment, pj_run_id = 1,
     pj_tenant_ref = ''tenant:t'', pj_subject_ref = Some ''subject:s'', pj_turn_id = Some 2,
     pj_aggregate_version = 3, pj_state = RS_Running, pj_records = (\<lambda>k. Some (sample_ref k)),
     pj_invalidated_records = {}, pj_response_send_nonces = {},
     pj_response_binding = Some \<lparr>rb_response_ref = sample_ref CK_Response,
       rb_rendered_content_digest = sample_digest, rb_channel_ref = ''channel:c'',
       rb_audience_ref = ''audience:a''\<rparr>,
     pj_outcome_binding = Some (sample_ref CK_Outcome),
     pj_human_model_candidate = Some \<lparr>hc_candidate_ref = sample_ref CK_HumanModelCandidate,
       hc_outcome_ref = sample_ref CK_Outcome, hc_materialized_payload = JObj [
         (''evidence_refs'', JArr [JStr ''evidence:a'', JStr ''evidence:b''])]\<rparr>,
     pj_human_model_promotion = None,
     pj_decision_binding = Some \<lparr>db_decision_ref = sample_ref CK_Decision,
       db_selected_option_ref = ''option:a'', db_operation_ref = ''operation:o'',
       db_parameter_digest = sample_digest\<rparr>,
     pj_action_binding = Some \<lparr>ab_action_ref = sample_ref CK_Action,
       ab_selected_option_ref = ''option:a'', ab_operation_ref = ''operation:o'',
       ab_parameter_digest = sample_digest, ab_request_digest = sample_digest\<rparr>,
     pj_action_admission = Some sample_admission, pj_execution = x, pj_last_event_sequence = 3\<rparr>"

definition sample_input ::
  "u64 \<Rightarrow> ReferenceV1 \<Rightarrow> IdrCommandV1 \<Rightarrow> ProductionProofKindV1 list \<Rightarrow> engine_input" where
  "sample_input version caller command kinds = \<lparr>
     in_fresh = sample_fresh, in_command = sample_command version caller command, in_now = 200,
     in_proofs = map sample_proof kinds\<rparr>"

fun the_ok :: "('e, 'a) result \<Rightarrow> 'a" where
  "the_ok (Ok a) = a"
| "the_ok (Err e) = undefined"

lemma the_ok: "\<not> is_err r \<Longrightarrow> r = Ok (the_ok r)"
  by (cases r) auto

lemma is_some_iff: "x \<noteq> None \<longleftrightarrow> (\<exists>y. x = Some y)"
  by auto

lemma sample_transition:
  assumes "IdrCommandEnvelopeV1_validate sample_crates (sample_command 3 caller c) = Ok ()"
    and "require_command_state RS_Running c = Ok ()" "check_lineage (sample_projection x) c now = Ok ()"
    and "found_proof_kinds proofs = command_required_proof_kinds c"
    and d: "dispatch_command sample_crates fresh
       ((sample_projection x)\<lparr>pj_aggregate_version := 4, pj_last_event_sequence := 4\<rparr>)
       (sample_command 3 caller c) now proofs = Ok (h, r, ev)"
  shows "\<exists>t. evaluate_authoritative_transition_v1 sample_crates fresh (sample_projection x)
       (sample_command 3 caller c) now proofs = Ok t \<and>
     tn_projection t = store_record r h \<and> tn_authoritative_record t = r \<and> tn_event_type t = ev"
proof -
  have a: "advance_versions (sample_projection x) =
      Ok ((sample_projection x)\<lparr>pj_aggregate_version := 4, pj_last_event_sequence := 4\<rparr>)"
    by (simp add: advance_versions_def sample_projection_def checked_add_def)
  have "pj_aggregate_version (store_record r h) = 4"
    using dispatch_frame [OF d] by (simp add: run_frame_def store_record_def split: option.splits)
  then show ?thesis
    using assms a by (simp add: evaluate_authoritative_transition_v1_def sample_projection_def sample_command_def)
qed

lemmas sample_defs = sample_projection_def sample_execution_def sample_command_def sample_ref_def
  sample_admission_def sample_proof_def sample_verified_def sample_fresh_def sample_candidate_def

text \<open>The concrete digest is constant, so digests are known without running the encoder.\<close>

lemma json_numbers_ok_object:
  "(\<forall>kv \<in> set kvs. json_numbers_ok (snd kv)) \<Longrightarrow> json_numbers_ok (json_object kvs)"
  using foldl_bt_insert_values [of "[]" kvs] by (fastforce simp: json_object_def image_iff)

lemma sample_canonical_digest:
  assumes "json_numbers_ok v"
  shows "canonical_digest_v1 sample_crates domain v = Ok sample_digest"
proof -
  have "\<exists>b. write_canonical_value sample_crates (JArr [JStr domain, v]) = Ok b"
    unfolding write_canonical_total [OF sample_strings_delimited] using assms by simp
  then show ?thesis
    by (auto simp: canonical_digest_v1_def canonical_json_bytes_v1_def sample_crates_def sample_digest_def)
qed

lemma json_numbers_ok_leaves [simp]:
  "json_numbers_ok (uuid_json X u)" "json_numbers_ok (TrustDomainV1_json d)"
  "json_numbers_ok (candidate_kind_json ck)" "json_numbers_ok (ju64 w) \<longleftrightarrow> uint w \<le> IDR_MAX_SAFE_WIRE_INTEGER_V1"
  "json_numbers_ok (jint i) \<longleftrightarrow> \<bar>i\<bar> \<le> IDR_MAX_SAFE_WIRE_INTEGER_V1"
  by (simp_all add: uuid_json_def TrustDomainV1_json_def candidate_kind_json_def ju64_def jint_def
      validate_canonical_number_Ok)

lemma sample_candidate_digest:
  assumes "json_numbers_ok payload"
  shows "CandidateSubmissionV1_canonical_digest sample_crates (sample_candidate kind payload) = Ok sample_digest"
  unfolding CandidateSubmissionV1_canonical_digest_def CandidateSubmissionV1_json_def
  by (rule sample_canonical_digest, rule json_numbers_ok_object)
    (use assms in \<open>simp add: sample_candidate_def WireCompatibilityV1_json_def WireCompatibilityV1_v1_def
      IDR_WIRE_SCHEMA_VERSION_V1_def IDR_MINIMUM_READER_VERSION_V1_def
      json_numbers_ok_object IDR_MAX_SAFE_WIRE_INTEGER_V1_def\<close>)

lemma sample_issue:
  assumes "CandidateSubmissionV1_validate sample_crates (sample_candidate kind payload) = Ok ()"
    and "json_numbers_ok payload" "uint revision \<le> IDR_MAX_SAFE_WIRE_INTEGER_V1"
  shows "\<exists>rec. issue_record sample_crates (sample_candidate kind payload) (sample_command version caller c) 200
     proofs d rid revision = Ok rec"
proof -
  have "canonical_digest_v1 sample_crates ''idr-authoritative-record-v1'' (digest_material_json sample_crates m) = Ok sample_digest"
    if "json_numbers_ok (dm_payload m)" "uint (dm_revision m) \<le> IDR_MAX_SAFE_WIRE_INTEGER_V1"
      "dm_valid_from m = 100" "dm_valid_until m = 1000" "dm_issued_at m = 200" for m
    unfolding digest_material_json_def
    by (rule sample_canonical_digest, rule json_numbers_ok_object)
      (use that in \<open>simp add: IDR_MAX_SAFE_WIRE_INTEGER_V1_def\<close>)
  then show ?thesis using assms
    by (simp add: issue_record_def sample_candidate_digest) (simp add: sample_candidate_def)
qed

lemma sample_empty_candidate_validates:
  "CandidateSubmissionV1_validate sample_crates (sample_candidate CK_CanonicalInput (JObj [])) = Ok ()"
  by code_simp

section \<open>Optimistic concurrency\<close>

lemma engine_step_expected:
  assumes "engine_step X p i = Some q"
  shows "ce_expected_aggregate_version (in_command i) = pj_aggregate_version p"
  using assms by (auto simp: engine_step_Some elim: transition_cases)

text \<open>
  C26: an accepted command fixes the run's identity, and moves its version and its event sequence by exactly one
  (without wrapping); a command made for another version, run, tenant, environment or trust domain
  is rejected as a version conflict.
\<close>

theorem transition_is_compare_and_swap:
  assumes "evaluate_authoritative_transition_v1 X fresh p e now proofs = Ok t"
  shows "pj_run_id (tn_projection t) = ce_run_id e \<and> pj_tenant_ref (tn_projection t) = ce_tenant_ref e \<and>
     pj_trust_domain (tn_projection t) = ce_trust_domain e \<and>
     pj_environment_ref (tn_projection t) = ce_environment_ref e \<and>
     pj_aggregate_version p = ce_expected_aggregate_version e \<and>
     unat (pj_aggregate_version (tn_projection t)) = Suc (unat (pj_aggregate_version p)) \<and>
     unat (pj_last_event_sequence (tn_projection t)) = Suc (unat (pj_last_event_sequence p)) \<and>
     (\<forall>p'. (pj_aggregate_version p' \<noteq> ce_expected_aggregate_version e \<or> pj_run_id p' \<noteq> ce_run_id e \<or>
        pj_tenant_ref p' \<noteq> ce_tenant_ref e \<or> pj_environment_ref p' \<noteq> ce_environment_ref e \<or>
        pj_trust_domain p' \<noteq> ce_trust_domain e) \<longrightarrow>
      evaluate_authoritative_transition_v1 X fresh p' e now proofs = Err RE_AggregateVersionConflict)"
proof -
  from assms have v: "IdrCommandEnvelopeV1_validate X e = Ok ()" by (rule transition_cases)
  have "evaluate_authoritative_transition_v1 X fresh p' e now proofs = Err RE_AggregateVersionConflict"
    if "pj_aggregate_version p' \<noteq> ce_expected_aggregate_version e \<or> pj_run_id p' \<noteq> ce_run_id e \<or>
        pj_tenant_ref p' \<noteq> ce_tenant_ref e \<or> pj_environment_ref p' \<noteq> ce_environment_ref e \<or>
        pj_trust_domain p' \<noteq> ce_trust_domain e" for p'
    using that v by (auto simp: evaluate_authoritative_transition_v1_def)
  with assms transition_frame [OF assms] show ?thesis by (auto elim: transition_cases)
qed

lemma sample_dispatch_validates:
  "IdrCommandEnvelopeV1_validate sample_crates (sample_command 3 ''provider:p'' (StartDispatch 51 52)) = Ok ()"
  by code_simp

lemma sample_dispatch:
  "\<exists>t. evaluate_authoritative_transition_v1 sample_crates sample_fresh
       (sample_projection (Some (sample_execution ES_PermitDelivered)))
       (sample_command 3 ''provider:p'' (StartDispatch 51 52)) 200 [sample_proof PK_ExecutionPermit] = Ok t \<and>
     tn_event_type t = ''execution_dispatch_started''"
proof -
  let ?p = "(sample_projection (Some (sample_execution ES_PermitDelivered)))\<lparr>pj_aggregate_version := 4, pj_last_event_sequence := 4\<rparr>"
  have d: "dispatch_command sample_crates sample_fresh ?p (sample_command 3 ''provider:p'' (StartDispatch 51 52)) 200
      [sample_proof PK_ExecutionPermit] = Ok (set_execution_state (sample_execution ES_PermitDelivered)
         ES_DispatchStarted ?p, None, ''execution_dispatch_started'')"
    by (simp add: dispatch_command_def permit_handlers handle_permit_step_def sample_defs check_defs
        current_execution_def ensure_current_execution_action_def execution_authority_expired_def)
  have "require_command_state RS_Running (StartDispatch 51 52) = Ok ()"
    "check_lineage (sample_projection (Some (sample_execution ES_PermitDelivered))) (StartDispatch 51 52) 200 = Ok ()"
    "found_proof_kinds [sample_proof PK_ExecutionPermit] = command_required_proof_kinds (StartDispatch 51 52)"
    by (simp_all add: require_command_state.simps check_lineage_def found_proof_kinds_def sample_proof_def)
  from sample_transition [OF sample_dispatch_validates this d] show ?thesis by blast
qed

theorem transition_is_compare_and_swap_witness:
  "\<exists>t. evaluate_authoritative_transition_v1 sample_crates sample_fresh
       (sample_projection (Some (sample_execution ES_PermitDelivered)))
       (sample_command 3 ''provider:p'' (StartDispatch 51 52)) 200 [sample_proof PK_ExecutionPermit] = Ok t \<and>
     unat (pj_aggregate_version (tn_projection t)) = 4 \<and>
     evaluate_authoritative_transition_v1 sample_crates sample_fresh (tn_projection t)
       (sample_command 3 ''provider:p'' (StartDispatch 51 52)) 200 [sample_proof PK_ExecutionPermit]
       = Err RE_AggregateVersionConflict"
proof -
  from sample_dispatch obtain t where t: "evaluate_authoritative_transition_v1 sample_crates sample_fresh
       (sample_projection (Some (sample_execution ES_PermitDelivered)))
       (sample_command 3 ''provider:p'' (StartDispatch 51 52)) 200 [sample_proof PK_ExecutionPermit] = Ok t" by blast
  from transition_is_compare_and_swap [OF t] have "unat (pj_aggregate_version (tn_projection t)) = 4"
    by (simp add: sample_projection_def)
  moreover from this have "pj_aggregate_version (tn_projection t) \<noteq> 3" by auto
  ultimately show ?thesis using t transition_is_compare_and_swap [OF t] by (auto simp: sample_command_def)
qed

text \<open>
  C2: no command is applied twice. After an accepted sequence of commands the version has grown by
  the length of the sequence, and every command of the sequence is rejected if it is submitted again,
  whatever proofs, time and fresh identifiers come with it.
\<close>

theorem accepted_commands_not_replayable:
  assumes "run_steps (engine_step X) p cs = Some q"
  shows "unat (pj_aggregate_version q) = unat (pj_aggregate_version p) + length cs \<and>
     (\<forall>i j. i \<in> set cs \<longrightarrow> in_command j = in_command i \<longrightarrow> engine_step X q j = None)"
proof (intro conjI allI impI)
  show "unat (pj_aggregate_version q) = unat (pj_aggregate_version p) + length cs"
    using assms by (rule engine_version.run_version)
  fix i j :: engine_input
  assume i: "i \<in> set cs" and j: "in_command j = in_command i"
  then obtain ds es where cs: "cs = ds @ i # es" by (meson split_list)
  with assms obtain s t where s: "run_steps (engine_step X) p ds = Some s" "engine_step X s i = Some t"
    "run_steps (engine_step X) t es = Some q"
    by (auto simp: run_steps_append split: option.splits)
  have "unat (pj_aggregate_version q) > unat (pj_aggregate_version s)"
    using engine_version.step_version [OF s(2)] engine_version.run_version [OF s(3)] by simp
  with engine_step_expected [OF s(2)] j show "engine_step X q j = None"
    using engine_step_expected [of X q j] by (cases "engine_step X q j") auto
qed

theorem accepted_commands_not_replayable_witness:
  "\<exists>q. run_steps (engine_step sample_crates) (sample_projection (Some (sample_execution ES_PermitDelivered)))
       [sample_input 3 ''provider:p'' (StartDispatch 51 52) [PK_ExecutionPermit]] = Some q \<and>
     engine_step sample_crates q (sample_input 3 ''provider:p'' (StartDispatch 51 52) [PK_ExecutionPermit]) = None"
proof -
  let ?i = "sample_input 3 ''provider:p'' (StartDispatch 51 52) [PK_ExecutionPermit]"
  from sample_dispatch obtain q where "run_steps (engine_step sample_crates)
      (sample_projection (Some (sample_execution ES_PermitDelivered))) [?i] = Some q"
    by (auto simp: engine_step_def sample_input_def)
  with accepted_commands_not_replayable [OF this] show ?thesis by auto
qed

section \<open>Response sends\<close>

text \<open>The nonces a sequence of commands spends.\<close>

definition command_send_nonce :: "IdrCommandV1 \<Rightarrow> string list" where
  "command_send_nonce c = (case c of ConsumeResponseSend _ _ _ _ n \<Rightarrow> [n] | _ \<Rightarrow> [])"

definition send_nonces :: "engine_input list \<Rightarrow> string list" where
  "send_nonces cs = concat (map (\<lambda>i. command_send_nonce (ce_command (in_command i))) cs)"

lemma dispatch_send_nonces:
  assumes "dispatch_command X fresh p e now proofs = Ok (q, r, ev)"
  shows "pj_response_send_nonces q = pj_response_send_nonces p \<union> set (command_send_nonce (ce_command e)) \<and>
     set (command_send_nonce (ce_command e)) \<inter> pj_response_send_nonces p = {}"
  using assms
  by (cases "ce_command e")
    (auto simp: dispatch_command_def permit_handlers set_execution_state_def command_send_nonce_def
      dest!: handler_effects split: if_splits)

lemma engine_send_nonces:
  assumes "engine_step X p i = Some q"
  shows "pj_response_send_nonces q = pj_response_send_nonces p \<union> set (command_send_nonce (ce_command (in_command i)))"
    "set (command_send_nonce (ce_command (in_command i))) \<inter> pj_response_send_nonces p = {}"
  using assms
  by (auto simp: engine_step_Some store_record_def elim!: transition_cases
      dest!: dispatch_send_nonces advance_versions_Ok split: option.splits)

lemma distinct_command_send_nonce [simp]: "distinct (command_send_nonce c)"
  by (simp add: command_send_nonce_def split: IdrCommandV1.splits)

text \<open>
  C10: a response-send permit is consumed at most once: over any accepted sequence of commands the
  send nonces are pairwise different, none had been spent before, and the projection remembers
  exactly the spent ones.
\<close>

theorem send_nonces_spent_once:
  assumes "run_steps (engine_step X) p cs = Some q"
  shows "distinct (send_nonces cs) \<and> set (send_nonces cs) \<inter> pj_response_send_nonces p = {} \<and>
     pj_response_send_nonces q = pj_response_send_nonces p \<union> set (send_nonces cs)"
  using assms
proof (induction cs arbitrary: p)
  case (Cons i cs)
  then obtain s where s: "engine_step X p i = Some s" "run_steps (engine_step X) s cs = Some q"
    by (auto split: option.splits)
  from engine_send_nonces [OF s(1)] Cons.IH [OF s(2)] show ?case
    by (auto simp: send_nonces_def)
qed (simp add: send_nonces_def)

lemma sample_send_validates:
  "IdrCommandEnvelopeV1_validate sample_crates (sample_command 3 ''caller:c''
     (ConsumeResponseSend (sample_ref CK_Response) [1, 2] ''channel:c'' ''audience:a'' sample_digest)) = Ok ()"
  by code_simp

lemma sample_send:
  "\<exists>t. evaluate_authoritative_transition_v1 sample_crates sample_fresh (sample_projection None)
       (sample_command 3 ''caller:c''
         (ConsumeResponseSend (sample_ref CK_Response) [1, 2] ''channel:c'' ''audience:a'' sample_digest)) 200
       [sample_proof PK_ResponsePolicy, sample_proof PK_ResponseAdmission] = Ok t"
proof -
  let ?c = "ConsumeResponseSend (sample_ref CK_Response) [1, 2] ''channel:c'' ''audience:a'' sample_digest"
  let ?p = "(sample_projection None)\<lparr>pj_aggregate_version := 4, pj_last_event_sequence := 4\<rparr>"
  have d: "dispatch_command sample_crates sample_fresh ?p (sample_command 3 ''caller:c'' ?c) 200
      [sample_proof PK_ResponsePolicy, sample_proof PK_ResponseAdmission] =
      Ok (?p\<lparr>pj_response_send_nonces := {sample_digest}\<rparr>, None, ''response_send_permit_consumed'')"
    by (simp add: dispatch_command_def handle_consume_response_send_def sample_defs check_defs
        sample_crates_def sample_digest_def)
  have "require_command_state RS_Running ?c = Ok ()" "check_lineage (sample_projection None) ?c 200 = Ok ()"
    "found_proof_kinds [sample_proof PK_ResponsePolicy, sample_proof PK_ResponseAdmission] =
       command_required_proof_kinds ?c"
    by (simp_all add: require_command_state.simps check_lineage_def found_proof_kinds_def sample_proof_def)
  from sample_transition [OF sample_send_validates this d] show ?thesis by blast
qed

theorem send_nonces_spent_once_witness:
  "\<exists>q. run_steps (engine_step sample_crates) (sample_projection None)
       [sample_input 3 ''caller:c'' (ConsumeResponseSend (sample_ref CK_Response) [1, 2] ''channel:c''
          ''audience:a'' sample_digest) [PK_ResponsePolicy, PK_ResponseAdmission]] = Some q \<and>
     pj_response_send_nonces q = {sample_digest}"
proof -
  let ?i = "sample_input 3 ''caller:c'' (ConsumeResponseSend (sample_ref CK_Response) [1, 2] ''channel:c''
          ''audience:a'' sample_digest) [PK_ResponsePolicy, PK_ResponseAdmission]"
  from sample_send obtain q where "run_steps (engine_step sample_crates) (sample_projection None) [?i] = Some q"
    by (auto simp: engine_step_def sample_input_def)
  moreover from send_nonces_spent_once [OF this] have "pj_response_send_nonces q = {sample_digest}"
    by (simp add: send_nonces_def command_send_nonce_def sample_input_def sample_command_def sample_projection_def)
  ultimately show ?thesis by blast
qed

section \<open>Reachable projections\<close>

text \<open>
  C9: in every projection reachable from a pending run by accepted commands, the record filed
  under a kind has that kind, belongs to the run's trust domain and environment, has a non-empty
  validity window and a positive revision; and the lease of an execution attempt ends no later than
  the permit, action, admission and authorization windows, so that the authority of the attempt is
  expired exactly from the end of its lease on.
\<close>

theorem reachable_projection:
  assumes "run_steps (engine_step X) (IdrRunProjectionV1_pending d env run tenant) cs = Some q"
  shows "projection_ok q \<and>
     (\<forall>x now. pj_execution q = Some x \<longrightarrow> execution_authority_expired x now = (ex_lease_until x \<le> now))"
proof -
  have "projection_ok q" using pending_projection_ok assms by (rule engine_inv.run_inv)
  moreover have "execution_authority_expired x now = (ex_lease_until x \<le> now)" if "execution_ok x" for x now
    using that unfolding execution_ok_def execution_authority_expired_def by (auto intro: order_trans)
  ultimately show ?thesis unfolding projection_ok_def by blast
qed

definition sample_start :: engine_input where
  "sample_start = sample_input 0 ''caller:c'' (StartRun (sample_candidate CK_CanonicalInput (JObj []))) [PK_InputAdmission]"

lemma sample_start_issued:
  "\<exists>rec. issue_record sample_crates (sample_candidate CK_CanonicalInput (JObj [])) (in_command sample_start) 200
     [sample_proof PK_InputAdmission] TD_Shadow 41 1 = Ok rec"
  using sample_issue [of CK_CanonicalInput "JObj []"] sample_empty_candidate_validates
  by (simp add: sample_start_def sample_input_def IDR_MAX_SAFE_WIRE_INTEGER_V1_def)

lemma sample_start_validates: "IdrCommandEnvelopeV1_validate sample_crates (in_command sample_start) = Ok ()"
  by code_simp

lemma sample_start_run:
  "\<exists>q. run_steps (engine_step sample_crates)
     (IdrRunProjectionV1_pending TD_Shadow sample_environment 1 ''tenant:t'') [sample_start] = Some q"
proof -
  let ?p = "IdrRunProjectionV1_pending TD_Shadow sample_environment 1 ''tenant:t''"
  obtain rec where rec: "issue_record sample_crates (sample_candidate CK_CanonicalInput (JObj []))
      (in_command sample_start) 200 [sample_proof PK_InputAdmission] TD_Shadow 41 1 = Ok rec"
    using sample_start_issued by blast
  have "evaluate_authoritative_transition_v1 sample_crates sample_fresh ?p (in_command sample_start) 200
      [sample_proof PK_InputAdmission] \<noteq> Err e" for e
    using sample_start_validates rec
    by (simp add: evaluate_authoritative_transition_v1_def advance_versions_def checked_add_def
        IdrRunProjectionV1_pending_def require_command_state.simps check_lineage_def found_proof_kinds_def
        dispatch_command_def handle_start_run_def check_defs record_id_for_def sample_start_def
        sample_input_def sample_command_def sample_proof_def sample_fresh_def store_record_def)
  then show ?thesis
    by (auto simp: engine_step_def sample_start_def sample_input_def split: result.splits)
qed

theorem reachable_projection_witness:
  "\<exists>q. run_steps (engine_step sample_crates)
     (IdrRunProjectionV1_pending TD_Shadow sample_environment 1 ''tenant:t'') [sample_start] = Some q \<and>
     projection_ok q"
  using sample_start_run reachable_projection by blast

end
