(* ===== verification/IDR_Engine_Safety.thy ===== *)
theory IDR_Engine_Safety
  imports IDR_Engine_Runs
begin

text \<open>
  What the engine guarantees about execution: how an attempt's state moves, that an attempt is
  dispatched at most once, what a reservation, an admission, a dispatch and a receipt rest on, and
  how withdrawn authority acts on later commands.
\<close>

section \<open>The execution state machine of accepted commands\<close>

lemma transition_dispatch:
  assumes "evaluate_authoritative_transition_v1 X fresh p e now proofs = Ok t"
  obtains a q r ev v s where
    "a = p\<lparr>pj_aggregate_version := v, pj_last_event_sequence := s\<rparr>"
    "dispatch_command X fresh a e now proofs = Ok (q, r, ev)"
    "tn_projection t = store_record r q" "tn_authoritative_record t = r" "tn_event_type t = ev"
    "found_proof_kinds proofs = command_required_proof_kinds (ce_command e)"
    "require_command_state (pj_state p) (ce_command e) = Ok ()"
    "pj_environment_ref p = ce_environment_ref e"
  using assms
proof (rule transition_cases)
  fix a q r ev
  assume adv: "advance_versions p = Ok a" and rest:
    "dispatch_command X fresh a e now proofs = Ok (q, r, ev)"
    "tn_projection t = store_record r q" "tn_authoritative_record t = r" "tn_event_type t = ev"
    "found_proof_kinds proofs = command_required_proof_kinds (ce_command e)"
    "require_command_state (pj_state p) (ce_command e) = Ok ()"
    "pj_environment_ref p = ce_environment_ref e"
  from advance_versions_Ok [OF adv] obtain v s
    where "a = p\<lparr>pj_aggregate_version := v, pj_last_event_sequence := s\<rparr>" by blast
  then show thesis using rest by (rule that)
qed

lemma store_record_keeps [simp]:
  "pj_execution (store_record r q) = pj_execution q" "pj_state (store_record r q) = pj_state q"
  "pj_invalidated_records (store_record r q) = pj_invalidated_records q"
  "pj_action_admission (store_record r q) = pj_action_admission q"
  "pj_trust_domain (store_record r q) = pj_trust_domain q"
  by (simp_all add: store_record_def split: option.splits)

lemma transition_same_attempt:
  assumes "evaluate_authoritative_transition_v1 X fresh p e now proofs = Ok t" "\<not> is_reserve (ce_command e)"
  shows "same_attempt (ce_command e) (pj_execution p) (pj_execution (tn_projection t))"
  using assms(1)
proof (rule transition_dispatch)
  fix a q r ev v s
  assume "a = p\<lparr>pj_aggregate_version := v, pj_last_event_sequence := s\<rparr>"
    "dispatch_command X fresh a e now proofs = Ok (q, r, ev)" "tn_projection t = store_record r q"
  with dispatch_execution [OF _ assms(2)] show ?thesis by fastforce
qed

text \<open>The order in which an attempt passes its phases.\<close>

fun execution_phase :: "ExecutionAggregateStateV1 \<Rightarrow> nat" where
  "execution_phase ES_None = 0"
| "execution_phase ES_ReservationCreated = 0"
| "execution_phase ES_PermitIssued = 0"
| "execution_phase ES_PermitDelivered = 1"
| "execution_phase ES_DispatchStarted = 2"
| "execution_phase ES_AwaitingProvider = 2"
| "execution_phase _ = 3"

lemma execution_phase_le: "execution_phase s \<le> 3"
  by (cases s) auto

lemma withdrawn_phase [simp]: "execution_phase (withdrawn_state s) = 3"
  by (simp add: withdrawn_state_def)

lemma execution_step_phase: "execution_step c s s' \<Longrightarrow> execution_phase s \<le> execution_phase s'"
  by (induction rule: execution_step.induct) (auto simp: execution_phase_le)

lemma execution_step_dispatched: "execution_step c s ES_DispatchStarted \<Longrightarrow> s = ES_PermitDelivered"
  by (auto elim: execution_step.cases)

text \<open>The database guard on the states themselves.\<close>

lemma guard_on_states:
  "idr_execution_state_transition_allowed purpose (ExecutionAggregateStateV1_name s) (ExecutionAggregateStateV1_name s') \<longleftrightarrow>
     s = s' \<or>
     s = ES_ReservationCreated \<and> s' = ES_PermitIssued \<or>
     s = ES_PermitIssued \<and> s' \<in> {ES_PermitDelivered, ES_Expired, ES_Cancelled} \<or>
     s = ES_PermitDelivered \<and> s' \<in> {ES_DispatchStarted, ES_Expired, ES_Cancelled} \<or>
     s \<in> {ES_DispatchStarted, ES_AwaitingProvider} \<and>
       s' \<in> {ES_ReconciliationRequired, ES_Succeeded, ES_Failed, ES_Rejected, ES_Compensated} \<or>
     s = ES_ReconciliationRequired \<and> s' \<in> {ES_Succeeded, ES_Failed, ES_Rejected, ES_Compensated} \<or>
     s \<in> {ES_Failed, ES_Rejected, ES_Expired} \<and> s' = ES_PermitIssued \<or>
     s' = ES_ReconciliationRequired \<and> purpose = Some ''governance_proof_revocation''"
  by (cases s; cases s'; simp add: idr_execution_state_transition_allowed_def)

lemma execution_step_guarded:
  assumes "execution_step c s s'"
  shows "idr_execution_state_transition_allowed purpose (ExecutionAggregateStateV1_name s) (ExecutionAggregateStateV1_name s') \<or>
    s' = ES_Cancelled \<and> withdraws c \<and>
      s \<notin> {ES_PermitIssued, ES_PermitDelivered, ES_DispatchStarted, ES_AwaitingProvider}"
  using assms unfolding guard_on_states by cases (auto simp: live_states_def)

text \<open>
  C7: the state of an execution attempt moves only along the execution state machine: an accepted
  command other than a reservation leaves the attempt as it is or changes nothing but its state, by
  the step written out for the command, and never back to an earlier phase. Whatever attestation is
  open, the database guard lets that change through, with one exception that the code makes against its
  documentation: a withdrawal (\<open>DeliverPermit\<close>, \<open>StartDispatch\<close>, \<open>RecordAction\<close>, \<open>InvalidateRecord\<close>) that finds
  the attempt in none of the four live states, for instance waiting for reconciliation or expired,
  cancels it.
\<close>

theorem execution_moves_along_state_machine:
  assumes "evaluate_authoritative_transition_v1 X fresh p e now proofs = Ok t"
    and "\<not> is_reserve (ce_command e)"
  shows "pj_execution (tn_projection t) = pj_execution p \<or>
     (\<exists>x s. pj_execution p = Some x \<and> pj_execution (tn_projection t) = Some (x\<lparr>ex_state := s\<rparr>) \<and>
        execution_step (ce_command e) (ex_state x) s \<and> execution_phase (ex_state x) \<le> execution_phase s \<and>
        (idr_execution_state_transition_allowed purpose
           (ExecutionAggregateStateV1_name (ex_state x)) (ExecutionAggregateStateV1_name s) \<or>
         s = ES_Cancelled \<and> withdraws (ce_command e) \<and>
           ex_state x \<notin> {ES_PermitIssued, ES_PermitDelivered, ES_DispatchStarted, ES_AwaitingProvider}))"
  using transition_same_attempt [OF assms] execution_step_phase execution_step_guarded [where purpose = purpose]
  unfolding same_attempt_def by blast

theorem execution_moves_along_state_machine_witness:
  "\<exists>t. evaluate_authoritative_transition_v1 sample_crates sample_fresh
       (sample_projection (Some (sample_execution ES_PermitDelivered)))
       (sample_command 3 ''provider:p'' (StartDispatch 51 52)) 200 [sample_proof PK_ExecutionPermit] = Ok t \<and>
     pj_execution (tn_projection t) \<noteq> None"
proof -
  from sample_dispatch obtain t where t: "evaluate_authoritative_transition_v1 sample_crates sample_fresh
       (sample_projection (Some (sample_execution ES_PermitDelivered)))
       (sample_command 3 ''provider:p'' (StartDispatch 51 52)) 200 [sample_proof PK_ExecutionPermit] = Ok t" by blast
  have "\<not> is_reserve (ce_command (sample_command 3 ''provider:p'' (StartDispatch 51 52)))"
    by (simp add: sample_command_def is_reserve_def)
  from execution_moves_along_state_machine [OF t this] t show ?thesis
    by (auto simp: sample_projection_def)
qed

section \<open>At most one dispatch\<close>

definition starts_dispatch :: "IdrRunProjectionV1 \<Rightarrow> IdrRunProjectionV1 \<Rightarrow> bool" where
  "starts_dispatch p q = (case (pj_execution p, pj_execution q) of
     (Some x, Some y) \<Rightarrow> ex_state x \<noteq> ES_DispatchStarted \<and> ex_state y = ES_DispatchStarted
   | _ \<Rightarrow> False)"

fun dispatch_count :: "crates \<Rightarrow> IdrRunProjectionV1 \<Rightarrow> engine_input list \<Rightarrow> nat" where
  "dispatch_count X p [] = 0"
| "dispatch_count X p (i # cs) = (case engine_step X p i of
     None \<Rightarrow> 0
   | Some q \<Rightarrow> (if starts_dispatch p q then 1 else 0) + dispatch_count X q cs)"

definition run_phase :: "IdrRunProjectionV1 \<Rightarrow> nat" where
  "run_phase p = (case pj_execution p of None \<Rightarrow> 3 | Some x \<Rightarrow> execution_phase (ex_state x))"

lemma step_phase:
  assumes "engine_step X p i = Some q" "\<not> is_reserve (ce_command (in_command i))"
  shows "run_phase p \<le> run_phase q" "starts_dispatch p q \<Longrightarrow> run_phase p = 1 \<and> run_phase q = 2"
proof -
  from assms have s: "same_attempt (ce_command (in_command i)) (pj_execution p) (pj_execution q)"
    by (auto simp: engine_step_Some intro: transition_same_attempt)
  then show "run_phase p \<le> run_phase q"
    by (auto simp: same_attempt_def run_phase_def dest: execution_step_phase)
  show "run_phase p = 1 \<and> run_phase q = 2" if "starts_dispatch p q"
    using s that by (auto simp: same_attempt_def starts_dispatch_def run_phase_def
        dest!: execution_step_dispatched split: option.splits)
qed

lemma dispatch_count_phase:
  "\<forall>i \<in> set cs. \<not> is_reserve (ce_command (in_command i)) \<Longrightarrow>
     dispatch_count X p cs \<le> (if run_phase p \<le> 1 then 1 else 0)"
proof (induction cs arbitrary: p)
  case (Cons i cs)
  show ?case
  proof (cases "engine_step X p i")
    case (Some q)
    with Cons.prems step_phase [OF Some] Cons.IH [of q] show ?thesis
      by (auto split: if_splits)
  qed simp
qed simp

text \<open>
  C1: an execution attempt is dispatched at most once: however many permits are delivered,
  recovered or withdrawn and however many dispatches are requested, the attempt enters
  \<open>DispatchStarted\<close> at most once until a new attempt is reserved, and not at all once it
  has left the permit phases.
\<close>

theorem at_most_one_dispatch_per_attempt:
  assumes "\<forall>i \<in> set cs. \<not> is_reserve (ce_command (in_command i))"
  shows "dispatch_count X p cs \<le> 1 \<and>
     (\<forall>x. pj_execution p = Some x \<longrightarrow> ex_state x \<notin> {ES_None, ES_ReservationCreated, ES_PermitIssued, ES_PermitDelivered} \<longrightarrow>
        dispatch_count X p cs = 0)"
proof -
  have "2 \<le> execution_phase s" if "s \<notin> {ES_None, ES_ReservationCreated, ES_PermitIssued, ES_PermitDelivered}" for s
    using that by (cases s) auto
  with dispatch_count_phase [OF assms, of X p] show ?thesis
    by (fastforce simp: run_phase_def split: if_splits)
qed

theorem at_most_one_dispatch_per_attempt_witness:
  "dispatch_count sample_crates (sample_projection (Some (sample_execution ES_PermitDelivered)))
     [sample_input 3 ''provider:p'' (StartDispatch 51 52) [PK_ExecutionPermit],
      sample_input 4 ''provider:p'' (StartDispatch 51 52) [PK_ExecutionPermit]] \<le> 1"
  by (rule at_most_one_dispatch_per_attempt [THEN conjunct1])
    (simp add: sample_input_def sample_command_def is_reserve_def)

section \<open>What a dispatch rests on\<close>

lemma record_current [simp]:
  "require_exact_current_record_at p r now = Ok () \<longleftrightarrow>
     pj_records p (rr_candidate_kind r) = Some r \<and> rr_trust_domain r = pj_trust_domain p \<and>
     rr_valid_from r \<le> now \<and> now < rr_valid_until r \<and> r \<notin> pj_invalidated_records p"
  by (simp add: require_exact_current_record_at_def)

text \<open>
  C4: an accepted \<open>StartDispatch\<close> that starts the dispatch was sent by the provider of the attempt,
  names its reservation and permit, comes after the permit was delivered, before every one of the
  attempt's windows ends, and while its action is still the current, not invalidated action of the
  run. With any of the authority facts missing the accepted command starts nothing: it cancels the
  attempt before its dispatch and leaves one in flight to reconciliation. It cancels also an attempt that
  is neither, in particular one already waiting for reconciliation or expired; the state machine of the
  documentation and the database guard allow neither of these two.
\<close>

theorem dispatch_needs_current_authority:
  assumes "evaluate_authoritative_transition_v1 X fresh p e now proofs = Ok t"
    and "ce_command e = StartDispatch rid pid"
  shows "\<exists>x. pj_execution p = Some x \<and> ex_reservation_id x = rid \<and> ex_permit_id x = pid \<and>
     ce_caller_ref e = ex_provider_ref x \<and>
     (if pj_records p CK_Action = Some (ex_action_ref x) \<and> ex_action_ref x \<notin> pj_invalidated_records p \<and>
         now < ex_lease_until x \<and> now < ex_action_valid_until x \<and> now < ex_admission_valid_until x \<and>
         now < ex_authorization_valid_until x \<and> now < ex_permit_valid_until x
      then ex_state x = ES_PermitDelivered \<and>
        pj_execution (tn_projection t) = Some (x\<lparr>ex_state := ES_DispatchStarted\<rparr>)
      else pj_execution (tn_projection t) = Some (x\<lparr>ex_state :=
        (if ex_state x \<in> {ES_DispatchStarted, ES_AwaitingProvider} then ES_ReconciliationRequired
         else ES_Cancelled)\<rparr>))"
  using assms(1)
proof (rule transition_dispatch)
  fix a q r ev v s
  assume a: "a = p\<lparr>pj_aggregate_version := v, pj_last_event_sequence := s\<rparr>"
    and d: "dispatch_command X fresh a e now proofs = Ok (q, r, ev)" and t: "tn_projection t = store_record r q"
  from d assms(2) have "handle_permit_step a e now rid pid ES_PermitDelivered ES_DispatchStarted
      ''execution_dispatch_started'' = Ok (q, r, ev)"
    by (simp add: dispatch_command_def handle_start_dispatch_def)
  from permit_step_effect [OF this] show ?thesis
    unfolding withdrawn_state_def [symmetric]
    by (auto simp: a t set_execution_state_def execution_authority_expired_def not_le)
qed

theorem dispatch_needs_current_authority_witness:
  "\<exists>t. evaluate_authoritative_transition_v1 sample_crates sample_fresh
       (sample_projection (Some (sample_execution ES_PermitDelivered)))
       (sample_command 3 ''provider:p'' (StartDispatch 51 52)) 200 [sample_proof PK_ExecutionPermit] = Ok t \<and>
     pj_execution (tn_projection t) = Some (sample_execution ES_DispatchStarted)"
proof -
  from sample_dispatch obtain t where t: "evaluate_authoritative_transition_v1 sample_crates sample_fresh
       (sample_projection (Some (sample_execution ES_PermitDelivered)))
       (sample_command 3 ''provider:p'' (StartDispatch 51 52)) 200 [sample_proof PK_ExecutionPermit] = Ok t" by blast
  have "ce_command (sample_command 3 ''provider:p'' (StartDispatch 51 52)) = StartDispatch 51 52"
    by (simp add: sample_command_def)
  from dispatch_needs_current_authority [OF t this] t show ?thesis
    by (auto simp: sample_projection_def sample_execution_def)
qed

section \<open>What a new attempt rests on\<close>

text \<open>
  C5: an accepted \<open>ReserveExecution\<close> was sent by the owner of the admitted action, for an action
  and an admission that are both current, with a lease that ends after now and within the windows of
  the action, the admission, the authorization and the execution permit. It starts the first attempt
  of the action, or the next attempt (number plus one, same reservation and idempotency key) after the
  previous one failed, was rejected or expired before dispatch, or the first attempt of another action
  after the previous one was cancelled; never while an attempt is live or its effect is unknown.
\<close>

theorem reservation_is_admitted_and_exclusive:
  assumes "evaluate_authoritative_transition_v1 X fresh p e now proofs = Ok t"
    and "ce_command e = ReserveExecution adref aref dig prov own key att lease nonce"
  shows "\<exists>a x. pj_action_admission p = Some a \<and> aa_admission_ref a = adref \<and> aa_action_record_ref a = aref \<and>
     aa_provider a = prov \<and> aa_owner a = own \<and> ce_caller_ref e = own \<and>
     pj_records p (rr_candidate_kind aref) = Some aref \<and> aref \<notin> pj_invalidated_records p \<and>
     pj_records p CK_ActionAdmissionDecision = Some adref \<and> adref \<notin> pj_invalidated_records p \<and>
     now < lease \<and> lease \<le> rr_valid_until aref \<and> lease \<le> rr_valid_until adref \<and>
     lease \<le> aa_authorization_valid_until a \<and>
     (\<exists>b \<in> set proofs. vp_proof_kind b = PK_ExecutionPermit \<and> lease \<le> vp_expires_at b) \<and>
     pj_execution (tn_projection t) = Some x \<and> ex_state x = ES_PermitIssued \<and> ex_action_ref x = aref \<and>
     ex_attempt x = att \<and> ex_lease_until x = lease \<and> ex_request_digest x = aa_request_digest a \<and>
     (case pj_execution p of
        None \<Rightarrow> att = 1
      | Some y \<Rightarrow>
          if ex_action_ref y = aref
          then ex_state y \<in> {ES_Failed, ES_Rejected, ES_Expired} \<and> unat att = Suc (unat (ex_attempt y)) \<and>
            ex_idempotency_key y = key \<and> ex_reservation_id x = ex_reservation_id y
          else ex_state y = ES_Cancelled \<and> att = 1)"
  using assms(1)
proof (rule transition_dispatch)
  fix c q r ev v s
  assume c: "c = p\<lparr>pj_aggregate_version := v, pj_last_event_sequence := s\<rparr>"
    and d: "dispatch_command X fresh c e now proofs = Ok (q, r, ev)" and t: "tn_projection t = store_record r q"
  from d assms(2) have "handle_reserve_execution fresh c e now proofs adref aref dig prov own key att lease nonce = Ok (q, r, ev)"
    by (simp add: dispatch_command_def)
  from reserve_execution_effect [OF this] obtain a :: ActionAdmissionProjectionV1 and pid puntil until rid where
    cur: "require_exact_current_record_at c aref now = Ok ()" "require_exact_current_record_at c adref now = Ok ()"
      "require_caller e own = Ok ()" "now < lease" "pj_action_admission c = Some a"
      "verified_proof_binding proofs PK_ExecutionPermit (pj_trust_domain c) = Ok (pid, puntil)"
      "aa_admission_ref a = adref" "aa_action_record_ref a = aref" "aa_provider a = prov" "aa_owner a = own"
      "rr_candidate_kind adref = CK_ActionAdmissionDecision"
    and until: "u64_min [lease, rr_valid_until aref, rr_valid_until adref, aa_authorization_valid_until a, puntil] = Some until"
      "lease \<le> until" and rid: "reservation_for fresh c aref key att = Ok rid"
    and q: "c\<lparr>pj_execution := Some \<lparr>
       ex_reservation_id = rid, ex_action_admission_ref = adref, ex_action_ref = aref,
       ex_provider_ref = prov, ex_owner_ref = own, ex_operation_ref = aa_operation_ref a,
       ex_parameter_digest = aa_parameter_digest a, ex_request_digest = aa_request_digest a,
       ex_idempotency_key = key, ex_attempt = att, ex_permit_id = fresh_permit_id fresh,
       ex_exact_authorization_proof_id = aa_exact_authorization_proof_id a,
       ex_action_valid_until = rr_valid_until aref, ex_admission_valid_until = rr_valid_until adref,
       ex_authorization_valid_until = aa_authorization_valid_until a,
       ex_permit_valid_until = until, ex_lease_until = lease, ex_dispatch_nonce = nonce,
       ex_state = ES_PermitIssued\<rparr>\<rparr> = q" by blast
  have le: "lease \<le> y" if "y \<in> {rr_valid_until aref, rr_valid_until adref, aa_authorization_valid_until a, puntil}" for y
    using order_trans [OF until(2) u64_min_le [OF until(1), of y]] that by auto
  from cur(6) have "\<exists>b \<in> set proofs. vp_proof_kind b = PK_ExecutionPermit \<and> vp_expires_at b = puntil"
    by (auto simp: verified_proof_binding_def find_Some_iff split: option.splits)
  with le [of puntil] have permit: "\<exists>b \<in> set proofs. vp_proof_kind b = PK_ExecutionPermit \<and> lease \<le> vp_expires_at b"
    by auto
  have "case pj_execution p of
        None \<Rightarrow> att = 1
      | Some y \<Rightarrow>
          if ex_action_ref y = aref
          then ex_state y \<in> {ES_Failed, ES_Rejected, ES_Expired} \<and> unat att = Suc (unat (ex_attempt y)) \<and>
            ex_idempotency_key y = key \<and> rid = ex_reservation_id y
          else ex_state y = ES_Cancelled \<and> att = 1"
    using rid checked_add_1_unat by (auto simp: reservation_for_Ok c split: option.splits if_splits)
  with cur le permit show ?thesis
    by (auto simp: t q [symmetric] c require_caller_def split: if_splits option.splits)
qed

definition sample_reserve :: IdrCommandV1 where
  "sample_reserve = ReserveExecution (sample_ref CK_ActionAdmissionDecision) (sample_ref CK_Action)
     sample_digest ''provider:p'' ''owner:o'' ''key'' 1 600 sample_digest"

lemma sample_reserve_validates:
  "IdrCommandEnvelopeV1_validate sample_crates (sample_command 3 ''owner:o'' sample_reserve) = Ok ()"
  by code_simp

lemma sample_reservation:
  "\<exists>t. evaluate_authoritative_transition_v1 sample_crates sample_fresh (sample_projection None)
       (sample_command 3 ''owner:o'' sample_reserve) 200 [sample_proof PK_ExecutionPermit] = Ok t"
proof -
  let ?p = "(sample_projection None)\<lparr>pj_aggregate_version := 4, pj_last_event_sequence := 4\<rparr>"
  have "\<exists>q. handle_reserve_execution sample_fresh ?p (sample_command 3 ''owner:o'' sample_reserve) 200
      [sample_proof PK_ExecutionPermit] (sample_ref CK_ActionAdmissionDecision) (sample_ref CK_Action)
     sample_digest ''provider:p'' ''owner:o'' ''key'' 1 600 sample_digest = Ok (q, None, ''execution_permit_issued'')"
    by (simp add: handle_reserve_execution_def reservation_for_def verified_proof_binding_def check_defs
        sample_defs)
  then obtain q where d: "dispatch_command sample_crates sample_fresh ?p
      (sample_command 3 ''owner:o'' sample_reserve) 200 [sample_proof PK_ExecutionPermit] =
      Ok (q, None, ''execution_permit_issued'')"
    by (auto simp: dispatch_command_def sample_command_def sample_reserve_def)
  have "require_command_state RS_Running sample_reserve = Ok ()"
    "check_lineage (sample_projection None) sample_reserve 200 = Ok ()"
    "found_proof_kinds [sample_proof PK_ExecutionPermit] = command_required_proof_kinds sample_reserve"
    by (simp_all add: require_command_state.simps check_lineage_def found_proof_kinds_def sample_proof_def sample_reserve_def)
  from sample_transition [OF sample_reserve_validates this d] show ?thesis by blast
qed

theorem reservation_is_admitted_and_exclusive_witness:
  "\<exists>t. evaluate_authoritative_transition_v1 sample_crates sample_fresh (sample_projection None)
       (sample_command 3 ''owner:o'' sample_reserve) 200 [sample_proof PK_ExecutionPermit] = Ok t \<and>
     (\<exists>x. pj_execution (tn_projection t) = Some x \<and> ex_lease_until x = 600)"
proof -
  from sample_reservation obtain t where t: "evaluate_authoritative_transition_v1 sample_crates sample_fresh
      (sample_projection None) (sample_command 3 ''owner:o'' sample_reserve) 200 [sample_proof PK_ExecutionPermit] = Ok t" by blast
  from reservation_is_admitted_and_exclusive [OF t] t show ?thesis
    by (auto simp: sample_command_def sample_reserve_def)
qed

section \<open>What an admission rests on\<close>

lemma collect_bindings:
  assumes "verified_action_admission_proof_bindings proofs d = Ok bs" and "k \<in> set ACTION_ADMISSION_PROOF_KINDS_V1"
  shows "\<exists>b. bt_get bs k = Some b \<and> (\<exists>v \<in> set proofs. vp_proof_kind v = k \<and> vp_trust_domain v = d \<and>
     vp_proof_id v = pb_proof_id b \<and> vp_expires_at v = pb_valid_until b)"
proof -
  define f where "f = (\<lambda>k. and_then (verified_proof_binding proofs k d)
     (\<lambda>(proof_id, valid_until). Ok (k, \<lparr>pb_proof_id = proof_id, pb_valid_until = valid_until\<rparr>)))"
  have f: "\<exists>v \<in> set proofs. fst kb = k \<and> vp_proof_kind v = k \<and> vp_trust_domain v = d \<and>
      vp_proof_id v = pb_proof_id (snd kb) \<and> vp_expires_at v = pb_valid_until (snd kb)" if "f k = Ok kb" for k kb
    using that by (auto simp: f_def verified_proof_binding_def find_Some_iff and_then_eq_Ok split: option.splits)
  from assms(1) obtain kvs where "collect_results f ACTION_ADMISSION_PROOF_KINDS_V1 = Ok kvs"
    and bs: "bs = foldl (\<lambda>m (k, v). bt_insert k v m) [] kvs"
    by (auto simp: verified_action_admission_proof_bindings_def f_def and_then_eq_Ok)
  then obtain k1 k2 k3 k4 k5 where kvs: "kvs = [k1, k2, k3, k4, k5]" and
    fs: "f PK_Capability = Ok k1" "f PK_Authority = Ok k2" "f PK_Policy = Ok k3"
      "f PK_ExactAuthorization = Ok k4" "f PK_ActionAdmission = Ok k5"
    by (auto simp: ACTION_ADMISSION_PROOF_KINDS_V1_def and_then_eq_Ok)
  have "bt_get bs k = map_of (rev kvs) k"
    using btree.get_foldl [of "[]" kvs k] by (simp add: bs btree.wf_empty btree.get_empty split: option.splits)
  with assms(2) fs [THEN f] show ?thesis
    by (cases k1; cases k2; cases k3; cases k4; cases k5)
      (auto simp: kvs ACTION_ADMISSION_PROOF_KINDS_V1_def)
qed

text \<open>
  C3: an accepted \<open>AdmitAction\<close> admits the current, not invalidated action of the run, derived from
  its decision, under verified proofs of exactly the five kinds capability, authority, policy, exact
  authorization and action admission, each of the run's trust domain; the admission it records is
  bound to that action, its operation and its parameters, starts now and ends no later than any of
  the proofs and than the action itself.
\<close>

theorem admission_needs_all_proofs:
  assumes "evaluate_authoritative_transition_v1 X fresh p e now proofs = Ok t"
    and "ce_command e = AdmitAction aref dig prov own key"
  shows "\<exists>a b. pj_action_admission (tn_projection t) = Some a \<and> pj_action_binding p = Some b \<and>
     ab_action_ref b = aref \<and> aa_action_record_ref a = aref \<and> rr_record_digest aref = dig \<and>
     aa_operation_ref a = ab_operation_ref b \<and> aa_parameter_digest a = ab_parameter_digest b \<and>
     aa_request_digest a = ab_request_digest b \<and> aa_provider a = prov \<and> aa_owner a = own \<and>
     pj_records p (rr_candidate_kind aref) = Some aref \<and> aref \<notin> pj_invalidated_records p \<and>
     found_proof_kinds proofs = {PK_Capability, PK_Authority, PK_Policy, PK_ExactAuthorization, PK_ActionAdmission} \<and>
     (\<forall>k \<in> {PK_Capability, PK_Authority, PK_Policy, PK_ExactAuthorization, PK_ActionAdmission}.
        \<exists>c v. bt_get (aa_proof_bindings a) k = Some c \<and> v \<in> set proofs \<and> vp_proof_kind v = k \<and>
          vp_trust_domain v = pj_trust_domain p \<and> pb_proof_id c = vp_proof_id v \<and>
          aa_valid_until a \<le> pb_valid_until c) \<and>
     (\<forall>v \<in> set proofs. aa_valid_until a \<le> vp_expires_at v) \<and>
     now < aa_valid_until a \<and> aa_valid_until a \<le> rr_valid_until aref \<and>
     rr_valid_from (aa_admission_ref a) = now \<and> rr_valid_until (aa_admission_ref a) = aa_valid_until a"
  using assms(1)
proof (rule transition_dispatch)
  fix c q r ev v s
  assume c: "c = p\<lparr>pj_aggregate_version := v, pj_last_event_sequence := s\<rparr>"
    and d: "dispatch_command X fresh c e now proofs = Ok (q, r, ev)" and t: "tn_projection t = store_record r q"
    and found: "found_proof_kinds proofs = command_required_proof_kinds (ce_command e)"
  from d assms(2) have "handle_admit_action X fresh c e now proofs aref dig prov own key = Ok (q, r, ev)"
    by (simp add: dispatch_command_def)
  from admit_action_effect [OF this] obtain rec and b :: ActionBindingProjectionV1
    and bindings and auth :: ActionAdmissionProofBindingV1 and until rv payload where
    cur: "require_exact_current_record_at c aref now = Ok ()" "rr_record_digest aref = dig"
      "pj_action_binding c = Some b" "ab_action_ref b = aref"
    and bind: "verified_action_admission_proof_bindings proofs (pj_trust_domain c) = Ok bindings"
    and until: "u64_min (map vp_expires_at proofs @ [rr_valid_until aref, pb_valid_until auth]) = Some until" "now < until"
    and rec: "issue_internal_record X fresh CK_ActionAdmissionDecision payload e c now until proofs
       (record_id_for fresh c CK_ActionAdmissionDecision) rv = Ok rec"
    and q: "c\<lparr>pj_action_admission := Some \<lparr>
       aa_admission_ref = ar_record_ref rec, aa_action_record_ref = aref, aa_provider = prov,
       aa_owner = own, aa_operation_ref = ab_operation_ref b,
       aa_parameter_digest = ab_parameter_digest b, aa_request_digest = ab_request_digest b,
       aa_idempotency = key, aa_proof_bindings = bindings,
       aa_exact_authorization_proof_id = pb_proof_id auth,
       aa_authorization_valid_until = pb_valid_until auth, aa_valid_until = until\<rparr>\<rparr> = q" by blast
  note le = u64_min_le [OF until(1)]
  have proofs_le: "\<forall>v \<in> set proofs. until \<le> vp_expires_at v" and action_le: "until \<le> rr_valid_until aref"
    by (auto intro: le)
  have five: "\<exists>c v. bt_get bindings k = Some c \<and> v \<in> set proofs \<and> vp_proof_kind v = k \<and>
      vp_trust_domain v = pj_trust_domain p \<and> pb_proof_id c = vp_proof_id v \<and> until \<le> pb_valid_until c"
    if "k \<in> {PK_Capability, PK_Authority, PK_Policy, PK_ExactAuthorization, PK_ActionAdmission}" for k
    using collect_bindings [OF bind, of k] that proofs_le
    by (fastforce simp: ACTION_ADMISSION_PROOF_KINDS_V1_def c)
  then have five': "\<forall>k \<in> {PK_Capability, PK_Authority, PK_Policy, PK_ExactAuthorization, PK_ActionAdmission}.
      \<exists>c v. bt_get bindings k = Some c \<and> v \<in> set proofs \<and> vp_proof_kind v = k \<and>
      vp_trust_domain v = pj_trust_domain p \<and> pb_proof_id c = vp_proof_id v \<and> until \<le> pb_valid_until c" by blast
  obtain dg where "ar_record_ref rec = \<lparr>rr_record_id = record_id_for fresh c CK_ActionAdmissionDecision, rr_revision = rv,
     rr_candidate_kind = CK_ActionAdmissionDecision, rr_trust_domain = pj_trust_domain c,
     rr_environment_ref = pj_environment_ref c, rr_valid_from = now, rr_valid_until = until, rr_record_digest = dg\<rparr>"
    using issue_internal_shape [OF rec] by blast
  then have window: "rr_valid_from (ar_record_ref rec) = now" "rr_valid_until (ar_record_ref rec) = until" by simp_all
  have kinds: "found_proof_kinds proofs = {PK_Capability, PK_Authority, PK_Policy, PK_ExactAuthorization, PK_ActionAdmission}"
    using found assms(2) by simp
  define A where "A = \<lparr>
       aa_admission_ref = ar_record_ref rec, aa_action_record_ref = aref, aa_provider = prov,
       aa_owner = own, aa_operation_ref = ab_operation_ref b,
       aa_parameter_digest = ab_parameter_digest b, aa_request_digest = ab_request_digest b,
       aa_idempotency = key, aa_proof_bindings = bindings,
       aa_exact_authorization_proof_id = pb_proof_id auth,
       aa_authorization_valid_until = pb_valid_until auth, aa_valid_until = until\<rparr>"
  have A: "aa_proof_bindings A = bindings" "aa_valid_until A = until" "aa_admission_ref A = ar_record_ref rec"
    by (simp_all add: A_def)
  have a: "pj_action_admission (tn_projection t) = Some A" by (simp add: t q [symmetric] A_def)
  have "pj_action_binding p = Some b" "pj_records p (rr_candidate_kind aref) = Some aref"
    "aref \<notin> pj_invalidated_records p" using cur by (simp_all add: c)
  moreover have "aa_action_record_ref A = aref \<and> aa_operation_ref A = ab_operation_ref b \<and>
     aa_parameter_digest A = ab_parameter_digest b \<and> aa_request_digest A = ab_request_digest b \<and>
     aa_provider A = prov \<and> aa_owner A = own" by (simp add: A_def)
  ultimately show ?thesis
    by (intro exI [of _ A] exI [of _ b])
      (use cur(2,4) kinds five' proofs_le action_le until(2) window a in \<open>simp add: A\<close>)
qed

definition sample_admit :: IdrCommandV1 where
  "sample_admit = AdmitAction (sample_ref CK_Action) sample_digest ''provider:p'' ''owner:o'' ''key''"

definition sample_admission_proofs :: "VerifiedProductionProofV1 list" where
  "sample_admission_proofs = map sample_proof ACTION_ADMISSION_PROOF_KINDS_V1"

lemma sample_issue_internal:
  assumes "json_numbers_ok payload" "pj_subject_ref p = Some s" "pj_turn_id p = Some u"
    and "now < until" "uint until \<le> IDR_MAX_SAFE_WIRE_INTEGER_V1" "uint revision \<le> IDR_MAX_SAFE_WIRE_INTEGER_V1"
  shows "\<exists>rec. issue_internal_record sample_crates fresh kind payload e p now until proofs rid revision = Ok rec"
proof -
  have "uint now \<le> IDR_MAX_SAFE_WIRE_INTEGER_V1" using assms(4,5) by (simp add: word_less_def)
  then have "canonical_digest_v1 sample_crates ''idr-authoritative-record-v1'' (digest_material_json sample_crates m) = Ok sample_digest"
    if "json_numbers_ok (dm_payload m)" "dm_revision m = revision"
      "dm_valid_from m = now" "dm_valid_until m = until" "dm_issued_at m = now" for m
    unfolding digest_material_json_def
    by (intro sample_canonical_digest json_numbers_ok_object) (use that assms in \<open>simp\<close>)
  moreover have "canonical_digest_v1 sample_crates d (JArr [uuid_json sample_crates a, candidate_kind_json k,
      uuid_json sample_crates b, uuid_json sample_crates u, JStr s1, JStr s2, JStr s3, JStr s4, JStr s5, payload]) = Ok sample_digest"
    for d a k b u s1 s2 s3 s4 s5
    by (rule sample_canonical_digest) (use assms in simp)
  ultimately show ?thesis using assms by (simp add: issue_internal_record_def)
qed

lemma sample_admit_validates:
  "IdrCommandEnvelopeV1_validate sample_crates (sample_command 3 ''owner:o'' sample_admit) = Ok ()"
  by code_simp

lemma json_numbers_ok_ref: "uint (rr_revision r) \<le> IDR_MAX_SAFE_WIRE_INTEGER_V1 \<Longrightarrow>
    uint (rr_valid_from r) \<le> IDR_MAX_SAFE_WIRE_INTEGER_V1 \<Longrightarrow> uint (rr_valid_until r) \<le> IDR_MAX_SAFE_WIRE_INTEGER_V1 \<Longrightarrow>
    json_numbers_ok (AuthoritativeRecordRefV1_json X r)"
  unfolding AuthoritativeRecordRefV1_json_def by (rule json_numbers_ok_object) simp

lemma sample_ref_window [simp]: "rr_valid_from (sample_ref k) = 100" "rr_valid_until (sample_ref k) = 900"
  "rr_revision (sample_ref k) = 1" "rr_candidate_kind (sample_ref k) = k" "rr_record_digest (sample_ref k) = sample_digest"
  "rr_trust_domain (sample_ref k) = TD_Shadow" "rr_record_id (sample_ref k) = 31"
  by (simp_all add: sample_ref_def)

lemma sample_bindings:
  "verified_action_admission_proof_bindings sample_admission_proofs TD_Shadow =
     Ok (map (\<lambda>k. (k, \<lparr>pb_proof_id = 7, pb_valid_until = 800\<rparr>))
       [PK_Authority, PK_Capability, PK_Policy, PK_ExactAuthorization, PK_ActionAdmission])"
  by code_simp

lemma sample_proof_bindings_json:
  "json_numbers_ok (proof_bindings_json X (map (\<lambda>k. (k, \<lparr>pb_proof_id = 7, pb_valid_until = 800\<rparr>)) ks))"
proof -
  have "json_numbers_ok (json_object [(''proof_id'', uuid_json X 7), (''valid_until'', ju64 800)])"
    by (rule json_numbers_ok_object) (simp add: IDR_MAX_SAFE_WIRE_INTEGER_V1_def)
  then show ?thesis unfolding proof_bindings_json_def by (intro json_numbers_ok_object) simp
qed

lemma sample_admission_transition:
  "\<exists>t. evaluate_authoritative_transition_v1 sample_crates sample_fresh (sample_projection None)
       (sample_command 3 ''owner:o'' sample_admit) 200 sample_admission_proofs = Ok t"
proof -
  let ?p = "(sample_projection None)\<lparr>pj_aggregate_version := 4, pj_last_event_sequence := 4\<rparr>"
  let ?b = "map (\<lambda>k. (k, \<lparr>pb_proof_id = 7, pb_valid_until = 800\<rparr>))
       [PK_Authority, PK_Capability, PK_Policy, PK_ExactAuthorization, PK_ActionAdmission]"
  have get: "bt_get ?b PK_ExactAuthorization = Some \<lparr>pb_proof_id = 7, pb_valid_until = 800\<rparr>"
    by (simp add: bt_get_def)
  have min: "u64_min (map vp_expires_at sample_admission_proofs @ [900, 800]) = Some 800"
    by (simp add: sample_admission_proofs_def ACTION_ADMISSION_PROOF_KINDS_V1_def sample_proof_def)
  have roots: "btree_set (map vp_trust_root_version sample_admission_proofs) = [1]" by code_simp
  have p: "pj_trust_domain ?p = TD_Shadow" "pj_records ?p = (\<lambda>k. Some (sample_ref k))"
    "pj_invalidated_records ?p = {}" "pj_subject_ref ?p = Some ''subject:s''" "pj_turn_id ?p = Some 2"
    "pj_action_binding ?p = Some \<lparr>ab_action_ref = sample_ref CK_Action,
       ab_selected_option_ref = ''option:a'', ab_operation_ref = ''operation:o'',
       ab_parameter_digest = sample_digest, ab_request_digest = sample_digest\<rparr>"
    by (simp_all add: sample_projection_def)
  define payload where "payload = json_object [
           (''action_ref'', AuthoritativeRecordRefV1_json sample_crates (sample_ref CK_Action)),
           (''action_digest'', JStr sample_digest), (''provider_ref'', JStr ''provider:p''),
           (''owner_ref'', JStr ''owner:o''), (''operation_ref'', JStr ''operation:o''),
           (''parameter_digest'', JStr sample_digest), (''request_digest'', JStr sample_digest),
           (''idempotency_key'', JStr ''key''), (''outcome'', JStr ''admit''),
           (''action_valid_from'', ju64 100), (''action_valid_until'', ju64 900),
           (''proof_bindings'', proof_bindings_json sample_crates ?b),
           (''exact_authorization_proof_id'', uuid_json sample_crates 7),
           (''authorization_valid_until'', ju64 800), (''admission_valid_from'', ju64 200),
           (''admission_valid_until'', ju64 800), (''trust_root_versions'', JArr (map ju64 [1]))]"
  have "json_numbers_ok payload" unfolding payload_def
    by (rule json_numbers_ok_object)
      (use sample_proof_bindings_json in \<open>simp add: json_numbers_ok_ref IDR_MAX_SAFE_WIRE_INTEGER_V1_def del: list.map\<close>)
  from sample_issue_internal [OF this p(4,5), of 200 800 2] obtain rec where rec:
    "issue_internal_record sample_crates sample_fresh CK_ActionAdmissionDecision payload
       (sample_command 3 ''owner:o'' sample_admit) ?p 200 800 sample_admission_proofs 31 2 = Ok rec"
    unfolding IDR_MAX_SAFE_WIRE_INTEGER_V1_def by fastforce
  have rev: "next_revision ?p CK_ActionAdmissionDecision = Ok 2" "record_id_for sample_fresh ?p CK_ActionAdmissionDecision = 31"
    by (simp_all add: next_revision_def record_id_for_def p(2) checked_add_def)
  have cur: "require_exact_current_record_at ?p (sample_ref CK_Action) 200 = Ok ()"
    by (simp add: sample_projection_def)
  have "\<exists>q. handle_admit_action sample_crates sample_fresh ?p (sample_command 3 ''owner:o'' sample_admit) 200
      sample_admission_proofs (sample_ref CK_Action) sample_digest ''provider:p'' ''owner:o'' ''key'' =
      Ok (q, Some rec, ''action_admitted'')"
    using rec unfolding handle_admit_action_def cur p(1) sample_bindings
    by (simp add: get min roots rev p(6) payload_def del: list.map)
  then obtain q where d: "dispatch_command sample_crates sample_fresh ?p (sample_command 3 ''owner:o'' sample_admit)
      200 sample_admission_proofs = Ok (q, Some rec, ''action_admitted'')"
    by (auto simp: dispatch_command_def sample_command_def sample_admit_def)
  have "require_command_state RS_Running sample_admit = Ok ()"
    "check_lineage (sample_projection None) sample_admit 200 = Ok ()"
    "found_proof_kinds sample_admission_proofs = command_required_proof_kinds sample_admit"
    by (simp_all add: require_command_state.simps check_lineage_def found_proof_kinds_def sample_proof_def
        sample_admit_def sample_admission_proofs_def ACTION_ADMISSION_PROOF_KINDS_V1_def)
  from sample_transition [OF sample_admit_validates this d] show ?thesis by blast
qed

theorem admission_needs_all_proofs_witness:
  "\<exists>t. evaluate_authoritative_transition_v1 sample_crates sample_fresh (sample_projection None)
       (sample_command 3 ''owner:o'' sample_admit) 200 sample_admission_proofs = Ok t \<and>
     (\<exists>a. pj_action_admission (tn_projection t) = Some a \<and> aa_valid_until a \<le> 800)"
proof -
  from sample_admission_transition obtain t where t: "evaluate_authoritative_transition_v1 sample_crates sample_fresh
      (sample_projection None) (sample_command 3 ''owner:o'' sample_admit) 200 sample_admission_proofs = Ok t" by blast
  have c: "ce_command (sample_command 3 ''owner:o'' sample_admit) =
      AdmitAction (sample_ref CK_Action) sample_digest ''provider:p'' ''owner:o'' ''key''"
    by (simp add: sample_command_def sample_admit_def)
  from admission_needs_all_proofs [OF t c] obtain a where "pj_action_admission (tn_projection t) = Some a"
    "\<forall>v \<in> set sample_admission_proofs. aa_valid_until a \<le> vp_expires_at v" by blast
  moreover have "sample_proof PK_Policy \<in> set sample_admission_proofs"
    by (simp add: sample_admission_proofs_def ACTION_ADMISSION_PROOF_KINDS_V1_def)
  moreover have "vp_expires_at (sample_proof PK_Policy) = 800" by (simp add: sample_proof_def)
  ultimately show ?thesis using t by fastforce
qed

end
