(* ===== verification/IDR_Engine_Records.thy ===== *)
theory IDR_Engine_Records
  imports IDR_Engine_Safety
begin

text \<open>
  What the engine guarantees about records: issued records verify, receipts are bound to their
  attempt, invalidated records are never used again, closed runs stay closed, promotion rests on
  evidence, and the two repository hooks withdraw what they must. The last section records a path
  on which an attempt of unknown effect is declared cancelled.
\<close>

section \<open>Issued records verify\<close>

text \<open>
  C28: what the engine issues, it later accepts from the store: a record issued from a candidate or by
  the engine itself passes the integrity check with its own reference, provided the digest function
  yields 64 lower-case hexadecimal characters and time has started.
\<close>

theorem issued_record_verifies:
  assumes "\<forall>b. valid_digest (x_sha256_hex X b)" and "0 < now"
  shows "(\<forall>c e proofs d rid rev rec. issue_record X c e now proofs d rid rev = Ok rec \<longrightarrow> 0 < cs_valid_from c \<longrightarrow>
        verify_authoritative_record_value_v1 X (Some rec) = Ok (ar_record_ref rec)) \<and>
     (\<forall>fresh k payload e p until proofs rid rev rec.
        issue_internal_record X fresh k payload e p now until proofs rid rev = Ok rec \<longrightarrow>
        verify_authoritative_record_value_v1 X (Some rec) = Ok (ar_record_ref rec))"
proof -
  have digest: "valid_digest dg" if "canonical_digest_v1 X d v = Ok dg" for d v dg
    using that assms(1) by (auto simp: canonical_digest_v1_def and_then_eq_Ok)
  have "verify_authoritative_record_value_v1 X (Some rec) = Ok (ar_record_ref rec)"
    if "issue_record X c e now proofs d rid rev = Ok rec" "0 < cs_valid_from c" for c e proofs d rid rev rec
    using that digest
    by (auto simp: issue_record_def verify_authoritative_record_value_v1_def handler_simps not_le not_less
        CandidateSubmissionV1_canonical_digest_def split: if_splits intro: order_le_less_trans)
  moreover have "verify_authoritative_record_value_v1 X (Some rec) = Ok (ar_record_ref rec)"
    if "issue_internal_record X fresh k payload e p now until proofs rid rev = Ok rec"
    for fresh k payload e p until proofs rid rev rec
    using that digest assms(2)
    by (auto simp: issue_internal_record_def verify_authoritative_record_value_v1_def handler_simps not_le
        split: if_splits)
  ultimately show ?thesis by blast
qed

theorem issued_record_verifies_witness:
  "\<exists>rec. issue_record sample_crates (sample_candidate CK_CanonicalInput (JObj [])) (in_command sample_start) 200
     [sample_proof PK_InputAdmission] TD_Shadow 41 1 = Ok rec \<and>
     verify_authoritative_record_value_v1 sample_crates (Some rec) = Ok (ar_record_ref rec)"
proof -
  have "\<forall>b. valid_digest (x_sha256_hex sample_crates b)" "(0 :: u64) < 200"
    by (simp_all add: sample_crates_def valid_digest_def hex_byte_def list_all_iff)
  note v = issued_record_verifies [OF this]
  have "0 < cs_valid_from (sample_candidate CK_CanonicalInput (JObj []))" by (simp add: sample_candidate_def)
  then show ?thesis using sample_start_issued v by blast
qed

section \<open>Invalidated records\<close>

text \<open>The record a command names as its target.\<close>

fun command_targets :: "IdrCommandV1 \<Rightarrow> AuthoritativeRecordRefV1 set" where
  "command_targets (ConsumeResponseSend r _ _ _ _) = {r}"
| "command_targets (AdmitAction r _ _ _ _) = {r}"
| "command_targets (ReserveExecution a r _ _ _ _ _ _ _) = {a, r}"
| "command_targets (InvalidateRecord r _) = {r}"
| "command_targets (RecordHumanModelPromotion _ r) = {r}"
| "command_targets (PromoteHumanModelAssertion _ r) = {r}"
| "command_targets (CorrectHumanModelAssertion r _) = {r}"
| "command_targets _ = {}"

lemma governance_target_Ok:
  "require_exact_governance_target p r = Ok () \<Longrightarrow> r \<notin> pj_invalidated_records p"
  by (simp add: require_exact_governance_target_def split: if_splits)

lemma dispatch_targets_valid:
  assumes "dispatch_command X fresh p e now proofs = Ok (q, r, ev)"
  shows "command_targets (ce_command e) \<inter> pj_invalidated_records p = {}"
  using assms
  by (cases "ce_command e")
    (auto simp: dispatch_command_def simp del: u64_min.simps dest!: consume_response_effect admit_action_effect
      reserve_execution_effect invalidate_effect record_promotion_effect promote_assertion_effect
      correct_assertion_effect governance_target_Ok)

lemma engine_step_targets:
  assumes "engine_step X p i = Some q"
  shows "command_targets (ce_command (in_command i)) \<inter> pj_invalidated_records p = {}"
    "pj_invalidated_records p \<subseteq> pj_invalidated_records q"
proof -
  from assms obtain t where t: "evaluate_authoritative_transition_v1 X (in_fresh i) p (in_command i) (in_now i) (in_proofs i) = Ok t"
    "q = tn_projection t" by (auto simp: engine_step_Some)
  from t(1) show "command_targets (ce_command (in_command i)) \<inter> pj_invalidated_records p = {}"
    by (rule transition_dispatch) (drule dispatch_targets_valid, simp)
  from transition_frame(7) [OF t(1)] show "pj_invalidated_records p \<subseteq> pj_invalidated_records q" by (simp add: t(2))
qed

text \<open>
  C8: invalidation is final: once a record is invalidated, no later command that names it as its
  target (to send a response, admit or reserve an action, decide or apply a promotion, correct or
  invalidate again) is ever accepted in the run.
\<close>

theorem invalidated_record_never_used:
  assumes "run_steps (engine_step X) p cs = Some q" and "r \<in> pj_invalidated_records p"
    and "r \<in> command_targets (ce_command (in_command i))"
  shows "engine_step X q i = None"
proof -
  have "r \<in> pj_invalidated_records q" using assms(1,2)
  proof (induction cs arbitrary: p)
    case (Cons j cs)
    then show ?case using engine_step_targets(2) by (fastforce split: option.splits)
  qed simp
  with assms(3) engine_step_targets(1) [of X q i] show ?thesis
    by (cases "engine_step X q i") auto
qed

section \<open>Closed runs\<close>

lemma require_command_state_unit: "require_command_state s c = Ok u \<Longrightarrow> require_command_state s c = Ok ()"
  by (simp add: require_command_state.simps)

text \<open>
  cancelled and timed-out runs are closed: the engine rejects every command for them, whatever
  its proofs; and no other state is closed in this way, each lets some command pass the state check.
\<close>

theorem closed_runs_reject_everything:
  "engine_step X (p\<lparr>pj_state := RS_Cancelled\<rparr>) i = None \<and> engine_step X (p\<lparr>pj_state := RS_TimedOut\<rparr>) i = None \<and>
   (\<exists>c. require_command_state s c = Ok ()) = (s \<noteq> RS_Cancelled \<and> s \<noteq> RS_TimedOut)"
proof -
  have closed: "require_command_state s c \<noteq> Ok ()" if "s = RS_Cancelled \<or> s = RS_TimedOut" for s c
    using that by (auto simp: require_command_state.simps split: IdrCommandV1.splits)
  have "engine_step X (p\<lparr>pj_state := s\<rparr>) i = None" if "s = RS_Cancelled \<or> s = RS_TimedOut" for s
    using closed [OF that]
    by (cases "engine_step X (p\<lparr>pj_state := s\<rparr>) i") (auto simp: engine_step_Some elim!: transition_dispatch)
  moreover have "\<exists>c. require_command_state s c = Ok ()" if "s \<noteq> RS_Cancelled" "s \<noteq> RS_TimedOut"
  proof (cases "s = RS_Pending")
    case True
    then have "require_command_state s (StartRun c) = Ok ()" for c by (simp add: require_command_state.simps)
    then show ?thesis by blast
  next
    case False
    with that have "require_command_state s (CancelRun c) = Ok () \<or> require_command_state s (RecordOutcome d) = Ok ()" for c d
      by (cases s) (simp_all add: require_command_state.simps)
    then show ?thesis by blast
  qed
  ultimately show ?thesis using closed by blast
qed

definition sample_invalidate :: IdrCommandV1 where
  "sample_invalidate = InvalidateRecord (sample_ref CK_Action) ''reason:r''"

lemma sample_invalidate_validates:
  "IdrCommandEnvelopeV1_validate sample_crates (sample_command 3 ''caller:c'' sample_invalidate) = Ok ()"
  by code_simp

lemma sample_invalidation:
  "\<exists>t. evaluate_authoritative_transition_v1 sample_crates sample_fresh (sample_projection x)
       (sample_command 3 ''caller:c'' sample_invalidate) 200 [sample_proof PK_Policy] = Ok t \<and>
     sample_ref CK_Action \<in> pj_invalidated_records (tn_projection t)"
proof -
  let ?p = "(sample_projection x)\<lparr>pj_aggregate_version := 4, pj_last_event_sequence := 4\<rparr>"
  obtain q where q: "handle_invalidate_record ?p (sample_ref CK_Action) = Ok (q, None, ''record_invalidated'')"
    "sample_ref CK_Action \<in> pj_invalidated_records q"
    by (simp add: handle_invalidate_record_def require_exact_governance_target_def sample_projection_def)
  then have d: "dispatch_command sample_crates sample_fresh ?p (sample_command 3 ''caller:c'' sample_invalidate)
      200 [sample_proof PK_Policy] = Ok (q, None, ''record_invalidated'')"
    by (simp add: dispatch_command_def sample_command_def sample_invalidate_def)
  have "require_command_state RS_Running sample_invalidate = Ok ()"
    "check_lineage (sample_projection x) sample_invalidate 200 = Ok ()"
    "found_proof_kinds [sample_proof PK_Policy] = command_required_proof_kinds sample_invalidate"
    by (simp_all add: require_command_state.simps check_lineage_def found_proof_kinds_def sample_proof_def sample_invalidate_def)
  from sample_transition [OF sample_invalidate_validates this d] q(2) show ?thesis by fastforce
qed

theorem invalidated_record_never_used_witness:
  "\<exists>t. evaluate_authoritative_transition_v1 sample_crates sample_fresh (sample_projection None)
       (sample_command 3 ''caller:c'' sample_invalidate) 200 [sample_proof PK_Policy] = Ok t \<and>
     engine_step sample_crates (tn_projection t)
       (sample_input 4 ''owner:o'' sample_admit ACTION_ADMISSION_PROOF_KINDS_V1) = None"
proof -
  from sample_invalidation obtain t where t: "evaluate_authoritative_transition_v1 sample_crates sample_fresh
      (sample_projection None) (sample_command 3 ''caller:c'' sample_invalidate) 200 [sample_proof PK_Policy] = Ok t"
    "sample_ref CK_Action \<in> pj_invalidated_records (tn_projection t)" by blast
  have "run_steps (engine_step sample_crates) (tn_projection t) [] = Some (tn_projection t)" by simp
  from invalidated_record_never_used [OF this t(2)] t(1) show ?thesis
    by (simp add: sample_input_def sample_command_def sample_admit_def)
qed

section \<open>The invalidation closure of the repository\<close>

lemma clear_if_twice: "clear_if Q (clear_if P x) = clear_if (\<lambda>a. P a \<or> Q a) x"
  by (auto simp: clear_if_def split: option.splits)

lemma clear_if_eq: "(\<And>a. x = Some a \<Longrightarrow> P a = Q a) \<Longrightarrow> clear_if P x = clear_if Q x"
  by (auto simp: clear_if_def split: option.splits)

lemma clear_if_False [simp]: "clear_if (\<lambda>_. False) x = x"
  by (auto simp: clear_if_def split: option.splits)

lemma closure_clear_bindings_keeps [simp]:
  "pj_invalidated_records (closure_clear_bindings r p) = pj_invalidated_records p"
  "pj_execution (closure_clear_bindings r p) = pj_execution p"
  by (simp_all add: closure_clear_bindings_def split: CandidateKindV1.splits)

lemma closure_clear_bindings_fields:
  "pj_decision_binding (closure_clear_bindings r p) =
     clear_if (\<lambda>b. db_decision_ref b = r \<and> rr_candidate_kind r = CK_Decision) (pj_decision_binding p)"
  "pj_response_binding (closure_clear_bindings r p) =
     clear_if (\<lambda>b. rb_response_ref b = r \<and> rr_candidate_kind r = CK_Response) (pj_response_binding p)"
  "pj_action_binding (closure_clear_bindings r p) =
     clear_if (\<lambda>b. ab_action_ref b = r \<and> rr_candidate_kind r = CK_Action) (pj_action_binding p)"
  "pj_action_admission (closure_clear_bindings r p) =
     clear_if (\<lambda>a. aa_action_record_ref a = r \<and> rr_candidate_kind r = CK_Action \<or>
       aa_admission_ref a = r \<and> rr_candidate_kind r = CK_ActionAdmissionDecision) (pj_action_admission p)"
  "pj_outcome_binding (closure_clear_bindings r p) =
     clear_if (\<lambda>b. b = r \<and> rr_candidate_kind r = CK_Outcome) (pj_outcome_binding p)"
proof -
  let ?q = "closure_clear_bindings r p"
  show "pj_decision_binding ?q = clear_if (\<lambda>b. db_decision_ref b = r \<and> rr_candidate_kind r = CK_Decision) (pj_decision_binding p)"
    "pj_response_binding ?q = clear_if (\<lambda>b. rb_response_ref b = r \<and> rr_candidate_kind r = CK_Response) (pj_response_binding p)"
    "pj_action_binding ?q = clear_if (\<lambda>b. ab_action_ref b = r \<and> rr_candidate_kind r = CK_Action) (pj_action_binding p)"
    "pj_action_admission ?q = clear_if (\<lambda>a. aa_action_record_ref a = r \<and> rr_candidate_kind r = CK_Action \<or>
       aa_admission_ref a = r \<and> rr_candidate_kind r = CK_ActionAdmissionDecision) (pj_action_admission p)"
    by (cases "rr_candidate_kind r"; simp add: closure_clear_bindings_def)+
  show "pj_outcome_binding ?q = clear_if (\<lambda>b. b = r \<and> rr_candidate_kind r = CK_Outcome) (pj_outcome_binding p)"
  proof (cases "rr_candidate_kind r = CK_Outcome")
    case True
    then show ?thesis by (cases "pj_outcome_binding p") (auto simp: closure_clear_bindings_def clear_if_def)
  next
    case False
    then show ?thesis by (simp add: closure_clear_bindings_def split: CandidateKindV1.splits)
  qed
qed

definition closed_off :: "ExecutionAggregateStateV1 \<Rightarrow> ExecutionAggregateStateV1" where
  "closed_off s = (if execution_is_terminal s then s
     else if s \<in> {ES_DispatchStarted, ES_AwaitingProvider, ES_ReconciliationRequired}
     then ES_ReconciliationRequired else ES_Cancelled)"

lemma closed_off_twice [simp]: "closed_off (closed_off s) = closed_off s"
  by (cases s) (simp_all add: closed_off_def execution_is_terminal_def)

lemma closure_withdraw_execution_closed_off:
  "closure_withdraw_execution r x = (if ex_action_ref x = r then x\<lparr>ex_state := closed_off (ex_state x)\<rparr> else x)"
  by (simp add: closure_withdraw_execution_def closed_off_def)

lemma withdraw_twice:
  "closure_withdraw_execution s (closure_withdraw_execution r x) =
     (if ex_action_ref x = r then closure_withdraw_execution r x else closure_withdraw_execution s x)"
  by (simp add: closure_withdraw_execution_closed_off)

lemma fold_clear_if:
  assumes "\<And>p r. g (step p r) = clear_if (P r) (g p)"
  shows "g (foldl step p rs) = clear_if (\<lambda>b. \<exists>r \<in> set rs. P r b) (g p)"
proof (induction rs arbitrary: p)
  case (Cons r rs)
  show ?case by (simp add: Cons.IH assms clear_if_twice)
qed simp

lemma closure_step_fields:
  "pj_invalidated_records (closure_step p r) = insert r (pj_invalidated_records p)"
  "pj_execution (closure_step p r) = map_option (closure_withdraw_execution r) (pj_execution p)"
  "pj_decision_binding (closure_step p r) =
     clear_if (\<lambda>b. db_decision_ref b = r \<and> rr_candidate_kind r = CK_Decision) (pj_decision_binding p)"
  "pj_response_binding (closure_step p r) =
     clear_if (\<lambda>b. rb_response_ref b = r \<and> rr_candidate_kind r = CK_Response) (pj_response_binding p)"
  "pj_action_binding (closure_step p r) =
     clear_if (\<lambda>b. ab_action_ref b = r \<and> rr_candidate_kind r = CK_Action) (pj_action_binding p)"
  "pj_action_admission (closure_step p r) =
     clear_if (\<lambda>a. aa_action_record_ref a = r \<and> rr_candidate_kind r = CK_Action \<or>
       aa_admission_ref a = r \<and> rr_candidate_kind r = CK_ActionAdmissionDecision) (pj_action_admission p)"
  "pj_outcome_binding (closure_step p r) =
     clear_if (\<lambda>b. b = r \<and> rr_candidate_kind r = CK_Outcome) (pj_outcome_binding p)"
  by (simp_all add: closure_step_def Let_def closure_clear_bindings_fields)

lemma closure_fold_invalidated:
  "pj_invalidated_records (foldl closure_step p rs) = pj_invalidated_records p \<union> set rs"
  by (induction rs arbitrary: p) (simp_all add: closure_step_fields)

lemma closure_fold_execution:
  "pj_execution (foldl closure_step p rs) = map_option (\<lambda>x.
     if ex_action_ref x \<in> set rs then closure_withdraw_execution (ex_action_ref x) x else x) (pj_execution p)"
proof (induction rs arbitrary: p)
  case (Cons r rs)
  have "ex_action_ref (closure_withdraw_execution r x) = ex_action_ref x" for x
    by (simp add: closure_withdraw_execution_def)
  moreover have "ex_action_ref x \<noteq> r \<Longrightarrow> closure_withdraw_execution r x = x" for x
    by (simp add: closure_withdraw_execution_def)
  ultimately show ?case
    by (cases "pj_execution p") (auto simp: Cons.IH closure_step_fields withdraw_twice)
qed (simp add: option.map_ident)

lemma closure_step_human:
  "pj_human_model_candidate (closure_step p r) =
     clear_if (\<lambda>c. hc_candidate_ref c = r \<and> rr_candidate_kind r = CK_HumanModelCandidate \<or>
       pj_outcome_binding p = Some r \<and> rr_candidate_kind r = CK_Outcome \<and> hc_outcome_ref c = r)
       (pj_human_model_candidate p)"
  "pj_human_model_promotion (closure_step p r) =
     clear_if (\<lambda>q. hp_decision_ref q = r \<and> rr_candidate_kind r = CK_HumanModelPromotionDecision \<or>
       pj_outcome_binding p = Some r \<and> rr_candidate_kind r = CK_Outcome \<and> hp_outcome_ref q = r \<or>
       (\<exists>c. pj_human_model_candidate p = Some c \<and> hc_candidate_ref c = r \<and>
          rr_candidate_kind r = CK_HumanModelCandidate \<and> hp_source_candidate_ref q = r))
       (pj_human_model_promotion p)"
  by (cases "rr_candidate_kind r"; cases "pj_human_model_candidate p"; cases "pj_human_model_promotion p";
      simp add: closure_step_def Let_def closure_clear_bindings_def clear_if_def)+

text \<open>
  The candidate goes with its own record or with the outcome it rests on, when that outcome is the
  bound one.
\<close>

definition outcome_withdrawn :: "IdrRunProjectionV1 \<Rightarrow> AuthoritativeRecordRefV1 \<Rightarrow> AuthoritativeRecordRefV1 list \<Rightarrow> bool" where
  "outcome_withdrawn p r rs \<longleftrightarrow>
     pj_outcome_binding p = Some r \<and> rr_candidate_kind r = CK_Outcome \<and> r \<in> set rs"

lemma outcome_withdrawn_Cons:
  "outcome_withdrawn (closure_step p s) r rs \<longleftrightarrow> outcome_withdrawn p r rs \<and> r \<noteq> s"
  "outcome_withdrawn p r (s # rs) \<longleftrightarrow>
     outcome_withdrawn p r rs \<or> s = r \<and> pj_outcome_binding p = Some r \<and> rr_candidate_kind r = CK_Outcome"
  by (auto simp: outcome_withdrawn_def closure_step_fields clear_if_def split: option.splits if_splits)

lemma outcome_withdrawnD:
  "outcome_withdrawn p r rs \<Longrightarrow> pj_outcome_binding p = Some r \<and> rr_candidate_kind r = CK_Outcome"
  by (simp add: outcome_withdrawn_def)

lemma closure_fold_candidate:
  "pj_human_model_candidate (foldl closure_step p rs) =
     clear_if (\<lambda>c. hc_candidate_ref c \<in> set rs \<and> rr_candidate_kind (hc_candidate_ref c) = CK_HumanModelCandidate \<or>
       outcome_withdrawn p (hc_outcome_ref c) rs) (pj_human_model_candidate p)"
proof (induction rs arbitrary: p)
  case (Cons r rs)
  show ?case
    by (simp add: Cons.IH closure_step_human(1) clear_if_twice)
      (rule clear_if_eq, auto simp: outcome_withdrawn_Cons dest: outcome_withdrawnD)
qed (simp add: outcome_withdrawn_def)

text \<open>
  The promotion goes with its own record, with the bound outcome it names, or with the candidate it was
  drawn from, unless an outcome that comes earlier in the list has taken the candidate already.
\<close>

definition candidate_withdrawn :: "IdrRunProjectionV1 \<Rightarrow> AuthoritativeRecordRefV1 \<Rightarrow> AuthoritativeRecordRefV1 list \<Rightarrow> bool" where
  "candidate_withdrawn p r rs \<longleftrightarrow>
     r \<in> set rs \<and> rr_candidate_kind r = CK_HumanModelCandidate \<and>
     (\<exists>c. pj_human_model_candidate p = Some c \<and> hc_candidate_ref c = r \<and>
        \<not> outcome_withdrawn p (hc_outcome_ref c) (takeWhile (\<lambda>s. s \<noteq> r) rs))"

lemma candidate_withdrawn_Cons:
  "candidate_withdrawn p r (s # rs) \<longleftrightarrow>
     s = r \<and> rr_candidate_kind r = CK_HumanModelCandidate \<and>
       (\<exists>c. pj_human_model_candidate p = Some c \<and> hc_candidate_ref c = r) \<or>
     s \<noteq> r \<and> candidate_withdrawn (closure_step p s) r rs"
proof (cases "s = r")
  case True
  then show ?thesis by (auto simp: candidate_withdrawn_def outcome_withdrawn_def)
next
  case False
  then show ?thesis
    by (cases "pj_human_model_candidate p")
      (auto simp: candidate_withdrawn_def closure_step_human(1) clear_if_def outcome_withdrawn_Cons
        dest: outcome_withdrawnD)
qed

lemma candidate_withdrawn_step_same: "\<not> candidate_withdrawn (closure_step p r) r rs"
  by (cases "pj_human_model_candidate p")
    (auto simp: candidate_withdrawn_def closure_step_human(1) clear_if_def split: if_splits)

lemma closure_fold_promotion:
  "pj_human_model_promotion (foldl closure_step p rs) =
     clear_if (\<lambda>q. hp_decision_ref q \<in> set rs \<and> rr_candidate_kind (hp_decision_ref q) = CK_HumanModelPromotionDecision \<or>
       outcome_withdrawn p (hp_outcome_ref q) rs \<or> candidate_withdrawn p (hp_source_candidate_ref q) rs)
       (pj_human_model_promotion p)"
proof (induction rs arbitrary: p)
  case (Cons r rs)
  show ?case
    unfolding foldl.simps Cons.IH closure_step_human(2) clear_if_twice
  proof (rule clear_if_eq)
    fix q
    show "((hp_decision_ref q = r \<and> rr_candidate_kind r = CK_HumanModelPromotionDecision \<or>
        pj_outcome_binding p = Some r \<and> rr_candidate_kind r = CK_Outcome \<and> hp_outcome_ref q = r \<or>
        (\<exists>c. pj_human_model_candidate p = Some c \<and> hc_candidate_ref c = r \<and>
           rr_candidate_kind r = CK_HumanModelCandidate \<and> hp_source_candidate_ref q = r)) \<or>
      hp_decision_ref q \<in> set rs \<and> rr_candidate_kind (hp_decision_ref q) = CK_HumanModelPromotionDecision \<or>
      outcome_withdrawn (closure_step p r) (hp_outcome_ref q) rs \<or>
      candidate_withdrawn (closure_step p r) (hp_source_candidate_ref q) rs) =
     (hp_decision_ref q \<in> set (r # rs) \<and> rr_candidate_kind (hp_decision_ref q) = CK_HumanModelPromotionDecision \<or>
      outcome_withdrawn p (hp_outcome_ref q) (r # rs) \<or>
      candidate_withdrawn p (hp_source_candidate_ref q) (r # rs))"
      unfolding outcome_withdrawn_Cons candidate_withdrawn_Cons list.set insert_iff
      using outcome_withdrawnD [of p "hp_outcome_ref q" rs] candidate_withdrawn_step_same [of p r rs] by metis
  qed
qed (simp add: outcome_withdrawn_def candidate_withdrawn_def)

text \<open>The closure touches no other field.\<close>

lemma closure_step_touches:
  "closure_step p r = p\<lparr>
     pj_invalidated_records := pj_invalidated_records (closure_step p r),
     pj_decision_binding := pj_decision_binding (closure_step p r),
     pj_response_binding := pj_response_binding (closure_step p r),
     pj_action_binding := pj_action_binding (closure_step p r),
     pj_action_admission := pj_action_admission (closure_step p r),
     pj_outcome_binding := pj_outcome_binding (closure_step p r),
     pj_human_model_candidate := pj_human_model_candidate (closure_step p r),
     pj_human_model_promotion := pj_human_model_promotion (closure_step p r),
     pj_execution := pj_execution (closure_step p r)\<rparr>"
  by (cases p, cases "rr_candidate_kind r"; simp add: closure_step_def Let_def closure_clear_bindings_def)

lemma closure_fold_touches:
  "foldl closure_step p rs = p\<lparr>
     pj_invalidated_records := pj_invalidated_records (foldl closure_step p rs),
     pj_decision_binding := pj_decision_binding (foldl closure_step p rs),
     pj_response_binding := pj_response_binding (foldl closure_step p rs),
     pj_action_binding := pj_action_binding (foldl closure_step p rs),
     pj_action_admission := pj_action_admission (foldl closure_step p rs),
     pj_outcome_binding := pj_outcome_binding (foldl closure_step p rs),
     pj_human_model_candidate := pj_human_model_candidate (foldl closure_step p rs),
     pj_human_model_promotion := pj_human_model_promotion (foldl closure_step p rs),
     pj_execution := pj_execution (foldl closure_step p rs)\<rparr>"
proof (induction rs arbitrary: p)
  case (Cons r rs)
  have touched: "\<lbrakk>q = p\<lparr>pj_invalidated_records := a1, pj_decision_binding := a2, pj_response_binding := a3,
      pj_action_binding := a4, pj_action_admission := a5, pj_outcome_binding := a6,
      pj_human_model_candidate := a7, pj_human_model_promotion := a8, pj_execution := a9\<rparr>;
    u = q\<lparr>pj_invalidated_records := b1, pj_decision_binding := b2, pj_response_binding := b3,
      pj_action_binding := b4, pj_action_admission := b5, pj_outcome_binding := b6,
      pj_human_model_candidate := b7, pj_human_model_promotion := b8, pj_execution := b9\<rparr>\<rbrakk> \<Longrightarrow>
    u = p\<lparr>pj_invalidated_records := b1, pj_decision_binding := b2, pj_response_binding := b3,
      pj_action_binding := b4, pj_action_admission := b5, pj_outcome_binding := b6,
      pj_human_model_candidate := b7, pj_human_model_promotion := b8, pj_execution := b9\<rparr>" for q u a1 a2 a3 a4 a5 a6 a7 a8 a9 b1 b2 b3 b4 b5 b6 b7 b8 b9
    by simp
  show ?case unfolding foldl.simps by (rule touched [OF closure_step_touches Cons.IH])
qed simp

lemma closure_fold_bindings:
  "pj_decision_binding (foldl closure_step p rs) = clear_if (\<lambda>b. db_decision_ref b \<in> set rs \<and>
     rr_candidate_kind (db_decision_ref b) = CK_Decision) (pj_decision_binding p)"
  "pj_response_binding (foldl closure_step p rs) = clear_if (\<lambda>b. rb_response_ref b \<in> set rs \<and>
     rr_candidate_kind (rb_response_ref b) = CK_Response) (pj_response_binding p)"
  "pj_action_binding (foldl closure_step p rs) = clear_if (\<lambda>b. ab_action_ref b \<in> set rs \<and>
     rr_candidate_kind (ab_action_ref b) = CK_Action) (pj_action_binding p)"
  "pj_action_admission (foldl closure_step p rs) = clear_if (\<lambda>a. aa_action_record_ref a \<in> set rs \<and>
       rr_candidate_kind (aa_action_record_ref a) = CK_Action \<or>
     aa_admission_ref a \<in> set rs \<and> rr_candidate_kind (aa_admission_ref a) = CK_ActionAdmissionDecision)
     (pj_action_admission p)"
  "pj_outcome_binding (foldl closure_step p rs) = clear_if (\<lambda>b. b \<in> set rs \<and> rr_candidate_kind b = CK_Outcome)
     (pj_outcome_binding p)"
proof -
  have e: "(\<exists>r \<in> set rs. a = r \<and> Q r) = (a \<in> set rs \<and> Q a)" for a :: AuthoritativeRecordRefV1 and Q by blast
  show "pj_decision_binding (foldl closure_step p rs) = clear_if (\<lambda>b. db_decision_ref b \<in> set rs \<and>
     rr_candidate_kind (db_decision_ref b) = CK_Decision) (pj_decision_binding p)"
    "pj_response_binding (foldl closure_step p rs) = clear_if (\<lambda>b. rb_response_ref b \<in> set rs \<and>
     rr_candidate_kind (rb_response_ref b) = CK_Response) (pj_response_binding p)"
    "pj_action_binding (foldl closure_step p rs) = clear_if (\<lambda>b. ab_action_ref b \<in> set rs \<and>
     rr_candidate_kind (ab_action_ref b) = CK_Action) (pj_action_binding p)"
    "pj_action_admission (foldl closure_step p rs) = clear_if (\<lambda>a. aa_action_record_ref a \<in> set rs \<and>
       rr_candidate_kind (aa_action_record_ref a) = CK_Action \<or>
     aa_admission_ref a \<in> set rs \<and> rr_candidate_kind (aa_admission_ref a) = CK_ActionAdmissionDecision)
     (pj_action_admission p)"
    "pj_outcome_binding (foldl closure_step p rs) = clear_if (\<lambda>b. b \<in> set rs \<and> rr_candidate_kind b = CK_Outcome)
     (pj_outcome_binding p)"
    using fold_clear_if [where g = pj_decision_binding and step = closure_step, OF closure_step_fields(3), where p = p and rs = rs]
      fold_clear_if [where g = pj_response_binding and step = closure_step, OF closure_step_fields(4), where p = p and rs = rs]
      fold_clear_if [where g = pj_action_binding and step = closure_step, OF closure_step_fields(5), where p = p and rs = rs]
      fold_clear_if [where g = pj_action_admission and step = closure_step, OF closure_step_fields(6), where p = p and rs = rs]
      fold_clear_if [where g = pj_outcome_binding and step = closure_step, OF closure_step_fields(7), where p = p and rs = rs]
    unfolding bex_disj_distrib e by simp_all
qed

text \<open>
  C29: the invalidation closure, computed record by record, changes the transition exactly as its list of
  records says, field by field. All of the records become invalidated; the decision, response, action,
  admission and outcome bindings that rest on one of them are dropped; the human-model candidate goes with
  its own record or with the bound outcome it rests on; the promotion with its own record, with the bound
  outcome it names, or with the candidate it was drawn from unless an outcome earlier in the list has taken
  the candidate already, the only place where the order of the records matters. The execution of one of the
  actions, unless it already ended, is cancelled before dispatch and kept for reconciliation after it. The
  run becomes invalidated when asked to, and otherwise waits for reconciliation when its execution does.
  Nothing else changes.
\<close>

theorem closure_is_declarative:
  "apply_repository_invalidation_closure t rs invalidate_run =
     (let p = tn_projection t;
          execution = map_option (\<lambda>x.
            if ex_action_ref x \<in> set rs \<and> \<not> execution_is_terminal (ex_state x)
            then x\<lparr>ex_state := (if ex_state x \<in> {ES_DispatchStarted, ES_AwaitingProvider, ES_ReconciliationRequired}
              then ES_ReconciliationRequired else ES_Cancelled)\<rparr>
            else x) (pj_execution p)
      in t\<lparr>tn_projection := p\<lparr>
        pj_invalidated_records := pj_invalidated_records p \<union> set rs,
        pj_decision_binding := clear_if (\<lambda>b. db_decision_ref b \<in> set rs \<and>
          rr_candidate_kind (db_decision_ref b) = CK_Decision) (pj_decision_binding p),
        pj_response_binding := clear_if (\<lambda>b. rb_response_ref b \<in> set rs \<and>
          rr_candidate_kind (rb_response_ref b) = CK_Response) (pj_response_binding p),
        pj_action_binding := clear_if (\<lambda>b. ab_action_ref b \<in> set rs \<and>
          rr_candidate_kind (ab_action_ref b) = CK_Action) (pj_action_binding p),
        pj_action_admission := clear_if (\<lambda>a. aa_action_record_ref a \<in> set rs \<and>
            rr_candidate_kind (aa_action_record_ref a) = CK_Action \<or>
          aa_admission_ref a \<in> set rs \<and> rr_candidate_kind (aa_admission_ref a) = CK_ActionAdmissionDecision)
          (pj_action_admission p),
        pj_outcome_binding := clear_if (\<lambda>b. b \<in> set rs \<and> rr_candidate_kind b = CK_Outcome) (pj_outcome_binding p),
        pj_human_model_candidate := clear_if (\<lambda>c.
            hc_candidate_ref c \<in> set rs \<and> rr_candidate_kind (hc_candidate_ref c) = CK_HumanModelCandidate \<or>
            outcome_withdrawn p (hc_outcome_ref c) rs) (pj_human_model_candidate p),
        pj_human_model_promotion := clear_if (\<lambda>q.
            hp_decision_ref q \<in> set rs \<and> rr_candidate_kind (hp_decision_ref q) = CK_HumanModelPromotionDecision \<or>
            outcome_withdrawn p (hp_outcome_ref q) rs \<or>
            candidate_withdrawn p (hp_source_candidate_ref q) rs) (pj_human_model_promotion p),
        pj_execution := execution,
        pj_state := (if invalidate_run then RS_Invalidated
          else if \<exists>x. execution = Some x \<and> ex_state x = ES_ReconciliationRequired
          then RS_ReconciliationRequired else pj_state p)\<rparr>\<rparr>)"
proof -
  have x: "(\<lambda>x. if ex_action_ref x \<in> set rs then closure_withdraw_execution (ex_action_ref x) x else x) =
      (\<lambda>x. if ex_action_ref x \<in> set rs \<and> \<not> execution_is_terminal (ex_state x)
       then x\<lparr>ex_state := (if ex_state x \<in> {ES_DispatchStarted, ES_AwaitingProvider, ES_ReconciliationRequired}
         then ES_ReconciliationRequired else ES_Cancelled)\<rparr>
       else x)"
    by (auto simp: closure_withdraw_execution_def fun_eq_iff)
  note f = closure_fold_touches [of "tn_projection t" rs, unfolded closure_fold_invalidated closure_fold_bindings
      closure_fold_candidate closure_fold_promotion closure_fold_execution x]
  have e: "(case y of None \<Rightarrow> False | Some x \<Rightarrow> ex_state x = ES_ReconciliationRequired) =
      (\<exists>x. y = Some x \<and> ex_state x = ES_ReconciliationRequired)" for y
    by (cases y) simp_all
  have sel: "pj_execution (q\<lparr>pj_invalidated_records := a1, pj_decision_binding := a2, pj_response_binding := a3,
      pj_action_binding := a4, pj_action_admission := a5, pj_outcome_binding := a6,
      pj_human_model_candidate := a7, pj_human_model_promotion := a8, pj_execution := a9\<rparr>) = a9"
    "pj_state (q\<lparr>pj_invalidated_records := a1, pj_decision_binding := a2, pj_response_binding := a3,
      pj_action_binding := a4, pj_action_admission := a5, pj_outcome_binding := a6,
      pj_human_model_candidate := a7, pj_human_model_promotion := a8, pj_execution := a9\<rparr>) = pj_state q"
    for q a1 a2 a3 a4 a5 a6 a7 a8 a9 by simp_all
  have st: "(if b then q\<lparr>pj_state := s1\<rparr> else if c then q\<lparr>pj_state := s2\<rparr> else q) =
      q\<lparr>pj_state := (if b then s1 else if c then s2 else pj_state q)\<rparr>" for b c q s1 s2
    by simp
  show ?thesis
    unfolding apply_repository_invalidation_closure_def Let_def f e st sel ..
qed

section \<open>Receipts\<close>

lemma required_payload_string_Ok:
  "required_payload_string payload k = Ok s \<Longrightarrow> payload_str payload k = Some s"
  by (auto simp: required_payload_string_def payload_str_def split: option.splits if_splits)

text \<open>
  C6: a receipt is accepted only from the provider of the attempt and for the attempt itself: its
  reservation, permit, dispatch nonce and attempt number are the attempt's, the payload repeats the
  permit, the provider, the nonce and the digest of the request that was admitted, and states truly
  whether the action was invalidated in the meantime; the attempt had crossed the dispatch boundary
  and ends in the state the receipt reports, with the run state that belongs to it.
\<close>

theorem receipt_bound_to_attempt:
  assumes "evaluate_authoritative_transition_v1 X fresh p e now proofs = Ok t"
    and "ce_command e = CommitExecutionReceipt c rid pid prov nonce att"
  shows "\<exists>x s. pj_execution p = Some x \<and> ex_reservation_id x = rid \<and> ex_permit_id x = pid \<and>
     ex_provider_ref x = prov \<and> ce_caller_ref e = prov \<and> ex_dispatch_nonce x = nonce \<and> ex_attempt x = att \<and>
     ex_state x \<in> {ES_DispatchStarted, ES_AwaitingProvider, ES_ReconciliationRequired} \<and>
     payload_str (cs_payload c) ''permit_id'' = Some (x_uuid_display X pid) \<and>
     payload_str (cs_payload c) ''provider_ref'' = Some prov \<and>
     payload_str (cs_payload c) ''dispatch_nonce'' = Some nonce \<and>
     payload_str (cs_payload c) ''request_digest'' = Some (ex_request_digest x) \<and>
     payload_bool (cs_payload c) ''action_was_invalidated'' = Some (ex_action_ref x \<in> pj_invalidated_records p) \<and>
     receipt_terminal_state (cs_payload c) = Ok s \<and>
     pj_execution (tn_projection t) = Some (x\<lparr>ex_state := s\<rparr>) \<and>
     (s \<in> {ES_Succeeded, ES_Compensated} \<and> pj_state (tn_projection t) = RS_Succeeded \<or>
      s = ES_Failed \<and> pj_state (tn_projection t) = RS_Failed \<or>
      s = ES_Rejected \<and> pj_state (tn_projection t) = RS_Rejected)"
  using assms(1)
proof (rule transition_dispatch)
  fix a q r ev v s
  assume a: "a = p\<lparr>pj_aggregate_version := v, pj_last_event_sequence := s\<rparr>"
    and d: "dispatch_command X fresh a e now proofs = Ok (q, r, ev)" and t: "tn_projection t = store_record r q"
  from d assms(2) have "handle_commit_execution_receipt X fresh a e now proofs c rid pid prov nonce att = Ok (q, r, ev)"
    by (simp add: dispatch_command_def)
  from commit_receipt_effect [OF this] obtain x s run where
    x: "current_execution a rid pid = Ok x" "require_caller e (ex_provider_ref x) = Ok ()"
      "ex_state x \<in> {ES_DispatchStarted, ES_AwaitingProvider, ES_ReconciliationRequired}"
      "ex_provider_ref x = prov" "ex_dispatch_nonce x = nonce" "ex_attempt x = att"
    and v: "validate_execution_receipt_candidate X (cs_payload c) pid prov nonce att
       (ex_action_ref x \<in> pj_invalidated_records a) (ex_request_digest x) = Ok ()"
    and s: "receipt_terminal_state (cs_payload c) = Ok s"
    and run: "(if s = ES_Succeeded \<or> s = ES_Compensated then Ok RS_Succeeded
      else if s = ES_Failed then Ok RS_Failed
      else if s = ES_Rejected then Ok RS_Rejected else Err RE_InvalidExecutionTransition) = Ok run"
    and q: "(set_execution_state x s a)\<lparr>pj_state := run\<rparr> = q" by blast
  from v have payload: "required_payload_string (cs_payload c) ''permit_id'' = Ok (x_uuid_display X pid)"
    "required_payload_string (cs_payload c) ''provider_ref'' = Ok prov"
    "required_payload_string (cs_payload c) ''dispatch_nonce'' = Ok nonce"
    "payload_bool (cs_payload c) ''action_was_invalidated'' = Some (ex_action_ref x \<in> pj_invalidated_records p)"
    "required_payload_digest (cs_payload c) ''request_digest'' = Ok (ex_request_digest x)"
    by (auto simp: validate_execution_receipt_candidate_def handler_simps a split: if_splits)
  from payload(5) have "required_payload_string (cs_payload c) ''request_digest'' = Ok (ex_request_digest x)"
    by (auto simp: required_payload_digest_def handler_simps split: if_splits)
  note strs = payload(1-3) [THEN required_payload_string_Ok] this [THEN required_payload_string_Ok]
  have "pj_execution (tn_projection t) = Some (x\<lparr>ex_state := s\<rparr>)" "pj_state (tn_projection t) = run"
    by (simp_all add: t q [symmetric] set_execution_state_def)
  moreover have "pj_execution p = Some x" "ex_reservation_id x = rid" "ex_permit_id x = pid" "ce_caller_ref e = prov"
    using x by (simp_all add: current_execution_Ok a require_caller_def split: if_splits)
  ultimately show ?thesis using x(3-6) strs payload(4) s receipt_run_state [OF run] by blast
qed

definition sample_receipt :: CandidateSubmissionV1 where
  "sample_receipt = sample_candidate CK_ExecutionReceipt (JObj [
     (''action_was_invalidated'', JBool False), (''attempt'', jint 1), (''dispatch_nonce'', JStr sample_digest),
     (''permit_id'', JStr ''52''), (''provider_ref'', JStr ''provider:p''),
     (''request_digest'', JStr sample_digest), (''result_digest'', JStr sample_digest),
     (''state'', JStr ''succeeded'')])"

definition sample_commit :: IdrCommandV1 where
  "sample_commit = CommitExecutionReceipt sample_receipt 51 52 ''provider:p'' sample_digest 1"

lemma sample_commit_validates:
  "IdrCommandEnvelopeV1_validate sample_crates (sample_command 3 ''provider:p'' sample_commit) = Ok ()"
  by code_simp

lemma sample_receipt_validates:
  "CandidateSubmissionV1_validate sample_crates sample_receipt = Ok ()"
  "validate_execution_receipt_candidate sample_crates (cs_payload sample_receipt) 52 ''provider:p'' sample_digest 1
     False sample_digest = Ok ()"
  "receipt_terminal_state (cs_payload sample_receipt) = Ok ES_Succeeded"
  by code_simp+

lemma sample_receipt_transition:
  "\<exists>t. evaluate_authoritative_transition_v1 sample_crates sample_fresh
       (sample_projection (Some (sample_execution ES_DispatchStarted)))
       (sample_command 3 ''provider:p'' sample_commit) 200 [sample_proof PK_ProviderReceipt] = Ok t"
proof -
  let ?p = "(sample_projection (Some (sample_execution ES_DispatchStarted)))\<lparr>pj_aggregate_version := 4, pj_last_event_sequence := 4\<rparr>"
  have "\<exists>rec. issue_record sample_crates sample_receipt (sample_command 3 ''provider:p'' sample_commit) 200
      [sample_proof PK_ProviderReceipt] TD_Shadow 31 2 = Ok rec"
    using sample_receipt_validates(1) unfolding sample_receipt_def
    by (rule sample_issue) (simp_all add: IDR_MAX_SAFE_WIRE_INTEGER_V1_def)
  then obtain rec where rec: "issue_record sample_crates sample_receipt (sample_command 3 ''provider:p'' sample_commit) 200
      [sample_proof PK_ProviderReceipt] TD_Shadow 31 2 = Ok rec" by blast
  have x: "current_execution ?p 51 52 = Ok (sample_execution ES_DispatchStarted)"
    by (simp add: current_execution_def sample_projection_def sample_execution_def)
  have rev: "next_revision ?p CK_ExecutionReceipt = Ok 2" "record_id_for sample_fresh ?p CK_ExecutionReceipt = 31"
    "pj_trust_domain ?p = TD_Shadow" "pj_invalidated_records ?p = {}"
    by (simp_all add: next_revision_def record_id_for_def sample_projection_def checked_add_def)
  have c: "require_caller (sample_command 3 ''provider:p'' sample_commit) ''provider:p'' = Ok ()"
    by (simp add: require_caller_def sample_command_def)
  have e: "ex_state (sample_execution ES_DispatchStarted) = ES_DispatchStarted"
    "ex_provider_ref (sample_execution ES_DispatchStarted) = ''provider:p''"
    "ex_dispatch_nonce (sample_execution ES_DispatchStarted) = sample_digest"
    "ex_attempt (sample_execution ES_DispatchStarted) = 1"
    "ex_request_digest (sample_execution ES_DispatchStarted) = sample_digest"
    by (simp_all add: sample_execution_def)
  have "\<exists>q. handle_commit_execution_receipt sample_crates sample_fresh ?p (sample_command 3 ''provider:p'' sample_commit)
      200 [sample_proof PK_ProviderReceipt] sample_receipt 51 52 ''provider:p'' sample_digest 1 =
      Ok (q, Some rec, ''execution_receipt_committed'')"
    by (simp add: handle_commit_execution_receipt_def x rev c e sample_receipt_validates rec)
  then obtain q where d: "dispatch_command sample_crates sample_fresh ?p (sample_command 3 ''provider:p'' sample_commit)
      200 [sample_proof PK_ProviderReceipt] = Ok (q, Some rec, ''execution_receipt_committed'')"
    by (auto simp: dispatch_command_def sample_command_def sample_commit_def)
  have "require_command_state RS_Running sample_commit = Ok ()"
    "check_lineage (sample_projection (Some (sample_execution ES_DispatchStarted))) sample_commit 200 = Ok ()"
    "found_proof_kinds [sample_proof PK_ProviderReceipt] = command_required_proof_kinds sample_commit"
    by (simp_all add: require_command_state.simps check_lineage_def found_proof_kinds_def sample_proof_def
        sample_commit_def sample_receipt_def sample_candidate_def sample_projection_def)
  from sample_transition [OF sample_commit_validates this d] show ?thesis by blast
qed

theorem receipt_bound_to_attempt_witness:
  "\<exists>t. evaluate_authoritative_transition_v1 sample_crates sample_fresh
       (sample_projection (Some (sample_execution ES_DispatchStarted)))
       (sample_command 3 ''provider:p'' sample_commit) 200 [sample_proof PK_ProviderReceipt] = Ok t \<and>
     pj_state (tn_projection t) = RS_Succeeded"
proof -
  from sample_receipt_transition obtain t where t: "evaluate_authoritative_transition_v1 sample_crates sample_fresh
       (sample_projection (Some (sample_execution ES_DispatchStarted)))
       (sample_command 3 ''provider:p'' sample_commit) 200 [sample_proof PK_ProviderReceipt] = Ok t" by blast
  have "ce_command (sample_command 3 ''provider:p'' sample_commit) =
      CommitExecutionReceipt sample_receipt 51 52 ''provider:p'' sample_digest 1"
    by (simp add: sample_command_def sample_commit_def)
  from receipt_bound_to_attempt [OF t this] t sample_receipt_validates(3) show ?thesis by auto
qed

section \<open>Withdrawn proofs\<close>

text \<open>
  when a proof of the admission fails later, the repository's replacement transition never leaves an
  attempt that may still be dispatched: an attempt before dispatch is cancelled and the run waits for
  authorization, one past it needs reconciliation, and so does the run; version and event sequence
  advance as for a command, and no record is issued.
\<close>

theorem proof_failure_withdraws:
  assumes "action_admission_proof_failure X p e proofs = Ok t"
  shows "unat (pj_aggregate_version (tn_projection t)) = Suc (unat (pj_aggregate_version p)) \<and>
     unat (pj_last_event_sequence (tn_projection t)) = Suc (unat (pj_last_event_sequence p)) \<and>
     tn_authoritative_record t = None \<and> pj_action_admission p \<noteq> None \<and>
     (case pj_execution p of
        None \<Rightarrow> pj_execution (tn_projection t) = None \<and> pj_state (tn_projection t) = RS_WaitingAuthorization
      | Some x \<Rightarrow>
          if execution_phase (ex_state x) \<le> 1 \<or> ex_state x \<in> {ES_Cancelled, ES_Expired}
          then pj_execution (tn_projection t) = Some (x\<lparr>ex_state := ES_Cancelled\<rparr>) \<and>
            pj_state (tn_projection t) = RS_WaitingAuthorization
          else pj_execution (tn_projection t) = Some (x\<lparr>ex_state := ES_ReconciliationRequired\<rparr>) \<and>
            pj_state (tn_projection t) = RS_ReconciliationRequired)"
proof -
  from assms obtain v s where v: "checked_add (pj_aggregate_version p) 1 = Some v"
    and s: "checked_add (pj_last_event_sequence p) 1 = Some s" and adm: "pj_action_admission p \<noteq> None"
    by (auto simp: action_admission_proof_failure_def handler_simps)
  have phase: "execution_phase st \<le> 1 \<or> st \<in> {ES_Cancelled, ES_Expired} \<longleftrightarrow> st \<notin> crossed_dispatch_states" for st
    by (cases st) (simp_all add: crossed_dispatch_states_def)
  show ?thesis
    using assms adm checked_add_1_unat [OF v] checked_add_1_unat [OF s] unfolding phase
    by (cases "pj_execution p") (auto simp: action_admission_proof_failure_def handler_simps v s)
qed

theorem proof_failure_withdraws_witness:
  "\<exists>t. action_admission_proof_failure sample_crates (sample_projection (Some (sample_execution ES_PermitIssued)))
       (sample_command 3 ''provider:p'' (DeliverPermit 51 52)) [sample_proof PK_ExecutionPermit] = Ok t \<and>
     pj_state (tn_projection t) = RS_WaitingAuthorization"
proof -
  obtain t where t: "action_admission_proof_failure sample_crates (sample_projection (Some (sample_execution ES_PermitIssued)))
       (sample_command 3 ''provider:p'' (DeliverPermit 51 52)) [sample_proof PK_ExecutionPermit] = Ok t"
    by (simp add: action_admission_proof_failure_def sample_projection_def checked_add_def Let_def)
  from proof_failure_withdraws [OF t] t show ?thesis
    by (simp add: sample_projection_def sample_execution_def)
qed

section \<open>Promotion to the human model\<close>

text \<open>
  C27: an accepted promotion decision is about the run's current candidate and its outcome; a provisional
  promotion needs at least two different evidence references in the candidate itself (the count the
  decision claims does not suffice), a user-confirmed one a verified user confirmation, an outcome-supported one
  a verified outcome observation, besides the promotion proof.
\<close>

theorem promotion_rests_on_evidence:
  assumes "evaluate_authoritative_transition_v1 X fresh p e now proofs = Ok t"
    and "ce_command e = RecordHumanModelPromotion c src"
  shows "\<exists>hc pr refs. pj_human_model_candidate p = Some hc \<and> hc_candidate_ref hc = src \<and>
     pj_records p CK_HumanModelCandidate = Some src \<and> src \<notin> pj_invalidated_records p \<and>
     pj_human_model_promotion (tn_projection t) = Some pr \<and> hp_source_candidate_ref pr = src \<and>
     hp_outcome_ref pr = hc_outcome_ref hc \<and>
     payload_str (cs_payload c) ''candidate_digest'' = Some (rr_record_digest src) \<and>
     payload_str (cs_payload c) ''outcome'' = Some (hp_outcome pr) \<and>
     payload_array (hc_materialized_payload hc) ''evidence_refs'' = Some refs \<and>
     PK_HumanModelPromotion \<in> found_proof_kinds proofs \<and>
     (if hp_outcome pr = ''promote_provisional'' then 2 \<le> card {s. JStr s \<in> set refs}
      else if hp_outcome pr = ''promote_user_confirmed'' then PK_HumanModelUserConfirmation \<in> found_proof_kinds proofs
      else if hp_outcome pr = ''promote_outcome_supported'' then PK_OutcomeObservation \<in> found_proof_kinds proofs
      else hp_outcome pr \<in> {''keep_session'', ''store_candidate'', ''reject''})"
  using assms(1)
proof (rule transition_dispatch)
  fix a q r ev v s
  assume a: "a = p\<lparr>pj_aggregate_version := v, pj_last_event_sequence := s\<rparr>"
    and d: "dispatch_command X fresh a e now proofs = Ok (q, r, ev)" and t: "tn_projection t = store_record r q"
    and kinds: "found_proof_kinds proofs = command_required_proof_kinds (ce_command e)"
  from d assms(2) have "handle_record_human_model_promotion X fresh a e now proofs c src = Ok (q, r, ev)"
    by (simp add: dispatch_command_def)
  from record_promotion_effect [OF this] obtain rec :: AuthoritativeRecordV1 and hc :: HumanModelCandidateProjectionV1 and out where
    h: "require_exact_current_record_at a src now = Ok ()" "rr_candidate_kind src = CK_HumanModelCandidate"
      "pj_human_model_candidate a = Some hc" "hc_candidate_ref hc = src"
    and v: "validate_human_model_promotion (cs_payload c) (rr_record_digest src) (hc_materialized_payload hc) = Ok out"
    and q: "q = a\<lparr>pj_human_model_promotion := Some \<lparr>hp_decision_ref = ar_record_ref rec,
            hp_source_candidate_ref = src, hp_outcome_ref = hc_outcome_ref hc, hp_outcome = out\<rparr>\<rparr>" by blast
  from v obtain refs evidence where refs: "payload_array (hc_materialized_payload hc) ''evidence_refs'' = Some refs"
    "collect_results evidence_reference refs = Ok evidence"
    and str: "required_payload_string (cs_payload c) ''candidate_digest'' = Ok (rr_record_digest src)"
      "required_payload_string (cs_payload c) ''outcome'' = Ok out"
    and valid: "if out = ''promote_provisional'' then 2 \<le> length (btree_set evidence)
      else out \<in> {''keep_session'', ''store_candidate'', ''reject'', ''promote_user_confirmed'', ''promote_outcome_supported''}"
    by (auto simp: validate_human_model_promotion_def handler_simps split: if_splits)
  have "set evidence = {s. JStr s \<in> set refs}"
    using refs(2)
  proof (induction refs arbitrary: evidence)
    case (Cons y ys)
    then obtain z zs where z: "evidence_reference y = Ok z" "collect_results evidence_reference ys = Ok zs" "evidence = z # zs"
      by (auto simp: and_then_eq_Ok)
    from z(1) have "y = JStr z" by (cases y) (auto simp: evidence_reference_def split: if_splits)
    with Cons.IH [OF z(2)] z(3) show ?case by auto
  qed simp
  then have "length (btree_set evidence) = card {s. JStr s \<in> set refs}" by (simp add: length_btree_set)
  moreover have "found_proof_kinds proofs = {PK_HumanModelPromotion} \<union>
     (if out = ''promote_user_confirmed'' then {PK_HumanModelUserConfirmation} else {}) \<union>
     (if out = ''promote_outcome_supported'' then {PK_OutcomeObservation} else {})"
    using kinds assms(2) str(2) [THEN required_payload_string_Ok] by simp
  moreover have "pj_human_model_promotion (tn_projection t) = Some \<lparr>hp_decision_ref = ar_record_ref rec,
            hp_source_candidate_ref = src, hp_outcome_ref = hc_outcome_ref hc, hp_outcome = out\<rparr>"
    by (simp add: t q store_record_def split: option.splits)
  ultimately show ?thesis
    using h refs(1) valid str [THEN required_payload_string_Ok] by (auto simp: a split: if_splits)
qed

definition sample_decision :: CandidateSubmissionV1 where
  "sample_decision = sample_candidate CK_HumanModelPromotionDecision (JObj [
     (''candidate_digest'', JStr sample_digest), (''independent_evidence_count'', jint 2),
     (''outcome'', JStr ''promote_provisional''), (''outcome_record_digest'', JStr sample_digest),
     (''outcome_record_id'', JStr ''31''), (''outcome_revision'', jint 1)])"

definition sample_promotion :: IdrCommandV1 where
  "sample_promotion = RecordHumanModelPromotion sample_decision (sample_ref CK_HumanModelCandidate)"

lemma sample_promotion_validates:
  "IdrCommandEnvelopeV1_validate sample_crates (sample_command 3 ''caller:c'' sample_promotion) = Ok ()"
  by code_simp

lemma sample_decision_validates:
  "CandidateSubmissionV1_validate sample_crates sample_decision = Ok ()"
  "validate_human_model_promotion (cs_payload sample_decision) sample_digest
     (JObj [(''evidence_refs'', JArr [JStr ''evidence:a'', JStr ''evidence:b''])]) = Ok ''promote_provisional''"
  "require_exact_record_payload sample_crates (cs_payload sample_decision) ''outcome'' (sample_ref CK_Outcome) = Ok ()"
  by code_simp+

lemma sample_promotion_transition:
  "\<exists>t. evaluate_authoritative_transition_v1 sample_crates sample_fresh (sample_projection None)
       (sample_command 3 ''caller:c'' sample_promotion) 200 [sample_proof PK_HumanModelPromotion] = Ok t"
proof -
  let ?p = "(sample_projection None)\<lparr>pj_aggregate_version := 4, pj_last_event_sequence := 4\<rparr>"
  have "\<exists>rec. issue_record sample_crates sample_decision (sample_command 3 ''caller:c'' sample_promotion) 200
      [sample_proof PK_HumanModelPromotion] TD_Shadow 31 2 = Ok rec"
    using sample_decision_validates(1) unfolding sample_decision_def
    by (rule sample_issue) (simp_all add: IDR_MAX_SAFE_WIRE_INTEGER_V1_def)
  then obtain rec where rec: "issue_record sample_crates sample_decision (sample_command 3 ''caller:c'' sample_promotion) 200
      [sample_proof PK_HumanModelPromotion] TD_Shadow 31 2 = Ok rec" by blast
  have p: "pj_trust_domain ?p = TD_Shadow" "pj_human_model_candidate ?p = Some \<lparr>hc_candidate_ref = sample_ref CK_HumanModelCandidate,
       hc_outcome_ref = sample_ref CK_Outcome, hc_materialized_payload = JObj [
         (''evidence_refs'', JArr [JStr ''evidence:a'', JStr ''evidence:b''])]\<rparr>"
    "next_revision ?p CK_HumanModelPromotionDecision = Ok 2"
    "record_id_for sample_fresh ?p CK_HumanModelPromotionDecision = 31"
    "require_exact_current_record_at ?p (sample_ref CK_HumanModelCandidate) 200 = Ok ()"
    by (simp_all add: next_revision_def record_id_for_def sample_projection_def checked_add_def)
  have "\<exists>q. handle_record_human_model_promotion sample_crates sample_fresh ?p (sample_command 3 ''caller:c'' sample_promotion)
      200 [sample_proof PK_HumanModelPromotion] sample_decision (sample_ref CK_HumanModelCandidate) =
      Ok (q, Some rec, ''human_model_promotion_decided'')"
    unfolding handle_record_human_model_promotion_def issue_for_def p
    by (simp add: sample_decision_validates rec)
  then obtain q where d: "dispatch_command sample_crates sample_fresh ?p (sample_command 3 ''caller:c'' sample_promotion)
      200 [sample_proof PK_HumanModelPromotion] = Ok (q, Some rec, ''human_model_promotion_decided'')"
    by (auto simp: dispatch_command_def sample_command_def sample_promotion_def)
  have "payload_str (cs_payload sample_decision) ''outcome'' = Some ''promote_provisional''" by code_simp
  then have "require_command_state RS_Running sample_promotion = Ok ()"
    "check_lineage (sample_projection None) sample_promotion 200 = Ok ()"
    "found_proof_kinds [sample_proof PK_HumanModelPromotion] = command_required_proof_kinds sample_promotion"
    by (simp_all add: require_command_state.simps check_lineage_def found_proof_kinds_def sample_proof_def
        sample_promotion_def) (simp add: sample_decision_def sample_candidate_def sample_projection_def)
  from sample_transition [OF sample_promotion_validates this d] show ?thesis by blast
qed

theorem promotion_rests_on_evidence_witness:
  "\<exists>t. evaluate_authoritative_transition_v1 sample_crates sample_fresh (sample_projection None)
       (sample_command 3 ''caller:c'' sample_promotion) 200 [sample_proof PK_HumanModelPromotion] = Ok t \<and>
     (\<exists>pr. pj_human_model_promotion (tn_projection t) = Some pr \<and> hp_outcome_ref pr = sample_ref CK_Outcome)"
proof -
  from sample_promotion_transition obtain t where t: "evaluate_authoritative_transition_v1 sample_crates sample_fresh
      (sample_projection None) (sample_command 3 ''caller:c'' sample_promotion) 200 [sample_proof PK_HumanModelPromotion] = Ok t" by blast
  have "ce_command (sample_command 3 ''caller:c'' sample_promotion) =
      RecordHumanModelPromotion sample_decision (sample_ref CK_HumanModelCandidate)"
    by (simp add: sample_command_def sample_promotion_def)
  from promotion_rests_on_evidence [OF t this] obtain hc pr where
    "pj_human_model_candidate (sample_projection None) = Some hc" "pj_human_model_promotion (tn_projection t) = Some pr"
    "hp_outcome_ref pr = hc_outcome_ref hc" by blast
  with t show ?thesis by (auto simp: sample_projection_def)
qed

section \<open>An attempt of unknown effect declared cancelled\<close>

text \<open>
  after its lease ran out past the dispatch boundary an attempt has an unknown effect and needs
  reconciliation, while its run goes on. Invalidating its action then declares the attempt cancelled,
  although the repository's invalidation closure would have kept it for reconciliation, and the
  provider's receipt is rejected from then on.
\<close>

theorem unknown_effect_declared_cancelled:
  assumes "evaluate_authoritative_transition_v1 X fresh p e now proofs = Ok t"
    and "ce_command e = InvalidateRecord ref reason" and "pj_execution p = Some x"
    and "ex_action_ref x = ref" and "ex_state x = ES_ReconciliationRequired"
  shows "pj_execution (tn_projection t) = Some (x\<lparr>ex_state := ES_Cancelled\<rparr>) \<and>
     closure_withdraw_execution ref x = x \<and>
     (\<forall>i c rid pid prov nonce att. ce_command (in_command i) = CommitExecutionReceipt c rid pid prov nonce att \<longrightarrow>
        engine_step X (tn_projection t) i = None)"
proof -
  have x: "pj_execution (tn_projection t) = Some (x\<lparr>ex_state := ES_Cancelled\<rparr>)"
    using assms(1)
  proof (rule transition_dispatch)
    fix a q r ev v s
    assume a: "a = p\<lparr>pj_aggregate_version := v, pj_last_event_sequence := s\<rparr>"
      and d: "dispatch_command X fresh a e now proofs = Ok (q, r, ev)" and t: "tn_projection t = store_record r q"
    from d assms(2) have "handle_invalidate_record a ref = Ok (q, r, ev)" by (simp add: dispatch_command_def)
    from invalidate_effect [OF this] show ?thesis
      using assms(3-5) by (simp add: a t withdrawn_state_def execution_is_terminal_def)
  qed
  have "engine_step X (tn_projection t) i = None"
    if c: "ce_command (in_command i) = CommitExecutionReceipt c rid pid prov nonce att" for i c rid pid prov nonce att
  proof (cases "engine_step X (tn_projection t) i")
    case (Some q)
    then obtain u where "evaluate_authoritative_transition_v1 X (in_fresh i) (tn_projection t) (in_command i) (in_now i) (in_proofs i) = Ok u"
      by (auto simp: engine_step_Some)
    then show ?thesis
    proof (rule transition_dispatch)
      fix a q r ev v s
      assume a: "a = (tn_projection t)\<lparr>pj_aggregate_version := v, pj_last_event_sequence := s\<rparr>"
        and d: "dispatch_command X (in_fresh i) a (in_command i) (in_now i) (in_proofs i) = Ok (q, r, ev)"
      from d c have "handle_commit_execution_receipt X (in_fresh i) a (in_command i) (in_now i) (in_proofs i) c rid pid prov nonce att = Ok (q, r, ev)"
        by (simp add: dispatch_command_def)
      from commit_receipt_effect [OF this] x show ?thesis
        by (auto simp: a current_execution_Ok)
    qed
  qed simp
  with x assms(4,5) show ?thesis by (simp add: closure_withdraw_execution_def)
qed

theorem unknown_effect_declared_cancelled_witness:
  "\<exists>t. evaluate_authoritative_transition_v1 sample_crates sample_fresh
       (sample_projection (Some (sample_execution ES_ReconciliationRequired)))
       (sample_command 3 ''caller:c'' sample_invalidate) 200 [sample_proof PK_Policy] = Ok t \<and>
     pj_execution (tn_projection t) = Some (sample_execution ES_Cancelled)"
proof -
  from sample_invalidation obtain t where t: "evaluate_authoritative_transition_v1 sample_crates sample_fresh
       (sample_projection (Some (sample_execution ES_ReconciliationRequired)))
       (sample_command 3 ''caller:c'' sample_invalidate) 200 [sample_proof PK_Policy] = Ok t" by blast
  have "ce_command (sample_command 3 ''caller:c'' sample_invalidate) = InvalidateRecord (sample_ref CK_Action) ''reason:r''"
    "pj_execution (sample_projection (Some (sample_execution ES_ReconciliationRequired))) = Some (sample_execution ES_ReconciliationRequired)"
    "ex_action_ref (sample_execution ES_ReconciliationRequired) = sample_ref CK_Action"
    "ex_state (sample_execution ES_ReconciliationRequired) = ES_ReconciliationRequired"
    by (simp_all add: sample_command_def sample_invalidate_def sample_projection_def sample_execution_def)
  from unknown_effect_declared_cancelled [OF t this] t show ?thesis
    by (simp add: sample_execution_def)
qed

end
