(* ===== verification/IDR_Contract.thy ===== *)
theory IDR_Contract
  imports IDR_Json IDR_Reference
begin

text \<open>
  What the human-centered contracts share (\<open>idr-protocol/src/human_centered/common.rs\<close>): identifiers,
  impact levels, contract references and metadata with their revision lineage, text and payload limits,
  canonical collections and the contract digest. The digest hashes what \<open>serde_json::to_vec\<close> writes:
  structs in declaration order, not the canonical encoding of \<open>IDR_Json\<close>.
\<close>

section \<open>Errors, identifiers and levels\<close>

datatype HumanCenteredProtocolError =
    HE_EmptyIdentifier
  | HE_InvalidBasisPoints u16
  | HE_InvalidText
  | HE_InvalidReference
  | HE_InvalidContractReference
  | HE_InvalidMetadata
  | HE_ContractKindMismatch
  | HE_InvalidRevisionLineage
  | HE_InvalidDependency
  | HE_CollectionLimitExceeded
  | HE_PayloadLimitExceeded
  | HE_InvalidContract
  | HE_InvalidTransition
  | HE_DigestMismatch
  | HE_ProofVerificationFailed
  | HE_RevisionOverflow
  | HE_Serialization

definition HUMAN_CENTERED_SCHEMA_VERSION :: u16 where
  "HUMAN_CENTERED_SCHEMA_VERSION = 1"

definition HUMAN_CENTERED_RULE_VERSION :: u64 where
  "HUMAN_CENTERED_RULE_VERSION = 1"

definition HUMAN_CENTERED_MAX_SAFE_WIRE_INTEGER :: u64 where
  "HUMAN_CENTERED_MAX_SAFE_WIRE_INTEGER = 9007199254740991"

text \<open>The identifier types of the macro \<open>uuid_id!\<close>; \<open>is_empty\<close> is the nil check.\<close>

definition human_id_from_uuid :: "crates \<Rightarrow> uuid \<Rightarrow> (HumanCenteredProtocolError, uuid) result" where
  "human_id_from_uuid X value =
     (let version = x_uuid_version_num X value in
      if value = 0 \<or> \<not> x_uuid_is_rfc4122 X value \<or> \<not> (1 \<le> version \<and> version \<le> 8)
      then Err HE_EmptyIdentifier else Ok value)"

definition human_id_is_empty :: "uuid \<Rightarrow> bool" where
  "human_id_is_empty value \<longleftrightarrow> value = 0"

datatype HumanCenteredContractKindV1 =
    HK_Intent
  | HK_Decision
  | HK_TurnCoordination
  | HK_Response
  | HK_Action
  | HK_ExecutionReceipt
  | HK_Outcome
  | HK_HumanModelAssertion
  | HK_HumanModelUpdateCandidate

fun contract_kind_index :: "HumanCenteredContractKindV1 \<Rightarrow> nat" where
  "contract_kind_index HK_Intent = 0"
| "contract_kind_index HK_Decision = 1"
| "contract_kind_index HK_TurnCoordination = 2"
| "contract_kind_index HK_Response = 3"
| "contract_kind_index HK_Action = 4"
| "contract_kind_index HK_ExecutionReceipt = 5"
| "contract_kind_index HK_Outcome = 6"
| "contract_kind_index HK_HumanModelAssertion = 7"
| "contract_kind_index HK_HumanModelUpdateCandidate = 8"

fun contract_kind_name :: "HumanCenteredContractKindV1 \<Rightarrow> string" where
  "contract_kind_name HK_Intent = ''intent''"
| "contract_kind_name HK_Decision = ''decision''"
| "contract_kind_name HK_TurnCoordination = ''turn_coordination''"
| "contract_kind_name HK_Response = ''response''"
| "contract_kind_name HK_Action = ''action''"
| "contract_kind_name HK_ExecutionReceipt = ''execution_receipt''"
| "contract_kind_name HK_Outcome = ''outcome''"
| "contract_kind_name HK_HumanModelAssertion = ''human_model_assertion''"
| "contract_kind_name HK_HumanModelUpdateCandidate = ''human_model_update_candidate''"

definition UnitIntervalBasisPointsV1_new :: "u16 \<Rightarrow> (HumanCenteredProtocolError, u16) result" where
  "UnitIntervalBasisPointsV1_new value =
     (if value > 10000 then Err (HE_InvalidBasisPoints value) else Ok value)"

datatype ImpactLevelV1 = IL_Low | IL_Medium | IL_High | IL_Critical

fun ImpactLevelV1_rank :: "ImpactLevelV1 \<Rightarrow> nat" where
  "ImpactLevelV1_rank IL_Low = 0"
| "ImpactLevelV1_rank IL_Medium = 1"
| "ImpactLevelV1_rank IL_High = 2"
| "ImpactLevelV1_rank IL_Critical = 3"

section \<open>Digests\<close>

text \<open>
  \<open>serde_json::to_vec\<close>: members in the order they are given, a float by the crate's own rendering of its
  bits. \<open>None\<close> is a serialization error.
\<close>

fun number_to_vec :: "crates \<Rightarrow> jnum \<Rightarrow> bytes" where
  "number_to_vec X (IntNum i) = show_int i"
| "number_to_vec X (FloatNum w) = x_f64_to_string X w"

fun json_to_vec :: "crates \<Rightarrow> json \<Rightarrow> bytes option" where
  "json_to_vec X JNull = Some ''null''"
| "json_to_vec X (JBool b) = Some (if b then ''true'' else ''false'')"
| "json_to_vec X (JNum n) = Some (number_to_vec X n)"
| "json_to_vec X (JStr s) = x_json_to_string X s"
| "json_to_vec X (JArr vs) =
     (let os = map (json_to_vec X) vs in
      if None \<in> set os then None else Some (CHR ''['' # join_comma (map the os) @ '']''))"
| "json_to_vec X (JObj kvs) =
     (let os = map (\<lambda>kv. (x_json_to_string X (fst kv), json_to_vec X (snd kv))) kvs in
      if \<exists>p \<in> set os. fst p = None \<or> snd p = None then None
      else Some (CHR ''{'' # join_comma (map (\<lambda>p. the (fst p) @ CHR '':'' # the (snd p)) os) @ ''}''))"

definition contract_digest :: "crates \<Rightarrow> string \<Rightarrow> json \<Rightarrow> (HumanCenteredProtocolError, string) result" where
  "contract_digest X domain value =
     (case json_to_vec X (JArr [JStr domain, value]) of
        None \<Rightarrow> Err HE_Serialization
      | Some bytes \<Rightarrow> Ok (x_sha256_hex X bytes))"

section \<open>Texts, payloads and collections\<close>

text \<open>The blank check \<open>value.trim().is_empty()\<close>.\<close>

definition blank :: "string \<Rightarrow> bool" where
  "blank s \<longleftrightarrow> str_trim s = []"

definition validate_required_text :: "string \<Rightarrow> (HumanCenteredProtocolError, unit) result" where
  "validate_required_text value =
     (if blank value \<or> length value > 4096 \<or> has_control value then Err HE_InvalidText else Ok ())"

definition validate_text_collection :: "string list \<Rightarrow> (HumanCenteredProtocolError, unit) result" where
  "validate_text_collection values =
     (if length values > 256 then Err HE_CollectionLimitExceeded
      else for_each validate_required_text values)"

text \<open>The work stack of \<open>validate_json_payload\<close>, its top at the head of the list.\<close>

function json_payload_loop ::
  "nat \<Rightarrow> (json \<times> nat) list \<Rightarrow> (HumanCenteredProtocolError, unit) result" where
  "json_payload_loop nodes [] = Ok ()"
| "json_payload_loop nodes ((node, depth) # stack) =
     (if depth > 32 \<or> Suc nodes > 10000 then Err HE_PayloadLimitExceeded
      else case node of
        JArr values \<Rightarrow> json_payload_loop (Suc nodes) (push_children depth values stack)
      | JObj kvs \<Rightarrow> json_payload_loop (Suc nodes) (push_children depth (map snd kvs) stack)
      | _ \<Rightarrow> json_payload_loop (Suc nodes) stack)"
  by pat_completeness auto

termination
  by (relation "measure (\<lambda>(nodes, stack). 10001 - nodes)") auto

definition validate_json_payload :: "crates \<Rightarrow> json \<Rightarrow> (HumanCenteredProtocolError, unit) result" where
  "validate_json_payload X value =
     (case json_to_vec X value of
        None \<Rightarrow> Err HE_Serialization
      | Some bytes \<Rightarrow>
          if length bytes > 1048576 then Err HE_PayloadLimitExceeded
          else json_payload_loop 0 [(value, 1)])"

text \<open>\<open>Vec::dedup\<close> after a sort.\<close>

definition sort_dedup :: "'a::linorder list \<Rightarrow> 'a list" where
  "sort_dedup xs = remdups_adj (sort xs)"

definition canonical_references :: "string list \<Rightarrow> (HumanCenteredProtocolError, string list) result" where
  "canonical_references values =
     (if length values > 256 then Err HE_CollectionLimitExceeded
      else if list_ex blank (sort_dedup values) then Err HE_InvalidReference
      else Ok (sort_dedup values))"

definition unique_strings :: "string list \<Rightarrow> bool" where
  "unique_strings values \<longleftrightarrow> card (set values) = length values"

section \<open>Contract references\<close>

datatype HumanCenteredContractRefV1 = ContractRef
  (cr_kind: HumanCenteredContractKindV1) (cr_contract_id: uuid) (cr_revision: u64) (cr_record_digest: string)

text \<open>The derived order compares the fields in declaration order.\<close>

definition contract_ref_key :: "HumanCenteredContractRefV1 \<Rightarrow> nat list" where
  "contract_ref_key r = contract_kind_index (cr_kind r) # unat (cr_contract_id r) # unat (cr_revision r) #
     map of_char (cr_record_digest r)"

lemma contract_kind_index_inj: "contract_kind_index a = contract_kind_index b \<Longrightarrow> a = b"
  by (cases a; cases b) simp_all

lemma contract_ref_key_inj: "contract_ref_key a = contract_ref_key b \<Longrightarrow> a = b"
  using injD [OF inj_mapI [OF inj_of_char [where ?'a = nat]]]
  by (cases a; cases b) (auto simp: contract_ref_key_def word_unat_eq_iff dest: contract_kind_index_inj)

instantiation HumanCenteredContractRefV1 :: linorder
begin

definition less_eq_HumanCenteredContractRefV1 ::
  "HumanCenteredContractRefV1 \<Rightarrow> HumanCenteredContractRefV1 \<Rightarrow> bool" where
  "less_eq_HumanCenteredContractRefV1 a b \<longleftrightarrow> contract_ref_key a \<le> contract_ref_key b"

definition less_HumanCenteredContractRefV1 ::
  "HumanCenteredContractRefV1 \<Rightarrow> HumanCenteredContractRefV1 \<Rightarrow> bool" where
  "less_HumanCenteredContractRefV1 a b \<longleftrightarrow> contract_ref_key a < contract_ref_key b"

instance
  by standard
    (auto simp: less_eq_HumanCenteredContractRefV1_def less_HumanCenteredContractRefV1_def
      dest: contract_ref_key_inj)

end

definition HumanCenteredContractRefV1_validate ::
  "HumanCenteredContractRefV1 \<Rightarrow> (HumanCenteredProtocolError, unit) result" where
  "HumanCenteredContractRefV1_validate r =
     (if human_id_is_empty (cr_contract_id r) \<or> cr_revision r = 0 \<or>
         cr_revision r > HUMAN_CENTERED_MAX_SAFE_WIRE_INTEGER \<or> \<not> valid_digest (cr_record_digest r)
      then Err HE_InvalidContractReference else Ok ())"

definition HumanCenteredContractRefV1_new ::
  "HumanCenteredContractKindV1 \<Rightarrow> uuid \<Rightarrow> u64 \<Rightarrow> string \<Rightarrow>
   (HumanCenteredProtocolError, HumanCenteredContractRefV1) result" where
  "HumanCenteredContractRefV1_new kind contract_id revision record_digest =
     (let value = ContractRef kind contract_id revision record_digest in
      and_then (HumanCenteredContractRefV1_validate value) (\<lambda>_. Ok value))"

definition hc_uuid_json :: "crates \<Rightarrow> uuid \<Rightarrow> json" where
  "hc_uuid_json X u = JStr (x_uuid_display X u)"

definition HumanCenteredContractRefV1_json :: "crates \<Rightarrow> HumanCenteredContractRefV1 \<Rightarrow> json" where
  "HumanCenteredContractRefV1_json X r = JObj [
     (''kind'', JStr (contract_kind_name (cr_kind r))),
     (''contract_id'', hc_uuid_json X (cr_contract_id r)),
     (''revision'', ju64 (cr_revision r)),
     (''record_digest'', JStr (cr_record_digest r))]"

definition canonical_contract_references ::
  "HumanCenteredContractRefV1 list \<Rightarrow> (HumanCenteredProtocolError, HumanCenteredContractRefV1 list) result" where
  "canonical_contract_references values =
     (if length values > 256 then Err HE_CollectionLimitExceeded
      else and_then (for_each HumanCenteredContractRefV1_validate values) (\<lambda>_. Ok (sort_dedup values)))"

section \<open>Contract metadata\<close>

record HumanCenteredContractMetadataV1 =
  cm_contract_kind :: HumanCenteredContractKindV1
  cm_contract_id :: uuid
  cm_run_id :: uuid
  cm_turn_id :: uuid
  cm_revision :: u64
  cm_predecessor_ref :: "HumanCenteredContractRefV1 option"
  cm_authority_context :: AuthorityContextV1
  cm_evidence_refs :: "ReferenceV1 list"
  cm_dependency_refs :: "HumanCenteredContractRefV1 list"
  cm_policy_revision_ref :: ReferenceV1
  cm_valid_until :: u64
  cm_schema_version :: u16

definition validate_lineage ::
  "HumanCenteredContractMetadataV1 \<Rightarrow> (HumanCenteredProtocolError, unit) result" where
  "validate_lineage m =
     (case cm_predecessor_ref m of
        None \<Rightarrow> if cm_revision m = 1 then Ok () else Err HE_InvalidRevisionLineage
      | Some previous \<Rightarrow>
          if cr_kind previous = cm_contract_kind m \<and> cr_contract_id previous = cm_contract_id m \<and>
             checked_add (cr_revision previous) 1 = Some (cm_revision m)
          then HumanCenteredContractRefV1_validate previous
          else Err HE_InvalidRevisionLineage)"

definition HumanCenteredContractMetadataV1_validate ::
  "HumanCenteredContractMetadataV1 \<Rightarrow> (HumanCenteredProtocolError, unit) result" where
  "HumanCenteredContractMetadataV1_validate m =
     (if human_id_is_empty (cm_contract_id m) \<or> human_id_is_empty (cm_run_id m) \<or>
         human_id_is_empty (cm_turn_id m) \<or> cm_revision m = 0 \<or>
         cm_revision m > HUMAN_CENTERED_MAX_SAFE_WIRE_INTEGER \<or> cm_valid_until m = 0 \<or>
         cm_valid_until m > HUMAN_CENTERED_MAX_SAFE_WIRE_INTEGER \<or> blank (cm_policy_revision_ref m) \<or>
         cm_schema_version m \<noteq> HUMAN_CENTERED_SCHEMA_VERSION
      then Err HE_InvalidMetadata
      else
        and_then (map_err (\<lambda>_. HE_InvalidReference) (AuthorityContextV1_validate (cm_authority_context m))) (\<lambda>_.
        and_then (validate_lineage m) (\<lambda>_.
        for_each (\<lambda>reference.
          and_then (HumanCenteredContractRefV1_validate reference) (\<lambda>_.
          if cr_contract_id reference = cm_contract_id m \<and> cr_revision reference \<ge> cm_revision m
          then Err HE_InvalidDependency else Ok ())) (cm_dependency_refs m))))"

definition HumanCenteredContractMetadataV1_build ::
  "HumanCenteredContractKindV1 \<Rightarrow> uuid \<Rightarrow> uuid \<Rightarrow> uuid \<Rightarrow> u64 \<Rightarrow> HumanCenteredContractRefV1 option \<Rightarrow>
   AuthorityContextV1 \<Rightarrow> ReferenceV1 list \<Rightarrow> HumanCenteredContractRefV1 list \<Rightarrow> ReferenceV1 \<Rightarrow> u64 \<Rightarrow>
   (HumanCenteredProtocolError, HumanCenteredContractMetadataV1) result" where
  "HumanCenteredContractMetadataV1_build contract_kind contract_id run_id turn_id revision predecessor_ref
       authority_context evidence_refs dependency_refs policy_revision_ref valid_until =
     and_then (canonical_references evidence_refs) (\<lambda>evidence_refs.
     and_then (canonical_contract_references dependency_refs) (\<lambda>dependency_refs.
     let value = \<lparr>
       cm_contract_kind = contract_kind,
       cm_contract_id = contract_id,
       cm_run_id = run_id,
       cm_turn_id = turn_id,
       cm_revision = revision,
       cm_predecessor_ref = predecessor_ref,
       cm_authority_context = authority_context,
       cm_evidence_refs = evidence_refs,
       cm_dependency_refs = dependency_refs,
       cm_policy_revision_ref = policy_revision_ref,
       cm_valid_until = valid_until,
       cm_schema_version = HUMAN_CENTERED_SCHEMA_VERSION\<rparr> in
     and_then (HumanCenteredContractMetadataV1_validate value) (\<lambda>_. Ok value)))"

text \<open>\<open>initial\<close> mints the identifier (\<open>minted_id\<close>); \<open>successor\<close> continues a revision lineage.\<close>

definition HumanCenteredContractMetadataV1_initial ::
  "uuid \<Rightarrow> HumanCenteredContractKindV1 \<Rightarrow> uuid \<Rightarrow> uuid \<Rightarrow> AuthorityContextV1 \<Rightarrow> ReferenceV1 list \<Rightarrow>
   HumanCenteredContractRefV1 list \<Rightarrow> ReferenceV1 \<Rightarrow> u64 \<Rightarrow>
   (HumanCenteredProtocolError, HumanCenteredContractMetadataV1) result" where
  "HumanCenteredContractMetadataV1_initial minted_id contract_kind run_id turn_id authority_context
       evidence_refs dependency_refs policy_revision_ref valid_until =
     HumanCenteredContractMetadataV1_build contract_kind minted_id run_id turn_id 1 None
       authority_context evidence_refs dependency_refs policy_revision_ref valid_until"

definition HumanCenteredContractMetadataV1_successor ::
  "HumanCenteredContractKindV1 \<Rightarrow> HumanCenteredContractRefV1 \<Rightarrow> uuid \<Rightarrow> uuid \<Rightarrow> AuthorityContextV1 \<Rightarrow>
   ReferenceV1 list \<Rightarrow> HumanCenteredContractRefV1 list \<Rightarrow> ReferenceV1 \<Rightarrow> u64 \<Rightarrow>
   (HumanCenteredProtocolError, HumanCenteredContractMetadataV1) result" where
  "HumanCenteredContractMetadataV1_successor contract_kind previous_ref run_id turn_id authority_context
       evidence_refs dependency_refs policy_revision_ref valid_until =
     and_then (HumanCenteredContractRefV1_validate previous_ref) (\<lambda>_.
     if cr_kind previous_ref \<noteq> contract_kind then Err HE_ContractKindMismatch
     else
       and_then (ok_or (checked_add (cr_revision previous_ref) 1) HE_RevisionOverflow) (\<lambda>revision.
       HumanCenteredContractMetadataV1_build contract_kind (cr_contract_id previous_ref) run_id turn_id
         revision (Some previous_ref) authority_context evidence_refs dependency_refs
         policy_revision_ref valid_until))"

definition AuthorityContextV1_json :: "AuthorityContextV1 \<Rightarrow> json" where
  "AuthorityContextV1_json c = JObj [
     (''subject_ref'', JStr (ac_subject_ref c)), (''actor_ref'', JStr (ac_actor_ref c)),
     (''caller_ref'', JStr (ac_caller_ref c)), (''tenant_ref'', JStr (ac_tenant_ref c)),
     (''scope_ref'', JStr (ac_scope_ref c)), (''purpose_ref'', JStr (ac_purpose_ref c)),
     (''operation_ref'', JStr (ac_operation_ref c))]"

definition HumanCenteredContractMetadataV1_json :: "crates \<Rightarrow> HumanCenteredContractMetadataV1 \<Rightarrow> json" where
  "HumanCenteredContractMetadataV1_json X m = JObj [
     (''contract_kind'', JStr (contract_kind_name (cm_contract_kind m))),
     (''contract_id'', hc_uuid_json X (cm_contract_id m)),
     (''run_id'', hc_uuid_json X (cm_run_id m)),
     (''turn_id'', hc_uuid_json X (cm_turn_id m)),
     (''revision'', ju64 (cm_revision m)),
     (''predecessor_ref'', jopt (HumanCenteredContractRefV1_json X) (cm_predecessor_ref m)),
     (''authority_context'', AuthorityContextV1_json (cm_authority_context m)),
     (''evidence_refs'', JArr (map JStr (cm_evidence_refs m))),
     (''dependency_refs'', JArr (map (HumanCenteredContractRefV1_json X) (cm_dependency_refs m))),
     (''policy_revision_ref'', JStr (cm_policy_revision_ref m)),
     (''valid_until'', ju64 (cm_valid_until m)),
     (''schema_version'', jint (uint (cm_schema_version m)))]"

section \<open>Lemmas\<close>

lemma set_sort_dedup [simp]: "set (sort_dedup xs) = set xs"
  by (simp add: sort_dedup_def)

lemma sorted_sort_dedup: "sorted (sort_dedup xs)"
  by (simp add: sort_dedup_def)

lemma distinct_sort_dedup: "distinct (sort_dedup (xs :: 'a::linorder list))"
proof -
  have "sorted ys \<Longrightarrow> distinct (remdups_adj ys)" for ys :: "'a list"
    by (induction ys rule: remdups_adj.induct) (auto simp: less_le)
  then show ?thesis by (simp add: sort_dedup_def)
qed

lemma sort_dedup_cong: "set xs = set ys \<Longrightarrow> sort_dedup xs = sort_dedup ys"
  by (metis distinct_sort_dedup set_sort_dedup sorted_distinct_set_unique sorted_sort_dedup)

lemma contract_ref_validate_Ok:
  "HumanCenteredContractRefV1_validate r = Ok () \<longleftrightarrow>
     cr_contract_id r \<noteq> 0 \<and> cr_revision r \<noteq> 0 \<and>
     cr_revision r \<le> HUMAN_CENTERED_MAX_SAFE_WIRE_INTEGER \<and> valid_digest (cr_record_digest r)"
  by (auto simp: HumanCenteredContractRefV1_validate_def human_id_is_empty_def)

end
