(* ===== verification/IDR_Turn_Plan.thy ===== *)
theory IDR_Turn_Plan
  imports IDR_Contract
begin

text \<open>
  Turn coordination plans (\<open>human_centered/turn.rs\<close>): the plan with its digest and validation, the
  topological check by repeated removal of nodes without predecessors, and the breadth-first path
  search. Both graph algorithms terminate; the first decides acyclicity and never underflows its
  counters, the second decides reachability.
\<close>

section \<open>The plan\<close>

datatype TurnCoordinationModeV1 =
    TM_RespondOnly
  | TM_ActThenRespond
  | TM_RespondThenAct
  | TM_RespondThenConfirmThenAct
  | TM_Parallel
  | TM_AcknowledgeThenRun
  | TM_StreamProgressThenFinal

datatype TurnGateKindV1 =
    TG_UserAuthorization | TG_UserInput | TG_PolicyApproval | TG_HumanApprover | TG_Dependency

record TurnDependencyEdgeV1 =
  te_before :: HumanCenteredContractRefV1
  te_after :: HumanCenteredContractRefV1

record TurnGateV1 =
  tg_gate_kind :: TurnGateKindV1
  tg_required_before :: HumanCenteredContractRefV1
  tg_policy_ref :: "ReferenceV1 option"

datatype TurnFailurePolicyV1 = TF_ReportOnly | TF_ReportAndOfferRecovery | TF_CompensateThenReport | TF_Escalate

datatype TurnProgressPolicyV1 = TP_Silent | TP_AcknowledgeOnly | TP_StreamStatus

record TurnCoordinationPlanV1 =
  tp_metadata :: HumanCenteredContractMetadataV1
  tp_mode :: TurnCoordinationModeV1
  tp_response_refs :: "HumanCenteredContractRefV1 list"
  tp_action_refs :: "HumanCenteredContractRefV1 list"
  tp_dependencies :: "TurnDependencyEdgeV1 list"
  tp_gates :: "TurnGateV1 list"
  tp_failure_policy :: TurnFailurePolicyV1
  tp_progress_policy :: TurnProgressPolicyV1
  tp_rationale :: string
  tp_record_digest :: string

fun turn_mode_name :: "TurnCoordinationModeV1 \<Rightarrow> string" where
  "turn_mode_name TM_RespondOnly = ''respond_only''"
| "turn_mode_name TM_ActThenRespond = ''act_then_respond''"
| "turn_mode_name TM_RespondThenAct = ''respond_then_act''"
| "turn_mode_name TM_RespondThenConfirmThenAct = ''respond_then_confirm_then_act''"
| "turn_mode_name TM_Parallel = ''parallel''"
| "turn_mode_name TM_AcknowledgeThenRun = ''acknowledge_then_run''"
| "turn_mode_name TM_StreamProgressThenFinal = ''stream_progress_then_final''"

fun turn_gate_name :: "TurnGateKindV1 \<Rightarrow> string" where
  "turn_gate_name TG_UserAuthorization = ''user_authorization''"
| "turn_gate_name TG_UserInput = ''user_input''"
| "turn_gate_name TG_PolicyApproval = ''policy_approval''"
| "turn_gate_name TG_HumanApprover = ''human_approver''"
| "turn_gate_name TG_Dependency = ''dependency''"

fun turn_failure_name :: "TurnFailurePolicyV1 \<Rightarrow> string" where
  "turn_failure_name TF_ReportOnly = ''report_only''"
| "turn_failure_name TF_ReportAndOfferRecovery = ''report_and_offer_recovery''"
| "turn_failure_name TF_CompensateThenReport = ''compensate_then_report''"
| "turn_failure_name TF_Escalate = ''escalate''"

fun turn_progress_name :: "TurnProgressPolicyV1 \<Rightarrow> string" where
  "turn_progress_name TP_Silent = ''silent''"
| "turn_progress_name TP_AcknowledgeOnly = ''acknowledge_only''"
| "turn_progress_name TP_StreamStatus = ''stream_status''"

text \<open>The tuple whose digest identifies the plan.\<close>

definition turn_plan_digest_input :: "crates \<Rightarrow> TurnCoordinationPlanV1 \<Rightarrow> json" where
  "turn_plan_digest_input X p = JArr [
     HumanCenteredContractMetadataV1_json X (tp_metadata p),
     JStr (turn_mode_name (tp_mode p)),
     JArr (map (HumanCenteredContractRefV1_json X) (tp_response_refs p)),
     JArr (map (HumanCenteredContractRefV1_json X) (tp_action_refs p)),
     JArr (map (\<lambda>e. JObj [(''before'', HumanCenteredContractRefV1_json X (te_before e)),
       (''after'', HumanCenteredContractRefV1_json X (te_after e))]) (tp_dependencies p)),
     JArr (map (\<lambda>g. JObj [(''gate_kind'', JStr (turn_gate_name (tg_gate_kind g))),
       (''required_before'', HumanCenteredContractRefV1_json X (tg_required_before g)),
       (''policy_ref'', jopt JStr (tg_policy_ref g))]) (tp_gates p)),
     JStr (turn_failure_name (tp_failure_policy p)),
     JStr (turn_progress_name (tp_progress_policy p)),
     JStr (tp_rationale p)]"

section \<open>The topological check\<close>

text \<open>
  \<open>indegrees\<close> and \<open>adjacency\<close> are ordered maps, the values of the latter ordered sets (sorted lists
  without duplicates). An edge counts once however often it is listed.
\<close>

definition set_insert :: "'a::linorder \<Rightarrow> 'a list \<Rightarrow> 'a list" where
  "set_insert x xs = (if x \<in> set xs then xs else insort x xs)"

definition successors :: "('k::linorder \<times> 'k list) list \<Rightarrow> 'k \<Rightarrow> 'k list" where
  "successors adjacency node = (case bt_get adjacency node of None \<Rightarrow> [] | Some s \<Rightarrow> s)"

fun add_dependency ::
  "'k::linorder \<times> 'k \<Rightarrow> ('k \<times> nat) list \<times> ('k \<times> 'k list) list \<Rightarrow> ('k \<times> nat) list \<times> ('k \<times> 'k list) list" where
  "add_dependency (before, after) (indegrees, adjacency) =
     (let entry = successors adjacency before in
      if after \<in> set entry then (indegrees, bt_insert before entry adjacency)
      else (bt_insert after (Suc (case bt_get indegrees after of None \<Rightarrow> 0 | Some d \<Rightarrow> d)) indegrees,
            bt_insert before (set_insert after entry) adjacency))"

text \<open>
  The inner loop over the successors of a removed node. \<open>Some None\<close> is the early \<open>return false\<close> when a
  successor has no counter; \<open>None\<close> is the panic of an underflowing counter. \<open>bt_set\<close> is the assignment
  through \<open>get_mut\<close>.
\<close>

fun bt_set :: "'k \<Rightarrow> 'v \<Rightarrow> ('k \<times> 'v) list \<Rightarrow> ('k \<times> 'v) list" where
  "bt_set k v [] = []"
| "bt_set k v ((k', v') # m) = (if k = k' then (k, v) # m else (k', v') # bt_set k v m)"

fun relax ::
  "'k::linorder list \<Rightarrow> ('k \<times> nat) list \<Rightarrow> 'k list \<Rightarrow> (('k \<times> nat) list \<times> 'k list) option option" where
  "relax [] indegrees ready = Some (Some (indegrees, ready))"
| "relax (next # rest) indegrees ready =
     (case bt_get indegrees next of
        None \<Rightarrow> Some None
      | Some 0 \<Rightarrow> None
      | Some (Suc degree) \<Rightarrow>
          relax rest (bt_set next degree indegrees) (if degree = 0 then ready @ [next] else ready))"

definition degree_sum :: "('k \<times> nat) list \<Rightarrow> nat" where
  "degree_sum indegrees = sum_list (map snd indegrees)"

lemma degree_sum_set: "bt_get m k = Some (Suc d) \<Longrightarrow> degree_sum m = Suc (degree_sum (bt_set k d m))"
  by (induction k d m rule: bt_set.induct) (auto simp: degree_sum_def bt_get_def)

lemma relax_measure:
  "relax nexts ind ready = Some (Some (ind', ready')) \<Longrightarrow>
     degree_sum ind' + length ready' \<le> degree_sum ind + length ready"
proof (induction nexts ind ready rule: relax.induct)
  case (2 n rest ind ready)
  then obtain d where "bt_get ind n = Some (Suc d)"
    by (auto split: option.splits nat.splits)
  with 2 degree_sum_set [OF this] show ?case by (fastforce split: if_splits)
qed simp

function remove_ready ::
  "('k::linorder \<times> 'k list) list \<Rightarrow> ('k \<times> nat) list \<Rightarrow> 'k list \<Rightarrow> nat \<Rightarrow> nat option option" where
  "remove_ready adjacency indegrees [] visited = Some (Some visited)"
| "remove_ready adjacency indegrees (node # ready) visited =
     (case relax (successors adjacency node) indegrees ready of
        None \<Rightarrow> None
      | Some None \<Rightarrow> Some None
      | Some (Some (indegrees', ready')) \<Rightarrow> remove_ready adjacency indegrees' ready' (Suc visited))"
  by pat_completeness auto

termination
  by (relation "measure (\<lambda>(_, indegrees, ready, _). degree_sum indegrees + length ready)")
    (auto dest!: relax_measure simp: less_Suc_eq_le)

definition dependency_graph_is_acyclic ::
  "HumanCenteredContractRefV1 list \<Rightarrow> TurnDependencyEdgeV1 list \<Rightarrow> bool option" where
  "dependency_graph_is_acyclic nodes edges =
     (let zero = foldl (\<lambda>m node. bt_insert node 0 m) [] nodes;
          (indegrees, adjacency) = foldl (\<lambda>acc e. add_dependency (te_before e, te_after e) acc) (zero, []) edges;
          ready = map fst (filter (\<lambda>(node, degree). degree = 0) indegrees) in
      case remove_ready adjacency indegrees ready 0 of
        None \<Rightarrow> None
      | Some None \<Rightarrow> Some False
      | Some (Some visited) \<Rightarrow> Some (visited = length nodes))"

section \<open>The path search\<close>

function path_search ::
  "TurnDependencyEdgeV1 list \<Rightarrow> HumanCenteredContractRefV1 \<Rightarrow> HumanCenteredContractRefV1 list \<Rightarrow>
   HumanCenteredContractRefV1 set \<Rightarrow> bool" where
  "path_search edges target [] visited = False"
| "path_search edges target (current # queue) visited =
     (if current \<in> visited then path_search edges target queue visited
      else
        let nexts = map te_after (filter (\<lambda>edge. te_before edge = current) edges) in
        if target \<in> set nexts then True
        else path_search edges target (queue @ nexts) (insert current visited))"
  by pat_completeness auto

termination
proof (relation "measures [\<lambda>(edges, target, queue, visited). card (te_before ` set edges - visited),
    \<lambda>(edges, target, queue, visited). length queue]")
  fix edges :: "TurnDependencyEdgeV1 list" and target current queue visited nexts
  assume new: "current \<notin> visited" and nexts: "nexts = map te_after (filter (\<lambda>edge. te_before edge = current) edges)"
  let ?m = "measures [\<lambda>(edges :: TurnDependencyEdgeV1 list, target :: HumanCenteredContractRefV1,
      queue :: HumanCenteredContractRefV1 list, visited). card (te_before ` set edges - visited),
    \<lambda>(edges, target, queue, visited). length queue]"
  show "((edges, target, queue @ nexts, insert current visited), edges, target, current # queue, visited) \<in> ?m"
  proof (cases "current \<in> te_before ` set edges")
    case True
    have "card (te_before ` set edges - insert current visited) < card (te_before ` set edges - visited)"
      by (rule psubset_card_mono) (use True new in auto)
    then show ?thesis by simp
  next
    case False
    then have "nexts = []" using nexts by (auto simp: filter_empty_conv)
    moreover have "te_before ` set edges - insert current visited = te_before ` set edges - visited"
      using False by blast
    ultimately show ?thesis by simp
  qed
qed auto

definition dependency_path_exists ::
  "HumanCenteredContractRefV1 \<Rightarrow> HumanCenteredContractRefV1 \<Rightarrow> TurnDependencyEdgeV1 list \<Rightarrow> bool" where
  "dependency_path_exists start target edges = path_search edges target [start] {}"

section \<open>The topological check decides acyclicity\<close>

definition pending :: "('k \<times> 'k) set \<Rightarrow> 'k set \<Rightarrow> 'k \<Rightarrow> nat" where
  "pending E V v = card {u. (u, v) \<in> E \<and> u \<notin> V}"

lemma finite_preds: "finite E \<Longrightarrow> finite {u. (u, v) \<in> E \<and> P u}"
  by (rule finite_subset [of _ "fst ` E"]) force+

lemma pending_insert:
  assumes "finite E" "node \<notin> V"
  shows "(node, v) \<in> E \<Longrightarrow> pending E V v = Suc (pending E (insert node V) v)"
    "(node, v) \<notin> E \<Longrightarrow> pending E (insert node V) v = pending E V v"
proof -
  assume "(node, v) \<in> E"
  then have "{u. (u, v) \<in> E \<and> u \<notin> V} = insert node {u. (u, v) \<in> E \<and> u \<notin> insert node V}"
    using assms(2) by auto
  then show "pending E V v = Suc (pending E (insert node V) v)"
    using finite_preds [OF assms(1)] by (simp add: pending_def)
next
  assume "(node, v) \<notin> E"
  then have "{u. (u, v) \<in> E \<and> u \<notin> insert node V} = {u. (u, v) \<in> E \<and> u \<notin> V}" by auto
  then show "pending E (insert node V) v = pending E V v" by (simp add: pending_def)
qed

lemma pending_0: "finite E \<Longrightarrow> pending E V v = 0 \<longleftrightarrow> (\<forall>u. (u, v) \<in> E \<longrightarrow> u \<in> V)"
  using finite_preds [of E v "\<lambda>u. u \<notin> V"] by (auto simp: pending_def)

lemma bt_get_set: "bt_get (bt_set k v m) k' = (if k' = k \<and> bt_get m k \<noteq> None then Some v else bt_get m k')"
  by (induction k v m rule: bt_set.induct) (auto simp: bt_get_def)

lemma relax_counts:
  assumes "distinct nexts" "\<forall>n \<in> set nexts. \<exists>d. bt_get ind n = Some (Suc d)"
  shows "\<exists>ind'. relax nexts ind ready = Some (Some (ind', ready @ filter (\<lambda>n. bt_get ind n = Some 1) nexts)) \<and>
     (\<forall>v. bt_get ind' v = (if v \<in> set nexts then map_option (\<lambda>d. d - 1) (bt_get ind v) else bt_get ind v))"
  using assms
proof (induction nexts ind ready rule: relax.induct)
  case (2 n rest ind ready)
  from 2(3) obtain d where d: "bt_get ind n = Some (Suc d)" by auto
  let ?ind = "bt_set n d ind"
  have rest: "\<forall>m \<in> set rest. bt_get ?ind m = bt_get ind m" using 2(2) by (auto simp: bt_get_set)
  with 2 d have "\<exists>ind'. relax rest ?ind (if d = 0 then ready @ [n] else ready) =
      Some (Some (ind', (if d = 0 then ready @ [n] else ready) @ filter (\<lambda>n. bt_get ?ind n = Some 1) rest)) \<and>
     (\<forall>v. bt_get ind' v = (if v \<in> set rest then map_option (\<lambda>d. d - 1) (bt_get ?ind v) else bt_get ?ind v))"
    by (intro 2(1)) auto
  moreover have "filter (\<lambda>n. bt_get ?ind n = Some 1) rest = filter (\<lambda>n. bt_get ind n = Some 1) rest"
    by (rule filter_cong) (use rest in auto)
  ultimately show ?case using d 2(2) rest by (auto simp: bt_get_set)
qed simp

text \<open>The state of the removal: \<open>V\<close> are the removed nodes, \<open>ready\<close> the others without pending predecessors.\<close>

definition removal_state ::
  "'k set \<Rightarrow> ('k \<times> 'k) set \<Rightarrow> ('k::linorder \<times> nat) list \<Rightarrow> 'k list \<Rightarrow> 'k set \<Rightarrow> bool" where
  "removal_state N E ind ready V \<longleftrightarrow> V \<subseteq> N \<and> distinct ready \<and> set ready \<inter> V = {} \<and>
     V \<union> set ready = {v \<in> N. pending E V v = 0} \<and>
     (\<forall>v \<in> N. bt_get ind v = Some (pending E V v)) \<and> acyclic (E \<inter> V \<times> V)"

lemma acyclic_grow:
  assumes "acyclic (E \<inter> V \<times> V)" "\<forall>v \<in> V. \<forall>u. (u, v) \<in> E \<longrightarrow> u \<in> V" "x \<notin> V" "(x, x) \<notin> E"
  shows "acyclic (E \<inter> insert x V \<times> insert x V)"
proof -
  have "E \<inter> insert x V \<times> insert x V = E \<inter> V \<times> V \<union> {u \<in> V. (u, x) \<in> E} \<times> {x}"
    using assms(2-4) by auto
  moreover have "acyclic (E \<inter> V \<times> V \<union> A \<times> {x})" if "A \<subseteq> V" "finite A \<or> True" for A
  proof (rule acyclicI, rule allI, rule notI)
    fix y
    let ?R = "E \<inter> V \<times> V \<union> A \<times> {x}"
    have no: "(x, z) \<notin> ?R" for z using assms(3) that by auto
    have step: "(a, b) \<in> ?R\<^sup>+ \<Longrightarrow> b \<noteq> x \<Longrightarrow> (a, b) \<in> (E \<inter> V \<times> V)\<^sup>+" for a b
    proof (induction rule: trancl_induct)
      case (step b c)
      then have "b \<noteq> x" using no by metis
      with step show ?case by (auto intro: trancl_into_trancl)
    qed auto
    assume y: "(y, y) \<in> ?R\<^sup>+"
    show False
    proof (cases "y = x")
      case True
      with y obtain z where "(x, z) \<in> ?R" by (auto elim: converse_tranclE)
      with no show False by blast
    next
      case False
      with step [OF y] assms(1) show False by (simp add: acyclic_def)
    qed
  qed
  ultimately show ?thesis by auto
qed

lemma removal_final:
  assumes "finite N" "E \<subseteq> N \<times> N" "removal_state N E ind [] V"
  shows "card V = card N \<longleftrightarrow> acyclic E"
proof
  from assms(3) have V: "V \<subseteq> N" "V = {v \<in> N. pending E V v = 0}" "acyclic (E \<inter> V \<times> V)"
    by (auto simp: removal_state_def)
  have fin: "finite E" using assms(1,2) by (meson finite_SigmaI finite_subset)
  {
    assume "card V = card N"
    with V(1) assms(1) have "V = N" by (simp add: card_subset_eq)
    with V(3) assms(2) show "acyclic E" by (simp add: Int_absorb2)
  next
    assume "acyclic E"
    then have "wf E" using fin by (simp add: finite_acyclic_wf)
    have "N - V = {}"
    proof (rule ccontr)
      assume "N - V \<noteq> {}"
      with \<open>wf E\<close> obtain z where z: "z \<in> N - V" "\<And>y. (y, z) \<in> E \<Longrightarrow> y \<notin> N - V"
        by (metis ex_in_conv wfE_min)
      then have "\<forall>u. (u, z) \<in> E \<longrightarrow> u \<in> V" using assms(2) by blast
      with z(1) V(2) fin show False by (auto simp: pending_0)
    qed
    with V(1) show "card V = card N" by (simp add: subset_antisym)
  }
qed

lemma removal_step:
  assumes "finite N" "E \<subseteq> N \<times> N" "\<forall>u. distinct (successors adj u) \<and> set (successors adj u) = {v. (u, v) \<in> E}"
    and st: "removal_state N E ind (node # ready) V"
  obtains ind' ready' where "relax (successors adj node) ind ready = Some (Some (ind', ready'))"
    "removal_state N E ind' ready' (insert node V)"
proof -
  have fin: "finite E" using assms(1,2) by (meson finite_SigmaI finite_subset)
  from st have V: "V \<subseteq> N" "node \<in> N" "node \<notin> V" "distinct ready" "node \<notin> set ready" "set ready \<inter> V = {}"
    "insert node (V \<union> set ready) = {v \<in> N. pending E V v = 0}"
    "\<forall>v \<in> N. bt_get ind v = Some (pending E V v)" "acyclic (E \<inter> V \<times> V)"
    by (auto simp: removal_state_def)
  let ?s = "successors adj node"
  have s: "distinct ?s" "set ?s = {v. (node, v) \<in> E}" using assms(3) by auto
  note pi = pending_insert [OF fin V(3)]
  have counts: "\<exists>d. bt_get ind n = Some (Suc d)" if "n \<in> set ?s" for n
    using that s(2) V(8) assms(2) pi(1) by fastforce
  from relax_counts [OF s(1), of ind ready] counts obtain ind' where
    r: "relax ?s ind ready = Some (Some (ind', ready @ filter (\<lambda>n. bt_get ind n = Some 1) ?s))"
    and i: "\<forall>v. bt_get ind' v = (if v \<in> set ?s then map_option (\<lambda>d. d - 1) (bt_get ind v) else bt_get ind v)"
    by blast
  let ?new = "filter (\<lambda>n. bt_get ind n = Some 1) ?s" and ?V = "insert node V"
  have get: "bt_get ind' v = Some (pending E ?V v)" if "v \<in> N" for v
    using i V(8) that s(2) pi [of v] by auto
  have new: "set ?new = {v. (node, v) \<in> E \<and> pending E ?V v = 0}"
    using s(2) V(8) assms(2) pi(1) by fastforce
  have zero: "pending E V v = 0 \<Longrightarrow> pending E ?V v = 0 \<and> (node, v) \<notin> E" for v
    using pi [of v] by (cases "(node, v) \<in> E") auto
  have old: "\<And>v. v \<in> V \<union> set ready \<union> {node} \<longleftrightarrow> v \<in> N \<and> pending E V v = 0" using V(7) by auto
  have "removal_state N E ind' (ready @ ?new) ?V"
    unfolding removal_state_def
  proof (intro conjI)
    have "set ready \<inter> set ?new = {}"
    proof (rule ccontr)
      assume "set ready \<inter> set ?new \<noteq> {}"
      then obtain v where "v \<in> set ready" "v \<in> set ?new" by blast
      then show False using old [of v] zero [of v] new by auto
    qed
    then show "distinct (ready @ ?new)" using V(4) s(1) by simp
    show "set (ready @ ?new) \<inter> ?V = {}"
    proof (rule ccontr)
      assume "set (ready @ ?new) \<inter> ?V \<noteq> {}"
      then obtain v where "v \<in> set ready \<or> v \<in> set ?new" "v \<in> ?V" by auto
      then show False using old [of v] zero [of v] new V(5,6) by auto
    qed
    show "?V \<union> set (ready @ ?new) = {v \<in> N. pending E ?V v = 0}"
    proof (rule set_eqI)
      fix v
      show "v \<in> ?V \<union> set (ready @ ?new) \<longleftrightarrow> v \<in> {v \<in> N. pending E ?V v = 0}"
      proof (cases "(node, v) \<in> E")
        case True
        then have "v \<notin> ?V \<union> set ready" "v \<in> N" using old [of v] zero [of v] assms(2) by auto
        then show ?thesis using True new by auto
      next
        case False
        then have n: "v \<notin> set ?new" using new by auto
        from False have p: "pending E ?V v = pending E V v" by (rule pi(2))
        have "v \<in> ?V \<union> set (ready @ ?new) \<longleftrightarrow> v \<in> V \<union> set ready \<union> {node}"
          unfolding set_append using n by blast
        then show ?thesis unfolding mem_Collect_eq p old by blast
      qed
    qed
    have preds: "u \<in> V" if "v \<in> V \<union> set ready \<union> {node}" "(u, v) \<in> E" for u v
    proof -
      from that(1) have "pending E V v = 0" unfolding old by blast
      with fin that(2) show ?thesis by (simp add: pending_0)
    qed
    then have "\<forall>v \<in> V. \<forall>u. (u, v) \<in> E \<longrightarrow> u \<in> V" by blast
    moreover have "(node, node) \<notin> E" using preds [of node node] V(3) by blast
    ultimately show "acyclic (E \<inter> ?V \<times> ?V)" by (intro acyclic_grow V(9) V(3))
  next
    show "?V \<subseteq> N" using V(1,2) by simp
  next
    show "\<forall>v \<in> N. bt_get ind' v = Some (pending E ?V v)" using get by blast
  qed
  from that [OF r this] show thesis .
qed

lemma remove_ready_correct:
  assumes "finite N" "E \<subseteq> N \<times> N" "\<forall>u. distinct (successors adj u) \<and> set (successors adj u) = {v. (u, v) \<in> E}"
    and "removal_state N E ind ready V" "n = card V"
  shows "\<exists>k. remove_ready adj ind ready n = Some (Some k) \<and> (k = card N \<longleftrightarrow> acyclic E)"
  using assms
proof (induction adj ind ready n arbitrary: V rule: remove_ready.induct)
  case (1 adj ind n)
  from removal_final [OF 1(1,2,4)] 1(5) show ?case by simp
next
  case (2 adj ind node ready n)
  from removal_step [OF 2(2-5)] obtain ind' ready' where
    r: "relax (successors adj node) ind ready = Some (Some (ind', ready'))"
    and st: "removal_state N E ind' ready' (insert node V)" by blast
  have "finite V" "node \<notin> V" using 2(2,5) by (auto simp: removal_state_def intro: finite_subset)
  then have "Suc n = card (insert node V)" using 2(6) by simp
  with 2(1) [OF r refl refl 2(2-4) st] r show ?case by simp
qed

text \<open>The two maps that the loop over the edges builds: the successors and the number of predecessors.\<close>

definition graph_state ::
  "'k::linorder set \<Rightarrow> ('k \<times> 'k) set \<Rightarrow> ('k \<times> nat) list \<times> ('k \<times> 'k list) list \<Rightarrow> bool" where
  "graph_state N E m \<longleftrightarrow> bt_wf (fst m) \<and> fst ` set (fst m) = N \<and>
     (\<forall>v \<in> N. bt_get (fst m) v = Some (pending E {} v)) \<and>
     (\<forall>u. distinct (successors (snd m) u) \<and> set (successors (snd m) u) = {v. (u, v) \<in> E})"

lemma pending_edge:
  "finite E \<Longrightarrow> (u, v) \<notin> E \<Longrightarrow>
     pending (insert (u, v) E) {} w = (if w = v then Suc (pending E {} w) else pending E {} w)"
proof (cases "w = v")
  case True
  assume "finite E" "(u, v) \<notin> E"
  moreover have "{x. (x, v) \<in> insert (u, v) E} = insert u {x. (x, v) \<in> E}" by auto
  ultimately show ?thesis using True finite_preds [of E v "\<lambda>_. True"] by (simp add: pending_def)
qed (simp add: pending_def)

lemma successors_insert: "successors (bt_insert k s adj) u = (if u = k then s else successors adj u)"
  by (simp add: successors_def bt_get_insert)

lemma add_dependency_state:
  assumes "graph_state N E m" "finite E" "u \<in> N" "v \<in> N"
  shows "graph_state N (insert (u, v) E) (add_dependency (u, v) m)"
proof (cases m)
  case (Pair ind adj)
  show ?thesis
  proof (cases "v \<in> set (successors adj u)")
    case True
    with assms(1) Pair have "insert (u, v) E = E" by (auto simp: graph_state_def)
    with assms(1) Pair True show ?thesis by (auto simp: graph_state_def successors_insert)
  next
    case False
    with assms(1) Pair have new: "(u, v) \<notin> E" by (simp add: graph_state_def)
    from assms(1,4) Pair have "insert v N = N" "bt_get ind v = Some (pending E {} v)"
      by (auto simp: graph_state_def)
    with assms(1) Pair False show ?thesis
      by (auto simp: graph_state_def successors_insert set_insert_def bt_insert_keys bt_insert_wf
          bt_get_insert pending_edge [OF assms(2) new] set_insort_key distinct_insort)
  qed
qed

lemma add_dependencies_state:
  assumes "graph_state N E m" "finite E" "\<forall>e \<in> set edges. te_before e \<in> N \<and> te_after e \<in> N"
  shows "graph_state N (E \<union> (\<lambda>e. (te_before e, te_after e)) ` set edges)
    (foldl (\<lambda>acc e. add_dependency (te_before e, te_after e) acc) m edges)"
  using assms
proof (induction edges arbitrary: E m)
  case (Cons e edges)
  from Cons(2-4) have "graph_state N (insert (te_before e, te_after e) E) (add_dependency (te_before e, te_after e) m)"
    by (intro add_dependency_state) auto
  from Cons(1) [OF this] Cons(3,4) show ?case by (simp add: insert_commute Un_insert_right)
qed simp

lemma zero_state: "graph_state (set nodes) {} (foldl (\<lambda>m node. bt_insert node 0 m) [] nodes, [])"
proof -
  let ?f = "foldl (\<lambda>m node. bt_insert node (0::nat) m)"
  have "bt_wf m \<Longrightarrow> bt_wf (?f m nodes) \<and> fst ` set (?f m nodes) = fst ` set m \<union> set nodes \<and>
      (\<forall>v. bt_get (?f m nodes) v = (if v \<in> set nodes then Some 0 else bt_get m v))" for m
    by (induction nodes arbitrary: m) (auto simp: bt_insert_wf bt_insert_keys bt_get_insert)
  from this [of "[]"] show ?thesis
    by (simp add: graph_state_def bt_wf_def pending_def successors_def bt_get_def)
qed

lemma graph_state_ready:
  assumes "graph_state N E (ind, adj)"
  shows "removal_state N E ind (map fst (filter (\<lambda>(node, degree). degree = 0) ind)) {}"
proof -
  from assms have d: "distinct (map fst ind)"
    by (auto simp: graph_state_def bt_wf_def strict_sorted_iff)
  then have "distinct (map fst (filter (\<lambda>(node, degree). degree = 0) ind))"
    by (rule distinct_map_filter)
  moreover have "fst ` {p \<in> set ind. snd p = 0} = {v \<in> N. pending E {} v = 0}"
  proof -
    have "(v, k) \<in> set ind \<longleftrightarrow> v \<in> N \<and> k = pending E {} v" for v k
      using assms d by (auto simp: graph_state_def bt_get_def image_iff) 
        (metis Some_eq_map_of_iff fst_conv imageI image_iff option.inject)+
    then show ?thesis by (auto simp: image_iff)
  qed
  ultimately show ?thesis using assms
    by (simp add: removal_state_def graph_state_def case_prod_unfold acyclic_def)
qed

definition edge_relation ::
  "TurnDependencyEdgeV1 list \<Rightarrow> (HumanCenteredContractRefV1 \<times> HumanCenteredContractRefV1) set" where
  "edge_relation edges = {(te_before e, te_after e) | e. e \<in> set edges}"

lemma graph_check_correct:
  assumes "distinct nodes" "\<forall>e \<in> set edges. te_before e \<in> set nodes \<and> te_after e \<in> set nodes"
  shows "dependency_graph_is_acyclic nodes edges = Some (acyclic (edge_relation edges))"
proof -
  define E where "E = edge_relation edges"
  have E: "E = {} \<union> (\<lambda>e. (te_before e, te_after e)) ` set edges" by (auto simp: edge_relation_def E_def)
  obtain ind adj where g: "foldl (\<lambda>acc e. add_dependency (te_before e, te_after e) acc)
      (foldl (\<lambda>m node. bt_insert node 0 m) [] nodes, []) edges = (ind, adj)"
    by (meson surj_pair)
  with add_dependencies_state [OF zero_state _ assms(2)] E have st: "graph_state (set nodes) E (ind, adj)"
    by simp
  from st have adj: "\<forall>u. distinct (successors adj u) \<and> set (successors adj u) = {v. (u, v) \<in> E}"
    by (simp add: graph_state_def)
  have sub: "E \<subseteq> set nodes \<times> set nodes" using assms(2) E by auto
  from remove_ready_correct [OF finite_set sub adj graph_state_ready [OF st], of 0]
  show ?thesis using g assms(1) by (auto simp: dependency_graph_is_acyclic_def Let_def distinct_card E_def)
qed

section \<open>The path search decides reachability\<close>

lemma path_search_correct:
  assumes "\<forall>v \<in> visited. \<forall>w. (v, w) \<in> edge_relation edges \<longrightarrow> w \<noteq> target \<and> w \<in> visited \<union> set queue"
  shows "path_search edges target queue visited \<longleftrightarrow> (\<exists>q \<in> set queue. (q, target) \<in> (edge_relation edges)\<^sup>+)"
  using assms
proof (induction edges target queue visited rule: path_search.induct)
  case (2 edges target current queue visited)
  let ?E = "edge_relation edges" and ?nexts = "map te_after (filter (\<lambda>edge. te_before edge = current) edges)"
  have nexts: "w \<in> set ?nexts \<longleftrightarrow> (current, w) \<in> ?E" for w by (auto simp: edge_relation_def)
  have closed: "\<exists>q \<in> set rest. (q, target) \<in> ?E\<^sup>+"
    if "(v, target) \<in> ?E\<^sup>+" "v \<in> V" "\<forall>v \<in> V. \<forall>w. (v, w) \<in> ?E \<longrightarrow> w \<noteq> target \<and> w \<in> V \<union> set rest" for v V rest
    using that
    by (induction rule: converse_trancl_induct) blast+
  show ?case
  proof (cases "current \<in> visited")
    case True
    with 2(3) have inv: "\<forall>v \<in> visited. \<forall>w. (v, w) \<in> ?E \<longrightarrow> w \<noteq> target \<and> w \<in> visited \<union> set queue" by auto
    from 2(1) [OF True inv] True closed [OF _ True inv] show ?thesis by auto
  next
    case False
    show ?thesis
    proof (cases "target \<in> set ?nexts")
      case True
      with False nexts show ?thesis by auto
    next
      case notin: False
      have inv: "\<forall>v \<in> insert current visited. \<forall>w. (v, w) \<in> ?E \<longrightarrow>
          w \<noteq> target \<and> w \<in> insert current visited \<union> set (queue @ ?nexts)"
        using 2(3) nexts notin by auto
      have "\<exists>q \<in> set (queue @ ?nexts). (q, target) \<in> ?E\<^sup>+" if "(current, target) \<in> ?E\<^sup>+"
        using closed [OF that _ inv] by simp
      moreover have "(current, target) \<in> ?E\<^sup>+" if "w \<in> set ?nexts" "(w, target) \<in> ?E\<^sup>+" for w
        using that nexts by (meson trancl_into_trancl2)
      ultimately show ?thesis using 2(2) [OF False refl notin inv] False notin
        by (simp only: path_search.simps Let_def if_False set_append list.set) blast
    qed
  qed
qed simp

section \<open>Validation, issue and reference of a plan\<close>

fun response_before_action_mode :: "TurnCoordinationModeV1 \<Rightarrow> bool" where
  "response_before_action_mode TM_RespondThenAct = True"
| "response_before_action_mode TM_RespondThenConfirmThenAct = True"
| "response_before_action_mode TM_AcknowledgeThenRun = True"
| "response_before_action_mode _ = False"

text \<open>
  The checks in the source's order. \<open>known_refs\<close> is the ordered set of the responses and actions. The
  topological check never panics here (\<open>plan_graph_decided\<close> below), so \<open>None\<close> is not a case of its own.
\<close>

definition validate_turn_edge ::
  "HumanCenteredContractRefV1 list \<Rightarrow> TurnDependencyEdgeV1 \<Rightarrow> (HumanCenteredProtocolError, unit) result" where
  "validate_turn_edge known_refs edge =
     and_then (HumanCenteredContractRefV1_validate (te_before edge)) (\<lambda>_.
     and_then (HumanCenteredContractRefV1_validate (te_after edge)) (\<lambda>_.
     if te_before edge = te_after edge \<or> te_before edge \<notin> set known_refs \<or> te_after edge \<notin> set known_refs
     then Err HE_InvalidDependency else Ok ()))"

definition validate_turn_gate ::
  "HumanCenteredContractRefV1 list \<Rightarrow> TurnGateV1 \<Rightarrow> (HumanCenteredProtocolError, unit) result" where
  "validate_turn_gate known_refs gate =
     and_then (HumanCenteredContractRefV1_validate (tg_required_before gate)) (\<lambda>_.
     if tg_required_before gate \<notin> set known_refs then Err HE_InvalidDependency
     else if tg_gate_kind gate = TG_UserAuthorization \<and> cr_kind (tg_required_before gate) \<noteq> HK_Action
     then Err HE_InvalidDependency else Ok ())"

definition TurnCoordinationPlanV1_validate ::
  "crates \<Rightarrow> TurnCoordinationPlanV1 \<Rightarrow> (HumanCenteredProtocolError, unit) result" where
  "TurnCoordinationPlanV1_validate X p =
     and_then (HumanCenteredContractMetadataV1_validate (tp_metadata p)) (\<lambda>_.
     if cm_contract_kind (tp_metadata p) \<noteq> HK_TurnCoordination then Err HE_ContractKindMismatch
     else
     and_then (validate_required_text (tp_rationale p)) (\<lambda>_.
     if tp_response_refs p = [] \<or>
        list_ex (\<lambda>r. cr_kind r \<noteq> HK_Response) (tp_response_refs p) \<or>
        list_ex (\<lambda>r. cr_kind r \<noteq> HK_Action) (tp_action_refs p)
     then Err HE_InvalidContract
     else if (tp_mode p \<noteq> TM_RespondOnly) = (tp_action_refs p = []) then Err HE_InvalidContract
     else
     let confirmation_mode = (tp_mode p = TM_RespondThenConfirmThenAct);
         has_authorization_gate = list_ex (\<lambda>g. tg_gate_kind g = TG_UserAuthorization) (tp_gates p) in
     if confirmation_mode \<noteq> has_authorization_gate then Err HE_InvalidContract
     else
     let known_refs = sort_dedup (tp_response_refs p @ tp_action_refs p) in
     if list_ex (\<lambda>r. r \<notin> set (cm_dependency_refs (tp_metadata p))) known_refs then Err HE_InvalidDependency
     else
     and_then (for_each (validate_turn_edge known_refs) (tp_dependencies p)) (\<lambda>_.
     if dependency_graph_is_acyclic known_refs (tp_dependencies p) \<noteq> Some True then Err HE_InvalidDependency
     else
     and_then (for_each (validate_turn_gate known_refs) (tp_gates p)) (\<lambda>_.
     if confirmation_mode \<and>
        list_ex (\<lambda>action. \<not> list_ex (\<lambda>g. tg_gate_kind g = TG_UserAuthorization \<and> tg_required_before g = action)
          (tp_gates p)) (tp_action_refs p)
     then Err HE_InvalidDependency
     else if response_before_action_mode (tp_mode p) \<and>
        list_ex (\<lambda>action. \<not> list_ex (\<lambda>response. dependency_path_exists response action (tp_dependencies p))
          (tp_response_refs p)) (tp_action_refs p)
     then Err HE_InvalidDependency
     else if tp_mode p = TM_ActThenRespond \<and>
        list_ex (\<lambda>response. \<not> list_ex (\<lambda>action. dependency_path_exists action response (tp_dependencies p))
          (tp_action_refs p)) (tp_response_refs p)
     then Err HE_InvalidDependency
     else
     and_then (contract_digest X ''turn-coordination-plan-v1'' (turn_plan_digest_input X p)) (\<lambda>digest.
     if digest \<noteq> tp_record_digest p then Err HE_DigestMismatch else Ok ())))))"

definition TurnCoordinationPlanV1_issue ::
  "crates \<Rightarrow> HumanCenteredContractMetadataV1 \<Rightarrow> TurnCoordinationModeV1 \<Rightarrow> HumanCenteredContractRefV1 list \<Rightarrow>
   HumanCenteredContractRefV1 list \<Rightarrow> TurnDependencyEdgeV1 list \<Rightarrow> TurnGateV1 list \<Rightarrow> TurnFailurePolicyV1 \<Rightarrow>
   TurnProgressPolicyV1 \<Rightarrow> string \<Rightarrow> (HumanCenteredProtocolError, TurnCoordinationPlanV1) result" where
  "TurnCoordinationPlanV1_issue X metadata mode response_refs action_refs dependencies gates failure_policy
       progress_policy rationale =
     (let value = \<lparr>tp_metadata = metadata, tp_mode = mode, tp_response_refs = response_refs,
        tp_action_refs = action_refs, tp_dependencies = dependencies, tp_gates = gates,
        tp_failure_policy = failure_policy, tp_progress_policy = progress_policy, tp_rationale = rationale,
        tp_record_digest = []\<rparr> in
      and_then (contract_digest X ''turn-coordination-plan-v1'' (turn_plan_digest_input X value)) (\<lambda>digest.
      let value = value\<lparr>tp_record_digest := digest\<rparr> in
      and_then (TurnCoordinationPlanV1_validate X value) (\<lambda>_. Ok value)))"

definition TurnCoordinationPlanV1_record_ref ::
  "crates \<Rightarrow> TurnCoordinationPlanV1 \<Rightarrow> (HumanCenteredProtocolError, HumanCenteredContractRefV1) result" where
  "TurnCoordinationPlanV1_record_ref X p =
     and_then (TurnCoordinationPlanV1_validate X p) (\<lambda>_.
     HumanCenteredContractRefV1_new HK_TurnCoordination (cm_contract_id (tp_metadata p))
       (cm_revision (tp_metadata p)) (tp_record_digest p))"

section \<open>What a validated plan guarantees\<close>

lemma path_exists_correct: "dependency_path_exists s t edges \<longleftrightarrow> (s, t) \<in> (edge_relation edges)\<^sup>+"
  using path_search_correct [of "{}" edges t "[s]"]
  by (simp add: dependency_path_exists_def del: path_search.simps)

lemma plan_graph_decided:
  assumes "for_each (validate_turn_edge known) edges = Ok ()" "distinct known"
  shows "dependency_graph_is_acyclic known edges = Some (acyclic (edge_relation edges))"
  by (rule graph_check_correct [OF assms(2)])
    (use assms(1) in \<open>auto simp: result_simps validate_turn_edge_def split: if_splits\<close>)

text \<open>The abstract contract of a plan: an order of its responses and actions that respects its mode.\<close>

definition plan_order ::
  "TurnCoordinationPlanV1 \<Rightarrow> (HumanCenteredContractRefV1 \<times> HumanCenteredContractRefV1) set" where
  "plan_order p = (edge_relation (tp_dependencies p))\<^sup>+"

lemma validated_plan:
  assumes "TurnCoordinationPlanV1_validate X p = Ok ()"
  shows "acyclic (edge_relation (tp_dependencies p))" (is ?acyclic)
    and "Field (edge_relation (tp_dependencies p)) \<subseteq> set (tp_response_refs p) \<union> set (tp_action_refs p)" (is ?field)
    and "\<forall>r \<in> set (tp_response_refs p). cr_kind r = HK_Response" (is ?responses)
    and "\<forall>a \<in> set (tp_action_refs p). cr_kind a = HK_Action" (is ?actions)
    and "tp_mode p = TM_RespondThenConfirmThenAct \<Longrightarrow> a \<in> set (tp_action_refs p) \<Longrightarrow>
      \<exists>g \<in> set (tp_gates p). tg_gate_kind g = TG_UserAuthorization \<and> tg_required_before g = a"
    and "response_before_action_mode (tp_mode p) \<Longrightarrow> a \<in> set (tp_action_refs p) \<Longrightarrow>
      \<exists>r \<in> set (tp_response_refs p). (r, a) \<in> plan_order p"
    and "tp_mode p = TM_ActThenRespond \<Longrightarrow> r \<in> set (tp_response_refs p) \<Longrightarrow>
      \<exists>a \<in> set (tp_action_refs p). (a, r) \<in> plan_order p"
    and "tp_mode p = TM_RespondOnly \<longleftrightarrow> tp_action_refs p = []"
    and "(\<exists>g \<in> set (tp_gates p). tg_gate_kind g = TG_UserAuthorization) \<longleftrightarrow> tp_mode p = TM_RespondThenConfirmThenAct"
    and "contract_digest X ''turn-coordination-plan-v1'' (turn_plan_digest_input X p) = Ok (tp_record_digest p)"
proof -
  note v = assms [unfolded TurnCoordinationPlanV1_validate_def Let_def]
  from v have edges: "for_each (validate_turn_edge (sort_dedup (tp_response_refs p @ tp_action_refs p)))
      (tp_dependencies p) = Ok ()"
    by (auto simp: and_then_eq_Ok split: if_splits)
  from v plan_graph_decided [OF edges distinct_sort_dedup] show ?acyclic
    by (auto simp: and_then_eq_Ok split: if_splits)
  from edges show ?field
    by (fastforce simp: result_simps validate_turn_edge_def edge_relation_def Field_def split: if_splits)
  from v show ?responses ?actions
    by (auto simp: and_then_eq_Ok list_ex_iff split: if_splits)
  from v show "tp_mode p = TM_RespondThenConfirmThenAct \<Longrightarrow> a \<in> set (tp_action_refs p) \<Longrightarrow>
      \<exists>g \<in> set (tp_gates p). tg_gate_kind g = TG_UserAuthorization \<and> tg_required_before g = a"
    by (auto simp: and_then_eq_Ok list_ex_iff split: if_splits)
  from v show "response_before_action_mode (tp_mode p) \<Longrightarrow> a \<in> set (tp_action_refs p) \<Longrightarrow>
      \<exists>r \<in> set (tp_response_refs p). (r, a) \<in> plan_order p"
    by (auto simp: and_then_eq_Ok list_ex_iff path_exists_correct plan_order_def split: if_splits)
  from v show "tp_mode p = TM_ActThenRespond \<Longrightarrow> r \<in> set (tp_response_refs p) \<Longrightarrow>
      \<exists>a \<in> set (tp_action_refs p). (a, r) \<in> plan_order p"
    by (auto simp: and_then_eq_Ok list_ex_iff path_exists_correct plan_order_def split: if_splits)
  from v show "tp_mode p = TM_RespondOnly \<longleftrightarrow> tp_action_refs p = []"
    by (auto simp: and_then_eq_Ok split: if_splits)
  from v show "(\<exists>g \<in> set (tp_gates p). tg_gate_kind g = TG_UserAuthorization) \<longleftrightarrow>
      tp_mode p = TM_RespondThenConfirmThenAct"
    by (auto simp: and_then_eq_Ok list_ex_iff split: if_splits)
  from v show "contract_digest X ''turn-coordination-plan-v1'' (turn_plan_digest_input X p) = Ok (tp_record_digest p)"
    by (auto simp: and_then_eq_Ok split: if_splits)
qed

text \<open>
  An execution of the plan as an ordered list of its parts: nothing runs twice, and nothing runs before a
  part it depends on.
\<close>

definition runs_in_order ::
  "TurnDependencyEdgeV1 list \<Rightarrow> HumanCenteredContractRefV1 list \<Rightarrow> bool" where
  "runs_in_order edges xs \<longleftrightarrow> distinct xs \<and> sorted_wrt (\<lambda>x y. (y, x) \<notin> edge_relation edges) xs"

lemma acyclic_has_order:
  assumes "finite N" "acyclic E"
  shows "\<exists>xs. set xs = N \<and> distinct xs \<and> sorted_wrt (\<lambda>x y. (y, x) \<notin> E) xs"
  using assms(1)
proof (induction "card N" arbitrary: N)
  case (Suc n)
  have "acyclic (E \<inter> N \<times> N)" using assms(2) by (meson Int_lower1 acyclic_subset)
  with Suc(3) have "wf (E \<inter> N \<times> N)" by (simp add: finite_acyclic_wf)
  moreover have "N \<noteq> {}" using Suc(2) by auto
  ultimately obtain z where z: "z \<in> N" "\<And>y. (y, z) \<in> E \<inter> N \<times> N \<Longrightarrow> y \<notin> N"
    by (metis ex_in_conv wfE_min)
  have "n = card (N - {z})" "finite (N - {z})" using Suc(2,3) z(1) by auto
  from Suc(1) [OF this] obtain xs where
    xs: "set xs = N - {z}" "distinct xs" "sorted_wrt (\<lambda>x y. (y, x) \<notin> E) xs" by blast
  have first: "\<forall>y \<in> N - {z}. (y, z) \<notin> E" using z by blast
  have "sorted_wrt (\<lambda>x y. (y, x) \<notin> E) (z # xs)" using xs(1,3) first by simp
  moreover have "set (z # xs) = N" "distinct (z # xs)" using xs(1,2) z(1) by auto
  ultimately show ?case by blast
qed simp

lemma path_runs_forward:
  assumes "runs_in_order edges xs" "acyclic (edge_relation edges)" "Field (edge_relation edges) \<subseteq> set xs"
    and "(u, v) \<in> (edge_relation edges)\<^sup>+" "i < length xs" "xs ! i = v"
  shows "\<exists>j<i. xs ! j = u"
  using assms(4-6)
proof (induction arbitrary: i rule: trancl_induct)
  case (base v)
  have "u \<in> set xs" using base(1) assms(3) by (auto simp: Field_def)
  then obtain j where j: "j < length xs" "xs ! j = u" by (auto simp: in_set_conv_nth)
  have "\<not> i < j" using assms(1) base j by (auto simp: runs_in_order_def sorted_wrt_iff_nth_less)
  moreover have "i \<noteq> j" using assms(2) base j by (auto simp: acyclic_def)
  ultimately show ?case using j(2) by (intro exI [of _ j]) auto
next
  case (step v w)
  have "v \<in> set xs" using step(2) assms(3) by (auto simp: Field_def)
  then obtain j where j: "j < length xs" "xs ! j = v" by (auto simp: in_set_conv_nth)
  have "\<not> i < j" using assms(1) step j by (auto simp: runs_in_order_def sorted_wrt_iff_nth_less)
  moreover have "i \<noteq> j" using assms(2) step j by (auto simp: acyclic_def)
  ultimately have "j < i" by simp
  moreover obtain k where "k < j" "xs ! k = u" using step.IH [OF j] by blast
  ultimately show ?case by (intro exI [of _ k]) simp
qed

section \<open>A concrete plan\<close>

lemma json_to_vec_total: "\<forall>s. x_json_to_string X s \<noteq> None \<Longrightarrow> json_to_vec X j \<noteq> None"
proof (induction X j rule: json_to_vec.induct)
  case (6 X kvs)
  let ?os = "map (\<lambda>kv. (x_json_to_string X (fst kv), json_to_vec X (snd kv))) kvs"
  have vals: "json_to_vec X (snd kv) \<noteq> None" if "kv \<in> set kvs" for kv by (rule 6(1) [OF that 6(2)])
  have "\<not> (\<exists>p \<in> set ?os. fst p = None \<or> snd p = None)"
  proof
    assume "\<exists>p \<in> set ?os. fst p = None \<or> snd p = None"
    then obtain p where p: "p \<in> set ?os" "fst p = None \<or> snd p = None" by (rule bexE)
    from p(1) obtain kv where kv: "kv \<in> set kvs" "p = (x_json_to_string X (fst kv), json_to_vec X (snd kv))"
      unfolding set_map by (rule imageE)
    show False using p(2) vals [OF kv(1)] spec [OF 6(2), of "fst kv"] unfolding kv(2) fst_conv snd_conv by blast
  qed
  then show ?case unfolding json_to_vec.simps(6) Let_def by (simp only: if_False) simp
next
  case (5 X vs)
  have "None \<notin> set (map (json_to_vec X) vs)"
  proof
    assume "None \<in> set (map (json_to_vec X) vs)"
    then obtain v where v: "v \<in> set vs" "None = json_to_vec X v" unfolding set_map by (rule imageE)
    show False using 5(1) [OF v(1) 5(2)] v(2) by simp
  qed
  then show ?case unfolding json_to_vec.simps(5) Let_def by (simp only: if_False) simp
qed (auto simp: Let_def)

lemma sample_contract_digest: "contract_digest sample_crates domain v = Ok (replicate 64 (CHR ''a''))"
proof -
  have "\<forall>s. x_json_to_string sample_crates s \<noteq> None" by (simp add: sample_crates_def)
  then obtain b where "json_to_vec sample_crates (JArr [JStr domain, v]) = Some b"
    using json_to_vec_total by blast
  then show ?thesis by (simp only: contract_digest_def option.case) (simp add: sample_crates_def)
qed

definition sample_contract_ref :: "HumanCenteredContractKindV1 \<Rightarrow> uuid \<Rightarrow> HumanCenteredContractRefV1" where
  "sample_contract_ref kind i = ContractRef kind i 1 (replicate 64 (CHR ''a''))"

definition sample_context :: AuthorityContextV1 where
  "sample_context = \<lparr>ac_subject_ref = ''subject:s'', ac_actor_ref = ''actor:a'', ac_caller_ref = ''caller:c'',
     ac_tenant_ref = ''tenant:t'', ac_scope_ref = ''scope:s'', ac_purpose_ref = ''purpose:p'',
     ac_operation_ref = ''operation:o''\<rparr>"

definition sample_metadata ::
  "HumanCenteredContractKindV1 \<Rightarrow> HumanCenteredContractRefV1 list \<Rightarrow> HumanCenteredContractMetadataV1" where
  "sample_metadata kind dependencies = \<lparr>cm_contract_kind = kind, cm_contract_id = 61, cm_run_id = 62,
     cm_turn_id = 63, cm_revision = 1, cm_predecessor_ref = None, cm_authority_context = sample_context,
     cm_evidence_refs = [], cm_dependency_refs = dependencies, cm_policy_revision_ref = ''policy:p'',
     cm_valid_until = 900, cm_schema_version = 1\<rparr>"

definition sample_plan :: TurnCoordinationPlanV1 where
  "sample_plan = \<lparr>
     tp_metadata = sample_metadata HK_TurnCoordination
       [sample_contract_ref HK_Response 71, sample_contract_ref HK_Action 72],
     tp_mode = TM_RespondThenConfirmThenAct,
     tp_response_refs = [sample_contract_ref HK_Response 71],
     tp_action_refs = [sample_contract_ref HK_Action 72],
     tp_dependencies = [\<lparr>te_before = sample_contract_ref HK_Response 71,
       te_after = sample_contract_ref HK_Action 72\<rparr>],
     tp_gates = [\<lparr>tg_gate_kind = TG_UserAuthorization, tg_required_before = sample_contract_ref HK_Action 72,
       tg_policy_ref = None\<rparr>],
     tp_failure_policy = TF_ReportOnly, tp_progress_policy = TP_Silent, tp_rationale = ''confirm first'',
     tp_record_digest = replicate 64 (CHR ''a'')\<rparr>"

lemma sample_metadata_validate:
  "list_all (\<lambda>r. cr_contract_id r \<noteq> 61 \<and> HumanCenteredContractRefV1_validate r = Ok ()) dependencies \<Longrightarrow>
     HumanCenteredContractMetadataV1_validate (sample_metadata kind dependencies) = Ok ()"
proof -
  assume r: "list_all (\<lambda>r. cr_contract_id r \<noteq> 61 \<and> HumanCenteredContractRefV1_validate r = Ok ()) dependencies"
  have a: "AuthorityContextV1_validate sample_context = Ok ()" by code_simp
  have d: "valid_digest (replicate 64 (CHR ''a''))" by code_simp
  have b: "\<not> blank ''policy:p''" by code_simp
  show ?thesis using r a b d
    by (auto simp: HumanCenteredContractMetadataV1_validate_def sample_metadata_def validate_lineage_def
        human_id_is_empty_def HUMAN_CENTERED_MAX_SAFE_WIRE_INTEGER_def HUMAN_CENTERED_SCHEMA_VERSION_def
        result_simps list_all_iff)
qed

lemma sample_plan_validate: "TurnCoordinationPlanV1_validate sample_crates sample_plan = Ok ()"
proof -
  let ?r = "sample_contract_ref HK_Response 71" and ?a = "sample_contract_ref HK_Action 72"
  have m: "HumanCenteredContractMetadataV1_validate (sample_metadata HK_TurnCoordination [?r, ?a]) = Ok ()"
    by (rule sample_metadata_validate) code_simp
  have v: "HumanCenteredContractRefV1_validate ?r = Ok ()" "HumanCenteredContractRefV1_validate ?a = Ok ()"
    by code_simp+
  have t: "validate_required_text ''confirm first'' = Ok ()" by code_simp
  have g: "dependency_graph_is_acyclic (sort_dedup [?r, ?a]) [\<lparr>te_before = ?r, te_after = ?a\<rparr>] = Some True"
    by code_simp
  have p: "dependency_path_exists ?r ?a [\<lparr>te_before = ?r, te_after = ?a\<rparr>]"
    by (auto simp: path_exists_correct edge_relation_def)
  show ?thesis
    by (simp add: TurnCoordinationPlanV1_validate_def sample_plan_def m v t g p Let_def sample_contract_digest
        validate_turn_edge_def validate_turn_gate_def)
      (simp add: sample_metadata_def sample_contract_ref_def list_ex_iff)
qed

section \<open>Properties\<close>

text \<open>
  C36: The topological check decides acyclicity. When the nodes are distinct and contain the ends of every
  edge, the removal of ready nodes never underflows a counter and never meets a node without one, and its
  answer is whether the edges, however often each is listed, form an acyclic relation.
\<close>

theorem dependency_graph_is_acyclic_exact:
  assumes "distinct nodes" "\<forall>e \<in> set edges. te_before e \<in> set nodes \<and> te_after e \<in> set nodes"
  shows "dependency_graph_is_acyclic nodes edges = Some (acyclic (edge_relation edges))"
  by (rule graph_check_correct [OF assms])

lemma dependency_graph_is_acyclic_exact_witness:
  "let r = sample_contract_ref HK_Response 71; a = sample_contract_ref HK_Action 72;
     edges = [\<lparr>te_before = r, te_after = a\<rparr>, \<lparr>te_before = a, te_after = r\<rparr>] in
   dependency_graph_is_acyclic [r, a] edges = Some False \<and> \<not> acyclic (edge_relation edges)"
proof -
  let ?r = "sample_contract_ref HK_Response 71" and ?a = "sample_contract_ref HK_Action 72"
  let ?edges = "[\<lparr>te_before = ?r, te_after = ?a\<rparr>, \<lparr>te_before = ?a, te_after = ?r\<rparr>]"
  have "distinct [?r, ?a]" by (simp add: sample_contract_ref_def)
  from dependency_graph_is_acyclic_exact [OF this, of ?edges]
  have "dependency_graph_is_acyclic [?r, ?a] ?edges = Some (acyclic (edge_relation ?edges))" by simp
  moreover have "dependency_graph_is_acyclic [?r, ?a] ?edges = Some False" by code_simp
  ultimately show ?thesis by (simp add: Let_def)
qed

text \<open>
  The breadth-first search always returns, and it finds a path exactly when the target can be reached
  from the start over one edge or more. A node is on a path to itself only when it is on a cycle.
\<close>

theorem dependency_path_exists_exact:
  "dependency_path_exists start target edges \<longleftrightarrow> (start, target) \<in> (edge_relation edges)\<^sup>+"
  by (rule path_exists_correct)

text \<open>The mode as a contract on an order of execution.\<close>

definition mode_respected :: "TurnCoordinationPlanV1 \<Rightarrow> HumanCenteredContractRefV1 list \<Rightarrow> bool" where
  "mode_respected p xs \<longleftrightarrow> (\<forall>i < length xs.
     (response_before_action_mode (tp_mode p) \<and> xs ! i \<in> set (tp_action_refs p) \<longrightarrow>
        (\<exists>j<i. xs ! j \<in> set (tp_response_refs p))) \<and>
     (tp_mode p = TM_ActThenRespond \<and> xs ! i \<in> set (tp_response_refs p) \<longrightarrow>
        (\<exists>j<i. xs ! j \<in> set (tp_action_refs p))) \<and>
     (tp_mode p = TM_RespondThenConfirmThenAct \<and> xs ! i \<in> set (tp_action_refs p) \<longrightarrow>
        (\<exists>g \<in> set (tp_gates p). tg_gate_kind g = TG_UserAuthorization \<and> tg_required_before g = xs ! i)))"

text \<open>
  C35: A validated plan can be carried out, and every way of carrying it out respects its mode. Some order
  runs every response and action once with all dependencies before their dependents. In every such order a
  mode that responds first has a response before each action, act-then-respond has an action before each
  response, and a confirming plan holds a user authorization gate for each action.
\<close>

theorem validated_plan_schedulable:
  assumes "TurnCoordinationPlanV1_validate X p = Ok ()"
  shows "(\<exists>xs. set xs = set (tp_response_refs p @ tp_action_refs p) \<and> runs_in_order (tp_dependencies p) xs) \<and>
    (\<forall>xs. set xs = set (tp_response_refs p @ tp_action_refs p) \<and> runs_in_order (tp_dependencies p) xs \<longrightarrow>
      mode_respected p xs)"
proof (intro conjI allI impI)
  note v = validated_plan [OF assms]
  show "\<exists>xs. set xs = set (tp_response_refs p @ tp_action_refs p) \<and> runs_in_order (tp_dependencies p) xs"
    unfolding runs_in_order_def by (rule acyclic_has_order [OF finite_set v(1)])
  fix xs
  assume xs: "set xs = set (tp_response_refs p @ tp_action_refs p) \<and> runs_in_order (tp_dependencies p) xs"
  have "Field (edge_relation (tp_dependencies p)) \<subseteq> set xs" using v(2) xs by simp
  note forward = path_runs_forward [OF conjunct2 [OF xs] v(1) this _ _ refl, folded plan_order_def]
  show "mode_respected p xs"
    unfolding mode_respected_def using v(5-7) forward by metis
qed

lemma validated_plan_schedulable_witness:
  "(\<exists>xs. set xs = {sample_contract_ref HK_Response 71, sample_contract_ref HK_Action 72} \<and>
     runs_in_order (tp_dependencies sample_plan) xs) \<and>
   \<not> runs_in_order (tp_dependencies sample_plan) [sample_contract_ref HK_Action 72, sample_contract_ref HK_Response 71]"
proof -
  let ?xs = "[sample_contract_ref HK_Action 72, sample_contract_ref HK_Response 71]"
  note s = validated_plan_schedulable [OF sample_plan_validate]
  have "\<not> runs_in_order (tp_dependencies sample_plan) ?xs"
  proof
    assume run: "runs_in_order (tp_dependencies sample_plan) ?xs"
    have "set ?xs = set (tp_response_refs sample_plan @ tp_action_refs sample_plan)"
      by (auto simp: sample_plan_def)
    with run s have "mode_respected sample_plan ?xs" by blast
    then show False by (auto simp: mode_respected_def sample_plan_def)
  qed
  with conjunct1 [OF s] show ?thesis by (auto simp: sample_plan_def)
qed

end
