(* ===== verification/IDR_Assessment.thy ===== *)
theory IDR_Assessment
  imports IDR_Turn_Plan
begin

text \<open>
  The deterministic assessment of an input (\<open>human_centered/guards.rs\<close>, \<open>input.rs\<close>, \<open>runtime.rs\<close> and
  \<open>idr-runtime/src/legacy.rs\<close>): the guards, the input event, the states of an interaction run and the
  kernel that composes them.
\<close>

section \<open>State tables\<close>

text \<open>What a table of allowed transitions promises its users: the terminal states are the ones without a way out.\<close>

locale state_table =
  fixes may :: "'s \<Rightarrow> 's \<Rightarrow> bool"
    and terminal :: "'s \<Rightarrow> bool"
  assumes terminal_final: "terminal s \<Longrightarrow> \<not> may s t"
    and live_moves: "\<not> terminal s \<Longrightarrow> \<exists>t. terminal t \<and> may s t"
begin

lemma terminal_iff_stuck: "terminal s \<longleftrightarrow> (\<forall>t. \<not> may s t)"
  using terminal_final live_moves by blast

lemma terminal_stays: "may\<^sup>*\<^sup>* s t \<Longrightarrow> terminal s \<Longrightarrow> t = s"
  by (erule converse_rtranclpE) (auto dest: terminal_final)

lemma terminal_reachable: "\<exists>t. terminal t \<and> may\<^sup>*\<^sup>* s t"
  using live_moves by blast

end

section \<open>Interaction run states\<close>

datatype InteractionRunStateV1 =
    IR_Pending | IR_Running | IR_WaitingInput | IR_WaitingAuthorization | IR_WaitingDependency
  | IR_Succeeded | IR_Rejected | IR_Failed | IR_Cancelled | IR_TimedOut | IR_Invalidated

definition run_state_is_terminal :: "InteractionRunStateV1 \<Rightarrow> bool" where
  "run_state_is_terminal s \<longleftrightarrow>
     s \<in> {IR_Succeeded, IR_Rejected, IR_Failed, IR_Cancelled, IR_TimedOut, IR_Invalidated}"

definition run_state_may_transition_to :: "InteractionRunStateV1 \<Rightarrow> InteractionRunStateV1 \<Rightarrow> bool" where
  "run_state_may_transition_to s next \<longleftrightarrow>
     s = IR_Pending \<and> next \<in> {IR_Running, IR_Rejected, IR_Cancelled, IR_TimedOut, IR_Invalidated} \<or>
     s = IR_Running \<and> next \<in> {IR_WaitingInput, IR_WaitingAuthorization, IR_WaitingDependency, IR_Succeeded,
       IR_Rejected, IR_Failed, IR_Cancelled, IR_TimedOut, IR_Invalidated} \<or>
     s \<in> {IR_WaitingInput, IR_WaitingAuthorization, IR_WaitingDependency} \<and>
       next \<in> {IR_Running, IR_Rejected, IR_Failed, IR_Cancelled, IR_TimedOut, IR_Invalidated}"

interpretation run_states: state_table run_state_may_transition_to run_state_is_terminal
proof
  fix s t
  show "run_state_is_terminal s \<Longrightarrow> \<not> run_state_may_transition_to s t"
    by (auto simp: run_state_is_terminal_def run_state_may_transition_to_def)
  assume "\<not> run_state_is_terminal s"
  then have "run_state_is_terminal IR_Cancelled \<and> run_state_may_transition_to s IR_Cancelled"
    by (cases s) (simp_all add: run_state_is_terminal_def run_state_may_transition_to_def)
  then show "\<exists>t. run_state_is_terminal t \<and> run_state_may_transition_to s t" by blast
qed

definition validate_interaction_run_transition ::
  "InteractionRunStateV1 \<Rightarrow> InteractionRunStateV1 \<Rightarrow> (HumanCenteredProtocolError, unit) result" where
  "validate_interaction_run_transition current next =
     (if \<not> run_state_may_transition_to current next then Err HE_InvalidTransition else Ok ())"

section \<open>Input events\<close>

datatype SourceActorV1 =
    SA_User | SA_Host | SA_Agent | SA_Tool | SA_ExternalSystem | SA_HumanApprover | SA_Scheduler
  | SA_PolicyEngine | SA_DeviceEnvironment

datatype SemanticRoleV1 =
    SR_Objective | SR_Intent | SR_Command | SR_Fact | SR_Observation | SR_Proposal | SR_Authorization
  | SR_Policy | SR_Result | SR_Feedback | SR_TimeTrigger | SR_SecuritySignal

fun semantic_role_index :: "SemanticRoleV1 \<Rightarrow> nat" where
  "semantic_role_index SR_Objective = 0"
| "semantic_role_index SR_Intent = 1"
| "semantic_role_index SR_Command = 2"
| "semantic_role_index SR_Fact = 3"
| "semantic_role_index SR_Observation = 4"
| "semantic_role_index SR_Proposal = 5"
| "semantic_role_index SR_Authorization = 6"
| "semantic_role_index SR_Policy = 7"
| "semantic_role_index SR_Result = 8"
| "semantic_role_index SR_Feedback = 9"
| "semantic_role_index SR_TimeTrigger = 10"
| "semantic_role_index SR_SecuritySignal = 11"

lemma semantic_role_index_inj: "semantic_role_index a = semantic_role_index b \<Longrightarrow> a = b"
  by (cases a; cases b) simp_all

text \<open>The derived order is the order of declaration.\<close>

instantiation SemanticRoleV1 :: linorder
begin

definition less_eq_SemanticRoleV1 :: "SemanticRoleV1 \<Rightarrow> SemanticRoleV1 \<Rightarrow> bool" where
  "less_eq_SemanticRoleV1 a b \<longleftrightarrow> semantic_role_index a \<le> semantic_role_index b"

definition less_SemanticRoleV1 :: "SemanticRoleV1 \<Rightarrow> SemanticRoleV1 \<Rightarrow> bool" where
  "less_SemanticRoleV1 a b \<longleftrightarrow> semantic_role_index a < semantic_role_index b"

instance
  by standard
    (auto simp: less_eq_SemanticRoleV1_def less_SemanticRoleV1_def dest: semantic_role_index_inj)

end

fun source_actor_may_assert :: "SourceActorV1 \<Rightarrow> SemanticRoleV1 \<Rightarrow> bool" where
  "source_actor_may_assert SA_User role \<longleftrightarrow>
     role \<in> {SR_Objective, SR_Intent, SR_Command, SR_Fact, SR_Proposal, SR_Authorization, SR_Feedback}"
| "source_actor_may_assert SA_Host role \<longleftrightarrow> role \<noteq> SR_Authorization"
| "source_actor_may_assert SA_Agent role \<longleftrightarrow>
     role \<in> {SR_Fact, SR_Observation, SR_Proposal, SR_Result, SR_Feedback}"
| "source_actor_may_assert SA_Tool role \<longleftrightarrow> role \<in> {SR_Fact, SR_Observation, SR_Result, SR_SecuritySignal}"
| "source_actor_may_assert SA_ExternalSystem role \<longleftrightarrow>
     role \<in> {SR_Fact, SR_Observation, SR_Result, SR_SecuritySignal}"
| "source_actor_may_assert SA_HumanApprover role \<longleftrightarrow> role \<in> {SR_Authorization, SR_Feedback, SR_Fact}"
| "source_actor_may_assert SA_Scheduler role \<longleftrightarrow> role = SR_TimeTrigger"
| "source_actor_may_assert SA_PolicyEngine role \<longleftrightarrow> role \<in> {SR_Policy, SR_Authorization, SR_SecuritySignal}"
| "source_actor_may_assert SA_DeviceEnvironment role \<longleftrightarrow> role \<in> {SR_Observation, SR_Fact, SR_SecuritySignal}"

record CanonicalInputEventV1 =
  ci_event_id :: uuid
  ci_run_id :: uuid
  ci_turn_id :: uuid
  ci_source_actor :: SourceActorV1
  ci_actor_ref :: ReferenceV1
  ci_primary_semantic_role :: SemanticRoleV1
  ci_semantic_roles :: "SemanticRoleV1 list"
  ci_content_ref :: ReferenceV1
  ci_content_digest :: string
  ci_correlation_ref :: ReferenceV1
  ci_logical_time :: u64
  ci_schema_version :: u16

definition CanonicalInputEventV1_validate ::
  "CanonicalInputEventV1 \<Rightarrow> (HumanCenteredProtocolError, unit) result" where
  "CanonicalInputEventV1_validate e =
     (let roles = set (ci_semantic_roles e) in
      if human_id_is_empty (ci_event_id e) \<or> human_id_is_empty (ci_run_id e) \<or> human_id_is_empty (ci_turn_id e) \<or>
         ci_semantic_roles e = [] \<or> length (ci_semantic_roles e) > 16 \<or>
         card roles \<noteq> length (ci_semantic_roles e) \<or> ci_primary_semantic_role e \<notin> roles \<or>
         list_ex (\<lambda>role. \<not> source_actor_may_assert (ci_source_actor e) role) (ci_semantic_roles e) \<or>
         blank (ci_actor_ref e) \<or> blank (ci_content_ref e) \<or> blank (ci_correlation_ref e) \<or>
         \<not> (case strip_prefix ''sha256:'' (ci_content_digest e) of None \<Rightarrow> False | Some d \<Rightarrow> valid_digest d) \<or>
         ci_logical_time e = 0 \<or> ci_logical_time e > HUMAN_CENTERED_MAX_SAFE_WIRE_INTEGER \<or>
         ci_schema_version e \<noteq> HUMAN_CENTERED_SCHEMA_VERSION
      then Err HE_InvalidContract else Ok ())"

text \<open>\<open>new\<close> mints the event identifier (\<open>minted_id\<close>) and sorts the roles.\<close>

definition CanonicalInputEventV1_new ::
  "uuid \<Rightarrow> uuid \<Rightarrow> uuid \<Rightarrow> SourceActorV1 \<Rightarrow> ReferenceV1 \<Rightarrow> SemanticRoleV1 \<Rightarrow> SemanticRoleV1 list \<Rightarrow> ReferenceV1 \<Rightarrow>
   string \<Rightarrow> ReferenceV1 \<Rightarrow> u64 \<Rightarrow> (HumanCenteredProtocolError, CanonicalInputEventV1) result" where
  "CanonicalInputEventV1_new minted_id run_id turn_id source_actor actor_ref primary_semantic_role semantic_roles
       content_ref content_digest correlation_ref logical_time =
     (let value = \<lparr>ci_event_id = minted_id, ci_run_id = run_id, ci_turn_id = turn_id,
        ci_source_actor = source_actor, ci_actor_ref = actor_ref,
        ci_primary_semantic_role = primary_semantic_role, ci_semantic_roles = sort_dedup semantic_roles,
        ci_content_ref = content_ref, ci_content_digest = content_digest,
        ci_correlation_ref = correlation_ref, ci_logical_time = logical_time,
        ci_schema_version = HUMAN_CENTERED_SCHEMA_VERSION\<rparr> in
      and_then (CanonicalInputEventV1_validate value) (\<lambda>_. Ok value))"

section \<open>Guards\<close>

record IntentFastPathFactsV1 =
  fp_deterministic_command_match :: bool
  fp_required_parameters_complete :: bool
  fp_ambiguity_present :: bool
  fp_authority_context_valid :: bool
  fp_policy_allows_request :: bool
  fp_impact_level :: ImpactLevelV1
  fp_reversible :: bool
  fp_depends_on_human_model :: bool

datatype IntentFastPathOutcomeV1 = FO_AllowFastPath | FO_Unknown | FO_Block

record IntentFastPathDecisionV1 =
  fd_outcome :: IntentFastPathOutcomeV1
  fd_reason_codes :: "string list"
  fd_rule_version :: u64

text \<open>Reasons are pushed in the order of the checks.\<close>

fun reasons_of :: "(bool \<times> string) list \<Rightarrow> string list" where
  "reasons_of [] = []"
| "reasons_of ((condition, reason) # rest) = (if condition then reason # reasons_of rest else reasons_of rest)"

definition evaluate_intent_fast_path :: "IntentFastPathFactsV1 \<Rightarrow> IntentFastPathDecisionV1" where
  "evaluate_intent_fast_path facts =
     (if \<not> fp_authority_context_valid facts \<or> \<not> fp_policy_allows_request facts
      then \<lparr>fd_outcome = FO_Block,
        fd_reason_codes = reasons_of [
          (\<not> fp_authority_context_valid facts, ''authority_context_invalid''),
          (\<not> fp_policy_allows_request facts, ''policy_denied'')],
        fd_rule_version = HUMAN_CENTERED_RULE_VERSION\<rparr>
      else if fp_deterministic_command_match facts \<and> fp_required_parameters_complete facts \<and>
        \<not> fp_ambiguity_present facts \<and> fp_impact_level facts = IL_Low \<and> fp_reversible facts \<and>
        \<not> fp_depends_on_human_model facts
      then \<lparr>fd_outcome = FO_AllowFastPath, fd_reason_codes = [''all_fast_path_conditions_satisfied''],
        fd_rule_version = HUMAN_CENTERED_RULE_VERSION\<rparr>
      else \<lparr>fd_outcome = FO_Unknown,
        fd_reason_codes = reasons_of [
          (\<not> fp_deterministic_command_match facts, ''no_deterministic_command_match''),
          (\<not> fp_required_parameters_complete facts, ''parameters_incomplete''),
          (fp_ambiguity_present facts, ''ambiguity_present''),
          (fp_impact_level facts \<noteq> IL_Low, ''impact_above_low''),
          (\<not> fp_reversible facts, ''operation_not_reversible''),
          (fp_depends_on_human_model facts, ''human_model_dependency_present'')],
        fd_rule_version = HUMAN_CENTERED_RULE_VERSION\<rparr>)"

record DecisionNecessityFactsV1 =
  dn_multiple_viable_options :: bool
  dn_material_tradeoffs :: bool
  dn_evidence_conflict :: bool
  dn_impact_level :: ImpactLevelV1
  dn_irreversible_result :: bool
  dn_affects_long_term_goal :: bool
  dn_host_user_interest_conflict :: bool
  dn_simple_lookup :: bool
  dn_unique_legal_operation :: bool
  dn_user_choice_already_explicit :: bool

datatype DecisionNecessityOutcomeV1 = DN_NotRequired | DN_Required | DN_Unknown

record DecisionNecessityDecisionV1 =
  dd_outcome :: DecisionNecessityOutcomeV1
  dd_enters_decision_runtime :: bool
  dd_reason_codes :: "string list"
  dd_rule_version :: u64

definition decision_required :: "DecisionNecessityFactsV1 \<Rightarrow> bool" where
  "decision_required facts \<longleftrightarrow>
     dn_multiple_viable_options facts \<or> dn_material_tradeoffs facts \<or> dn_evidence_conflict facts \<or>
     ImpactLevelV1_rank (dn_impact_level facts) \<ge> ImpactLevelV1_rank IL_High \<or>
     dn_irreversible_result facts \<or> dn_affects_long_term_goal facts \<or> dn_host_user_interest_conflict facts"

definition evaluate_decision_necessity :: "DecisionNecessityFactsV1 \<Rightarrow> DecisionNecessityDecisionV1" where
  "evaluate_decision_necessity facts =
     (if decision_required facts
      then \<lparr>dd_outcome = DN_Required, dd_enters_decision_runtime = True,
        dd_reason_codes = reasons_of [
          (dn_multiple_viable_options facts, ''multiple_viable_options''),
          (dn_material_tradeoffs facts, ''material_tradeoffs''),
          (dn_evidence_conflict facts, ''evidence_conflict''),
          (ImpactLevelV1_rank (dn_impact_level facts) \<ge> ImpactLevelV1_rank IL_High, ''high_impact''),
          (dn_irreversible_result facts, ''irreversible_result''),
          (dn_affects_long_term_goal facts, ''long_term_goal_affected''),
          (dn_host_user_interest_conflict facts, ''host_user_interest_conflict'')],
        dd_rule_version = HUMAN_CENTERED_RULE_VERSION\<rparr>
      else if dn_simple_lookup facts \<or> dn_unique_legal_operation facts \<or> dn_user_choice_already_explicit facts
      then \<lparr>dd_outcome = DN_NotRequired, dd_enters_decision_runtime = False,
        dd_reason_codes = [''no_material_decision_remains''], dd_rule_version = HUMAN_CENTERED_RULE_VERSION\<rparr>
      else \<lparr>dd_outcome = DN_Unknown, dd_enters_decision_runtime = True,
        dd_reason_codes = [''insufficient_facts_conservative_entry''],
        dd_rule_version = HUMAN_CENTERED_RULE_VERSION\<rparr>)"

record TurnCoordinationFactsV1 =
  tc_response_planned :: bool
  tc_action_planned :: bool
  tc_explicit_confirmation_requested :: bool
  tc_authorization_required :: bool
  tc_action_is_read_only :: bool
  tc_long_running :: bool
  tc_stream_progress :: bool
  tc_safe_to_parallelize :: bool

definition select_turn_coordination_mode ::
  "TurnCoordinationFactsV1 \<Rightarrow> (HumanCenteredProtocolError, TurnCoordinationModeV1) result" where
  "select_turn_coordination_mode facts =
     (if \<not> tc_response_planned facts then Err HE_InvalidContract
      else if \<not> tc_action_planned facts then Ok TM_RespondOnly
      else if tc_explicit_confirmation_requested facts \<or> tc_authorization_required facts
      then Ok TM_RespondThenConfirmThenAct
      else if tc_stream_progress facts then Ok TM_StreamProgressThenFinal
      else if tc_long_running facts then Ok TM_AcknowledgeThenRun
      else if tc_action_is_read_only facts \<and> tc_safe_to_parallelize facts then Ok TM_Parallel
      else Ok TM_RespondThenAct)"

section \<open>The assessment kernel\<close>

record InteractionAssessmentRequestV1 =
  rq_input :: CanonicalInputEventV1
  rq_fast_path_facts :: IntentFastPathFactsV1
  rq_decision_facts :: DecisionNecessityFactsV1
  rq_coordination_facts :: TurnCoordinationFactsV1

datatype ActionPlanningPostureV1 = AP_None | AP_Blocked | AP_Planned | AP_WaitingAuthorization

record InteractionAssessmentV1 =
  as_schema_version :: u16
  as_fast_path :: IntentFastPathDecisionV1
  as_decision_necessity :: DecisionNecessityDecisionV1
  as_coordination_mode :: TurnCoordinationModeV1
  as_action_posture :: ActionPlanningPostureV1
  as_next_run_state :: InteractionRunStateV1

definition validate_assessment_facts ::
  "InteractionAssessmentRequestV1 \<Rightarrow> (HumanCenteredProtocolError, unit) result" where
  "validate_assessment_facts request =
     (let coordination = rq_coordination_facts request in
      if fp_impact_level (rq_fast_path_facts request) \<noteq> dn_impact_level (rq_decision_facts request) \<or>
         \<not> tc_response_planned coordination \<or>
         tc_authorization_required coordination \<and> \<not> tc_action_planned coordination \<or>
         tc_explicit_confirmation_requested coordination \<and> \<not> tc_action_planned coordination \<or>
         tc_action_planned coordination \<and>
           ImpactLevelV1_rank (dn_impact_level (rq_decision_facts request)) \<ge> ImpactLevelV1_rank IL_High \<and>
           \<not> tc_authorization_required coordination \<or>
         tc_safe_to_parallelize coordination \<and> \<not> tc_action_is_read_only coordination \<or>
         tc_stream_progress coordination \<and> \<not> tc_action_planned coordination
      then Err HE_InvalidContract else Ok ())"

fun mode_posture :: "TurnCoordinationModeV1 \<Rightarrow> ActionPlanningPostureV1 \<times> InteractionRunStateV1" where
  "mode_posture TM_RespondOnly = (AP_None, IR_Running)"
| "mode_posture TM_RespondThenConfirmThenAct = (AP_WaitingAuthorization, IR_WaitingAuthorization)"
| "mode_posture _ = (AP_Planned, IR_Running)"

definition InteractionRuntimeKernelV1_assess ::
  "InteractionAssessmentRequestV1 \<Rightarrow> (HumanCenteredProtocolError, InteractionAssessmentV1) result" where
  "InteractionRuntimeKernelV1_assess request =
     and_then (CanonicalInputEventV1_validate (rq_input request)) (\<lambda>_.
     and_then (validate_assessment_facts request) (\<lambda>_.
     let fast_path = evaluate_intent_fast_path (rq_fast_path_facts request);
         decision_necessity = evaluate_decision_necessity (rq_decision_facts request) in
     if fd_outcome fast_path = FO_AllowFastPath \<and> dd_enters_decision_runtime decision_necessity
     then Err HE_InvalidContract
     else if fd_outcome fast_path = FO_Block
     then Ok \<lparr>as_schema_version = HUMAN_CENTERED_SCHEMA_VERSION, as_fast_path = fast_path,
       as_decision_necessity = decision_necessity, as_coordination_mode = TM_RespondOnly,
       as_action_posture = AP_Blocked, as_next_run_state = IR_Rejected\<rparr>
     else
     and_then (select_turn_coordination_mode (rq_coordination_facts request)) (\<lambda>coordination_mode.
     let (action_posture, next_run_state) = mode_posture coordination_mode in
     Ok \<lparr>as_schema_version = HUMAN_CENTERED_SCHEMA_VERSION, as_fast_path = fast_path,
       as_decision_necessity = decision_necessity, as_coordination_mode = coordination_mode,
       as_action_posture = action_posture, as_next_run_state = next_run_state\<rparr>)))"

section \<open>Lemmas\<close>

lemma fast_path_outcome:
  "fd_outcome (evaluate_intent_fast_path f) = FO_Block \<longleftrightarrow>
     \<not> (fp_authority_context_valid f \<and> fp_policy_allows_request f)"
  "fd_outcome (evaluate_intent_fast_path f) = FO_AllowFastPath \<Longrightarrow>
     fp_impact_level f = IL_Low \<and> fp_reversible f \<and> \<not> fp_ambiguity_present f \<and> \<not> fp_depends_on_human_model f"
  by (simp_all add: evaluate_intent_fast_path_def split: if_splits)

lemma decision_required_enters:
  "decision_required d \<Longrightarrow> dd_enters_decision_runtime (evaluate_decision_necessity d)"
  by (simp add: evaluate_decision_necessity_def)

lemma select_mode_Ok:
  assumes "select_turn_coordination_mode c = Ok mode"
  shows "mode = TM_RespondThenConfirmThenAct \<longleftrightarrow>
      tc_action_planned c \<and> (tc_explicit_confirmation_requested c \<or> tc_authorization_required c)"
    and "mode = TM_RespondOnly \<longleftrightarrow> \<not> tc_action_planned c"
  using assms by (auto simp: select_turn_coordination_mode_def split: if_splits)

lemma mode_posture_eq:
  assumes "mode_posture mode = (posture, state)"
  shows "posture = AP_Planned \<longleftrightarrow> mode \<noteq> TM_RespondOnly \<and> mode \<noteq> TM_RespondThenConfirmThenAct"
    and "posture = AP_WaitingAuthorization \<longleftrightarrow> mode = TM_RespondThenConfirmThenAct"
    and "state = IR_WaitingAuthorization \<longleftrightarrow> mode = TM_RespondThenConfirmThenAct"
    and "posture \<noteq> AP_Blocked" and "state \<noteq> IR_Rejected"
  using assms by (cases mode; auto)+

lemma assess_cases:
  assumes "InteractionRuntimeKernelV1_assess request = Ok a"
  shows "validate_assessment_facts request = Ok ()"
    and "as_fast_path a = evaluate_intent_fast_path (rq_fast_path_facts request)"
    and "as_decision_necessity a = evaluate_decision_necessity (rq_decision_facts request)"
    and "\<not> (fd_outcome (as_fast_path a) = FO_AllowFastPath \<and> dd_enters_decision_runtime (as_decision_necessity a))"
    and "fd_outcome (as_fast_path a) = FO_Block \<and> as_coordination_mode a = TM_RespondOnly \<and>
        as_action_posture a = AP_Blocked \<and> as_next_run_state a = IR_Rejected \<or>
      fd_outcome (as_fast_path a) \<noteq> FO_Block \<and>
        select_turn_coordination_mode (rq_coordination_facts request) = Ok (as_coordination_mode a) \<and>
        mode_posture (as_coordination_mode a) = (as_action_posture a, as_next_run_state a)"
  using assms
  by (auto simp: InteractionRuntimeKernelV1_assess_def Let_def and_then_eq_Ok case_prod_unfold
      split: if_splits dest!: sym [where t = a])

section \<open>Properties\<close>

definition sample_request :: InteractionAssessmentRequestV1 where
  "sample_request = \<lparr>
     rq_input = \<lparr>ci_event_id = 81, ci_run_id = 62, ci_turn_id = 63, ci_source_actor = SA_User,
       ci_actor_ref = ''actor:a'', ci_primary_semantic_role = SR_Command, ci_semantic_roles = [SR_Command],
       ci_content_ref = ''content:c'', ci_content_digest = ''sha256:'' @ replicate 64 (CHR ''a''),
       ci_correlation_ref = ''correlation:c'', ci_logical_time = 5, ci_schema_version = 1\<rparr>,
     rq_fast_path_facts = \<lparr>fp_deterministic_command_match = True, fp_required_parameters_complete = True,
       fp_ambiguity_present = False, fp_authority_context_valid = True, fp_policy_allows_request = True,
       fp_impact_level = IL_High, fp_reversible = True, fp_depends_on_human_model = False\<rparr>,
     rq_decision_facts = \<lparr>dn_multiple_viable_options = False, dn_material_tradeoffs = False,
       dn_evidence_conflict = False, dn_impact_level = IL_High, dn_irreversible_result = False,
       dn_affects_long_term_goal = False, dn_host_user_interest_conflict = False, dn_simple_lookup = True,
       dn_unique_legal_operation = False, dn_user_choice_already_explicit = False\<rparr>,
     rq_coordination_facts = \<lparr>tc_response_planned = True, tc_action_planned = True,
       tc_explicit_confirmation_requested = False, tc_authorization_required = True,
       tc_action_is_read_only = False, tc_long_running = False, tc_stream_progress = False,
       tc_safe_to_parallelize = False\<rparr>\<rparr>"

lemma sample_request_assessed: "\<exists>a. InteractionRuntimeKernelV1_assess sample_request = Ok a"
proof -
  have "\<not> is_err (InteractionRuntimeKernelV1_assess sample_request)" by code_simp
  then show ?thesis by (simp add: is_err_iff)
qed

text \<open>
  C37: What an assessment may recommend. An action is planned without a confirmation only when the authority
  context is valid, the policy allows the request, nobody asked for a confirmation or an authorization and the
  impact is below high; every other planned action of an allowed request waits for an authorization. A
  request that is not allowed is rejected and nothing is planned. The fast path is granted only for
  low-impact reversible requests that are unambiguous and need no decision.
\<close>

theorem assessment_is_conservative:
  assumes "InteractionRuntimeKernelV1_assess request = Ok a"
  defines "f \<equiv> rq_fast_path_facts request" and "d \<equiv> rq_decision_facts request"
    and "c \<equiv> rq_coordination_facts request"
  shows "(as_action_posture a = AP_Blocked \<longleftrightarrow> \<not> (fp_authority_context_valid f \<and> fp_policy_allows_request f)) \<and>
    (as_action_posture a = AP_Blocked \<longleftrightarrow> as_next_run_state a = IR_Rejected) \<and>
    (as_action_posture a = AP_Planned \<longleftrightarrow> fp_authority_context_valid f \<and> fp_policy_allows_request f \<and>
       tc_action_planned c \<and> \<not> tc_explicit_confirmation_requested c \<and> \<not> tc_authorization_required c) \<and>
    (as_action_posture a = AP_WaitingAuthorization \<longleftrightarrow> as_next_run_state a = IR_WaitingAuthorization) \<and>
    (as_action_posture a = AP_WaitingAuthorization \<longleftrightarrow> as_coordination_mode a = TM_RespondThenConfirmThenAct) \<and>
    (ImpactLevelV1_rank (dn_impact_level d) \<ge> ImpactLevelV1_rank IL_High \<longrightarrow>
       as_action_posture a \<noteq> AP_Planned \<and> dd_enters_decision_runtime (as_decision_necessity a)) \<and>
    (fd_outcome (as_fast_path a) = FO_AllowFastPath \<longrightarrow>
       fp_impact_level f = IL_Low \<and> dn_impact_level d = IL_Low \<and> fp_reversible f \<and>
       \<not> fp_ambiguity_present f \<and> \<not> fp_depends_on_human_model f \<and>
       \<not> dn_irreversible_result d \<and> \<not> dd_enters_decision_runtime (as_decision_necessity a))"
proof -
  note r = assess_cases [OF assms(1), folded f_def d_def c_def]
  have block: "as_action_posture a = AP_Blocked \<longleftrightarrow> fd_outcome (as_fast_path a) = FO_Block"
    "as_next_run_state a = IR_Rejected \<longleftrightarrow> fd_outcome (as_fast_path a) = FO_Block"
    using r(5) mode_posture_eq(4,5) by metis+
  have wait: "as_action_posture a = AP_WaitingAuthorization \<longleftrightarrow> as_coordination_mode a = TM_RespondThenConfirmThenAct"
    "as_next_run_state a = IR_WaitingAuthorization \<longleftrightarrow> as_coordination_mode a = TM_RespondThenConfirmThenAct"
    using r(5) mode_posture_eq(2,3) by (metis ActionPlanningPostureV1.distinct InteractionRunStateV1.distinct
        TurnCoordinationModeV1.distinct)+
  have planned: "as_action_posture a = AP_Planned \<longleftrightarrow> fd_outcome (as_fast_path a) \<noteq> FO_Block \<and>
      tc_action_planned c \<and> \<not> tc_explicit_confirmation_requested c \<and> \<not> tc_authorization_required c"
    using r(5)
  proof
    assume m: "fd_outcome (as_fast_path a) \<noteq> FO_Block \<and>
      select_turn_coordination_mode c = Ok (as_coordination_mode a) \<and>
      mode_posture (as_coordination_mode a) = (as_action_posture a, as_next_run_state a)"
    then show ?thesis
      using mode_posture_eq(1) [of "as_coordination_mode a"] select_mode_Ok [of c "as_coordination_mode a"] by metis
  qed simp
  have valid: "fp_impact_level f = dn_impact_level d"
    "ImpactLevelV1_rank (dn_impact_level d) \<ge> ImpactLevelV1_rank IL_High \<Longrightarrow> tc_action_planned c \<Longrightarrow>
       tc_authorization_required c"
    using r(1) by (auto simp: validate_assessment_facts_def Let_def f_def d_def c_def split: if_splits)
  have high: "ImpactLevelV1_rank (dn_impact_level d) \<ge> ImpactLevelV1_rank IL_High \<Longrightarrow>
      as_action_posture a \<noteq> AP_Planned \<and> dd_enters_decision_runtime (as_decision_necessity a)"
    using planned valid(2) decision_required_enters [of d] r(3) by (auto simp: decision_required_def)
  have fast: "fd_outcome (as_fast_path a) = FO_AllowFastPath \<Longrightarrow> \<not> dn_irreversible_result d"
    using r(3,4) decision_required_enters [of d] by (auto simp: decision_required_def)
  show ?thesis
    using block wait planned valid(1) high fast r(2,4) fast_path_outcome [of f] by metis
qed

lemma assessment_is_conservative_witness:
  "\<exists>a. InteractionRuntimeKernelV1_assess sample_request = Ok a \<and> as_action_posture a = AP_WaitingAuthorization"
proof -
  obtain a where a: "InteractionRuntimeKernelV1_assess sample_request = Ok a"
    using sample_request_assessed by blast
  have "as_coordination_mode a = TM_RespondThenConfirmThenAct"
    using a by (auto simp: InteractionRuntimeKernelV1_assess_def Let_def and_then_eq_Ok
        select_turn_coordination_mode_def evaluate_intent_fast_path_def evaluate_decision_necessity_def
        decision_required_def sample_request_def split: if_splits)
  with a assessment_is_conservative [OF a] show ?thesis by blast
qed

end
