(* ===== verification/IDR_Orchestrator.thy ===== *)
theory IDR_Orchestrator
  imports IDR_Assessment "HOL-Library.Code_Target_Nat"
begin

text \<open>
  The step records of the orchestrator (\<open>idr-runtime/src/orchestrator.rs\<close>): states, wait conditions, the
  retry policy, validation and the transition. \<open>transition\<close> works on \<open>&mut self\<close> and assigns before it
  validates, so its model returns the record in both cases.
\<close>

section \<open>Records and states\<close>

datatype OrchestrationStepKindV1 =
    OK_InputAdmission | OK_ContextSnapshot | OK_IntentAssessment | OK_Decision | OK_TurnPlanning
  | OK_ResponseAdmission | OK_ActionAdmission | OK_Execution | OK_OutcomeObservation | OK_HumanModelCandidate

datatype OrchestrationStepStateV1 =
    OS_Pending | OS_Running | OS_WaitingInput | OS_WaitingAuthorization | OS_WaitingDependency
  | OS_Succeeded | OS_Failed | OS_Cancelled | OS_TimedOut | OS_Invalidated

definition step_state_may_transition_to :: "OrchestrationStepStateV1 \<Rightarrow> OrchestrationStepStateV1 \<Rightarrow> bool" where
  "step_state_may_transition_to s next \<longleftrightarrow>
     s = OS_Pending \<and> next \<in> {OS_Running, OS_Cancelled, OS_TimedOut, OS_Invalidated} \<or>
     s = OS_Running \<and> next \<in> {OS_WaitingInput, OS_WaitingAuthorization, OS_WaitingDependency, OS_Succeeded,
       OS_Failed, OS_Cancelled, OS_TimedOut, OS_Invalidated} \<or>
     s \<in> {OS_WaitingInput, OS_WaitingAuthorization, OS_WaitingDependency} \<and>
       next \<in> {OS_Running, OS_Failed, OS_Cancelled, OS_TimedOut, OS_Invalidated}"

definition step_state_terminal :: "OrchestrationStepStateV1 \<Rightarrow> bool" where
  "step_state_terminal s \<longleftrightarrow> s \<in> {OS_Succeeded, OS_Failed, OS_Cancelled, OS_TimedOut, OS_Invalidated}"

lemma live_step_can_be_cancelled: "\<not> step_state_terminal s \<Longrightarrow> step_state_may_transition_to s OS_Cancelled"
  by (cases s) (simp_all add: step_state_terminal_def step_state_may_transition_to_def)

interpretation step_states: state_table step_state_may_transition_to step_state_terminal
proof
  fix s t
  show "step_state_terminal s \<Longrightarrow> \<not> step_state_may_transition_to s t"
    by (auto simp: step_state_terminal_def step_state_may_transition_to_def)
  assume "\<not> step_state_terminal s"
  then have "step_state_terminal OS_Cancelled \<and> step_state_may_transition_to s OS_Cancelled"
    by (simp add: live_step_can_be_cancelled) (simp add: step_state_terminal_def)
  then show "\<exists>t. step_state_terminal t \<and> step_state_may_transition_to s t" by blast
qed

datatype WaitConditionV1 =
    WC_UserInput ReferenceV1
  | WC_Authorization HumanCenteredContractRefV1
  | WC_Dependency HumanCenteredContractRefV1
  | WC_ProviderReconciliation ReferenceV1

record RetryPolicyV1 =
  ry_maximum_attempts :: u32
  ry_initial_backoff_millis :: u64
  ry_maximum_backoff_millis :: u64

definition RetryPolicyV1_validate :: "RetryPolicyV1 \<Rightarrow> (HumanCenteredProtocolError, unit) result" where
  "RetryPolicyV1_validate p =
     (if ry_maximum_attempts p = 0 \<or> ry_initial_backoff_millis p = 0 \<or>
         ry_maximum_backoff_millis p < ry_initial_backoff_millis p
      then Err HE_InvalidContract else Ok ())"

record OrchestrationStepRecordV1 =
  os_step_id :: uuid
  os_run_id :: uuid
  os_turn_id :: uuid
  os_step_kind :: OrchestrationStepKindV1
  os_state :: OrchestrationStepStateV1
  os_attempt :: u32
  os_dependency_step_ids :: "uuid list"
  os_wait_condition :: "WaitConditionV1 option"
  os_retry_policy :: RetryPolicyV1
  os_causation_ref :: ReferenceV1
  os_correlation_ref :: ReferenceV1

definition requires_wait :: "OrchestrationStepStateV1 \<Rightarrow> bool" where
  "requires_wait s \<longleftrightarrow> s \<in> {OS_WaitingInput, OS_WaitingAuthorization, OS_WaitingDependency}"

definition wait_matches_state :: "OrchestrationStepStateV1 \<Rightarrow> WaitConditionV1 option \<Rightarrow> bool" where
  "wait_matches_state s w =
     (case w of
        Some (WC_UserInput _) \<Rightarrow> s = OS_WaitingInput
      | Some (WC_Authorization _) \<Rightarrow> s = OS_WaitingAuthorization
      | Some (WC_Dependency _) \<Rightarrow> s = OS_WaitingDependency
      | Some (WC_ProviderReconciliation _) \<Rightarrow> s = OS_WaitingDependency
      | None \<Rightarrow> False)"

definition OrchestrationStepRecordV1_validate ::
  "OrchestrationStepRecordV1 \<Rightarrow> (HumanCenteredProtocolError, unit) result" where
  "OrchestrationStepRecordV1_validate r =
     and_then (RetryPolicyV1_validate (os_retry_policy r)) (\<lambda>_.
     let dependencies = sort_dedup (os_dependency_step_ids r);
         waiting = requires_wait (os_state r) in
     if os_step_id r = 0 \<or> human_id_is_empty (os_run_id r) \<or> human_id_is_empty (os_turn_id r) \<or>
        length dependencies \<noteq> length (os_dependency_step_ids r) \<or>
        os_step_id r \<in> set (os_dependency_step_ids r) \<or>
        os_attempt r > ry_maximum_attempts (os_retry_policy r) \<or>
        waiting \<noteq> (os_wait_condition r \<noteq> None) \<or>
        waiting \<and> \<not> wait_matches_state (os_state r) (os_wait_condition r) \<or>
        blank (os_causation_ref r) \<or> blank (os_correlation_ref r)
     then Err HE_InvalidContract else Ok ())"

definition OrchestrationStepRecordV1_pending ::
  "uuid \<Rightarrow> uuid \<Rightarrow> uuid \<Rightarrow> OrchestrationStepKindV1 \<Rightarrow> uuid list \<Rightarrow> RetryPolicyV1 \<Rightarrow> ReferenceV1 \<Rightarrow> ReferenceV1 \<Rightarrow>
   (HumanCenteredProtocolError, OrchestrationStepRecordV1) result" where
  "OrchestrationStepRecordV1_pending fresh_id run_id turn_id step_kind dependency_step_ids retry_policy
       causation_ref correlation_ref =
     (let value = \<lparr>os_step_id = fresh_id, os_run_id = run_id, os_turn_id = turn_id, os_step_kind = step_kind,
        os_state = OS_Pending, os_attempt = 0, os_dependency_step_ids = dependency_step_ids,
        os_wait_condition = None, os_retry_policy = retry_policy, os_causation_ref = causation_ref,
        os_correlation_ref = correlation_ref\<rparr> in
      and_then (OrchestrationStepRecordV1_validate value) (\<lambda>_. Ok value))"

text \<open>The attempt counter: checked increment and comparison with the policy, only on entry to \<open>Running\<close>.\<close>

definition next_attempt ::
  "OrchestrationStepRecordV1 \<Rightarrow> OrchestrationStepStateV1 \<Rightarrow> (HumanCenteredProtocolError, u32) result" where
  "next_attempt r next =
     (if next = OS_Running
      then and_then (ok_or (checked_add (os_attempt r) 1) HE_RevisionOverflow) (\<lambda>attempt.
        if attempt > ry_maximum_attempts (os_retry_policy r) then Err HE_InvalidTransition else Ok attempt)
      else Ok (os_attempt r))"

definition OrchestrationStepRecordV1_transition ::
  "OrchestrationStepRecordV1 \<Rightarrow> OrchestrationStepStateV1 \<Rightarrow> WaitConditionV1 option \<Rightarrow>
   OrchestrationStepRecordV1 \<times> (HumanCenteredProtocolError, unit) result" where
  "OrchestrationStepRecordV1_transition r next wait_condition =
     (if \<not> step_state_may_transition_to (os_state r) next then (r, Err HE_InvalidTransition)
      else if requires_wait next \<noteq> (wait_condition \<noteq> None) then (r, Err HE_InvalidContract)
      else case next_attempt r next of
        Err e \<Rightarrow> (r, Err e)
      | Ok attempt \<Rightarrow>
          let r' = r\<lparr>os_attempt := attempt, os_state := next, os_wait_condition := wait_condition\<rparr> in
          (r', OrchestrationStepRecordV1_validate r'))"

section \<open>Accepted transitions\<close>

definition step_accepted ::
  "OrchestrationStepRecordV1 \<Rightarrow> OrchestrationStepStateV1 \<times> WaitConditionV1 option \<Rightarrow>
   OrchestrationStepRecordV1 option" where
  "step_accepted r c =
     (case OrchestrationStepRecordV1_transition r (fst c) (snd c) of
        (r', Ok _) \<Rightarrow> Some r'
      | (r', Err _) \<Rightarrow> None)"

text \<open>A machine whose accepted steps use up a potential runs only that long.\<close>

locale exhausting_machine =
  fixes step :: "'s \<Rightarrow> 'c \<Rightarrow> 's option"
    and potential :: "'s \<Rightarrow> nat"
  assumes step_uses: "step s c = Some t \<Longrightarrow> potential t < potential s"
begin

lemma run_length: "run_steps step s cs = Some t \<Longrightarrow> length cs + potential t \<le> potential s"
  by (induction cs arbitrary: s) (fastforce split: option.splits dest: step_uses)+

end

definition attempts_left :: "OrchestrationStepRecordV1 \<Rightarrow> nat" where
  "attempts_left r = unat (ry_maximum_attempts (os_retry_policy r)) - unat (os_attempt r)"

text \<open>Each attempt allows one entry to \<open>Running\<close> and one way out of it.\<close>

definition step_potential :: "OrchestrationStepRecordV1 \<Rightarrow> nat" where
  "step_potential r =
     (if step_state_terminal (os_state r) then 0
      else if os_state r = OS_Running then 2 * attempts_left r + 2
      else 2 * attempts_left r + 1)"

lemma step_accepted_Some:
  "step_accepted r c = Some r' \<longleftrightarrow>
     step_state_may_transition_to (os_state r) (fst c) \<and> requires_wait (fst c) = (snd c \<noteq> None) \<and>
     (\<exists>attempt. next_attempt r (fst c) = Ok attempt \<and>
        r' = r\<lparr>os_attempt := attempt, os_state := fst c, os_wait_condition := snd c\<rparr>) \<and>
     OrchestrationStepRecordV1_validate r' = Ok ()"
  by (auto simp: step_accepted_def OrchestrationStepRecordV1_transition_def Let_def split: result.splits if_splits)

lemma next_attempt_Ok:
  "next_attempt r next = Ok attempt \<Longrightarrow>
     unat attempt = unat (os_attempt r) + (if next = OS_Running then 1 else 0) \<and>
     (next = OS_Running \<longrightarrow> unat (os_attempt r) < unat (ry_maximum_attempts (os_retry_policy r)))"
  by (auto simp: next_attempt_def and_then_eq_Ok ok_or_eq_Ok word_less_nat_alt
      dest!: checked_add_1_unat split: if_splits)

interpretation steps: exhausting_machine step_accepted step_potential
proof
  fix r c r'
  assume "step_accepted r c = Some r'"
  then obtain attempt where a: "step_state_may_transition_to (os_state r) (fst c)"
    "next_attempt r (fst c) = Ok attempt" "os_state r' = fst c" "os_attempt r' = attempt"
    "os_retry_policy r' = os_retry_policy r"
    by (auto simp: step_accepted_Some)
  show "step_potential r' < step_potential r"
    using a(1) next_attempt_Ok [OF a(2)] a(3-5)
    by (auto simp: step_potential_def step_state_may_transition_to_def step_state_terminal_def attempts_left_def
        split: if_splits)
qed

interpretation valid_steps: invariant_machine step_accepted "\<lambda>r. OrchestrationStepRecordV1_validate r = Ok ()"
  by unfold_locales (simp add: step_accepted_Some)

definition attempts_started :: "(OrchestrationStepStateV1 \<times> WaitConditionV1 option) list \<Rightarrow> nat" where
  "attempts_started cs = length (filter (\<lambda>c. fst c = OS_Running) cs)"

lemma run_attempts:
  "run_steps step_accepted r cs = Some r' \<Longrightarrow>
     unat (os_attempt r') = unat (os_attempt r) + attempts_started cs \<and> os_retry_policy r' = os_retry_policy r \<and>
     os_step_id r' = os_step_id r \<and> os_run_id r' = os_run_id r \<and> os_turn_id r' = os_turn_id r"
proof (induction cs arbitrary: r)
  case (Cons c cs)
  then obtain s where s: "step_accepted r c = Some s" "run_steps step_accepted s cs = Some r'"
    by (auto split: option.splits)
  from s(1) obtain attempt where "next_attempt r (fst c) = Ok attempt"
    "s = r\<lparr>os_attempt := attempt, os_state := fst c, os_wait_condition := snd c\<rparr>"
    by (auto simp: step_accepted_Some)
  with next_attempt_Ok Cons.IH [OF s(2)] show ?case by (fastforce simp: attempts_started_def)
qed (simp add: attempts_started_def)

lemma validate_step_Ok:
  "OrchestrationStepRecordV1_validate r = Ok () \<Longrightarrow>
     os_attempt r \<le> ry_maximum_attempts (os_retry_policy r) \<and>
     (requires_wait (os_state r) \<longleftrightarrow> os_wait_condition r \<noteq> None) \<and>
     (requires_wait (os_state r) \<longrightarrow> wait_matches_state (os_state r) (os_wait_condition r))"
  by (auto simp: OrchestrationStepRecordV1_validate_def and_then_eq_Ok Let_def not_less split: if_splits)

lemma validate_step_close:
  "OrchestrationStepRecordV1_validate r = Ok () \<Longrightarrow> \<not> requires_wait s \<Longrightarrow>
     OrchestrationStepRecordV1_validate (r\<lparr>os_state := s, os_wait_condition := None\<rparr>) = Ok ()"
  by (auto simp: OrchestrationStepRecordV1_validate_def and_then_eq_Ok Let_def not_less split: if_splits)

lemma cancel_accepted:
  assumes "OrchestrationStepRecordV1_validate r = Ok ()" "\<not> step_state_terminal (os_state r)"
  shows "step_accepted r (OS_Cancelled, None) = Some (r\<lparr>os_state := OS_Cancelled, os_wait_condition := None\<rparr>)"
  using live_step_can_be_cancelled [OF assms(2)] validate_step_close [OF assms(1), of OS_Cancelled]
  by (simp add: step_accepted_Some next_attempt_def requires_wait_def)

section \<open>Properties\<close>

definition sample_policy :: RetryPolicyV1 where
  "sample_policy = \<lparr>ry_maximum_attempts = 2, ry_initial_backoff_millis = 100, ry_maximum_backoff_millis = 1000\<rparr>"

definition sample_step :: "OrchestrationStepStateV1 \<Rightarrow> u32 \<Rightarrow> WaitConditionV1 option \<Rightarrow> OrchestrationStepRecordV1" where
  "sample_step s n w = \<lparr>os_step_id = 91, os_run_id = 62, os_turn_id = 63, os_step_kind = OK_ActionAdmission,
     os_state = s, os_attempt = n, os_dependency_step_ids = [], os_wait_condition = w,
     os_retry_policy = sample_policy, os_causation_ref = ''cause:c'', os_correlation_ref = ''correlation:c''\<rparr>"

text \<open>
  C38: Bounded attempts. Over any sequence of accepted transitions of a step created by \<open>pending\<close>, the attempt
  counter counts the entries to \<open>Running\<close> and never exceeds the maximum of its retry policy, the record stays
  valid, its wait condition always fits its state, and the sequence is no longer than one transition per entry
  to \<open>Running\<close>, one per way out of it and one to leave the initial state.
\<close>

theorem step_attempts_bounded:
  assumes "OrchestrationStepRecordV1_pending fresh_id run_id turn_id kind dependencies policy causation correlation = Ok r"
    and "run_steps step_accepted r cs = Some r'"
  shows "OrchestrationStepRecordV1_validate r' = Ok () \<and> unat (os_attempt r') = attempts_started cs \<and>
    attempts_started cs \<le> unat (ry_maximum_attempts policy) \<and>
    length cs \<le> 2 * unat (ry_maximum_attempts policy) + 1 \<and>
    (requires_wait (os_state r') \<longleftrightarrow> os_wait_condition r' \<noteq> None) \<and>
    (requires_wait (os_state r') \<longrightarrow> wait_matches_state (os_state r') (os_wait_condition r')) \<and>
    os_step_id r' = fresh_id \<and> os_run_id r' = run_id \<and> os_turn_id r' = turn_id"
proof -
  have r: "OrchestrationStepRecordV1_validate r = Ok ()" "os_attempt r = 0" "os_retry_policy r = policy"
    "os_state r = OS_Pending" "os_step_id r = fresh_id" "os_run_id r = run_id" "os_turn_id r = turn_id"
    using assms(1) by (auto simp: OrchestrationStepRecordV1_pending_def Let_def and_then_eq_Ok)
  have "step_potential r = 2 * unat (ry_maximum_attempts policy) + 1"
    using r by (simp add: step_potential_def step_state_terminal_def attempts_left_def)
  moreover have v: "OrchestrationStepRecordV1_validate r' = Ok ()" by (rule valid_steps.run_inv [OF r(1) assms(2)])
  ultimately show ?thesis
    using steps.run_length [OF assms(2)] run_attempts [OF assms(2)] validate_step_Ok [OF v] r
    by (simp add: word_le_nat_alt)
qed

lemma step_attempts_bounded_witness:
  "\<exists>r'. run_steps step_accepted (sample_step OS_Pending 0 None)
     [(OS_Running, None), (OS_WaitingInput, Some (WC_UserInput ''input:i'')), (OS_Running, None)] = Some r' \<and>
     os_attempt r' = 2 \<and> step_accepted r' (OS_WaitingInput, Some (WC_UserInput ''input:i'')) \<noteq> None \<and>
     (\<forall>cs r''. run_steps step_accepted (sample_step OS_Pending 0 None) cs = Some r'' \<longrightarrow> length cs \<le> 5)"
proof -
  have p: "OrchestrationStepRecordV1_pending 91 62 63 OK_ActionAdmission [] sample_policy ''cause:c'' ''correlation:c'' =
      Ok (sample_step OS_Pending 0 None)" by code_simp
  have "length cs \<le> 5" if "run_steps step_accepted (sample_step OS_Pending 0 None) cs = Some r''" for cs r''
    using step_attempts_bounded [OF p that] by (simp add: sample_policy_def)
  moreover have "run_steps step_accepted (sample_step OS_Pending 0 None)
     [(OS_Running, None), (OS_WaitingInput, Some (WC_UserInput ''input:i'')), (OS_Running, None)] =
     Some (sample_step OS_Running 2 None)" by code_simp
  moreover have "step_accepted (sample_step OS_Running 2 None) (OS_WaitingInput, Some (WC_UserInput ''input:i'')) \<noteq> None"
    by code_simp
  ultimately show ?thesis by (auto simp: sample_step_def)
qed

text \<open>
  C39: No valid step is stuck and none runs forever. A valid record has an accepted transition exactly when its
  state is not terminal, and however its accepted transitions are chosen, after boundedly many no further one
  is possible and the state is terminal.
\<close>

theorem step_always_finishes:
  assumes "OrchestrationStepRecordV1_validate r = Ok ()"
  shows "((\<exists>c. step_accepted r c \<noteq> None) \<longleftrightarrow> \<not> step_state_terminal (os_state r)) \<and>
    (\<exists>cs r'. run_steps step_accepted r cs = Some r' \<and> step_state_terminal (os_state r')) \<and>
    (\<forall>cs r'. run_steps step_accepted r cs = Some r' \<longrightarrow>
       length cs \<le> step_potential r \<and> (length cs = step_potential r \<longrightarrow> step_state_terminal (os_state r')))"
proof (intro conjI allI impI)
  let ?done = "r\<lparr>os_state := OS_Cancelled, os_wait_condition := None\<rparr>"
  have dead: "step_accepted r c = None" if "step_state_terminal (os_state r)" for r c
    using step_states.terminal_final [OF that]
    by (auto simp: step_accepted_def OrchestrationStepRecordV1_transition_def)
  show "(\<exists>c. step_accepted r c \<noteq> None) \<longleftrightarrow> \<not> step_state_terminal (os_state r)"
    using dead cancel_accepted [OF assms] by (metis option.distinct(1))
  show "\<exists>cs r'. run_steps step_accepted r cs = Some r' \<and> step_state_terminal (os_state r')"
  proof (cases "step_state_terminal (os_state r)")
    case True
    then have "run_steps step_accepted r [] = Some r" by simp
    with True show ?thesis by blast
  next
    case False
    with cancel_accepted [OF assms] have "run_steps step_accepted r [(OS_Cancelled, None)] = Some ?done" by simp
    moreover have "step_state_terminal (os_state ?done)" by (simp add: step_state_terminal_def)
    ultimately show ?thesis by blast
  qed
  fix cs r'
  assume run: "run_steps step_accepted r cs = Some r'"
  show "length cs \<le> step_potential r" using steps.run_length [OF run] by simp
  assume "length cs = step_potential r"
  with steps.run_length [OF run] have "step_potential r' = 0" by simp
  then show "step_state_terminal (os_state r')" by (simp add: step_potential_def split: if_splits)
qed

lemma step_always_finishes_witness:
  "(\<exists>c. step_accepted (sample_step OS_WaitingInput 2 (Some (WC_UserInput ''input:i''))) c \<noteq> None) \<and>
   (\<forall>w. step_accepted (sample_step OS_WaitingInput 2 (Some (WC_UserInput ''input:i''))) (OS_Running, w) = None)"
proof -
  let ?r = "sample_step OS_WaitingInput 2 (Some (WC_UserInput ''input:i''))"
  have v: "OrchestrationStepRecordV1_validate ?r = Ok ()" by code_simp
  have "\<not> step_state_terminal (os_state ?r)" by code_simp
  moreover have "next_attempt ?r OS_Running = Err HE_InvalidTransition" by code_simp
  then have "step_accepted ?r (OS_Running, w) = None" for w
    by (simp add: step_accepted_def OrchestrationStepRecordV1_transition_def)
  ultimately show ?thesis using step_always_finishes [OF v] by blast
qed

text \<open>
  C40: What a rejected transition leaves behind. Every rejection of a valid record leaves it unchanged, except
  one: a wait whose condition does not fit the waiting state is reported as an error although the record has
  moved to that state, is no longer valid, and accepts the transitions of the waiting state from then on.
\<close>

theorem rejected_transition_effect:
  assumes "OrchestrationStepRecordV1_validate r = Ok ()"
    and "OrchestrationStepRecordV1_transition r next w = (r', Err e)"
  shows "r' = r \<or>
    requires_wait next \<and> w \<noteq> None \<and> \<not> wait_matches_state next w \<and> e = HE_InvalidContract \<and>
    r' = r\<lparr>os_state := next, os_wait_condition := w\<rparr> \<and>
    OrchestrationStepRecordV1_validate r' = Err HE_InvalidContract \<and>
    step_accepted r' (OS_Cancelled, None) \<noteq> None"
proof (cases "r' = r")
  case False
  with assms(2) obtain attempt where a: "step_state_may_transition_to (os_state r) next"
    "requires_wait next = (w \<noteq> None)" "next_attempt r next = Ok attempt"
    "r' = r\<lparr>os_attempt := attempt, os_state := next, os_wait_condition := w\<rparr>"
    "OrchestrationStepRecordV1_validate r' = Err e"
    by (auto simp: OrchestrationStepRecordV1_transition_def Let_def split: if_splits result.splits)
  have le: "attempt \<le> ry_maximum_attempts (os_retry_policy r)"
    using a(3) validate_step_Ok [OF assms(1)]
    by (auto simp: next_attempt_def and_then_eq_Ok split: if_splits)
  have bad: "requires_wait next \<and> \<not> wait_matches_state next w \<and> e = HE_InvalidContract"
    using a(2,4,5) le assms(1)
    by (auto simp: OrchestrationStepRecordV1_validate_def and_then_eq_Ok Let_def split: if_splits)
  then have "next \<noteq> OS_Running" by (auto simp: requires_wait_def)
  with a(3,4) have r': "r' = r\<lparr>os_state := next, os_wait_condition := w\<rparr>" by (simp add: next_attempt_def)
  have closed: "OrchestrationStepRecordV1_validate (r'\<lparr>os_state := OS_Cancelled, os_wait_condition := None\<rparr>) = Ok ()"
    using validate_step_close [OF assms(1), of OS_Cancelled] r' by (simp add: requires_wait_def)
  have "step_state_may_transition_to next OS_Cancelled"
    using bad by (intro live_step_can_be_cancelled) (auto simp: requires_wait_def step_state_terminal_def)
  with closed r' have "step_accepted r' (OS_Cancelled, None) = Some (r'\<lparr>os_state := OS_Cancelled, os_wait_condition := None\<rparr>)"
    by (simp add: step_accepted_Some next_attempt_def requires_wait_def)
  with a bad r' show ?thesis by simp
qed simp

lemma rejected_transition_effect_witness:
  "let r = sample_step OS_Running 1 None; w = Some (WC_Authorization (sample_contract_ref HK_Action 72));
     r' = sample_step OS_WaitingInput 1 w in
   OrchestrationStepRecordV1_transition r OS_WaitingInput w = (r', Err HE_InvalidContract) \<and>
   OrchestrationStepRecordV1_validate r' = Err HE_InvalidContract \<and> step_accepted r' (OS_Running, None) \<noteq> None"
proof -
  let ?r = "sample_step OS_Running 1 None" and ?w = "Some (WC_Authorization (sample_contract_ref HK_Action 72))"
  let ?r' = "sample_step OS_WaitingInput 1 ?w"
  have v: "OrchestrationStepRecordV1_validate ?r = Ok ()" by code_simp
  have t: "OrchestrationStepRecordV1_transition ?r OS_WaitingInput ?w = (?r', Err HE_InvalidContract)" by code_simp
  have "?r' \<noteq> ?r" by (simp add: sample_step_def)
  with rejected_transition_effect [OF v t] have "OrchestrationStepRecordV1_validate ?r' = Err HE_InvalidContract"
    by blast
  moreover have "step_accepted ?r' (OS_Running, None) \<noteq> None" by code_simp
  ultimately show ?thesis using t by (simp add: Let_def)
qed

end
