(* ===== verification/IDR_Proof.thy ===== *)
theory IDR_Proof
  imports IDR_Turn_Plan IDR_Production
begin

text \<open>
  The proofs of the human-centered contracts (\<open>human_centered/trust.rs\<close>): claims and the bytes an issuer
  signs, envelopes, issuer keys, the trust root and the verification of an envelope against a complete
  expectation. Hexadecimal decoding is that of \<open>IDR_Production\<close>, whose source is the same.
\<close>

section \<open>Claims\<close>

datatype ProofKindV1 =
    PF_InputAdmission | PF_ContextSnapshot | PF_IntentFastPathFacts | PF_DecisionNecessityFacts
  | PF_TurnCoordinationFacts | PF_AuthorityGrant | PF_PolicyEvaluation | PF_Capability
  | PF_HumanConfirmation | PF_DependencySnapshot | PF_OutcomeObservation | PF_ExecutionPermit
  | PF_ProviderExecutionReceipt

fun ProofKindV1_tag :: "ProofKindV1 \<Rightarrow> nat" where
  "ProofKindV1_tag PF_InputAdmission = 1"
| "ProofKindV1_tag PF_ContextSnapshot = 2"
| "ProofKindV1_tag PF_IntentFastPathFacts = 3"
| "ProofKindV1_tag PF_DecisionNecessityFacts = 4"
| "ProofKindV1_tag PF_TurnCoordinationFacts = 5"
| "ProofKindV1_tag PF_AuthorityGrant = 6"
| "ProofKindV1_tag PF_PolicyEvaluation = 7"
| "ProofKindV1_tag PF_Capability = 8"
| "ProofKindV1_tag PF_HumanConfirmation = 9"
| "ProofKindV1_tag PF_DependencySnapshot = 10"
| "ProofKindV1_tag PF_OutcomeObservation = 11"
| "ProofKindV1_tag PF_ExecutionPermit = 12"
| "ProofKindV1_tag PF_ProviderExecutionReceipt = 13"

record ProductionFeatureGatesV1 =
  fg_production_release_authorized :: bool
  fg_production_authorization_enabled :: bool
  fg_production_execution_enabled :: bool
  fg_long_term_human_model_write_enabled :: bool
  fg_aegis_production_adapter_enabled :: bool

definition feature_gates_BLOCKED :: ProductionFeatureGatesV1 where
  "feature_gates_BLOCKED = \<lparr>
     fg_production_release_authorized = False,
     fg_production_authorization_enabled = False,
     fg_production_execution_enabled = False,
     fg_long_term_human_model_write_enabled = False,
     fg_aegis_production_adapter_enabled = False\<rparr>"

definition production_trust_root_is_blocked :: "ProductionFeatureGatesV1 \<Rightarrow> bool" where
  "production_trust_root_is_blocked g \<longleftrightarrow>
     \<not> fg_production_release_authorized g \<and> \<not> fg_production_authorization_enabled g \<and>
     \<not> fg_production_execution_enabled g \<and> \<not> fg_long_term_human_model_write_enabled g \<and>
     \<not> fg_aegis_production_adapter_enabled g"

record ProofClaimsV1 =
  hp_proof_id :: uuid
  hp_proof_kind :: ProofKindV1
  hp_issuer_ref :: ReferenceV1
  hp_subject_ref :: ReferenceV1
  hp_subject_digest :: string
  hp_tenant_ref :: ReferenceV1
  hp_scope_ref :: ReferenceV1
  hp_purpose_ref :: ReferenceV1
  hp_policy_revision_ref :: ReferenceV1
  hp_issued_at :: u64
  hp_expires_at :: u64
  hp_nonce :: string
  hp_schema_version :: u16

definition ProofClaimsV1_validate :: "ProofClaimsV1 \<Rightarrow> (HumanCenteredProtocolError, unit) result" where
  "ProofClaimsV1_validate c =
     (let references = [hp_issuer_ref c, hp_subject_ref c, hp_tenant_ref c, hp_scope_ref c, hp_purpose_ref c,
        hp_policy_revision_ref c] in
      if human_id_is_empty (hp_proof_id c) \<or> list_ex blank references \<or>
         \<not> valid_digest (hp_subject_digest c) \<or> hp_issued_at c = 0 \<or> hp_expires_at c \<le> hp_issued_at c \<or>
         hp_expires_at c > HUMAN_CENTERED_MAX_SAFE_WIRE_INTEGER \<or>
         length (hp_nonce c) \<noteq> 64 \<or> \<not> valid_digest (hp_nonce c) \<or>
         hp_schema_version c \<noteq> HUMAN_CENTERED_SCHEMA_VERSION
      then Err HE_InvalidContract else Ok ())"

definition ProofClaimsV1_new ::
  "uuid \<Rightarrow> ProofKindV1 \<Rightarrow> ReferenceV1 \<Rightarrow> ReferenceV1 \<Rightarrow> string \<Rightarrow> ReferenceV1 \<Rightarrow> ReferenceV1 \<Rightarrow> ReferenceV1 \<Rightarrow>
   ReferenceV1 \<Rightarrow> u64 \<Rightarrow> u64 \<Rightarrow> string \<Rightarrow> (HumanCenteredProtocolError, ProofClaimsV1) result" where
  "ProofClaimsV1_new minted_id proof_kind issuer_ref subject_ref subject_digest tenant_ref scope_ref purpose_ref
       policy_revision_ref issued_at expires_at nonce =
     (let value = \<lparr>hp_proof_id = minted_id, hp_proof_kind = proof_kind, hp_issuer_ref = issuer_ref,
        hp_subject_ref = subject_ref, hp_subject_digest = subject_digest, hp_tenant_ref = tenant_ref,
        hp_scope_ref = scope_ref, hp_purpose_ref = purpose_ref, hp_policy_revision_ref = policy_revision_ref,
        hp_issued_at = issued_at, hp_expires_at = expires_at, hp_nonce = nonce,
        hp_schema_version = HUMAN_CENTERED_SCHEMA_VERSION\<rparr> in
      and_then (ProofClaimsV1_validate value) (\<lambda>_. Ok value))"

section \<open>The signed bytes\<close>

text \<open>Big-endian digits; \<open>to_be_bytes\<close> is the case of base 256.\<close>

fun be_digits :: "nat \<Rightarrow> nat \<Rightarrow> nat \<Rightarrow> nat list" where
  "be_digits base 0 n = []"
| "be_digits base (Suc k) n = (n div base ^ k mod base) # be_digits base k n"

definition to_be_bytes :: "nat \<Rightarrow> nat \<Rightarrow> bytes" where
  "to_be_bytes k n = map char_of (be_digits 256 k n)"

definition append_text :: "bytes \<Rightarrow> string \<Rightarrow> (HumanCenteredProtocolError, bytes) result" where
  "append_text bytes value =
     (if length value \<ge> 2 ^ 32 then Err HE_InvalidText
      else Ok (bytes @ to_be_bytes 4 (length value) @ value))"

definition PROOF_SIGNATURE_DOMAIN :: bytes where
  "PROOF_SIGNATURE_DOMAIN = ''idr-proof-v1'' @ [CHR 0x00]"

definition ProofClaimsV1_canonical_signing_bytes ::
  "crates \<Rightarrow> ProofClaimsV1 \<Rightarrow> (HumanCenteredProtocolError, bytes) result" where
  "ProofClaimsV1_canonical_signing_bytes X c =
     and_then (ProofClaimsV1_validate c) (\<lambda>_.
     let bytes = PROOF_SIGNATURE_DOMAIN;
         bytes = bytes @ x_uuid_display X (hp_proof_id c);
         bytes = bytes @ [char_of (ProofKindV1_tag (hp_proof_kind c))] in
     and_then (append_text bytes (hp_issuer_ref c)) (\<lambda>bytes.
     and_then (append_text bytes (hp_subject_ref c)) (\<lambda>bytes.
     and_then (append_text bytes (hp_subject_digest c)) (\<lambda>bytes.
     and_then (append_text bytes (hp_tenant_ref c)) (\<lambda>bytes.
     and_then (append_text bytes (hp_scope_ref c)) (\<lambda>bytes.
     and_then (append_text bytes (hp_purpose_ref c)) (\<lambda>bytes.
     and_then (append_text bytes (hp_policy_revision_ref c)) (\<lambda>bytes.
     let bytes = bytes @ to_be_bytes 8 (unat (hp_issued_at c));
         bytes = bytes @ to_be_bytes 8 (unat (hp_expires_at c)) in
     and_then (append_text bytes (hp_nonce c)) (\<lambda>bytes.
     Ok (bytes @ to_be_bytes 2 (unat (hp_schema_version c))))))))))))"

section \<open>Envelopes, keys and expectations\<close>

record SignedProofEnvelopeV1 =
  he_claims :: ProofClaimsV1
  he_key_id :: ReferenceV1
  he_signature :: string

definition SignedProofEnvelopeV1_validate_shape ::
  "SignedProofEnvelopeV1 \<Rightarrow> (HumanCenteredProtocolError, unit) result" where
  "SignedProofEnvelopeV1_validate_shape e =
     and_then (ProofClaimsV1_validate (he_claims e)) (\<lambda>_.
     if blank (he_key_id e) \<or> length (he_signature e) \<noteq> 128 \<or> decode_hex 64 (he_signature e) = None
     then Err HE_ProofVerificationFailed else Ok ())"

definition SignedProofEnvelopeV1_new ::
  "ProofClaimsV1 \<Rightarrow> ReferenceV1 \<Rightarrow> string \<Rightarrow> (HumanCenteredProtocolError, SignedProofEnvelopeV1) result" where
  "SignedProofEnvelopeV1_new claims key_id signature =
     (let value = \<lparr>he_claims = claims, he_key_id = key_id, he_signature = signature\<rparr> in
      and_then (SignedProofEnvelopeV1_validate_shape value) (\<lambda>_. Ok value))"

record IssuerKeyPolicyV1 =
  iy_issuer_ref :: ReferenceV1
  iy_key_id :: ReferenceV1
  iy_verifying_key :: "u8 list"
  iy_allowed_proof_kinds :: "ProofKindV1 list"
  iy_tenant_ref :: ReferenceV1
  iy_valid_from :: u64
  iy_valid_until :: u64
  iy_revoked_at :: "u64 option"

definition IssuerKeyPolicyV1_new ::
  "crates \<Rightarrow> ReferenceV1 \<Rightarrow> ReferenceV1 \<Rightarrow> string \<Rightarrow> ProofKindV1 list \<Rightarrow> ReferenceV1 \<Rightarrow> u64 \<Rightarrow> u64 \<Rightarrow> u64 option \<Rightarrow>
   (HumanCenteredProtocolError, IssuerKeyPolicyV1) result" where
  "IssuerKeyPolicyV1_new X issuer_ref key_id public_key_hex allowed_proof_kinds tenant_ref valid_from
       valid_until revoked_at =
     and_then (ok_or (decode_hex 32 public_key_hex) HE_ProofVerificationFailed) (\<lambda>key_bytes.
     if \<not> x_verifying_key_ok X key_bytes then Err HE_ProofVerificationFailed
     else if allowed_proof_kinds = [] \<or> valid_from = 0 \<or> valid_until \<le> valid_from \<or>
        valid_until > HUMAN_CENTERED_MAX_SAFE_WIRE_INTEGER \<or>
        (case revoked_at of None \<Rightarrow> False | Some value \<Rightarrow> value < valid_from \<or> value > valid_until)
     then Err HE_InvalidContract
     else Ok \<lparr>iy_issuer_ref = issuer_ref, iy_key_id = key_id, iy_verifying_key = key_bytes,
       iy_allowed_proof_kinds = allowed_proof_kinds, iy_tenant_ref = tenant_ref, iy_valid_from = valid_from,
       iy_valid_until = valid_until, iy_revoked_at = revoked_at\<rparr>)"

record ExpectedProofBindingV1 =
  xb_proof_kind :: ProofKindV1
  xb_issuer_ref :: ReferenceV1
  xb_subject_ref :: ReferenceV1
  xb_subject_digest :: string
  xb_tenant_ref :: ReferenceV1
  xb_scope_ref :: ReferenceV1
  xb_purpose_ref :: ReferenceV1
  xb_policy_revision_ref :: ReferenceV1

definition ExpectedProofBindingV1_validate ::
  "ExpectedProofBindingV1 \<Rightarrow> (HumanCenteredProtocolError, unit) result" where
  "ExpectedProofBindingV1_validate b =
     (if \<not> valid_digest (xb_subject_digest b) \<or>
         list_ex blank [xb_issuer_ref b, xb_subject_ref b, xb_tenant_ref b, xb_scope_ref b, xb_purpose_ref b,
           xb_policy_revision_ref b]
      then Err HE_InvalidContract else Ok ())"

definition ExpectedProofBindingV1_new ::
  "ProofKindV1 \<Rightarrow> ReferenceV1 \<Rightarrow> ReferenceV1 \<Rightarrow> string \<Rightarrow> ReferenceV1 \<Rightarrow> ReferenceV1 \<Rightarrow> ReferenceV1 \<Rightarrow> ReferenceV1 \<Rightarrow>
   (HumanCenteredProtocolError, ExpectedProofBindingV1) result" where
  "ExpectedProofBindingV1_new proof_kind issuer_ref subject_ref subject_digest tenant_ref scope_ref purpose_ref
       policy_revision_ref =
     (let value = \<lparr>xb_proof_kind = proof_kind, xb_issuer_ref = issuer_ref, xb_subject_ref = subject_ref,
        xb_subject_digest = subject_digest, xb_tenant_ref = tenant_ref, xb_scope_ref = scope_ref,
        xb_purpose_ref = purpose_ref, xb_policy_revision_ref = policy_revision_ref\<rparr> in
      and_then (ExpectedProofBindingV1_validate value) (\<lambda>_. Ok value))"

section \<open>The trust root\<close>

record ProofTrustRootV1 =
  hr_keys :: "(string \<times> IssuerKeyPolicyV1) list"

fun insert_issuer_policies ::
  "IssuerKeyPolicyV1 list \<Rightarrow> (string \<times> IssuerKeyPolicyV1) list \<Rightarrow>
   (HumanCenteredProtocolError, (string \<times> IssuerKeyPolicyV1) list) result" where
  "insert_issuer_policies [] keys = Ok keys"
| "insert_issuer_policies (policy # policies) keys =
     (if bt_get keys (iy_key_id policy) \<noteq> None then Err HE_InvalidContract
      else insert_issuer_policies policies (bt_insert (iy_key_id policy) policy keys))"

definition ProofTrustRootV1_new ::
  "IssuerKeyPolicyV1 list \<Rightarrow> (HumanCenteredProtocolError, ProofTrustRootV1) result" where
  "ProofTrustRootV1_new policies =
     and_then (insert_issuer_policies policies []) (\<lambda>keys.
     if keys = [] then Err HE_InvalidContract else Ok \<lparr>hr_keys = keys\<rparr>)"

record VerifiedProofV1 =
  hv_envelope :: SignedProofEnvelopeV1
  hv_verified_at :: u64

abbreviation hv_claims :: "VerifiedProofV1 \<Rightarrow> ProofClaimsV1" where
  "hv_claims v \<equiv> he_claims (hv_envelope v)"

definition proof_binding_mismatch ::
  "ProofClaimsV1 \<Rightarrow> ExpectedProofBindingV1 \<Rightarrow> IssuerKeyPolicyV1 \<Rightarrow> u64 \<Rightarrow> bool" where
  "proof_binding_mismatch claims expected policy valid_at \<longleftrightarrow>
     hp_proof_kind claims \<noteq> xb_proof_kind expected \<or>
     hp_issuer_ref claims \<noteq> xb_issuer_ref expected \<or>
     hp_subject_ref claims \<noteq> xb_subject_ref expected \<or>
     hp_subject_digest claims \<noteq> xb_subject_digest expected \<or>
     hp_tenant_ref claims \<noteq> xb_tenant_ref expected \<or>
     hp_scope_ref claims \<noteq> xb_scope_ref expected \<or>
     hp_purpose_ref claims \<noteq> xb_purpose_ref expected \<or>
     hp_policy_revision_ref claims \<noteq> xb_policy_revision_ref expected \<or>
     hp_issuer_ref claims \<noteq> iy_issuer_ref policy \<or>
     hp_tenant_ref claims \<noteq> iy_tenant_ref policy \<or>
     hp_proof_kind claims \<notin> set (iy_allowed_proof_kinds policy) \<or>
     valid_at < hp_issued_at claims \<or> valid_at \<ge> hp_expires_at claims \<or>
     hp_issued_at claims < iy_valid_from policy \<or> valid_at \<ge> iy_valid_until policy \<or>
     (case iy_revoked_at policy of None \<Rightarrow> False | Some revoked_at \<Rightarrow> valid_at \<ge> revoked_at)"

definition ProofTrustRootV1_verify_at ::
  "crates \<Rightarrow> ProofTrustRootV1 \<Rightarrow> SignedProofEnvelopeV1 \<Rightarrow> ExpectedProofBindingV1 \<Rightarrow> u64 \<Rightarrow>
   (HumanCenteredProtocolError, VerifiedProofV1) result" where
  "ProofTrustRootV1_verify_at X root envelope expected valid_at =
     and_then (SignedProofEnvelopeV1_validate_shape envelope) (\<lambda>_.
     and_then (ExpectedProofBindingV1_validate expected) (\<lambda>_.
     let claims = he_claims envelope in
     and_then (ok_or (bt_get (hr_keys root) (he_key_id envelope)) HE_ProofVerificationFailed) (\<lambda>policy.
     if proof_binding_mismatch claims expected policy valid_at then Err HE_ProofVerificationFailed
     else
     and_then (ok_or (decode_hex 64 (he_signature envelope)) HE_ProofVerificationFailed) (\<lambda>signature.
     and_then (ProofClaimsV1_canonical_signing_bytes X claims) (\<lambda>bytes.
     if \<not> x_ed25519_verify X (iy_verifying_key policy) bytes signature then Err HE_ProofVerificationFailed
     else Ok \<lparr>hv_envelope = envelope, hv_verified_at = valid_at\<rparr>)))))"

text \<open>The system clock is an argument, \<open>None\<close> when it is before the epoch.\<close>

definition ProofTrustRootV1_verify_now ::
  "crates \<Rightarrow> ProofTrustRootV1 \<Rightarrow> SignedProofEnvelopeV1 \<Rightarrow> ExpectedProofBindingV1 \<Rightarrow> u64 option \<Rightarrow>
   (HumanCenteredProtocolError, VerifiedProofV1) result" where
  "ProofTrustRootV1_verify_now X root envelope expected clock =
     and_then (ok_or clock HE_ProofVerificationFailed) (\<lambda>now.
     ProofTrustRootV1_verify_at X root envelope expected now)"

section \<open>Lemmas\<close>

lemma length_be_digits [simp]: "length (be_digits base k n) = k"
  by (induction k) auto

lemma be_digits_less: "0 < base \<Longrightarrow> d \<in> set (be_digits base k n) \<Longrightarrow> d < base"
  by (induction k) auto

lemma be_digits_inj:
  assumes "0 < base" "be_digits base k m = be_digits base k n"
  shows "m mod base ^ k = n mod base ^ k"
  using assms(2)
proof (induction k)
  case (Suc k)
  have "x mod base ^ Suc k = base ^ k * (x div base ^ k mod base) + x mod base ^ k" for x
    using mod_mult2_eq [of x "base ^ k" base] by (simp add: mult.commute)
  with Suc show ?case by simp
qed simp

lemma length_to_be_bytes [simp]: "length (to_be_bytes k n) = k"
  by (simp add: to_be_bytes_def)

lemma to_be_bytes_inj:
  assumes "to_be_bytes k m = to_be_bytes k n" "m < 256 ^ k" "n < 256 ^ k"
  shows "m = n"
proof -
  have "be_digits 256 k m = be_digits 256 k n"
  proof (rule map_inj_on [OF assms(1) [unfolded to_be_bytes_def]], rule inj_onI)
    fix x y :: nat
    assume "x \<in> set (be_digits 256 k m) \<union> set (be_digits 256 k n)"
      "y \<in> set (be_digits 256 k m) \<union> set (be_digits 256 k n)" "(char_of x :: char) = char_of y"
    moreover have "of_char (char_of z :: char) = z mod 256" for z :: nat by simp
    ultimately show "x = y" using be_digits_less [of 256] by (metis Un_iff mod_less zero_less_numeral)
  qed
  from be_digits_inj [OF _ this] assms(2,3) show ?thesis by simp
qed

definition length_prefixed :: "string \<Rightarrow> bytes" where
  "length_prefixed s = to_be_bytes 4 (length s) @ s"

lemma append_text_Ok: "append_text b s = Ok b' \<longleftrightarrow> length s < 2 ^ 32 \<and> b' = b @ length_prefixed s"
  by (auto simp: append_text_def length_prefixed_def)

lemma length_prefixed_inj:
  assumes "length_prefixed s @ r = length_prefixed s' @ r'" "length s < 2 ^ 32" "length s' < 2 ^ 32"
  shows "s = s' \<and> r = r'"
proof -
  from assms(1) have "to_be_bytes 4 (length s) = to_be_bytes 4 (length s')" "s @ r = s' @ r'"
    by (simp_all add: length_prefixed_def append_eq_append_conv)
  moreover from this(1) have "length s = length s'"
    by (rule to_be_bytes_inj) (use assms(2,3) in simp_all)
  ultimately show ?thesis by simp
qed

lemma be_u64_inj:
  fixes v w :: u64
  assumes "to_be_bytes 8 (unat v) @ r = to_be_bytes 8 (unat w) @ r'"
  shows "v = w \<and> r = r'"
proof -
  from assms have b: "to_be_bytes 8 (unat v) = to_be_bytes 8 (unat w)" "r = r'"
    by (simp_all add: append_eq_append_conv)
  have "unat v < 2 ^ LENGTH(64)" "unat w < 2 ^ LENGTH(64)" by (rule unsigned_less)+
  then have "unat v < 256 ^ 8" "unat w < 256 ^ 8" by simp_all
  from to_be_bytes_inj [OF b(1) this] b(2) show ?thesis by (simp add: word_unat_eq_iff)
qed

lemma signing_bytes_Ok:
  "ProofClaimsV1_canonical_signing_bytes X c = Ok b \<longleftrightarrow>
     ProofClaimsV1_validate c = Ok () \<and>
     (\<forall>s \<in> {hp_issuer_ref c, hp_subject_ref c, hp_subject_digest c, hp_tenant_ref c, hp_scope_ref c,
        hp_purpose_ref c, hp_policy_revision_ref c, hp_nonce c}. length s < 2 ^ 32) \<and>
     b = PROOF_SIGNATURE_DOMAIN @ x_uuid_display X (hp_proof_id c) @
       char_of (ProofKindV1_tag (hp_proof_kind c)) # length_prefixed (hp_issuer_ref c) @
       length_prefixed (hp_subject_ref c) @ length_prefixed (hp_subject_digest c) @
       length_prefixed (hp_tenant_ref c) @ length_prefixed (hp_scope_ref c) @
       length_prefixed (hp_purpose_ref c) @ length_prefixed (hp_policy_revision_ref c) @
       to_be_bytes 8 (unat (hp_issued_at c)) @ to_be_bytes 8 (unat (hp_expires_at c)) @
       length_prefixed (hp_nonce c) @ to_be_bytes 2 (unat (hp_schema_version c))"
  unfolding ProofClaimsV1_canonical_signing_bytes_def Let_def and_then_eq_Ok append_text_Ok
  by auto

text \<open>
  What the encoding needs of the \<open>uuid\<close> crate: the hyphenated display has a fixed length and is injective.
\<close>

definition uuid_display_fixed :: "crates \<Rightarrow> bool" where
  "uuid_display_fixed X \<longleftrightarrow> (\<forall>u. length (x_uuid_display X u) = 36) \<and> inj (x_uuid_display X)"

lemma tag_inj: "(char_of (ProofKindV1_tag a) :: char) = char_of (ProofKindV1_tag b) \<Longrightarrow> a = b"
proof -
  assume "(char_of (ProofKindV1_tag a) :: char) = char_of (ProofKindV1_tag b)"
  then have "(of_char (char_of (ProofKindV1_tag a) :: char) :: nat) = of_char (char_of (ProofKindV1_tag b) :: char)"
    by simp
  moreover have "ProofKindV1_tag k < 256" for k by (cases k) simp_all
  ultimately have "ProofKindV1_tag a = ProofKindV1_tag b" by simp
  then show "a = b" by (cases a; cases b) simp_all
qed

lemma fixed_prefix_inj:
  "length s = length s' \<Longrightarrow> s @ r = s' @ r' \<Longrightarrow> s = s' \<and> r = r'"
  by simp

lemma claims_bytes_inj:
  assumes X: "uuid_display_fixed X"
    and c: "ProofClaimsV1_canonical_signing_bytes X c = Ok b"
    and d: "ProofClaimsV1_canonical_signing_bytes X d = Ok b"
  shows "c = d"
proof -
  let ?l = "length_prefixed"
  note C = c [unfolded signing_bytes_Ok] and D = d [unfolded signing_bytes_Ok]
  from X have len: "length (x_uuid_display X (hp_proof_id c)) = length (x_uuid_display X (hp_proof_id d))"
    by (simp add: uuid_display_fixed_def)
  from conjunct2 [OF conjunct2 [OF C]] conjunct2 [OF conjunct2 [OF D]]
  have r0: "x_uuid_display X (hp_proof_id c) @ char_of (ProofKindV1_tag (hp_proof_kind c)) # ?l (hp_issuer_ref c) @
       ?l (hp_subject_ref c) @ ?l (hp_subject_digest c) @ ?l (hp_tenant_ref c) @ ?l (hp_scope_ref c) @
       ?l (hp_purpose_ref c) @ ?l (hp_policy_revision_ref c) @
       to_be_bytes 8 (unat (hp_issued_at c)) @ to_be_bytes 8 (unat (hp_expires_at c)) @
       ?l (hp_nonce c) @ to_be_bytes 2 (unat (hp_schema_version c)) =
     x_uuid_display X (hp_proof_id d) @ char_of (ProofKindV1_tag (hp_proof_kind d)) # ?l (hp_issuer_ref d) @
       ?l (hp_subject_ref d) @ ?l (hp_subject_digest d) @ ?l (hp_tenant_ref d) @ ?l (hp_scope_ref d) @
       ?l (hp_purpose_ref d) @ ?l (hp_policy_revision_ref d) @
       to_be_bytes 8 (unat (hp_issued_at d)) @ to_be_bytes 8 (unat (hp_expires_at d)) @
       ?l (hp_nonce d) @ to_be_bytes 2 (unat (hp_schema_version d))"
    by (simp only: same_append_eq)
  note s0 = fixed_prefix_inj [OF len r0, unfolded list.inject]
  have u: "hp_proof_id c = hp_proof_id d" using s0 X by (simp add: uuid_display_fixed_def inj_eq)
  have k: "hp_proof_kind c = hp_proof_kind d" using s0 tag_inj by blast
  have short: "length s < 2 ^ 32" if "s \<in> {hp_issuer_ref c, hp_subject_ref c, hp_subject_digest c, hp_tenant_ref c,
      hp_scope_ref c, hp_purpose_ref c, hp_policy_revision_ref c, hp_nonce c, hp_issuer_ref d, hp_subject_ref d,
      hp_subject_digest d, hp_tenant_ref d, hp_scope_ref d, hp_purpose_ref d, hp_policy_revision_ref d, hp_nonce d}"
    for s using that conjunct1 [OF conjunct2 [OF C]] conjunct1 [OF conjunct2 [OF D]] by blast
  note s1 = length_prefixed_inj [OF conjunct2 [OF conjunct2 [OF s0]] short short, simplified insert_iff simp_thms]
  note s2 = length_prefixed_inj [OF conjunct2 [OF s1] short short, simplified insert_iff simp_thms]
  note s3 = length_prefixed_inj [OF conjunct2 [OF s2] short short, simplified insert_iff simp_thms]
  note s4 = length_prefixed_inj [OF conjunct2 [OF s3] short short, simplified insert_iff simp_thms]
  note s5 = length_prefixed_inj [OF conjunct2 [OF s4] short short, simplified insert_iff simp_thms]
  note s6 = length_prefixed_inj [OF conjunct2 [OF s5] short short, simplified insert_iff simp_thms]
  note s7 = length_prefixed_inj [OF conjunct2 [OF s6] short short, simplified insert_iff simp_thms]
  note t1 = be_u64_inj [OF conjunct2 [OF s7]]
  note t2 = be_u64_inj [OF conjunct2 [OF t1]]
  note s8 = length_prefixed_inj [OF conjunct2 [OF t2] short short, simplified insert_iff simp_thms]
  have "hp_schema_version c = 1" "hp_schema_version d = 1"
    using C D by (auto simp: ProofClaimsV1_validate_def Let_def HUMAN_CENTERED_SCHEMA_VERSION_def split: if_splits)
  with u k s1 s2 s3 s4 s5 s6 s7 t1 t2 s8 show ?thesis by simp
qed

text \<open>A concrete display: 32 hexadecimal digits with four hyphens.\<close>

definition sample_hex_digit :: "nat \<Rightarrow> char" where
  "sample_hex_digit n = (if n < 10 then char_of (48 + n) else char_of (87 + n))"

definition sample_uuid_display :: "uuid \<Rightarrow> string" where
  "sample_uuid_display u =
     (let s = map sample_hex_digit (be_digits 16 32 (unat u)) in
      take 8 s @ ''-'' @ take 4 (drop 8 s) @ ''-'' @ take 4 (drop 12 s) @ ''-'' @ take 4 (drop 16 s) @ ''-'' @ drop 20 s)"

definition hyphen_crates :: crates where
  "hyphen_crates = sample_crates\<lparr>x_uuid_display := sample_uuid_display\<rparr>"

lemma sample_hex_digit_inj: "m < 16 \<Longrightarrow> n < 16 \<Longrightarrow> sample_hex_digit m = sample_hex_digit n \<Longrightarrow> m = n"
proof -
  assume "m < 16" "n < 16" "sample_hex_digit m = sample_hex_digit n"
  then have "(of_char (sample_hex_digit m) :: nat) = of_char (sample_hex_digit n)" by simp
  with \<open>m < 16\<close> \<open>n < 16\<close> show "m = n" by (simp add: sample_hex_digit_def split: if_splits)
qed

lemma sample_uuid_display_fixed: "uuid_display_fixed hyphen_crates"
proof -
  have "u = v" if "sample_uuid_display u = sample_uuid_display v" for u v
  proof -
    let ?s = "\<lambda>u. map sample_hex_digit (be_digits 16 32 (unat (u :: uuid)))"
    from that have "take 8 (?s u) = take 8 (?s v) \<and> take 4 (drop 8 (?s u)) = take 4 (drop 8 (?s v)) \<and>
        take 4 (drop 12 (?s u)) = take 4 (drop 12 (?s v)) \<and> take 4 (drop 16 (?s u)) = take 4 (drop 16 (?s v)) \<and>
        drop 20 (?s u) = drop 20 (?s v)"
      unfolding sample_uuid_display_def Let_def by (simp add: append_eq_append_conv)
    moreover have "s = take 8 s @ take 4 (drop 8 s) @ take 4 (drop 12 s) @ take 4 (drop 16 s) @ drop 20 s" for s :: string
    proof -
      have "take 4 (drop k s) @ drop (k + 4) s = drop k s" for k
        using append_take_drop_id [of 4 "drop k s"] by (simp add: add.commute)
      from this [of 8] this [of 12] this [of 16] show ?thesis by simp
    qed
    ultimately have "?s u = ?s v" by metis
    then have "be_digits 16 32 (unat u) = be_digits 16 32 (unat v)"
      by (rule map_inj_on) (auto intro!: inj_onI sample_hex_digit_inj dest: be_digits_less [rotated])
    moreover have "unat u < 2 ^ LENGTH(128)" "unat v < 2 ^ LENGTH(128)" by (rule unsigned_less)+
    ultimately show "u = v" using be_digits_inj [of 16 32 "unat u" "unat v"] by (simp add: word_unat_eq_iff)
  qed
  then show ?thesis
    by (auto simp: uuid_display_fixed_def hyphen_crates_def sample_uuid_display_def Let_def intro!: injI)
qed

section \<open>Properties\<close>

definition sample_proof_claims :: "ProofKindV1 \<Rightarrow> ReferenceV1 \<Rightarrow> ReferenceV1 \<Rightarrow> string \<Rightarrow> ProofClaimsV1" where
  "sample_proof_claims kind issuer subject digest = \<lparr>hp_proof_id = 101, hp_proof_kind = kind,
     hp_issuer_ref = issuer, hp_subject_ref = subject, hp_subject_digest = digest, hp_tenant_ref = ''tenant:t'',
     hp_scope_ref = ''scope:s'', hp_purpose_ref = ''purpose:p'', hp_policy_revision_ref = ''policy:p'',
     hp_issued_at = 100, hp_expires_at = 500, hp_nonce = replicate 64 (CHR ''a''), hp_schema_version = 1\<rparr>"

text \<open>
  What the issuer signs determines the claims. With a UUID display of fixed length that is injective, two
  valid claims with the same signing bytes are equal: no reference can absorb a part of its neighbour,
  because every text carries its length.
\<close>

theorem proof_claims_bytes_injective:
  assumes "uuid_display_fixed X"
    and "ProofClaimsV1_canonical_signing_bytes X c = Ok b" "ProofClaimsV1_canonical_signing_bytes X d = Ok b"
  shows "c = d"
  by (rule claims_bytes_inj [OF assms])

lemma proof_claims_bytes_injective_witness:
  "\<exists>b. ProofClaimsV1_canonical_signing_bytes hyphen_crates
       (sample_proof_claims PF_ExecutionPermit ''issuer:ab'' ''subject:c'' (replicate 64 (CHR ''a''))) = Ok b \<and>
     ProofClaimsV1_canonical_signing_bytes hyphen_crates
       (sample_proof_claims PF_ExecutionPermit ''issuer:a'' ''bsubject:c'' (replicate 64 (CHR ''a''))) \<noteq> Ok b"
proof -
  let ?c = "sample_proof_claims PF_ExecutionPermit ''issuer:ab'' ''subject:c'' (replicate 64 (CHR ''a''))"
  let ?d = "sample_proof_claims PF_ExecutionPermit ''issuer:a'' ''bsubject:c'' (replicate 64 (CHR ''a''))"
  have v: "ProofClaimsV1_validate ?c = Ok ()" by code_simp
  then obtain b where b: "ProofClaimsV1_canonical_signing_bytes hyphen_crates ?c = Ok b"
    by (simp add: signing_bytes_Ok sample_proof_claims_def)
  have "?c \<noteq> ?d" by (simp add: sample_proof_claims_def)
  with proof_claims_bytes_injective [OF sample_uuid_display_fixed b] b show ?thesis by blast
qed

text \<open>
  A verified proof is signed by the key of its key id, matches the expectation in every binding, and lies in
  the windows of the claims and of the key.
\<close>

lemma proof_verify_at_Ok:
  "ProofTrustRootV1_verify_at X root envelope expected valid_at = Ok v \<longleftrightarrow>
     v = \<lparr>hv_envelope = envelope, hv_verified_at = valid_at\<rparr> \<and>
     SignedProofEnvelopeV1_validate_shape envelope = Ok () \<and> ExpectedProofBindingV1_validate expected = Ok () \<and>
     (\<exists>policy signature bytes. bt_get (hr_keys root) (he_key_id envelope) = Some policy \<and>
        \<not> proof_binding_mismatch (he_claims envelope) expected policy valid_at \<and>
        decode_hex 64 (he_signature envelope) = Some signature \<and>
        ProofClaimsV1_canonical_signing_bytes X (he_claims envelope) = Ok bytes \<and>
        x_ed25519_verify X (iy_verifying_key policy) bytes signature)"
  by (auto simp: ProofTrustRootV1_verify_at_def Let_def and_then_eq_Ok ok_or_eq_Ok split: if_splits)

end
