(* ===== verification/IDR_Action.thy ===== *)
theory IDR_Action
  imports IDR_Proof
begin

text \<open>
  Actions and their authorization (\<open>human_centered/action.rs\<close>): the action contract, the authorization of
  exactly one action, and the admission decision. A condition that chains \<open>||\<close> over calls with \<open>?\<close> is
  modelled in evaluation order: a failing call returns its own error only when no earlier operand holds.
\<close>

section \<open>Action contracts\<close>

datatype ActionAuthorizationStateV1 =
    AZ_NotRequired | AZ_Pending | AZ_Authorized | AZ_Denied | AZ_Expired | AZ_Revoked

fun action_authorization_name :: "ActionAuthorizationStateV1 \<Rightarrow> string" where
  "action_authorization_name AZ_NotRequired = ''not_required''"
| "action_authorization_name AZ_Pending = ''pending''"
| "action_authorization_name AZ_Authorized = ''authorized''"
| "action_authorization_name AZ_Denied = ''denied''"
| "action_authorization_name AZ_Expired = ''expired''"
| "action_authorization_name AZ_Revoked = ''revoked''"

fun impact_level_name :: "ImpactLevelV1 \<Rightarrow> string" where
  "impact_level_name IL_Low = ''low''"
| "impact_level_name IL_Medium = ''medium''"
| "impact_level_name IL_High = ''high''"
| "impact_level_name IL_Critical = ''critical''"

record ActionContractV1 =
  ax_metadata :: HumanCenteredContractMetadataV1
  ax_decision_ref :: "HumanCenteredContractRefV1 option"
  ax_operation_ref :: ReferenceV1
  ax_parameters :: json
  ax_parameter_digest :: string
  ax_preconditions :: "string list"
  ax_required_authority_refs :: "ReferenceV1 list"
  ax_authorization_state :: ActionAuthorizationStateV1
  ax_impact_level :: ImpactLevelV1
  ax_reversible :: bool
  ax_idempotency_key :: string
  ax_verification_requirements :: "string list"
  ax_compensation_operations :: "ReferenceV1 list"
  ax_record_digest :: string

definition jstrs :: "string list \<Rightarrow> json" where
  "jstrs ss = JArr (map JStr ss)"

definition action_digest_input :: "crates \<Rightarrow> ActionContractV1 \<Rightarrow> json" where
  "action_digest_input X a = JArr [
     JArr [
       HumanCenteredContractMetadataV1_json X (ax_metadata a),
       jopt (HumanCenteredContractRefV1_json X) (ax_decision_ref a),
       JStr (ax_operation_ref a),
       ax_parameters a,
       JStr (ax_parameter_digest a),
       jstrs (ax_preconditions a)],
     JArr [
       jstrs (ax_required_authority_refs a),
       JStr (action_authorization_name (ax_authorization_state a)),
       JStr (impact_level_name (ax_impact_level a)),
       JBool (ax_reversible a),
       JStr (ax_idempotency_key a),
       jstrs (ax_verification_requirements a),
       jstrs (ax_compensation_operations a)]]"

fun json_is_object :: "json \<Rightarrow> bool" where
  "json_is_object (JObj _) = True"
| "json_is_object _ = False"

definition high_impact :: "ImpactLevelV1 \<Rightarrow> bool" where
  "high_impact level \<longleftrightarrow> ImpactLevelV1_rank level \<ge> ImpactLevelV1_rank IL_High"

definition ActionContractV1_validate :: "crates \<Rightarrow> ActionContractV1 \<Rightarrow> (HumanCenteredProtocolError, unit) result" where
  "ActionContractV1_validate X a =
     and_then (HumanCenteredContractMetadataV1_validate (ax_metadata a)) (\<lambda>_.
     if cm_contract_kind (ax_metadata a) \<noteq> HK_Action then Err HE_ContractKindMismatch
     else
     and_then (validate_text_collection (ax_preconditions a)) (\<lambda>_.
     and_then (validate_text_collection (ax_verification_requirements a)) (\<lambda>_.
     and_then (validate_required_text (ax_idempotency_key a)) (\<lambda>_.
     and_then (validate_json_payload X (ax_parameters a)) (\<lambda>_.
     if \<not> json_is_object (ax_parameters a) \<or> blank (ax_operation_ref a) \<or> ax_verification_requirements a = []
     then Err HE_InvalidContract
     else
     and_then (contract_digest X ''action-parameters-v1'' (ax_parameters a)) (\<lambda>parameter_digest.
     if parameter_digest \<noteq> ax_parameter_digest a then Err HE_InvalidContract
     else
     and_then (case ax_decision_ref a of
         None \<Rightarrow> Ok ()
       | Some decision_ref \<Rightarrow>
           and_then (HumanCenteredContractRefV1_validate decision_ref) (\<lambda>_.
           if cr_kind decision_ref \<noteq> HK_Decision \<or> decision_ref \<notin> set (cm_dependency_refs (ax_metadata a))
           then Err HE_InvalidContract else Ok ())) (\<lambda>_.
     let high = high_impact (ax_impact_level a); irreversible = \<not> ax_reversible a in
     if high \<and> ax_authorization_state a = AZ_NotRequired \<or> (high \<or> irreversible) \<and> ax_decision_ref a = None
     then Err HE_InvalidContract
     else if ax_reversible a \<and> ax_compensation_operations a = [] then Err HE_InvalidContract
     else
     and_then (contract_digest X ''action-contract-v1'' (action_digest_input X a)) (\<lambda>digest.
     if digest \<noteq> ax_record_digest a then Err HE_DigestMismatch else Ok ()))))))))"

definition ActionContractV1_issue ::
  "crates \<Rightarrow> HumanCenteredContractMetadataV1 \<Rightarrow> HumanCenteredContractRefV1 option \<Rightarrow> ReferenceV1 \<Rightarrow> json \<Rightarrow>
   string list \<Rightarrow> ReferenceV1 list \<Rightarrow> ActionAuthorizationStateV1 \<Rightarrow> ImpactLevelV1 \<Rightarrow> bool \<Rightarrow> string \<Rightarrow> string list \<Rightarrow>
   ReferenceV1 list \<Rightarrow> (HumanCenteredProtocolError, ActionContractV1) result" where
  "ActionContractV1_issue X metadata decision_ref operation_ref parameters preconditions required_authority_refs
       authorization_state impact_level reversible idempotency_key verification_requirements
       compensation_operations =
     and_then (validate_json_payload X parameters) (\<lambda>_.
     and_then (contract_digest X ''action-parameters-v1'' parameters) (\<lambda>parameter_digest.
     and_then (canonical_references required_authority_refs) (\<lambda>required_authority_refs.
     and_then (canonical_references compensation_operations) (\<lambda>compensation_operations.
     let value = \<lparr>ax_metadata = metadata, ax_decision_ref = decision_ref, ax_operation_ref = operation_ref,
        ax_parameters = parameters, ax_parameter_digest = parameter_digest, ax_preconditions = preconditions,
        ax_required_authority_refs = required_authority_refs, ax_authorization_state = authorization_state,
        ax_impact_level = impact_level, ax_reversible = reversible, ax_idempotency_key = idempotency_key,
        ax_verification_requirements = verification_requirements,
        ax_compensation_operations = compensation_operations, ax_record_digest = []\<rparr> in
     and_then (contract_digest X ''action-contract-v1'' (action_digest_input X value)) (\<lambda>digest.
     let value = value\<lparr>ax_record_digest := digest\<rparr> in
     and_then (ActionContractV1_validate X value) (\<lambda>_. Ok value))))))"

definition ActionContractV1_record_ref ::
  "crates \<Rightarrow> ActionContractV1 \<Rightarrow> (HumanCenteredProtocolError, HumanCenteredContractRefV1) result" where
  "ActionContractV1_record_ref X a =
     and_then (ActionContractV1_validate X a) (\<lambda>_.
     HumanCenteredContractRefV1_new HK_Action (cm_contract_id (ax_metadata a)) (cm_revision (ax_metadata a))
       (ax_record_digest a))"

section \<open>Exact authorizations\<close>

datatype AuthorizationDecisionV1 = AD_Approve | AD_Deny

fun authorization_decision_name :: "AuthorizationDecisionV1 \<Rightarrow> string" where
  "authorization_decision_name AD_Approve = ''approve''"
| "authorization_decision_name AD_Deny = ''deny''"

record ExactActionAuthorizationV1 =
  az_authorization_id :: uuid
  az_action_ref :: HumanCenteredContractRefV1
  az_parameter_digest :: string
  az_actor_ref :: ReferenceV1
  az_decision :: AuthorizationDecisionV1
  az_scope_ref :: ReferenceV1
  az_authority_context_digest :: string
  az_issued_at :: u64
  az_expires_at :: u64
  az_schema_version :: u16

definition authority_context_digest ::
  "crates \<Rightarrow> AuthorityContextV1 \<Rightarrow> (HumanCenteredProtocolError, string) result" where
  "authority_context_digest X context = contract_digest X ''authority-context-v1'' (AuthorityContextV1_json context)"

definition ExactActionAuthorizationV1_validate_for ::
  "crates \<Rightarrow> ExactActionAuthorizationV1 \<Rightarrow> ActionContractV1 \<Rightarrow> u64 \<Rightarrow> (HumanCenteredProtocolError, unit) result" where
  "ExactActionAuthorizationV1_validate_for X z action valid_at =
     and_then (ActionContractV1_validate X action) (\<lambda>_.
     and_then (HumanCenteredContractRefV1_validate (az_action_ref z)) (\<lambda>_.
     let context = cm_authority_context (ax_metadata action) in
     if az_authorization_id z = 0 then Err HE_InvalidContract
     else
     and_then (ActionContractV1_record_ref X action) (\<lambda>record_ref.
     if az_action_ref z \<noteq> record_ref \<or> az_parameter_digest z \<noteq> ax_parameter_digest action \<or>
        az_actor_ref z \<noteq> ac_actor_ref context \<or> az_scope_ref z \<noteq> ac_scope_ref context
     then Err HE_InvalidContract
     else
     and_then (authority_context_digest X context) (\<lambda>context_digest.
     if context_digest \<noteq> az_authority_context_digest z \<or> az_issued_at z = 0 \<or>
        az_expires_at z \<le> az_issued_at z \<or> valid_at < az_issued_at z \<or> valid_at \<ge> az_expires_at z \<or>
        az_schema_version z \<noteq> HUMAN_CENTERED_SCHEMA_VERSION
     then Err HE_InvalidContract else Ok ()))))"

definition ExactActionAuthorizationV1_issue ::
  "crates \<Rightarrow> uuid \<Rightarrow> ActionContractV1 \<Rightarrow> ReferenceV1 \<Rightarrow> AuthorizationDecisionV1 \<Rightarrow> ReferenceV1 \<Rightarrow> u64 \<Rightarrow> u64 \<Rightarrow>
   (HumanCenteredProtocolError, ExactActionAuthorizationV1) result" where
  "ExactActionAuthorizationV1_issue X fresh_id action actor_ref decision scope_ref issued_at expires_at =
     and_then (ActionContractV1_validate X action) (\<lambda>_.
     and_then (authority_context_digest X (cm_authority_context (ax_metadata action))) (\<lambda>context_digest.
     and_then (ActionContractV1_record_ref X action) (\<lambda>action_ref.
     let value = \<lparr>az_authorization_id = fresh_id, az_action_ref = action_ref,
        az_parameter_digest = ax_parameter_digest action, az_actor_ref = actor_ref, az_decision = decision,
        az_scope_ref = scope_ref, az_authority_context_digest = context_digest, az_issued_at = issued_at,
        az_expires_at = expires_at, az_schema_version = HUMAN_CENTERED_SCHEMA_VERSION\<rparr> in
     and_then (ExactActionAuthorizationV1_validate_for X value action issued_at) (\<lambda>_. Ok value))))"

definition ExactActionAuthorizationV1_json :: "crates \<Rightarrow> ExactActionAuthorizationV1 \<Rightarrow> json" where
  "ExactActionAuthorizationV1_json X z = JObj [
     (''authorization_id'', hc_uuid_json X (az_authorization_id z)),
     (''action_ref'', HumanCenteredContractRefV1_json X (az_action_ref z)),
     (''parameter_digest'', JStr (az_parameter_digest z)),
     (''actor_ref'', JStr (az_actor_ref z)),
     (''decision'', JStr (authorization_decision_name (az_decision z))),
     (''scope_ref'', JStr (az_scope_ref z)),
     (''authority_context_digest'', JStr (az_authority_context_digest z)),
     (''issued_at'', ju64 (az_issued_at z)),
     (''expires_at'', ju64 (az_expires_at z)),
     (''schema_version'', jint (uint (az_schema_version z)))]"

definition authorization_digest ::
  "crates \<Rightarrow> ExactActionAuthorizationV1 \<Rightarrow> (HumanCenteredProtocolError, string) result" where
  "authorization_digest X z =
     contract_digest X ''exact-action-authorization-v1'' (ExactActionAuthorizationV1_json X z)"

section \<open>Admission\<close>

record ActionAdmissionFactsV1 =
  af_capability_registered :: bool
  af_capability_enabled :: bool
  af_actor_authority_valid :: bool
  af_agent_authority_valid :: bool
  af_parameters_valid :: bool
  af_preconditions_satisfied :: bool
  af_policy_allows :: bool
  af_verification_available :: bool
  af_compensation_available_if_required :: bool
  af_dependencies_current :: bool

datatype ActionAdmissionOutcomeV1 =
    AO_Admit | AO_WaitAuthorization | AO_ExecutionPending | AO_AlreadyExecuted | AO_Reject

record ActionAdmissionDecisionV1 =
  ao_outcome :: ActionAdmissionOutcomeV1
  ao_reason_codes :: "string list"
  ao_rule_version :: u64

definition rejected_action_admission :: "string \<Rightarrow> ActionAdmissionDecisionV1" where
  "rejected_action_admission reason =
     \<lparr>ao_outcome = AO_Reject, ao_reason_codes = [reason], ao_rule_version = HUMAN_CENTERED_RULE_VERSION\<rparr>"

definition admission_checks :: "ActionAdmissionFactsV1 \<Rightarrow> ActionAdmissionDecisionV1" where
  "admission_checks facts =
     (let checks = [
        (''capability_unregistered'', af_capability_registered facts),
        (''capability_disabled'', af_capability_enabled facts),
        (''actor_authority_invalid'', af_actor_authority_valid facts),
        (''agent_authority_invalid'', af_agent_authority_valid facts),
        (''parameters_invalid'', af_parameters_valid facts),
        (''preconditions_unsatisfied'', af_preconditions_satisfied facts),
        (''policy_denied'', af_policy_allows facts),
        (''verification_unavailable'', af_verification_available facts),
        (''compensation_unavailable'', af_compensation_available_if_required facts),
        (''dependency_stale'', af_dependencies_current facts)];
          reasons = map fst (filter (\<lambda>(reason, passed). \<not> passed) checks) in
      \<lparr>ao_outcome = (if reasons = [] then AO_Admit else AO_Reject), ao_reason_codes = reasons,
        ao_rule_version = HUMAN_CENTERED_RULE_VERSION\<rparr>)"

definition evaluate_action_admission ::
  "crates \<Rightarrow> ActionContractV1 \<Rightarrow> ActionAdmissionFactsV1 \<Rightarrow> ExactActionAuthorizationV1 option \<Rightarrow> u64 \<Rightarrow>
   ActionAdmissionDecisionV1" where
  "evaluate_action_admission X action facts authorization valid_at =
     (if is_err (ActionContractV1_validate X action) then rejected_action_admission ''action_contract_invalid''
      else if valid_at = 0 \<or> valid_at \<ge> cm_valid_until (ax_metadata action)
      then rejected_action_admission ''action_contract_expired''
      else case ax_authorization_state action of
        AZ_Denied \<Rightarrow> rejected_action_admission ''action_authorization_denied''
      | AZ_Expired \<Rightarrow> rejected_action_admission ''action_authorization_expired''
      | AZ_Revoked \<Rightarrow> rejected_action_admission ''action_authorization_revoked''
      | AZ_NotRequired \<Rightarrow> admission_checks facts
      | _ \<Rightarrow>
          (case authorization of
             None \<Rightarrow> \<lparr>ao_outcome = AO_WaitAuthorization,
               ao_reason_codes = [''exact_action_authorization_required''],
               ao_rule_version = HUMAN_CENTERED_RULE_VERSION\<rparr>
           | Some z \<Rightarrow>
               if is_err (ExactActionAuthorizationV1_validate_for X z action valid_at) \<or> az_decision z \<noteq> AD_Approve
               then rejected_action_admission ''exact_action_authorization_invalid''
               else admission_checks facts))"

section \<open>Lemmas\<close>

lemma action_record_ref_Ok:
  "ActionContractV1_record_ref X a = Ok r \<longleftrightarrow>
     ActionContractV1_validate X a = Ok () \<and>
     r = ContractRef HK_Action (cm_contract_id (ax_metadata a)) (cm_revision (ax_metadata a)) (ax_record_digest a) \<and>
     HumanCenteredContractRefV1_validate r = Ok ()"
  by (auto simp: ActionContractV1_record_ref_def HumanCenteredContractRefV1_new_def Let_def and_then_eq_Ok)

lemma validated_action:
  assumes "ActionContractV1_validate X a = Ok ()"
  shows "HumanCenteredContractMetadataV1_validate (ax_metadata a) = Ok ()"
    and "cm_contract_kind (ax_metadata a) = HK_Action"
    and "contract_digest X ''action-parameters-v1'' (ax_parameters a) = Ok (ax_parameter_digest a)"
    and "contract_digest X ''action-contract-v1'' (action_digest_input X a) = Ok (ax_record_digest a)"
    and "high_impact (ax_impact_level a) \<Longrightarrow> ax_authorization_state a \<noteq> AZ_NotRequired"
    and "high_impact (ax_impact_level a) \<or> \<not> ax_reversible a \<Longrightarrow> ax_decision_ref a \<noteq> None"
    and "ax_reversible a \<Longrightarrow> ax_compensation_operations a \<noteq> []"
  using assms by (auto simp: ActionContractV1_validate_def Let_def and_then_eq_Ok split: if_splits)

lemma authorization_validate_Ok:
  "ExactActionAuthorizationV1_validate_for X z action valid_at = Ok () \<longleftrightarrow>
     ActionContractV1_record_ref X action = Ok (az_action_ref z) \<and>
     HumanCenteredContractRefV1_validate (az_action_ref z) = Ok () \<and> az_authorization_id z \<noteq> 0 \<and>
     az_parameter_digest z = ax_parameter_digest action \<and>
     az_actor_ref z = ac_actor_ref (cm_authority_context (ax_metadata action)) \<and>
     az_scope_ref z = ac_scope_ref (cm_authority_context (ax_metadata action)) \<and>
     authority_context_digest X (cm_authority_context (ax_metadata action)) = Ok (az_authority_context_digest z) \<and>
     az_issued_at z \<noteq> 0 \<and> az_issued_at z < az_expires_at z \<and> az_issued_at z \<le> valid_at \<and>
     valid_at < az_expires_at z \<and> az_schema_version z = HUMAN_CENTERED_SCHEMA_VERSION"
  by (auto simp: ExactActionAuthorizationV1_validate_for_def Let_def and_then_eq_Ok action_record_ref_Ok
      not_less not_le split: if_splits)

end
