(* ===== verification/IDR_Execution.thy ===== *)
theory IDR_Execution
  imports IDR_Action
begin

text \<open>
  Execution permits and receipts (\<open>human_centered/execution.rs\<close>): the request a permit proof signs, the
  binding of one verified proof to one request, the receipt, and the binding of a provider's proof to it.
\<close>

section \<open>Permit requests\<close>

record ExecutionPermitRequestV1 =
  pq_request_ref :: ReferenceV1
  pq_action_ref :: HumanCenteredContractRefV1
  pq_authorization_id :: uuid
  pq_authorization_digest :: string
  pq_provider_ref :: ReferenceV1
  pq_owner_ref :: ReferenceV1
  pq_attempt :: u32
  pq_lease_issued_at :: u64
  pq_lease_until :: u64
  pq_dispatch_nonce :: string
  pq_idempotency_key :: string
  pq_tenant_ref :: ReferenceV1
  pq_scope_ref :: ReferenceV1
  pq_purpose_ref :: ReferenceV1
  pq_policy_revision_ref :: ReferenceV1
  pq_request_digest :: string

definition ju32 :: "u32 \<Rightarrow> json" where
  "ju32 w = jint (uint w)"

definition permit_request_digest_input :: "crates \<Rightarrow> ExecutionPermitRequestV1 \<Rightarrow> json" where
  "permit_request_digest_input X q = JArr [
     JArr [
       JStr (pq_request_ref q),
       HumanCenteredContractRefV1_json X (pq_action_ref q),
       hc_uuid_json X (pq_authorization_id q),
       JStr (pq_authorization_digest q),
       JStr (pq_provider_ref q),
       JStr (pq_owner_ref q),
       ju32 (pq_attempt q)],
     JArr [
       ju64 (pq_lease_issued_at q),
       ju64 (pq_lease_until q),
       JStr (pq_dispatch_nonce q),
       JStr (pq_idempotency_key q),
       JStr (pq_tenant_ref q),
       JStr (pq_scope_ref q),
       JStr (pq_purpose_ref q),
       JStr (pq_policy_revision_ref q)]]"

definition ExecutionPermitRequestV1_validate_for ::
  "crates \<Rightarrow> ExecutionPermitRequestV1 \<Rightarrow> ActionContractV1 \<Rightarrow> ExactActionAuthorizationV1 \<Rightarrow>
   (HumanCenteredProtocolError, unit) result" where
  "ExecutionPermitRequestV1_validate_for X q action authorization =
     and_then (ActionContractV1_validate X action) (\<lambda>_.
     and_then (ExactActionAuthorizationV1_validate_for X authorization action (pq_lease_issued_at q)) (\<lambda>_.
     let context = cm_authority_context (ax_metadata action) in
     if blank (pq_request_ref q) then Err HE_ProofVerificationFailed
     else
     and_then (ActionContractV1_record_ref X action) (\<lambda>action_ref.
     if pq_action_ref q \<noteq> action_ref \<or> pq_authorization_id q \<noteq> az_authorization_id authorization
     then Err HE_ProofVerificationFailed
     else
     and_then (authorization_digest X authorization) (\<lambda>digest.
     if pq_authorization_digest q \<noteq> digest \<or> az_decision authorization \<noteq> AD_Approve \<or>
        blank (pq_provider_ref q) \<or> blank (pq_owner_ref q) \<or> pq_attempt q = 0 \<or>
        pq_lease_until q \<le> pq_lease_issued_at q \<or> pq_lease_until q > az_expires_at authorization \<or>
        pq_lease_until q > cm_valid_until (ax_metadata action) \<or>
        length (pq_dispatch_nonce q) \<noteq> 64 \<or> \<not> valid_digest (pq_dispatch_nonce q) \<or>
        pq_idempotency_key q \<noteq> ax_idempotency_key action \<or> pq_tenant_ref q \<noteq> ac_tenant_ref context \<or>
        pq_scope_ref q \<noteq> ac_scope_ref context \<or> pq_purpose_ref q \<noteq> ac_purpose_ref context \<or>
        pq_policy_revision_ref q \<noteq> cm_policy_revision_ref (ax_metadata action)
     then Err HE_ProofVerificationFailed
     else
     and_then (contract_digest X ''execution-permit-request-v1'' (permit_request_digest_input X q)) (\<lambda>request_digest.
     if request_digest \<noteq> pq_request_digest q then Err HE_ProofVerificationFailed else Ok ())))))"

text \<open>\<open>new\<close>; the identifier in the request reference is \<open>fresh_id\<close>.\<close>

definition ExecutionPermitRequestV1_new ::
  "crates \<Rightarrow> uuid \<Rightarrow> ActionContractV1 \<Rightarrow> ExactActionAuthorizationV1 \<Rightarrow> ReferenceV1 \<Rightarrow> ReferenceV1 \<Rightarrow> u32 \<Rightarrow> u64 \<Rightarrow> u64 \<Rightarrow>
   string \<Rightarrow> (HumanCenteredProtocolError, ExecutionPermitRequestV1) result" where
  "ExecutionPermitRequestV1_new X fresh_id action authorization provider_ref owner_ref attempt lease_issued_at
       lease_until dispatch_nonce =
     and_then (ActionContractV1_validate X action) (\<lambda>_.
     and_then (ActionContractV1_record_ref X action) (\<lambda>action_ref.
     and_then (ExactActionAuthorizationV1_validate_for X authorization action lease_issued_at) (\<lambda>_.
     let context = cm_authority_context (ax_metadata action) in
     if az_decision authorization \<noteq> AD_Approve \<or> blank provider_ref \<or> blank owner_ref \<or> attempt = 0 \<or>
        lease_until \<le> lease_issued_at \<or> lease_until > az_expires_at authorization \<or>
        lease_until > cm_valid_until (ax_metadata action) \<or>
        length dispatch_nonce \<noteq> 64 \<or> \<not> valid_digest dispatch_nonce
     then Err HE_ProofVerificationFailed
     else
     and_then (map_err (\<lambda>_. HE_InvalidReference)
       (ReferenceV1_new (''execution-permit-request:'' @ x_uuid_display X fresh_id))) (\<lambda>request_ref.
     and_then (authorization_digest X authorization) (\<lambda>digest.
     let value = \<lparr>pq_request_ref = request_ref, pq_action_ref = action_ref,
        pq_authorization_id = az_authorization_id authorization, pq_authorization_digest = digest,
        pq_provider_ref = provider_ref, pq_owner_ref = owner_ref, pq_attempt = attempt,
        pq_lease_issued_at = lease_issued_at, pq_lease_until = lease_until, pq_dispatch_nonce = dispatch_nonce,
        pq_idempotency_key = ax_idempotency_key action, pq_tenant_ref = ac_tenant_ref context,
        pq_scope_ref = ac_scope_ref context, pq_purpose_ref = ac_purpose_ref context,
        pq_policy_revision_ref = cm_policy_revision_ref (ax_metadata action), pq_request_digest = []\<rparr> in
     and_then (contract_digest X ''execution-permit-request-v1'' (permit_request_digest_input X value)) (\<lambda>request_digest.
     let value = value\<lparr>pq_request_digest := request_digest\<rparr> in
     and_then (ExecutionPermitRequestV1_validate_for X value action authorization) (\<lambda>_. Ok value)))))))"

definition permit_request_proof_binding ::
  "ExecutionPermitRequestV1 \<Rightarrow> ReferenceV1 \<Rightarrow> (HumanCenteredProtocolError, ExpectedProofBindingV1) result" where
  "permit_request_proof_binding q issuer_ref =
     ExpectedProofBindingV1_new PF_ExecutionPermit issuer_ref (pq_request_ref q) (pq_request_digest q)
       (pq_tenant_ref q) (pq_scope_ref q) (pq_purpose_ref q) (pq_policy_revision_ref q)"

record VerifiedExecutionPermitRequestV1 =
  vq_request :: ExecutionPermitRequestV1
  vq_authorization :: ExactActionAuthorizationV1
  vq_verified_proof :: VerifiedProofV1

definition verify_execution_permit_request ::
  "crates \<Rightarrow> VerifiedProofV1 \<Rightarrow> ExecutionPermitRequestV1 \<Rightarrow> ActionContractV1 \<Rightarrow> ExactActionAuthorizationV1 \<Rightarrow>
   (HumanCenteredProtocolError, VerifiedExecutionPermitRequestV1) result" where
  "verify_execution_permit_request X verified_proof request action authorization =
     and_then (ExecutionPermitRequestV1_validate_for X request action authorization) (\<lambda>_.
     let claims = hv_claims verified_proof; verified_at = hv_verified_at verified_proof in
     if hp_proof_kind claims \<noteq> PF_ExecutionPermit \<or> hp_subject_ref claims \<noteq> pq_request_ref request \<or>
        hp_subject_digest claims \<noteq> pq_request_digest request \<or> hp_tenant_ref claims \<noteq> pq_tenant_ref request \<or>
        hp_scope_ref claims \<noteq> pq_scope_ref request \<or> hp_purpose_ref claims \<noteq> pq_purpose_ref request \<or>
        hp_policy_revision_ref claims \<noteq> pq_policy_revision_ref request \<or>
        hp_issued_at claims \<noteq> pq_lease_issued_at request \<or> hp_expires_at claims < pq_lease_until request \<or>
        hp_nonce claims \<noteq> pq_dispatch_nonce request \<or> verified_at < pq_lease_issued_at request \<or>
        verified_at \<ge> pq_lease_until request
     then Err HE_ProofVerificationFailed
     else Ok \<lparr>vq_request = request, vq_authorization = authorization, vq_verified_proof = verified_proof\<rparr>)"

definition permit_request_validate_at ::
  "crates \<Rightarrow> VerifiedExecutionPermitRequestV1 \<Rightarrow> ActionContractV1 \<Rightarrow> u64 \<Rightarrow> (HumanCenteredProtocolError, unit) result" where
  "permit_request_validate_at X v action trusted_now =
     and_then (ExecutionPermitRequestV1_validate_for X (vq_request v) action (vq_authorization v)) (\<lambda>_.
     and_then (ExactActionAuthorizationV1_validate_for X (vq_authorization v) action trusted_now) (\<lambda>_.
     let claims = hv_claims (vq_verified_proof v) in
     if trusted_now < pq_lease_issued_at (vq_request v) \<or> trusted_now \<ge> pq_lease_until (vq_request v) \<or>
        trusted_now < hp_issued_at claims \<or> trusted_now \<ge> hp_expires_at claims \<or>
        trusted_now \<ge> cm_valid_until (ax_metadata action) \<or> hv_verified_at (vq_verified_proof v) > trusted_now
     then Err HE_ProofVerificationFailed else Ok ()))"

section \<open>Receipts\<close>

datatype ExecutionStateV1 = EX_Succeeded | EX_Failed | EX_PartiallySucceeded | EX_Rejected | EX_Compensated

fun execution_state_name :: "ExecutionStateV1 \<Rightarrow> string" where
  "execution_state_name EX_Succeeded = ''succeeded''"
| "execution_state_name EX_Failed = ''failed''"
| "execution_state_name EX_PartiallySucceeded = ''partially_succeeded''"
| "execution_state_name EX_Rejected = ''rejected''"
| "execution_state_name EX_Compensated = ''compensated''"

record ExecutionReceiptV1 =
  xr_metadata :: HumanCenteredContractMetadataV1
  xr_action_ref :: HumanCenteredContractRefV1
  xr_permit_id :: uuid
  xr_authorization_id :: uuid
  xr_execution_id :: uuid
  xr_provider_ref :: ReferenceV1
  xr_owner_ref :: ReferenceV1
  xr_dispatch_nonce :: string
  xr_external_execution_ref :: "ReferenceV1 option"
  xr_idempotency_key :: string
  xr_request_parameter_digest :: string
  xr_attempt :: u32
  xr_started_at :: u64
  xr_completed_at :: u64
  xr_state :: ExecutionStateV1
  xr_result_payload :: "json option"
  xr_result_payload_digest :: "string option"
  xr_applied_effects :: "string list"
  xr_verification_results :: "string list"
  xr_error_codes :: "string list"
  xr_record_digest :: string

definition receipt_digest_input :: "crates \<Rightarrow> ExecutionReceiptV1 \<Rightarrow> json" where
  "receipt_digest_input X r = JArr [
     JArr [
       HumanCenteredContractMetadataV1_json X (xr_metadata r),
       HumanCenteredContractRefV1_json X (xr_action_ref r),
       hc_uuid_json X (xr_permit_id r),
       hc_uuid_json X (xr_authorization_id r),
       hc_uuid_json X (xr_execution_id r),
       JStr (xr_provider_ref r),
       JStr (xr_owner_ref r),
       JStr (xr_dispatch_nonce r),
       jopt JStr (xr_external_execution_ref r),
       JStr (xr_idempotency_key r),
       JStr (xr_request_parameter_digest r)],
     JArr [
       ju32 (xr_attempt r),
       ju64 (xr_started_at r),
       ju64 (xr_completed_at r),
       JStr (execution_state_name (xr_state r)),
       jopt id (xr_result_payload r),
       jopt JStr (xr_result_payload_digest r),
       jstrs (xr_applied_effects r),
       jstrs (xr_verification_results r),
       jstrs (xr_error_codes r)]]"

text \<open>\<open>Option::map\<close> with \<open>transpose\<close>: the digest of an optional payload.\<close>

definition result_digest ::
  "crates \<Rightarrow> json option \<Rightarrow> (HumanCenteredProtocolError, string option) result" where
  "result_digest X payload =
     (case payload of
        None \<Rightarrow> Ok None
      | Some p \<Rightarrow> and_then (contract_digest X ''execution-result-v1'' p) (\<lambda>d. Ok (Some d)))"

definition receipt_state_consistent :: "ExecutionReceiptV1 \<Rightarrow> bool" where
  "receipt_state_consistent r =
     (case xr_state r of
        EX_Succeeded \<Rightarrow> xr_result_payload r \<noteq> None \<and> xr_verification_results r \<noteq> [] \<and> xr_error_codes r = []
      | EX_Failed \<Rightarrow> xr_error_codes r \<noteq> []
      | EX_Rejected \<Rightarrow> xr_error_codes r \<noteq> []
      | _ \<Rightarrow> True)"

definition validate_optional_payload :: "crates \<Rightarrow> json option \<Rightarrow> (HumanCenteredProtocolError, unit) result" where
  "validate_optional_payload X payload =
     (case payload of None \<Rightarrow> Ok () | Some p \<Rightarrow> validate_json_payload X p)"

definition ExecutionReceiptV1_validate ::
  "crates \<Rightarrow> ExecutionReceiptV1 \<Rightarrow> (HumanCenteredProtocolError, unit) result" where
  "ExecutionReceiptV1_validate X r =
     and_then (HumanCenteredContractMetadataV1_validate (xr_metadata r)) (\<lambda>_.
     if cm_contract_kind (xr_metadata r) \<noteq> HK_ExecutionReceipt then Err HE_ContractKindMismatch
     else
     and_then (HumanCenteredContractRefV1_validate (xr_action_ref r)) (\<lambda>_.
     and_then (validate_required_text (xr_idempotency_key r)) (\<lambda>_.
     and_then (validate_text_collection (xr_applied_effects r)) (\<lambda>_.
     and_then (validate_text_collection (xr_verification_results r)) (\<lambda>_.
     and_then (validate_text_collection (xr_error_codes r)) (\<lambda>_.
     and_then (validate_optional_payload X (xr_result_payload r)) (\<lambda>_.
     if cr_kind (xr_action_ref r) \<noteq> HK_Action \<or> xr_action_ref r \<notin> set (cm_dependency_refs (xr_metadata r)) \<or>
        human_id_is_empty (xr_permit_id r) \<or> xr_authorization_id r = 0 \<or> xr_execution_id r = 0 \<or>
        blank (xr_provider_ref r) \<or> blank (xr_owner_ref r) \<or> length (xr_dispatch_nonce r) \<noteq> 64 \<or>
        \<not> valid_digest (xr_dispatch_nonce r) \<or> xr_attempt r = 0 \<or> xr_started_at r = 0 \<or>
        xr_completed_at r < xr_started_at r \<or> \<not> valid_digest (xr_request_parameter_digest r)
     then Err HE_InvalidContract
     else
     and_then (result_digest X (xr_result_payload r)) (\<lambda>expected_result_digest.
     if expected_result_digest \<noteq> xr_result_payload_digest r then Err HE_DigestMismatch
     else if \<not> receipt_state_consistent r then Err HE_InvalidContract
     else
     and_then (contract_digest X ''execution-receipt-v1'' (receipt_digest_input X r)) (\<lambda>digest.
     if digest \<noteq> xr_record_digest r then Err HE_DigestMismatch else Ok ())))))))))"

definition ExecutionReceiptV1_issue ::
  "crates \<Rightarrow> uuid \<Rightarrow> HumanCenteredContractMetadataV1 \<Rightarrow> ActionContractV1 \<Rightarrow> uuid \<Rightarrow> uuid \<Rightarrow> ReferenceV1 \<Rightarrow> ReferenceV1 \<Rightarrow>
   string \<Rightarrow> ReferenceV1 option \<Rightarrow> u32 \<Rightarrow> u64 \<Rightarrow> u64 \<Rightarrow> ExecutionStateV1 \<Rightarrow> json option \<Rightarrow> string list \<Rightarrow>
   string list \<Rightarrow> string list \<Rightarrow> (HumanCenteredProtocolError, ExecutionReceiptV1) result" where
  "ExecutionReceiptV1_issue X fresh_id metadata action permit_id authorization_id provider_ref owner_ref
       dispatch_nonce external_execution_ref attempt started_at completed_at state result_payload
       applied_effects verification_results error_codes =
     and_then (ActionContractV1_validate X action) (\<lambda>_.
     and_then (ActionContractV1_record_ref X action) (\<lambda>action_ref.
     and_then (validate_optional_payload X result_payload) (\<lambda>_.
     and_then (result_digest X result_payload) (\<lambda>result_payload_digest.
     let value = \<lparr>xr_metadata = metadata, xr_action_ref = action_ref, xr_permit_id = permit_id,
        xr_authorization_id = authorization_id, xr_execution_id = fresh_id, xr_provider_ref = provider_ref,
        xr_owner_ref = owner_ref, xr_dispatch_nonce = dispatch_nonce,
        xr_external_execution_ref = external_execution_ref, xr_idempotency_key = ax_idempotency_key action,
        xr_request_parameter_digest = ax_parameter_digest action, xr_attempt = attempt,
        xr_started_at = started_at, xr_completed_at = completed_at, xr_state = state,
        xr_result_payload = result_payload, xr_result_payload_digest = result_payload_digest,
        xr_applied_effects = applied_effects, xr_verification_results = verification_results,
        xr_error_codes = error_codes, xr_record_digest = []\<rparr> in
     and_then (contract_digest X ''execution-receipt-v1'' (receipt_digest_input X value)) (\<lambda>digest.
     let value = value\<lparr>xr_record_digest := digest\<rparr> in
     and_then (ExecutionReceiptV1_validate X value) (\<lambda>_. Ok value))))))"

definition ExecutionReceiptV1_record_ref ::
  "crates \<Rightarrow> ExecutionReceiptV1 \<Rightarrow> (HumanCenteredProtocolError, HumanCenteredContractRefV1) result" where
  "ExecutionReceiptV1_record_ref X r =
     and_then (ExecutionReceiptV1_validate X r) (\<lambda>_.
     HumanCenteredContractRefV1_new HK_ExecutionReceipt (cm_contract_id (xr_metadata r))
       (cm_revision (xr_metadata r)) (xr_record_digest r))"

definition receipt_proof_subject_ref ::
  "crates \<Rightarrow> ExecutionReceiptV1 \<Rightarrow> (HumanCenteredProtocolError, ReferenceV1) result" where
  "receipt_proof_subject_ref X r =
     map_err (\<lambda>_. HE_InvalidContract)
       (ReferenceV1_new (''execution-receipt:'' @ x_uuid_display X (cm_contract_id (xr_metadata r)) @ '':'' @
          show_nat (unat (cm_revision (xr_metadata r)))))"

definition receipt_provider_proof_binding ::
  "crates \<Rightarrow> ExecutionReceiptV1 \<Rightarrow> (HumanCenteredProtocolError, ExpectedProofBindingV1) result" where
  "receipt_provider_proof_binding X r =
     (let context = cm_authority_context (xr_metadata r) in
      and_then (receipt_proof_subject_ref X r) (\<lambda>subject_ref.
      ExpectedProofBindingV1_new PF_ProviderExecutionReceipt (xr_provider_ref r) subject_ref (xr_record_digest r)
        (ac_tenant_ref context) (ac_scope_ref context) (ac_purpose_ref context)
        (cm_policy_revision_ref (xr_metadata r))))"

record VerifiedExecutionReceiptV1 =
  vr_receipt :: ExecutionReceiptV1
  vr_verified_proof :: VerifiedProofV1

definition verify_execution_receipt ::
  "crates \<Rightarrow> VerifiedProofV1 \<Rightarrow> ExecutionReceiptV1 \<Rightarrow> (HumanCenteredProtocolError, VerifiedExecutionReceiptV1) result" where
  "verify_execution_receipt X verified_proof receipt =
     and_then (ExecutionReceiptV1_validate X receipt) (\<lambda>_.
     let claims = hv_claims verified_proof in
     and_then (receipt_provider_proof_binding X receipt) (\<lambda>expected.
     if hp_proof_kind claims \<noteq> PF_ProviderExecutionReceipt \<or> hp_issuer_ref claims \<noteq> xr_provider_ref receipt
     then Err HE_ProofVerificationFailed
     else
     and_then (receipt_proof_subject_ref X receipt) (\<lambda>subject_ref.
     if hp_subject_ref claims \<noteq> subject_ref then Err HE_ProofVerificationFailed
     else
     and_then (ExecutionReceiptV1_record_ref X receipt) (\<lambda>record_ref.
     if hp_subject_digest claims \<noteq> cr_record_digest record_ref \<or> hp_tenant_ref claims \<noteq> xb_tenant_ref expected \<or>
        hp_scope_ref claims \<noteq> xb_scope_ref expected \<or> hp_purpose_ref claims \<noteq> xb_purpose_ref expected \<or>
        hp_policy_revision_ref claims \<noteq> xb_policy_revision_ref expected \<or>
        hp_nonce claims \<noteq> xr_dispatch_nonce receipt \<or> hp_issued_at claims < xr_completed_at receipt \<or>
        hv_verified_at verified_proof < hp_issued_at claims
     then Err HE_ProofVerificationFailed
     else Ok \<lparr>vr_receipt = receipt, vr_verified_proof = verified_proof\<rparr>))))"

definition verified_receipt_validate_at ::
  "crates \<Rightarrow> VerifiedExecutionReceiptV1 \<Rightarrow> u64 \<Rightarrow> (HumanCenteredProtocolError, unit) result" where
  "verified_receipt_validate_at X v trusted_now =
     and_then (ExecutionReceiptV1_validate X (vr_receipt v)) (\<lambda>_.
     let claims = hv_claims (vr_verified_proof v) in
     if trusted_now < xr_completed_at (vr_receipt v) \<or> trusted_now < hp_issued_at claims \<or>
        trusted_now \<ge> hp_expires_at claims \<or> hv_verified_at (vr_verified_proof v) > trusted_now
     then Err HE_ProofVerificationFailed else Ok ())"

definition verified_receipt_into_parts ::
  "VerifiedExecutionReceiptV1 \<Rightarrow> ExecutionReceiptV1 \<times> SignedProofEnvelopeV1 \<times> u64" where
  "verified_receipt_into_parts v =
     (vr_receipt v, hv_envelope (vr_verified_proof v), hv_verified_at (vr_verified_proof v))"

end
