(* ===== verification/IDR_Decision.thy ===== *)
theory IDR_Decision
  imports IDR_Action
begin

text \<open>
  Intents and decisions (\<open>human_centered/intent.rs\<close>, \<open>decision.rs\<close>): ranked hypotheses and the intent
  contract, and the decision contract with its criteria, options, recommendation and authorization boundary.
\<close>

section \<open>Intents\<close>

datatype IntentResolutionMethodV1 = IM_DeterministicFastPath | IM_FullPath

fun intent_method_name :: "IntentResolutionMethodV1 \<Rightarrow> string" where
  "intent_method_name IM_DeterministicFastPath = ''deterministic_fast_path''"
| "intent_method_name IM_FullPath = ''full_path''"

record IntentHypothesisV1 =
  ih_hypothesis_ref :: ReferenceV1
  ih_intent_name :: string
  ih_confidence :: u16
  ih_supporting_evidence_refs :: "ReferenceV1 list"
  ih_contradicting_evidence_refs :: "ReferenceV1 list"

definition IntentHypothesisV1_validate :: "IntentHypothesisV1 \<Rightarrow> (HumanCenteredProtocolError, unit) result" where
  "IntentHypothesisV1_validate h =
     and_then (validate_required_text (ih_intent_name h)) (\<lambda>_.
     if blank (ih_hypothesis_ref h) \<or>
        list_ex (\<lambda>r. r \<in> set (ih_contradicting_evidence_refs h)) (ih_supporting_evidence_refs h)
     then Err HE_InvalidContract else Ok ())"

definition IntentHypothesisV1_new ::
  "ReferenceV1 \<Rightarrow> string \<Rightarrow> u16 \<Rightarrow> ReferenceV1 list \<Rightarrow> ReferenceV1 list \<Rightarrow>
   (HumanCenteredProtocolError, IntentHypothesisV1) result" where
  "IntentHypothesisV1_new hypothesis_ref intent_name confidence supporting contradicting =
     and_then (canonical_references supporting) (\<lambda>supporting.
     and_then (canonical_references contradicting) (\<lambda>contradicting.
     let value = \<lparr>ih_hypothesis_ref = hypothesis_ref, ih_intent_name = intent_name, ih_confidence = confidence,
        ih_supporting_evidence_refs = supporting, ih_contradicting_evidence_refs = contradicting\<rparr> in
     and_then (IntentHypothesisV1_validate value) (\<lambda>_. Ok value)))"

definition ju16 :: "u16 \<Rightarrow> json" where
  "ju16 w = jint (uint w)"

definition IntentHypothesisV1_json :: "IntentHypothesisV1 \<Rightarrow> json" where
  "IntentHypothesisV1_json h = JObj [
     (''hypothesis_ref'', JStr (ih_hypothesis_ref h)),
     (''intent_name'', JStr (ih_intent_name h)),
     (''confidence'', ju16 (ih_confidence h)),
     (''supporting_evidence_refs'', jstrs (ih_supporting_evidence_refs h)),
     (''contradicting_evidence_refs'', jstrs (ih_contradicting_evidence_refs h))]"

record RankedIntentHypothesisV1 =
  rh_hypothesis :: IntentHypothesisV1
  rh_rank :: u16

definition RankedIntentHypothesisV1_new ::
  "IntentHypothesisV1 \<Rightarrow> u16 \<Rightarrow> (HumanCenteredProtocolError, RankedIntentHypothesisV1) result" where
  "RankedIntentHypothesisV1_new hypothesis rank =
     and_then (IntentHypothesisV1_validate hypothesis) (\<lambda>_.
     if rank = 0 then Err HE_InvalidContract else Ok \<lparr>rh_hypothesis = hypothesis, rh_rank = rank\<rparr>)"

definition RankedIntentHypothesisV1_json :: "RankedIntentHypothesisV1 \<Rightarrow> json" where
  "RankedIntentHypothesisV1_json h = JObj [
     (''hypothesis'', IntentHypothesisV1_json (rh_hypothesis h)), (''rank'', ju16 (rh_rank h))]"

datatype HumanModelEffectKindV1 =
    EK_ReorderedBaseHypothesis | EK_AddedPersonalizedHypothesis | EK_ExposedModelExpressionConflict

fun effect_kind_name :: "HumanModelEffectKindV1 \<Rightarrow> string" where
  "effect_kind_name EK_ReorderedBaseHypothesis = ''reordered_base_hypothesis''"
| "effect_kind_name EK_AddedPersonalizedHypothesis = ''added_personalized_hypothesis''"
| "effect_kind_name EK_ExposedModelExpressionConflict = ''exposed_model_expression_conflict''"

record HumanModelIntentEffectV1 =
  ie_assertion_ref :: HumanCenteredContractRefV1
  ie_effect_kind :: HumanModelEffectKindV1
  ie_affected_hypothesis_ref :: ReferenceV1
  ie_base_rank :: "u16 option"
  ie_personalized_rank :: u16
  ie_explanation_ref :: ReferenceV1

definition HumanModelIntentEffectV1_new ::
  "HumanCenteredContractRefV1 \<Rightarrow> HumanModelEffectKindV1 \<Rightarrow> ReferenceV1 \<Rightarrow> u16 option \<Rightarrow> u16 \<Rightarrow> ReferenceV1 \<Rightarrow>
   (HumanCenteredProtocolError, HumanModelIntentEffectV1) result" where
  "HumanModelIntentEffectV1_new assertion_ref effect_kind affected_hypothesis_ref base_rank personalized_rank
       explanation_ref =
     and_then (HumanCenteredContractRefV1_validate assertion_ref) (\<lambda>_.
     if cr_kind assertion_ref \<noteq> HK_HumanModelAssertion \<or> personalized_rank = 0 \<or> base_rank = Some 0
     then Err HE_InvalidContract
     else Ok \<lparr>ie_assertion_ref = assertion_ref, ie_effect_kind = effect_kind,
       ie_affected_hypothesis_ref = affected_hypothesis_ref, ie_base_rank = base_rank,
       ie_personalized_rank = personalized_rank, ie_explanation_ref = explanation_ref\<rparr>)"

definition HumanModelIntentEffectV1_json :: "crates \<Rightarrow> HumanModelIntentEffectV1 \<Rightarrow> json" where
  "HumanModelIntentEffectV1_json X e = JObj [
     (''assertion_ref'', HumanCenteredContractRefV1_json X (ie_assertion_ref e)),
     (''effect_kind'', JStr (effect_kind_name (ie_effect_kind e))),
     (''affected_hypothesis_ref'', JStr (ie_affected_hypothesis_ref e)),
     (''base_rank'', jopt ju16 (ie_base_rank e)),
     (''personalized_rank'', ju16 (ie_personalized_rank e)),
     (''explanation_ref'', JStr (ie_explanation_ref e))]"

record IntentContractV1 =
  in_metadata :: HumanCenteredContractMetadataV1
  in_user_stated_intent_ref :: ReferenceV1
  in_base_hypotheses :: "RankedIntentHypothesisV1 list"
  in_personalized_hypotheses :: "RankedIntentHypothesisV1 list"
  in_primary_hypothesis_ref :: ReferenceV1
  in_confidence :: u16
  in_ambiguity :: bool
  in_clarification_required :: bool
  in_human_model_effects :: "HumanModelIntentEffectV1 list"
  in_resolution_method :: IntentResolutionMethodV1
  in_record_digest :: string

definition intent_digest_input :: "crates \<Rightarrow> IntentContractV1 \<Rightarrow> json" where
  "intent_digest_input X i = JArr [
     HumanCenteredContractMetadataV1_json X (in_metadata i),
     JStr (in_user_stated_intent_ref i),
     JArr (map RankedIntentHypothesisV1_json (in_base_hypotheses i)),
     JArr (map RankedIntentHypothesisV1_json (in_personalized_hypotheses i)),
     JStr (in_primary_hypothesis_ref i),
     ju16 (in_confidence i),
     JBool (in_ambiguity i),
     JBool (in_clarification_required i),
     JArr (map (HumanModelIntentEffectV1_json X) (in_human_model_effects i)),
     JStr (intent_method_name (in_resolution_method i))]"

text \<open>
  The loop of \<open>validate_ranked_hypotheses\<close> over the ranks and references seen so far, and the comparison of
  the ordered ranks with \<open>1..=len\<close>, whose members are cut to 16 bits.
\<close>

fun ranked_hypotheses_loop ::
  "RankedIntentHypothesisV1 list \<Rightarrow> u16 set \<Rightarrow> ReferenceV1 set \<Rightarrow> (HumanCenteredProtocolError, u16 set) result" where
  "ranked_hypotheses_loop [] ranks references = Ok ranks"
| "ranked_hypotheses_loop (value # values) ranks references =
     and_then (IntentHypothesisV1_validate (rh_hypothesis value)) (\<lambda>_.
     if rh_rank value = 0 \<or> rh_rank value \<in> ranks \<or> ih_hypothesis_ref (rh_hypothesis value) \<in> references
     then Err HE_InvalidContract
     else ranked_hypotheses_loop values (insert (rh_rank value) ranks)
       (insert (ih_hypothesis_ref (rh_hypothesis value)) references))"

definition validate_ranked_hypotheses ::
  "RankedIntentHypothesisV1 list \<Rightarrow> (HumanCenteredProtocolError, unit) result" where
  "validate_ranked_hypotheses values =
     (if length values > 256 then Err HE_CollectionLimitExceeded
      else
        and_then (ranked_hypotheses_loop values {} {}) (\<lambda>ranks.
        if sorted_list_of_set ranks \<noteq> map of_nat [1..<Suc (length values)] then Err HE_InvalidContract else Ok ()))"

definition hypothesis_refs :: "RankedIntentHypothesisV1 list \<Rightarrow> ReferenceV1 set" where
  "hypothesis_refs values = set (map (\<lambda>v. ih_hypothesis_ref (rh_hypothesis v)) values)"

definition IntentContractV1_validate :: "crates \<Rightarrow> IntentContractV1 \<Rightarrow> (HumanCenteredProtocolError, unit) result" where
  "IntentContractV1_validate X i =
     and_then (HumanCenteredContractMetadataV1_validate (in_metadata i)) (\<lambda>_.
     if cm_contract_kind (in_metadata i) \<noteq> HK_Intent then Err HE_ContractKindMismatch
     else
     and_then (validate_ranked_hypotheses (in_base_hypotheses i)) (\<lambda>_.
     and_then (validate_ranked_hypotheses (in_personalized_hypotheses i)) (\<lambda>_.
     if blank (in_user_stated_intent_ref i) \<or> in_base_hypotheses i = [] \<or> in_personalized_hypotheses i = []
     then Err HE_InvalidContract
     else
     let base_refs = hypothesis_refs (in_base_hypotheses i);
         personalized_refs = hypothesis_refs (in_personalized_hypotheses i) in
     if \<not> base_refs \<subseteq> personalized_refs \<or> in_primary_hypothesis_ref i \<notin> personalized_refs \<or>
        in_resolution_method i = IM_DeterministicFastPath \<and>
          (in_human_model_effects i \<noteq> [] \<or> base_refs \<noteq> personalized_refs) \<or>
        list_ex (\<lambda>e. ie_assertion_ref e \<notin> set (cm_dependency_refs (in_metadata i))) (in_human_model_effects i)
     then Err HE_InvalidContract
     else
     and_then (contract_digest X ''intent-contract-v1'' (intent_digest_input X i)) (\<lambda>expected.
     if expected \<noteq> in_record_digest i then Err HE_DigestMismatch else Ok ()))))"

definition IntentContractV1_issue ::
  "crates \<Rightarrow> HumanCenteredContractMetadataV1 \<Rightarrow> ReferenceV1 \<Rightarrow> RankedIntentHypothesisV1 list \<Rightarrow>
   RankedIntentHypothesisV1 list \<Rightarrow> ReferenceV1 \<Rightarrow> u16 \<Rightarrow> bool \<Rightarrow> bool \<Rightarrow> HumanModelIntentEffectV1 list \<Rightarrow>
   IntentResolutionMethodV1 \<Rightarrow> (HumanCenteredProtocolError, IntentContractV1) result" where
  "IntentContractV1_issue X metadata user_stated_intent_ref base_hypotheses personalized_hypotheses
       primary_hypothesis_ref confidence ambiguity clarification_required human_model_effects resolution_method =
     (let value = \<lparr>in_metadata = metadata, in_user_stated_intent_ref = user_stated_intent_ref,
        in_base_hypotheses = base_hypotheses, in_personalized_hypotheses = personalized_hypotheses,
        in_primary_hypothesis_ref = primary_hypothesis_ref, in_confidence = confidence,
        in_ambiguity = ambiguity, in_clarification_required = clarification_required,
        in_human_model_effects = human_model_effects, in_resolution_method = resolution_method,
        in_record_digest = []\<rparr> in
      and_then (contract_digest X ''intent-contract-v1'' (intent_digest_input X value)) (\<lambda>digest.
      let value = value\<lparr>in_record_digest := digest\<rparr> in
      and_then (IntentContractV1_validate X value) (\<lambda>_. Ok value)))"

definition IntentContractV1_record_ref ::
  "crates \<Rightarrow> IntentContractV1 \<Rightarrow> (HumanCenteredProtocolError, HumanCenteredContractRefV1) result" where
  "IntentContractV1_record_ref X i =
     and_then (IntentContractV1_validate X i) (\<lambda>_.
     HumanCenteredContractRefV1_new HK_Intent (cm_contract_id (in_metadata i)) (cm_revision (in_metadata i))
       (in_record_digest i))"

section \<open>Decisions\<close>

datatype DecisionStageV1 =
    DS_Framing | DS_GatheringEvidence | DS_GeneratingOptions | DS_ComparingOptions | DS_AwaitingUserInput
  | DS_RecommendationReady | DS_UserDecided

fun decision_stage_name :: "DecisionStageV1 \<Rightarrow> string" where
  "decision_stage_name DS_Framing = ''framing''"
| "decision_stage_name DS_GatheringEvidence = ''gathering_evidence''"
| "decision_stage_name DS_GeneratingOptions = ''generating_options''"
| "decision_stage_name DS_ComparingOptions = ''comparing_options''"
| "decision_stage_name DS_AwaitingUserInput = ''awaiting_user_input''"
| "decision_stage_name DS_RecommendationReady = ''recommendation_ready''"
| "decision_stage_name DS_UserDecided = ''user_decided''"

datatype CriterionImportanceV1 = CI_Required | CI_High | CI_Medium | CI_Low

fun criterion_importance_name :: "CriterionImportanceV1 \<Rightarrow> string" where
  "criterion_importance_name CI_Required = ''required''"
| "criterion_importance_name CI_High = ''high''"
| "criterion_importance_name CI_Medium = ''medium''"
| "criterion_importance_name CI_Low = ''low''"

record DecisionCriterionV1 =
  dc_name :: string
  dc_importance :: CriterionImportanceV1
  dc_weight :: "u16 option"
  dc_evidence_refs :: "ReferenceV1 list"

definition DecisionCriterionV1_new ::
  "string \<Rightarrow> CriterionImportanceV1 \<Rightarrow> u16 option \<Rightarrow> ReferenceV1 list \<Rightarrow>
   (HumanCenteredProtocolError, DecisionCriterionV1) result" where
  "DecisionCriterionV1_new name importance weight evidence_refs =
     and_then (canonical_references evidence_refs) (\<lambda>evidence_refs.
     let value = \<lparr>dc_name = name, dc_importance = importance, dc_weight = weight,
        dc_evidence_refs = evidence_refs\<rparr> in
     and_then (validate_required_text (dc_name value)) (\<lambda>_. Ok value))"

record DecisionOptionV1 =
  do_option_ref :: ReferenceV1
  do_label :: string
  do_description :: string
  do_evidence_refs :: "ReferenceV1 list"
  do_reversible :: bool

definition DecisionOptionV1_new ::
  "ReferenceV1 \<Rightarrow> string \<Rightarrow> string \<Rightarrow> ReferenceV1 list \<Rightarrow> bool \<Rightarrow>
   (HumanCenteredProtocolError, DecisionOptionV1) result" where
  "DecisionOptionV1_new option_ref label description evidence_refs reversible =
     and_then (canonical_references evidence_refs) (\<lambda>evidence_refs.
     let value = \<lparr>do_option_ref = option_ref, do_label = label, do_description = description,
        do_evidence_refs = evidence_refs, do_reversible = reversible\<rparr> in
     and_then (validate_required_text (do_label value)) (\<lambda>_.
     and_then (validate_required_text (do_description value)) (\<lambda>_. Ok value)))"

record DecisionRiskV1 =
  dr_summary :: string
  dr_impact :: ImpactLevelV1
  dr_likelihood :: u16
  dr_evidence_refs :: "ReferenceV1 list"
  dr_mitigation :: "string option"

definition DecisionRiskV1_validate :: "DecisionRiskV1 \<Rightarrow> (HumanCenteredProtocolError, unit) result" where
  "DecisionRiskV1_validate r =
     and_then (validate_required_text (dr_summary r)) (\<lambda>_.
     case dr_mitigation r of None \<Rightarrow> Ok () | Some mitigation \<Rightarrow> validate_required_text mitigation)"

record DecisionRecommendationV1 =
  de_option_ref :: ReferenceV1
  de_confidence :: u16
  de_conditions :: "string list"
  de_evidence_refs :: "ReferenceV1 list"

record DecisionAuthorizationBoundaryV1 =
  da_maximum_automatic_impact :: ImpactLevelV1
  da_user_confirmation_required :: bool
  da_required_authority_refs :: "ReferenceV1 list"
  da_prohibited_automatic_operations :: "ReferenceV1 list"

record DecisionContractV1 =
  dx_metadata :: HumanCenteredContractMetadataV1
  dx_intent_ref :: HumanCenteredContractRefV1
  dx_subject :: string
  dx_stage :: DecisionStageV1
  dx_objective :: string
  dx_constraints :: "string list"
  dx_criteria :: "DecisionCriterionV1 list"
  dx_options :: "DecisionOptionV1 list"
  dx_evidence_refs :: "ReferenceV1 list"
  dx_conflicts :: "string list"
  dx_risks :: "DecisionRiskV1 list"
  dx_uncertainty :: "string list"
  dx_recommendation :: "DecisionRecommendationV1 option"
  dx_selected_option_ref :: "ReferenceV1 option"
  dx_required_user_inputs :: "string list"
  dx_authorization_boundary :: DecisionAuthorizationBoundaryV1
  dx_record_digest :: string

definition DecisionCriterionV1_json :: "DecisionCriterionV1 \<Rightarrow> json" where
  "DecisionCriterionV1_json c = JObj [
     (''name'', JStr (dc_name c)), (''importance'', JStr (criterion_importance_name (dc_importance c))),
     (''weight'', jopt ju16 (dc_weight c)), (''evidence_refs'', jstrs (dc_evidence_refs c))]"

definition DecisionOptionV1_json :: "DecisionOptionV1 \<Rightarrow> json" where
  "DecisionOptionV1_json p = JObj [
     (''option_ref'', JStr (do_option_ref p)), (''label'', JStr (do_label p)),
     (''description'', JStr (do_description p)), (''evidence_refs'', jstrs (do_evidence_refs p)),
     (''reversible'', JBool (do_reversible p))]"

definition DecisionRiskV1_json :: "DecisionRiskV1 \<Rightarrow> json" where
  "DecisionRiskV1_json r = JObj [
     (''summary'', JStr (dr_summary r)), (''impact'', JStr (impact_level_name (dr_impact r))),
     (''likelihood'', ju16 (dr_likelihood r)), (''evidence_refs'', jstrs (dr_evidence_refs r)),
     (''mitigation'', jopt JStr (dr_mitigation r))]"

definition DecisionRecommendationV1_json :: "DecisionRecommendationV1 \<Rightarrow> json" where
  "DecisionRecommendationV1_json r = JObj [
     (''option_ref'', JStr (de_option_ref r)), (''confidence'', ju16 (de_confidence r)),
     (''conditions'', jstrs (de_conditions r)), (''evidence_refs'', jstrs (de_evidence_refs r))]"

definition DecisionAuthorizationBoundaryV1_json :: "DecisionAuthorizationBoundaryV1 \<Rightarrow> json" where
  "DecisionAuthorizationBoundaryV1_json b = JObj [
     (''maximum_automatic_impact'', JStr (impact_level_name (da_maximum_automatic_impact b))),
     (''user_confirmation_required'', JBool (da_user_confirmation_required b)),
     (''required_authority_refs'', jstrs (da_required_authority_refs b)),
     (''prohibited_automatic_operations'', jstrs (da_prohibited_automatic_operations b))]"

definition decision_digest_input :: "crates \<Rightarrow> DecisionContractV1 \<Rightarrow> json" where
  "decision_digest_input X d = JArr [
     JArr [
       HumanCenteredContractMetadataV1_json X (dx_metadata d),
       HumanCenteredContractRefV1_json X (dx_intent_ref d),
       JStr (dx_subject d),
       JStr (decision_stage_name (dx_stage d)),
       JStr (dx_objective d),
       jstrs (dx_constraints d),
       JArr (map DecisionCriterionV1_json (dx_criteria d)),
       JArr (map DecisionOptionV1_json (dx_options d))],
     JArr [
       jstrs (dx_evidence_refs d),
       jstrs (dx_conflicts d),
       JArr (map DecisionRiskV1_json (dx_risks d)),
       jstrs (dx_uncertainty d),
       jopt DecisionRecommendationV1_json (dx_recommendation d),
       jopt JStr (dx_selected_option_ref d),
       jstrs (dx_required_user_inputs d),
       DecisionAuthorizationBoundaryV1_json (dx_authorization_boundary d)]]"

text \<open>The \<open>match\<close> on the stage, in the order of its arms.\<close>

definition decision_stage_consistent :: "DecisionContractV1 \<Rightarrow> bool" where
  "decision_stage_consistent d =
     (if dx_stage d = DS_AwaitingUserInput \<and> dx_required_user_inputs d = [] then False
      else if dx_stage d = DS_RecommendationReady \<and>
        (dx_recommendation d = None \<or> dx_required_user_inputs d \<noteq> []) then False
      else if dx_stage d = DS_UserDecided \<and>
        (dx_selected_option_ref d = None \<or> dx_required_user_inputs d \<noteq> []) then False
      else \<not> (dx_stage d \<noteq> DS_UserDecided \<and> dx_selected_option_ref d \<noteq> None))"

text \<open>
  The weights: all criteria or none, and then full. The sum is over \<open>u32\<close>; at most 256 criteria are summed, so
  it cannot overflow and is taken over the naturals.
\<close>

definition criteria_weights_ok :: "DecisionCriterionV1 list \<Rightarrow> bool" where
  "criteria_weights_ok criteria =
     (let weighted = List.map_filter dc_weight criteria in
      weighted = [] \<or> length weighted = length criteria \<and> sum_list (map unat weighted) = 10000)"

definition DecisionContractV1_validate ::
  "crates \<Rightarrow> DecisionContractV1 \<Rightarrow> (HumanCenteredProtocolError, unit) result" where
  "DecisionContractV1_validate X d =
     and_then (HumanCenteredContractMetadataV1_validate (dx_metadata d)) (\<lambda>_.
     if cm_contract_kind (dx_metadata d) \<noteq> HK_Decision then Err HE_ContractKindMismatch
     else
     and_then (HumanCenteredContractRefV1_validate (dx_intent_ref d)) (\<lambda>_.
     and_then (validate_required_text (dx_subject d)) (\<lambda>_.
     and_then (validate_required_text (dx_objective d)) (\<lambda>_.
     and_then (validate_text_collection (dx_constraints d)) (\<lambda>_.
     and_then (validate_text_collection (dx_conflicts d)) (\<lambda>_.
     and_then (validate_text_collection (dx_uncertainty d)) (\<lambda>_.
     and_then (validate_text_collection (dx_required_user_inputs d)) (\<lambda>_.
     if length (dx_criteria d) > 256 \<or> length (dx_options d) > 256 \<or> length (dx_risks d) > 256
     then Err HE_CollectionLimitExceeded
     else if cr_kind (dx_intent_ref d) \<noteq> HK_Intent \<or>
        dx_intent_ref d \<notin> set (cm_dependency_refs (dx_metadata d)) \<or>
        list_ex (\<lambda>c. is_err (validate_required_text (dc_name c))) (dx_criteria d) \<or>
        list_ex (\<lambda>r. is_err (DecisionRiskV1_validate r)) (dx_risks d)
     then Err HE_InvalidContract
     else
     let option_refs = set (map do_option_ref (dx_options d)) in
     if card option_refs \<noteq> length (dx_options d) \<or> dx_options d = [] \<and> dx_required_user_inputs d = []
     then Err HE_InvalidContract
     else if \<not> criteria_weights_ok (dx_criteria d) then Err HE_InvalidContract
     else
     and_then (for_each (\<lambda>p. and_then (validate_required_text (do_label p)) (\<lambda>_.
       validate_required_text (do_description p))) (dx_options d)) (\<lambda>_.
     and_then (case dx_recommendation d of
         None \<Rightarrow> Ok ()
       | Some recommendation \<Rightarrow>
           and_then (validate_text_collection (de_conditions recommendation)) (\<lambda>_.
           if de_option_ref recommendation \<notin> option_refs then Err HE_InvalidContract else Ok ())) (\<lambda>_.
     if (case dx_selected_option_ref d of None \<Rightarrow> False | Some selected \<Rightarrow> selected \<notin> option_refs)
     then Err HE_InvalidContract
     else if \<not> decision_stage_consistent d then Err HE_InvalidContract
     else if high_impact (da_maximum_automatic_impact (dx_authorization_boundary d)) then Err HE_InvalidContract
     else
     and_then (contract_digest X ''decision-contract-v1'' (decision_digest_input X d)) (\<lambda>digest.
     if digest \<noteq> dx_record_digest d then Err HE_DigestMismatch else Ok ())))))))))))"

definition DecisionContractV1_issue ::
  "crates \<Rightarrow> HumanCenteredContractMetadataV1 \<Rightarrow> HumanCenteredContractRefV1 \<Rightarrow> string \<Rightarrow> DecisionStageV1 \<Rightarrow> string \<Rightarrow>
   string list \<Rightarrow> DecisionCriterionV1 list \<Rightarrow> DecisionOptionV1 list \<Rightarrow> ReferenceV1 list \<Rightarrow> string list \<Rightarrow>
   DecisionRiskV1 list \<Rightarrow> string list \<Rightarrow> DecisionRecommendationV1 option \<Rightarrow> ReferenceV1 option \<Rightarrow> string list \<Rightarrow>
   DecisionAuthorizationBoundaryV1 \<Rightarrow> (HumanCenteredProtocolError, DecisionContractV1) result" where
  "DecisionContractV1_issue X metadata intent_ref subject stage objective constraints criteria options
       evidence_refs conflicts risks uncertainty recommendation selected_option_ref required_user_inputs
       authorization_boundary =
     and_then (canonical_references evidence_refs) (\<lambda>evidence_refs.
     let value = \<lparr>dx_metadata = metadata, dx_intent_ref = intent_ref, dx_subject = subject, dx_stage = stage,
        dx_objective = objective, dx_constraints = constraints, dx_criteria = criteria, dx_options = options,
        dx_evidence_refs = evidence_refs, dx_conflicts = conflicts, dx_risks = risks,
        dx_uncertainty = uncertainty, dx_recommendation = recommendation,
        dx_selected_option_ref = selected_option_ref, dx_required_user_inputs = required_user_inputs,
        dx_authorization_boundary = authorization_boundary, dx_record_digest = []\<rparr> in
     and_then (contract_digest X ''decision-contract-v1'' (decision_digest_input X value)) (\<lambda>digest.
     let value = value\<lparr>dx_record_digest := digest\<rparr> in
     and_then (DecisionContractV1_validate X value) (\<lambda>_. Ok value)))"

definition DecisionContractV1_record_ref ::
  "crates \<Rightarrow> DecisionContractV1 \<Rightarrow> (HumanCenteredProtocolError, HumanCenteredContractRefV1) result" where
  "DecisionContractV1_record_ref X d =
     and_then (DecisionContractV1_validate X d) (\<lambda>_.
     HumanCenteredContractRefV1_new HK_Decision (cm_contract_id (dx_metadata d)) (cm_revision (dx_metadata d))
       (dx_record_digest d))"

end
