(* ===== verification/IDR_Response.thy ===== *)
theory IDR_Response
  imports IDR_Decision
begin

text \<open>
  Responses and outcomes (\<open>human_centered/response.rs\<close>, \<open>outcome.rs\<close>): the response contract, the envelope
  that binds rendered content to it, the admission of a rendered response, and the outcome record.
\<close>

section \<open>Response contracts\<close>

datatype ResponsePhaseV1 = RP_PreAction | RP_Progress | RP_PostAction | RP_Final

fun response_phase_name :: "ResponsePhaseV1 \<Rightarrow> string" where
  "response_phase_name RP_PreAction = ''pre_action''"
| "response_phase_name RP_Progress = ''progress''"
| "response_phase_name RP_PostAction = ''post_action''"
| "response_phase_name RP_Final = ''final''"

datatype ResponseTypeV1 =
    RT_Answer | RT_Clarification | RT_Recommendation | RT_Challenge | RT_ConfirmationRequest
  | RT_ProgressUpdate | RT_ExecutionReport | RT_RecoveryOffer

fun response_type_name :: "ResponseTypeV1 \<Rightarrow> string" where
  "response_type_name RT_Answer = ''answer''"
| "response_type_name RT_Clarification = ''clarification''"
| "response_type_name RT_Recommendation = ''recommendation''"
| "response_type_name RT_Challenge = ''challenge''"
| "response_type_name RT_ConfirmationRequest = ''confirmation_request''"
| "response_type_name RT_ProgressUpdate = ''progress_update''"
| "response_type_name RT_ExecutionReport = ''execution_report''"
| "response_type_name RT_RecoveryOffer = ''recovery_offer''"

datatype ExplanationDepthV1 = ED_Minimal | ED_Low | ED_Medium | ED_High

fun explanation_depth_name :: "ExplanationDepthV1 \<Rightarrow> string" where
  "explanation_depth_name ED_Minimal = ''minimal''"
| "explanation_depth_name ED_Low = ''low''"
| "explanation_depth_name ED_Medium = ''medium''"
| "explanation_depth_name ED_High = ''high''"

datatype TerminologyLevelV1 = TL_Plain | TL_Professional | TL_Expert

fun terminology_level_name :: "TerminologyLevelV1 \<Rightarrow> string" where
  "terminology_level_name TL_Plain = ''plain''"
| "terminology_level_name TL_Professional = ''professional''"
| "terminology_level_name TL_Expert = ''expert''"

record ResponseContractV1 =
  rx_metadata :: HumanCenteredContractMetadataV1
  rx_source_contract_refs :: "HumanCenteredContractRefV1 list"
  rx_response_phase :: ResponsePhaseV1
  rx_response_type :: ResponseTypeV1
  rx_answer_structure :: "string list"
  rx_evidence_refs :: "ReferenceV1 list"
  rx_explanation_depth :: ExplanationDepthV1
  rx_terminology_level :: TerminologyLevelV1
  rx_clarification_questions :: "string list"
  rx_uncertainty_disclosures :: "string list"
  rx_prohibited_content_refs :: "ReferenceV1 list"
  rx_requires_post_render_policy_check :: bool
  rx_record_digest :: string

definition response_digest_input :: "crates \<Rightarrow> ResponseContractV1 \<Rightarrow> json" where
  "response_digest_input X r = JArr [
     HumanCenteredContractMetadataV1_json X (rx_metadata r),
     JArr (map (HumanCenteredContractRefV1_json X) (rx_source_contract_refs r)),
     JStr (response_phase_name (rx_response_phase r)),
     JStr (response_type_name (rx_response_type r)),
     jstrs (rx_answer_structure r),
     jstrs (rx_evidence_refs r),
     JStr (explanation_depth_name (rx_explanation_depth r)),
     JStr (terminology_level_name (rx_terminology_level r)),
     jstrs (rx_clarification_questions r),
     jstrs (rx_uncertainty_disclosures r),
     jstrs (rx_prohibited_content_refs r),
     JBool (rx_requires_post_render_policy_check r)]"

definition validate_response_source ::
  "ResponseContractV1 \<Rightarrow> HumanCenteredContractRefV1 \<Rightarrow> (HumanCenteredProtocolError, unit) result" where
  "validate_response_source r reference =
     and_then (HumanCenteredContractRefV1_validate reference) (\<lambda>_.
     if cr_kind reference \<notin> {HK_Intent, HK_Decision, HK_Action, HK_ExecutionReceipt, HK_Outcome} \<or>
        reference \<notin> set (cm_dependency_refs (rx_metadata r))
     then Err HE_InvalidContract
     else if rx_response_phase r = RP_PreAction \<and> cr_kind reference \<in> {HK_ExecutionReceipt, HK_Outcome}
     then Err HE_InvalidContract else Ok ())"

definition ResponseContractV1_validate ::
  "crates \<Rightarrow> ResponseContractV1 \<Rightarrow> (HumanCenteredProtocolError, unit) result" where
  "ResponseContractV1_validate X r =
     and_then (HumanCenteredContractMetadataV1_validate (rx_metadata r)) (\<lambda>_.
     if cm_contract_kind (rx_metadata r) \<noteq> HK_Response then Err HE_ContractKindMismatch
     else
     and_then (validate_text_collection (rx_answer_structure r)) (\<lambda>_.
     and_then (validate_text_collection (rx_clarification_questions r)) (\<lambda>_.
     and_then (validate_text_collection (rx_uncertainty_disclosures r)) (\<lambda>_.
     if rx_source_contract_refs r = [] \<or> rx_answer_structure r = [] \<or> \<not> rx_requires_post_render_policy_check r
     then Err HE_InvalidContract
     else
     and_then (for_each (validate_response_source r) (rx_source_contract_refs r)) (\<lambda>_.
     if rx_response_type r = RT_Clarification \<and> rx_clarification_questions r = [] then Err HE_InvalidContract
     else
     and_then (contract_digest X ''response-contract-v1'' (response_digest_input X r)) (\<lambda>digest.
     if digest \<noteq> rx_record_digest r then Err HE_DigestMismatch else Ok ()))))))"

definition ResponseContractV1_issue ::
  "crates \<Rightarrow> HumanCenteredContractMetadataV1 \<Rightarrow> HumanCenteredContractRefV1 list \<Rightarrow> ResponsePhaseV1 \<Rightarrow> ResponseTypeV1 \<Rightarrow>
   string list \<Rightarrow> ReferenceV1 list \<Rightarrow> ExplanationDepthV1 \<Rightarrow> TerminologyLevelV1 \<Rightarrow> string list \<Rightarrow> string list \<Rightarrow>
   ReferenceV1 list \<Rightarrow> (HumanCenteredProtocolError, ResponseContractV1) result" where
  "ResponseContractV1_issue X metadata source_contract_refs response_phase response_type answer_structure
       evidence_refs explanation_depth terminology_level clarification_questions uncertainty_disclosures
       prohibited_content_refs =
     and_then (canonical_references evidence_refs) (\<lambda>evidence_refs.
     and_then (canonical_references prohibited_content_refs) (\<lambda>prohibited_content_refs.
     let value = \<lparr>rx_metadata = metadata, rx_source_contract_refs = source_contract_refs,
        rx_response_phase = response_phase, rx_response_type = response_type,
        rx_answer_structure = answer_structure, rx_evidence_refs = evidence_refs,
        rx_explanation_depth = explanation_depth, rx_terminology_level = terminology_level,
        rx_clarification_questions = clarification_questions,
        rx_uncertainty_disclosures = uncertainty_disclosures,
        rx_prohibited_content_refs = prohibited_content_refs, rx_requires_post_render_policy_check = True,
        rx_record_digest = []\<rparr> in
     and_then (contract_digest X ''response-contract-v1'' (response_digest_input X value)) (\<lambda>digest.
     let value = value\<lparr>rx_record_digest := digest\<rparr> in
     and_then (ResponseContractV1_validate X value) (\<lambda>_. Ok value))))"

definition ResponseContractV1_record_ref ::
  "crates \<Rightarrow> ResponseContractV1 \<Rightarrow> (HumanCenteredProtocolError, HumanCenteredContractRefV1) result" where
  "ResponseContractV1_record_ref X r =
     and_then (ResponseContractV1_validate X r) (\<lambda>_.
     HumanCenteredContractRefV1_new HK_Response (cm_contract_id (rx_metadata r)) (cm_revision (rx_metadata r))
       (rx_record_digest r))"

section \<open>Rendered responses and their admission\<close>

record RenderedResponseEnvelopeV1 =
  re_response_ref :: HumanCenteredContractRefV1
  re_content_digest :: string
  re_renderer_ref :: ReferenceV1
  re_rendered_at :: u64
  re_schema_version :: u16

definition rendered_digest :: "crates \<Rightarrow> string \<Rightarrow> (HumanCenteredProtocolError, string) result" where
  "rendered_digest X content =
     and_then (contract_digest X ''rendered-response-content-v1'' (JStr content)) (\<lambda>d. Ok (''sha256:'' @ d))"

definition rendered_validate_for ::
  "crates \<Rightarrow> RenderedResponseEnvelopeV1 \<Rightarrow> ResponseContractV1 \<Rightarrow> (HumanCenteredProtocolError, unit) result" where
  "rendered_validate_for X e response =
     and_then (ResponseContractV1_validate X response) (\<lambda>_.
     and_then (ResponseContractV1_record_ref X response) (\<lambda>record_ref.
     if re_response_ref e \<noteq> record_ref \<or>
        \<not> (case strip_prefix ''sha256:'' (re_content_digest e) of None \<Rightarrow> False | Some d \<Rightarrow> valid_digest d) \<or>
        blank (re_renderer_ref e) \<or> re_rendered_at e = 0 \<or>
        re_rendered_at e \<ge> cm_valid_until (rx_metadata response) \<or>
        re_schema_version e \<noteq> HUMAN_CENTERED_SCHEMA_VERSION
     then Err HE_InvalidContract else Ok ()))"

definition RenderedResponseEnvelopeV1_new ::
  "crates \<Rightarrow> ResponseContractV1 \<Rightarrow> string \<Rightarrow> ReferenceV1 \<Rightarrow> u64 \<Rightarrow>
   (HumanCenteredProtocolError, RenderedResponseEnvelopeV1) result" where
  "RenderedResponseEnvelopeV1_new X response rendered_content renderer_ref rendered_at =
     (if blank rendered_content \<or> length rendered_content > 1048576 then Err HE_InvalidText
      else
      and_then (ResponseContractV1_record_ref X response) (\<lambda>response_ref.
      and_then (rendered_digest X rendered_content) (\<lambda>content_digest.
      let value = \<lparr>re_response_ref = response_ref, re_content_digest = content_digest,
         re_renderer_ref = renderer_ref, re_rendered_at = rendered_at,
         re_schema_version = HUMAN_CENTERED_SCHEMA_VERSION\<rparr> in
      and_then (rendered_validate_for X value response) (\<lambda>_. Ok value))))"

definition rendered_validate_content ::
  "crates \<Rightarrow> RenderedResponseEnvelopeV1 \<Rightarrow> string \<Rightarrow> (HumanCenteredProtocolError, unit) result" where
  "rendered_validate_content X e rendered_content =
     (if blank rendered_content \<or> length rendered_content > 1048576 then Err HE_DigestMismatch
      else
      and_then (rendered_digest X rendered_content) (\<lambda>digest.
      if re_content_digest e \<noteq> digest then Err HE_DigestMismatch else Ok ()))"

record ResponsePolicyFactsV1 =
  rf_policy_evaluation_ref :: ReferenceV1
  rf_policy_revision_ref :: ReferenceV1
  rf_evaluated_response_ref :: HumanCenteredContractRefV1
  rf_evaluated_content_digest :: string
  rf_evaluated_at :: u64
  rf_expires_at :: u64
  rf_content_policy_allows :: bool
  rf_evidence_traceable :: bool
  rf_required_uncertainty_present :: bool
  rf_prohibited_content_absent :: bool
  rf_authority_scope_respected :: bool

datatype ResponseAdmissionOutcomeV1 = RO_Allow | RO_Block

record ResponseAdmissionDecisionV1 =
  rd_outcome :: ResponseAdmissionOutcomeV1
  rd_reason_codes :: "string list"
  rd_policy_evaluation_ref :: ReferenceV1
  rd_rule_version :: u64

text \<open>Each failed condition pushes its reason, in the order of the source; \<open>True\<close> pushes.\<close>

fun failed_reasons :: "(bool \<times> string) list \<Rightarrow> string list" where
  "failed_reasons [] = []"
| "failed_reasons ((failed, reason) # rest) =
     (if failed then reason # failed_reasons rest else failed_reasons rest)"

definition evaluate_rendered_response_admission ::
  "crates \<Rightarrow> ResponseContractV1 \<Rightarrow> RenderedResponseEnvelopeV1 \<Rightarrow> string \<Rightarrow> ResponsePolicyFactsV1 \<Rightarrow> u64 \<Rightarrow>
   ResponseAdmissionDecisionV1" where
  "evaluate_rendered_response_admission X response rendered rendered_content facts valid_at =
     (let reasons = failed_reasons [
        (is_err (rendered_validate_for X rendered response) \<or>
           is_err (rendered_validate_content X rendered rendered_content), ''rendered_response_not_bound_to_contract''),
        (blank (rf_policy_evaluation_ref facts), ''policy_evaluation_reference_missing''),
        (rf_policy_revision_ref facts \<noteq> cm_policy_revision_ref (rx_metadata response), ''policy_revision_mismatch''),
        (rf_evaluated_response_ref facts \<noteq> re_response_ref rendered \<or>
           rf_evaluated_content_digest facts \<noteq> re_content_digest rendered, ''policy_evaluation_binding_mismatch''),
        (rf_evaluated_at facts < re_rendered_at rendered \<or> rf_expires_at facts \<le> rf_evaluated_at facts \<or>
           rf_evaluated_at facts = 0 \<or> rf_expires_at facts > cm_valid_until (rx_metadata response),
           ''policy_evaluation_time_invalid''),
        (valid_at < rf_evaluated_at facts \<or> valid_at \<ge> rf_expires_at facts \<or>
           valid_at \<ge> cm_valid_until (rx_metadata response), ''response_send_time_invalid''),
        (\<not> rf_content_policy_allows facts, ''content_policy_denied''),
        (\<not> rf_evidence_traceable facts, ''evidence_not_traceable''),
        (\<not> rf_required_uncertainty_present facts, ''required_uncertainty_missing''),
        (\<not> rf_prohibited_content_absent facts, ''prohibited_content_present''),
        (\<not> rf_authority_scope_respected facts, ''authority_scope_not_respected'')] in
      \<lparr>rd_outcome = (if reasons = [] then RO_Allow else RO_Block), rd_reason_codes = reasons,
        rd_policy_evaluation_ref = rf_policy_evaluation_ref facts, rd_rule_version = HUMAN_CENTERED_RULE_VERSION\<rparr>)"

section \<open>Outcomes\<close>

datatype OutcomeStateV1 = OU_Observed | OU_PartiallyObserved | OU_Unknown | OU_Conflicted

fun outcome_state_name :: "OutcomeStateV1 \<Rightarrow> string" where
  "outcome_state_name OU_Observed = ''observed''"
| "outcome_state_name OU_PartiallyObserved = ''partially_observed''"
| "outcome_state_name OU_Unknown = ''unknown''"
| "outcome_state_name OU_Conflicted = ''conflicted''"

datatype OutcomeAttributionV1 =
    OA_IntentResolution | OA_DecisionQuality | OA_ExecutionQuality | OA_EnvironmentChange | OA_Mixed
  | OA_InsufficientEvidence

fun outcome_attribution_name :: "OutcomeAttributionV1 \<Rightarrow> string" where
  "outcome_attribution_name OA_IntentResolution = ''intent_resolution''"
| "outcome_attribution_name OA_DecisionQuality = ''decision_quality''"
| "outcome_attribution_name OA_ExecutionQuality = ''execution_quality''"
| "outcome_attribution_name OA_EnvironmentChange = ''environment_change''"
| "outcome_attribution_name OA_Mixed = ''mixed''"
| "outcome_attribution_name OA_InsufficientEvidence = ''insufficient_evidence''"

record OutcomeRecordV1 =
  ox_metadata :: HumanCenteredContractMetadataV1
  ox_decision_ref :: "HumanCenteredContractRefV1 option"
  ox_action_ref :: "HumanCenteredContractRefV1 option"
  ox_execution_receipt_ref :: "HumanCenteredContractRefV1 option"
  ox_objective :: string
  ox_state :: OutcomeStateV1
  ox_observed_results :: "string list"
  ox_success_criteria_satisfied :: "string list"
  ox_success_criteria_unsatisfied :: "string list"
  ox_attribution :: OutcomeAttributionV1
  ox_attribution_confidence :: u16
  ox_evidence_refs :: "ReferenceV1 list"
  ox_follow_up_required :: bool
  ox_record_digest :: string

definition outcome_digest_input :: "crates \<Rightarrow> OutcomeRecordV1 \<Rightarrow> json" where
  "outcome_digest_input X r = JArr [
     HumanCenteredContractMetadataV1_json X (ox_metadata r),
     jopt (HumanCenteredContractRefV1_json X) (ox_decision_ref r),
     jopt (HumanCenteredContractRefV1_json X) (ox_action_ref r),
     jopt (HumanCenteredContractRefV1_json X) (ox_execution_receipt_ref r),
     JStr (ox_objective r),
     JStr (outcome_state_name (ox_state r)),
     jstrs (ox_observed_results r),
     jstrs (ox_success_criteria_satisfied r),
     jstrs (ox_success_criteria_unsatisfied r),
     JStr (outcome_attribution_name (ox_attribution r)),
     ju16 (ox_attribution_confidence r),
     jstrs (ox_evidence_refs r),
     JBool (ox_follow_up_required r)]"

definition validate_outcome_reference ::
  "OutcomeRecordV1 \<Rightarrow> HumanCenteredContractKindV1 \<Rightarrow> bool \<Rightarrow> HumanCenteredContractRefV1 option \<Rightarrow>
   (HumanCenteredProtocolError, unit) result" where
  "validate_outcome_reference r kind context_missing reference =
     (case reference of
        None \<Rightarrow> Ok ()
      | Some reference \<Rightarrow>
          and_then (HumanCenteredContractRefV1_validate reference) (\<lambda>_.
          if cr_kind reference \<noteq> kind \<or> reference \<notin> set (cm_dependency_refs (ox_metadata r)) \<or> context_missing
          then Err HE_InvalidContract else Ok ()))"

definition outcome_state_consistent :: "OutcomeRecordV1 \<Rightarrow> bool" where
  "outcome_state_consistent r =
     (case ox_state r of
        OU_Observed \<Rightarrow> ox_observed_results r \<noteq> [] \<and> ox_evidence_refs r \<noteq> []
      | OU_Unknown \<Rightarrow> ox_observed_results r = [] \<and> ox_success_criteria_satisfied r = [] \<and>
          ox_success_criteria_unsatisfied r = []
      | OU_Conflicted \<Rightarrow> ox_success_criteria_satisfied r \<noteq> [] \<and> ox_success_criteria_unsatisfied r \<noteq> []
      | OU_PartiallyObserved \<Rightarrow> True)"

definition OutcomeRecordV1_validate :: "crates \<Rightarrow> OutcomeRecordV1 \<Rightarrow> (HumanCenteredProtocolError, unit) result" where
  "OutcomeRecordV1_validate X r =
     and_then (HumanCenteredContractMetadataV1_validate (ox_metadata r)) (\<lambda>_.
     if cm_contract_kind (ox_metadata r) \<noteq> HK_Outcome then Err HE_ContractKindMismatch
     else
     and_then (validate_required_text (ox_objective r)) (\<lambda>_.
     and_then (validate_text_collection (ox_observed_results r)) (\<lambda>_.
     and_then (validate_text_collection (ox_success_criteria_satisfied r)) (\<lambda>_.
     and_then (validate_text_collection (ox_success_criteria_unsatisfied r)) (\<lambda>_.
     if ox_decision_ref r = None \<and> ox_action_ref r = None then Err HE_InvalidContract
     else
     and_then (validate_outcome_reference r HK_Decision False (ox_decision_ref r)) (\<lambda>_.
     and_then (validate_outcome_reference r HK_Action False (ox_action_ref r)) (\<lambda>_.
     and_then (validate_outcome_reference r HK_ExecutionReceipt (ox_action_ref r = None)
       (ox_execution_receipt_ref r)) (\<lambda>_.
     if ox_state r = OU_Unknown \<and> ox_attribution r \<noteq> OA_InsufficientEvidence then Err HE_InvalidContract
     else if \<not> outcome_state_consistent r then Err HE_InvalidContract
     else if ox_attribution r = OA_ExecutionQuality \<and> ox_execution_receipt_ref r = None \<or>
        ox_attribution r = OA_DecisionQuality \<and> ox_decision_ref r = None
     then Err HE_InvalidContract
     else
     and_then (contract_digest X ''outcome-record-v1'' (outcome_digest_input X r)) (\<lambda>digest.
     if digest \<noteq> ox_record_digest r then Err HE_DigestMismatch else Ok ())))))))))"

definition OutcomeRecordV1_issue ::
  "crates \<Rightarrow> HumanCenteredContractMetadataV1 \<Rightarrow> HumanCenteredContractRefV1 option \<Rightarrow> HumanCenteredContractRefV1 option \<Rightarrow>
   HumanCenteredContractRefV1 option \<Rightarrow> string \<Rightarrow> OutcomeStateV1 \<Rightarrow> string list \<Rightarrow> string list \<Rightarrow> string list \<Rightarrow>
   OutcomeAttributionV1 \<Rightarrow> u16 \<Rightarrow> ReferenceV1 list \<Rightarrow> bool \<Rightarrow> (HumanCenteredProtocolError, OutcomeRecordV1) result" where
  "OutcomeRecordV1_issue X metadata decision_ref action_ref execution_receipt_ref objective state
       observed_results success_criteria_satisfied success_criteria_unsatisfied attribution
       attribution_confidence evidence_refs follow_up_required =
     and_then (canonical_references evidence_refs) (\<lambda>evidence_refs.
     let value = \<lparr>ox_metadata = metadata, ox_decision_ref = decision_ref, ox_action_ref = action_ref,
        ox_execution_receipt_ref = execution_receipt_ref, ox_objective = objective, ox_state = state,
        ox_observed_results = observed_results, ox_success_criteria_satisfied = success_criteria_satisfied,
        ox_success_criteria_unsatisfied = success_criteria_unsatisfied, ox_attribution = attribution,
        ox_attribution_confidence = attribution_confidence, ox_evidence_refs = evidence_refs,
        ox_follow_up_required = follow_up_required, ox_record_digest = []\<rparr> in
     and_then (contract_digest X ''outcome-record-v1'' (outcome_digest_input X value)) (\<lambda>digest.
     let value = value\<lparr>ox_record_digest := digest\<rparr> in
     and_then (OutcomeRecordV1_validate X value) (\<lambda>_. Ok value)))"

definition OutcomeRecordV1_record_ref ::
  "crates \<Rightarrow> OutcomeRecordV1 \<Rightarrow> (HumanCenteredProtocolError, HumanCenteredContractRefV1) result" where
  "OutcomeRecordV1_record_ref X r =
     and_then (OutcomeRecordV1_validate X r) (\<lambda>_.
     HumanCenteredContractRefV1_new HK_Outcome (cm_contract_id (ox_metadata r)) (cm_revision (ox_metadata r))
       (ox_record_digest r))"

end
