(* ===== verification/IDR_Human_Model.thy ===== *)
theory IDR_Human_Model
  imports IDR_Decision
begin

text \<open>
  The model of the user (\<open>human_centered/human_model.rs\<close>): assertions with their scope, usage policy,
  correction and effective value, and the gate that decides how a proposed update may be kept.
\<close>

section \<open>Values, scopes and policies\<close>

datatype HumanModelAssertionTypeV1 =
    HA_InteractionProfile | HA_CognitiveInteractionProfile | HA_PersonalDecisionModel | HA_Goal
  | HA_Constraint | HA_DecisionHistory | HA_OutcomeHistory

fun assertion_type_name :: "HumanModelAssertionTypeV1 \<Rightarrow> string" where
  "assertion_type_name HA_InteractionProfile = ''interaction_profile''"
| "assertion_type_name HA_CognitiveInteractionProfile = ''cognitive_interaction_profile''"
| "assertion_type_name HA_PersonalDecisionModel = ''personal_decision_model''"
| "assertion_type_name HA_Goal = ''goal''"
| "assertion_type_name HA_Constraint = ''constraint''"
| "assertion_type_name HA_DecisionHistory = ''decision_history''"
| "assertion_type_name HA_OutcomeHistory = ''outcome_history''"

datatype HumanModelValueV1 =
    MV_Boolean bool
  | MV_Integer "64 word"
  | MV_BasisPoints u16
  | MV_Text string
  | MV_Enum string
  | MV_Reference ReferenceV1

fun HumanModelValueV1_validate :: "HumanModelValueV1 \<Rightarrow> (HumanCenteredProtocolError, unit) result" where
  "HumanModelValueV1_validate (MV_Text value) = validate_required_text value"
| "HumanModelValueV1_validate (MV_Enum value) = validate_required_text value"
| "HumanModelValueV1_validate (MV_Reference value) = (if blank value then Err HE_InvalidReference else Ok ())"
| "HumanModelValueV1_validate _ = Ok ()"

text \<open>An \<open>i64\<close> is the signed reading of its word.\<close>

fun HumanModelValueV1_json :: "HumanModelValueV1 \<Rightarrow> json" where
  "HumanModelValueV1_json (MV_Boolean b) = JObj [(''type'', JStr ''boolean''), (''data'', JBool b)]"
| "HumanModelValueV1_json (MV_Integer i) = JObj [(''type'', JStr ''integer''), (''data'', jint (sint i))]"
| "HumanModelValueV1_json (MV_BasisPoints p) = JObj [(''type'', JStr ''basis_points''), (''data'', ju16 p)]"
| "HumanModelValueV1_json (MV_Text s) = JObj [(''type'', JStr ''text''), (''data'', JStr s)]"
| "HumanModelValueV1_json (MV_Enum s) = JObj [(''type'', JStr ''enum''), (''data'', JStr s)]"
| "HumanModelValueV1_json (MV_Reference r) = JObj [(''type'', JStr ''reference''), (''data'', JStr r)]"

record HumanModelScopeV1 =
  ms_domains :: "string list"
  ms_task_types :: "string list"
  ms_global :: bool

definition HumanModelScopeV1_validate :: "HumanModelScopeV1 \<Rightarrow> (HumanCenteredProtocolError, unit) result" where
  "HumanModelScopeV1_validate s =
     (if length (ms_domains s) > 64 \<or> length (ms_task_types s) > 64 \<or>
         \<not> unique_strings (ms_domains s) \<or> \<not> unique_strings (ms_task_types s) \<or>
         ms_global s \<and> (ms_domains s \<noteq> [] \<or> ms_task_types s \<noteq> []) \<or>
         \<not> ms_global s \<and> ms_domains s = [] \<and> ms_task_types s = []
      then Err HE_InvalidContract
      else for_each validate_required_text (ms_domains s @ ms_task_types s))"

datatype HumanModelPersistenceScopeV1 = PS_Turn | PS_Session | PS_LongTerm

fun persistence_scope_name :: "HumanModelPersistenceScopeV1 \<Rightarrow> string" where
  "persistence_scope_name PS_Turn = ''turn''"
| "persistence_scope_name PS_Session = ''session''"
| "persistence_scope_name PS_LongTerm = ''long_term''"

datatype HumanModelEpistemicStatusV1 = EP_Candidate | EP_Provisional | EP_UserConfirmed | EP_OutcomeSupported

fun epistemic_status_name :: "HumanModelEpistemicStatusV1 \<Rightarrow> string" where
  "epistemic_status_name EP_Candidate = ''candidate''"
| "epistemic_status_name EP_Provisional = ''provisional''"
| "epistemic_status_name EP_UserConfirmed = ''user_confirmed''"
| "epistemic_status_name EP_OutcomeSupported = ''outcome_supported''"

datatype HumanModelLifecycleStatusV1 = LC_Active | LC_Rejected | LC_Expired | LC_Superseded

fun lifecycle_status_name :: "HumanModelLifecycleStatusV1 \<Rightarrow> string" where
  "lifecycle_status_name LC_Active = ''active''"
| "lifecycle_status_name LC_Rejected = ''rejected''"
| "lifecycle_status_name LC_Expired = ''expired''"
| "lifecycle_status_name LC_Superseded = ''superseded''"

datatype HumanModelSourceTypeV1 =
    ST_ExplicitUserStatement | ST_InferredFromInteraction | ST_DecisionObservation | ST_OutcomeObservation
  | ST_UserCorrection | ST_ImportedAuthorizedSource

fun source_type_name :: "HumanModelSourceTypeV1 \<Rightarrow> string" where
  "source_type_name ST_ExplicitUserStatement = ''explicit_user_statement''"
| "source_type_name ST_InferredFromInteraction = ''inferred_from_interaction''"
| "source_type_name ST_DecisionObservation = ''decision_observation''"
| "source_type_name ST_OutcomeObservation = ''outcome_observation''"
| "source_type_name ST_UserCorrection = ''user_correction''"
| "source_type_name ST_ImportedAuthorizedSource = ''imported_authorized_source''"

datatype HumanModelCorrectionStateV1 = CS_NotReviewed | CS_Confirmed | CS_Corrected | CS_Rejected

fun correction_state_name :: "HumanModelCorrectionStateV1 \<Rightarrow> string" where
  "correction_state_name CS_NotReviewed = ''not_reviewed''"
| "correction_state_name CS_Confirmed = ''confirmed''"
| "correction_state_name CS_Corrected = ''corrected''"
| "correction_state_name CS_Rejected = ''rejected''"

record HumanModelUsagePolicyV1 =
  mp_allowed_uses :: "string list"
  mp_forbidden_uses :: "string list"
  mp_maximum_impact_level :: ImpactLevelV1

definition HumanModelUsagePolicyV1_validate ::
  "HumanModelUsagePolicyV1 \<Rightarrow> (HumanCenteredProtocolError, unit) result" where
  "HumanModelUsagePolicyV1_validate p =
     (if length (mp_allowed_uses p) > 64 \<or> length (mp_forbidden_uses p) > 64 \<or> mp_allowed_uses p = [] \<or>
         \<not> unique_strings (mp_allowed_uses p) \<or> \<not> unique_strings (mp_forbidden_uses p) \<or>
         high_impact (mp_maximum_impact_level p) \<or>
         list_ex (\<lambda>value. value \<in> set (mp_forbidden_uses p)) (mp_allowed_uses p)
      then Err HE_InvalidContract
      else for_each validate_required_text (mp_allowed_uses p @ mp_forbidden_uses p))"

section \<open>The update gate\<close>

record HumanModelUpdateFactsV1 =
  uf_proposed_by_cognitive_service :: bool
  uf_explicit_user_confirmation :: bool
  uf_independent_supporting_observations :: u16
  uf_outcome_support_present :: bool
  uf_contradiction_present :: bool
  uf_inference_policy_allows :: bool
  uf_sensitive_attribute_inference :: bool

datatype HumanModelUpdateGateOutcomeV1 =
    UG_KeepSession | UG_StoreCandidate | UG_PromoteProvisional | UG_PromoteUserConfirmed
  | UG_PromoteOutcomeSupported | UG_Reject

record HumanModelUpdateGateDecisionV1 =
  ud_outcome :: HumanModelUpdateGateOutcomeV1
  ud_reason_codes :: "string list"
  ud_rule_version :: u64

definition gate_decision :: "HumanModelUpdateGateOutcomeV1 \<Rightarrow> string list \<Rightarrow> HumanModelUpdateGateDecisionV1" where
  "gate_decision outcome reasons =
     \<lparr>ud_outcome = outcome, ud_reason_codes = reasons, ud_rule_version = HUMAN_CENTERED_RULE_VERSION\<rparr>"

definition evaluate_human_model_update_gate :: "HumanModelUpdateFactsV1 \<Rightarrow> HumanModelUpdateGateDecisionV1" where
  "evaluate_human_model_update_gate facts =
     (if \<not> uf_inference_policy_allows facts \<or> uf_sensitive_attribute_inference facts \<or> uf_contradiction_present facts
      then gate_decision UG_Reject
        ((if \<not> uf_inference_policy_allows facts then [''inference_policy_denied''] else []) @
         (if uf_sensitive_attribute_inference facts then [''sensitive_attribute_inference''] else []) @
         (if uf_contradiction_present facts then [''contradiction_requires_review''] else []))
      else if uf_explicit_user_confirmation facts
      then gate_decision UG_PromoteUserConfirmed [''explicit_user_confirmation'']
      else if uf_outcome_support_present facts \<and> uf_independent_supporting_observations facts \<ge> 1
      then gate_decision UG_PromoteOutcomeSupported [''outcome_supported'']
      else if uf_independent_supporting_observations facts \<ge> 2
      then gate_decision UG_PromoteProvisional [''multiple_independent_observations'']
      else if uf_proposed_by_cognitive_service facts
      then gate_decision UG_StoreCandidate [''cognitive_candidate_only'']
      else gate_decision UG_KeepSession [''insufficient_long_term_evidence''])"

definition gate_epistemic_status ::
  "HumanModelUpdateGateDecisionV1 \<Rightarrow> (HumanCenteredProtocolError, HumanModelEpistemicStatusV1) result" where
  "gate_epistemic_status g =
     (if ud_rule_version g \<noteq> HUMAN_CENTERED_RULE_VERSION then Err HE_InvalidContract
      else case ud_outcome g of
        UG_StoreCandidate \<Rightarrow> Ok EP_Candidate
      | UG_PromoteProvisional \<Rightarrow> Ok EP_Provisional
      | UG_PromoteUserConfirmed \<Rightarrow> Ok EP_UserConfirmed
      | UG_PromoteOutcomeSupported \<Rightarrow> Ok EP_OutcomeSupported
      | UG_KeepSession \<Rightarrow> Err HE_InvalidContract
      | UG_Reject \<Rightarrow> Err HE_InvalidContract)"

section \<open>Assertions\<close>

record HumanModelAssertionV1 =
  mx_metadata :: HumanCenteredContractMetadataV1
  mx_assertion_id :: uuid
  mx_subject_ref :: ReferenceV1
  mx_assertion_type :: HumanModelAssertionTypeV1
  mx_predicate :: string
  mx_value :: HumanModelValueV1
  mx_claim_summary :: string
  mx_scope :: HumanModelScopeV1
  mx_persistence_scope :: HumanModelPersistenceScopeV1
  mx_epistemic_status :: HumanModelEpistemicStatusV1
  mx_lifecycle_status :: HumanModelLifecycleStatusV1
  mx_confidence :: u16
  mx_source_type :: HumanModelSourceTypeV1
  mx_source_refs :: "ReferenceV1 list"
  mx_supporting_evidence_refs :: "ReferenceV1 list"
  mx_contradicting_evidence_refs :: "ReferenceV1 list"
  mx_correction_state :: HumanModelCorrectionStateV1
  mx_corrected_value :: "HumanModelValueV1 option"
  mx_first_observed_at :: u64
  mx_last_observed_at :: u64
  mx_expires_at :: "u64 option"
  mx_decay_policy_ref :: ReferenceV1
  mx_usage_policy :: HumanModelUsagePolicyV1
  mx_record_digest :: string

definition HumanModelScopeV1_json :: "HumanModelScopeV1 \<Rightarrow> json" where
  "HumanModelScopeV1_json s = JObj [
     (''domains'', jstrs (ms_domains s)), (''task_types'', jstrs (ms_task_types s)), (''global'', JBool (ms_global s))]"

definition HumanModelUsagePolicyV1_json :: "HumanModelUsagePolicyV1 \<Rightarrow> json" where
  "HumanModelUsagePolicyV1_json p = JObj [
     (''allowed_uses'', jstrs (mp_allowed_uses p)), (''forbidden_uses'', jstrs (mp_forbidden_uses p)),
     (''maximum_impact_level'', JStr (impact_level_name (mp_maximum_impact_level p)))]"

definition assertion_digest_input :: "crates \<Rightarrow> HumanModelAssertionV1 \<Rightarrow> json" where
  "assertion_digest_input X a = JArr [
     JArr [
       HumanCenteredContractMetadataV1_json X (mx_metadata a),
       hc_uuid_json X (mx_assertion_id a),
       JStr (mx_subject_ref a),
       JStr (assertion_type_name (mx_assertion_type a)),
       JStr (mx_predicate a),
       HumanModelValueV1_json (mx_value a),
       JStr (mx_claim_summary a),
       HumanModelScopeV1_json (mx_scope a),
       JStr (persistence_scope_name (mx_persistence_scope a)),
       JStr (epistemic_status_name (mx_epistemic_status a)),
       JStr (lifecycle_status_name (mx_lifecycle_status a))],
     JArr [
       ju16 (mx_confidence a),
       JStr (source_type_name (mx_source_type a)),
       jstrs (mx_source_refs a),
       jstrs (mx_supporting_evidence_refs a),
       jstrs (mx_contradicting_evidence_refs a),
       JStr (correction_state_name (mx_correction_state a)),
       jopt HumanModelValueV1_json (mx_corrected_value a),
       ju64 (mx_first_observed_at a),
       ju64 (mx_last_observed_at a),
       jopt ju64 (mx_expires_at a),
       JStr (mx_decay_policy_ref a),
       HumanModelUsagePolicyV1_json (mx_usage_policy a)]]"

definition HumanModelAssertionV1_validate ::
  "crates \<Rightarrow> HumanModelAssertionV1 \<Rightarrow> (HumanCenteredProtocolError, unit) result" where
  "HumanModelAssertionV1_validate X a =
     and_then (HumanCenteredContractMetadataV1_validate (mx_metadata a)) (\<lambda>_.
     if cm_contract_kind (mx_metadata a) \<noteq> HK_HumanModelAssertion then Err HE_ContractKindMismatch
     else
     and_then (HumanModelValueV1_validate (mx_value a)) (\<lambda>_.
     and_then (HumanModelScopeV1_validate (mx_scope a)) (\<lambda>_.
     and_then (HumanModelUsagePolicyV1_validate (mx_usage_policy a)) (\<lambda>_.
     and_then (validate_required_text (mx_predicate a)) (\<lambda>_.
     and_then (validate_required_text (mx_claim_summary a)) (\<lambda>_.
     if human_id_is_empty (mx_assertion_id a) \<or>
        mx_subject_ref a \<noteq> ac_subject_ref (cm_authority_context (mx_metadata a)) \<or>
        blank (mx_decay_policy_ref a) \<or> mx_source_refs a = [] \<or> mx_first_observed_at a = 0 \<or>
        mx_last_observed_at a < mx_first_observed_at a \<or>
        (case mx_expires_at a of None \<Rightarrow> False | Some expires \<Rightarrow> expires \<le> mx_last_observed_at a) \<or>
        list_ex (\<lambda>value. value \<in> set (mx_contradicting_evidence_refs a)) (mx_supporting_evidence_refs a) \<or>
        (mx_correction_state a = CS_Corrected) \<noteq> (mx_corrected_value a \<noteq> None) \<or>
        mx_persistence_scope a = PS_LongTerm \<and> mx_epistemic_status a = EP_Candidate
     then Err HE_InvalidContract
     else
     and_then (case mx_corrected_value a of None \<Rightarrow> Ok () | Some value \<Rightarrow> HumanModelValueV1_validate value) (\<lambda>_.
     and_then (contract_digest X ''human-model-assertion-v1'' (assertion_digest_input X a)) (\<lambda>digest.
     if digest \<noteq> mx_record_digest a then Err HE_DigestMismatch else Ok ()))))))))"

definition HumanModelAssertionV1_issue ::
  "crates \<Rightarrow> uuid \<Rightarrow> HumanCenteredContractMetadataV1 \<Rightarrow> ReferenceV1 \<Rightarrow> HumanModelAssertionTypeV1 \<Rightarrow> string \<Rightarrow>
   HumanModelValueV1 \<Rightarrow> string \<Rightarrow> HumanModelScopeV1 \<Rightarrow> HumanModelPersistenceScopeV1 \<Rightarrow>
   HumanModelUpdateGateDecisionV1 \<Rightarrow> HumanModelLifecycleStatusV1 \<Rightarrow> u16 \<Rightarrow> HumanModelSourceTypeV1 \<Rightarrow>
   ReferenceV1 list \<Rightarrow> ReferenceV1 list \<Rightarrow> ReferenceV1 list \<Rightarrow> HumanModelCorrectionStateV1 \<Rightarrow>
   HumanModelValueV1 option \<Rightarrow> u64 \<Rightarrow> u64 \<Rightarrow> u64 option \<Rightarrow> ReferenceV1 \<Rightarrow> HumanModelUsagePolicyV1 \<Rightarrow>
   (HumanCenteredProtocolError, HumanModelAssertionV1) result" where
  "HumanModelAssertionV1_issue X minted_id metadata subject_ref assertion_type predicate value claim_summary scope
       persistence_scope gate lifecycle_status confidence source_type source_refs supporting contradicting
       correction_state corrected_value first_observed_at last_observed_at expires_at decay_policy_ref usage_policy =
     and_then (gate_epistemic_status gate) (\<lambda>epistemic_status.
     and_then (canonical_references source_refs) (\<lambda>source_refs.
     and_then (canonical_references supporting) (\<lambda>supporting.
     and_then (canonical_references contradicting) (\<lambda>contradicting.
     let a = \<lparr>mx_metadata = metadata, mx_assertion_id = minted_id, mx_subject_ref = subject_ref,
        mx_assertion_type = assertion_type, mx_predicate = predicate, mx_value = value,
        mx_claim_summary = claim_summary, mx_scope = scope, mx_persistence_scope = persistence_scope,
        mx_epistemic_status = epistemic_status, mx_lifecycle_status = lifecycle_status,
        mx_confidence = confidence, mx_source_type = source_type, mx_source_refs = source_refs,
        mx_supporting_evidence_refs = supporting, mx_contradicting_evidence_refs = contradicting,
        mx_correction_state = correction_state, mx_corrected_value = corrected_value,
        mx_first_observed_at = first_observed_at, mx_last_observed_at = last_observed_at,
        mx_expires_at = expires_at, mx_decay_policy_ref = decay_policy_ref, mx_usage_policy = usage_policy,
        mx_record_digest = []\<rparr> in
     and_then (contract_digest X ''human-model-assertion-v1'' (assertion_digest_input X a)) (\<lambda>digest.
     let a = a\<lparr>mx_record_digest := digest\<rparr> in
     and_then (HumanModelAssertionV1_validate X a) (\<lambda>_. Ok a))))))"

definition HumanModelAssertionV1_record_ref ::
  "crates \<Rightarrow> HumanModelAssertionV1 \<Rightarrow> (HumanCenteredProtocolError, HumanCenteredContractRefV1) result" where
  "HumanModelAssertionV1_record_ref X a =
     and_then (HumanModelAssertionV1_validate X a) (\<lambda>_.
     HumanCenteredContractRefV1_new HK_HumanModelAssertion (cm_contract_id (mx_metadata a))
       (cm_revision (mx_metadata a)) (mx_record_digest a))"

definition effective_value :: "HumanModelAssertionV1 \<Rightarrow> u64 \<Rightarrow> HumanModelValueV1 option" where
  "effective_value a trusted_now =
     (if mx_lifecycle_status a \<noteq> LC_Active \<or> mx_correction_state a = CS_Rejected \<or>
         trusted_now < mx_first_observed_at a \<or>
         (case mx_expires_at a of None \<Rightarrow> False | Some expires_at \<Rightarrow> trusted_now \<ge> expires_at)
      then None
      else Some (case mx_corrected_value a of None \<Rightarrow> mx_value a | Some value \<Rightarrow> value))"

section \<open>Lemmas\<close>

lemma gate_status_cases:
  "gate_epistemic_status (evaluate_human_model_update_gate facts) = Ok status \<Longrightarrow>
     uf_inference_policy_allows facts \<and> \<not> uf_sensitive_attribute_inference facts \<and>
     \<not> uf_contradiction_present facts \<and>
     (status = EP_UserConfirmed \<longleftrightarrow> uf_explicit_user_confirmation facts) \<and>
     (status = EP_OutcomeSupported \<longrightarrow>
        uf_outcome_support_present facts \<and> uf_independent_supporting_observations facts \<ge> 1) \<and>
     (status = EP_Provisional \<longrightarrow> uf_independent_supporting_observations facts \<ge> 2)"
  by (auto simp: gate_epistemic_status_def evaluate_human_model_update_gate_def gate_decision_def
      split: if_splits)

end
