(* ===== verification/IDR_Store_Snapshot.thy ===== *)
theory IDR_Store_Snapshot
  imports IDR_Execution IDR_Response IDR_Human_Model "HOL-Library.Product_Lexorder"
begin

text \<open>
  The snapshot of the file store (\<open>idr-store/src/file_store.rs\<close>): the records of every contract kind, the
  current pointers, the invalidated references and the execution reservations, with the digest that seals a
  snapshot, the propagation of invalidation, the replay of the history and the validation.
\<close>

section \<open>Contracts of every kind\<close>

datatype HumanCenteredContractSnapshotV1 =
    SN_Intent IntentContractV1
  | SN_Decision DecisionContractV1
  | SN_TurnCoordination TurnCoordinationPlanV1
  | SN_Response ResponseContractV1
  | SN_Action ActionContractV1
  | SN_ExecutionReceipt ExecutionReceiptV1
  | SN_Outcome OutcomeRecordV1
  | SN_HumanModelAssertion HumanModelAssertionV1

fun snapshot_contract_validate ::
  "crates \<Rightarrow> HumanCenteredContractSnapshotV1 \<Rightarrow> (HumanCenteredProtocolError, unit) result" where
  "snapshot_contract_validate X (SN_Intent v) = IntentContractV1_validate X v"
| "snapshot_contract_validate X (SN_Decision v) = DecisionContractV1_validate X v"
| "snapshot_contract_validate X (SN_TurnCoordination v) = TurnCoordinationPlanV1_validate X v"
| "snapshot_contract_validate X (SN_Response v) = ResponseContractV1_validate X v"
| "snapshot_contract_validate X (SN_Action v) = ActionContractV1_validate X v"
| "snapshot_contract_validate X (SN_ExecutionReceipt v) = ExecutionReceiptV1_validate X v"
| "snapshot_contract_validate X (SN_Outcome v) = OutcomeRecordV1_validate X v"
| "snapshot_contract_validate X (SN_HumanModelAssertion v) = HumanModelAssertionV1_validate X v"

fun snapshot_record_ref ::
  "crates \<Rightarrow> HumanCenteredContractSnapshotV1 \<Rightarrow> (HumanCenteredProtocolError, HumanCenteredContractRefV1) result" where
  "snapshot_record_ref X (SN_Intent v) = IntentContractV1_record_ref X v"
| "snapshot_record_ref X (SN_Decision v) = DecisionContractV1_record_ref X v"
| "snapshot_record_ref X (SN_TurnCoordination v) = TurnCoordinationPlanV1_record_ref X v"
| "snapshot_record_ref X (SN_Response v) = ResponseContractV1_record_ref X v"
| "snapshot_record_ref X (SN_Action v) = ActionContractV1_record_ref X v"
| "snapshot_record_ref X (SN_ExecutionReceipt v) = ExecutionReceiptV1_record_ref X v"
| "snapshot_record_ref X (SN_Outcome v) = OutcomeRecordV1_record_ref X v"
| "snapshot_record_ref X (SN_HumanModelAssertion v) = HumanModelAssertionV1_record_ref X v"

fun snapshot_metadata :: "HumanCenteredContractSnapshotV1 \<Rightarrow> HumanCenteredContractMetadataV1" where
  "snapshot_metadata (SN_Intent v) = in_metadata v"
| "snapshot_metadata (SN_Decision v) = dx_metadata v"
| "snapshot_metadata (SN_TurnCoordination v) = tp_metadata v"
| "snapshot_metadata (SN_Response v) = rx_metadata v"
| "snapshot_metadata (SN_Action v) = ax_metadata v"
| "snapshot_metadata (SN_ExecutionReceipt v) = xr_metadata v"
| "snapshot_metadata (SN_Outcome v) = ox_metadata v"
| "snapshot_metadata (SN_HumanModelAssertion v) = mx_metadata v"

section \<open>Reservations, attempts and snapshots\<close>

datatype ExecutionReservationStatusV1 =
    ER_PermitIssued | ER_Delivered | ER_Dispatched | ER_Cancelled | ER_ReconciliationRequired | ER_Succeeded
  | ER_Failed | ER_PartiallySucceeded | ER_Rejected | ER_Compensated | ER_Expired

definition permits_retry :: "ExecutionReservationStatusV1 \<Rightarrow> bool" where
  "permits_retry s \<longleftrightarrow> s \<in> {ER_Failed, ER_Rejected, ER_Expired}"

definition reservation_is_terminal :: "ExecutionReservationStatusV1 \<Rightarrow> bool" where
  "reservation_is_terminal s \<longleftrightarrow>
     s \<in> {ER_Succeeded, ER_Failed, ER_PartiallySucceeded, ER_Rejected, ER_Compensated, ER_Cancelled, ER_Expired}"

record ExecutionAttemptRecordV1 =
  at_attempt :: u32
  at_permit_id :: uuid
  at_proof_id :: uuid
  at_proof_nonce :: string
  at_proof_issuer_ref :: ReferenceV1
  at_proof_key_id :: ReferenceV1
  at_proof_expires_at :: u64
  at_subject_digest :: string
  at_permit_proof_envelope :: SignedProofEnvelopeV1
  at_authorization :: ExactActionAuthorizationV1
  at_request :: ExecutionPermitRequestV1
  at_consumed_at :: u64
  at_status :: ExecutionReservationStatusV1
  at_delivered_at :: "u64 option"
  at_dispatched_at :: "u64 option"
  at_receipt_ref :: "HumanCenteredContractRefV1 option"
  at_receipt_proof_envelope :: "SignedProofEnvelopeV1 option"
  at_receipt_verified_at :: "u64 option"

record ExecutionReservationRecordV1 =
  es_reservation_id :: uuid
  es_action_ref :: HumanCenteredContractRefV1
  es_tenant_ref :: ReferenceV1
  es_operation_ref :: ReferenceV1
  es_idempotency_key :: string
  es_attempts :: "ExecutionAttemptRecordV1 list"

record HumanCenteredStoreSnapshotV1 =
  ss_sequence :: u64
  ss_previous_snapshot_digest :: "string option"
  ss_snapshot_digest :: string
  ss_records :: "HumanCenteredContractSnapshotV1 list"
  ss_current_pointers :: "HumanCenteredContractRefV1 list"
  ss_invalidated_refs :: "HumanCenteredContractRefV1 list"
  ss_execution_reservations :: "ExecutionReservationRecordV1 list"

definition default_snapshot :: HumanCenteredStoreSnapshotV1 where
  "default_snapshot = \<lparr>ss_sequence = 0, ss_previous_snapshot_digest = None, ss_snapshot_digest = [],
     ss_records = [], ss_current_pointers = [], ss_invalidated_refs = [], ss_execution_reservations = []\<rparr>"

text \<open>The errors; those of the file system and of serde carry no detail here.\<close>

datatype HumanCenteredStoreErrorV1 =
    SE_Protocol HumanCenteredProtocolError
  | SE_Io | SE_Serialization | SE_Poisoned | SE_StaleCurrentPointer | SE_StaleDependency
  | SE_CrossObjectMismatch | SE_CorruptSnapshot | SE_CorruptAnchor | SE_RollbackDetected
  | SE_ProofReplayDetected | SE_AuthorizationAlreadyConsumed | SE_TrustedClockUnavailable
  | SE_ExecutionAlreadyReserved | SE_ExecutionReservationNotFound | SE_ExecutionPermitMismatch
  | SE_ExecutionOwnerMismatch | SE_ExecutionLeaseExpired | SE_ExecutionRequiresReconciliation
  | SE_ExecutionActionInvalidated | SE_InvalidExecutionTransition | SE_VerifiedReceiptProofRequired
  | SE_InvalidExecutionAttempt | SE_AttemptOverflow | SE_SequenceOverflow

abbreviation protocol :: "(HumanCenteredProtocolError, 'a) result \<Rightarrow> (HumanCenteredStoreErrorV1, 'a) result" where
  "protocol r \<equiv> map_err SE_Protocol r"

section \<open>Serialization\<close>

fun proof_kind_v1_name :: "ProofKindV1 \<Rightarrow> string" where
  "proof_kind_v1_name PF_InputAdmission = ''input_admission''"
| "proof_kind_v1_name PF_ContextSnapshot = ''context_snapshot''"
| "proof_kind_v1_name PF_IntentFastPathFacts = ''intent_fast_path_facts''"
| "proof_kind_v1_name PF_DecisionNecessityFacts = ''decision_necessity_facts''"
| "proof_kind_v1_name PF_TurnCoordinationFacts = ''turn_coordination_facts''"
| "proof_kind_v1_name PF_AuthorityGrant = ''authority_grant''"
| "proof_kind_v1_name PF_PolicyEvaluation = ''policy_evaluation''"
| "proof_kind_v1_name PF_Capability = ''capability''"
| "proof_kind_v1_name PF_HumanConfirmation = ''human_confirmation''"
| "proof_kind_v1_name PF_DependencySnapshot = ''dependency_snapshot''"
| "proof_kind_v1_name PF_OutcomeObservation = ''outcome_observation''"
| "proof_kind_v1_name PF_ExecutionPermit = ''execution_permit''"
| "proof_kind_v1_name PF_ProviderExecutionReceipt = ''provider_execution_receipt''"

definition ProofClaimsV1_json :: "crates \<Rightarrow> ProofClaimsV1 \<Rightarrow> json" where
  "ProofClaimsV1_json X c = JObj [
     (''proof_id'', hc_uuid_json X (hp_proof_id c)), (''proof_kind'', JStr (proof_kind_v1_name (hp_proof_kind c))),
     (''issuer_ref'', JStr (hp_issuer_ref c)), (''subject_ref'', JStr (hp_subject_ref c)),
     (''subject_digest'', JStr (hp_subject_digest c)), (''tenant_ref'', JStr (hp_tenant_ref c)),
     (''scope_ref'', JStr (hp_scope_ref c)), (''purpose_ref'', JStr (hp_purpose_ref c)),
     (''policy_revision_ref'', JStr (hp_policy_revision_ref c)), (''issued_at'', ju64 (hp_issued_at c)),
     (''expires_at'', ju64 (hp_expires_at c)), (''nonce'', JStr (hp_nonce c)),
     (''schema_version'', ju16 (hp_schema_version c))]"

definition SignedProofEnvelopeV1_json :: "crates \<Rightarrow> SignedProofEnvelopeV1 \<Rightarrow> json" where
  "SignedProofEnvelopeV1_json X e = JObj [
     (''claims'', ProofClaimsV1_json X (he_claims e)), (''key_id'', JStr (he_key_id e)),
     (''signature'', JStr (he_signature e))]"

definition ExecutionPermitRequestV1_json :: "crates \<Rightarrow> ExecutionPermitRequestV1 \<Rightarrow> json" where
  "ExecutionPermitRequestV1_json X q = JObj [
     (''request_ref'', JStr (pq_request_ref q)),
     (''action_ref'', HumanCenteredContractRefV1_json X (pq_action_ref q)),
     (''authorization_id'', hc_uuid_json X (pq_authorization_id q)),
     (''authorization_digest'', JStr (pq_authorization_digest q)),
     (''provider_ref'', JStr (pq_provider_ref q)), (''owner_ref'', JStr (pq_owner_ref q)),
     (''attempt'', ju32 (pq_attempt q)), (''lease_issued_at'', ju64 (pq_lease_issued_at q)),
     (''lease_until'', ju64 (pq_lease_until q)), (''dispatch_nonce'', JStr (pq_dispatch_nonce q)),
     (''idempotency_key'', JStr (pq_idempotency_key q)), (''tenant_ref'', JStr (pq_tenant_ref q)),
     (''scope_ref'', JStr (pq_scope_ref q)), (''purpose_ref'', JStr (pq_purpose_ref q)),
     (''policy_revision_ref'', JStr (pq_policy_revision_ref q)), (''request_digest'', JStr (pq_request_digest q))]"

fun reservation_status_name :: "ExecutionReservationStatusV1 \<Rightarrow> string" where
  "reservation_status_name ER_PermitIssued = ''permit_issued''"
| "reservation_status_name ER_Delivered = ''delivered''"
| "reservation_status_name ER_Dispatched = ''dispatched''"
| "reservation_status_name ER_Cancelled = ''cancelled''"
| "reservation_status_name ER_ReconciliationRequired = ''reconciliation_required''"
| "reservation_status_name ER_Succeeded = ''succeeded''"
| "reservation_status_name ER_Failed = ''failed''"
| "reservation_status_name ER_PartiallySucceeded = ''partially_succeeded''"
| "reservation_status_name ER_Rejected = ''rejected''"
| "reservation_status_name ER_Compensated = ''compensated''"
| "reservation_status_name ER_Expired = ''expired''"

definition ExecutionAttemptRecordV1_json :: "crates \<Rightarrow> ExecutionAttemptRecordV1 \<Rightarrow> json" where
  "ExecutionAttemptRecordV1_json X a = JObj [
     (''attempt'', ju32 (at_attempt a)), (''permit_id'', hc_uuid_json X (at_permit_id a)),
     (''proof_id'', hc_uuid_json X (at_proof_id a)), (''proof_nonce'', JStr (at_proof_nonce a)),
     (''proof_issuer_ref'', JStr (at_proof_issuer_ref a)), (''proof_key_id'', JStr (at_proof_key_id a)),
     (''proof_expires_at'', ju64 (at_proof_expires_at a)), (''subject_digest'', JStr (at_subject_digest a)),
     (''permit_proof_envelope'', SignedProofEnvelopeV1_json X (at_permit_proof_envelope a)),
     (''authorization'', ExactActionAuthorizationV1_json X (at_authorization a)),
     (''request'', ExecutionPermitRequestV1_json X (at_request a)), (''consumed_at'', ju64 (at_consumed_at a)),
     (''status'', JStr (reservation_status_name (at_status a))), (''delivered_at'', jopt ju64 (at_delivered_at a)),
     (''dispatched_at'', jopt ju64 (at_dispatched_at a)),
     (''receipt_ref'', jopt (HumanCenteredContractRefV1_json X) (at_receipt_ref a)),
     (''receipt_proof_envelope'', jopt (SignedProofEnvelopeV1_json X) (at_receipt_proof_envelope a)),
     (''receipt_verified_at'', jopt ju64 (at_receipt_verified_at a))]"

definition ExecutionReservationRecordV1_json :: "crates \<Rightarrow> ExecutionReservationRecordV1 \<Rightarrow> json" where
  "ExecutionReservationRecordV1_json X r = JObj [
     (''reservation_id'', hc_uuid_json X (es_reservation_id r)),
     (''action_ref'', HumanCenteredContractRefV1_json X (es_action_ref r)),
     (''tenant_ref'', JStr (es_tenant_ref r)), (''operation_ref'', JStr (es_operation_ref r)),
     (''idempotency_key'', JStr (es_idempotency_key r)),
     (''attempts'', JArr (map (ExecutionAttemptRecordV1_json X) (es_attempts r)))]"

definition IntentContractV1_json :: "crates \<Rightarrow> IntentContractV1 \<Rightarrow> json" where
  "IntentContractV1_json X i = JObj [
     (''metadata'', HumanCenteredContractMetadataV1_json X (in_metadata i)),
     (''user_stated_intent_ref'', JStr (in_user_stated_intent_ref i)),
     (''base_hypotheses'', JArr (map RankedIntentHypothesisV1_json (in_base_hypotheses i))),
     (''personalized_hypotheses'', JArr (map RankedIntentHypothesisV1_json (in_personalized_hypotheses i))),
     (''primary_hypothesis_ref'', JStr (in_primary_hypothesis_ref i)), (''confidence'', ju16 (in_confidence i)),
     (''ambiguity'', JBool (in_ambiguity i)), (''clarification_required'', JBool (in_clarification_required i)),
     (''human_model_effects'', JArr (map (HumanModelIntentEffectV1_json X) (in_human_model_effects i))),
     (''resolution_method'', JStr (intent_method_name (in_resolution_method i))),
     (''record_digest'', JStr (in_record_digest i))]"

definition DecisionContractV1_json :: "crates \<Rightarrow> DecisionContractV1 \<Rightarrow> json" where
  "DecisionContractV1_json X d = JObj [
     (''metadata'', HumanCenteredContractMetadataV1_json X (dx_metadata d)),
     (''intent_ref'', HumanCenteredContractRefV1_json X (dx_intent_ref d)), (''subject'', JStr (dx_subject d)),
     (''stage'', JStr (decision_stage_name (dx_stage d))), (''objective'', JStr (dx_objective d)),
     (''constraints'', jstrs (dx_constraints d)),
     (''criteria'', JArr (map DecisionCriterionV1_json (dx_criteria d))),
     (''options'', JArr (map DecisionOptionV1_json (dx_options d))),
     (''evidence_refs'', jstrs (dx_evidence_refs d)), (''conflicts'', jstrs (dx_conflicts d)),
     (''risks'', JArr (map DecisionRiskV1_json (dx_risks d))), (''uncertainty'', jstrs (dx_uncertainty d)),
     (''recommendation'', jopt DecisionRecommendationV1_json (dx_recommendation d)),
     (''selected_option_ref'', jopt JStr (dx_selected_option_ref d)),
     (''required_user_inputs'', jstrs (dx_required_user_inputs d)),
     (''authorization_boundary'', DecisionAuthorizationBoundaryV1_json (dx_authorization_boundary d)),
     (''record_digest'', JStr (dx_record_digest d))]"

definition TurnCoordinationPlanV1_json :: "crates \<Rightarrow> TurnCoordinationPlanV1 \<Rightarrow> json" where
  "TurnCoordinationPlanV1_json X p = JObj [
     (''metadata'', HumanCenteredContractMetadataV1_json X (tp_metadata p)),
     (''mode'', JStr (turn_mode_name (tp_mode p))),
     (''response_refs'', JArr (map (HumanCenteredContractRefV1_json X) (tp_response_refs p))),
     (''action_refs'', JArr (map (HumanCenteredContractRefV1_json X) (tp_action_refs p))),
     (''dependencies'', JArr (map (\<lambda>e. JObj [(''before'', HumanCenteredContractRefV1_json X (te_before e)),
       (''after'', HumanCenteredContractRefV1_json X (te_after e))]) (tp_dependencies p))),
     (''gates'', JArr (map (\<lambda>g. JObj [(''gate_kind'', JStr (turn_gate_name (tg_gate_kind g))),
       (''required_before'', HumanCenteredContractRefV1_json X (tg_required_before g)),
       (''policy_ref'', jopt JStr (tg_policy_ref g))]) (tp_gates p))),
     (''failure_policy'', JStr (turn_failure_name (tp_failure_policy p))),
     (''progress_policy'', JStr (turn_progress_name (tp_progress_policy p))),
     (''rationale'', JStr (tp_rationale p)), (''record_digest'', JStr (tp_record_digest p))]"

definition ResponseContractV1_json :: "crates \<Rightarrow> ResponseContractV1 \<Rightarrow> json" where
  "ResponseContractV1_json X r = JObj [
     (''metadata'', HumanCenteredContractMetadataV1_json X (rx_metadata r)),
     (''source_contract_refs'', JArr (map (HumanCenteredContractRefV1_json X) (rx_source_contract_refs r))),
     (''response_phase'', JStr (response_phase_name (rx_response_phase r))),
     (''response_type'', JStr (response_type_name (rx_response_type r))),
     (''answer_structure'', jstrs (rx_answer_structure r)), (''evidence_refs'', jstrs (rx_evidence_refs r)),
     (''explanation_depth'', JStr (explanation_depth_name (rx_explanation_depth r))),
     (''terminology_level'', JStr (terminology_level_name (rx_terminology_level r))),
     (''clarification_questions'', jstrs (rx_clarification_questions r)),
     (''uncertainty_disclosures'', jstrs (rx_uncertainty_disclosures r)),
     (''prohibited_content_refs'', jstrs (rx_prohibited_content_refs r)),
     (''requires_post_render_policy_check'', JBool (rx_requires_post_render_policy_check r)),
     (''record_digest'', JStr (rx_record_digest r))]"

definition ActionContractV1_json :: "crates \<Rightarrow> ActionContractV1 \<Rightarrow> json" where
  "ActionContractV1_json X a = JObj [
     (''metadata'', HumanCenteredContractMetadataV1_json X (ax_metadata a)),
     (''decision_ref'', jopt (HumanCenteredContractRefV1_json X) (ax_decision_ref a)),
     (''operation_ref'', JStr (ax_operation_ref a)), (''parameters'', ax_parameters a),
     (''parameter_digest'', JStr (ax_parameter_digest a)), (''preconditions'', jstrs (ax_preconditions a)),
     (''required_authority_refs'', jstrs (ax_required_authority_refs a)),
     (''authorization_state'', JStr (action_authorization_name (ax_authorization_state a))),
     (''impact_level'', JStr (impact_level_name (ax_impact_level a))), (''reversible'', JBool (ax_reversible a)),
     (''idempotency_key'', JStr (ax_idempotency_key a)),
     (''verification_requirements'', jstrs (ax_verification_requirements a)),
     (''compensation_operations'', jstrs (ax_compensation_operations a)),
     (''record_digest'', JStr (ax_record_digest a))]"

definition ExecutionReceiptV1_json :: "crates \<Rightarrow> ExecutionReceiptV1 \<Rightarrow> json" where
  "ExecutionReceiptV1_json X r = JObj [
     (''metadata'', HumanCenteredContractMetadataV1_json X (xr_metadata r)),
     (''action_ref'', HumanCenteredContractRefV1_json X (xr_action_ref r)),
     (''permit_id'', hc_uuid_json X (xr_permit_id r)),
     (''authorization_id'', hc_uuid_json X (xr_authorization_id r)),
     (''execution_id'', hc_uuid_json X (xr_execution_id r)), (''provider_ref'', JStr (xr_provider_ref r)),
     (''owner_ref'', JStr (xr_owner_ref r)), (''dispatch_nonce'', JStr (xr_dispatch_nonce r)),
     (''external_execution_ref'', jopt JStr (xr_external_execution_ref r)),
     (''idempotency_key'', JStr (xr_idempotency_key r)),
     (''request_parameter_digest'', JStr (xr_request_parameter_digest r)), (''attempt'', ju32 (xr_attempt r)),
     (''started_at'', ju64 (xr_started_at r)), (''completed_at'', ju64 (xr_completed_at r)),
     (''state'', JStr (execution_state_name (xr_state r))), (''result_payload'', jopt id (xr_result_payload r)),
     (''result_payload_digest'', jopt JStr (xr_result_payload_digest r)),
     (''applied_effects'', jstrs (xr_applied_effects r)),
     (''verification_results'', jstrs (xr_verification_results r)), (''error_codes'', jstrs (xr_error_codes r)),
     (''record_digest'', JStr (xr_record_digest r))]"

definition OutcomeRecordV1_json :: "crates \<Rightarrow> OutcomeRecordV1 \<Rightarrow> json" where
  "OutcomeRecordV1_json X r = JObj [
     (''metadata'', HumanCenteredContractMetadataV1_json X (ox_metadata r)),
     (''decision_ref'', jopt (HumanCenteredContractRefV1_json X) (ox_decision_ref r)),
     (''action_ref'', jopt (HumanCenteredContractRefV1_json X) (ox_action_ref r)),
     (''execution_receipt_ref'', jopt (HumanCenteredContractRefV1_json X) (ox_execution_receipt_ref r)),
     (''objective'', JStr (ox_objective r)), (''state'', JStr (outcome_state_name (ox_state r))),
     (''observed_results'', jstrs (ox_observed_results r)),
     (''success_criteria_satisfied'', jstrs (ox_success_criteria_satisfied r)),
     (''success_criteria_unsatisfied'', jstrs (ox_success_criteria_unsatisfied r)),
     (''attribution'', JStr (outcome_attribution_name (ox_attribution r))),
     (''attribution_confidence'', ju16 (ox_attribution_confidence r)),
     (''evidence_refs'', jstrs (ox_evidence_refs r)), (''follow_up_required'', JBool (ox_follow_up_required r)),
     (''record_digest'', JStr (ox_record_digest r))]"

definition HumanModelAssertionV1_json :: "crates \<Rightarrow> HumanModelAssertionV1 \<Rightarrow> json" where
  "HumanModelAssertionV1_json X a = JObj [
     (''metadata'', HumanCenteredContractMetadataV1_json X (mx_metadata a)),
     (''assertion_id'', hc_uuid_json X (mx_assertion_id a)), (''subject_ref'', JStr (mx_subject_ref a)),
     (''assertion_type'', JStr (assertion_type_name (mx_assertion_type a))), (''predicate'', JStr (mx_predicate a)),
     (''value'', HumanModelValueV1_json (mx_value a)), (''claim_summary'', JStr (mx_claim_summary a)),
     (''scope'', HumanModelScopeV1_json (mx_scope a)),
     (''persistence_scope'', JStr (persistence_scope_name (mx_persistence_scope a))),
     (''epistemic_status'', JStr (epistemic_status_name (mx_epistemic_status a))),
     (''lifecycle_status'', JStr (lifecycle_status_name (mx_lifecycle_status a))),
     (''confidence'', ju16 (mx_confidence a)), (''source_type'', JStr (source_type_name (mx_source_type a))),
     (''source_refs'', jstrs (mx_source_refs a)),
     (''supporting_evidence_refs'', jstrs (mx_supporting_evidence_refs a)),
     (''contradicting_evidence_refs'', jstrs (mx_contradicting_evidence_refs a)),
     (''correction_state'', JStr (correction_state_name (mx_correction_state a))),
     (''corrected_value'', jopt HumanModelValueV1_json (mx_corrected_value a)),
     (''first_observed_at'', ju64 (mx_first_observed_at a)), (''last_observed_at'', ju64 (mx_last_observed_at a)),
     (''expires_at'', jopt ju64 (mx_expires_at a)), (''decay_policy_ref'', JStr (mx_decay_policy_ref a)),
     (''usage_policy'', HumanModelUsagePolicyV1_json (mx_usage_policy a)),
     (''record_digest'', JStr (mx_record_digest a))]"

fun snapshot_contract_json :: "crates \<Rightarrow> HumanCenteredContractSnapshotV1 \<Rightarrow> json" where
  "snapshot_contract_json X (SN_Intent v) =
     JObj [(''contract_kind'', JStr ''intent''), (''contract'', IntentContractV1_json X v)]"
| "snapshot_contract_json X (SN_Decision v) =
     JObj [(''contract_kind'', JStr ''decision''), (''contract'', DecisionContractV1_json X v)]"
| "snapshot_contract_json X (SN_TurnCoordination v) =
     JObj [(''contract_kind'', JStr ''turn_coordination''), (''contract'', TurnCoordinationPlanV1_json X v)]"
| "snapshot_contract_json X (SN_Response v) =
     JObj [(''contract_kind'', JStr ''response''), (''contract'', ResponseContractV1_json X v)]"
| "snapshot_contract_json X (SN_Action v) =
     JObj [(''contract_kind'', JStr ''action''), (''contract'', ActionContractV1_json X v)]"
| "snapshot_contract_json X (SN_ExecutionReceipt v) =
     JObj [(''contract_kind'', JStr ''execution_receipt''), (''contract'', ExecutionReceiptV1_json X v)]"
| "snapshot_contract_json X (SN_Outcome v) =
     JObj [(''contract_kind'', JStr ''outcome''), (''contract'', OutcomeRecordV1_json X v)]"
| "snapshot_contract_json X (SN_HumanModelAssertion v) =
     JObj [(''contract_kind'', JStr ''human_model_assertion''), (''contract'', HumanModelAssertionV1_json X v)]"

definition compute_snapshot_digest ::
  "crates \<Rightarrow> HumanCenteredStoreSnapshotV1 \<Rightarrow> (HumanCenteredStoreErrorV1, string) result" where
  "compute_snapshot_digest X s =
     (case json_to_vec X (JArr [
          JStr ''idr-store-snapshot-v3'',
          ju64 (ss_sequence s),
          jopt JStr (ss_previous_snapshot_digest s),
          JArr (map (snapshot_contract_json X) (ss_records s)),
          JArr (map (HumanCenteredContractRefV1_json X) (ss_current_pointers s)),
          JArr (map (HumanCenteredContractRefV1_json X) (ss_invalidated_refs s)),
          JArr (map (ExecutionReservationRecordV1_json X) (ss_execution_reservations s))]) of
        None \<Rightarrow> Err SE_Serialization
      | Some bytes \<Rightarrow> Ok (x_sha256_hex X bytes))"

text \<open>\<open>valid_store_digest\<close> is \<open>valid_digest\<close>.\<close>

definition seal_next_snapshot ::
  "crates \<Rightarrow> HumanCenteredStoreSnapshotV1 \<Rightarrow> HumanCenteredStoreSnapshotV1 \<Rightarrow>
   (HumanCenteredStoreErrorV1, HumanCenteredStoreSnapshotV1) result" where
  "seal_next_snapshot X candidate previous =
     and_then (ok_or (checked_add (ss_sequence previous) 1) SE_SequenceOverflow) (\<lambda>sequence.
     let candidate = candidate\<lparr>ss_sequence := sequence,
        ss_previous_snapshot_digest :=
          (if ss_sequence previous > 0 then Some (ss_snapshot_digest previous) else None),
        ss_snapshot_digest := []\<rparr> in
     and_then (compute_snapshot_digest X candidate) (\<lambda>digest.
     Ok (candidate\<lparr>ss_snapshot_digest := digest\<rparr>)))"

end
