(* ===== verification/IDR_Store_Validate.thy ===== *)
theory IDR_Store_Validate
  imports IDR_Store_Snapshot "HOL-Library.AList"
begin

text \<open>
  The operations on snapshots of the file store: propagation of invalidation to dependents and
  reservations, replay of the history, consistency between contracts, and the validation every loaded
  and every written snapshot passes (\<open>idr-store/src/file_store.rs\<close>, lines 783 to 1549).
\<close>

section \<open>Lookups\<close>

definition find_record ::
  "crates \<Rightarrow> HumanCenteredContractSnapshotV1 list \<Rightarrow> HumanCenteredContractRefV1 \<Rightarrow>
   HumanCenteredContractSnapshotV1 option" where
  "find_record X records reference = find (\<lambda>record. snapshot_record_ref X record = Ok reference) records"

definition same_object :: "HumanCenteredContractRefV1 \<Rightarrow> HumanCenteredContractRefV1 \<Rightarrow> bool" where
  "same_object a b \<longleftrightarrow> cr_kind a = cr_kind b \<and> cr_contract_id a = cr_contract_id b"

definition reference_is_current :: "HumanCenteredStoreSnapshotV1 \<Rightarrow> HumanCenteredContractRefV1 \<Rightarrow> bool" where
  "reference_is_current s reference \<longleftrightarrow>
     reference \<in> set (ss_current_pointers s) \<and> reference \<notin> set (ss_invalidated_refs s)"

abbreviation snapshot_dependencies :: "HumanCenteredContractSnapshotV1 \<Rightarrow> HumanCenteredContractRefV1 list" where
  "snapshot_dependencies record \<equiv> cm_dependency_refs (snapshot_metadata record)"

abbreviation snapshot_predecessor :: "HumanCenteredContractSnapshotV1 \<Rightarrow> HumanCenteredContractRefV1 option" where
  "snapshot_predecessor record \<equiv> cm_predecessor_ref (snapshot_metadata record)"

section \<open>Invalidation\<close>

text \<open>The inner loop of \<open>invalidate_dependents\<close>, over the pointers.\<close>

fun scan_pointers ::
  "crates \<Rightarrow> HumanCenteredContractSnapshotV1 list \<Rightarrow> HumanCenteredContractRefV1 \<Rightarrow>
   HumanCenteredContractRefV1 list \<Rightarrow> HumanCenteredContractRefV1 list \<Rightarrow> HumanCenteredContractRefV1 list \<Rightarrow>
   (HumanCenteredStoreErrorV1, HumanCenteredContractRefV1 list \<times> HumanCenteredContractRefV1 list) result" where
  "scan_pointers X records stale [] invalidated queue = Ok (invalidated, queue)"
| "scan_pointers X records stale (pointer # pointers) invalidated queue =
     (if same_object pointer stale \<or> pointer \<in> set invalidated
      then scan_pointers X records stale pointers invalidated queue
      else case find_record X records pointer of
        None \<Rightarrow> Err SE_CorruptSnapshot
      | Some record \<Rightarrow>
          if stale \<in> set (snapshot_dependencies record)
          then scan_pointers X records stale pointers (invalidated @ [pointer]) (queue @ [pointer])
          else scan_pointers X records stale pointers invalidated queue)"

lemma scan_pointers_measure:
  assumes "scan_pointers X records stale ps invalidated queue = Ok (invalidated', queue')"
    and "set ps \<subseteq> P" and "finite P"
  shows "card (P - set invalidated') + length queue' = card (P - set invalidated) + length queue"
  using assms
proof (induction X records stale ps invalidated queue rule: scan_pointers.induct)
  case (2 X records stale pointer pointers invalidated queue)
  have "pointer \<notin> set invalidated \<Longrightarrow>
      card (P - set invalidated) = Suc (card (P - set (invalidated @ [pointer])))"
    using "2.prems"
    by (subst card.remove [of _ pointer]) (auto simp: Diff_insert [symmetric] insert_commute)
  with 2 show ?case by (auto split: if_splits option.splits)
qed auto

function invalidate_loop ::
  "crates \<Rightarrow> HumanCenteredContractSnapshotV1 list \<Rightarrow> HumanCenteredContractRefV1 list \<Rightarrow>
   HumanCenteredContractRefV1 set \<Rightarrow> HumanCenteredContractRefV1 list \<Rightarrow> HumanCenteredContractRefV1 list \<Rightarrow>
   (HumanCenteredStoreErrorV1, HumanCenteredContractRefV1 list) result" where
  "invalidate_loop X records pointers visited [] invalidated = Ok invalidated"
| "invalidate_loop X records pointers visited (stale # queue) invalidated =
     (if stale \<in> visited then invalidate_loop X records pointers visited queue invalidated
      else
        and_then (scan_pointers X records stale pointers invalidated queue) (\<lambda>scanned.
        invalidate_loop X records pointers (insert stale visited) (snd scanned) (fst scanned)))"
  by pat_completeness auto

termination
proof (relation "measure (\<lambda>(X, records, pointers, visited, queue, invalidated).
    card (set pointers - set invalidated) + length queue)", goal_cases)
  case (3 X records pointers visited stale queue invalidated scanned)
  then show ?case
    using scan_pointers_measure [of X records stale pointers invalidated queue "fst scanned" "snd scanned"
      "set pointers"] by simp
qed auto

text \<open>What invalidation does to the last attempt of a reservation.\<close>

fun withdrawn_status :: "ExecutionReservationStatusV1 \<Rightarrow> ExecutionReservationStatusV1" where
  "withdrawn_status ER_PermitIssued = ER_Cancelled"
| "withdrawn_status ER_Delivered = ER_Cancelled"
| "withdrawn_status ER_Dispatched = ER_ReconciliationRequired"
| "withdrawn_status status = status"

definition update_last :: "('a \<Rightarrow> 'a) \<Rightarrow> 'a list \<Rightarrow> 'a list" where
  "update_last f xs = (if xs = [] then [] else butlast xs @ [f (last xs)])"

definition withdraw_last_attempt :: "ExecutionReservationRecordV1 \<Rightarrow> ExecutionReservationRecordV1" where
  "withdraw_last_attempt r =
     r\<lparr>es_attempts := update_last (\<lambda>a. a\<lparr>at_status := withdrawn_status (at_status a)\<rparr>) (es_attempts r)\<rparr>"

definition invalidate_execution_reservation ::
  "HumanCenteredStoreSnapshotV1 \<Rightarrow> HumanCenteredContractRefV1 \<Rightarrow> HumanCenteredStoreSnapshotV1" where
  "invalidate_execution_reservation s stale =
     (if cr_kind stale \<noteq> HK_Action then s
      else s\<lparr>ss_execution_reservations := map (\<lambda>r.
        if es_action_ref r \<noteq> stale then r else withdraw_last_attempt r) (ss_execution_reservations s)\<rparr>)"

definition reconcile_invalidated_execution_reservations ::
  "HumanCenteredStoreSnapshotV1 \<Rightarrow> HumanCenteredStoreSnapshotV1" where
  "reconcile_invalidated_execution_reservations s =
     s\<lparr>ss_execution_reservations := map (\<lambda>r.
       if reference_is_current s (es_action_ref r) then r else withdraw_last_attempt r)
       (ss_execution_reservations s)\<rparr>"

definition invalidate_dependents ::
  "crates \<Rightarrow> HumanCenteredStoreSnapshotV1 \<Rightarrow> HumanCenteredContractRefV1 \<Rightarrow>
   (HumanCenteredStoreErrorV1, HumanCenteredStoreSnapshotV1) result" where
  "invalidate_dependents X s stale =
     (let s = invalidate_execution_reservation s stale in
      and_then (invalidate_loop X (ss_records s) (ss_current_pointers s) {} [stale] (ss_invalidated_refs s))
        (\<lambda>invalidated.
      Ok (reconcile_invalidated_execution_reservations (s\<lparr>ss_invalidated_refs := sort_dedup invalidated\<rparr>))))"

definition replace_pointer ::
  "HumanCenteredContractRefV1 list \<Rightarrow> HumanCenteredContractRefV1 \<Rightarrow> HumanCenteredContractRefV1 list" where
  "replace_pointer pointers next_ref = sort (filter (\<lambda>current. \<not> same_object current next_ref) pointers @ [next_ref])"

section \<open>Replay\<close>

definition lineage_context_is_continuous ::
  "HumanCenteredContractMetadataV1 \<Rightarrow> HumanCenteredContractMetadataV1 \<Rightarrow> bool" where
  "lineage_context_is_continuous previous next_metadata \<longleftrightarrow>
     cm_run_id previous = cm_run_id next_metadata \<and> cm_turn_id previous = cm_turn_id next_metadata \<and>
     cm_authority_context previous = cm_authority_context next_metadata"

definition replay_step ::
  "crates \<Rightarrow> HumanCenteredStoreSnapshotV1 \<Rightarrow> HumanCenteredContractSnapshotV1 \<Rightarrow>
   (HumanCenteredStoreErrorV1, HumanCenteredStoreSnapshotV1) result" where
  "replay_step X replayed record =
     and_then (protocol (snapshot_record_ref X record)) (\<lambda>reference.
     and_then
       (case find (\<lambda>pointer. same_object pointer reference) (ss_current_pointers replayed) of
          None \<Rightarrow>
            if cr_revision reference = 1 \<and> snapshot_predecessor record = None then Ok replayed
            else Err SE_CorruptSnapshot
        | Some pointer \<Rightarrow>
            if checked_add (cr_revision pointer) 1 = Some (cr_revision reference) \<and>
               snapshot_predecessor record = Some pointer
            then
              and_then (ok_or (find_record X (ss_records replayed) pointer) SE_CorruptSnapshot) (\<lambda>previous_record.
              if \<not> lineage_context_is_continuous (snapshot_metadata previous_record) (snapshot_metadata record)
              then Err SE_CorruptSnapshot
              else invalidate_dependents X replayed pointer)
            else Err SE_CorruptSnapshot)
       (\<lambda>replayed.
     Ok (replayed\<lparr>ss_records := ss_records replayed @ [record],
       ss_current_pointers := replace_pointer (ss_current_pointers replayed) reference\<rparr>)))"

fun replay_records ::
  "crates \<Rightarrow> HumanCenteredStoreSnapshotV1 \<Rightarrow> HumanCenteredContractSnapshotV1 list \<Rightarrow>
   (HumanCenteredStoreErrorV1, HumanCenteredStoreSnapshotV1) result" where
  "replay_records X replayed [] = Ok replayed"
| "replay_records X replayed (record # records) =
     and_then (replay_step X replayed record) (\<lambda>replayed. replay_records X replayed records)"

definition replay_history ::
  "crates \<Rightarrow> HumanCenteredContractSnapshotV1 list \<Rightarrow>
   (HumanCenteredStoreErrorV1, HumanCenteredStoreSnapshotV1) result" where
  "replay_history X records = replay_records X default_snapshot records"

section \<open>Consistency between contracts\<close>

definition same_context ::
  "HumanCenteredContractMetadataV1 \<Rightarrow> HumanCenteredContractMetadataV1 \<Rightarrow> bool" where
  "same_context left right \<longleftrightarrow>
     cm_run_id left = cm_run_id right \<and> cm_turn_id left = cm_turn_id right \<and>
     cm_authority_context left = cm_authority_context right"

definition receipt_matches_attempt ::
  "ExecutionReceiptV1 \<Rightarrow> ExecutionReservationRecordV1 \<Rightarrow> ExecutionAttemptRecordV1 \<Rightarrow> bool" where
  "receipt_matches_attempt receipt reservation attempt \<longleftrightarrow>
     xr_action_ref receipt = es_action_ref reservation \<and>
     xr_permit_id receipt = at_permit_id attempt \<and>
     xr_authorization_id receipt = az_authorization_id (at_authorization attempt) \<and>
     xr_provider_ref receipt = pq_provider_ref (at_request attempt) \<and>
     xr_owner_ref receipt = pq_owner_ref (at_request attempt) \<and>
     xr_dispatch_nonce receipt = pq_dispatch_nonce (at_request attempt) \<and>
     xr_attempt receipt = at_attempt attempt \<and>
     xr_idempotency_key receipt = es_idempotency_key reservation"

text \<open>\<open>receipt_matches_attempt_parts\<close>; its reservation identifier is not used.\<close>

definition receipt_matches_attempt_parts ::
  "ExecutionReceiptV1 \<Rightarrow> uuid \<Rightarrow> HumanCenteredContractRefV1 \<Rightarrow> ExecutionAttemptRecordV1 \<Rightarrow> bool" where
  "receipt_matches_attempt_parts receipt reservation_id action_ref attempt \<longleftrightarrow>
     xr_action_ref receipt = action_ref \<and>
     xr_permit_id receipt = at_permit_id attempt \<and>
     xr_authorization_id receipt = az_authorization_id (at_authorization attempt) \<and>
     xr_provider_ref receipt = pq_provider_ref (at_request attempt) \<and>
     xr_owner_ref receipt = pq_owner_ref (at_request attempt) \<and>
     xr_dispatch_nonce receipt = pq_dispatch_nonce (at_request attempt) \<and>
     xr_attempt receipt = at_attempt attempt \<and>
     xr_idempotency_key receipt = pq_idempotency_key (at_request attempt)"

definition action_consistent ::
  "ActionContractV1 \<Rightarrow> DecisionContractV1 \<Rightarrow> bool" where
  "action_consistent action decision \<longleftrightarrow>
     (let boundary = dx_authorization_boundary decision in
      same_context (ax_metadata action) (dx_metadata decision) \<and>
      set (da_required_authority_refs boundary) \<subseteq> set (ax_required_authority_refs action) \<and>
      \<not> (ax_authorization_state action = AZ_NotRequired \<and>
         (ImpactLevelV1_rank (ax_impact_level action) > ImpactLevelV1_rank (da_maximum_automatic_impact boundary) \<or>
          da_user_confirmation_required boundary \<or>
          ax_operation_ref action \<in> set (da_prohibited_automatic_operations boundary))))"

definition receipt_consistent ::
  "crates \<Rightarrow> ExecutionReceiptV1 \<Rightarrow> ActionContractV1 \<Rightarrow> ExecutionReservationRecordV1 \<Rightarrow> ExecutionAttemptRecordV1 \<Rightarrow>
   HumanCenteredContractSnapshotV1 list \<Rightarrow> bool" where
  "receipt_consistent X receipt action reservation attempt prior_records \<longleftrightarrow>
     same_context (xr_metadata receipt) (ax_metadata action) \<and>
     xr_idempotency_key receipt = ax_idempotency_key action \<and>
     xr_request_parameter_digest receipt = ax_parameter_digest action \<and>
     (at_status attempt \<in> {ER_Dispatched, ER_ReconciliationRequired} \<or>
      reservation_is_terminal (at_status attempt) \<and>
      at_receipt_ref attempt =
        (case ExecutionReceiptV1_record_ref X receipt of Ok r \<Rightarrow> Some r | Err _ \<Rightarrow> None)) \<and>
     receipt_matches_attempt receipt reservation attempt \<and>
     (case at_dispatched_at attempt of None \<Rightarrow> False | Some dispatched_at \<Rightarrow> xr_started_at receipt \<ge> dispatched_at) \<and>
     xr_started_at receipt < pq_lease_until (at_request attempt) \<and>
     \<not> list_ex (\<lambda>record. case record of
         SN_ExecutionReceipt previous \<Rightarrow>
           xr_action_ref previous = xr_action_ref receipt \<and> xr_attempt previous = xr_attempt receipt
       | _ \<Rightarrow> False) prior_records"

text \<open>An optional reference of an outcome and the record it names; the error is a reference without record.\<close>

definition find_optional ::
  "crates \<Rightarrow> HumanCenteredContractSnapshotV1 list \<Rightarrow> HumanCenteredContractRefV1 option \<Rightarrow>
   (unit, HumanCenteredContractSnapshotV1 option) result" where
  "find_optional X prior_records reference =
     (case reference of
        None \<Rightarrow> Ok None
      | Some r \<Rightarrow> and_then (ok_or (find_record X prior_records r) ()) (\<lambda>record. Ok (Some record)))"

definition outcome_consistent ::
  "OutcomeRecordV1 \<Rightarrow> HumanCenteredContractSnapshotV1 option \<Rightarrow> HumanCenteredContractSnapshotV1 option \<Rightarrow>
   HumanCenteredContractSnapshotV1 option \<Rightarrow> bool" where
  "outcome_consistent outcome decision action receipt \<longleftrightarrow>
     list_all (\<lambda>dependency. case dependency of None \<Rightarrow> True
       | Some d \<Rightarrow> same_context (ox_metadata outcome) (snapshot_metadata d)) [decision, action, receipt] \<and>
     (case decision of None \<Rightarrow> True | Some (SN_Decision _) \<Rightarrow> True | _ \<Rightarrow> False) \<and>
     (case action of
        None \<Rightarrow> True
      | Some (SN_Action a) \<Rightarrow> ox_decision_ref outcome = None \<or> ax_decision_ref a = ox_decision_ref outcome
      | _ \<Rightarrow> False) \<and>
     (case receipt of
        None \<Rightarrow> True
      | Some (SN_ExecutionReceipt r) \<Rightarrow>
          ox_action_ref outcome = Some (xr_action_ref r) \<and>
          \<not> (xr_state r \<in> {EX_Failed, EX_Rejected} \<and> ox_success_criteria_satisfied outcome \<noteq> [])
      | _ \<Rightarrow> False)"

text \<open>\<open>Err(())\<close> is \<open>False\<close>.\<close>

fun validate_cross_object_consistency ::
  "crates \<Rightarrow> HumanCenteredContractSnapshotV1 \<Rightarrow> HumanCenteredContractSnapshotV1 list \<Rightarrow>
   ExecutionReservationRecordV1 list \<Rightarrow> bool" where
  "validate_cross_object_consistency X (SN_Intent intent) prior_records reservations = True"
| "validate_cross_object_consistency X (SN_Decision decision) prior_records reservations =
     (case find_record X prior_records (dx_intent_ref decision) of
        Some (SN_Intent intent) \<Rightarrow> same_context (dx_metadata decision) (in_metadata intent)
      | _ \<Rightarrow> False)"
| "validate_cross_object_consistency X (SN_TurnCoordination plan) prior_records reservations =
     list_all (\<lambda>reference. case find_record X prior_records reference of
         None \<Rightarrow> False
       | Some dependency \<Rightarrow> same_context (tp_metadata plan) (snapshot_metadata dependency))
       (tp_response_refs plan @ tp_action_refs plan)"
| "validate_cross_object_consistency X (SN_Response response) prior_records reservations =
     list_all (\<lambda>reference. case find_record X prior_records reference of
         None \<Rightarrow> False
       | Some source \<Rightarrow> same_context (rx_metadata response) (snapshot_metadata source))
       (rx_source_contract_refs response)"
| "validate_cross_object_consistency X (SN_Action action) prior_records reservations =
     (case ax_decision_ref action of
        None \<Rightarrow> True
      | Some reference \<Rightarrow>
          (case find_record X prior_records reference of
             Some (SN_Decision decision) \<Rightarrow> action_consistent action decision
           | _ \<Rightarrow> False))"
| "validate_cross_object_consistency X (SN_ExecutionReceipt receipt) prior_records reservations =
     (case find_record X prior_records (xr_action_ref receipt) of
        Some (SN_Action action) \<Rightarrow>
          (case find (\<lambda>reservation. es_action_ref reservation = xr_action_ref receipt) reservations of
             None \<Rightarrow> False
           | Some reservation \<Rightarrow>
               (case find (\<lambda>attempt. at_permit_id attempt = xr_permit_id receipt) (es_attempts reservation) of
                  None \<Rightarrow> False
                | Some attempt \<Rightarrow> receipt_consistent X receipt action reservation attempt prior_records))
      | _ \<Rightarrow> False)"
| "validate_cross_object_consistency X (SN_Outcome outcome) prior_records reservations =
     (\<not> is_err (
       and_then (find_optional X prior_records (ox_decision_ref outcome)) (\<lambda>decision.
       and_then (find_optional X prior_records (ox_action_ref outcome)) (\<lambda>action.
       and_then (find_optional X prior_records (ox_execution_receipt_ref outcome)) (\<lambda>receipt.
       if outcome_consistent outcome decision action receipt then Ok () else Err ())))))"
| "validate_cross_object_consistency X (SN_HumanModelAssertion assertion) prior_records reservations = True"

section \<open>Validation of snapshots\<close>

text \<open>The header: an unsealed snapshot is empty, a sealed one carries its digest.\<close>

definition validate_snapshot_header ::
  "crates \<Rightarrow> HumanCenteredStoreSnapshotV1 \<Rightarrow> (HumanCenteredStoreErrorV1, unit) result" where
  "validate_snapshot_header X s =
     (if ss_sequence s = 0 then
        (if \<not> (ss_records s = [] \<and> ss_current_pointers s = [] \<and> ss_invalidated_refs s = [] \<and>
              ss_execution_reservations s = []) \<or>
            ss_previous_snapshot_digest s \<noteq> None \<or> ss_snapshot_digest s \<noteq> []
         then Err SE_CorruptSnapshot else Ok ())
      else if \<not> valid_digest (ss_snapshot_digest s) \<or>
         (case ss_previous_snapshot_digest s of None \<Rightarrow> False | Some digest \<Rightarrow> \<not> valid_digest digest)
      then Err SE_CorruptSnapshot
      else
        and_then (compute_snapshot_digest X s) (\<lambda>digest.
        if digest \<noteq> ss_snapshot_digest s then Err SE_CorruptSnapshot else Ok ()))"

text \<open>The first loop; the references met so far, in order, stand for the three sets it fills.\<close>

definition revision_key :: "HumanCenteredContractRefV1 \<Rightarrow> HumanCenteredContractKindV1 \<times> uuid \<times> u64" where
  "revision_key r = (cr_kind r, cr_contract_id r, cr_revision r)"

fun collect_record_refs ::
  "crates \<Rightarrow> HumanCenteredContractRefV1 list \<Rightarrow> HumanCenteredContractSnapshotV1 list \<Rightarrow>
   (HumanCenteredStoreErrorV1, HumanCenteredContractRefV1 list) result" where
  "collect_record_refs X refs [] = Ok refs"
| "collect_record_refs X refs (record # records) =
     and_then (protocol (snapshot_contract_validate X record)) (\<lambda>_.
     and_then (protocol (snapshot_record_ref X record)) (\<lambda>reference.
     if reference \<in> set refs \<or> revision_key reference \<in> set (map revision_key refs)
     then Err SE_CorruptSnapshot
     else collect_record_refs X (refs @ [reference]) records))"

definition record_positions :: "HumanCenteredContractRefV1 list \<Rightarrow> HumanCenteredContractRefV1 \<Rightarrow> nat option" where
  "record_positions refs = map_of (zip refs [0..<length refs])"

definition recorded_before ::
  "HumanCenteredContractRefV1 list \<Rightarrow> HumanCenteredContractRefV1 \<Rightarrow> nat \<Rightarrow> bool" where
  "recorded_before refs r position \<longleftrightarrow>
     (case record_positions refs r of None \<Rightarrow> False | Some p \<Rightarrow> p < position)"

type_synonym latest_map =
  "((HumanCenteredContractKindV1 \<times> uuid) \<times> HumanCenteredContractRefV1) list"

definition object_key :: "HumanCenteredContractRefV1 \<Rightarrow> HumanCenteredContractKindV1 \<times> uuid" where
  "object_key r = (cr_kind r, cr_contract_id r)"

definition note_latest :: "latest_map \<Rightarrow> HumanCenteredContractRefV1 \<Rightarrow> latest_map" where
  "note_latest latest reference =
     (case map_of latest (object_key reference) of
        Some l \<Rightarrow> if cr_revision l \<ge> cr_revision reference then latest
                  else AList.update (object_key reference) reference latest
      | None \<Rightarrow> AList.update (object_key reference) reference latest)"

text \<open>The second loop; \<open>prior\<close> is the slice before the position.\<close>

fun validate_record_history ::
  "crates \<Rightarrow> HumanCenteredContractRefV1 list \<Rightarrow> ExecutionReservationRecordV1 list \<Rightarrow>
   HumanCenteredContractSnapshotV1 list \<Rightarrow> HumanCenteredContractSnapshotV1 list \<Rightarrow> latest_map \<Rightarrow>
   (HumanCenteredStoreErrorV1, latest_map) result" where
  "validate_record_history X refs reservations prior [] latest = Ok latest"
| "validate_record_history X refs reservations prior (record # records) latest =
     and_then (protocol (snapshot_record_ref X record)) (\<lambda>reference.
     if (case snapshot_predecessor record of
           None \<Rightarrow> False
         | Some predecessor \<Rightarrow> cr_kind predecessor \<noteq> cr_kind reference \<or>
             \<not> recorded_before refs predecessor (length prior))
     then Err SE_CorruptSnapshot
     else if list_ex (\<lambda>dependency. \<not> recorded_before refs dependency (length prior)) (snapshot_dependencies record)
     then Err SE_CorruptSnapshot
     else if \<not> validate_cross_object_consistency X record prior reservations
     then Err SE_CorruptSnapshot
     else validate_record_history X refs reservations (prior @ [record]) records (note_latest latest reference))"

fun validate_pointers ::
  "HumanCenteredContractRefV1 list \<Rightarrow> latest_map \<Rightarrow> HumanCenteredContractRefV1 list \<Rightarrow>
   (HumanCenteredContractKindV1 \<times> uuid) list \<Rightarrow>
   (HumanCenteredStoreErrorV1, (HumanCenteredContractKindV1 \<times> uuid) list) result" where
  "validate_pointers refs latest [] current_ids = Ok current_ids"
| "validate_pointers refs latest (pointer # pointers) current_ids =
     and_then (protocol (HumanCenteredContractRefV1_validate pointer)) (\<lambda>_.
     if pointer \<notin> set refs \<or> object_key pointer \<in> set current_ids \<or>
        map_of latest (object_key pointer) \<noteq> Some pointer
     then Err SE_CorruptSnapshot
     else validate_pointers refs latest pointers (object_key pointer # current_ids))"

definition validate_invalidated ::
  "HumanCenteredContractRefV1 list \<Rightarrow> HumanCenteredContractRefV1 \<Rightarrow> (HumanCenteredStoreErrorV1, unit) result" where
  "validate_invalidated refs reference =
     and_then (protocol (HumanCenteredContractRefV1_validate reference)) (\<lambda>_.
     if reference \<notin> set refs then Err SE_CorruptSnapshot else Ok ())"

section \<open>Validation of reservations\<close>

text \<open>The sets the loop over the reservations fills.\<close>

record seen_identities =
  sn_reservation_ids :: "uuid list"
  sn_authorization_ids :: "uuid list"
  sn_idempotency_scopes :: "(ReferenceV1 \<times> ReferenceV1 \<times> string) list"
  sn_reserved_actions :: "HumanCenteredContractRefV1 list"
  sn_proof_ids :: "uuid list"
  sn_proof_nonces :: "string list"

definition nothing_seen :: seen_identities where
  "nothing_seen = \<lparr>sn_reservation_ids = [], sn_authorization_ids = [], sn_idempotency_scopes = [],
     sn_reserved_actions = [], sn_proof_ids = [], sn_proof_nonces = []\<rparr>"

definition idempotency_scope :: "ExecutionReservationRecordV1 \<Rightarrow> ReferenceV1 \<times> ReferenceV1 \<times> string" where
  "idempotency_scope r = (es_tenant_ref r, es_operation_ref r, es_idempotency_key r)"

definition attempt_binding_valid ::
  "ActionContractV1 \<Rightarrow> ExecutionReservationRecordV1 \<Rightarrow> u32 \<Rightarrow> seen_identities \<Rightarrow> ExecutionAttemptRecordV1 \<Rightarrow> bool" where
  "attempt_binding_valid action reservation expected_attempt seen a \<longleftrightarrow>
     (let q = at_request a; claims = he_claims (at_permit_proof_envelope a) in
      at_attempt a = expected_attempt \<and> pq_attempt q = expected_attempt \<and>
      at_permit_id a = at_proof_id a \<and> \<not> human_id_is_empty (at_proof_id a) \<and>
      at_proof_id a \<notin> set (sn_proof_ids seen) \<and> valid_digest (at_proof_nonce a) \<and>
      at_proof_nonce a \<notin> set (sn_proof_nonces seen) \<and> at_proof_nonce a = pq_dispatch_nonce q \<and>
      \<not> blank (at_proof_issuer_ref a) \<and> \<not> blank (at_proof_key_id a) \<and>
      at_proof_expires_at a \<ge> pq_lease_until q \<and>
      hp_proof_id claims = at_proof_id a \<and> hp_proof_kind claims = PF_ExecutionPermit \<and>
      hp_issuer_ref claims = at_proof_issuer_ref a \<and>
      he_key_id (at_permit_proof_envelope a) = at_proof_key_id a \<and>
      hp_subject_ref claims = pq_request_ref q \<and> hp_subject_digest claims = pq_request_digest q \<and>
      hp_nonce claims = pq_dispatch_nonce q \<and> hp_expires_at claims = at_proof_expires_at a \<and>
      valid_digest (at_subject_digest a) \<and> at_subject_digest a = pq_request_digest q \<and>
      az_authorization_id (at_authorization a) \<notin> set (sn_authorization_ids seen) \<and>
      az_authorization_id (at_authorization a) = pq_authorization_id q \<and>
      at_consumed_at a \<ge> pq_lease_issued_at q \<and> at_consumed_at a < pq_lease_until q \<and>
      at_consumed_at a < at_proof_expires_at a \<and> at_consumed_at a < az_expires_at (at_authorization a) \<and>
      at_consumed_at a < cm_valid_until (ax_metadata action) \<and>
      pq_action_ref q = es_action_ref reservation)"

abbreviation no_receipt :: "ExecutionAttemptRecordV1 \<Rightarrow> bool" where
  "no_receipt a \<equiv> at_receipt_ref a = None \<and> at_receipt_proof_envelope a = None \<and> at_receipt_verified_at a = None"

abbreviation has_receipt :: "ExecutionAttemptRecordV1 \<Rightarrow> bool" where
  "has_receipt a \<equiv> at_receipt_ref a \<noteq> None \<and> at_receipt_proof_envelope a \<noteq> None \<and> at_receipt_verified_at a \<noteq> None"

definition attempt_status_valid :: "ExecutionAttemptRecordV1 \<Rightarrow> bool" where
  "attempt_status_valid a \<longleftrightarrow>
     (case at_status a of
        ER_PermitIssued \<Rightarrow> at_delivered_at a = None \<and> at_dispatched_at a = None \<and> no_receipt a
      | ER_Delivered \<Rightarrow> at_delivered_at a \<noteq> None \<and> at_dispatched_at a = None \<and> no_receipt a
      | ER_Dispatched \<Rightarrow> at_delivered_at a \<noteq> None \<and> at_dispatched_at a \<noteq> None \<and> no_receipt a
      | ER_Expired \<Rightarrow> no_receipt a
      | ER_Cancelled \<Rightarrow> at_dispatched_at a = None \<and> no_receipt a
      | ER_ReconciliationRequired \<Rightarrow> at_delivered_at a \<noteq> None \<and> at_dispatched_at a \<noteq> None \<and> no_receipt a
      | status \<Rightarrow> reservation_is_terminal status \<and> at_delivered_at a \<noteq> None \<and> at_dispatched_at a \<noteq> None \<and>
          has_receipt a)"

definition attempt_timing_valid :: "ExecutionAttemptRecordV1 \<Rightarrow> bool" where
  "attempt_timing_valid a \<longleftrightarrow>
     attempt_status_valid a \<and>
     (case at_delivered_at a of None \<Rightarrow> True | Some delivered \<Rightarrow> delivered \<ge> at_consumed_at a) \<and>
     (case at_dispatched_at a of
        None \<Rightarrow> True
      | Some dispatched \<Rightarrow> (case at_delivered_at a of None \<Rightarrow> False | Some delivered \<Rightarrow> dispatched \<ge> delivered))"

definition validate_attempt_receipt ::
  "crates \<Rightarrow> HumanCenteredContractSnapshotV1 list \<Rightarrow> ExecutionReservationRecordV1 \<Rightarrow> ExecutionAttemptRecordV1 \<Rightarrow>
   (HumanCenteredStoreErrorV1, unit) result" where
  "validate_attempt_receipt X records reservation a =
     (case at_receipt_ref a of
        None \<Rightarrow> Ok ()
      | Some receipt_ref \<Rightarrow>
          (case find_record X records receipt_ref of
             Some (SN_ExecutionReceipt receipt) \<Rightarrow>
               if \<not> receipt_matches_attempt receipt reservation a then Err SE_CorruptSnapshot
               else
               and_then (ok_or (at_receipt_proof_envelope a) SE_CorruptSnapshot) (\<lambda>proof_envelope.
               and_then (protocol (SignedProofEnvelopeV1_validate_shape proof_envelope)) (\<lambda>_.
               let claims = he_claims proof_envelope in
               if hp_proof_kind claims \<noteq> PF_ProviderExecutionReceipt \<or>
                  hp_issuer_ref claims \<noteq> xr_provider_ref receipt then Err SE_CorruptSnapshot
               else
               and_then (protocol (receipt_proof_subject_ref X receipt)) (\<lambda>subject_ref.
               if hp_subject_ref claims \<noteq> subject_ref \<or>
                  hp_subject_digest claims \<noteq> cr_record_digest receipt_ref \<or>
                  hp_nonce claims \<noteq> xr_dispatch_nonce receipt \<or>
                  hp_issued_at claims < xr_completed_at receipt \<or>
                  (case at_receipt_verified_at a of
                     None \<Rightarrow> True
                   | Some verified_at \<Rightarrow> verified_at < hp_issued_at claims \<or> verified_at \<ge> hp_expires_at claims)
               then Err SE_CorruptSnapshot else Ok ())))
           | _ \<Rightarrow> Err SE_CorruptSnapshot))"

fun validate_attempts ::
  "crates \<Rightarrow> HumanCenteredContractSnapshotV1 list \<Rightarrow> ActionContractV1 \<Rightarrow> ExecutionReservationRecordV1 \<Rightarrow> nat \<Rightarrow>
   ExecutionAttemptRecordV1 list \<Rightarrow> seen_identities \<Rightarrow> (HumanCenteredStoreErrorV1, seen_identities) result" where
  "validate_attempts X records action reservation index [] seen = Ok seen"
| "validate_attempts X records action reservation index (a # attempts) seen =
     (if index + 1 \<ge> 2 ^ 32 then Err SE_CorruptSnapshot
      else
      and_then (protocol (ExecutionPermitRequestV1_validate_for X (at_request a) action (at_authorization a))) (\<lambda>_.
      and_then (protocol (SignedProofEnvelopeV1_validate_shape (at_permit_proof_envelope a))) (\<lambda>_.
      if \<not> attempt_binding_valid action reservation (of_nat (index + 1)) seen a then Err SE_CorruptSnapshot
      else if \<not> attempt_timing_valid a then Err SE_CorruptSnapshot
      else
      and_then (validate_attempt_receipt X records reservation a) (\<lambda>_.
      if attempts \<noteq> [] \<and> \<not> permits_retry (at_status a) then Err SE_CorruptSnapshot
      else validate_attempts X records action reservation (index + 1) attempts
        (seen\<lparr>sn_proof_ids := at_proof_id a # sn_proof_ids seen,
          sn_proof_nonces := at_proof_nonce a # sn_proof_nonces seen,
          sn_authorization_ids := az_authorization_id (at_authorization a) # sn_authorization_ids seen\<rparr>)))))"

fun validate_reservations ::
  "crates \<Rightarrow> HumanCenteredContractSnapshotV1 list \<Rightarrow> ExecutionReservationRecordV1 list \<Rightarrow> seen_identities \<Rightarrow>
   (HumanCenteredStoreErrorV1, seen_identities) result" where
  "validate_reservations X records [] seen = Ok seen"
| "validate_reservations X records (r # reservations) seen =
     and_then (protocol (HumanCenteredContractRefV1_validate (es_action_ref r))) (\<lambda>_.
     case find_record X records (es_action_ref r) of
       Some (SN_Action action) \<Rightarrow>
         if es_reservation_id r = 0 \<or> es_reservation_id r \<in> set (sn_reservation_ids seen) \<or>
            es_tenant_ref r \<noteq> ac_tenant_ref (cm_authority_context (ax_metadata action)) \<or>
            es_operation_ref r \<noteq> ax_operation_ref action \<or>
            es_idempotency_key r \<noteq> ax_idempotency_key action \<or> es_attempts r = [] \<or>
            es_action_ref r \<in> set (sn_reserved_actions seen) \<or>
            idempotency_scope r \<in> set (sn_idempotency_scopes seen)
         then Err SE_CorruptSnapshot
         else
         and_then (validate_attempts X records action r 0 (es_attempts r)
           (seen\<lparr>sn_reservation_ids := es_reservation_id r # sn_reservation_ids seen,
             sn_reserved_actions := es_action_ref r # sn_reserved_actions seen,
             sn_idempotency_scopes := idempotency_scope r # sn_idempotency_scopes seen\<rparr>)) (\<lambda>seen.
         validate_reservations X records reservations seen)
     | _ \<Rightarrow> Err SE_CorruptSnapshot)"

definition validate_snapshot ::
  "crates \<Rightarrow> HumanCenteredStoreSnapshotV1 \<Rightarrow> (HumanCenteredStoreErrorV1, unit) result" where
  "validate_snapshot X s =
     and_then (validate_snapshot_header X s) (\<lambda>_.
     and_then (collect_record_refs X [] (ss_records s)) (\<lambda>refs.
     and_then (validate_record_history X refs (ss_execution_reservations s) [] (ss_records s) []) (\<lambda>latest.
     and_then (validate_pointers refs latest (ss_current_pointers s) []) (\<lambda>current_ids.
     if length current_ids \<noteq> length latest then Err SE_CorruptSnapshot
     else
     and_then (for_each (validate_invalidated refs) (ss_invalidated_refs s)) (\<lambda>_.
     and_then (replay_history X (ss_records s)) (\<lambda>replayed.
     if ss_current_pointers replayed \<noteq> ss_current_pointers s \<or>
        ss_invalidated_refs replayed \<noteq> ss_invalidated_refs s
     then Err SE_CorruptSnapshot
     else
     and_then (validate_reservations X (ss_records s) (ss_execution_reservations s) nothing_seen) (\<lambda>_.
     Ok ())))))))"

section \<open>Receipts applied to attempts\<close>

text \<open>The first element that satisfies \<open>p\<close>, updated in place: \<open>iter_mut().find(p)\<close>.\<close>

fun update_first :: "('a \<Rightarrow> bool) \<Rightarrow> ('a \<Rightarrow> 'a) \<Rightarrow> 'a list \<Rightarrow> 'a list" where
  "update_first p f [] = []"
| "update_first p f (x # xs) = (if p x then f x # xs else x # update_first p f xs)"

fun receipt_status :: "ExecutionStateV1 \<Rightarrow> ExecutionReservationStatusV1" where
  "receipt_status EX_Succeeded = ER_Succeeded"
| "receipt_status EX_Failed = ER_Failed"
| "receipt_status EX_PartiallySucceeded = ER_PartiallySucceeded"
| "receipt_status EX_Rejected = ER_Rejected"
| "receipt_status EX_Compensated = ER_Compensated"

definition apply_execution_receipt_transition ::
  "HumanCenteredStoreSnapshotV1 \<Rightarrow> ExecutionReceiptV1 \<Rightarrow> HumanCenteredContractRefV1 \<Rightarrow> SignedProofEnvelopeV1 \<Rightarrow> u64 \<Rightarrow>
   (HumanCenteredStoreErrorV1, HumanCenteredStoreSnapshotV1) result" where
  "apply_execution_receipt_transition s receipt receipt_ref proof_envelope verified_at =
     (let for_action = (\<lambda>r. es_action_ref r = xr_action_ref receipt);
          for_permit = (\<lambda>a. at_permit_id a = xr_permit_id receipt) in
      and_then (ok_or (find for_action (ss_execution_reservations s)) SE_ExecutionReservationNotFound) (\<lambda>reservation.
      and_then (ok_or (find for_permit (es_attempts reservation)) SE_ExecutionReservationNotFound) (\<lambda>a.
      if at_status a \<notin> {ER_Dispatched, ER_ReconciliationRequired} \<or>
         \<not> receipt_matches_attempt_parts receipt (es_reservation_id reservation) (es_action_ref reservation) a
      then Err SE_InvalidExecutionTransition
      else Ok (s\<lparr>ss_execution_reservations := update_first for_action (\<lambda>r. r\<lparr>es_attempts :=
        update_first for_permit (\<lambda>a. a\<lparr>at_status := receipt_status (xr_state receipt),
          at_receipt_ref := Some receipt_ref, at_receipt_proof_envelope := Some proof_envelope,
          at_receipt_verified_at := Some verified_at\<rparr>) (es_attempts r)\<rparr>) (ss_execution_reservations s)\<rparr>))))"

definition validate_receipt_proof_at ::
  "crates \<Rightarrow> ExecutionReceiptV1 \<Rightarrow> SignedProofEnvelopeV1 \<Rightarrow> u64 \<Rightarrow> u64 \<Rightarrow>
   (HumanCenteredStoreErrorV1, unit) result" where
  "validate_receipt_proof_at X receipt proof_envelope verified_at trusted_now =
     protocol (
       and_then (ExecutionReceiptV1_validate X receipt) (\<lambda>_.
       and_then (SignedProofEnvelopeV1_validate_shape proof_envelope) (\<lambda>_.
       and_then (receipt_provider_proof_binding X receipt) (\<lambda>expected.
       let claims = he_claims proof_envelope in
       if hp_proof_kind claims \<noteq> PF_ProviderExecutionReceipt \<or> hp_issuer_ref claims \<noteq> xr_provider_ref receipt
       then Err HE_ProofVerificationFailed
       else
       and_then (receipt_proof_subject_ref X receipt) (\<lambda>subject_ref.
       if hp_subject_ref claims \<noteq> subject_ref then Err HE_ProofVerificationFailed
       else
       and_then (ExecutionReceiptV1_record_ref X receipt) (\<lambda>record_ref.
       if hp_subject_digest claims \<noteq> cr_record_digest record_ref \<or>
          hp_tenant_ref claims \<noteq> xb_tenant_ref expected \<or> hp_scope_ref claims \<noteq> xb_scope_ref expected \<or>
          hp_purpose_ref claims \<noteq> xb_purpose_ref expected \<or>
          hp_policy_revision_ref claims \<noteq> xb_policy_revision_ref expected \<or>
          hp_nonce claims \<noteq> xr_dispatch_nonce receipt \<or> hp_issued_at claims < xr_completed_at receipt \<or>
          trusted_now < xr_completed_at receipt \<or> trusted_now < hp_issued_at claims \<or>
          trusted_now \<ge> hp_expires_at claims \<or> verified_at < hp_issued_at claims \<or>
          verified_at \<ge> hp_expires_at claims \<or> verified_at > trusted_now
       then Err HE_ProofVerificationFailed else Ok ()))))))"

end
