(* ===== verification/IDR_Store.thy ===== *)
theory IDR_Store
  imports IDR_Store_Validate
begin

text \<open>
  The durable store of \<open>idr-store/src/file_store.rs\<close>: the snapshot file and the anchor log beside it, byte by
  byte, the write of a snapshot with the points where it may fail, the load that validates and recovers, and
  the public operations. The operations hold the store's lock, and each replaces the snapshot cached in
  memory by the one it loads before reading it, so the cache is not part of the state. What serde writes
  and reads is a parameter.
\<close>

section \<open>The disk\<close>

record StoreAnchorRecordV1 =
  an_sequence :: u64
  an_snapshot_digest :: string
  an_previous_snapshot_digest :: "string option"

record store_serde =
  sd_snapshot_to_vec :: "HumanCenteredStoreSnapshotV1 \<Rightarrow> bytes option"
  sd_snapshot_from_slice :: "bytes \<Rightarrow> HumanCenteredStoreSnapshotV1 option"
  sd_anchor_to_vec :: "StoreAnchorRecordV1 \<Rightarrow> bytes option"
  sd_anchor_from_slice :: "bytes \<Rightarrow> StoreAnchorRecordV1 option"

text \<open>The two files; \<open>None\<close> is a file that does not exist.\<close>

record store_disk =
  sk_snapshot :: "bytes option"
  sk_anchor :: "bytes option"

text \<open>An operation on the disk: the disk it leaves, and its result.\<close>

type_synonym 'a store_io = "store_disk \<Rightarrow> store_disk \<times> (HumanCenteredStoreErrorV1, 'a) result"

definition io_lift :: "(HumanCenteredStoreErrorV1, 'a) result \<Rightarrow> 'a store_io" where
  "io_lift r = (\<lambda>disk. (disk, r))"

definition io_then :: "'a store_io \<Rightarrow> ('a \<Rightarrow> 'b store_io) \<Rightarrow> 'b store_io" where
  "io_then m f = (\<lambda>disk. case m disk of
     (disk', Err e) \<Rightarrow> (disk', Err e)
   | (disk', Ok x) \<Rightarrow> f x disk')"

text \<open>
  Where a write may fail. An append may fail before the file is open, or after any number of bytes; a
  snapshot write may fail before the rename, which leaves both files as they were, or in the append after it.
\<close>

datatype append_fault = Append_Done | Append_Not_Opened | Append_Torn nat

datatype persist_fault = Fails_Before_Rename | Renamed append_fault

section \<open>The anchor log\<close>

definition newline :: char where
  "newline = CHR 0x0A"

definition is_ascii_whitespace :: "char \<Rightarrow> bool" where
  "is_ascii_whitespace c \<longleftrightarrow> c \<in> {CHR 0x20, CHR 0x09, CHR 0x0A, CHR 0x0C, CHR 0x0D}"

text \<open>One more than the position of the last newline, or 0.\<close>

definition committed_len :: "bytes \<Rightarrow> nat" where
  "committed_len b = length b - length (takeWhile (\<lambda>c. c \<noteq> newline) (rev b))"

text \<open>\<open>slice::split\<close>\<close>

fun split_on :: "'a \<Rightarrow> 'a list \<Rightarrow> 'a list list" where
  "split_on x [] = [[]]"
| "split_on x (y # ys) =
     (if y = x then [] # split_on x ys
      else (case split_on x ys of [] \<Rightarrow> [[y]] | l # ls \<Rightarrow> (y # l) # ls))"

definition anchor_lines :: "bytes \<Rightarrow> bytes list" where
  "anchor_lines committed = (if committed = [] then [] else split_on newline (butlast committed))"

definition parse_anchor_line ::
  "store_serde \<Rightarrow> bytes \<Rightarrow> (HumanCenteredStoreErrorV1, StoreAnchorRecordV1) result" where
  "parse_anchor_line D line =
     (if list_all is_ascii_whitespace line then Err SE_CorruptAnchor
      else ok_or (sd_anchor_from_slice D line) SE_CorruptAnchor)"

definition anchor_digests_valid :: "StoreAnchorRecordV1 \<Rightarrow> bool" where
  "anchor_digests_valid a \<longleftrightarrow>
     valid_digest (an_snapshot_digest a) \<and>
     (case an_previous_snapshot_digest a of None \<Rightarrow> True | Some digest \<Rightarrow> valid_digest digest)"

fun validate_anchor_chain ::
  "StoreAnchorRecordV1 option \<Rightarrow> StoreAnchorRecordV1 list \<Rightarrow> (HumanCenteredStoreErrorV1, unit) result" where
  "validate_anchor_chain previous [] = Ok ()"
| "validate_anchor_chain previous (anchor # anchors) =
     (if \<not> anchor_digests_valid anchor then Err SE_CorruptAnchor
      else if (case previous of
          None \<Rightarrow> an_sequence anchor = 1 \<and> an_previous_snapshot_digest anchor = None
        | Some prior \<Rightarrow> checked_add (an_sequence prior) 1 = Some (an_sequence anchor) \<and>
            an_previous_snapshot_digest anchor = Some (an_snapshot_digest prior))
      then validate_anchor_chain (Some anchor) anchors
      else Err SE_CorruptAnchor)"

definition read_anchor_records :: "store_serde \<Rightarrow> StoreAnchorRecordV1 list store_io" where
  "read_anchor_records D = (\<lambda>disk.
     case sk_anchor disk of
       None \<Rightarrow> (disk, Ok [])
     | Some b \<Rightarrow>
         let committed = take (committed_len b) b in
         io_then (io_lift (collect_results (parse_anchor_line D) (anchor_lines committed))) (\<lambda>records.
         io_then (io_lift (validate_anchor_chain None records)) (\<lambda>_ disk.
         let disk = (if committed_len b < length b then disk\<lparr>sk_anchor := Some committed\<rparr> else disk) in
         if committed_len b = 0 \<and> b \<noteq> [] \<and> records = [] \<and> list_all is_ascii_whitespace b
         then (disk, Err SE_CorruptAnchor) else (disk, Ok records))) disk)"

definition anchor_of :: "HumanCenteredStoreSnapshotV1 \<Rightarrow> StoreAnchorRecordV1" where
  "anchor_of s = \<lparr>an_sequence = ss_sequence s, an_snapshot_digest = ss_snapshot_digest s,
     an_previous_snapshot_digest = ss_previous_snapshot_digest s\<rparr>"

definition append_anchor :: "store_serde \<Rightarrow> append_fault \<Rightarrow> HumanCenteredStoreSnapshotV1 \<Rightarrow> unit store_io" where
  "append_anchor D fault s = (\<lambda>disk.
     let content = (case sk_anchor disk of None \<Rightarrow> [] | Some b \<Rightarrow> b) in
     case fault of
       Append_Not_Opened \<Rightarrow> (disk, Err SE_Io)
     | Append_Torn k \<Rightarrow>
         (case sd_anchor_to_vec D (anchor_of s) of
            None \<Rightarrow> (disk\<lparr>sk_anchor := Some content\<rparr>, Err SE_Serialization)
          | Some line \<Rightarrow> (disk\<lparr>sk_anchor := Some (content @ take k (line @ [newline]))\<rparr>, Err SE_Io))
     | Append_Done \<Rightarrow>
         (case sd_anchor_to_vec D (anchor_of s) of
            None \<Rightarrow> (disk\<lparr>sk_anchor := Some content\<rparr>, Err SE_Serialization)
          | Some line \<Rightarrow> (disk\<lparr>sk_anchor := Some (content @ line @ [newline])\<rparr>, Ok ())))"

definition validate_or_recover_anchor ::
  "store_serde \<Rightarrow> append_fault \<Rightarrow> HumanCenteredStoreSnapshotV1 \<Rightarrow> unit store_io" where
  "validate_or_recover_anchor D fault s =
     io_then (read_anchor_records D) (\<lambda>anchors.
     io_then (io_lift (validate_anchor_chain None anchors)) (\<lambda>_.
     if ss_sequence s = 0 then io_lift (if anchors = [] then Ok () else Err SE_RollbackDetected)
     else if anchors = [] then
       (if ss_sequence s = 1 \<and> ss_previous_snapshot_digest s = None then append_anchor D fault s
        else io_lift (Err SE_RollbackDetected))
     else
       let latest = last anchors in
       if an_sequence latest = ss_sequence s \<and> an_snapshot_digest latest = ss_snapshot_digest s \<and>
          an_previous_snapshot_digest latest = ss_previous_snapshot_digest s
       then io_lift (Ok ())
       else if checked_add (an_sequence latest) 1 = Some (ss_sequence s) \<and>
          ss_previous_snapshot_digest s = Some (an_snapshot_digest latest)
       then append_anchor D fault s
       else io_lift (Err SE_RollbackDetected)))"

section \<open>Reading and writing snapshots\<close>

definition read_snapshot :: "store_serde \<Rightarrow> HumanCenteredStoreSnapshotV1 store_io" where
  "read_snapshot D = (\<lambda>disk. (disk,
     case sk_snapshot disk of
       None \<Rightarrow> Ok default_snapshot
     | Some b \<Rightarrow> if b = [] then Err SE_CorruptSnapshot else ok_or (sd_snapshot_from_slice D b) SE_Serialization))"

definition load_snapshot ::
  "store_serde \<Rightarrow> crates \<Rightarrow> append_fault \<Rightarrow> HumanCenteredStoreSnapshotV1 store_io" where
  "load_snapshot D X fault =
     io_then (read_snapshot D) (\<lambda>s.
     io_then (io_lift (validate_snapshot X s)) (\<lambda>_.
     io_then (validate_or_recover_anchor D fault s) (\<lambda>_. io_lift (Ok s))))"

text \<open>Opening: the snapshot the store starts from; the cached copy is reloaded by every operation.\<close>

definition open_with_clock ::
  "store_serde \<Rightarrow> crates \<Rightarrow> append_fault \<Rightarrow> HumanCenteredStoreSnapshotV1 store_io" where
  "open_with_clock D X on_load = io_then (load_snapshot D X on_load) (\<lambda>s. io_lift (Ok s))"

definition persist_snapshot ::
  "store_serde \<Rightarrow> persist_fault \<Rightarrow> HumanCenteredStoreSnapshotV1 \<Rightarrow> unit store_io" where
  "persist_snapshot D fault s =
     io_then (io_lift (ok_or (sd_snapshot_to_vec D s) SE_Serialization)) (\<lambda>b disk.
     case fault of
       Fails_Before_Rename \<Rightarrow> (disk, Err SE_Io)
     | Renamed append_fault \<Rightarrow> append_anchor D append_fault s (disk\<lparr>sk_snapshot := Some b\<rparr>))"

text \<open>The three calls that end every operation that writes.\<close>

definition persist_next ::
  "store_serde \<Rightarrow> crates \<Rightarrow> persist_fault \<Rightarrow> HumanCenteredStoreSnapshotV1 \<Rightarrow> HumanCenteredStoreSnapshotV1 \<Rightarrow>
   unit store_io" where
  "persist_next D X fault current candidate =
     io_then (io_lift (seal_next_snapshot X candidate current)) (\<lambda>candidate.
     io_then (io_lift (validate_snapshot X candidate)) (\<lambda>_.
     persist_snapshot D fault candidate))"

section \<open>Commits\<close>

datatype HumanCenteredCommitOutcomeV1 =
    Committed HumanCenteredContractRefV1
  | AlreadyCommitted HumanCenteredContractRefV1

fun receipt_record :: "HumanCenteredContractSnapshotV1 \<Rightarrow> ExecutionReceiptV1 option" where
  "receipt_record (SN_ExecutionReceipt receipt) = Some receipt"
| "receipt_record _ = None"

text \<open>The pointer the contract succeeds, when it follows it.\<close>

definition lineage_predecessor ::
  "HumanCenteredStoreSnapshotV1 \<Rightarrow> HumanCenteredContractSnapshotV1 \<Rightarrow> HumanCenteredContractRefV1 \<Rightarrow>
   (HumanCenteredStoreErrorV1, HumanCenteredContractRefV1 option) result" where
  "lineage_predecessor current contract reference =
     (case find (\<lambda>pointer. same_object pointer reference) (ss_current_pointers current) of
        None \<Rightarrow>
          if cr_revision reference = 1 \<and> snapshot_predecessor contract = None then Ok None
          else Err SE_StaleCurrentPointer
      | Some pointer \<Rightarrow>
          if cr_kind pointer = cr_kind reference \<and>
             checked_add (cr_revision pointer) 1 = Some (cr_revision reference) \<and>
             snapshot_predecessor contract = Some pointer
          then Ok (Some pointer) else Err SE_StaleCurrentPointer)"

definition dependency_is_current ::
  "crates \<Rightarrow> HumanCenteredStoreSnapshotV1 \<Rightarrow> HumanCenteredContractRefV1 \<Rightarrow> bool" where
  "dependency_is_current X current dependency \<longleftrightarrow>
     find (\<lambda>pointer. same_object pointer dependency) (ss_current_pointers current) = Some dependency \<and>
     dependency \<notin> set (ss_invalidated_refs current) \<and>
     find_record X (ss_records current) dependency \<noteq> None"

definition commit_candidate ::
  "crates \<Rightarrow> HumanCenteredStoreSnapshotV1 \<Rightarrow> HumanCenteredContractSnapshotV1 \<Rightarrow> HumanCenteredContractRefV1 \<Rightarrow>
   (SignedProofEnvelopeV1 \<times> u64) option \<Rightarrow> (HumanCenteredStoreErrorV1, HumanCenteredStoreSnapshotV1) result" where
  "commit_candidate X current contract reference receipt_proof =
     and_then (lineage_predecessor current contract reference) (\<lambda>previous.
     and_then (case previous of
         None \<Rightarrow> Ok ()
       | Some previous \<Rightarrow>
           and_then (ok_or (find_record X (ss_records current) previous) SE_CorruptSnapshot) (\<lambda>previous_record.
           if \<not> lineage_context_is_continuous (snapshot_metadata previous_record) (snapshot_metadata contract)
           then Err SE_CrossObjectMismatch else Ok ())) (\<lambda>_.
     if \<not> list_all (dependency_is_current X current) (snapshot_dependencies contract) then Err SE_StaleDependency
     else if \<not> validate_cross_object_consistency X contract (ss_records current) (ss_execution_reservations current)
     then Err SE_CrossObjectMismatch
     else
     and_then (case previous of
         None \<Rightarrow> Ok current
       | Some previous \<Rightarrow> invalidate_dependents X current previous) (\<lambda>candidate.
     let candidate = candidate\<lparr>ss_records := ss_records candidate @ [contract]\<rparr> in
     and_then (case receipt_record contract of
         None \<Rightarrow> Ok candidate
       | Some receipt \<Rightarrow>
           and_then (ok_or receipt_proof SE_VerifiedReceiptProofRequired) (\<lambda>(proof_envelope, verified_at).
           apply_execution_receipt_transition candidate receipt reference proof_envelope verified_at)) (\<lambda>candidate.
     Ok (candidate\<lparr>ss_current_pointers := replace_pointer (ss_current_pointers candidate) reference\<rparr>)))))"

definition check_receipt_proof ::
  "crates \<Rightarrow> u64 option \<Rightarrow> HumanCenteredContractSnapshotV1 \<Rightarrow> (SignedProofEnvelopeV1 \<times> u64) option \<Rightarrow>
   (HumanCenteredStoreErrorV1, unit) result" where
  "check_receipt_proof X clock contract receipt_proof =
     (case receipt_proof of
        None \<Rightarrow> Ok ()
      | Some (proof_envelope, verified_at) \<Rightarrow>
          and_then (ok_or (receipt_record contract) SE_VerifiedReceiptProofRequired) (\<lambda>receipt.
          and_then (ok_or clock SE_TrustedClockUnavailable) (\<lambda>now.
          validate_receipt_proof_at X receipt proof_envelope verified_at now)))"

text \<open>
  \<open>on_load\<close> and \<open>on_write\<close> are the faults of the recovery and of the write; \<open>clock\<close> is the trusted clock, \<open>None\<close>
  when it is unavailable.
\<close>

definition commit_internal ::
  "store_serde \<Rightarrow> crates \<Rightarrow> u64 option \<Rightarrow> append_fault \<Rightarrow> persist_fault \<Rightarrow> HumanCenteredContractSnapshotV1 \<Rightarrow>
   (SignedProofEnvelopeV1 \<times> u64) option \<Rightarrow> HumanCenteredCommitOutcomeV1 store_io" where
  "commit_internal D X clock on_load on_write contract receipt_proof =
     io_then (io_lift (if (receipt_record contract \<noteq> None) \<noteq> (receipt_proof \<noteq> None)
       then Err SE_VerifiedReceiptProofRequired else Ok ())) (\<lambda>_.
     io_then (io_lift (protocol (snapshot_contract_validate X contract))) (\<lambda>_.
     io_then (io_lift (protocol (snapshot_record_ref X contract))) (\<lambda>reference.
     io_then (load_snapshot D X on_load) (\<lambda>current.
     io_then (io_lift (check_receipt_proof X clock contract receipt_proof)) (\<lambda>_.
     if find_record X (ss_records current) reference \<noteq> None then io_lift (Ok (AlreadyCommitted reference))
     else
     io_then (io_lift (commit_candidate X current contract reference receipt_proof)) (\<lambda>candidate.
     io_then (persist_next D X on_write current candidate) (\<lambda>_.
     io_lift (Ok (Committed reference)))))))))"

definition store_commit ::
  "store_serde \<Rightarrow> crates \<Rightarrow> u64 option \<Rightarrow> append_fault \<Rightarrow> persist_fault \<Rightarrow> HumanCenteredContractSnapshotV1 \<Rightarrow>
   HumanCenteredCommitOutcomeV1 store_io" where
  "store_commit D X clock on_load on_write contract =
     (if receipt_record contract \<noteq> None then io_lift (Err SE_VerifiedReceiptProofRequired)
      else commit_internal D X clock on_load on_write contract None)"

definition commit_execution_receipt ::
  "store_serde \<Rightarrow> crates \<Rightarrow> u64 option \<Rightarrow> append_fault \<Rightarrow> persist_fault \<Rightarrow> VerifiedExecutionReceiptV1 \<Rightarrow>
   HumanCenteredCommitOutcomeV1 store_io" where
  "commit_execution_receipt D X clock on_load on_write verified_receipt =
     (let (receipt, proof_envelope, verified_at) = verified_receipt_into_parts verified_receipt in
      commit_internal D X clock on_load on_write (SN_ExecutionReceipt receipt) (Some (proof_envelope, verified_at)))"

section \<open>Permits\<close>

record ExecutionPermitV1 =
  ep_reservation_id :: uuid
  ep_permit_id :: uuid
  ep_proof_key_id :: ReferenceV1
  ep_proof_verified_at :: u64
  ep_issued_at :: u64
  ep_request :: ExecutionPermitRequestV1

definition all_attempts :: "HumanCenteredStoreSnapshotV1 \<Rightarrow> ExecutionAttemptRecordV1 list" where
  "all_attempts s = concat (map es_attempts (ss_execution_reservations s))"

definition issued_attempt ::
  "VerifiedExecutionPermitRequestV1 \<Rightarrow> u64 \<Rightarrow> ExecutionAttemptRecordV1" where
  "issued_attempt v trusted_now =
     (let claims = hv_claims (vq_verified_proof v) in
      \<lparr>at_attempt = pq_attempt (vq_request v), at_permit_id = hp_proof_id claims, at_proof_id = hp_proof_id claims,
       at_proof_nonce = hp_nonce claims, at_proof_issuer_ref = hp_issuer_ref claims,
       at_proof_key_id = he_key_id (hv_envelope (vq_verified_proof v)), at_proof_expires_at = hp_expires_at claims,
       at_subject_digest = pq_request_digest (vq_request v),
       at_permit_proof_envelope = hv_envelope (vq_verified_proof v), at_authorization = vq_authorization v,
       at_request = vq_request v, at_consumed_at = trusted_now, at_status = ER_PermitIssued,
       at_delivered_at = None, at_dispatched_at = None, at_receipt_ref = None,
       at_receipt_proof_envelope = None, at_receipt_verified_at = None\<rparr>)"

definition reservation_conflicts ::
  "HumanCenteredContractRefV1 \<Rightarrow> ReferenceV1 \<times> ReferenceV1 \<times> string \<Rightarrow> ExecutionReservationRecordV1 \<Rightarrow> bool" where
  "reservation_conflicts action_ref scope r \<longleftrightarrow> es_action_ref r = action_ref \<or> idempotency_scope r = scope"

text \<open>The reservation the permit is filed under and the reservations after it is; \<open>fresh_id\<close> is \<open>Uuid::new_v4()\<close>.\<close>

definition reserve_attempt ::
  "uuid \<Rightarrow> HumanCenteredContractRefV1 \<Rightarrow> ReferenceV1 \<times> ReferenceV1 \<times> string \<Rightarrow> ExecutionAttemptRecordV1 \<Rightarrow>
   ExecutionReservationRecordV1 list \<Rightarrow>
   (HumanCenteredStoreErrorV1, uuid \<times> ExecutionReservationRecordV1 list) result" where
  "reserve_attempt fresh_id action_ref scope next_attempt reservations =
     (case find (reservation_conflicts action_ref scope) reservations of
        Some reservation \<Rightarrow>
          if es_action_ref reservation \<noteq> action_ref \<or> idempotency_scope reservation \<noteq> scope
          then Err SE_ExecutionAlreadyReserved
          else if es_attempts reservation = [] then Err SE_CorruptSnapshot
          else
          let previous = last (es_attempts reservation) in
          if \<not> permits_retry (at_status previous) then Err SE_ExecutionAlreadyReserved
          else
          and_then (ok_or (checked_add (at_attempt previous) 1) SE_AttemptOverflow) (\<lambda>expected.
          if pq_attempt (at_request next_attempt) \<noteq> expected then Err SE_ExecutionAlreadyReserved
          else Ok (es_reservation_id reservation,
            update_first (reservation_conflicts action_ref scope)
              (\<lambda>r. r\<lparr>es_attempts := es_attempts r @ [next_attempt]\<rparr>) reservations))
      | None \<Rightarrow>
          if pq_attempt (at_request next_attempt) \<noteq> 1 then Err SE_InvalidExecutionAttempt
          else Ok (fresh_id, reservations @ [\<lparr>es_reservation_id = fresh_id, es_action_ref = action_ref,
            es_tenant_ref = fst scope, es_operation_ref = fst (snd scope), es_idempotency_key = snd (snd scope),
            es_attempts = [next_attempt]\<rparr>]))"

definition issue_candidate ::
  "crates \<Rightarrow> uuid \<Rightarrow> HumanCenteredStoreSnapshotV1 \<Rightarrow> VerifiedExecutionPermitRequestV1 \<Rightarrow> u64 \<Rightarrow>
   (HumanCenteredStoreErrorV1, uuid \<times> HumanCenteredStoreSnapshotV1) result" where
  "issue_candidate X fresh_id current v trusted_now =
     (let request = vq_request v; action_ref = pq_action_ref request; claims = hv_claims (vq_verified_proof v) in
      if \<not> reference_is_current current action_ref then Err SE_StaleCurrentPointer
      else
      case find_record X (ss_records current) action_ref of
        Some (SN_Action action) \<Rightarrow>
          and_then (protocol (permit_request_validate_at X v action trusted_now)) (\<lambda>_.
          if list_ex (\<lambda>a. at_proof_id a = hp_proof_id claims \<or> at_proof_nonce a = hp_nonce claims) (all_attempts current)
          then Err SE_ProofReplayDetected
          else if list_ex (\<lambda>a. az_authorization_id (at_authorization a) = pq_authorization_id request)
            (all_attempts current)
          then Err SE_AuthorizationAlreadyConsumed
          else
          and_then (reserve_attempt fresh_id action_ref
            (ac_tenant_ref (cm_authority_context (ax_metadata action)), ax_operation_ref action,
             ax_idempotency_key action)
            (issued_attempt v trusted_now) (ss_execution_reservations current)) (\<lambda>(reservation_id, reservations).
          Ok (reservation_id, current\<lparr>ss_execution_reservations := reservations\<rparr>)))
      | _ \<Rightarrow> Err SE_CorruptSnapshot)"

definition issue_execution_permit ::
  "store_serde \<Rightarrow> crates \<Rightarrow> u64 option \<Rightarrow> append_fault \<Rightarrow> persist_fault \<Rightarrow> uuid \<Rightarrow>
   VerifiedExecutionPermitRequestV1 \<Rightarrow> ExecutionPermitV1 store_io" where
  "issue_execution_permit D X clock on_load on_write fresh_id v =
     io_then (load_snapshot D X on_load) (\<lambda>current.
     io_then (io_lift (ok_or clock SE_TrustedClockUnavailable)) (\<lambda>trusted_now.
     io_then (io_lift (issue_candidate X fresh_id current v trusted_now)) (\<lambda>(reservation_id, candidate).
     io_then (persist_next D X on_write current candidate) (\<lambda>_.
     io_lift (Ok \<lparr>ep_reservation_id = reservation_id, ep_permit_id = hp_proof_id (hv_claims (vq_verified_proof v)),
       ep_proof_key_id = he_key_id (hv_envelope (vq_verified_proof v)),
       ep_proof_verified_at = hv_verified_at (vq_verified_proof v), ep_issued_at = trusted_now,
       ep_request = vq_request v\<rparr>)))))"

definition validate_permit_matches_attempt ::
  "ExecutionPermitV1 \<Rightarrow> uuid \<Rightarrow> HumanCenteredContractRefV1 \<Rightarrow> ExecutionAttemptRecordV1 \<Rightarrow>
   (HumanCenteredStoreErrorV1, unit) result" where
  "validate_permit_matches_attempt permit reservation_id action_ref attempt =
     (if ep_reservation_id permit \<noteq> reservation_id \<or> ep_permit_id permit \<noteq> at_permit_id attempt \<or>
         ep_proof_key_id permit \<noteq> at_proof_key_id attempt \<or> ep_request permit \<noteq> at_request attempt \<or>
         pq_action_ref (ep_request permit) \<noteq> action_ref
      then Err SE_ExecutionPermitMismatch else Ok ())"

definition attempt_authority_expired :: "ExecutionAttemptRecordV1 \<Rightarrow> u64 \<Rightarrow> bool" where
  "attempt_authority_expired a trusted_now \<longleftrightarrow>
     trusted_now \<ge> pq_lease_until (at_request a) \<or> trusted_now \<ge> at_proof_expires_at a \<or>
     trusted_now \<ge> az_expires_at (at_authorization a)"

text \<open>
  What a transition does to the last attempt: the attempt to write, if any, and the error to report after
  the write, if any.
\<close>

definition transition_attempt ::
  "bool \<Rightarrow> u64 \<Rightarrow> ExecutionReservationStatusV1 \<Rightarrow> ExecutionReservationStatusV1 \<Rightarrow> ExecutionAttemptRecordV1 \<Rightarrow>
   (HumanCenteredStoreErrorV1, ExecutionAttemptRecordV1 option \<times> HumanCenteredStoreErrorV1 option) result" where
  "transition_attempt action_is_current trusted_now expected next_status a =
     (if \<not> action_is_current then
        Ok (Some (a\<lparr>at_status := (if at_dispatched_at a \<noteq> None then ER_ReconciliationRequired else ER_Cancelled)\<rparr>),
          Some SE_ExecutionActionInvalidated)
      else if attempt_authority_expired a trusted_now then
        Ok (Some (a\<lparr>at_status := ER_Expired\<rparr>), Some SE_ExecutionLeaseExpired)
      else if at_status a = next_status then Ok (None, None)
      else if at_status a \<noteq> expected then Err SE_InvalidExecutionTransition
      else
        let a = a\<lparr>at_status := next_status\<rparr> in
        case next_status of
          ER_Delivered \<Rightarrow> Ok (Some (a\<lparr>at_delivered_at := Some trusted_now\<rparr>), None)
        | ER_Dispatched \<Rightarrow> Ok (Some (a\<lparr>at_dispatched_at := Some trusted_now\<rparr>), None)
        | _ \<Rightarrow> Err SE_InvalidExecutionTransition)"

text \<open>\<open>reservation_id\<close> names the reservation; its last attempt is replaced.\<close>

definition write_last_attempt ::
  "uuid \<Rightarrow> ExecutionAttemptRecordV1 \<Rightarrow> HumanCenteredStoreSnapshotV1 \<Rightarrow> HumanCenteredStoreSnapshotV1" where
  "write_last_attempt reservation_id a s =
     s\<lparr>ss_execution_reservations := update_first (\<lambda>r. es_reservation_id r = reservation_id)
       (\<lambda>r. r\<lparr>es_attempts := update_last (\<lambda>_. a) (es_attempts r)\<rparr>) (ss_execution_reservations s)\<rparr>"

definition report :: "HumanCenteredStoreErrorV1 option \<Rightarrow> (HumanCenteredStoreErrorV1, unit) result" where
  "report e = (case e of None \<Rightarrow> Ok () | Some e \<Rightarrow> Err e)"

definition transition_execution_permit ::
  "store_serde \<Rightarrow> crates \<Rightarrow> u64 option \<Rightarrow> append_fault \<Rightarrow> persist_fault \<Rightarrow> ExecutionPermitV1 \<Rightarrow>
   ExecutionReservationStatusV1 \<Rightarrow> ExecutionReservationStatusV1 \<Rightarrow> unit store_io" where
  "transition_execution_permit D X clock on_load on_write permit expected next_status =
     io_then (load_snapshot D X on_load) (\<lambda>current.
     io_then (io_lift (ok_or clock SE_TrustedClockUnavailable)) (\<lambda>trusted_now.
     io_then (io_lift (ok_or (find (\<lambda>r. es_reservation_id r = ep_reservation_id permit)
       (ss_execution_reservations current)) SE_ExecutionReservationNotFound)) (\<lambda>reservation.
     if es_attempts reservation = [] then io_lift (Err SE_CorruptSnapshot)
     else
     let attempt = last (es_attempts reservation) in
     io_then (io_lift (validate_permit_matches_attempt permit (es_reservation_id reservation)
       (es_action_ref reservation) attempt)) (\<lambda>_.
     io_then (io_lift (transition_attempt (reference_is_current current (es_action_ref reservation)) trusted_now
       expected next_status attempt)) (\<lambda>(written, failure).
     case written of
       None \<Rightarrow> io_lift (report failure)
     | Some a \<Rightarrow>
         io_then (persist_next D X on_write current (write_last_attempt (es_reservation_id reservation) a current)) (\<lambda>_.
         io_lift (report failure)))))))"

definition mark_execution_permit_delivered ::
  "store_serde \<Rightarrow> crates \<Rightarrow> u64 option \<Rightarrow> append_fault \<Rightarrow> persist_fault \<Rightarrow> ExecutionPermitV1 \<Rightarrow> unit store_io" where
  "mark_execution_permit_delivered D X clock on_load on_write permit =
     transition_execution_permit D X clock on_load on_write permit ER_PermitIssued ER_Delivered"

definition mark_execution_dispatched ::
  "store_serde \<Rightarrow> crates \<Rightarrow> u64 option \<Rightarrow> append_fault \<Rightarrow> persist_fault \<Rightarrow> ExecutionPermitV1 \<Rightarrow> unit store_io" where
  "mark_execution_dispatched D X clock on_load on_write permit =
     transition_execution_permit D X clock on_load on_write permit ER_Delivered ER_Dispatched"

definition recover_execution_permit ::
  "store_serde \<Rightarrow> crates \<Rightarrow> u64 option \<Rightarrow> append_fault \<Rightarrow> persist_fault \<Rightarrow> HumanCenteredContractRefV1 \<Rightarrow>
   ReferenceV1 \<Rightarrow> ExecutionPermitV1 store_io" where
  "recover_execution_permit D X clock on_load on_write action_ref owner_ref =
     io_then (load_snapshot D X on_load) (\<lambda>current.
     io_then (io_lift (ok_or clock SE_TrustedClockUnavailable)) (\<lambda>trusted_now.
     io_then (io_lift (ok_or (find (\<lambda>r. es_action_ref r = action_ref) (ss_execution_reservations current))
       SE_ExecutionReservationNotFound)) (\<lambda>reservation.
     if es_attempts reservation = [] then io_lift (Err SE_CorruptSnapshot)
     else
     let attempt = last (es_attempts reservation) in
     if pq_owner_ref (at_request attempt) \<noteq> owner_ref then io_lift (Err SE_ExecutionOwnerMismatch)
     else if at_status attempt \<notin> {ER_PermitIssued, ER_Delivered}
     then io_lift (Err SE_ExecutionRequiresReconciliation)
     else if attempt_authority_expired attempt trusted_now then
       io_then (io_lift (ok_or (find (\<lambda>r. es_reservation_id r = es_reservation_id reservation)
         (ss_execution_reservations current)) SE_CorruptSnapshot)) (\<lambda>candidate_reservation.
       if es_attempts candidate_reservation = [] then io_lift (Err SE_CorruptSnapshot)
       else
       io_then (persist_next D X on_write current (write_last_attempt (es_reservation_id reservation)
         ((last (es_attempts candidate_reservation))\<lparr>at_status := ER_Expired\<rparr>) current)) (\<lambda>_.
       io_lift (Err SE_ExecutionLeaseExpired)))
     else io_lift (Ok \<lparr>ep_reservation_id = es_reservation_id reservation, ep_permit_id = at_permit_id attempt,
       ep_proof_key_id = at_proof_key_id attempt, ep_proof_verified_at = at_consumed_at attempt,
       ep_issued_at = at_consumed_at attempt, ep_request = at_request attempt\<rparr>))))"

section \<open>Reads\<close>

definition load_current ::
  "store_serde \<Rightarrow> crates \<Rightarrow> append_fault \<Rightarrow> HumanCenteredContractKindV1 \<Rightarrow> uuid \<Rightarrow>
   HumanCenteredContractSnapshotV1 option store_io" where
  "load_current D X on_load kind contract_id =
     io_then (load_snapshot D X on_load) (\<lambda>current. io_lift (Ok (
       case find (\<lambda>pointer. cr_kind pointer = kind \<and> cr_contract_id pointer = contract_id)
         (ss_current_pointers current) of
         None \<Rightarrow> None
       | Some reference \<Rightarrow>
           if reference \<in> set (ss_invalidated_refs current) then None
           else find_record X (ss_records current) reference)))"

definition store_is_invalidated ::
  "store_serde \<Rightarrow> crates \<Rightarrow> append_fault \<Rightarrow> HumanCenteredContractRefV1 \<Rightarrow> bool store_io" where
  "store_is_invalidated D X on_load reference =
     io_then (load_snapshot D X on_load) (\<lambda>current. io_lift (Ok (reference \<in> set (ss_invalidated_refs current))))"

definition revision_count :: "store_serde \<Rightarrow> crates \<Rightarrow> append_fault \<Rightarrow> nat store_io" where
  "revision_count D X on_load =
     io_then (load_snapshot D X on_load) (\<lambda>current. io_lift (Ok (length (ss_records current))))"

end
