(* ===== verification/IDR_Store_Disk.thy ===== *)
theory IDR_Store_Disk
  imports IDR_Store
begin

text \<open>
  Crash safety of the store: what a disk must look like for a load to succeed, that every fault of a write
  leaves such a disk, and that a load recovers it; and what a disk is like when serde does not read a float of the
  snapshot back. The anchor log is described by the records its committed
  lines parse to and the torn bytes after them.
\<close>

section \<open>What is assumed of serde\<close>

text \<open>
  The free-form payloads of a contract are the parameters of an action and the result of a receipt. The
  program uses \<open>serde_json\<close> without its feature \<open>float_roundtrip\<close>, so a float in one of them need not come
  back as it was written; everything else does. A payload whose objects are ordered maps, as \<open>Value\<close> keeps
  them, and that holds no float is exact.
\<close>

fun float_free :: "json \<Rightarrow> bool" where
  "float_free (JNum (FloatNum _)) = False"
| "float_free (JArr vs) = (\<forall>v \<in> set vs. float_free v)"
| "float_free (JObj kvs) = (\<forall>kv \<in> set kvs. float_free (snd kv))"
| "float_free _ = True"

definition payload_exact :: "json \<Rightarrow> bool" where
  "payload_exact j \<longleftrightarrow> json_wf j \<and> float_free j"

fun contract_exact :: "HumanCenteredContractSnapshotV1 \<Rightarrow> bool" where
  "contract_exact (SN_Action action) = payload_exact (ax_parameters action)"
| "contract_exact (SN_ExecutionReceipt receipt) =
     (case xr_result_payload receipt of None \<Rightarrow> True | Some payload \<Rightarrow> payload_exact payload)"
| "contract_exact _ = True"

definition snapshot_exact :: "HumanCenteredStoreSnapshotV1 \<Rightarrow> bool" where
  "snapshot_exact s \<longleftrightarrow> list_all contract_exact (ss_records s)"

text \<open>
  What \<open>from_slice\<close> reads of what \<open>to_vec\<close> wrote has the same sequence and digests, and is the same when its
  payloads are exact; with a float it may differ, or not be read at all. An anchor record is read back as
  it was, is written on one line that starts with a brace, and writing one with hexadecimal digests does not
  fail.
\<close>

definition serde_round_trips :: "store_serde \<Rightarrow> bool" where
  "serde_round_trips D \<longleftrightarrow>
     (\<forall>s b. sd_snapshot_to_vec D s = Some b \<longrightarrow> b \<noteq> [] \<and>
        (snapshot_exact s \<longrightarrow> sd_snapshot_from_slice D b = Some s) \<and>
        (\<forall>c. sd_snapshot_from_slice D b = Some c \<longrightarrow> anchor_of c = anchor_of s)) \<and>
     (\<forall>a l. sd_anchor_to_vec D a = Some l \<longrightarrow>
        sd_anchor_from_slice D l = Some a \<and> newline \<notin> set l \<and> (\<exists>r. l = CHR 0x7B # r)) \<and>
     (\<forall>a. anchor_digests_valid a \<longrightarrow> sd_anchor_to_vec D a \<noteq> None)"

text \<open>
  The digest tells a snapshot from a different one that serde reads back of it, as a collision-resistant
  hash of the whole content does.
\<close>

definition digest_detects_change :: "store_serde \<Rightarrow> crates \<Rightarrow> bool" where
  "digest_detects_change D X \<longleftrightarrow>
     (\<forall>s b c d. sd_snapshot_to_vec D s = Some b \<longrightarrow> sd_snapshot_from_slice D b = Some c \<longrightarrow>
        compute_snapshot_digest X s = Ok d \<longrightarrow> compute_snapshot_digest X c = Ok d \<longrightarrow> c = s)"

definition reads_back :: "store_serde \<Rightarrow> HumanCenteredStoreSnapshotV1 \<Rightarrow> bool" where
  "reads_back D s \<longleftrightarrow> (\<forall>b. sd_snapshot_to_vec D s = Some b \<longrightarrow> sd_snapshot_from_slice D b = Some s)"

lemma exact_reads_back: "serde_round_trips D \<Longrightarrow> snapshot_exact s \<Longrightarrow> reads_back D s"
  unfolding serde_round_trips_def reads_back_def by blast

section \<open>Operations on the disk\<close>

lemma io_then_eq_Ok:
  "io_then m f disk = (disk', Ok y) \<longleftrightarrow> (\<exists>d x. m disk = (d, Ok x) \<and> f x d = (disk', Ok y))"
  by (auto simp: io_then_def split: prod.splits result.splits)

lemma io_lift_eq: "io_lift r disk = (disk', r') \<longleftrightarrow> disk' = disk \<and> r = r'"
  by (auto simp: io_lift_def)

lemma io_then_lift_Ok [simp]: "io_then (io_lift (Ok x)) f = f x"
  by (simp add: io_then_def io_lift_def)

lemma io_then_lift_Err [simp]: "io_then (io_lift (Err e)) f = io_lift (Err e)"
  by (simp add: io_then_def io_lift_def)

section \<open>Lines\<close>

lemma committed_len_append:
  assumes "c = [] \<or> last c = newline" and "newline \<notin> set tail"
  shows "committed_len (c @ tail) = length c"
proof -
  have t: "takeWhile (\<lambda>x. x \<noteq> newline) (rev tail @ r) = rev tail @ takeWhile (\<lambda>x. x \<noteq> newline) r" for r
    using assms(2) by (induction tail rule: rev_induct) auto
  have "takeWhile (\<lambda>x. x \<noteq> newline) (rev c) = []"
    using assms(1) by (cases c rule: rev_cases) auto
  with t show ?thesis by (simp add: committed_len_def)
qed

lemma committed_len_le: "committed_len b \<le> length b"
  by (simp add: committed_len_def)

lemma committed_split:
  "\<exists>c tail. b = c @ tail \<and> (c = [] \<or> last c = newline) \<and> newline \<notin> set tail \<and> committed_len b = length c"
proof -
  let ?t = "rev (takeWhile (\<lambda>x. x \<noteq> newline) (rev b))" and ?c = "rev (dropWhile (\<lambda>x. x \<noteq> newline) (rev b))"
  have b: "b = ?c @ ?t"
    by (metis rev_append rev_rev_ident takeWhile_dropWhile_id)
  have c: "?c = [] \<or> last ?c = newline"
    using hd_dropWhile [of "\<lambda>x. x \<noteq> newline" "rev b"] by (metis last_rev rev.simps(1))
  have t: "newline \<notin> set ?t" by (auto dest: set_takeWhileD)
  from committed_len_append [OF c t] b c t show ?thesis by metis
qed

lemma split_on_not_Nil: "split_on x ys \<noteq> []"
  by (induction ys) (auto split: list.splits)

lemma split_on_line: "x \<notin> set l \<Longrightarrow> split_on x l = [l]"
  by (induction l) auto

lemma split_on_append: "x \<notin> set l \<Longrightarrow> split_on x (ys @ x # l) = split_on x ys @ [l]"
  by (induction ys) (auto simp: split_on_line split_on_not_Nil split: list.splits)

lemma anchor_lines_snoc:
  assumes "c = [] \<or> last c = newline" and "newline \<notin> set l"
  shows "anchor_lines (c @ l @ [newline]) = anchor_lines c @ [l]"
proof (cases "c = []")
  case True
  with assms show ?thesis by (simp add: anchor_lines_def butlast_append split_on_line)
next
  case False
  with assms obtain d where "c = d @ [newline]" by (metis append_butlast_last_id)
  with assms show ?thesis by (simp add: anchor_lines_def butlast_append split_on_append)
qed

lemma collect_results_append:
  "collect_results f (xs @ ys) = and_then (collect_results f xs) (\<lambda>as. and_then (collect_results f ys) (\<lambda>bs. Ok (as @ bs)))"
proof (induction xs)
  case Nil
  then show ?case by (cases "collect_results f ys") auto
next
  case (Cons x xs)
  then show ?case by (cases "f x"; cases "collect_results f xs"; cases "collect_results f ys") auto
qed

section \<open>Chains\<close>

definition anchor_follows :: "StoreAnchorRecordV1 option \<Rightarrow> StoreAnchorRecordV1 \<Rightarrow> bool" where
  "anchor_follows previous a \<longleftrightarrow>
     (case previous of
        None \<Rightarrow> an_sequence a = 1 \<and> an_previous_snapshot_digest a = None
      | Some prior \<Rightarrow> checked_add (an_sequence prior) 1 = Some (an_sequence a) \<and>
          an_previous_snapshot_digest a = Some (an_snapshot_digest prior))"

definition latest_anchor :: "StoreAnchorRecordV1 list \<Rightarrow> StoreAnchorRecordV1 option" where
  "latest_anchor as = (if as = [] then None else Some (last as))"

lemma validate_anchor_chain_snoc:
  "validate_anchor_chain p (as @ [a]) = Ok () \<longleftrightarrow>
     validate_anchor_chain p as = Ok () \<and> anchor_digests_valid a \<and>
     anchor_follows (if as = [] then p else Some (last as)) a"
  by (induction as arbitrary: p) (auto simp: anchor_follows_def)

section \<open>The log of a disk\<close>

definition anchor_content :: "store_disk \<Rightarrow> bytes" where
  "anchor_content disk = (case sk_anchor disk of None \<Rightarrow> [] | Some b \<Rightarrow> b)"

definition anchored :: "store_serde \<Rightarrow> store_disk \<Rightarrow> StoreAnchorRecordV1 list \<Rightarrow> bytes \<Rightarrow> bool" where
  "anchored D disk as tail \<longleftrightarrow>
     validate_anchor_chain None as = Ok () \<and> newline \<notin> set tail \<and>
     (\<exists>c. anchor_content disk = c @ tail \<and> (c = [] \<or> last c = newline) \<and>
        collect_results (parse_anchor_line D) (anchor_lines c) = Ok as \<and>
        (tail = [] \<or> c \<noteq> [] \<or> \<not> list_all is_ascii_whitespace tail))"

lemma read_anchor_records_anchored:
  assumes "anchored D disk as tail"
  shows "\<exists>disk'. read_anchor_records D disk = (disk', Ok as) \<and> sk_snapshot disk' = sk_snapshot disk \<and>
    anchored D disk' as []"
proof -
  from assms obtain c where c: "anchor_content disk = c @ tail" "c = [] \<or> last c = newline"
    "collect_results (parse_anchor_line D) (anchor_lines c) = Ok as"
    "tail = [] \<or> c \<noteq> [] \<or> \<not> list_all is_ascii_whitespace tail"
    and v: "validate_anchor_chain None as = Ok ()" "newline \<notin> set tail"
    by (auto simp: anchored_def)
  show ?thesis
  proof (cases "sk_anchor disk")
    case None
    with c have "c = []" by (simp add: anchor_content_def)
    with c have "as = []" by (simp add: anchor_lines_def)
    with None show ?thesis by (auto simp: read_anchor_records_def anchored_def anchor_content_def anchor_lines_def)
  next
    case (Some b)
    with c have b: "b = c @ tail" by (simp add: anchor_content_def)
    from committed_len_append [OF c(2) v(2)] b have len: "committed_len b = length c" by simp
    have "\<not> (committed_len b = 0 \<and> b \<noteq> [] \<and> as = [] \<and> list_all is_ascii_whitespace b)"
      using c(4) b len by auto
    with Some b len c v show ?thesis
      by (auto simp: read_anchor_records_def io_then_def io_lift_def Let_def anchored_def anchor_content_def)
  qed
qed

lemma read_anchor_records_Ok:
  assumes "read_anchor_records D disk = (disk', Ok as)"
  shows "sk_snapshot disk' = sk_snapshot disk" and "anchored D disk' as []" and "\<exists>tail. anchored D disk as tail"
proof -
  have "sk_snapshot disk' = sk_snapshot disk \<and> anchored D disk' as [] \<and> (\<exists>tail. anchored D disk as tail)"
  proof (cases "sk_anchor disk")
    case None
    with assms show ?thesis
      by (auto simp: read_anchor_records_def anchored_def anchor_content_def anchor_lines_def)
  next
    case (Some b)
    obtain c tail where b: "b = c @ tail" "c = [] \<or> last c = newline" "newline \<notin> set tail"
      "committed_len b = length c"
      using committed_split [of b] by blast
    from Some assms b have "sk_snapshot disk' = sk_snapshot disk" "anchored D disk' as []" "anchored D disk as tail"
      by (auto simp: read_anchor_records_def io_then_def io_lift_def Let_def anchored_def anchor_content_def
          anchor_lines_def split: result.splits if_splits)
    then show ?thesis by blast
  qed
  then show "sk_snapshot disk' = sk_snapshot disk" "anchored D disk' as []" "\<exists>tail. anchored D disk as tail"
    by auto
qed

lemma append_anchor_cases:
  assumes "serde_round_trips D" and "anchored D disk as []" and "anchor_digests_valid (anchor_of s)"
    and "anchor_follows (latest_anchor as) (anchor_of s)" and "append_anchor D fault s disk = (disk', r)"
  shows "sk_snapshot disk' = sk_snapshot disk \<and>
    (r = Ok () \<and> anchored D disk' (as @ [anchor_of s]) [] \<or>
     r = Err SE_Io \<and> fault \<noteq> Append_Done \<and>
       (anchored D disk' (as @ [anchor_of s]) [] \<or> (\<exists>tail. anchored D disk' as tail)))"
proof -
  from assms(1,3) obtain l where l: "sd_anchor_to_vec D (anchor_of s) = Some l"
    by (auto simp: serde_round_trips_def)
  with assms(1) obtain rest where parse: "sd_anchor_from_slice D l = Some (anchor_of s)" "newline \<notin> set l"
    and brace: "l = CHR 0x7B # rest"
    unfolding serde_round_trips_def by blast
  have ws: "\<not> is_ascii_whitespace (CHR 0x7B)" by (simp add: is_ascii_whitespace_def)
  from assms(2) obtain c where c: "anchor_content disk = c" "c = [] \<or> last c = newline"
    "collect_results (parse_anchor_line D) (anchor_lines c) = Ok as" and v: "validate_anchor_chain None as = Ok ()"
    by (auto simp: anchored_def)
  have "parse_anchor_line D l = Ok (anchor_of s)"
    using brace ws parse(1) by (simp add: parse_anchor_line_def)
  then have lines: "collect_results (parse_anchor_line D) (anchor_lines (c @ l @ [newline])) = Ok (as @ [anchor_of s])"
    by (simp add: anchor_lines_snoc [OF c(2) parse(2)] collect_results_append c(3))
  have full: "anchored D (disk\<lparr>sk_anchor := Some (c @ l @ [newline])\<rparr>) (as @ [anchor_of s]) []"
    using lines v assms(3,4)
    by (simp add: anchored_def anchor_content_def validate_anchor_chain_snoc latest_anchor_def)
  have torn: "anchored D (disk\<lparr>sk_anchor := Some (c @ take k l)\<rparr>) as (take k l)" for k
    using c v parse brace ws
    by (cases k) (auto simp: anchored_def anchor_content_def dest: in_set_takeD intro!: exI [of _ c])
  have same: "anchored D disk as []" by fact
  have content: "(case sk_anchor disk of None \<Rightarrow> [] | Some b \<Rightarrow> b) = c"
    using c(1) by (simp add: anchor_content_def)
  show ?thesis
  proof (cases fault)
    case (Append_Torn k)
    have "take k (l @ [newline]) = take k l \<or> take k (l @ [newline]) = l @ [newline]"
      by (cases "k \<le> length l") auto
    with Append_Torn assms(5) full torn [of k] show ?thesis
      by (auto simp: append_anchor_def Let_def content l)
  qed (use assms(5) full same in \<open>auto simp: append_anchor_def Let_def content l\<close>)
qed

section \<open>Disks that load\<close>

definition head_matches :: "StoreAnchorRecordV1 list \<Rightarrow> HumanCenteredStoreSnapshotV1 \<Rightarrow> bool" where
  "head_matches as s \<longleftrightarrow>
     (if ss_sequence s = 0 then as = [] else latest_anchor as = Some (anchor_of s))"

definition head_precedes :: "StoreAnchorRecordV1 list \<Rightarrow> HumanCenteredStoreSnapshotV1 \<Rightarrow> bool" where
  "head_precedes as s \<longleftrightarrow> ss_sequence s \<noteq> 0 \<and> anchor_follows (latest_anchor as) (anchor_of s)"

text \<open>The snapshot file holds \<open>s\<close>, and the log ends with the anchor of \<open>s\<close>.\<close>

definition settled :: "store_serde \<Rightarrow> crates \<Rightarrow> store_disk \<Rightarrow> HumanCenteredStoreSnapshotV1 \<Rightarrow> bool" where
  "settled D X disk s \<longleftrightarrow>
     read_snapshot D disk = (disk, Ok s) \<and> validate_snapshot X s = Ok () \<and>
     (\<exists>as. anchored D disk as [] \<and> head_matches as s)"

text \<open>The same after an interrupted write: the anchor of \<open>s\<close> may be missing, and torn bytes may follow.\<close>

definition loadable :: "store_serde \<Rightarrow> crates \<Rightarrow> store_disk \<Rightarrow> HumanCenteredStoreSnapshotV1 \<Rightarrow> bool" where
  "loadable D X disk s \<longleftrightarrow>
     read_snapshot D disk = (disk, Ok s) \<and> validate_snapshot X s = Ok () \<and>
     (\<exists>as tail. anchored D disk as tail \<and> (head_matches as s \<or> head_precedes as s))"

lemma settled_loadable: "settled D X disk s \<Longrightarrow> loadable D X disk s"
  by (auto simp: settled_def loadable_def)

lemma read_snapshot_cong:
  "sk_snapshot disk' = sk_snapshot disk \<Longrightarrow> read_snapshot D disk = (disk, Ok s) \<Longrightarrow>
     read_snapshot D disk' = (disk', Ok s)"
  by (auto simp: read_snapshot_def)

lemma validated_anchor:
  "validate_snapshot X s = Ok () \<Longrightarrow> ss_sequence s \<noteq> 0 \<Longrightarrow> anchor_digests_valid (anchor_of s)"
  by (auto simp: validate_snapshot_def validate_snapshot_header_def and_then_eq_Ok anchor_digests_valid_def
      anchor_of_def split: if_splits option.splits)

lemma anchored_chain: "anchored D disk as tail \<Longrightarrow> validate_anchor_chain None as = Ok ()"
  by (simp add: anchored_def)

lemma validate_or_recover_anchor_eq:
  "validate_or_recover_anchor D fault s =
     io_then (read_anchor_records D) (\<lambda>as.
     io_then (io_lift (validate_anchor_chain None as)) (\<lambda>_.
     if head_matches as s then io_lift (Ok ())
     else if head_precedes as s then append_anchor D fault s
     else io_lift (Err SE_RollbackDetected)))"
  unfolding validate_or_recover_anchor_def
  by (intro arg_cong [where f = "io_then _"] ext)
    (auto simp: head_matches_def head_precedes_def anchor_follows_def latest_anchor_def anchor_of_def Let_def)

lemma anchor_of_matches: "anchored D disk (as @ [anchor_of s]) [] \<Longrightarrow> ss_sequence s \<noteq> 0 \<Longrightarrow> head_matches (as @ [anchor_of s]) s"
  by (simp add: head_matches_def latest_anchor_def)

theorem load_loadable:
  assumes "serde_round_trips D" and "loadable D X disk s" and "load_snapshot D X fault disk = (disk', r)"
  shows "loadable D X disk' s \<and> (r = Ok s \<and> settled D X disk' s \<or> r = Err SE_Io \<and> fault \<noteq> Append_Done)"
proof -
  from assms(2) obtain as tail where read: "read_snapshot D disk = (disk, Ok s)" and
    valid: "validate_snapshot X s = Ok ()" and anch: "anchored D disk as tail" and
    head: "head_matches as s \<or> head_precedes as s"
    by (auto simp: loadable_def)
  from read_anchor_records_anchored [OF anch] obtain disk1 where
    d1: "read_anchor_records D disk = (disk1, Ok as)" "sk_snapshot disk1 = sk_snapshot disk"
      "anchored D disk1 as []" by blast
  note read1 = read_snapshot_cong [OF d1(2) read]
  have load: "load_snapshot D X fault disk =
      io_then (\<lambda>d. (if head_matches as s then io_lift (Ok ()) else append_anchor D fault s) disk1)
        (\<lambda>_. io_lift (Ok s)) disk"
    using read valid d1 head anchored_chain [OF anch]
    by (auto simp: load_snapshot_def validate_or_recover_anchor_eq io_then_def io_lift_def)
  show ?thesis
  proof (cases "head_matches as s")
    case True
    with load assms(3) have "disk' = disk1" "r = Ok s" by (auto simp: io_then_def io_lift_def)
    moreover have "settled D X disk1 s" using read1 valid d1(3) True by (auto simp: settled_def)
    ultimately show ?thesis by (simp add: settled_loadable)
  next
    case False
    with head have prec: "head_precedes as s" by simp
    then have seq: "ss_sequence s \<noteq> 0" and follows: "anchor_follows (latest_anchor as) (anchor_of s)"
      by (auto simp: head_precedes_def)
    obtain r1 where app: "append_anchor D fault s disk1 = (disk', r1)" and r: "r = (case r1 of Ok _ \<Rightarrow> Ok s | Err e \<Rightarrow> Err e)"
      using load assms(3) False
      by (cases "append_anchor D fault s disk1") (auto simp: io_then_def io_lift_def split: result.splits)
    from append_anchor_cases [OF assms(1) d1(3) validated_anchor [OF valid seq] follows app]
    have snap: "sk_snapshot disk' = sk_snapshot disk1" and cs:
      "r1 = Ok () \<and> anchored D disk' (as @ [anchor_of s]) [] \<or>
       r1 = Err SE_Io \<and> fault \<noteq> Append_Done \<and>
         (anchored D disk' (as @ [anchor_of s]) [] \<or> (\<exists>tail. anchored D disk' as tail))"
      by auto
    note read' = read_snapshot_cong [OF snap read1]
    have full: "settled D X disk' s" if "anchored D disk' (as @ [anchor_of s]) []"
      using that anchor_of_matches [OF that seq] read' valid by (auto simp: settled_def)
    have part: "loadable D X disk' s" if "anchored D disk' as tail'" for tail'
      using that prec read' valid by (auto simp: loadable_def)
    from cs full part r show ?thesis by (auto simp: settled_loadable)
  qed
qed

theorem load_Ok_settled:
  assumes "serde_round_trips D" and "load_snapshot D X fault disk = (disk', Ok s)"
  shows "settled D X disk' s" and "loadable D X disk s"
proof -
  have rs: "read_snapshot D disk = (d, r) \<Longrightarrow> d = disk" for d r by (simp add: read_snapshot_def)
  from assms(2) obtain d disk1 as where read: "read_snapshot D disk = (d, Ok s)" and
    valid: "validate_snapshot X s = Ok ()" and anchors: "read_anchor_records D d = (disk1, Ok as)" and
    rest: "(if head_matches as s then io_lift (Ok ()) else if head_precedes as s then append_anchor D fault s
      else io_lift (Err SE_RollbackDetected)) disk1 = (disk', Ok ())"
    by (force simp: load_snapshot_def validate_or_recover_anchor_eq io_then_eq_Ok io_lift_eq)
  note [simp] = rs [OF read]
  note a = read_anchor_records_Ok [OF anchors]
  show l: "loadable D X disk s"
    using read valid a(3) rest by (auto simp: loadable_def io_lift_def split: if_splits)
  from load_loadable [OF assms(1) l assms(2)] show "settled D X disk' s" by simp
qed

section \<open>Writes\<close>

lemma seal_next_snapshot_Ok:
  assumes "seal_next_snapshot X candidate s = Ok c"
  shows "checked_add (ss_sequence s) 1 = Some (ss_sequence c)"
    and "ss_previous_snapshot_digest c = (if ss_sequence s > 0 then Some (ss_snapshot_digest s) else None)"
    and "ss_records c = ss_records candidate" and "ss_current_pointers c = ss_current_pointers candidate"
    and "ss_invalidated_refs c = ss_invalidated_refs candidate"
    and "ss_execution_reservations c = ss_execution_reservations candidate"
  using assms by (auto simp: seal_next_snapshot_def and_then_eq_Ok ok_or_eq_Ok Let_def)

lemma checked_add_1_nonzero: "checked_add (a :: 'w::len word) 1 = Some c \<Longrightarrow> c \<noteq> 0"
  using checked_add_1_unat [of a c] by auto

lemma sealed_follows:
  assumes "seal_next_snapshot X candidate s = Ok c" and "head_matches as s"
  shows "ss_sequence c \<noteq> 0" and "anchor_follows (latest_anchor as) (anchor_of c)"
proof -
  note c = seal_next_snapshot_Ok [OF assms(1)]
  show "ss_sequence c \<noteq> 0" using checked_add_1_nonzero [OF c(1)] .
  show "anchor_follows (latest_anchor as) (anchor_of c)"
  proof (cases "ss_sequence s = 0")
    case True
    with assms(2) c(1,2) checked_add_Some_eq [OF c(1)] show ?thesis
      by (auto simp: head_matches_def latest_anchor_def anchor_follows_def anchor_of_def)
  next
    case False
    with assms(2) c(1,2) show ?thesis
      by (auto simp: head_matches_def anchor_follows_def anchor_of_def word_neq_0_conv)
  qed
qed

text \<open>The snapshot file holds what serde wrote of \<open>s\<close>.\<close>

definition written :: "store_serde \<Rightarrow> store_disk \<Rightarrow> HumanCenteredStoreSnapshotV1 \<Rightarrow> bool" where
  "written D disk s \<longleftrightarrow> sk_snapshot disk = sd_snapshot_to_vec D s \<and> sk_snapshot disk \<noteq> None"

lemma persist_next_cases:
  assumes "serde_round_trips D" and "settled D X disk s" and "persist_next D X fault s candidate disk = (disk', r)"
  shows "disk' = disk \<and> r \<noteq> Ok () \<or>
    (\<exists>c. seal_next_snapshot X candidate s = Ok c \<and> validate_snapshot X c = Ok () \<and> written D disk' c \<and>
       (reads_back D c \<longrightarrow> loadable D X disk' c \<and> (r = Ok () \<longrightarrow> settled D X disk' c)))"
proof (cases "\<exists>c b. seal_next_snapshot X candidate s = Ok c \<and> validate_snapshot X c = Ok () \<and>
    sd_snapshot_to_vec D c = Some b \<and> fault \<noteq> Fails_Before_Rename")
  case False
  then show ?thesis
    using assms(3)
    by (cases "seal_next_snapshot X candidate s"; cases "validate_snapshot X (the_ok (seal_next_snapshot X candidate s))")
      (auto simp: persist_next_def persist_snapshot_def io_then_def io_lift_def
        split: result.splits persist_fault.splits option.splits)
next
  case True
  then obtain c b fault' where seal: "seal_next_snapshot X candidate s = Ok c" and valid: "validate_snapshot X c = Ok ()" and
    b: "sd_snapshot_to_vec D c = Some b" and fault: "fault = Renamed fault'"
    by (cases fault) auto
  let ?d = "disk\<lparr>sk_snapshot := Some b\<rparr>"
  have nonempty: "b \<noteq> []" using assms(1) b by (auto simp: serde_round_trips_def)
  from assms(2) obtain as where anch: "anchored D disk as []" and head: "head_matches as s"
    by (auto simp: settled_def)
  note follows = sealed_follows [OF seal head]
  from anch have anch': "anchored D ?d as []" by (simp add: anchored_def anchor_content_def)
  have app: "append_anchor D fault' c ?d = (disk', r)"
    using assms(3) seal valid b fault by (simp add: persist_next_def persist_snapshot_def)
  from append_anchor_cases [OF assms(1) anch' validated_anchor [OF valid follows(1)] follows(2) app]
  have snap: "sk_snapshot disk' = sk_snapshot ?d" and cs:
    "r = Ok () \<and> anchored D disk' (as @ [anchor_of c]) [] \<or>
     r = Err SE_Io \<and> (anchored D disk' (as @ [anchor_of c]) [] \<or> (\<exists>tail. anchored D disk' as tail))"
    by auto
  have w: "written D disk' c" using snap b by (simp add: written_def)
  have "loadable D X disk' c \<and> (r = Ok () \<longrightarrow> settled D X disk' c)" if "reads_back D c"
  proof -
    from that b nonempty have "read_snapshot D ?d = (?d, Ok c)" by (simp add: read_snapshot_def reads_back_def)
    note read' = read_snapshot_cong [OF snap this]
    have full: "settled D X disk' c" if "anchored D disk' (as @ [anchor_of c]) []"
      using that anchor_of_matches [OF that follows(1)] read' valid by (auto simp: settled_def)
    have part: "loadable D X disk' c" if "anchored D disk' as tail'" for tail'
      using that follows read' valid by (auto simp: loadable_def head_precedes_def)
    from cs full part show ?thesis by (auto simp: settled_loadable)
  qed
  with w seal valid show ?thesis by blast
qed

section \<open>Rollback\<close>

lemma anchored_unique:
  assumes "anchored D disk as tail" and "anchored D disk as' tail'"
  shows "as = as'"
proof -
  from assms obtain c c' where "anchor_content disk = c @ tail" "anchor_content disk = c' @ tail'"
    "c = [] \<or> last c = newline" "c' = [] \<or> last c' = newline" "newline \<notin> set tail" "newline \<notin> set tail'"
    "collect_results (parse_anchor_line D) (anchor_lines c) = Ok as"
    "collect_results (parse_anchor_line D) (anchor_lines c') = Ok as'"
    by (auto simp: anchored_def)
  then show ?thesis
    using committed_len_append [of c tail] committed_len_append [of c' tail'] by (metis append_eq_append_conv result.inject(2))
qed

lemma anchored_cong: "sk_anchor disk' = sk_anchor disk \<Longrightarrow> anchored D disk' as tail = anchored D disk as tail"
  by (simp add: anchored_def anchor_content_def)

text \<open>\<open>c\<close> is the snapshot \<open>s\<close>, up to the digest, or the one sealed directly after it.\<close>

definition same_or_next :: "HumanCenteredStoreSnapshotV1 \<Rightarrow> HumanCenteredStoreSnapshotV1 \<Rightarrow> bool" where
  "same_or_next s c \<longleftrightarrow>
     ss_sequence s = 0 \<and> ss_sequence c = 0 \<or>
     anchor_of c = anchor_of s \<or>
     checked_add (ss_sequence s) 1 = Some (ss_sequence c) \<and>
       ss_previous_snapshot_digest c = (if ss_sequence s > 0 then Some (ss_snapshot_digest s) else None)"

lemma log_pins_snapshot:
  assumes "serde_round_trips D" and "settled D X disk s" and "sk_anchor other = sk_anchor disk"
    and "load_snapshot D X fault other = (other', Ok c)"
  shows "same_or_next s c"
proof -
  from assms(2) obtain as where as: "anchored D disk as []" "head_matches as s" by (auto simp: settled_def)
  from load_Ok_settled(2) [OF assms(1,4)] obtain as' tail where as': "anchored D other as' tail"
    "head_matches as' c \<or> head_precedes as' c" by (auto simp: loadable_def)
  have "as' = as" using anchored_unique as(1) as'(1) anchored_cong [OF assms(3)] by metis
  with as(2) as'(2) show ?thesis
    by (auto simp: same_or_next_def head_matches_def head_precedes_def latest_anchor_def anchor_follows_def
        anchor_of_def word_neq_0_conv checked_add_def split: if_splits)
qed

lemma other_snapshot_rejected:
  assumes "settled D X disk s" and "sk_anchor other = sk_anchor disk" and "read_snapshot D other = (other, Ok c)"
    and "validate_snapshot X c = Ok ()" and "\<not> same_or_next s c"
  shows "snd (load_snapshot D X fault other) = Err SE_RollbackDetected"
proof -
  from assms(1) obtain as where as: "anchored D disk as []" "head_matches as s" by (auto simp: settled_def)
  from as(1) have "anchored D other as []" by (simp add: anchored_cong [OF assms(2)])
  from read_anchor_records_anchored [OF this] obtain other' where
    r: "read_anchor_records D other = (other', Ok as)" by blast
  have "\<not> head_matches as c" "\<not> head_precedes as c"
    using assms(5) as(2)
    by (auto simp: same_or_next_def head_matches_def head_precedes_def latest_anchor_def anchor_follows_def
        anchor_of_def word_neq_0_conv checked_add_def split: if_splits)
  with r assms(3,4) anchored_chain [OF as(1)] show ?thesis
    by (simp add: load_snapshot_def validate_or_recover_anchor_eq io_then_def io_lift_def)
qed

lemma persist_next_done:
  assumes "serde_round_trips D" and "settled D X disk s" and "seal_next_snapshot X candidate s = Ok c"
    and "validate_snapshot X c = Ok ()" and "sd_snapshot_to_vec D c \<noteq> None" and "reads_back D c"
  shows "\<exists>disk'. persist_next D X (Renamed Append_Done) s candidate disk = (disk', Ok ()) \<and> settled D X disk' c"
proof -
  obtain disk' r where p: "persist_next D X (Renamed Append_Done) s candidate disk = (disk', r)" by force
  from assms(2) obtain as where as: "anchored D disk as []" "head_matches as s" by (auto simp: settled_def)
  from assms(5) obtain b where b: "sd_snapshot_to_vec D c = Some b" by auto
  let ?d = "disk\<lparr>sk_snapshot := Some b\<rparr>"
  have "anchored D ?d as []" using as(1) by (simp add: anchored_def anchor_content_def)
  moreover have "append_anchor D Append_Done c ?d = (disk', r)"
    using p assms(3,4) b by (simp add: persist_next_def persist_snapshot_def)
  ultimately have "r = Ok ()"
    using append_anchor_cases [OF assms(1) _ validated_anchor [OF assms(4)]] sealed_follows [OF assms(3) as(2)] by blast
  with persist_next_cases [OF assms(1,2) p] assms(3,6) p show ?thesis by auto
qed

section \<open>Disks that may not read back\<close>

text \<open>
  What a call leaves behind: a disk that loads \<open>s\<close>, or one whose snapshot file was written from \<open>s\<close> and does
  not give \<open>s\<close> back. No load accepts the second, whatever the anchors say, and none changes it.
\<close>

definition stands :: "store_serde \<Rightarrow> crates \<Rightarrow> store_disk \<Rightarrow> HumanCenteredStoreSnapshotV1 \<Rightarrow> bool" where
  "stands D X disk s \<longleftrightarrow> loadable D X disk s \<or>
     written D disk s \<and> validate_snapshot X s = Ok () \<and> ss_sequence s \<noteq> 0 \<and> \<not> reads_back D s"

definition refuses_loads :: "store_serde \<Rightarrow> crates \<Rightarrow> store_disk \<Rightarrow> bool" where
  "refuses_loads D X disk \<longleftrightarrow> (\<forall>fault. \<exists>e. load_snapshot D X fault disk = (disk, Err e))"

lemma settled_stands: "settled D X disk s \<Longrightarrow> stands D X disk s"
  by (simp add: stands_def settled_loadable)

lemma exact_stands_loadable:
  "serde_round_trips D \<Longrightarrow> snapshot_exact s \<Longrightarrow> stands D X disk s \<Longrightarrow> loadable D X disk s"
  using exact_reads_back by (auto simp: stands_def)

lemma validated_digest:
  "validate_snapshot X s = Ok () \<Longrightarrow> ss_sequence s \<noteq> 0 \<Longrightarrow> compute_snapshot_digest X s = Ok (ss_snapshot_digest s)"
  by (auto simp: validate_snapshot_def validate_snapshot_header_def and_then_eq_Ok split: if_splits)

theorem changed_snapshot_refused:
  assumes "serde_round_trips D" and "digest_detects_change D X" and "stands D X disk s" and "\<not> loadable D X disk s"
  shows "refuses_loads D X disk"
proof -
  from assms(3,4) obtain b where b: "sk_snapshot disk = Some b" "sd_snapshot_to_vec D s = Some b"
    and s: "validate_snapshot X s = Ok ()" "ss_sequence s \<noteq> 0" and lossy: "sd_snapshot_from_slice D b \<noteq> Some s"
    by (auto simp: stands_def written_def reads_back_def)
  from assms(1) b(2) have nonempty: "b \<noteq> []" by (auto simp: serde_round_trips_def)
  show ?thesis
  proof (cases "sd_snapshot_from_slice D b")
    case None
    with b(1) nonempty show ?thesis
      by (auto simp: refuses_loads_def load_snapshot_def read_snapshot_def io_then_def)
  next
    case (Some c)
    from assms(1) b(2) Some have head: "anchor_of c = anchor_of s" unfolding serde_round_trips_def by blast
    have "validate_snapshot X c \<noteq> Ok ()"
    proof
      assume "validate_snapshot X c = Ok ()"
      with validated_digest [of X c] validated_digest [OF s] head s(2)
      have "compute_snapshot_digest X s = Ok (ss_snapshot_digest s)" "compute_snapshot_digest X c = Ok (ss_snapshot_digest s)"
        by (simp_all add: anchor_of_def)
      with assms(2) b(2) Some lossy show False unfolding digest_detects_change_def by blast
    qed
    then obtain e where "validate_snapshot X c = Err e" by (cases "validate_snapshot X c") auto
    with b(1) nonempty Some show ?thesis
      by (auto simp: refuses_loads_def load_snapshot_def read_snapshot_def io_then_def io_lift_def)
  qed
qed

end
