(* ===== verification/IDR_Store_Closure.thy ===== *)
theory IDR_Store_Closure
  imports IDR_Store_Validate IDR_Turn_Plan
begin

text \<open>
  What the propagation of invalidation computes: exactly the current records that depend, directly or
  through other current records, on the superseded reference.
\<close>

section \<open>The dependency relation\<close>

definition stale_edges ::
  "crates \<Rightarrow> HumanCenteredContractSnapshotV1 list \<Rightarrow> HumanCenteredContractRefV1 list \<Rightarrow>
   HumanCenteredContractRefV1 list \<Rightarrow> (HumanCenteredContractRefV1 \<times> HumanCenteredContractRefV1) set" where
  "stale_edges X records pointers invalidated =
     {(p, q). p \<in> set pointers \<and> p \<notin> set invalidated \<and> \<not> same_object p q \<and>
        (\<exists>record. find_record X records p = Some record \<and> q \<in> set (snapshot_dependencies record))}"

lemma scan_pointers_Ok:
  assumes "scan_pointers X records stale ps invalidated queue = Ok (invalidated', queue')"
  shows "\<exists>added. invalidated' = invalidated @ added \<and> queue' = queue @ added \<and>
    set added = {p. (p, stale) \<in> stale_edges X records ps invalidated}"
  using assms
proof (induction X records stale ps invalidated queue rule: scan_pointers.induct)
  case (2 X records stale p ps invalidated queue)
  show ?case
  proof (cases "same_object p stale \<or> p \<in> set invalidated")
    case True
    with 2 show ?thesis by (auto simp: stale_edges_def)
  next
    case False
    with "2.prems" obtain rc where r: "find_record X records p = Some rc"
      by (auto split: option.splits)
    show ?thesis
    proof (cases "stale \<in> set (snapshot_dependencies rc)")
      case True
      from 2 False r True obtain added where added:
        "invalidated' = (invalidated @ [p]) @ added" "queue' = (queue @ [p]) @ added"
        "set added = {p'. (p', stale) \<in> stale_edges X records ps (invalidated @ [p])}"
        by auto
      show ?thesis
        using added False r True by (intro exI [of _ "p # added"]) (auto simp: stale_edges_def)
    next
      case no_edge: False
      with 2 False r obtain added where added:
        "invalidated' = invalidated @ added" "queue' = queue @ added"
        "set added = {p'. (p', stale) \<in> stale_edges X records ps invalidated}"
        by auto
      with no_edge r show ?thesis by (intro exI [of _ added]) (auto simp: stale_edges_def)
    qed
  qed
qed (auto simp: stale_edges_def)

lemma invalidate_loop_closure:
  assumes "invalidate_loop X records pointers visited queue invalidated = Ok invalidated'"
    and "E = stale_edges X records pointers start"
    and "set start \<subseteq> set invalidated"
    and "insert stale (set invalidated - set start) \<subseteq> visited \<union> set queue"
    and "visited \<union> set queue \<subseteq> insert stale (set invalidated - set start)"
    and "\<forall>q \<in> visited. \<forall>p. (p, q) \<in> E \<longrightarrow> p \<in> set invalidated"
    and "\<forall>p \<in> set invalidated - set start. (p, stale) \<in> E\<^sup>+"
  shows "set invalidated' = set start \<union> {p. (p, stale) \<in> E\<^sup>+}"
  using assms
proof (induction X records pointers visited queue invalidated rule: invalidate_loop.induct)
  case (1 X records pointers visited invalidated)
  have "p \<in> set invalidated" if "(p, stale) \<in> E\<^sup>+" for p
    using that
  proof (induction rule: converse_trancl_induct)
    case (base y)
    with 1 show ?case by auto
  next
    case (step y z)
    from step(2) have "\<exists>w. (z, w) \<in> E" by (meson tranclD)
    then have "z \<notin> set start" using "1.prems"(2) by (auto simp: stale_edges_def)
    with step "1.prems" show ?case by auto
  qed
  with 1 show ?case by auto
next
  case (2 X records pointers visited q queue invalidated)
  show ?case
  proof (cases "q \<in> visited")
    case True
    have ih: "set invalidated' = set start \<union> {p. (p, stale) \<in> E\<^sup>+}"
      by (rule "2.IH"(1)) (use True "2.prems" in auto)
    then show ?thesis .
  next
    case False
    with "2.prems"(1) obtain inv2 queue2 where
      scan: "scan_pointers X records q pointers invalidated queue = Ok (inv2, queue2)" and
      rest: "invalidate_loop X records pointers (insert q visited) queue2 inv2 = Ok invalidated'"
      by (auto simp: and_then_eq_Ok)
    from scan_pointers_Ok [OF scan] obtain added where added:
      "inv2 = invalidated @ added" "queue2 = queue @ added"
      "set added = {p. (p, q) \<in> stale_edges X records pointers invalidated}"
      by auto
    have known: "q = stale \<or> (q, stale) \<in> E\<^sup>+" using "2.prems" by auto
    have new: "(p, q) \<in> E \<and> p \<notin> set invalidated" if "p \<in> set added" for p
      using that added(3) "2.prems"(2,3) by (auto simp: stale_edges_def)
    have all: "p \<in> set invalidated \<union> set added" if "(p, q) \<in> E" for p
      using that added(3) "2.prems"(2) by (auto simp: stale_edges_def)
    have chain: "(p, stale) \<in> E\<^sup>+" if "p \<in> set added" for p
      using new [OF that] known by auto
    show ?thesis
    proof (rule "2.IH"(2) [OF False scan])
      show "invalidate_loop X records pointers (insert q visited) (snd (inv2, queue2)) (fst (inv2, queue2))
          = Ok invalidated'"
        using rest by simp
      show "\<forall>q' \<in> insert q visited. \<forall>p. (p, q') \<in> E \<longrightarrow> p \<in> set (fst (inv2, queue2))"
        using all added(1) "2.prems"(6) by auto
      show "\<forall>p \<in> set (fst (inv2, queue2)) - set start. (p, stale) \<in> E\<^sup>+"
        using chain added(1) "2.prems"(7) by auto
      show "insert stale (set (fst (inv2, queue2)) - set start) \<subseteq> insert q visited \<union> set (snd (inv2, queue2))"
        using added "2.prems"(4) by auto
      show "insert q visited \<union> set (snd (inv2, queue2)) \<subseteq> insert stale (set (fst (inv2, queue2)) - set start)"
        using added(1,2) new "2.prems"(3,5) by fastforce
    qed (use "2.prems" added in auto)
  qed
qed

text \<open>The parts of a snapshot that invalidation leaves alone.\<close>

lemma invalidate_execution_reservation_simps [simp]:
  "ss_records (invalidate_execution_reservation s stale) = ss_records s"
  "ss_current_pointers (invalidate_execution_reservation s stale) = ss_current_pointers s"
  "ss_invalidated_refs (invalidate_execution_reservation s stale) = ss_invalidated_refs s"
  by (simp_all add: invalidate_execution_reservation_def)

lemma reconcile_simps [simp]:
  "ss_records (reconcile_invalidated_execution_reservations s) = ss_records s"
  "ss_current_pointers (reconcile_invalidated_execution_reservations s) = ss_current_pointers s"
  "ss_invalidated_refs (reconcile_invalidated_execution_reservations s) = ss_invalidated_refs s"
  by (simp_all add: reconcile_invalidated_execution_reservations_def)

lemma invalidate_dependents_Ok:
  assumes "invalidate_dependents X s stale = Ok s'"
  shows "ss_records s' = ss_records s" and "ss_current_pointers s' = ss_current_pointers s"
    and "set (ss_invalidated_refs s') = set (ss_invalidated_refs s) \<union>
      {p. (p, stale) \<in> (stale_edges X (ss_records s) (ss_current_pointers s) (ss_invalidated_refs s))\<^sup>+}"
proof -
  from assms obtain inv where
    loop: "invalidate_loop X (ss_records s) (ss_current_pointers s) {} [stale] (ss_invalidated_refs s) = Ok inv" and
    s': "s' = reconcile_invalidated_execution_reservations
      ((invalidate_execution_reservation s stale)\<lparr>ss_invalidated_refs := sort_dedup inv\<rparr>)"
    by (auto simp: invalidate_dependents_def Let_def and_then_eq_Ok)
  show "ss_records s' = ss_records s" "ss_current_pointers s' = ss_current_pointers s"
    by (simp_all add: s')
  show "set (ss_invalidated_refs s') = set (ss_invalidated_refs s) \<union>
      {p. (p, stale) \<in> (stale_edges X (ss_records s) (ss_current_pointers s) (ss_invalidated_refs s))\<^sup>+}"
    using invalidate_loop_closure [OF loop refl, of "ss_invalidated_refs s" stale] by (auto simp: s')
qed

end
