(* ===== verification/IDR_Store_Safety.thy ===== *)
theory IDR_Store_Safety
  imports IDR_Store_Disk IDR_Store_Closure "HOL-Library.Sublist"
begin

text \<open>
  What the operations of the store keep, whatever faults interrupt them: the history only grows, attempts
  keep their identity and their receipts, and a proof, nonce or authorization is consumed once.
\<close>

section \<open>Growth\<close>

text \<open>What never changes in an attempt.\<close>

definition attempt_core :: "ExecutionAttemptRecordV1 \<Rightarrow> ExecutionAttemptRecordV1" where
  "attempt_core a = a\<lparr>at_status := ER_PermitIssued, at_delivered_at := None, at_dispatched_at := None,
     at_receipt_ref := None, at_receipt_proof_envelope := None, at_receipt_verified_at := None\<rparr>"

text \<open>Delivery and dispatch times are written once, and an attempt with a receipt is final.\<close>

definition attempt_follows :: "ExecutionAttemptRecordV1 \<Rightarrow> ExecutionAttemptRecordV1 \<Rightarrow> bool" where
  "attempt_follows a a' \<longleftrightarrow>
     attempt_core a' = attempt_core a \<and>
     (at_delivered_at a \<noteq> None \<longrightarrow> at_delivered_at a' = at_delivered_at a) \<and>
     (at_dispatched_at a \<noteq> None \<longrightarrow> at_dispatched_at a' = at_dispatched_at a) \<and>
     (at_receipt_ref a \<noteq> None \<longrightarrow> a' = a)"

definition reservation_follows :: "ExecutionReservationRecordV1 \<Rightarrow> ExecutionReservationRecordV1 \<Rightarrow> bool" where
  "reservation_follows r r' \<longleftrightarrow>
     r'\<lparr>es_attempts := []\<rparr> = r\<lparr>es_attempts := []\<rparr> \<and>
     (\<exists>old new. es_attempts r' = old @ new \<and> list_all2 attempt_follows (es_attempts r) old)"

definition reservations_follow ::
  "ExecutionReservationRecordV1 list \<Rightarrow> ExecutionReservationRecordV1 list \<Rightarrow> bool" where
  "reservations_follow rs rs' \<longleftrightarrow> (\<exists>old new. rs' = old @ new \<and> list_all2 reservation_follows rs old)"

definition extends :: "HumanCenteredStoreSnapshotV1 \<Rightarrow> HumanCenteredStoreSnapshotV1 \<Rightarrow> bool" where
  "extends s s' \<longleftrightarrow>
     ss_sequence s \<le> ss_sequence s' \<and> prefix (ss_records s) (ss_records s') \<and>
     reservations_follow (ss_execution_reservations s) (ss_execution_reservations s')"

lemma attempt_follows_refl [simp, intro]: "attempt_follows a a"
  by (simp add: attempt_follows_def)

lemma attempt_follows_trans: "attempt_follows a b \<Longrightarrow> attempt_follows b c \<Longrightarrow> attempt_follows a c"
  by (auto simp: attempt_follows_def)

text \<open>Growth at the end of a list, for a relation between the elements.\<close>

lemma growth_trans:
  assumes "\<And>x y z. R x y \<Longrightarrow> R y z \<Longrightarrow> R x z"
    and "\<exists>old new. ys = old @ new \<and> list_all2 R xs old" and "\<exists>old new. zs = old @ new \<and> list_all2 R ys old"
  shows "\<exists>old new. zs = old @ new \<and> list_all2 R xs old"
proof -
  from assms(2,3) obtain o1 n1 o2 n2 where ys: "ys = o1 @ n1" "list_all2 R xs o1" and
    zs: "zs = o2 @ n2" "list_all2 R ys o2" by blast
  from zs(2) ys(1) obtain p q where "o2 = p @ q" "list_all2 R o1 p" by (auto simp: list_all2_append1)
  moreover from this ys(2) have "list_all2 R xs p" by (auto intro: list_all2_trans [OF assms(1)])
  ultimately show ?thesis using zs(1) by auto
qed

lemma reservation_follows_refl [simp, intro]: "reservation_follows r r"
  unfolding reservation_follows_def
  by (metis append_Nil2 attempt_follows_refl list_all2_refl)

lemma reservation_follows_trans:
  "reservation_follows a b \<Longrightarrow> reservation_follows b c \<Longrightarrow> reservation_follows a c"
  unfolding reservation_follows_def
  using growth_trans [of attempt_follows "es_attempts b" "es_attempts a" "es_attempts c"] attempt_follows_trans
  by metis

lemma reservations_follow_map:
  "(\<And>r. r \<in> set rs \<Longrightarrow> reservation_follows r (f r)) \<Longrightarrow> reservations_follow rs (map f rs)"
  unfolding reservations_follow_def
  by (rule exI [of _ "map f rs"], rule exI [of _ "[]"]) (simp add: list_all2_conv_all_nth)

lemma reservations_follow_refl [simp, intro]: "reservations_follow rs rs"
  using reservations_follow_map [of rs id] by simp

lemma reservations_follow_trans:
  "reservations_follow a b \<Longrightarrow> reservations_follow b c \<Longrightarrow> reservations_follow a c"
  unfolding reservations_follow_def
  using growth_trans [of reservation_follows b a c] reservation_follows_trans by metis

lemma reservations_follow_snoc: "reservations_follow rs (rs @ [r])"
  unfolding reservations_follow_def
  by (metis list_all2_refl reservation_follows_refl)

lemma reservations_follow_update_first:
  "find p rs = Some r \<Longrightarrow> reservation_follows r (f r) \<Longrightarrow> reservations_follow rs (update_first p f rs)"
proof -
  assume a: "find p rs = Some r" "reservation_follows r (f r)"
  then have "list_all2 reservation_follows rs (update_first p f rs)"
    by (induction rs) (auto intro: list_all2_refl split: if_splits)
  then show ?thesis by (auto simp: reservations_follow_def)
qed

lemma extends_refl [simp, intro]: "extends s s"
  by (simp add: extends_def)

lemma extends_trans: "extends a b \<Longrightarrow> extends b c \<Longrightarrow> extends a c"
  by (auto simp: extends_def intro: reservations_follow_trans prefix_order.trans)

text \<open>The attempts of a snapshot, each with the attempt it grows into.\<close>

lemma extends_attempt:
  assumes "extends s s'" and "a \<in> set (all_attempts s)"
  shows "\<exists>a' \<in> set (all_attempts s'). attempt_follows a a'"
proof -
  from assms obtain r where r: "r \<in> set (ss_execution_reservations s)" "a \<in> set (es_attempts r)"
    by (auto simp: all_attempts_def)
  from assms(1) obtain old new where res: "ss_execution_reservations s' = old @ new"
    "list_all2 reservation_follows (ss_execution_reservations s) old"
    by (auto simp: extends_def reservations_follow_def)
  from res(2) r(1) obtain r' where r': "r' \<in> set old" "reservation_follows r r'"
    by (metis in_set_conv_nth list_all2_lengthD list_all2_nthD)
  from r'(2) obtain p q where "es_attempts r' = p @ q" "list_all2 attempt_follows (es_attempts r) p"
    by (auto simp: reservation_follows_def)
  moreover from this r(2) obtain a' where "a' \<in> set p" "attempt_follows a a'"
    by (metis in_set_conv_nth list_all2_lengthD list_all2_nthD)
  ultimately have "a' \<in> set (es_attempts r')" "attempt_follows a a'" by simp_all
  with r'(1) res(1) show ?thesis by (auto simp: all_attempts_def)
qed

section \<open>Validated attempts\<close>

lemma validate_attempts_valid:
  "validate_attempts X records action r index attempts seen = Ok seen' \<Longrightarrow> a \<in> set attempts \<Longrightarrow>
     attempt_timing_valid a"
  by (induction X records action r index attempts seen arbitrary: seen' rule: validate_attempts.induct)
    (auto simp: and_then_eq_Ok split: if_splits)

lemma validate_reservations_valid:
  "validate_reservations X records rs seen = Ok seen' \<Longrightarrow> r \<in> set rs \<Longrightarrow> a \<in> set (es_attempts r) \<Longrightarrow>
     attempt_timing_valid a"
  by (induction X records rs seen arbitrary: seen' rule: validate_reservations.induct)
    (auto simp: and_then_eq_Ok dest: validate_attempts_valid
      split: if_splits option.splits HumanCenteredContractSnapshotV1.splits)

lemma validated_attempt:
  "validate_snapshot X s = Ok () \<Longrightarrow> a \<in> set (all_attempts s) \<Longrightarrow> attempt_timing_valid a"
  by (auto simp: validate_snapshot_def and_then_eq_Ok all_attempts_def dest: validate_reservations_valid
      split: if_splits)

text \<open>A receipt is on a closed attempt; invalidation keeps this.\<close>

definition receipt_closed :: "ExecutionAttemptRecordV1 \<Rightarrow> bool" where
  "receipt_closed a \<longleftrightarrow> (at_receipt_ref a \<noteq> None \<longrightarrow>
     at_status a \<notin> {ER_PermitIssued, ER_Delivered, ER_Dispatched, ER_ReconciliationRequired})"

lemma timing_valid_receipt_closed: "attempt_timing_valid a \<Longrightarrow> receipt_closed a"
  by (cases "at_status a") (auto simp: attempt_timing_valid_def attempt_status_valid_def receipt_closed_def)

lemma withdrawn_attempt:
  assumes "receipt_closed a"
  shows "attempt_follows a (a\<lparr>at_status := withdrawn_status (at_status a)\<rparr>)"
    and "receipt_closed (a\<lparr>at_status := withdrawn_status (at_status a)\<rparr>)"
  using assms by (cases "at_status a"; auto simp: attempt_follows_def attempt_core_def receipt_closed_def)+

lemma update_last_follows:
  "(xs \<noteq> [] \<Longrightarrow> attempt_follows (last xs) (f (last xs))) \<Longrightarrow> list_all2 attempt_follows xs (update_last f xs)"
  by (cases xs rule: rev_cases) (auto simp: update_last_def list_all2_append intro: list_all2_refl)

lemma set_update_last: "y \<in> set (update_last f xs) \<Longrightarrow> y \<in> set xs \<or> (xs \<noteq> [] \<and> y = f (last xs))"
  by (auto simp: update_last_def dest: in_set_butlastD split: if_splits)

lemma withdraw_last_attempt_follows:
  assumes "\<forall>a \<in> set (es_attempts r). receipt_closed a"
  shows "reservation_follows r (withdraw_last_attempt r)"
    and "\<forall>a \<in> set (es_attempts (withdraw_last_attempt r)). receipt_closed a"
proof -
  have "list_all2 attempt_follows (es_attempts r)
      (update_last (\<lambda>a. a\<lparr>at_status := withdrawn_status (at_status a)\<rparr>) (es_attempts r))"
    using assms by (intro update_last_follows withdrawn_attempt) auto
  then show "reservation_follows r (withdraw_last_attempt r)"
    by (auto simp: reservation_follows_def withdraw_last_attempt_def)
  show "\<forall>a \<in> set (es_attempts (withdraw_last_attempt r)). receipt_closed a"
    using assms withdrawn_attempt(2) by (auto simp: withdraw_last_attempt_def dest!: set_update_last)
qed

section \<open>Candidates grow\<close>

definition attempts_closed :: "ExecutionReservationRecordV1 list \<Rightarrow> bool" where
  "attempts_closed rs \<longleftrightarrow> (\<forall>r \<in> set rs. \<forall>a \<in> set (es_attempts r). receipt_closed a)"

lemma validated_attempts_closed:
  "validate_snapshot X s = Ok () \<Longrightarrow> attempts_closed (ss_execution_reservations s)"
  by (auto simp: attempts_closed_def all_attempts_def intro!: timing_valid_receipt_closed validated_attempt)

lemma withdraw_some_follows:
  assumes "attempts_closed rs"
  shows "reservations_follow rs (map (\<lambda>r. if P r then r else withdraw_last_attempt r) rs)"
    and "attempts_closed (map (\<lambda>r. if P r then r else withdraw_last_attempt r) rs)"
  using assms withdraw_last_attempt_follows
  by (auto simp: attempts_closed_def intro!: reservations_follow_map)

lemma invalidate_dependents_follows:
  assumes "invalidate_dependents X s stale = Ok s'" and "attempts_closed (ss_execution_reservations s)"
  shows "reservations_follow (ss_execution_reservations s) (ss_execution_reservations s')"
    and "attempts_closed (ss_execution_reservations s')"
proof -
  let ?s1 = "invalidate_execution_reservation s stale"
  have one: "reservations_follow (ss_execution_reservations s) (ss_execution_reservations ?s1)"
    "attempts_closed (ss_execution_reservations ?s1)"
    using withdraw_some_follows [OF assms(2), of "\<lambda>r. es_action_ref r \<noteq> stale"] assms(2)
    by (auto simp: invalidate_execution_reservation_def)
  from assms(1) obtain inv where s': "s' = reconcile_invalidated_execution_reservations (?s1\<lparr>ss_invalidated_refs := sort_dedup inv\<rparr>)"
    by (auto simp: invalidate_dependents_def Let_def and_then_eq_Ok)
  from withdraw_some_follows [OF one(2)] one(1) show
    "reservations_follow (ss_execution_reservations s) (ss_execution_reservations s')"
    "attempts_closed (ss_execution_reservations s')"
    by (auto simp: s' reconcile_invalidated_execution_reservations_def intro: reservations_follow_trans)
qed

lemma find_mem: "find p xs = Some x \<Longrightarrow> p x \<and> x \<in> set xs"
  by (induction xs) (auto split: if_splits)

lemma update_first_follows:
  "find p xs = Some x \<Longrightarrow> attempt_follows x (f x) \<Longrightarrow> list_all2 attempt_follows xs (update_first p f xs)"
  by (induction xs) (auto intro: list_all2_refl split: if_splits)

lemma receipt_transition_Ok:
  assumes "apply_execution_receipt_transition s receipt reference envelope t = Ok s'"
  shows "ss_records s' = ss_records s" and "ss_current_pointers s' = ss_current_pointers s"
    and "ss_invalidated_refs s' = ss_invalidated_refs s"
  using assms by (auto simp: apply_execution_receipt_transition_def Let_def and_then_eq_Ok split: if_splits)

lemma receipt_transition_follows:
  assumes "apply_execution_receipt_transition s receipt reference envelope t = Ok s'"
    and "attempts_closed (ss_execution_reservations s)"
  shows "reservations_follow (ss_execution_reservations s) (ss_execution_reservations s')"
proof -
  let ?p = "\<lambda>r. es_action_ref r = xr_action_ref receipt" and ?q = "\<lambda>a. at_permit_id a = xr_permit_id receipt"
  let ?f = "\<lambda>a. a\<lparr>at_status := receipt_status (xr_state receipt), at_receipt_ref := Some reference,
      at_receipt_proof_envelope := Some envelope, at_receipt_verified_at := Some t\<rparr>"
  from assms(1) obtain r a where r: "find ?p (ss_execution_reservations s) = Some r" and
    a: "find ?q (es_attempts r) = Some a" "at_status a \<in> {ER_Dispatched, ER_ReconciliationRequired}" and
    s': "s' = s\<lparr>ss_execution_reservations := update_first ?p
      (\<lambda>r. r\<lparr>es_attempts := update_first ?q ?f (es_attempts r)\<rparr>) (ss_execution_reservations s)\<rparr>"
    by (auto simp: apply_execution_receipt_transition_def Let_def and_then_eq_Ok ok_or_eq_Ok split: if_splits)
  from find_mem [OF r] find_mem [OF a(1)] assms(2) have "receipt_closed a" by (auto simp: attempts_closed_def)
  with a(2) have "attempt_follows a (?f a)"
    by (auto simp: receipt_closed_def attempt_follows_def attempt_core_def)
  from update_first_follows [where f = ?f, OF a(1) this]
  have "reservation_follows r (r\<lparr>es_attempts := update_first ?q ?f (es_attempts r)\<rparr>)"
    unfolding reservation_follows_def by (auto intro: exI [of _ "[]"])
  from reservations_follow_update_first [OF r, where f = "\<lambda>r. r\<lparr>es_attempts := update_first ?q ?f (es_attempts r)\<rparr>", OF this]
  show "reservations_follow (ss_execution_reservations s) (ss_execution_reservations s')" by (simp add: s')
qed

lemma commit_candidate_Ok:
  assumes "commit_candidate X s contract reference proof = Ok c"
  obtains previous c1 where
    "lineage_predecessor s contract reference = Ok previous"
    "list_all (dependency_is_current X s) (snapshot_dependencies contract)"
    "(case previous of None \<Rightarrow> Ok s | Some p \<Rightarrow> invalidate_dependents X s p) = Ok c1"
    "ss_records c = ss_records c1 @ [contract]"
    "ss_current_pointers c = replace_pointer (ss_current_pointers c1) reference"
    "ss_invalidated_refs c = ss_invalidated_refs c1"
    "attempts_closed (ss_execution_reservations c1) \<Longrightarrow>
       reservations_follow (ss_execution_reservations c1) (ss_execution_reservations c)"
proof -
  from assms obtain previous c1 c2 where *:
    "lineage_predecessor s contract reference = Ok previous"
    "list_all (dependency_is_current X s) (snapshot_dependencies contract)"
    "(case previous of None \<Rightarrow> Ok s | Some p \<Rightarrow> invalidate_dependents X s p) = Ok c1"
    and c2: "(case receipt_record contract of
         None \<Rightarrow> Ok (c1\<lparr>ss_records := ss_records c1 @ [contract]\<rparr>)
       | Some receipt \<Rightarrow>
           and_then (ok_or proof SE_VerifiedReceiptProofRequired) (\<lambda>(proof_envelope, verified_at).
           apply_execution_receipt_transition (c1\<lparr>ss_records := ss_records c1 @ [contract]\<rparr>) receipt reference
             proof_envelope verified_at)) = Ok c2"
    and c: "c = c2\<lparr>ss_current_pointers := replace_pointer (ss_current_pointers c2) reference\<rparr>"
    by (auto simp: commit_candidate_def and_then_eq_Ok Let_def split: if_splits)
  have "ss_records c2 = ss_records c1 @ [contract] \<and> ss_current_pointers c2 = ss_current_pointers c1 \<and>
      ss_invalidated_refs c2 = ss_invalidated_refs c1 \<and>
      (attempts_closed (ss_execution_reservations c1) \<longrightarrow>
        reservations_follow (ss_execution_reservations c1) (ss_execution_reservations c2))"
  proof (cases "receipt_record contract")
    case None
    with c2 have "c2 = c1\<lparr>ss_records := ss_records c1 @ [contract]\<rparr>" by simp
    then show ?thesis by simp
  next
    case (Some receipt)
    with c2 obtain envelope t where
      "apply_execution_receipt_transition (c1\<lparr>ss_records := ss_records c1 @ [contract]\<rparr>) receipt reference envelope t
        = Ok c2"
      by (auto simp: and_then_eq_Ok)
    from receipt_transition_follows [OF this] receipt_transition_Ok [OF this] show ?thesis by simp
  qed
  with * c show ?thesis by (intro that [of previous c1]) auto
qed

lemma commit_candidate_records:
  assumes "commit_candidate X s contract reference proof = Ok c"
  shows "ss_records c = ss_records s @ [contract]"
proof -
  obtain previous c1 where "(case previous of None \<Rightarrow> Ok s | Some p \<Rightarrow> invalidate_dependents X s p) = Ok c1"
    "ss_records c = ss_records c1 @ [contract]"
    by (rule commit_candidate_Ok [OF assms])
  then show ?thesis by (auto split: option.splits dest: invalidate_dependents_Ok(1))
qed

lemma commit_candidate_grows:
  assumes "commit_candidate X s contract reference proof = Ok c" and "attempts_closed (ss_execution_reservations s)"
  shows "prefix (ss_records s) (ss_records c)"
    and "reservations_follow (ss_execution_reservations s) (ss_execution_reservations c)"
proof -
  obtain previous c1 where
    c1: "(case previous of None \<Rightarrow> Ok s | Some p \<Rightarrow> invalidate_dependents X s p) = Ok c1" and
    c: "ss_records c = ss_records c1 @ [contract]"
    "attempts_closed (ss_execution_reservations c1) \<longrightarrow>
       reservations_follow (ss_execution_reservations c1) (ss_execution_reservations c)"
    by (rule commit_candidate_Ok [OF assms(1)]) blast
  have "ss_records c1 = ss_records s \<and> attempts_closed (ss_execution_reservations c1) \<and>
      reservations_follow (ss_execution_reservations s) (ss_execution_reservations c1)"
    using c1 assms(2) by (auto split: option.splits dest: invalidate_dependents_Ok(1) invalidate_dependents_follows)
  with c show "prefix (ss_records s) (ss_records c)"
    "reservations_follow (ss_execution_reservations s) (ss_execution_reservations c)"
    by (auto intro: reservations_follow_trans)
qed

lemma reserve_attempt_grows:
  assumes "reserve_attempt fresh action_ref scope a rs = Ok (i, rs')"
  shows "reservations_follow rs rs'"
proof (cases "find (reservation_conflicts action_ref scope) rs")
  case None
  with assms show ?thesis
    by (auto simp: reserve_attempt_def split: if_splits intro: reservations_follow_snoc)
next
  case (Some r)
  have "reservation_follows r (r\<lparr>es_attempts := es_attempts r @ [a]\<rparr>)"
    by (auto simp: reservation_follows_def intro: list_all2_refl)
  with Some reservations_follow_update_first [OF Some, where f = "\<lambda>r. r\<lparr>es_attempts := es_attempts r @ [a]\<rparr>"]
  show ?thesis
    using assms by (auto simp: reserve_attempt_def Let_def and_then_eq_Ok split: if_splits)
qed

lemma issue_candidate_Ok:
  assumes "issue_candidate X fresh s v now = Ok (i, c)"
  shows "ss_records c = ss_records s"
    and "reservations_follow (ss_execution_reservations s) (ss_execution_reservations c)"
    and "\<forall>a \<in> set (all_attempts s). at_proof_id a \<noteq> hp_proof_id (hv_claims (vq_verified_proof v)) \<and>
      at_proof_nonce a \<noteq> hp_nonce (hv_claims (vq_verified_proof v)) \<and>
      az_authorization_id (at_authorization a) \<noteq> pq_authorization_id (vq_request v)"
  using assms
  by (auto simp: issue_candidate_def Let_def and_then_eq_Ok list_ex_iff dest: reserve_attempt_grows
      split: if_splits option.splits HumanCenteredContractSnapshotV1.splits)

lemma update_first_mem: "find p xs = Some x \<Longrightarrow> f x \<in> set (update_first p f xs)"
  by (induction xs) (auto split: if_splits)

lemma reserve_attempt_contains:
  assumes "reserve_attempt fresh action_ref scope a rs = Ok (i, rs')"
  shows "\<exists>r \<in> set rs'. a \<in> set (es_attempts r)"
proof (cases "find (reservation_conflicts action_ref scope) rs")
  case None
  with assms show ?thesis by (auto simp: reserve_attempt_def split: if_splits)
next
  case (Some r)
  with assms have rs': "rs' = update_first (reservation_conflicts action_ref scope)
      (\<lambda>r. r\<lparr>es_attempts := es_attempts r @ [a]\<rparr>) rs"
    by (auto simp: reserve_attempt_def Let_def and_then_eq_Ok split: if_splits)
  show ?thesis
    unfolding rs' by (rule bexI [OF _ update_first_mem [OF Some]]) simp
qed

lemma write_last_attempt_grows:
  assumes "find (\<lambda>r. es_reservation_id r = i) (ss_execution_reservations s) = Some r" and "es_attempts r \<noteq> []"
    and "attempt_follows (last (es_attempts r)) a"
  shows "reservations_follow (ss_execution_reservations s) (ss_execution_reservations (write_last_attempt i a s))"
    and "ss_records (write_last_attempt i a s) = ss_records s"
    and "a \<in> set (all_attempts (write_last_attempt i a s))"
proof -
  let ?f = "\<lambda>r. r\<lparr>es_attempts := update_last (\<lambda>_. a) (es_attempts r)\<rparr>"
  have "reservation_follows r (?f r)"
    using update_last_follows [of "es_attempts r" "\<lambda>_. a"] assms(2,3) unfolding reservation_follows_def
    by (auto intro: exI [of _ "[]"])
  from reservations_follow_update_first [OF assms(1), where f = ?f, OF this]
  show "reservations_follow (ss_execution_reservations s) (ss_execution_reservations (write_last_attempt i a s))"
    by (simp add: write_last_attempt_def)
  have "?f r \<in> set (update_first (\<lambda>r. es_reservation_id r = i) ?f (ss_execution_reservations s))"
    by (rule update_first_mem [OF assms(1)])
  moreover have "a \<in> set (es_attempts (?f r))" using assms(2) by (simp add: update_last_def)
  ultimately have "\<exists>x \<in> set (update_first (\<lambda>r. es_reservation_id r = i) ?f (ss_execution_reservations s)). a \<in> set (es_attempts x)"
    by blast
  then show "a \<in> set (all_attempts (write_last_attempt i a s))"
    by (simp add: all_attempts_def write_last_attempt_def)
qed (simp add: write_last_attempt_def)

section \<open>Operations keep the history\<close>

text \<open>
  \<open>c\<close> comes after \<open>s\<close>: it extends it, and its payloads are exact when those of \<open>s\<close> are and \<open>exact\<close> holds of what
  was added. From a settled disk an operation leaves a disk that stands for such a snapshot.
\<close>

definition follows :: "bool \<Rightarrow> HumanCenteredStoreSnapshotV1 \<Rightarrow> HumanCenteredStoreSnapshotV1 \<Rightarrow> bool" where
  "follows exact s c \<longleftrightarrow> extends s c \<and> (exact \<and> snapshot_exact s \<longrightarrow> snapshot_exact c)"

definition keeps ::
  "store_serde \<Rightarrow> crates \<Rightarrow> bool \<Rightarrow> HumanCenteredStoreSnapshotV1 \<Rightarrow> 'a store_io \<Rightarrow> bool" where
  "keeps D X exact s m \<longleftrightarrow>
     (\<forall>disk. settled D X disk s \<longrightarrow> (\<exists>c. follows exact s c \<and> stands D X (fst (m disk)) c))"

lemma follows_refl [simp, intro]: "follows exact s s"
  by (simp add: follows_def)

lemma keeps_lift [intro]: "keeps D X exact s (io_lift r)"
  by (auto simp: keeps_def io_lift_def intro!: exI [of _ s] settled_stands)

lemma keeps_lift_then [intro]:
  "(\<And>x. r = Ok x \<Longrightarrow> keeps D X exact s (f x)) \<Longrightarrow> keeps D X exact s (io_then (io_lift r) f)"
  by (cases r) auto

lemma fst_io_then_lift: "fst (io_then m (\<lambda>_. io_lift r) disk) = fst (m disk)"
  by (auto simp: io_then_def io_lift_def split: prod.splits result.splits)

lemma keeps_persist:
  assumes "serde_round_trips D"
    and "prefix (ss_records s) (ss_records candidate)"
    and "exact \<and> snapshot_exact s \<Longrightarrow> snapshot_exact candidate"
    and "\<And>c. validate_snapshot X c = Ok () \<Longrightarrow>
      ss_execution_reservations c = ss_execution_reservations candidate \<Longrightarrow>
      reservations_follow (ss_execution_reservations s) (ss_execution_reservations c)"
  shows "keeps D X exact s (io_then (persist_next D X fault s candidate) (\<lambda>_. io_lift r))"
  unfolding keeps_def fst_io_then_lift
proof (intro allI impI)
  fix disk
  assume st: "settled D X disk s"
  obtain disk' r' where p: "persist_next D X fault s candidate disk = (disk', r')" by force
  from persist_next_cases [OF assms(1) st p]
  show "\<exists>c. follows exact s c \<and> stands D X (fst (persist_next D X fault s candidate disk)) c"
  proof (elim disjE exE conjE)
    fix c
    assume seal: "seal_next_snapshot X candidate s = Ok c" and valid: "validate_snapshot X c = Ok ()"
      and w: "written D disk' c" "reads_back D c \<longrightarrow> loadable D X disk' c \<and> (r' = Ok () \<longrightarrow> settled D X disk' c)"
    have "extends s c"
      using assms(2) assms(4) [OF valid] seal_next_snapshot_Ok [OF seal] checked_add_1_less [of "ss_sequence s" "ss_sequence c"]
      by (simp add: extends_def)
    moreover have "exact \<and> snapshot_exact s \<longrightarrow> snapshot_exact c"
      using assms(3) seal_next_snapshot_Ok(3) [OF seal] by (simp add: snapshot_exact_def)
    moreover have "stands D X disk' c"
      using w valid checked_add_1_nonzero [OF seal_next_snapshot_Ok(1) [OF seal]] by (auto simp: stands_def)
    ultimately show ?thesis using p by (auto simp: follows_def)
  qed (use st p in \<open>auto intro!: exI [of _ s] settled_stands\<close>)
qed

lemma keeps_after_load:
  assumes "serde_round_trips D" and "loadable D X disk s" and "validate_snapshot X s = Ok () \<Longrightarrow> keeps D X exact s (K s)"
  shows "\<exists>c. follows exact s c \<and> stands D X (fst (io_then (load_snapshot D X fault) K disk)) c"
proof -
  obtain disk' r where load: "load_snapshot D X fault disk = (disk', r)" by force
  from assms(2) have valid: "validate_snapshot X s = Ok ()" by (simp add: loadable_def)
  from load_loadable [OF assms(1,2) load]
  have l: "loadable D X disk' s" and r: "r = Ok s \<and> settled D X disk' s \<or> r = Err SE_Io" by auto
  from l have "stands D X disk' s" by (simp add: stands_def)
  then have "r = Err e \<Longrightarrow> ?thesis" for e using load by (auto simp: io_then_def intro!: exI [of _ s])
  with r assms(3) [OF valid] load show ?thesis by (auto simp: io_then_def keeps_def)
qed

lemma transition_attempt_follows:
  assumes "transition_attempt current now e n a = Ok (Some a', failure)"
    and "(e, n) \<in> {(ER_PermitIssued, ER_Delivered), (ER_Delivered, ER_Dispatched)}"
    and "attempt_timing_valid a" and "attempt_timing_valid a'"
  shows "attempt_follows a a'"
proof -
  have "at_status a' \<in> {ER_Expired, ER_Cancelled, ER_ReconciliationRequired, ER_Delivered, ER_Dispatched}"
    using assms(1,2) by (auto simp: transition_attempt_def Let_def split: if_splits)
  with assms(4) have "at_receipt_ref a' = None"
    by (auto simp: attempt_timing_valid_def attempt_status_valid_def)
  moreover have "at_receipt_ref a' = at_receipt_ref a \<and> attempt_core a' = attempt_core a"
    using assms(1,2) by (auto simp: transition_attempt_def Let_def attempt_core_def split: if_splits)
  moreover have "(at_delivered_at a \<noteq> None \<longrightarrow> at_delivered_at a' = at_delivered_at a) \<and>
      (at_dispatched_at a \<noteq> None \<longrightarrow> at_dispatched_at a' = at_dispatched_at a)"
    using assms(1,2,3)
    by (auto simp: transition_attempt_def Let_def attempt_timing_valid_def attempt_status_valid_def split: if_splits)
  ultimately show ?thesis by (auto simp: attempt_follows_def)
qed

lemma all_attempts_mem:
  "r \<in> set (ss_execution_reservations s) \<Longrightarrow> a \<in> set (es_attempts r) \<Longrightarrow> a \<in> set (all_attempts s)"
  by (auto simp: all_attempts_def)

lemma find_last_attempt:
  assumes "find (\<lambda>r. es_reservation_id r = i) (ss_execution_reservations s) = Some r" and "es_attempts r \<noteq> []"
  shows "last (es_attempts r) \<in> set (all_attempts s)" and "es_reservation_id r = i"
  using find_mem [OF assms(1)] assms(2) by (auto intro: all_attempts_mem)

lemma keeps_write_last:
  assumes "serde_round_trips D" and "find (\<lambda>r. es_reservation_id r = i) (ss_execution_reservations s) = Some r"
    and "es_attempts r \<noteq> []" and "attempt_timing_valid a \<Longrightarrow> attempt_follows (last (es_attempts r)) a"
  shows "keeps D X exact s (io_then (persist_next D X fault s (write_last_attempt i a s)) (\<lambda>_. io_lift res))"
proof (rule keeps_persist [OF assms(1)])
  show "prefix (ss_records s) (ss_records (write_last_attempt i a s))" by (simp add: write_last_attempt_def)
  show "exact \<and> snapshot_exact s \<Longrightarrow> snapshot_exact (write_last_attempt i a s)"
    by (simp add: write_last_attempt_def snapshot_exact_def)
  fix c
  assume c: "validate_snapshot X c = Ok ()"
    "ss_execution_reservations c = ss_execution_reservations (write_last_attempt i a s)"
  let ?f = "\<lambda>r. r\<lparr>es_attempts := update_last (\<lambda>_. a) (es_attempts r)\<rparr>"
  have "?f r \<in> set (ss_execution_reservations c)"
    using update_first_mem [OF assms(2), of ?f] by (simp add: c(2) write_last_attempt_def)
  moreover have "a \<in> set (es_attempts (?f r))" using assms(3) by (simp add: update_last_def)
  ultimately have "a \<in> set (all_attempts c)" by (rule all_attempts_mem)
  from write_last_attempt_grows(1) [OF assms(2,3) assms(4) [OF validated_attempt [OF c(1) this]]]
  show "reservations_follow (ss_execution_reservations s) (ss_execution_reservations c)" by (simp add: c(2))
qed

lemma commit_internal_keeps:
  assumes "serde_round_trips D" and "loadable D X disk s"
  shows "\<exists>c. follows (contract_exact contract) s c \<and>
    stands D X (fst (commit_internal D X clock on_load on_write contract proof disk)) c"
proof -
  have k: "keeps D X (contract_exact contract) s (io_then (persist_next D X on_write s candidate) (\<lambda>_. io_lift r))"
    if "commit_candidate X s contract reference proof = Ok candidate" and "validate_snapshot X s = Ok ()"
    for candidate reference and r :: "(HumanCenteredStoreErrorV1, HumanCenteredCommitOutcomeV1) result"
    using commit_candidate_grows [OF that(1) validated_attempts_closed [OF that(2)]]
      commit_candidate_records [OF that(1)]
    by (intro keeps_persist [OF assms(1)]) (auto simp: snapshot_exact_def)
  have stop: "\<exists>c. follows (contract_exact contract) s c \<and> stands D X (fst (io_lift r disk)) c"
    for r :: "(HumanCenteredStoreErrorV1, HumanCenteredCommitOutcomeV1) result"
    using assms(2) by (auto simp: io_lift_def stands_def)
  show ?thesis
    unfolding commit_internal_def
    apply (cases "(receipt_record contract \<noteq> None) \<noteq> (proof \<noteq> None)")
     apply (simp add: stop)
    apply (cases "protocol (snapshot_contract_validate X contract)")
     apply (simp add: stop)
    apply (cases "protocol (snapshot_record_ref X contract)")
     apply (simp add: stop)
    apply simp
    apply (rule keeps_after_load [OF assms])
    apply (auto intro!: k)
    done
qed

lemma issue_keeps:
  assumes "serde_round_trips D" and "loadable D X disk s"
  shows "\<exists>c. follows True s c \<and> stands D X (fst (issue_execution_permit D X clock on_load on_write fresh v disk)) c"
  unfolding issue_execution_permit_def
proof (rule keeps_after_load [OF assms])
  show "keeps D X True s (io_then (io_lift (ok_or clock SE_TrustedClockUnavailable)) (\<lambda>trusted_now.
      io_then (io_lift (issue_candidate X fresh s v trusted_now)) (\<lambda>(reservation_id, candidate).
      io_then (persist_next D X on_write s candidate) (\<lambda>_.
      io_lift (Ok \<lparr>ep_reservation_id = reservation_id, ep_permit_id = hp_proof_id (hv_claims (vq_verified_proof v)),
        ep_proof_key_id = he_key_id (hv_envelope (vq_verified_proof v)),
        ep_proof_verified_at = hv_verified_at (vq_verified_proof v), ep_issued_at = trusted_now,
        ep_request = vq_request v\<rparr>)))))"
    by (intro keeps_lift_then) (auto simp: snapshot_exact_def dest: issue_candidate_Ok intro!: keeps_persist [OF assms(1)])
qed

lemma transition_keeps:
  assumes "serde_round_trips D" and "loadable D X disk s"
    and "(e, n) \<in> {(ER_PermitIssued, ER_Delivered), (ER_Delivered, ER_Dispatched)}"
  shows "\<exists>c. follows True s c \<and> stands D X (fst (transition_execution_permit D X clock on_load on_write permit e n disk)) c"
  unfolding transition_execution_permit_def
proof (rule keeps_after_load [OF assms(1,2)], rule keeps_lift_then, rule keeps_lift_then, goal_cases)
  case (1 now r)
  from 1(3) have f: "find (\<lambda>x. es_reservation_id x = ep_reservation_id permit) (ss_execution_reservations s) = Some r"
    by (simp add: ok_or_eq_Ok)
  with find_mem [OF f] have find: "find (\<lambda>x. es_reservation_id x = es_reservation_id r) (ss_execution_reservations s) = Some r"
    by simp
  have w: "keeps D X True s (io_then (persist_next D X on_write s (write_last_attempt (es_reservation_id r) a s))
      (\<lambda>_. io_lift res))"
    if "transition_attempt current now e n (last (es_attempts r)) = Ok (Some a, failure)" "es_attempts r \<noteq> []"
    for current a failure and res :: "(HumanCenteredStoreErrorV1, unit) result"
    using find_last_attempt(1) [OF find that(2)] validated_attempt [OF 1(1)]
    by (intro keeps_write_last [OF assms(1) find that(2)] transition_attempt_follows [OF that(1) assms(3)]) auto
  show ?case
    by (auto simp: Let_def split: option.splits intro!: keeps_lift_then intro: w)
qed

lemma recover_keeps:
  assumes "serde_round_trips D" and "loadable D X disk s"
  shows "\<exists>c. follows True s c \<and> stands D X (fst (recover_execution_permit D X clock on_load on_write action_ref owner disk)) c"
  unfolding recover_execution_permit_def
proof (rule keeps_after_load [OF assms], rule keeps_lift_then, rule keeps_lift_then, goal_cases)
  case (1 now r)
  have w: "keeps D X True s (io_then (persist_next D X on_write s
      (write_last_attempt (es_reservation_id r) ((last (es_attempts r'))\<lparr>at_status := ER_Expired\<rparr>) s)) (\<lambda>_. io_lift res))"
    if "find (\<lambda>x. es_reservation_id x = es_reservation_id r) (ss_execution_reservations s) = Some r'" "es_attempts r' \<noteq> []"
    for r' and res :: "(HumanCenteredStoreErrorV1, ExecutionPermitV1) result"
    by (rule keeps_write_last [OF assms(1) that])
      (auto simp: attempt_timing_valid_def attempt_status_valid_def attempt_follows_def attempt_core_def)
  show ?case
    by (auto simp: Let_def ok_or_eq_Ok intro!: keeps_lift_then intro: w)
qed

end
