(* ===== verification/IDR_Store_Samples.thy ===== *)
theory IDR_Store_Samples
  imports IDR_Store_Disk IDR_Turn_Plan
begin

text \<open>
  Concrete contracts, disks and a concrete serde for the witnesses of the store: intents, an action, its
  authorization and a permit request with its proof. All digests of the sample crates are the same, so the
  references differ in kind, identifier and revision.
\<close>

section \<open>Contracts\<close>

abbreviation sample_hex :: string where
  "sample_hex \<equiv> replicate 64 (CHR ''a'')"

definition sample_reference :: "HumanCenteredContractKindV1 \<Rightarrow> uuid \<Rightarrow> u64 \<Rightarrow> HumanCenteredContractRefV1" where
  "sample_reference kind i revision = ContractRef kind i revision sample_hex"

definition store_metadata ::
  "HumanCenteredContractKindV1 \<Rightarrow> uuid \<Rightarrow> u64 \<Rightarrow> HumanCenteredContractRefV1 option \<Rightarrow>
   HumanCenteredContractRefV1 list \<Rightarrow> HumanCenteredContractMetadataV1" where
  "store_metadata kind i revision predecessor dependencies = \<lparr>cm_contract_kind = kind, cm_contract_id = i,
     cm_run_id = 62, cm_turn_id = 63, cm_revision = revision, cm_predecessor_ref = predecessor,
     cm_authority_context = sample_context, cm_evidence_refs = [], cm_dependency_refs = dependencies,
     cm_policy_revision_ref = ''policy:p'', cm_valid_until = 900, cm_schema_version = 1\<rparr>"

definition sample_hypothesis :: RankedIntentHypothesisV1 where
  "sample_hypothesis = \<lparr>rh_hypothesis = \<lparr>ih_hypothesis_ref = ''hypothesis:h'', ih_intent_name = ''find'',
     ih_confidence = 9000, ih_supporting_evidence_refs = [], ih_contradicting_evidence_refs = []\<rparr>, rh_rank = 1\<rparr>"

definition sample_intent ::
  "uuid \<Rightarrow> u64 \<Rightarrow> HumanCenteredContractRefV1 option \<Rightarrow> HumanCenteredContractRefV1 list \<Rightarrow> IntentContractV1" where
  "sample_intent i revision predecessor dependencies = \<lparr>
     in_metadata = store_metadata HK_Intent i revision predecessor dependencies,
     in_user_stated_intent_ref = ''stated:s'', in_base_hypotheses = [sample_hypothesis],
     in_personalized_hypotheses = [sample_hypothesis], in_primary_hypothesis_ref = ''hypothesis:h'',
     in_confidence = 9000, in_ambiguity = False, in_clarification_required = False, in_human_model_effects = [],
     in_resolution_method = IM_DeterministicFastPath, in_record_digest = sample_hex\<rparr>"

definition sample_action :: ActionContractV1 where
  "sample_action = \<lparr>ax_metadata = store_metadata HK_Action 91 1 None [], ax_decision_ref = None,
     ax_operation_ref = ''operation:o'', ax_parameters = JObj [], ax_parameter_digest = sample_hex,
     ax_preconditions = [], ax_required_authority_refs = [], ax_authorization_state = AZ_Authorized,
     ax_impact_level = IL_Low, ax_reversible = True, ax_idempotency_key = ''key'',
     ax_verification_requirements = [''check''], ax_compensation_operations = [''operation:undo''],
     ax_record_digest = sample_hex\<rparr>"

definition sample_authorization :: "uuid \<Rightarrow> ExactActionAuthorizationV1" where
  "sample_authorization i = \<lparr>az_authorization_id = i, az_action_ref = sample_reference HK_Action 91 1,
     az_parameter_digest = sample_hex, az_actor_ref = ''actor:a'', az_decision = AD_Approve,
     az_scope_ref = ''scope:s'', az_authority_context_digest = sample_hex, az_issued_at = 50,
     az_expires_at = 800, az_schema_version = 1\<rparr>"

definition sample_permit_request :: "uuid \<Rightarrow> u32 \<Rightarrow> char \<Rightarrow> u64 \<Rightarrow> ExecutionPermitRequestV1" where
  "sample_permit_request i attempt c issued = \<lparr>pq_request_ref = ''request:r'', pq_action_ref = sample_reference HK_Action 91 1,
     pq_authorization_id = i, pq_authorization_digest = sample_hex, pq_provider_ref = ''provider:p'',
     pq_owner_ref = ''owner:o'', pq_attempt = attempt, pq_lease_issued_at = issued, pq_lease_until = issued + 100,
     pq_dispatch_nonce = replicate 64 c, pq_idempotency_key = ''key'', pq_tenant_ref = ''tenant:t'',
     pq_scope_ref = ''scope:s'', pq_purpose_ref = ''purpose:p'', pq_policy_revision_ref = ''policy:p'',
     pq_request_digest = sample_hex\<rparr>"

definition sample_permit_claims :: "uuid \<Rightarrow> char \<Rightarrow> u64 \<Rightarrow> ProofClaimsV1" where
  "sample_permit_claims p c issued = \<lparr>hp_proof_id = p, hp_proof_kind = PF_ExecutionPermit, hp_issuer_ref = ''issuer:i'',
     hp_subject_ref = ''request:r'', hp_subject_digest = sample_hex, hp_tenant_ref = ''tenant:t'',
     hp_scope_ref = ''scope:s'', hp_purpose_ref = ''purpose:p'', hp_policy_revision_ref = ''policy:p'',
     hp_issued_at = issued, hp_expires_at = issued + 100, hp_nonce = replicate 64 c, hp_schema_version = 1\<rparr>"

text \<open>A verified request: authorization \<open>i\<close>, proof \<open>p\<close>, nonce of characters \<open>c\<close>, lease from \<open>issued\<close>.\<close>

definition sample_verified_request ::
  "uuid \<Rightarrow> uuid \<Rightarrow> char \<Rightarrow> u32 \<Rightarrow> u64 \<Rightarrow> VerifiedExecutionPermitRequestV1" where
  "sample_verified_request i p c attempt issued = \<lparr>vq_request = sample_permit_request i attempt c issued,
     vq_authorization = sample_authorization i,
     vq_verified_proof = \<lparr>hv_envelope = \<lparr>he_claims = sample_permit_claims p c issued, he_key_id = ''key:k'',
       he_signature = replicate 128 (CHR ''0'')\<rparr>, hv_verified_at = issued\<rparr>\<rparr>"

section \<open>They are valid\<close>

lemma sample_texts:
  "\<not> blank ''policy:p''" "\<not> blank ''stated:s''" "\<not> blank ''operation:o''" "\<not> blank ''provider:p''"
  "\<not> blank ''owner:o''" "\<not> blank ''request:r''" "\<not> blank ''issuer:i''" "\<not> blank ''key:k''"
  "valid_digest sample_hex" "AuthorityContextV1_validate sample_context = Ok ()"
  by code_simp+

lemma sample_reference_validate [simp]:
  "i \<noteq> 0 \<Longrightarrow> revision \<noteq> 0 \<Longrightarrow> revision \<le> 9007199254740991 \<Longrightarrow>
     HumanCenteredContractRefV1_validate (sample_reference kind i revision) = Ok ()"
  using sample_texts(9)
  by (simp add: contract_ref_validate_Ok sample_reference_def HUMAN_CENTERED_MAX_SAFE_WIRE_INTEGER_def)

lemma store_metadata_validate:
  assumes "i \<noteq> 0" and "revision \<noteq> 0" and "revision \<le> 9007199254740991"
    and "validate_lineage (store_metadata kind i revision predecessor dependencies) = Ok ()"
    and "\<forall>r \<in> set dependencies. HumanCenteredContractRefV1_validate r = Ok () \<and> cr_contract_id r \<noteq> i"
  shows "HumanCenteredContractMetadataV1_validate (store_metadata kind i revision predecessor dependencies) = Ok ()"
  using assms sample_texts
  by (auto simp: HumanCenteredContractMetadataV1_validate_def store_metadata_def human_id_is_empty_def
      HUMAN_CENTERED_MAX_SAFE_WIRE_INTEGER_def HUMAN_CENTERED_SCHEMA_VERSION_def result_simps)

lemma sample_hypotheses_validate: "validate_ranked_hypotheses [sample_hypothesis] = Ok ()"
proof -
  have "IntentHypothesisV1_validate (rh_hypothesis sample_hypothesis) = Ok ()" by code_simp
  then show ?thesis by (simp add: validate_ranked_hypotheses_def) (simp add: sample_hypothesis_def)
qed

lemma sample_intent_validate:
  assumes "HumanCenteredContractMetadataV1_validate (store_metadata HK_Intent i revision predecessor dependencies) = Ok ()"
  shows "IntentContractV1_validate sample_crates (sample_intent i revision predecessor dependencies) = Ok ()"
  using assms sample_texts(2) sample_hypotheses_validate
  by (simp add: IntentContractV1_validate_def sample_intent_def sample_contract_digest Let_def hypothesis_refs_def)
    (simp add: store_metadata_def sample_hypothesis_def)

lemma sample_intent_record_ref:
  assumes "HumanCenteredContractMetadataV1_validate (store_metadata HK_Intent i revision predecessor dependencies) = Ok ()"
    and "i \<noteq> 0" and "revision \<noteq> 0" and "revision \<le> 9007199254740991"
  shows "IntentContractV1_record_ref sample_crates (sample_intent i revision predecessor dependencies) =
     Ok (sample_reference HK_Intent i revision)"
proof -
  have "HumanCenteredContractRefV1_validate (ContractRef HK_Intent i revision sample_hex) = Ok ()"
    using sample_reference_validate [OF assms(2-4), of HK_Intent] by (simp add: sample_reference_def)
  then show ?thesis
    using sample_intent_validate [OF assms(1)]
    by (simp add: IntentContractV1_record_ref_def HumanCenteredContractRefV1_new_def Let_def)
      (simp add: sample_intent_def store_metadata_def sample_reference_def)
qed

lemma sample_action_metadata: "HumanCenteredContractMetadataV1_validate (store_metadata HK_Action 91 1 None []) = Ok ()"
  by (rule store_metadata_validate) (simp_all add: validate_lineage_def store_metadata_def)

lemma sample_action_validate: "ActionContractV1_validate sample_crates sample_action = Ok ()"
proof -
  have t: "validate_text_collection [''check''] = Ok ()" "validate_text_collection [] = Ok ()"
    "validate_required_text ''key'' = Ok ()"
    by code_simp+
  have j: "validate_json_payload sample_crates (JObj []) = Ok ()"
    by (simp add: validate_json_payload_def push_children_def)
  show ?thesis
    using sample_action_metadata sample_texts
    by (simp add: ActionContractV1_validate_def sample_action_def t j sample_contract_digest Let_def high_impact_def)
      (simp add: store_metadata_def)
qed

lemma sample_action_record_ref:
  "ActionContractV1_record_ref sample_crates sample_action = Ok (sample_reference HK_Action 91 1)"
  using sample_action_validate sample_reference_validate [of 91 1 HK_Action]
  by (simp add: action_record_ref_Ok sample_action_def store_metadata_def sample_reference_def)

lemma sample_authorization_validate:
  assumes "i \<noteq> 0" and "50 \<le> at" and "at < 800"
  shows "ExactActionAuthorizationV1_validate_for sample_crates (sample_authorization i) sample_action at = Ok ()"
  using assms sample_action_validate sample_action_record_ref
  by (simp add: ExactActionAuthorizationV1_validate_for_def authority_context_digest_def sample_contract_digest Let_def
      sample_authorization_def)
    (simp add: sample_action_def store_metadata_def sample_context_def HUMAN_CENTERED_SCHEMA_VERSION_def not_less)

lemma sample_request_validate:
  assumes "i \<noteq> 0" and "attempt \<noteq> 0" and "hex_byte c" and "issued = 100 \<or> issued = 300"
  shows "ExecutionPermitRequestV1_validate_for sample_crates (sample_permit_request i attempt c issued)
    sample_action (sample_authorization i) = Ok ()"
proof -
  have d: "valid_digest (replicate 64 c)" using assms(3) by (simp add: valid_digest_def list_all_iff)
  have z: "ExactActionAuthorizationV1_validate_for sample_crates (sample_authorization i) sample_action issued = Ok ()"
    using assms(4) by (intro sample_authorization_validate [OF assms(1)]) auto
  have lease: "\<not> issued + 100 \<le> issued" "\<not> issued + 100 > 800" "\<not> issued + 100 > 900"
    using assms(4) by auto
  show ?thesis
    using d z lease assms(2)
    by (simp add: ExecutionPermitRequestV1_validate_for_def sample_action_validate sample_action_record_ref Let_def
        authorization_digest_def sample_contract_digest del: not_le not_less cong: if_cong)
      (simp add: sample_permit_request_def sample_authorization_def sample_action_def store_metadata_def
        sample_context_def sample_texts del: not_le not_less)
qed

lemma sample_envelope_validate:
  assumes "p \<noteq> 0" and "hex_byte c" and "issued = 100 \<or> issued = 300"
  shows "SignedProofEnvelopeV1_validate_shape \<lparr>he_claims = sample_permit_claims p c issued, he_key_id = ''key:k'',
     he_signature = replicate 128 (CHR ''0'')\<rparr> = Ok ()"
proof -
  have d: "valid_digest (replicate 64 c)" using assms(2) by (simp add: valid_digest_def list_all_iff)
  have s: "decode_hex 64 (replicate 128 (CHR ''0'')) \<noteq> None" by code_simp
  have b: "\<not> blank ''tenant:t''" "\<not> blank ''scope:s''" "\<not> blank ''purpose:p''" by code_simp+
  have lease: "\<not> issued + 100 \<le> issued" "\<not> issued + 100 > HUMAN_CENTERED_MAX_SAFE_WIRE_INTEGER" "issued \<noteq> 0"
    using assms(3) by (auto simp: HUMAN_CENTERED_MAX_SAFE_WIRE_INTEGER_def)
  have "ProofClaimsV1_validate (sample_permit_claims p c issued) = Ok ()"
    using d b lease assms(1) sample_texts
    by (simp add: ProofClaimsV1_validate_def sample_permit_claims_def human_id_is_empty_def
        HUMAN_CENTERED_SCHEMA_VERSION_def del: not_le not_less)
  with s sample_texts show ?thesis by (simp add: SignedProofEnvelopeV1_validate_shape_def)
qed

section \<open>Snapshots\<close>

definition sample_snapshot ::
  "u64 \<Rightarrow> HumanCenteredContractSnapshotV1 list \<Rightarrow> HumanCenteredContractRefV1 list \<Rightarrow> ExecutionReservationRecordV1 list \<Rightarrow>
   HumanCenteredStoreSnapshotV1" where
  "sample_snapshot n records pointers reservations = \<lparr>ss_sequence = n,
     ss_previous_snapshot_digest = (if n \<le> 1 then None else Some sample_hex), ss_snapshot_digest = sample_hex,
     ss_records = records, ss_current_pointers = pointers, ss_invalidated_refs = [],
     ss_execution_reservations = reservations\<rparr>"

definition sample_action_store :: "u64 \<Rightarrow> ExecutionAttemptRecordV1 list \<Rightarrow> HumanCenteredStoreSnapshotV1" where
  "sample_action_store n attempts = sample_snapshot n [SN_Action sample_action] [sample_reference HK_Action 91 1]
     (if attempts = [] then []
      else [\<lparr>es_reservation_id = 95, es_action_ref = sample_reference HK_Action 91 1, es_tenant_ref = ''tenant:t'',
        es_operation_ref = ''operation:o'', es_idempotency_key = ''key'', es_attempts = attempts\<rparr>])"

lemma sample_snapshot_digest: "compute_snapshot_digest sample_crates s = Ok sample_hex"
proof -
  have "\<forall>s. x_json_to_string sample_crates s \<noteq> None" by (simp add: sample_crates_def)
  then obtain b where "json_to_vec sample_crates (JArr [
          JStr ''idr-store-snapshot-v3'', ju64 (ss_sequence s), jopt JStr (ss_previous_snapshot_digest s),
          JArr (map (snapshot_contract_json sample_crates) (ss_records s)),
          JArr (map (HumanCenteredContractRefV1_json sample_crates) (ss_current_pointers s)),
          JArr (map (HumanCenteredContractRefV1_json sample_crates) (ss_invalidated_refs s)),
          JArr (map (ExecutionReservationRecordV1_json sample_crates) (ss_execution_reservations s))]) = Some b"
    using json_to_vec_total by blast
  then show ?thesis by (simp only: compute_snapshot_digest_def option.case) (simp add: sample_crates_def)
qed

lemma sample_action_replay:
  "replay_history sample_crates [SN_Action sample_action] =
     Ok (default_snapshot\<lparr>ss_records := [SN_Action sample_action],
       ss_current_pointers := [sample_reference HK_Action 91 1]\<rparr>)"
  using sample_action_record_ref
  by (simp add: replay_history_def replay_step_def default_snapshot_def replace_pointer_def)
    (simp add: sample_reference_def sample_action_def store_metadata_def)

lemma sample_action_store_validate:
  assumes "n \<noteq> 0"
    and "attempts = [] \<or> validate_attempts sample_crates [SN_Action sample_action] sample_action
       (hd (ss_execution_reservations (sample_action_store n attempts))) 0 attempts
       (nothing_seen\<lparr>sn_reservation_ids := [95], sn_reserved_actions := [sample_reference HK_Action 91 1],
         sn_idempotency_scopes := [(''tenant:t'', ''operation:o'', ''key'')]\<rparr>) = Ok seen"
  shows "validate_snapshot sample_crates (sample_action_store n attempts) = Ok ()"
proof -
  let ?r = "sample_reference HK_Action 91 1"
  have h: "validate_snapshot_header sample_crates (sample_action_store n attempts) = Ok ()"
    using assms(1) sample_texts(9)
    by (simp add: validate_snapshot_header_def sample_snapshot_digest) (simp add: sample_action_store_def sample_snapshot_def)
  have f: "find_record sample_crates [SN_Action sample_action] ?r = Some (SN_Action sample_action)"
    using sample_action_record_ref by (simp add: find_record_def)
  have c: "collect_record_refs sample_crates [] [SN_Action sample_action] = Ok [?r]"
    using sample_action_record_ref sample_action_validate by simp
  have v: "validate_record_history sample_crates [?r] rs [] [SN_Action sample_action] [] = Ok [(object_key ?r, ?r)]" for rs
    using sample_action_record_ref
    by (simp add: note_latest_def) (simp add: sample_action_def store_metadata_def)
  have p: "validate_pointers [?r] [(object_key ?r, ?r)] [?r] [] = Ok [object_key ?r]" by simp
  have "validate_reservations sample_crates [SN_Action sample_action]
      (ss_execution_reservations (sample_action_store n attempts)) nothing_seen \<noteq> Err e" for e
  proof (cases "attempts = []")
    case True
    then show ?thesis by (simp add: sample_action_store_def sample_snapshot_def)
  next
    case False
    with assms(2) f show ?thesis
      by (simp add: sample_action_store_def sample_snapshot_def nothing_seen_def idempotency_scope_def)
        (simp add: sample_action_def store_metadata_def sample_context_def)
  qed
  then obtain seen' where "validate_reservations sample_crates [SN_Action sample_action]
      (ss_execution_reservations (sample_action_store n attempts)) nothing_seen = Ok seen'"
    by (cases "validate_reservations sample_crates [SN_Action sample_action]
      (ss_execution_reservations (sample_action_store n attempts)) nothing_seen") auto
  with h c v p show ?thesis
    by (simp add: validate_snapshot_def) (simp add: sample_action_store_def sample_snapshot_def sample_action_replay default_snapshot_def)
qed

text \<open>The attempt of a verified request, consumed at its lease start, and its state.\<close>

definition sample_attempt ::
  "uuid \<Rightarrow> uuid \<Rightarrow> char \<Rightarrow> u32 \<Rightarrow> u64 \<Rightarrow> ExecutionReservationStatusV1 \<Rightarrow> u64 option \<Rightarrow> u64 option \<Rightarrow> ExecutionAttemptRecordV1" where
  "sample_attempt i p c attempt issued status delivered dispatched =
     (issued_attempt (sample_verified_request i p c attempt issued) issued)\<lparr>at_status := status,
        at_delivered_at := delivered, at_dispatched_at := dispatched\<rparr>"

lemma sample_attempt_binding:
  assumes "p \<noteq> 0" and "hex_byte c" and "issued = 100 \<or> issued = 300"
    and "p \<notin> set (sn_proof_ids seen)" and "replicate 64 c \<notin> set (sn_proof_nonces seen)"
    and "i \<notin> set (sn_authorization_ids seen)" and "es_action_ref r = sample_reference HK_Action 91 1"
  shows "attempt_binding_valid sample_action r attempt seen (sample_attempt i p c attempt issued status delivered dispatched)"
proof -
  have d: "valid_digest (replicate 64 c)" using assms(2) by (simp add: valid_digest_def list_all_iff)
  have lease: "issued < issued + 100" "issued < 800" "issued < 900" using assms(3) by auto
  show ?thesis
    using assms(1,4-7) d lease sample_texts
    by (simp add: attempt_binding_valid_def sample_attempt_def issued_attempt_def sample_verified_request_def Let_def
        sample_permit_claims_def sample_permit_request_def sample_authorization_def human_id_is_empty_def)
      (simp add: sample_action_def store_metadata_def)
qed

lemma sample_attempt_simps [simp]:
  "at_request (sample_attempt i p c attempt issued status delivered dispatched) = sample_permit_request i attempt c issued"
  "at_authorization (sample_attempt i p c attempt issued status delivered dispatched) = sample_authorization i"
  "at_permit_proof_envelope (sample_attempt i p c attempt issued status delivered dispatched) =
     \<lparr>he_claims = sample_permit_claims p c issued, he_key_id = ''key:k'', he_signature = replicate 128 (CHR ''0'')\<rparr>"
  "at_status (sample_attempt i p c attempt issued status delivered dispatched) = status"
  "at_delivered_at (sample_attempt i p c attempt issued status delivered dispatched) = delivered"
  "at_dispatched_at (sample_attempt i p c attempt issued status delivered dispatched) = dispatched"
  "at_receipt_ref (sample_attempt i p c attempt issued status delivered dispatched) = None"
  "at_receipt_proof_envelope (sample_attempt i p c attempt issued status delivered dispatched) = None"
  "at_receipt_verified_at (sample_attempt i p c attempt issued status delivered dispatched) = None"
  "at_attempt (sample_attempt i p c attempt issued status delivered dispatched) = attempt"
  "at_proof_id (sample_attempt i p c attempt issued status delivered dispatched) = p"
  "at_permit_id (sample_attempt i p c attempt issued status delivered dispatched) = p"
  "at_proof_nonce (sample_attempt i p c attempt issued status delivered dispatched) = replicate 64 c"
  "at_proof_key_id (sample_attempt i p c attempt issued status delivered dispatched) = ''key:k''"
  "at_proof_expires_at (sample_attempt i p c attempt issued status delivered dispatched) = issued + 100"
  "at_consumed_at (sample_attempt i p c attempt issued status delivered dispatched) = issued"
  by (simp_all add: sample_attempt_def issued_attempt_def sample_verified_request_def sample_permit_claims_def Let_def
      sample_permit_request_def)

lemma sample_store_one_attempt:
  assumes "n \<noteq> 0" and "i \<noteq> 0" and "p \<noteq> 0" and "hex_byte c" and "issued = 100 \<or> issued = 300"
    and "attempt_timing_valid (sample_attempt i p c 1 issued status delivered dispatched)"
  shows "validate_snapshot sample_crates
    (sample_action_store n [sample_attempt i p c 1 issued status delivered dispatched]) = Ok ()"
  apply (rule sample_action_store_validate [OF assms(1), OF disjI2])
  using assms sample_request_validate [of i 1 c issued] sample_envelope_validate [of p c issued]
  by (simp add: sample_attempt_binding validate_attempt_receipt_def)
    (simp add: sample_action_store_def sample_snapshot_def nothing_seen_def sample_attempt_binding)

section \<open>A serde\<close>

text \<open>
  Snapshots are numbered by a list of the known ones; an anchor is written as a brace, its digest, a tag with the
  previous digest, and its sequence in unary.
\<close>

definition sample_anchor_to_vec :: "StoreAnchorRecordV1 \<Rightarrow> bytes option" where
  "sample_anchor_to_vec a =
     (if anchor_digests_valid a then
        Some (CHR 0x7B # an_snapshot_digest a @
          (case an_previous_snapshot_digest a of None \<Rightarrow> ''n'' | Some digest \<Rightarrow> CHR ''p'' # digest) @
          replicate (unat (an_sequence a)) (CHR ''1''))
      else None)"

definition sample_anchor_from_slice :: "bytes \<Rightarrow> StoreAnchorRecordV1 option" where
  "sample_anchor_from_slice b =
     (let digest = take 64 (tl b); rest = drop 65 (tl b) in
      if tl b ! 64 = CHR ''n''
      then Some \<lparr>an_sequence = of_nat (length rest), an_snapshot_digest = digest, an_previous_snapshot_digest = None\<rparr>
      else Some \<lparr>an_sequence = of_nat (length (drop 64 rest)), an_snapshot_digest = digest,
        an_previous_snapshot_digest = Some (take 64 rest)\<rparr>)"

definition sample_serde :: "HumanCenteredStoreSnapshotV1 list \<Rightarrow> store_serde" where
  "sample_serde known = \<lparr>
     sd_snapshot_to_vec = (\<lambda>s. map_option (\<lambda>i. replicate (Suc i) (CHR ''s'')) (map_of (zip known [0..<length known]) s)),
     sd_snapshot_from_slice = (\<lambda>b. if b \<noteq> [] \<and> length b \<le> length known then Some (known ! (length b - 1)) else None),
     sd_anchor_to_vec = sample_anchor_to_vec,
     sd_anchor_from_slice = sample_anchor_from_slice\<rparr>"

lemma valid_digest_no_newline: "valid_digest d \<Longrightarrow> newline \<notin> set d"
  by (auto simp: valid_digest_def list_all_iff hex_byte_def newline_def less_eq_char_def dest!: bspec [where x = newline])

lemma sample_anchor_round_trip:
  assumes "sample_anchor_to_vec a = Some l"
  shows "sample_anchor_from_slice l = Some a" and "newline \<notin> set l" and "\<exists>r. l = CHR 0x7B # r"
proof -
  have d: "valid_digest (an_snapshot_digest a)" and p: "\<And>q. an_previous_snapshot_digest a = Some q \<Longrightarrow> valid_digest q"
    and l: "l = CHR 0x7B # an_snapshot_digest a @
      (case an_previous_snapshot_digest a of None \<Rightarrow> ''n'' | Some digest \<Rightarrow> CHR ''p'' # digest) @
      replicate (unat (an_sequence a)) (CHR ''1'')"
    using assms by (auto simp: sample_anchor_to_vec_def anchor_digests_valid_def split: if_splits)
  have len: "length (an_snapshot_digest a) = 64" using d by (simp add: valid_digest_def)
  show "sample_anchor_from_slice l = Some a"
  proof (cases "an_previous_snapshot_digest a")
    case None
    then show ?thesis by (simp add: sample_anchor_from_slice_def l len Let_def nth_append)
  next
    case (Some q)
    with p have "length q = 64" by (simp add: valid_digest_def)
    with Some show ?thesis by (simp add: sample_anchor_from_slice_def l len Let_def nth_append)
  qed
  have n: "newline \<noteq> CHR 0x7B" "newline \<noteq> CHR ''n''" "newline \<noteq> CHR ''p''" "newline \<noteq> CHR ''1''"
    by (simp_all add: newline_def)
  show "newline \<notin> set l"
    using valid_digest_no_newline [OF d] valid_digest_no_newline [OF p] n
    by (auto simp: l split: option.splits)
  show "\<exists>r. l = CHR 0x7B # r" by (simp add: l)
qed

lemma sample_serde_reads_back:
  assumes "sd_snapshot_to_vec (sample_serde known) s = Some b"
  shows "b \<noteq> []" and "sd_snapshot_from_slice (sample_serde known) b = Some s"
proof -
  have "known ! i = s \<and> i < length known" if "map_of (zip known [0..<length known]) s = Some i" for i
    using map_of_SomeD [OF that] by (auto simp: set_zip)
  with assms show "b \<noteq> []" "sd_snapshot_from_slice (sample_serde known) b = Some s"
    by (auto simp: sample_serde_def Suc_le_eq)
qed

lemma sample_serde_exact: "reads_back (sample_serde known) s" "digest_detects_change (sample_serde known) X"
  by (auto simp: reads_back_def digest_detects_change_def dest: sample_serde_reads_back(2))

lemma sample_serde_round_trips: "serde_round_trips (sample_serde known)"
proof -
  have "anchor_digests_valid a \<Longrightarrow> sd_anchor_to_vec (sample_serde known) a \<noteq> None" for a
    by (simp add: sample_serde_def sample_anchor_to_vec_def)
  moreover have "sd_anchor_from_slice (sample_serde known) l = Some a \<and> newline \<notin> set l \<and> (\<exists>r. l = CHR 0x7B # r)"
    if "sd_anchor_to_vec (sample_serde known) a = Some l" for a l
    using that sample_anchor_round_trip [of a l] by (simp add: sample_serde_def)
  ultimately show ?thesis
    unfolding serde_round_trips_def using sample_serde_reads_back by (metis option.inject)
qed

definition empty_disk :: store_disk where
  "empty_disk = \<lparr>sk_snapshot = None, sk_anchor = None\<rparr>"

text \<open>A disk whose snapshot file holds the first known snapshot, without an anchor log.\<close>

definition sample_disk :: store_disk where
  "sample_disk = \<lparr>sk_snapshot = Some ''s'', sk_anchor = None\<rparr>"

lemma empty_disk_settled: "settled D X empty_disk default_snapshot"
  by (auto simp: settled_def empty_disk_def read_snapshot_def validate_snapshot_def validate_snapshot_header_def
      default_snapshot_def replay_history_def head_matches_def anchored_def anchor_content_def anchor_lines_def)

lemma sample_disk_loadable:
  assumes "known \<noteq> []" and "validate_snapshot sample_crates (hd known) = Ok ()" and "ss_sequence (hd known) = 1"
    and "ss_previous_snapshot_digest (hd known) = None"
  shows "loadable (sample_serde known) sample_crates sample_disk (hd known)"
  using assms
  by (auto simp: loadable_def sample_disk_def read_snapshot_def sample_serde_def hd_conv_nth head_precedes_def
      anchored_def anchor_content_def anchor_lines_def latest_anchor_def anchor_follows_def anchor_of_def
      Suc_le_eq intro!: exI [of _ "[]"])

end
