(* ===== verification/IDR_Store_Props.thy ===== *)
theory IDR_Store_Props
  imports IDR_Store_Safety IDR_Store_Samples
begin

text \<open>
  The properties of the store over arbitrary sequences of calls, each with its own clock reading and its own
  faults, the two places where the code does less than its comments say, and how a float can cost the store.
\<close>

section \<open>Sequences of calls\<close>

datatype store_call =
    Call_Open
  | Call_Commit HumanCenteredContractSnapshotV1
  | Call_Commit_Receipt VerifiedExecutionReceiptV1
  | Call_Issue uuid VerifiedExecutionPermitRequestV1
  | Call_Delivered ExecutionPermitV1
  | Call_Dispatched ExecutionPermitV1
  | Call_Recover HumanCenteredContractRefV1 ReferenceV1
  | Call_Load HumanCenteredContractKindV1 uuid

record store_event =
  sv_call :: store_call
  sv_clock :: "u64 option"
  sv_on_load :: append_fault
  sv_on_write :: persist_fault

definition perform :: "store_serde \<Rightarrow> crates \<Rightarrow> store_event \<Rightarrow> store_disk \<Rightarrow> store_disk" where
  "perform D X e disk =
     (case sv_call e of
        Call_Open \<Rightarrow> fst (open_with_clock D X (sv_on_load e) disk)
      | Call_Commit contract \<Rightarrow> fst (store_commit D X (sv_clock e) (sv_on_load e) (sv_on_write e) contract disk)
      | Call_Commit_Receipt v \<Rightarrow> fst (commit_execution_receipt D X (sv_clock e) (sv_on_load e) (sv_on_write e) v disk)
      | Call_Issue fresh v \<Rightarrow> fst (issue_execution_permit D X (sv_clock e) (sv_on_load e) (sv_on_write e) fresh v disk)
      | Call_Delivered permit \<Rightarrow>
          fst (mark_execution_permit_delivered D X (sv_clock e) (sv_on_load e) (sv_on_write e) permit disk)
      | Call_Dispatched permit \<Rightarrow>
          fst (mark_execution_dispatched D X (sv_clock e) (sv_on_load e) (sv_on_write e) permit disk)
      | Call_Recover action_ref owner \<Rightarrow>
          fst (recover_execution_permit D X (sv_clock e) (sv_on_load e) (sv_on_write e) action_ref owner disk)
      | Call_Load kind i \<Rightarrow> fst (load_current D X (sv_on_load e) kind i disk))"

definition perform_all :: "store_serde \<Rightarrow> crates \<Rightarrow> store_event list \<Rightarrow> store_disk \<Rightarrow> store_disk" where
  "perform_all D X events disk = fold (perform D X) events disk"

text \<open>The payloads a call brings in are exact.\<close>

fun call_exact :: "store_call \<Rightarrow> bool" where
  "call_exact (Call_Commit contract) = contract_exact contract"
| "call_exact (Call_Commit_Receipt v) = contract_exact (SN_ExecutionReceipt (fst (verified_receipt_into_parts v)))"
| "call_exact _ = True"

lemma perform_follows:
  assumes "serde_round_trips D" and "loadable D X disk s"
  shows "\<exists>c. follows (call_exact (sv_call e)) s c \<and> stands D X (perform D X e disk) c"
proof (cases "sv_call e")
  case Call_Open
  with keeps_after_load [OF assms keeps_lift] show ?thesis by (simp add: perform_def open_with_clock_def)
next
  case (Call_Commit contract)
  show ?thesis
  proof (cases "receipt_record contract")
    case None
    with Call_Commit commit_internal_keeps [OF assms] show ?thesis by (simp add: perform_def store_commit_def)
  next
    case (Some receipt)
    with Call_Commit assms(2) show ?thesis
      by (auto simp: perform_def store_commit_def io_lift_def stands_def intro!: exI [of _ s])
  qed
next
  case (Call_Commit_Receipt v)
  with commit_internal_keeps [OF assms, where contract = "SN_ExecutionReceipt (vr_receipt v)"] show ?thesis
    by (simp add: perform_def commit_execution_receipt_def verified_receipt_into_parts_def)
next
  case (Call_Load kind i)
  with keeps_after_load [OF assms keeps_lift] show ?thesis by (simp add: perform_def load_current_def)
qed (simp_all add: perform_def mark_execution_permit_delivered_def mark_execution_dispatched_def
      issue_keeps [OF assms] transition_keeps [OF assms] recover_keeps [OF assms])

text \<open>A disk that refuses to load is not changed by any call.\<close>

lemma refused_then: "refuses_loads D X disk \<Longrightarrow> fst (io_then (load_snapshot D X fault) f disk) = disk"
  unfolding refuses_loads_def io_then_def by (drule spec [of _ fault]) auto

lemma refused_after:
  "(\<And>x. r = Ok x \<Longrightarrow> fst (f x disk) = disk) \<Longrightarrow> fst (io_then (io_lift r) f disk) = disk"
  by (cases r) (auto simp: io_then_def io_lift_def)

lemma refused_lift: "fst (io_lift r disk) = disk"
  by (simp add: io_lift_def)

lemma perform_refused: "refuses_loads D X disk \<Longrightarrow> perform D X e disk = disk"
  unfolding perform_def open_with_clock_def store_commit_def commit_execution_receipt_def commit_internal_def
    issue_execution_permit_def mark_execution_permit_delivered_def mark_execution_dispatched_def
    transition_execution_permit_def recover_execution_permit_def load_current_def verified_receipt_into_parts_def
  by (auto simp: Let_def refused_then refused_lift split: store_call.split intro!: refused_after)

lemma perform_all_refused: "refuses_loads D X disk \<Longrightarrow> perform_all D X events disk = disk"
  unfolding perform_all_def by (induction events) (auto simp: perform_refused)

lemma perform_all_stands:
  assumes "serde_round_trips D" and "digest_detects_change D X" and "stands D X disk s"
  shows "\<exists>c. extends s c \<and> stands D X (perform_all D X events disk) c"
  using assms(3)
proof (induction events arbitrary: disk s)
  case Nil
  then show ?case by (auto simp: perform_all_def)
next
  case (Cons e events)
  show ?case
  proof (cases "loadable D X disk s")
    case True
    from perform_follows [OF assms(1) True] obtain c where
      c: "extends s c" "stands D X (perform D X e disk) c" by (auto simp: follows_def)
    from Cons.IH [OF c(2)] extends_trans [OF c(1)] show ?thesis by (auto simp: perform_all_def)
  next
    case False
    from perform_all_refused [OF changed_snapshot_refused [OF assms(1,2) Cons.prems False]] Cons.prems
    show ?thesis by auto
  qed
qed

lemma perform_all_exact:
  assumes "serde_round_trips D" and "loadable D X disk s" and "snapshot_exact s"
    and "\<forall>e \<in> set events. call_exact (sv_call e)"
  shows "\<exists>c. extends s c \<and> loadable D X (perform_all D X events disk) c"
  using assms(2-4)
proof (induction events arbitrary: disk s)
  case Nil
  then show ?case by (auto simp: perform_all_def)
next
  case (Cons e events)
  from perform_follows [OF assms(1) Cons.prems(1)] Cons.prems(2,3) obtain c where
    c: "extends s c" "snapshot_exact c" "stands D X (perform D X e disk) c" by (fastforce simp: follows_def)
  from Cons.IH [OF exact_stands_loadable [OF assms(1) c(2,3)] c(2)] Cons.prems(3) extends_trans [OF c(1)]
  show ?case by (auto simp: perform_all_def)
qed

lemma load_Ok_loadable:
  assumes "serde_round_trips D" and "snd (load_snapshot D X fault disk) = Ok s"
  shows "loadable D X disk s" and "settled D X (fst (load_snapshot D X fault disk)) s"
  using load_Ok_settled [OF assms(1), of X fault disk "fst (load_snapshot D X fault disk)" s] assms(2)
  by (metis prod.collapse)+

lemma loadable_load_Ok:
  assumes "serde_round_trips D" and "loadable D X disk s"
  shows "snd (load_snapshot D X Append_Done disk) = Ok s"
  using load_loadable [OF assms, of Append_Done "fst (load_snapshot D X Append_Done disk)" "snd (load_snapshot D X Append_Done disk)"]
  by simp

lemma issue_candidate_attempt:
  assumes "issue_candidate X fresh s v now = Ok (i, c)"
  shows "issued_attempt v now \<in> set (all_attempts c)"
    and "az_authorization_id (vq_authorization v) = pq_authorization_id (vq_request v)"
proof -
  from assms obtain action i' rs where
    valid: "permit_request_validate_at X v action now = Ok ()" and
    res: "reserve_attempt fresh (pq_action_ref (vq_request v)) (ac_tenant_ref (cm_authority_context (ax_metadata action)),
      ax_operation_ref action, ax_idempotency_key action) (issued_attempt v now) (ss_execution_reservations s) = Ok (i', rs)"
    and c: "c = s\<lparr>ss_execution_reservations := rs\<rparr>"
    by (auto simp: issue_candidate_def Let_def and_then_eq_Ok map_err_eq_Ok
        split: if_splits option.splits HumanCenteredContractSnapshotV1.splits)
  from reserve_attempt_contains [OF res] c show "issued_attempt v now \<in> set (all_attempts c)"
    by (auto intro: all_attempts_mem)
  show "az_authorization_id (vq_authorization v) = pq_authorization_id (vq_request v)"
    using valid by (auto simp: permit_request_validate_at_def ExecutionPermitRequestV1_validate_for_def and_then_eq_Ok
        Let_def split: if_splits)
qed

lemma issue_Ok:
  assumes "serde_round_trips D"
    and "issue_execution_permit D X clock on_load on_write fresh v disk = (disk', Ok permit)"
  obtains s now i candidate c where "loadable D X disk s" "issue_candidate X fresh s v now = Ok (i, candidate)"
    "stands D X disk' c" "ss_execution_reservations c = ss_execution_reservations candidate"
proof -
  from assms(2) obtain disk1 s now i candidate where load: "load_snapshot D X on_load disk = (disk1, Ok s)" and
    issue: "issue_candidate X fresh s v now = Ok (i, candidate)" and
    persist: "persist_next D X on_write s candidate disk1 = (disk', Ok ())"
    by (auto simp: issue_execution_permit_def io_then_eq_Ok io_lift_eq)
  note s = load_Ok_settled [OF assms(1) load]
  from persist_next_cases [OF assms(1) s(1) persist] obtain c where
    c: "seal_next_snapshot X candidate s = Ok c" "validate_snapshot X c = Ok ()" "written D disk' c"
      "reads_back D c \<longrightarrow> loadable D X disk' c" by auto
  moreover from this have "stands D X disk' c"
    using checked_add_1_nonzero [OF seal_next_snapshot_Ok(1) [OF c(1)]] by (auto simp: stands_def)
  ultimately show ?thesis using that [OF s(2) issue] seal_next_snapshot_Ok(6) by blast
qed

section \<open>Properties\<close>



text \<open>
  A float can cost the whole store. When a write reports success but serde does not read the snapshot back as
  it was written, which without \<open>float_roundtrip\<close> it does not promise for a float, no later call ever loads the
  store again, and none repairs it.
\<close>

theorem inexact_float_loses_the_store:
  assumes "serde_round_trips D" and "digest_detects_change D X" and "settled D X disk s"
    and "persist_next D X fault s candidate disk = (disk', Ok ())"
    and "seal_next_snapshot X candidate s = Ok c" and "\<not> reads_back D c"
  shows "\<exists>e. load_snapshot D X fault' (perform_all D X events disk') = (disk', Err e)"
proof -
  from persist_next_cases [OF assms(1,3,4)] assms(5) have w: "written D disk' c" "validate_snapshot X c = Ok ()"
    by auto
  with assms(6) checked_add_1_nonzero [OF seal_next_snapshot_Ok(1) [OF assms(5)]]
  have stands: "stands D X disk' c" by (auto simp: stands_def)
  have "\<not> loadable D X disk' c"
  proof
    assume "loadable D X disk' c"
    with w(1) assms(6) show False
      by (auto simp: loadable_def read_snapshot_def written_def reads_back_def ok_or_eq_Ok split: option.splits if_splits)
  qed
  from changed_snapshot_refused [OF assms(1,2) stands this] perform_all_refused show ?thesis
    by (metis refuses_loads_def)
qed


text \<open>
  C22: Rollback detection. Once a snapshot was loaded, restoring another valid snapshot file beside the same anchor
  log is detected, unless it agrees with the loaded one in sequence and digests or is sealed directly after it;
  every older snapshot is refused.
\<close>

theorem rollback_is_detected:
  assumes "serde_round_trips D" and "snd (load_snapshot D X fault disk) = Ok s"
    and "sk_anchor other = sk_anchor (fst (load_snapshot D X fault disk))"
    and "read_snapshot D other = (other, Ok c)" and "validate_snapshot X c = Ok ()" and "\<not> same_or_next s c"
  shows "snd (load_snapshot D X fault' other) = Err SE_RollbackDetected"
  by (rule other_snapshot_rejected [OF load_Ok_loadable(2) [OF assms(1,2)] assms(3-6)])

section \<open>A concrete run\<close>

text \<open>The store with one action, and the same store after a permit was issued.\<close>

definition sample_run_serde :: store_serde where
  "sample_run_serde = sample_serde [sample_action_store 1 [],
     sample_action_store 2 [sample_attempt 77 101 (CHR ''a'') 1 100 ER_PermitIssued None None]]"

lemma loadable_load:
  assumes "serde_round_trips D" and "loadable D X disk s"
  shows "\<exists>disk'. load_snapshot D X Append_Done disk = (disk', Ok s) \<and> settled D X disk' s"
proof -
  obtain disk' r where l: "load_snapshot D X Append_Done disk = (disk', r)" by force
  from load_loadable [OF assms l] l show ?thesis by auto
qed

lemma sample_run_loadable: "loadable sample_run_serde sample_crates sample_disk (sample_action_store 1 [])"
proof -
  have "validate_snapshot sample_crates (sample_action_store 1 []) = Ok ()"
    by (rule sample_action_store_validate) simp_all
  then show ?thesis
    using sample_disk_loadable [of "[sample_action_store 1 [],
     sample_action_store 2 [sample_attempt 77 101 (CHR ''a'') 1 100 ER_PermitIssued None None]]"]
    by (simp add: sample_run_serde_def) (simp add: sample_action_store_def sample_snapshot_def)
qed

lemma sample_verified_request_validate:
  assumes "i \<noteq> 0" and "attempt \<noteq> 0" and "hex_byte c" and "issued = 100 \<or> issued = 300"
  shows "permit_request_validate_at sample_crates (sample_verified_request i p c attempt issued) sample_action issued = Ok ()"
proof -
  have "ExactActionAuthorizationV1_validate_for sample_crates (sample_authorization i) sample_action issued = Ok ()"
    using assms(4) by (intro sample_authorization_validate [OF assms(1)]) auto
  with sample_request_validate [OF assms] assms(4) show ?thesis
    by (auto simp: permit_request_validate_at_def sample_verified_request_def Let_def)
      (auto simp: sample_permit_request_def sample_permit_claims_def sample_action_def store_metadata_def)
qed

lemma sample_find_action:
  "find_record sample_crates [SN_Action sample_action] (sample_reference HK_Action 91 1) = Some (SN_Action sample_action)"
  using sample_action_record_ref by (simp add: find_record_def)

lemma sample_issue_candidate:
  "issue_candidate sample_crates 95 (sample_action_store 1 []) (sample_verified_request 77 101 (CHR ''a'') 1 100) 100 =
     Ok (95, (sample_action_store 1 [])\<lparr>ss_execution_reservations :=
       ss_execution_reservations (sample_action_store 2 [sample_attempt 77 101 (CHR ''a'') 1 100 ER_PermitIssued None None])\<rparr>)"
proof -
  have v: "permit_request_validate_at sample_crates (sample_verified_request 77 101 (CHR ''a'') 1 100) sample_action 100 = Ok ()"
    by (rule sample_verified_request_validate) (simp_all add: hex_byte_def)
  have a: "issued_attempt (sample_verified_request 77 101 (CHR ''a'') 1 100) 100 =
      sample_attempt 77 101 (CHR ''a'') 1 100 ER_PermitIssued None None"
    by (simp add: sample_attempt_def issued_attempt_def Let_def)
  have s: "ac_tenant_ref (cm_authority_context (ax_metadata sample_action)) = ''tenant:t''"
    "ax_operation_ref sample_action = ''operation:o''" "ax_idempotency_key sample_action = ''key''"
    by (simp_all add: sample_action_def store_metadata_def sample_context_def)
  have q: "pq_action_ref (vq_request (sample_verified_request 77 101 (CHR ''a'') 1 100)) = sample_reference HK_Action 91 1"
    by (simp add: sample_verified_request_def sample_permit_request_def)
  show ?thesis
    by (simp add: issue_candidate_def Let_def q a v reference_is_current_def sample_action_store_def
        sample_snapshot_def sample_find_action all_attempts_def reserve_attempt_def s)
      (simp add: sample_permit_request_def)
qed

section \<open>Exclusive reservations\<close>

abbreviation attempt_authorization :: "ExecutionAttemptRecordV1 \<Rightarrow> uuid" where
  "attempt_authorization a \<equiv> az_authorization_id (at_authorization a)"

lemma binding_fresh:
  "attempt_binding_valid action r n seen a \<Longrightarrow> at_proof_id a \<notin> set (sn_proof_ids seen) \<and>
     at_proof_nonce a \<notin> set (sn_proof_nonces seen) \<and> attempt_authorization a \<notin> set (sn_authorization_ids seen)"
  unfolding attempt_binding_valid_def Let_def by blast

text \<open>The identities two lists of attempts add to the sets.\<close>

definition seen_after :: "seen_identities \<Rightarrow> ExecutionAttemptRecordV1 list \<Rightarrow> seen_identities \<Rightarrow> bool" where
  "seen_after seen attempts seen' \<longleftrightarrow>
     sn_proof_ids seen' = rev (map at_proof_id attempts) @ sn_proof_ids seen \<and>
     sn_proof_nonces seen' = rev (map at_proof_nonce attempts) @ sn_proof_nonces seen \<and>
     sn_authorization_ids seen' = rev (map attempt_authorization attempts) @ sn_authorization_ids seen \<and>
     (distinct (sn_proof_ids seen) \<longrightarrow> distinct (sn_proof_ids seen')) \<and>
     (distinct (sn_proof_nonces seen) \<longrightarrow> distinct (sn_proof_nonces seen')) \<and>
     (distinct (sn_authorization_ids seen) \<longrightarrow> distinct (sn_authorization_ids seen'))"

lemma seen_after_append: "seen_after s xs t \<Longrightarrow> seen_after t ys u \<Longrightarrow> seen_after s (xs @ ys) u"
proof -
  assume a: "seen_after s xs t" "seen_after t ys u"
  then have "sn_proof_ids u = rev (map at_proof_id (xs @ ys)) @ sn_proof_ids s"
    "sn_proof_nonces u = rev (map at_proof_nonce (xs @ ys)) @ sn_proof_nonces s"
    "sn_authorization_ids u = rev (map attempt_authorization (xs @ ys)) @ sn_authorization_ids s"
    by (simp_all add: seen_after_def)
  with a show ?thesis unfolding seen_after_def by blast
qed

lemma validate_attempts_seen:
  assumes "validate_attempts X records action r index attempts seen = Ok seen'"
  shows "seen_after seen attempts seen' \<and> sn_reserved_actions seen' = sn_reserved_actions seen \<and>
    sn_idempotency_scopes seen' = sn_idempotency_scopes seen \<and>
    (\<forall>a \<in> set (butlast attempts). permits_retry (at_status a))"
  using assms
proof (induction X records action r index attempts seen arbitrary: seen' rule: validate_attempts.induct)
  case (2 X records action r index a attempts seen)
  let ?seen = "seen\<lparr>sn_proof_ids := at_proof_id a # sn_proof_ids seen,
    sn_proof_nonces := at_proof_nonce a # sn_proof_nonces seen,
    sn_authorization_ids := attempt_authorization a # sn_authorization_ids seen\<rparr>"
  from "2.prems" obtain n where fresh: "attempt_binding_valid action r n seen a" and
    last: "attempts \<noteq> [] \<longrightarrow> permits_retry (at_status a)" and
    rest: "validate_attempts X records action r (index + 1) attempts ?seen = Ok seen'"
    by (auto simp: and_then_eq_Ok split: if_splits)
  have ih: "seen_after ?seen attempts seen' \<and> sn_reserved_actions seen' = sn_reserved_actions ?seen \<and>
      sn_idempotency_scopes seen' = sn_idempotency_scopes ?seen \<and>
      (\<forall>a \<in> set (butlast attempts). permits_retry (at_status a))"
    using "2.prems" by (intro "2.IH") (auto simp: and_then_eq_Ok map_err_eq_Ok split: if_splits)
  have one: "seen_after seen [a] ?seen" using binding_fresh [OF fresh] by (simp add: seen_after_def)
  from seen_after_append [OF one conjunct1 [OF ih]] ih last show ?case by auto
qed (simp add: seen_after_def)

lemma validate_reservations_seen:
  assumes "validate_reservations X records rs seen = Ok seen'"
  shows "seen_after seen (concat (map es_attempts rs)) seen' \<and>
    sn_reserved_actions seen' = rev (map es_action_ref rs) @ sn_reserved_actions seen \<and>
    sn_idempotency_scopes seen' = rev (map idempotency_scope rs) @ sn_idempotency_scopes seen \<and>
    (distinct (sn_reserved_actions seen) \<longrightarrow> distinct (sn_reserved_actions seen')) \<and>
    (distinct (sn_idempotency_scopes seen) \<longrightarrow> distinct (sn_idempotency_scopes seen')) \<and>
    (\<forall>r \<in> set rs. es_attempts r \<noteq> [] \<and> (\<forall>a \<in> set (butlast (es_attempts r)). permits_retry (at_status a)))"
  using assms
proof (induction rs arbitrary: seen)
  case (Cons r rs)
  let ?seen = "seen\<lparr>sn_reservation_ids := es_reservation_id r # sn_reservation_ids seen,
    sn_reserved_actions := es_action_ref r # sn_reserved_actions seen,
    sn_idempotency_scopes := idempotency_scope r # sn_idempotency_scopes seen\<rparr>"
  from Cons.prems obtain action seen1 where
    new: "es_action_ref r \<notin> set (sn_reserved_actions seen)" "idempotency_scope r \<notin> set (sn_idempotency_scopes seen)"
      "es_attempts r \<noteq> []" and
    attempts: "validate_attempts X records action r 0 (es_attempts r) ?seen = Ok seen1" and
    rest: "validate_reservations X records rs seen1 = Ok seen'"
    by (auto simp: and_then_eq_Ok split: if_splits option.splits HumanCenteredContractSnapshotV1.splits)
  note a = validate_attempts_seen [OF attempts] and ih = Cons.IH [OF rest]
  have "seen_after ?seen xs t = seen_after seen xs t" for xs t by (simp add: seen_after_def)
  with a have "seen_after seen (es_attempts r) seen1" by blast
  note all = seen_after_append [OF this conjunct1 [OF ih]]
  have d: "distinct (sn_reserved_actions seen) \<longrightarrow> distinct (sn_reserved_actions seen1)"
    "distinct (sn_idempotency_scopes seen) \<longrightarrow> distinct (sn_idempotency_scopes seen1)"
    using a new by simp_all
  have "sn_reserved_actions seen' = rev (map es_action_ref (r # rs)) @ sn_reserved_actions seen"
    "sn_idempotency_scopes seen' = rev (map idempotency_scope (r # rs)) @ sn_idempotency_scopes seen"
    using a ih by simp_all
  moreover have "\<forall>x \<in> set (r # rs). es_attempts x \<noteq> [] \<and>
      (\<forall>a \<in> set (butlast (es_attempts x)). permits_retry (at_status a))"
    using a ih new by simp
  ultimately show ?case using all d ih by (metis concat.simps(2) list.simps(9))
qed (simp add: seen_after_def)

text \<open>An attempt that may still have an effect, or had one: it does not permit a retry.\<close>

definition attempt_open :: "ExecutionAttemptRecordV1 \<Rightarrow> bool" where
  "attempt_open a \<longleftrightarrow> \<not> permits_retry (at_status a)"

definition exclusive :: "HumanCenteredStoreSnapshotV1 \<Rightarrow> bool" where
  "exclusive s \<longleftrightarrow>
     distinct (map es_action_ref (ss_execution_reservations s)) \<and>
     distinct (map idempotency_scope (ss_execution_reservations s)) \<and>
     distinct (map at_proof_id (all_attempts s)) \<and> distinct (map at_proof_nonce (all_attempts s)) \<and>
     distinct (map attempt_authorization (all_attempts s)) \<and>
     (\<forall>r \<in> set (ss_execution_reservations s). \<forall>a \<in> set (butlast (es_attempts r)). \<not> attempt_open a)"

text \<open>
  C19: Exclusive execution. In every snapshot that validates, hence in every snapshot that is loaded or written, an
  action and an idempotency scope have one reservation, no proof, nonce or authorization is in two attempts, and
  only the last attempt of a reservation can be open.
\<close>

theorem loaded_snapshot_exclusive:
  assumes "validate_snapshot X s = Ok ()"
  shows "exclusive s"
proof -
  from assms obtain seen where seen:
    "validate_reservations X (ss_records s) (ss_execution_reservations s) nothing_seen = Ok seen"
    by (auto simp: validate_snapshot_def and_then_eq_Ok split: if_splits)
  note v = validate_reservations_seen [OF seen, unfolded seen_after_def nothing_seen_def, simplified]
  have "distinct (map es_action_ref (ss_execution_reservations s))"
    "distinct (map idempotency_scope (ss_execution_reservations s))" using v by (metis distinct_rev)+
  moreover have "distinct (map at_proof_id (all_attempts s))" "distinct (map at_proof_nonce (all_attempts s))"
    "distinct (map attempt_authorization (all_attempts s))"
    using v unfolding all_attempts_def by (metis distinct_rev)+
  ultimately show ?thesis using v by (simp add: exclusive_def attempt_open_def)
qed

section \<open>Current dependencies\<close>

lemma validate_pointers_distinct:
  "validate_pointers refs latest ps ids = Ok ids' \<Longrightarrow> distinct (map object_key ps) \<and> object_key ` set ps \<inter> set ids = {}"
  by (induction refs latest ps ids arbitrary: ids' rule: validate_pointers.induct)
    (auto simp: and_then_eq_Ok split: if_splits)

lemma validated_pointers_unique:
  assumes "validate_snapshot X s = Ok ()" and "p \<in> set (ss_current_pointers s)" and "q \<in> set (ss_current_pointers s)"
    and "same_object p q"
  shows "p = q"
proof -
  from assms(1) have "distinct (map object_key (ss_current_pointers s))"
    by (auto simp: validate_snapshot_def and_then_eq_Ok dest: validate_pointers_distinct split: if_splits)
  with assms(2-4) show ?thesis by (auto simp: distinct_map inj_on_def object_key_def same_object_def)
qed

lemma set_replace_pointer: "set (replace_pointer ps r) = insert r {p \<in> set ps. \<not> same_object p r}"
  by (auto simp: replace_pointer_def)

lemma same_object_sym: "same_object a b \<longleftrightarrow> same_object b a"
  by (auto simp: same_object_def)

lemma same_object_trans: "same_object a b \<Longrightarrow> same_object b c \<Longrightarrow> same_object a c"
  by (auto simp: same_object_def)

text \<open>What a commit does to the pointers and the invalidated references, with the edges it propagates along.\<close>

definition commit_edges ::
  "crates \<Rightarrow> HumanCenteredStoreSnapshotV1 \<Rightarrow> (HumanCenteredContractRefV1 \<times> HumanCenteredContractRefV1) set" where
  "commit_edges X s = stale_edges X (ss_records s) (ss_current_pointers s) (ss_invalidated_refs s)"

lemma commit_candidate_refs:
  assumes "commit_candidate X s contract reference proof = Ok c"
  obtains previous where "lineage_predecessor s contract reference = Ok previous"
    and "set (ss_current_pointers c) = insert reference {p \<in> set (ss_current_pointers s). \<not> same_object p reference}"
    and "set (ss_invalidated_refs c) = set (ss_invalidated_refs s) \<union>
      (case previous of None \<Rightarrow> {} | Some p0 \<Rightarrow> {p. (p, p0) \<in> (commit_edges X s)\<^sup>+})"
proof (rule commit_candidate_Ok [OF assms])
  fix previous c1
  assume l: "lineage_predecessor s contract reference = Ok previous"
    and c1: "(case previous of None \<Rightarrow> Ok s | Some p \<Rightarrow> invalidate_dependents X s p) = Ok c1"
    and c: "ss_current_pointers c = replace_pointer (ss_current_pointers c1) reference"
      "ss_invalidated_refs c = ss_invalidated_refs c1"
  from c1 have "ss_current_pointers c1 = ss_current_pointers s" "set (ss_invalidated_refs c1) = set (ss_invalidated_refs s) \<union>
      (case previous of None \<Rightarrow> {} | Some p0 \<Rightarrow> {p. (p, p0) \<in> (commit_edges X s)\<^sup>+})"
    by (auto simp: commit_edges_def dest: invalidate_dependents_Ok split: option.splits)
  with c l that show thesis by (simp add: set_replace_pointer)
qed

text \<open>
  C21: What a superseded revision invalidates. The work list adds exactly the current references that depend on
  it, directly or through other current ones, and nothing else changes among records and pointers.
\<close>

theorem invalidation_is_dependency_closure:
  assumes "invalidate_dependents X s stale = Ok c"
  shows "set (ss_invalidated_refs c) = set (ss_invalidated_refs s) \<union> {p. (p, stale) \<in> (commit_edges X s)\<^sup>+} \<and>
    ss_records c = ss_records s \<and> ss_current_pointers c = ss_current_pointers s"
  using invalidate_dependents_Ok [OF assms] by (simp add: commit_edges_def)

text \<open>
  C20: Freshness. A commit leaves no stale dependent behind: a reference other than the committed one that is
  current after the commit was current before it, and each of its dependencies that was current still is.
\<close>

theorem commit_withdraws_stale_dependents:
  assumes "validate_snapshot X s = Ok ()" and "commit_candidate X s contract reference proof = Ok c"
    and "reference_is_current c p" and "p \<noteq> reference" and "find_record X (ss_records s) p = Some r"
  shows "reference_is_current s p \<and>
    (\<forall>d \<in> set (snapshot_dependencies r). reference_is_current s d \<longrightarrow> reference_is_current c d)"
proof (rule commit_candidate_refs [OF assms(2)])
  fix previous
  assume l: "lineage_predecessor s contract reference = Ok previous"
    and ptr: "set (ss_current_pointers c) = insert reference {p \<in> set (ss_current_pointers s). \<not> same_object p reference}"
    and inv: "set (ss_invalidated_refs c) = set (ss_invalidated_refs s) \<union>
      (case previous of None \<Rightarrow> {} | Some p0 \<Rightarrow> {p. (p, p0) \<in> (commit_edges X s)\<^sup>+})"
  have p: "p \<in> set (ss_current_pointers s)" "\<not> same_object p reference" "p \<notin> set (ss_invalidated_refs s)"
    "p \<notin> set (ss_invalidated_refs c)"
    using assms(3,4) ptr inv by (auto simp: reference_is_current_def)
  have "reference_is_current c d" if d: "d \<in> set (snapshot_dependencies r)" "reference_is_current s d" for d
  proof (cases previous)
    case None
    with l have "find (\<lambda>q. same_object q reference) (ss_current_pointers s) = None"
      by (auto simp: lineage_predecessor_def split: option.splits if_splits)
    with d(2) None ptr inv show ?thesis by (auto simp: reference_is_current_def find_None_iff)
  next
    case (Some p0)
    with l have "find (\<lambda>q. same_object q reference) (ss_current_pointers s) = Some p0"
      by (auto simp: lineage_predecessor_def split: option.splits if_splits)
    from find_mem [OF this] have p0: "same_object p0 reference" "p0 \<in> set (ss_current_pointers s)" by auto
    have edge: "(p, q) \<in> commit_edges X s" if "q \<in> set (snapshot_dependencies r)" "\<not> same_object p q" for q
      using that p assms(5) by (auto simp: commit_edges_def stale_edges_def)
    have no_path: "(p, p0) \<notin> (commit_edges X s)\<^sup>+" using p(4) inv Some by auto
    have "\<not> same_object d reference"
    proof
      assume "same_object d reference"
      then have "d = p0"
        using validated_pointers_unique [OF assms(1) _ p0(2)] d(2) p0(1)
        by (auto simp: reference_is_current_def same_object_def)
      moreover have "\<not> same_object p p0" using p(2) p0(1) same_object_trans by blast
      ultimately show False using edge [OF d(1)] no_path by auto
    qed
    moreover have "(d, p0) \<notin> (commit_edges X s)\<^sup>+"
    proof
      assume path: "(d, p0) \<in> (commit_edges X s)\<^sup>+"
      have "p \<noteq> d" using path no_path by auto
      then have "\<not> same_object p d"
        using validated_pointers_unique [OF assms(1) p(1)] d(2) by (auto simp: reference_is_current_def)
      with edge [OF d(1)] path no_path show False by (meson trancl_into_trancl2)
    qed
    ultimately show ?thesis using d(2) ptr inv Some by (auto simp: reference_is_current_def)
  qed
  with p show ?thesis by (auto simp: reference_is_current_def)
qed

section \<open>Two gaps\<close>

lemma collect_record_refs_found:
  "collect_record_refs X refs records = Ok refs' \<Longrightarrow> r \<in> set refs' \<Longrightarrow> r \<in> set refs \<or> find_record X records r \<noteq> None"
  by (induction X refs records arbitrary: refs' rule: collect_record_refs.induct)
    (auto simp: and_then_eq_Ok map_err_eq_Ok find_record_def split: if_splits)

lemma validated_invalidated_found:
  assumes "validate_snapshot X s = Ok ()" and "r \<in> set (ss_invalidated_refs s)"
  shows "find_record X (ss_records s) r \<noteq> None"
  using assms
  by (auto simp: validate_snapshot_def and_then_eq_Ok for_each_eq_Ok validate_invalidated_def
      dest!: collect_record_refs_found split: if_splits)

text \<open>
  A revision may rest on what it displaces. When a new revision of a contract depends on a record that itself
  depends on the previous revision, the dependencies are checked before the previous revision is superseded and
  not again after: the commit makes the new revision current while the record it depends on is invalidated.
\<close>

theorem commit_admits_displaced_dependency:
  assumes "validate_snapshot X s = Ok ()" and "find_record X (ss_records s) reference = None"
    and "commit_candidate X s contract reference proof = Ok c"
    and "lineage_predecessor s contract reference = Ok (Some p0)"
    and "b \<in> set (snapshot_dependencies contract)" and "find_record X (ss_records s) b = Some r"
    and "p0 \<in> set (snapshot_dependencies r)" and "\<not> same_object b p0"
  shows "reference_is_current c reference \<and> \<not> reference_is_current c b"
proof (rule commit_candidate_refs [OF assms(3)])
  fix previous
  assume l: "lineage_predecessor s contract reference = Ok previous"
    and ptr: "set (ss_current_pointers c) = insert reference {p \<in> set (ss_current_pointers s). \<not> same_object p reference}"
    and inv: "set (ss_invalidated_refs c) = set (ss_invalidated_refs s) \<union>
      (case previous of None \<Rightarrow> {} | Some p0 \<Rightarrow> {p. (p, p0) \<in> (commit_edges X s)\<^sup>+})"
  from l assms(4) have prev: "previous = Some p0" by simp
  have "(reference, q) \<notin> commit_edges X s" for q
    using assms(2) by (auto simp: commit_edges_def stale_edges_def)
  then have "(reference, p0) \<notin> (commit_edges X s)\<^sup>+" by (meson tranclD)
  moreover have "reference \<notin> set (ss_invalidated_refs s)"
    using validated_invalidated_found [OF assms(1)] assms(2) by blast
  moreover have "list_all (dependency_is_current X s) (snapshot_dependencies contract)"
    by (rule commit_candidate_Ok [OF assms(3)]) simp
  with assms(5) have "dependency_is_current X s b" by (simp add: list_all_iff)
  then have "b \<in> set (ss_current_pointers s)" "b \<notin> set (ss_invalidated_refs s)"
    by (auto simp: dependency_is_current_def dest: find_mem)
  with assms(6-8) have "(b, p0) \<in> commit_edges X s" by (auto simp: commit_edges_def stale_edges_def)
  ultimately show ?thesis using ptr inv prev by (auto simp: reference_is_current_def)
qed

text \<open>
  A dispatched attempt can expire into a retry. Marking the dispatch again after the lease, the proof or the
  authorization has ended reports an expired lease, and durably turns the attempt into an expired one: its
  external effect is unknown, yet its status permits the next attempt.
\<close>

theorem dispatched_attempt_expires_into_retry:
  assumes "serde_round_trips D" and "loadable D X disk s"
    and "find (\<lambda>r. es_reservation_id r = ep_reservation_id permit) (ss_execution_reservations s) = Some r"
    and "es_attempts r = earlier @ [a]" and "at_status a = ER_Dispatched" and "reference_is_current s (es_action_ref r)"
    and "validate_permit_matches_attempt permit (es_reservation_id r) (es_action_ref r) a = Ok ()"
    and "attempt_authority_expired a now"
    and "seal_next_snapshot X (write_last_attempt (ep_reservation_id permit) (a\<lparr>at_status := ER_Expired\<rparr>) s) s = Ok c"
    and "validate_snapshot X c = Ok ()" and "sd_snapshot_to_vec D c \<noteq> None" and "reads_back D c"
  shows "\<exists>disk'. mark_execution_dispatched D X (Some now) Append_Done (Renamed Append_Done) permit disk =
      (disk', Err SE_ExecutionLeaseExpired) \<and> settled D X disk' c \<and>
    (\<exists>r' \<in> set (ss_execution_reservations c). es_action_ref r' = es_action_ref r \<and>
      permits_retry (at_status (last (es_attempts r'))) \<and>
      at_dispatched_at (last (es_attempts r')) = at_dispatched_at a)"
proof -
  have i: "es_reservation_id r = ep_reservation_id permit" using find_mem [OF assms(3)] by simp
  obtain d1 where load: "load_snapshot D X Append_Done disk = (d1, Ok s)" "settled D X d1 s"
    using loadable_load [OF assms(1,2)] by blast
  obtain disk' where persist: "persist_next D X (Renamed Append_Done) s
      (write_last_attempt (ep_reservation_id permit) (a\<lparr>at_status := ER_Expired\<rparr>) s) d1 = (disk', Ok ())"
    "settled D X disk' c"
    using persist_next_done [OF assms(1) load(2) assms(9,10,11,12)] by blast
  have t: "transition_attempt True now ER_Delivered ER_Dispatched a =
      Ok (Some (a\<lparr>at_status := ER_Expired\<rparr>), Some SE_ExecutionLeaseExpired)"
    using assms(8) by (simp add: transition_attempt_def)
  have mark: "mark_execution_dispatched D X (Some now) Append_Done (Renamed Append_Done) permit disk =
      (disk', Err SE_ExecutionLeaseExpired)"
    using load(1) persist(1) assms(3-7) t
    by (simp add: mark_execution_dispatched_def transition_execution_permit_def io_then_def io_lift_def i Let_def report_def)
  let ?f = "\<lambda>r. r\<lparr>es_attempts := update_last (\<lambda>_. a\<lparr>at_status := ER_Expired\<rparr>) (es_attempts r)\<rparr>"
  have "?f r \<in> set (ss_execution_reservations c)"
    using update_first_mem [OF assms(3), of ?f] seal_next_snapshot_Ok(6) [OF assms(9)]
    by (simp add: write_last_attempt_def)
  moreover have "last (es_attempts (?f r)) = a\<lparr>at_status := ER_Expired\<rparr>" using assms(4) by (simp add: update_last_def)
  ultimately show ?thesis using mark persist(2) by (intro exI conjI bexI [of _ "?f r"]) (auto simp: permits_retry_def)
qed

section \<open>Witnesses\<close>

text \<open>
  Four intents: the second depends on the first, the fourth on the third; and two second revisions of the
  first, one of which depends on the second intent.
\<close>

definition intent_a :: HumanCenteredContractSnapshotV1 where
  "intent_a = SN_Intent (sample_intent 81 1 None [])"

definition intent_b :: HumanCenteredContractSnapshotV1 where
  "intent_b = SN_Intent (sample_intent 82 1 None [sample_reference HK_Intent 81 1])"

definition intent_c :: HumanCenteredContractSnapshotV1 where
  "intent_c = SN_Intent (sample_intent 83 1 None [])"

definition intent_d :: HumanCenteredContractSnapshotV1 where
  "intent_d = SN_Intent (sample_intent 84 1 None [sample_reference HK_Intent 83 1])"

definition intent_a2 :: "HumanCenteredContractRefV1 list \<Rightarrow> HumanCenteredContractSnapshotV1" where
  "intent_a2 dependencies = SN_Intent (sample_intent 81 2 (Some (sample_reference HK_Intent 81 1)) dependencies)"

definition intent_store :: HumanCenteredStoreSnapshotV1 where
  "intent_store = sample_snapshot 4 [intent_a, intent_b, intent_c, intent_d]
     [sample_reference HK_Intent 81 1, sample_reference HK_Intent 82 1, sample_reference HK_Intent 83 1,
      sample_reference HK_Intent 84 1] []"

lemma sample_reference_simps [simp]:
  "sample_reference k i n = sample_reference k' i' n' \<longleftrightarrow> k = k' \<and> i = i' \<and> n = n'"
  "cr_kind (sample_reference k i n) = k" "cr_contract_id (sample_reference k i n) = i"
  "cr_revision (sample_reference k i n) = n"
  by (auto simp: sample_reference_def)

lemma sample_reference_order:
  "sample_reference k i n \<le> sample_reference k j n' \<longleftrightarrow> unat i < unat j \<or> i = j \<and> unat n \<le> unat n'"
  by (auto simp: less_eq_HumanCenteredContractRefV1_def contract_ref_key_def sample_reference_def word_unat_eq_iff)

lemma first_intent_metadata:
  assumes "i \<noteq> 0" and "\<forall>r \<in> set deps. HumanCenteredContractRefV1_validate r = Ok () \<and> cr_contract_id r \<noteq> i"
  shows "HumanCenteredContractMetadataV1_validate (store_metadata HK_Intent i 1 None deps) = Ok ()"
  using assms by (intro store_metadata_validate) (auto simp: validate_lineage_def store_metadata_def)

lemma second_intent_metadata:
  assumes "i \<noteq> 0" and "\<forall>r \<in> set deps. HumanCenteredContractRefV1_validate r = Ok () \<and> cr_contract_id r \<noteq> i"
  shows "HumanCenteredContractMetadataV1_validate
    (store_metadata HK_Intent i 2 (Some (sample_reference HK_Intent i 1)) deps) = Ok ()"
  using assms by (intro store_metadata_validate) (auto simp: validate_lineage_def store_metadata_def checked_add_def)

lemma intents_validate [simp]:
  "snapshot_contract_validate sample_crates intent_a = Ok ()" "snapshot_contract_validate sample_crates intent_b = Ok ()"
  "snapshot_contract_validate sample_crates intent_c = Ok ()" "snapshot_contract_validate sample_crates intent_d = Ok ()"
  by (simp_all add: intent_a_def intent_b_def intent_c_def intent_d_def sample_intent_validate first_intent_metadata)

lemma intents_record_ref [simp]:
  "snapshot_record_ref sample_crates intent_a = Ok (sample_reference HK_Intent 81 1)"
  "snapshot_record_ref sample_crates intent_b = Ok (sample_reference HK_Intent 82 1)"
  "snapshot_record_ref sample_crates intent_c = Ok (sample_reference HK_Intent 83 1)"
  "snapshot_record_ref sample_crates intent_d = Ok (sample_reference HK_Intent 84 1)"
  by (simp_all add: intent_a_def intent_b_def intent_c_def intent_d_def sample_intent_record_ref first_intent_metadata)

lemma intents_metadata [simp]:
  "snapshot_dependencies intent_a = []" "snapshot_dependencies intent_b = [sample_reference HK_Intent 81 1]"
  "snapshot_dependencies intent_c = []" "snapshot_dependencies intent_d = [sample_reference HK_Intent 83 1]"
  "snapshot_predecessor intent_a = None" "snapshot_predecessor intent_b = None"
  "snapshot_predecessor intent_c = None" "snapshot_predecessor intent_d = None"
  "snapshot_dependencies (intent_a2 deps) = deps"
  "snapshot_predecessor (intent_a2 deps) = Some (sample_reference HK_Intent 81 1)"
  by (simp_all add: intent_a_def intent_b_def intent_c_def intent_d_def intent_a2_def sample_intent_def store_metadata_def)

lemma intents_consistent [simp]:
  "validate_cross_object_consistency X intent_a prior rs" "validate_cross_object_consistency X intent_b prior rs"
  "validate_cross_object_consistency X intent_c prior rs" "validate_cross_object_consistency X intent_d prior rs"
  "validate_cross_object_consistency X (intent_a2 deps) prior rs" "receipt_record (intent_a2 deps) = None"
  by (simp_all add: intent_a_def intent_b_def intent_c_def intent_d_def intent_a2_def)

text \<open>Evaluates the first computation before what follows it.\<close>

lemma and_then_weak_cong: "r = r' \<Longrightarrow> and_then r f = and_then r' f"
  by simp

lemma intent_store_validate: "validate_snapshot sample_crates intent_store = Ok ()"
proof -
  let ?r = "\<lambda>i. sample_reference HK_Intent i 1"
  have h: "validate_snapshot_header sample_crates intent_store = Ok ()"
    using sample_texts(9)
    by (simp add: validate_snapshot_header_def sample_snapshot_digest) (simp add: intent_store_def sample_snapshot_def)
  have c: "collect_record_refs sample_crates [] [intent_a, intent_b, intent_c, intent_d] = Ok [?r 81, ?r 82, ?r 83, ?r 84]"
    by (simp add: revision_key_def)
  let ?refs = "[?r 81, ?r 82, ?r 83, ?r 84]"
  have before: "recorded_before ?refs (?r 81) (Suc 0)" "recorded_before ?refs (?r 83) (Suc (Suc (Suc 0)))"
    by (simp_all add: recorded_before_def record_positions_def upt_rec)
  have v: "validate_record_history sample_crates ?refs [] [] [intent_a, intent_b, intent_c, intent_d] []
      = Ok [((HK_Intent, 81), ?r 81), ((HK_Intent, 82), ?r 82), ((HK_Intent, 83), ?r 83), ((HK_Intent, 84), ?r 84)]"
    by (simp add: note_latest_def object_key_def before cong: and_then_weak_cong)
  have p: "\<exists>ids. validate_pointers [?r 81, ?r 82, ?r 83, ?r 84]
      [((HK_Intent, 81), ?r 81), ((HK_Intent, 82), ?r 82), ((HK_Intent, 83), ?r 83), ((HK_Intent, 84), ?r 84)]
      [?r 81, ?r 82, ?r 83, ?r 84] [] = Ok ids \<and> length ids = 4"
    by (simp add: object_key_def)
  have r: "replay_history sample_crates [intent_a, intent_b, intent_c, intent_d] =
      Ok (default_snapshot\<lparr>ss_records := [intent_a, intent_b, intent_c, intent_d],
        ss_current_pointers := [?r 81, ?r 82, ?r 83, ?r 84]\<rparr>)"
    by (simp add: replay_history_def replay_step_def default_snapshot_def replace_pointer_def same_object_def
        sample_reference_order insort_key.simps)
  from p obtain ids where "validate_pointers [?r 81, ?r 82, ?r 83, ?r 84]
      [((HK_Intent, 81), ?r 81), ((HK_Intent, 82), ?r 82), ((HK_Intent, 83), ?r 83), ((HK_Intent, 84), ?r 84)]
      [?r 81, ?r 82, ?r 83, ?r 84] [] = Ok ids" "length ids = 4" by blast
  with h c v r show ?thesis
    by (simp add: validate_snapshot_def) (simp add: intent_store_def sample_snapshot_def default_snapshot_def)
qed

lemma intents_found [simp]:
  "find_record sample_crates [intent_a, intent_b, intent_c, intent_d] (sample_reference HK_Intent 81 1) = Some intent_a"
  "find_record sample_crates [intent_a, intent_b, intent_c, intent_d] (sample_reference HK_Intent 82 1) = Some intent_b"
  "find_record sample_crates [intent_a, intent_b, intent_c, intent_d] (sample_reference HK_Intent 83 1) = Some intent_c"
  "find_record sample_crates [intent_a, intent_b, intent_c, intent_d] (sample_reference HK_Intent 84 1) = Some intent_d"
  "find_record sample_crates [intent_a, intent_b, intent_c, intent_d] (sample_reference HK_Intent 81 2) = None"
  by (simp_all add: find_record_def)

lemma intent_store_simps [simp]:
  "ss_records intent_store = [intent_a, intent_b, intent_c, intent_d]"
  "ss_current_pointers intent_store = [sample_reference HK_Intent 81 1, sample_reference HK_Intent 82 1,
     sample_reference HK_Intent 83 1, sample_reference HK_Intent 84 1]"
  "ss_invalidated_refs intent_store = []" "ss_execution_reservations intent_store = []"
  by (simp_all add: intent_store_def sample_snapshot_def)

lemma intent_invalidation:
  "invalidate_dependents sample_crates intent_store (sample_reference HK_Intent 81 1) =
     Ok (intent_store\<lparr>ss_invalidated_refs := [sample_reference HK_Intent 82 1]\<rparr>)"
  by (simp add: invalidate_dependents_def invalidate_execution_reservation_def same_object_def sort_dedup_def
      reconcile_invalidated_execution_reservations_def cong: and_then_weak_cong)

lemma invalidation_is_dependency_closure_witness:
  "{p. (p, sample_reference HK_Intent 81 1) \<in> (commit_edges sample_crates intent_store)\<^sup>+} =
     {sample_reference HK_Intent 82 1}"
  using invalidation_is_dependency_closure [OF intent_invalidation] by simp

lemma intent_lineage:
  "lineage_predecessor intent_store (intent_a2 deps) (sample_reference HK_Intent 81 2) =
     Ok (Some (sample_reference HK_Intent 81 1))"
  by (simp add: lineage_predecessor_def same_object_def checked_add_def)

lemma intent_commit:
  assumes "deps = [] \<or> deps = [sample_reference HK_Intent 82 1]"
  shows "\<exists>c. commit_candidate sample_crates intent_store (intent_a2 deps) (sample_reference HK_Intent 81 2) None = Ok c \<and>
    reference_is_current c (sample_reference HK_Intent 84 1)"
proof -
  have l: "lineage_context_is_continuous (snapshot_metadata intent_a) (snapshot_metadata (intent_a2 deps))"
    by (simp add: lineage_context_is_continuous_def intent_a_def intent_a2_def sample_intent_def store_metadata_def)
  have d: "dependency_is_current sample_crates intent_store (sample_reference HK_Intent 82 1)"
    by (simp add: dependency_is_current_def same_object_def)
  show ?thesis
    using assms l d
    by (auto simp: commit_candidate_def intent_lineage intent_invalidation reference_is_current_def set_replace_pointer
        same_object_def cong: and_then_weak_cong)
qed

lemma commit_withdraws_stale_dependents_witness:
  "\<exists>c. commit_candidate sample_crates intent_store (intent_a2 []) (sample_reference HK_Intent 81 2) None = Ok c \<and>
     reference_is_current c (sample_reference HK_Intent 84 1) \<and> reference_is_current c (sample_reference HK_Intent 83 1)"
proof -
  from intent_commit [of "[]"] obtain c where
    c: "commit_candidate sample_crates intent_store (intent_a2 []) (sample_reference HK_Intent 81 2) None = Ok c"
    "reference_is_current c (sample_reference HK_Intent 84 1)" by auto
  have "reference_is_current intent_store (sample_reference HK_Intent 83 1)" by (simp add: reference_is_current_def)
  with commit_withdraws_stale_dependents [OF intent_store_validate c, of intent_d] c show ?thesis by simp
qed

lemma commit_admits_displaced_dependency_witness:
  "\<exists>c. commit_candidate sample_crates intent_store (intent_a2 [sample_reference HK_Intent 82 1])
       (sample_reference HK_Intent 81 2) None = Ok c \<and>
     reference_is_current c (sample_reference HK_Intent 81 2) \<and> \<not> reference_is_current c (sample_reference HK_Intent 82 1)"
proof -
  from intent_commit [of "[sample_reference HK_Intent 82 1]"] obtain c where
    c: "commit_candidate sample_crates intent_store (intent_a2 [sample_reference HK_Intent 82 1])
      (sample_reference HK_Intent 81 2) None = Ok c" by auto
  have "find_record sample_crates (ss_records intent_store) (sample_reference HK_Intent 81 2) = None"
    "sample_reference HK_Intent 82 1 \<in> set (snapshot_dependencies (intent_a2 [sample_reference HK_Intent 82 1]))"
    "find_record sample_crates (ss_records intent_store) (sample_reference HK_Intent 82 1) = Some intent_b"
    "sample_reference HK_Intent 81 1 \<in> set (snapshot_dependencies intent_b)"
    "\<not> same_object (sample_reference HK_Intent 82 1) (sample_reference HK_Intent 81 1)"
    by (simp_all add: same_object_def)
  from commit_admits_displaced_dependency [OF intent_store_validate this(1) c intent_lineage this(2-5)] c
  show ?thesis by blast
qed

lemma loaded_snapshot_exclusive_witness:
  "exclusive (sample_action_store 2 [sample_attempt 77 101 (CHR ''a'') 1 100 ER_PermitIssued None None])"
  by (rule loaded_snapshot_exclusive [where X = sample_crates], rule sample_store_one_attempt)
    (simp_all add: hex_byte_def attempt_timing_valid_def attempt_status_valid_def)

lemma sample_run_issue:
  "\<exists>disk' permit. issue_execution_permit sample_run_serde sample_crates (Some 100) Append_Done (Renamed Append_Done) 95
     (sample_verified_request 77 101 (CHR ''a'') 1 100) sample_disk = (disk', Ok permit)"
proof -
  let ?s = "sample_action_store 1 []"
    and ?c = "sample_action_store 2 [sample_attempt 77 101 (CHR ''a'') 1 100 ER_PermitIssued None None]"
  have D: "serde_round_trips sample_run_serde" by (simp add: sample_run_serde_def sample_serde_round_trips)
  obtain d where load: "load_snapshot sample_run_serde sample_crates Append_Done sample_disk = (d, Ok ?s)"
    "settled sample_run_serde sample_crates d ?s"
    using loadable_load [OF D sample_run_loadable] by blast
  have seal: "seal_next_snapshot sample_crates (?s\<lparr>ss_execution_reservations := ss_execution_reservations ?c\<rparr>) ?s = Ok ?c"
    by (simp add: seal_next_snapshot_def sample_snapshot_digest)
      (simp add: sample_action_store_def sample_snapshot_def checked_add_def word_le_nat_alt)
  have valid: "validate_snapshot sample_crates ?c = Ok ()"
    by (rule sample_store_one_attempt) (simp_all add: hex_byte_def attempt_timing_valid_def attempt_status_valid_def)
  have reads: "reads_back sample_run_serde ?c" by (simp add: sample_run_serde_def sample_serde_exact)
  have "?s \<noteq> ?c" by (simp add: sample_action_store_def sample_snapshot_def)
  then have "sd_snapshot_to_vec sample_run_serde ?c \<noteq> None"
    by (simp add: sample_run_serde_def sample_serde_def upt_rec)
  from persist_next_done [OF D load(2) seal valid this reads] obtain d' where
    "persist_next sample_run_serde sample_crates (Renamed Append_Done) ?s
      (?s\<lparr>ss_execution_reservations := ss_execution_reservations ?c\<rparr>) d = (d', Ok ())" by blast
  with load(1) sample_issue_candidate show ?thesis
    by (simp add: issue_execution_permit_def io_then_def io_lift_def)
qed


lemma rollback_is_detected_witness:
  "snd (load_snapshot sample_run_serde sample_crates Append_Done
     ((fst (load_snapshot sample_run_serde sample_crates Append_Done sample_disk))\<lparr>sk_snapshot := None\<rparr>)) =
   Err SE_RollbackDetected"
proof -
  have D: "serde_round_trips sample_run_serde" by (simp add: sample_run_serde_def sample_serde_round_trips)
  let ?d = "(fst (load_snapshot sample_run_serde sample_crates Append_Done sample_disk))\<lparr>sk_snapshot := None\<rparr>"
  have "read_snapshot sample_run_serde ?d = (?d, Ok default_snapshot)" by (simp add: read_snapshot_def)
  moreover have "validate_snapshot sample_crates default_snapshot = Ok ()"
    using empty_disk_settled by (auto simp: settled_def)
  moreover have "\<not> same_or_next (sample_action_store 1 []) default_snapshot"
    by (simp add: same_or_next_def anchor_of_def sample_action_store_def sample_snapshot_def default_snapshot_def checked_add_def)
  ultimately show ?thesis
    by (intro rollback_is_detected [OF D loadable_load_Ok [OF D sample_run_loadable]]) simp_all
qed

text \<open>A dispatched attempt, its permit, and the store before and after it expired.\<close>

definition sample_dispatched :: "ExecutionReservationStatusV1 \<Rightarrow> ExecutionAttemptRecordV1" where
  "sample_dispatched status = sample_attempt 77 101 (CHR ''a'') 1 100 status (Some 110) (Some 120)"

definition sample_expiry_serde :: store_serde where
  "sample_expiry_serde = sample_serde [sample_action_store 1 [sample_dispatched ER_Dispatched],
     sample_action_store 2 [sample_dispatched ER_Expired]]"

definition sample_permit :: ExecutionPermitV1 where
  "sample_permit = \<lparr>ep_reservation_id = 95, ep_permit_id = 101, ep_proof_key_id = ''key:k'',
     ep_proof_verified_at = 100, ep_issued_at = 100, ep_request = sample_permit_request 77 1 (CHR ''a'') 100\<rparr>"

lemma sample_dispatched_validate:
  assumes "n \<noteq> 0" and "status \<in> {ER_Dispatched, ER_Expired}"
  shows "validate_snapshot sample_crates (sample_action_store n [sample_dispatched status]) = Ok ()"
  unfolding sample_dispatched_def
  using assms
  by (intro sample_store_one_attempt)
    (auto simp: hex_byte_def attempt_timing_valid_def attempt_status_valid_def)

lemma sample_expiry_loadable:
  "loadable sample_expiry_serde sample_crates sample_disk (sample_action_store 1 [sample_dispatched ER_Dispatched])"
  using sample_disk_loadable [of "[sample_action_store 1 [sample_dispatched ER_Dispatched],
     sample_action_store 2 [sample_dispatched ER_Expired]]"] sample_dispatched_validate [of 1 ER_Dispatched]
  by (simp add: sample_expiry_serde_def) (simp add: sample_action_store_def sample_snapshot_def)

lemma dispatched_attempt_expires_into_retry_witness:
  "\<exists>disk'. snd (mark_execution_dispatched sample_expiry_serde sample_crates (Some 250) Append_Done (Renamed Append_Done)
       sample_permit sample_disk) = Err SE_ExecutionLeaseExpired \<and>
     settled sample_expiry_serde sample_crates disk' (sample_action_store 2 [sample_dispatched ER_Expired])"
proof -
  let ?a = "sample_dispatched ER_Dispatched"
  let ?s = "sample_action_store 1 [?a]" and ?c = "sample_action_store 2 [sample_dispatched ER_Expired]"
  let ?r = "hd (ss_execution_reservations ?s)"
  have D: "serde_round_trips sample_expiry_serde" by (simp add: sample_expiry_serde_def sample_serde_round_trips)
  have r: "find (\<lambda>r. es_reservation_id r = ep_reservation_id sample_permit) (ss_execution_reservations ?s) = Some ?r"
    "es_attempts ?r = [] @ [?a]" "reference_is_current ?s (es_action_ref ?r)"
    by (simp_all add: sample_action_store_def sample_snapshot_def sample_permit_def reference_is_current_def)
  have a: "at_status ?a = ER_Dispatched" "attempt_authority_expired ?a 250"
    by (simp_all add: sample_dispatched_def attempt_authority_expired_def sample_permit_request_def)
  have m: "validate_permit_matches_attempt sample_permit (es_reservation_id ?r) (es_action_ref ?r) ?a = Ok ()"
    by (simp add: validate_permit_matches_attempt_def sample_permit_def sample_dispatched_def sample_permit_request_def
        sample_action_store_def sample_snapshot_def)
  have "?a\<lparr>at_status := ER_Expired\<rparr> = sample_dispatched ER_Expired" by (simp add: sample_dispatched_def sample_attempt_def)
  then have seal: "seal_next_snapshot sample_crates
      (write_last_attempt (ep_reservation_id sample_permit) (?a\<lparr>at_status := ER_Expired\<rparr>) ?s) ?s = Ok ?c"
    by (simp add: seal_next_snapshot_def sample_snapshot_digest)
      (simp add: write_last_attempt_def update_last_def sample_permit_def sample_action_store_def sample_snapshot_def
        checked_add_def word_le_nat_alt)
  have reads: "reads_back sample_expiry_serde ?c" by (simp add: sample_expiry_serde_def sample_serde_exact)
  have "?s \<noteq> ?c" by (simp add: sample_action_store_def sample_snapshot_def)
  then have "sd_snapshot_to_vec sample_expiry_serde ?c \<noteq> None"
    by (simp add: sample_expiry_serde_def sample_serde_def upt_rec)
  from dispatched_attempt_expires_into_retry [OF D sample_expiry_loadable r(1,2) a(1) r(3) m a(2) seal
      sample_dispatched_validate this reads] show ?thesis by auto
qed

end
