(* ===== verification/IDR_Authority.thy ===== *)
theory IDR_Authority
  imports IDR_Engine_Lemmas
begin

text \<open>
  The parts of the PostgreSQL authority (\<open>idr-runtime/src/postgres_authority.rs\<close>) that decide
  without the database: the attestation key with its HMAC, the rotating trust root, audit
  checkpoints with the in-memory anchor, the security context, the gates of start-up and of
  commands, the proof assertions, and the material that an attestation authenticates.
  \<open>IDR_Database\<close> holds the tables, \<open>IDR_Transact\<close> the transaction of a command.

  A key file, the environment variable that names it and the release features are arguments.
\<close>

section \<open>Constants and names\<close>

definition EXPECTED_SCHEMA_MIGRATION_VERSION_V1 :: int where
  "EXPECTED_SCHEMA_MIGRATION_VERSION_V1 = 8"

definition ORCHESTRATOR_ATTESTATION_KEY_VERSION_V1 :: int where
  "ORCHESTRATOR_ATTESTATION_KEY_VERSION_V1 = 1"

definition ZERO_RUN_ID_V1 :: uuid where
  "ZERO_RUN_ID_V1 = 0"

text \<open>The serialization of the unit enums, and \<open>enum_name\<close> on a serialized value.\<close>

fun IdrRunStateV1_name :: "IdrRunStateV1 \<Rightarrow> string" where
  "IdrRunStateV1_name RS_Pending = ''pending''"
| "IdrRunStateV1_name RS_Running = ''running''"
| "IdrRunStateV1_name RS_WaitingInput = ''waiting_input''"
| "IdrRunStateV1_name RS_WaitingAuthorization = ''waiting_authorization''"
| "IdrRunStateV1_name RS_WaitingDependency = ''waiting_dependency''"
| "IdrRunStateV1_name RS_ReconciliationRequired = ''reconciliation_required''"
| "IdrRunStateV1_name RS_Succeeded = ''succeeded''"
| "IdrRunStateV1_name RS_Rejected = ''rejected''"
| "IdrRunStateV1_name RS_Failed = ''failed''"
| "IdrRunStateV1_name RS_Cancelled = ''cancelled''"
| "IdrRunStateV1_name RS_TimedOut = ''timed_out''"
| "IdrRunStateV1_name RS_Invalidated = ''invalidated''"

definition enum_name :: "json \<Rightarrow> (IdrRuntimeErrorV1, string) result" where
  "enum_name serialized = ok_or (json_as_str serialized) RE_Serialization"

definition trust_domain_name :: "TrustDomainV1 \<Rightarrow> (IdrRuntimeErrorV1, string) result" where
  "trust_domain_name domain = enum_name (TrustDomainV1_json domain)"

lemma trust_domain_name_Ok [simp]: "trust_domain_name d = Ok (TrustDomainV1_name d)"
  by (simp add: trust_domain_name_def enum_name_def TrustDomainV1_json_def)

text \<open>An \<open>i64\<close> is an \<open>int\<close> in its range.\<close>

definition i64_from_u64 :: "u64 \<Rightarrow> (IdrRuntimeErrorV1, int) result" where
  "i64_from_u64 v = (if uint v < 2 ^ 63 then Ok (uint v) else Err RE_Serialization)"

definition u64_try_from :: "int \<Rightarrow> u64 option" where
  "u64_try_from i = (if 0 \<le> i \<and> i < 2 ^ 64 then Some (word_of_int i) else None)"

lemma u64_try_from_i64: "i64_from_u64 v = Ok i \<Longrightarrow> u64_try_from i = Some v"
  by (auto simp: i64_from_u64_def u64_try_from_def split: if_splits)

lemma i64_from_u64_inj: "i64_from_u64 v = Ok i \<Longrightarrow> i64_from_u64 w = Ok i \<Longrightarrow> v = w"
  by (auto simp: i64_from_u64_def word_uint_eq_iff split: if_splits)

section \<open>The attestation key\<close>

record OrchestratorAttestationKeyV1 =
  ak_bytes :: bytes
  ak_version :: int

definition OrchestratorAttestationKeyV1_random_shadow_key ::
  "bytes \<Rightarrow> bytes \<Rightarrow> OrchestratorAttestationKeyV1" where
  "OrchestratorAttestationKeyV1_random_shadow_key first second =
     \<lparr>ak_bytes = first @ second, ak_version = ORCHESTRATOR_ATTESTATION_KEY_VERSION_V1\<rparr>"

text \<open>
  What the operating system returns: the variable \<open>IDR_ORCHESTRATOR_ATTESTATION_KEY_FILE\<close>, the
  metadata (regular file, mode bits) and the content of a path.
\<close>

record key_file_system =
  kf_variable :: "string option"
  kf_metadata :: "string \<Rightarrow> (string, bool \<times> u32) result"
  kf_read_to_string :: "string \<Rightarrow> (string, string) result"

definition is_char_boundary :: "string \<Rightarrow> bool" where
  "is_char_boundary rest =
     (case rest of [] \<Rightarrow> True | c # _ \<Rightarrow> \<not> ((128 :: nat) \<le> of_char c \<and> (of_char c :: nat) < 192))"

text \<open>
  The loop over the pairs of the file. \<open>None\<close> is the panic of the slice
  \<open>&encoded[index * 2..index * 2 + 2]\<close> when a bound falls inside a character.
\<close>

fun parse_key_pairs :: "string \<Rightarrow> (IdrRuntimeErrorV1, bytes) result option" where
  "parse_key_pairs (h # l # rest) =
     (if \<not> is_char_boundary (h # l # rest) \<or> \<not> is_char_boundary rest then None
      else if \<not> list_all hex_byte [h, l]
      then Some (Err (RE_Repository ''Orchestrator attestation key must use canonical lowercase hex''))
      else (case decode_pairs [h, l] of
              Some [b] \<Rightarrow> map_option (\<lambda>r. and_then r (\<lambda>bs. Ok (char_of (unat b) # bs))) (parse_key_pairs rest)
            | _ \<Rightarrow> Some (Err (RE_Repository ''Orchestrator attestation key contains invalid hex''))))"
| "parse_key_pairs _ = Some (Ok [])"

definition parse_attestation_key ::
  "string \<Rightarrow> (IdrRuntimeErrorV1, OrchestratorAttestationKeyV1) result option" where
  "parse_attestation_key content =
     (let encoded = str_trim content in
      if length encoded \<noteq> 64
      then Some (Err (RE_Repository
        ''Orchestrator attestation key must contain exactly 64 lowercase hex characters''))
      else map_option (\<lambda>r. and_then r (\<lambda>bytes.
             Ok \<lparr>ak_bytes = bytes, ak_version = ORCHESTRATOR_ATTESTATION_KEY_VERSION_V1\<rparr>))
             (parse_key_pairs encoded))"

definition OrchestratorAttestationKeyV1_from_protected_environment_file ::
  "key_file_system \<Rightarrow> (IdrRuntimeErrorV1, OrchestratorAttestationKeyV1) result option" where
  "OrchestratorAttestationKeyV1_from_protected_environment_file K =
     (case kf_variable K of
        None \<Rightarrow> Some (Err (RE_Repository ''IDR_ORCHESTRATOR_ATTESTATION_KEY_FILE is required''))
      | Some path \<Rightarrow>
     (case kf_metadata K path of
        Err error1 \<Rightarrow> Some (Err (RE_Repository
          (''cannot inspect Orchestrator attestation key file: '' @ error1)))
      | Ok (is_file, mode) \<Rightarrow>
     if \<not> is_file \<or> mode AND 0x3F \<noteq> 0
     then Some (Err (RE_Repository ''Orchestrator attestation key must be a regular mode-0600 file''))
     else
     (case kf_read_to_string K path of
        Err error1 \<Rightarrow> Some (Err (RE_Repository
          (''cannot read Orchestrator attestation key file: '' @ error1)))
      | Ok content \<Rightarrow> parse_attestation_key content)))"

definition OrchestratorAttestationKeyV1_digest :: "crates \<Rightarrow> OrchestratorAttestationKeyV1 \<Rightarrow> string" where
  "OrchestratorAttestationKeyV1_digest X key = x_sha256_hex X (ak_bytes key)"

text \<open>The raw bytes of a digest are read off its hexadecimal form.\<close>

definition sha256_bytes :: "crates \<Rightarrow> bytes \<Rightarrow> bytes" where
  "sha256_bytes X b =
     (case decode_pairs (x_sha256_hex X b) of
        None \<Rightarrow> [] | Some raw \<Rightarrow> map (\<lambda>w. char_of (unat w)) raw)"

definition xor_byte :: "char \<Rightarrow> char \<Rightarrow> char" where
  "xor_byte a b = char_of ((of_char a :: nat) XOR of_char b)"

definition hmac_pad :: "nat \<Rightarrow> bytes \<Rightarrow> bytes" where
  "hmac_pad pad key =
     (let key_block = key @ replicate (64 - length key) (char_of (0 :: nat))
      in map (xor_byte (char_of pad)) key_block)"

definition OrchestratorAttestationKeyV1_mac ::
  "crates \<Rightarrow> OrchestratorAttestationKeyV1 \<Rightarrow> bytes \<Rightarrow> string" where
  "OrchestratorAttestationKeyV1_mac X key payload =
     (let inner_digest = sha256_bytes X (hmac_pad 0x36 (ak_bytes key) @ payload)
      in x_sha256_hex X (hmac_pad 0x5C (ak_bytes key) @ inner_digest))"

section \<open>The rotating trust root\<close>

text \<open>The content of the lock, and whether a panicking holder has poisoned it.\<close>

record RotatingTrustRootProviderV1 =
  rp_current :: TrustRootSnapshotV1
  rp_poisoned :: bool

definition RotatingTrustRootProviderV1_new :: "TrustRootSnapshotV1 \<Rightarrow> RotatingTrustRootProviderV1" where
  "RotatingTrustRootProviderV1_new snapshot = \<lparr>rp_current = snapshot, rp_poisoned = False\<rparr>"

definition RotatingTrustRootProviderV1_rotate ::
  "RotatingTrustRootProviderV1 \<Rightarrow> TrustRootSnapshotV1 \<Rightarrow>
   (IdrRuntimeErrorV1, unit) result \<times> RotatingTrustRootProviderV1" where
  "RotatingTrustRootProviderV1_rotate provider snapshot =
     (if rp_poisoned provider then (Err (RE_Repository ''Trust Root lock poisoned''), provider)
      else if tr_root_version snapshot \<le> tr_root_version (rp_current provider)
      then (Err (RE_Repository ''Trust Root version must advance monotonically''), provider)
      else (Ok (), provider\<lparr>rp_current := snapshot\<rparr>))"

definition current_snapshot ::
  "RotatingTrustRootProviderV1 \<Rightarrow> (IdrRuntimeErrorV1, TrustRootSnapshotV1) result" where
  "current_snapshot provider =
     (if rp_poisoned provider then Err (RE_Repository ''Trust Root lock poisoned'')
      else Ok (rp_current provider))"

section \<open>Audit checkpoints and their anchor\<close>

record AuditCheckpointV1 =
  ck_trust_domain :: TrustDomainV1
  ck_environment_ref :: string
  ck_tenant_ref :: string
  ck_audit_sequence :: int
  ck_chain_root :: string
  ck_record_set_root :: string
  ck_execution_state_root :: string
  ck_checkpoint_id :: uuid

definition AuditCheckpointV1_json :: "crates \<Rightarrow> AuditCheckpointV1 \<Rightarrow> json" where
  "AuditCheckpointV1_json X c = json_object [
     (''trust_domain'', TrustDomainV1_json (ck_trust_domain c)),
     (''environment_ref'', JStr (ck_environment_ref c)),
     (''tenant_ref'', JStr (ck_tenant_ref c)),
     (''audit_sequence'', jint (ck_audit_sequence c)),
     (''chain_root'', JStr (ck_chain_root c)),
     (''record_set_root'', JStr (ck_record_set_root c)),
     (''execution_state_root'', JStr (ck_execution_state_root c)),
     (''checkpoint_id'', uuid_json X (ck_checkpoint_id c))]"

text \<open>The key of a checkpoint, and the in-memory anchor: a map from keys to checkpoints.\<close>

type_synonym anchor_key = "TrustDomainV1 \<times> string \<times> string"
type_synonym InMemoryAuditCheckpointAnchorV1 = "anchor_key \<rightharpoonup> AuditCheckpointV1"

definition checkpoint_key :: "AuditCheckpointV1 \<Rightarrow> anchor_key" where
  "checkpoint_key c = (ck_trust_domain c, ck_environment_ref c, ck_tenant_ref c)"

definition load_latest ::
  "InMemoryAuditCheckpointAnchorV1 \<Rightarrow> anchor_key \<Rightarrow> (IdrRuntimeErrorV1, AuditCheckpointV1 option) result" where
  "load_latest anchor key = Ok (anchor key)"

definition checkpoint_rollback_or_fork :: "AuditCheckpointV1 \<Rightarrow> AuditCheckpointV1 \<Rightarrow> bool" where
  "checkpoint_rollback_or_fork current checkpoint \<longleftrightarrow>
     ck_audit_sequence checkpoint < ck_audit_sequence current \<or>
     ck_audit_sequence checkpoint = ck_audit_sequence current \<and>
       (ck_chain_root checkpoint \<noteq> ck_chain_root current \<or>
        ck_record_set_root checkpoint \<noteq> ck_record_set_root current \<or>
        ck_execution_state_root checkpoint \<noteq> ck_execution_state_root current)"

definition publish ::
  "InMemoryAuditCheckpointAnchorV1 \<Rightarrow> AuditCheckpointV1 \<Rightarrow>
   (IdrRuntimeErrorV1, InMemoryAuditCheckpointAnchorV1) result" where
  "publish anchor checkpoint =
     (case anchor (checkpoint_key checkpoint) of
        Some current \<Rightarrow>
          if checkpoint_rollback_or_fork current checkpoint
          then Err (RE_Repository ''external audit checkpoint rollback/fork'')
          else Ok (anchor(checkpoint_key checkpoint \<mapsto> checkpoint))
      | None \<Rightarrow> Ok (anchor(checkpoint_key checkpoint \<mapsto> checkpoint)))"

definition is_production_durable :: bool where
  "is_production_durable = False"

section \<open>Security context and connections\<close>

text \<open>
  The providers of the context (trust root, anchor) are arguments where they are used; the context
  keeps what it compares with.
\<close>

record PostgresSecurityContextV1 =
  sx_trust_domain :: TrustDomainV1
  sx_environment_ref :: ReferenceV1
  sx_audience_ref :: ReferenceV1
  sx_expected_issuers :: "(ProductionProofKindV1 \<times> ReferenceV1) list"

definition audience_matches_trust_domain ::
  "ReferenceV1 \<Rightarrow> TrustDomainV1 \<Rightarrow> ReferenceV1 \<Rightarrow> bool" where
  "audience_matches_trust_domain audience_ref trust_domain environment_ref =
     (let domain = (case trust_domain of TD_Shadow \<Rightarrow> ''shadow'' | TD_Production \<Rightarrow> ''production'') in
      (case strip_prefix (''environment:idr:'' @ domain @ '':'') environment_ref of
         None \<Rightarrow> False
       | Some environment \<Rightarrow>
           environment \<noteq> [] \<and> audience_ref = ''audience:idr:'' @ domain @ '':'' @ environment))"

definition PostgresSecurityContextV1_new ::
  "TrustDomainV1 \<Rightarrow> ReferenceV1 \<Rightarrow> ReferenceV1 \<Rightarrow> (ProductionProofKindV1 \<times> ReferenceV1) list \<Rightarrow>
   (IdrRuntimeErrorV1, PostgresSecurityContextV1) result" where
  "PostgresSecurityContextV1_new trust_domain environment_ref audience_ref expected_issuers =
     (if expected_issuers = [] \<or> \<not> audience_matches_trust_domain audience_ref trust_domain environment_ref
      then Err (RE_Repository
        ''expected issuer registry is empty or audience is not domain-namespaced'')
      else Ok \<lparr>sx_trust_domain = trust_domain, sx_environment_ref = environment_ref,
               sx_audience_ref = audience_ref, sx_expected_issuers = expected_issuers\<rparr>)"

record HumanModelQueryV1 =
  hq_tenant_ref :: ReferenceV1
  hq_subject_ref :: ReferenceV1
  hq_scope_ref :: ReferenceV1
  hq_purpose_ref :: ReferenceV1
  hq_policy_revision_ref :: ReferenceV1
  hq_maximum_impact_basis_points :: u16

definition HumanModelQueryV1_new ::
  "ReferenceV1 \<Rightarrow> ReferenceV1 \<Rightarrow> ReferenceV1 \<Rightarrow> ReferenceV1 \<Rightarrow> ReferenceV1 \<Rightarrow> u16 \<Rightarrow>
   (IdrRuntimeErrorV1, HumanModelQueryV1) result" where
  "HumanModelQueryV1_new tenant_ref subject_ref scope_ref purpose_ref policy_revision_ref
       maximum_impact_basis_points =
     (if maximum_impact_basis_points > 10000 then Err RE_BindingMismatch
      else Ok \<lparr>
        hq_tenant_ref = tenant_ref, hq_subject_ref = subject_ref, hq_scope_ref = scope_ref,
        hq_purpose_ref = purpose_ref, hq_policy_revision_ref = policy_revision_ref,
        hq_maximum_impact_basis_points = maximum_impact_basis_points\<rparr>)"

definition ascii_lowercase :: "char \<Rightarrow> bool" where
  "ascii_lowercase c \<longleftrightarrow> (97 :: nat) \<le> of_char c \<and> (of_char c :: nat) \<le> 122"

definition validate_schema_name :: "string \<Rightarrow> (IdrRuntimeErrorV1, unit) result" where
  "validate_schema_name schema =
     (if schema = [] \<or> length schema > 63 \<or>
         \<not> list_all (\<lambda>(index, byte). byte = CHR ''_'' \<or> ascii_lowercase byte \<or> index > 0 \<and> is_digit byte)
             (enumerate 0 schema)
      then Err (RE_Repository ''PostgreSQL schema name is not a safe identifier'') else Ok ())"

text \<open>
  The checks of \<open>connect_for_domain\<close> before a pool is opened; the two calls of the trust-root
  provider are its two arguments.
\<close>

definition connect_for_domain ::
  "string \<Rightarrow> PostgresSecurityContextV1 \<Rightarrow> (IdrRuntimeErrorV1, TrustRootSnapshotV1) result \<Rightarrow>
   (IdrRuntimeErrorV1, TrustRootSnapshotV1) result \<Rightarrow> TrustDomainV1 \<Rightarrow> (IdrRuntimeErrorV1, unit) result" where
  "connect_for_domain schema security first_snapshot second_snapshot trust_domain =
     and_then (validate_schema_name schema) (\<lambda>_.
     let refusal = Err (RE_Repository ''security context or Trust Root crossed IDR trust domains'') in
     if sx_trust_domain security \<noteq> trust_domain then refusal
     else and_then first_snapshot (\<lambda>root1.
       if tr_trust_domain root1 \<noteq> trust_domain then refusal
       else and_then second_snapshot (\<lambda>root2.
         if tr_environment_ref root2 \<noteq> sx_environment_ref security then refusal else Ok ())))"

definition connect_shadow ::
  "string \<Rightarrow> PostgresSecurityContextV1 \<Rightarrow> (IdrRuntimeErrorV1, TrustRootSnapshotV1) result \<Rightarrow>
   (IdrRuntimeErrorV1, TrustRootSnapshotV1) result \<Rightarrow> (IdrRuntimeErrorV1, unit) result" where
  "connect_shadow schema security first_snapshot second_snapshot =
     (if strip_prefix ''idr_shadow_'' schema = None
      then Err (RE_Repository ''Shadow authority requires an idr_shadow_* schema'')
      else connect_for_domain schema security first_snapshot second_snapshot TD_Shadow)"

text \<open>The comparison of \<open>verify_schema_version_for_pool\<close> on the row of the migration table.\<close>

definition verify_schema_version ::
  "int \<Rightarrow> int \<Rightarrow> bool \<Rightarrow> (IdrRuntimeErrorV1, unit) result" where
  "verify_schema_version migration_count latest_version all_succeeded =
     (if migration_count \<noteq> EXPECTED_SCHEMA_MIGRATION_VERSION_V1 \<or>
         latest_version \<noteq> EXPECTED_SCHEMA_MIGRATION_VERSION_V1 \<or> \<not> all_succeeded
      then Err (RE_Repository (''IDR schema version mismatch: expected '' @
        show_int EXPECTED_SCHEMA_MIGRATION_VERSION_V1 @ '', found count='' @ show_int migration_count @
        '' latest='' @ show_int latest_version @ '' success='' @
        (if all_succeeded then ''true'' else ''false'')))
      else Ok ())"

section \<open>Release gates\<close>

fun is_human_model_write :: "IdrCommandV1 \<Rightarrow> bool" where
  "is_human_model_write (ProposeHumanModelCandidate _) = True"
| "is_human_model_write (RecordHumanModelPromotion _ _) = True"
| "is_human_model_write (PromoteHumanModelAssertion _ _) = True"
| "is_human_model_write (CorrectHumanModelAssertion _ _) = True"
| "is_human_model_write _ = False"

fun join_semicolon :: "string list \<Rightarrow> string" where
  "join_semicolon [] = []"
| "join_semicolon (x # xs) = x @ concat (map (\<lambda>y. ''; '' @ y) xs)"

definition blocked_startup_gates :: "ProductionReleaseGatesV1 \<Rightarrow> string list" where
  "blocked_startup_gates gates =
     (if \<not> rg_trust_chain_closure_complete gates then [''TRUST CHAIN CLOSURE = INCOMPLETE''] else []) @
     (if rg_production_trust_root_blocked gates then [''PRODUCTION TRUST ROOT = BLOCKED''] else []) @
     (if \<not> rg_production_authorization_enabled gates
      then [''PRODUCTION AUTHORIZATION = NOT AUTHORIZED''] else []) @
     (if \<not> rg_production_execution_enabled gates
      then [''PRODUCTION EXECUTION = NOT AUTHORIZED''] else []) @
     (if \<not> rg_human_model_long_term_write_enabled gates
      then [''HUMAN MODEL LONG-TERM WRITE = NOT AUTHORIZED''] else [])"

definition enforce_production_startup_release_gates :: "(IdrRuntimeErrorV1, unit) result" where
  "enforce_production_startup_release_gates =
     (let blocked = blocked_startup_gates release_gates_BLOCKED in
      if blocked = [] then Ok () else Err (RE_Repository (join_semicolon blocked)))"

fun is_execution_command :: "IdrCommandV1 \<Rightarrow> bool" where
  "is_execution_command (ReserveExecution _ _ _ _ _ _ _ _ _) = True"
| "is_execution_command (RecoverPermit _) = True"
| "is_execution_command (DeliverPermit _ _) = True"
| "is_execution_command (StartDispatch _ _) = True"
| "is_execution_command (CommitExecutionReceipt _ _ _ _ _ _) = True"
| "is_execution_command (ReconcileExecution _ _) = True"
| "is_execution_command (ExpireExecutionLease _) = True"
| "is_execution_command _ = False"

definition enforce_production_command_release_gate ::
  "IdrCommandV1 \<Rightarrow> (IdrRuntimeErrorV1, unit) result" where
  "enforce_production_command_release_gate command =
     (let gates = release_gates_BLOCKED in
      if (case command of AdmitAction _ _ _ _ _ \<Rightarrow> True | _ \<Rightarrow> False) \<and>
         \<not> rg_production_authorization_enabled gates
      then Err (RE_Repository ''PRODUCTION AUTHORIZATION = NOT AUTHORIZED'')
      else if is_execution_command command \<and> \<not> rg_production_execution_enabled gates
      then Err (RE_Repository ''PRODUCTION EXECUTION = NOT AUTHORIZED'')
      else if is_human_model_write command \<and> \<not> rg_human_model_long_term_write_enabled gates
      then Err (RE_Repository ''HUMAN MODEL LONG-TERM WRITE = NOT AUTHORIZED'')
      else Ok ())"

text \<open>
  The checks of \<open>connect_production\<close>, in order; the anchor's durability and the key file are
  arguments. \<open>None\<close> is the panic of the key parser.
\<close>

definition connect_production ::
  "string \<Rightarrow> PostgresSecurityContextV1 \<Rightarrow> bool \<Rightarrow> key_file_system \<Rightarrow>
   (IdrRuntimeErrorV1, TrustRootSnapshotV1) result \<Rightarrow> (IdrRuntimeErrorV1, TrustRootSnapshotV1) result \<Rightarrow>
   (IdrRuntimeErrorV1, OrchestratorAttestationKeyV1) result option" where
  "connect_production schema security anchor_is_durable K first_snapshot second_snapshot =
     (case enforce_production_startup_release_gates of
        Err e \<Rightarrow> Some (Err e)
      | Ok _ \<Rightarrow>
          if strip_prefix ''idr_production_'' schema = None
          then Some (Err (RE_Repository ''Production authority requires an idr_production_* schema''))
          else if \<not> anchor_is_durable
          then Some (Err (RE_Repository
            ''production startup requires an external durable audit anchor''))
          else map_option (\<lambda>r. and_then r (\<lambda>attestation_key.
                 and_then (connect_for_domain schema security first_snapshot second_snapshot TD_Production)
                   (\<lambda>_. Ok attestation_key)))
                 (OrchestratorAttestationKeyV1_from_protected_environment_file K))"

section \<open>Proof assertions and digests\<close>

fun expected_assertion :: "ProductionProofKindV1 \<Rightarrow> string \<times> string" where
  "expected_assertion PK_CallerAuthentication = (''outcome'', ''authenticate'')"
| "expected_assertion PK_ExactAuthorization = (''decision'', ''approve'')"
| "expected_assertion PK_InputAdmission = (''outcome'', ''admit'')"
| "expected_assertion PK_ContextSnapshot = (''outcome'', ''attest'')"
| "expected_assertion PK_IntentFastPathAdmission = (''outcome'', ''admit'')"
| "expected_assertion PK_DecisionNecessityAdmission = (''outcome'', ''admit'')"
| "expected_assertion PK_TurnCoordinationAdmission = (''outcome'', ''admit'')"
| "expected_assertion PK_ResponsePolicy = (''outcome'', ''allow'')"
| "expected_assertion PK_ResponseAdmission = (''outcome'', ''allow'')"
| "expected_assertion PK_Authority = (''outcome'', ''allow'')"
| "expected_assertion PK_Capability = (''outcome'', ''allow'')"
| "expected_assertion PK_Policy = (''outcome'', ''allow'')"
| "expected_assertion PK_ActionAdmission = (''outcome'', ''allow'')"
| "expected_assertion PK_ExecutionPermit = (''outcome'', ''issue'')"
| "expected_assertion PK_ProviderReceipt = (''outcome'', ''attest'')"
| "expected_assertion PK_OutcomeObservation = (''outcome'', ''observe'')"
| "expected_assertion PK_HumanModelPromotion = (''outcome'', ''promote'')"
| "expected_assertion PK_HumanModelUserConfirmation = (''outcome'', ''confirm'')"
| "expected_assertion PK_HumanModelCorrection = (''outcome'', ''correct'')"

definition proof_assertion_allows :: "ProductionProofClaimsV1 \<Rightarrow> bool" where
  "proof_assertion_allows claims \<longleftrightarrow>
     (let expected = expected_assertion (pc_proof_kind claims) in
      Option.bind (json_get (pc_assertion claims) (fst expected)) json_as_str = Some (snd expected))"

definition expected_principal_digest ::
  "crates \<Rightarrow> IdrCommandEnvelopeV1 \<Rightarrow> (IdrRuntimeErrorV1, string) result" where
  "expected_principal_digest X command =
     from_protocol (canonical_digest_v1 X ''idr-command-principal-v1''
       (JArr [JStr (ce_actor_ref command), JStr (ce_caller_ref command)]))"

text \<open>The digest of a projection, of its serialization or of a stored value.\<close>

definition projection_digest_v1 :: "crates \<Rightarrow> json \<Rightarrow> (IdrRuntimeErrorV1, string) result" where
  "projection_digest_v1 X projection =
     from_protocol (canonical_digest_v1 X ''idr-run-projection-v1'' projection)"

definition command_proof_id ::
  "IdrCommandEnvelopeV1 \<Rightarrow> ProductionProofKindV1 \<Rightarrow> (IdrRuntimeErrorV1, uuid) result" where
  "command_proof_id command proof_kind =
     ok_or (map_option (\<lambda>proof1. pc_proof_id (pe_claims proof1))
       (find (\<lambda>proof1. pc_proof_kind (pe_claims proof1) = proof_kind) (ce_proofs command)))
       RE_MissingRequiredProof"

definition payload_string :: "json \<Rightarrow> string \<Rightarrow> (IdrRuntimeErrorV1, string) result" where
  "payload_string payload field =
     (case Option.bind (json_get payload field) json_as_str of
        Some v \<Rightarrow> if v \<noteq> [] then Ok v else Err RE_BindingMismatch
      | None \<Rightarrow> Err RE_BindingMismatch)"

definition idempotency_fence_digest_v1 ::
  "crates \<Rightarrow> IdrRunProjectionV1 \<Rightarrow> ExecutionProjectionV1 \<Rightarrow> (IdrRuntimeErrorV1, string) result" where
  "idempotency_fence_digest_v1 X projection execution =
     and_then (trust_domain_name (pj_trust_domain projection)) (\<lambda>domain.
     from_protocol (canonical_digest_v1 X ''idr-operation-idempotency-fence-v1'' (JArr [
       JStr domain,
       JStr (pj_environment_ref projection),
       JStr (pj_tenant_ref projection),
       JStr (ex_operation_ref execution),
       JStr (ex_idempotency_key execution),
       uuid_json X (pj_run_id projection),
       uuid_json X (rr_record_id (ex_action_ref execution)),
       ju64 (rr_revision (ex_action_ref execution)),
       JStr (rr_record_digest (ex_action_ref execution))])))"

definition execution_state_root_from_rows ::
  "crates \<Rightarrow> json list \<Rightarrow> json list \<Rightarrow> json list \<Rightarrow> (IdrRuntimeErrorV1, string) result" where
  "execution_state_root_from_rows X fences reservations attempts =
     from_protocol (canonical_digest_v1 X ''idr-execution-state-set-v1''
       (JArr [JArr fences, JArr reservations, JArr attempts]))"

section \<open>Attestations\<close>

definition hex_utf8 :: "string \<Rightarrow> string" where
  "hex_utf8 s = encode_hex (map (\<lambda>c. of_nat (of_char c)) s)"

fun join_lines :: "string list \<Rightarrow> string" where
  "join_lines [] = []"
| "join_lines [x] = x"
| "join_lines (x # xs) = x @ CHR 0x0A # join_lines xs"

definition orchestrator_attestation_material_v1 ::
  "crates \<Rightarrow> string \<Rightarrow> string \<Rightarrow> string \<Rightarrow> uuid \<Rightarrow> uuid \<Rightarrow> uuid \<Rightarrow> string \<Rightarrow> u64 \<Rightarrow> u64 \<Rightarrow> string \<Rightarrow> string \<Rightarrow>
   int \<Rightarrow> int \<Rightarrow> uuid \<Rightarrow> int \<Rightarrow> (IdrRuntimeErrorV1, bytes) result" where
  "orchestrator_attestation_material_v1 X trust_domain environment_ref purpose attestation_id command_id
       run_id tenant_ref pre_aggregate_version post_aggregate_version command_digest transition_digest
       database_txid backend_pid nonce key_version =
     (if length command_digest \<noteq> 64 \<or> length transition_digest \<noteq> 64 \<or>
         post_aggregate_version < pre_aggregate_version
      then Err RE_Serialization
      else Ok (join_lines [
        ''IDR-ORCHESTRATOR-ATTESTATION-V1'',
        trust_domain,
        hex_utf8 environment_ref,
        purpose,
        x_uuid_display X attestation_id,
        x_uuid_display X command_id,
        x_uuid_display X run_id,
        hex_utf8 tenant_ref,
        show_nat (unat pre_aggregate_version),
        show_nat (unat post_aggregate_version),
        command_digest,
        transition_digest,
        show_int database_txid,
        show_int backend_pid,
        x_uuid_display X nonce,
        show_int key_version]))"

section \<open>The anchor as an interface\<close>

text \<open>
  What the authority relies on when it publishes to an \<open>AuditCheckpointAnchorBackendV1\<close>: an
  accepted checkpoint becomes the latest of its key, other keys keep theirs, and a checkpoint that
  goes back or forks is refused. A remote anchor may fail, so acceptance is the only premise.
\<close>

definition checkpoint_follows :: "AuditCheckpointV1 \<Rightarrow> AuditCheckpointV1 \<Rightarrow> bool" where
  "checkpoint_follows current checkpoint \<longleftrightarrow>
     checkpoint_key checkpoint = checkpoint_key current \<and>
     \<not> checkpoint_rollback_or_fork current checkpoint"

lemma checkpoint_follows_refl: "checkpoint_follows c c"
  by (simp add: checkpoint_follows_def checkpoint_rollback_or_fork_def)

lemma checkpoint_follows_trans:
  "checkpoint_follows a b \<Longrightarrow> checkpoint_follows b c \<Longrightarrow> checkpoint_follows a c"
  by (auto simp: checkpoint_follows_def checkpoint_rollback_or_fork_def)

fun publish_all :: "('s \<Rightarrow> 'c \<Rightarrow> ('e, 's) result) \<Rightarrow> 's \<Rightarrow> 'c list \<Rightarrow> 's" where
  "publish_all pub s [] = s"
| "publish_all pub s (c # cs) =
     (case pub s c of Err e \<Rightarrow> publish_all pub s cs | Ok t \<Rightarrow> publish_all pub t cs)"

locale checkpoint_anchor =
  fixes latest :: "'s \<Rightarrow> anchor_key \<Rightarrow> AuditCheckpointV1 option"
    and pub :: "'s \<Rightarrow> AuditCheckpointV1 \<Rightarrow> (IdrRuntimeErrorV1, 's) result"
    and keyed :: "'s \<Rightarrow> bool"
  assumes keyed_key: "keyed s \<Longrightarrow> latest s k = Some c \<Longrightarrow> checkpoint_key c = k"
    and pub_keyed: "keyed s \<Longrightarrow> pub s c = Ok t \<Longrightarrow> keyed t"
    and pub_latest: "pub s c = Ok t \<Longrightarrow> latest t k = (if k = checkpoint_key c then Some c else latest s k)"
    and pub_monotone: "pub s c = Ok t \<Longrightarrow> latest s (checkpoint_key c) = Some d \<Longrightarrow>
      \<not> checkpoint_rollback_or_fork d c"
begin

lemma step_follows:
  assumes "keyed s" "latest s k = Some c" "pub s d = Ok t"
  shows "\<exists>e. latest t k = Some e \<and> checkpoint_follows c e"
proof (cases "k = checkpoint_key d")
  case True
  with assms have "checkpoint_follows c d"
    by (auto simp: checkpoint_follows_def keyed_key dest: pub_monotone)
  with True assms(3) show ?thesis by (simp add: pub_latest)
next
  case False
  with assms show ?thesis by (auto simp: pub_latest intro: checkpoint_follows_refl)
qed

lemma run_follows:
  "keyed s \<Longrightarrow> latest s k = Some c \<Longrightarrow>
     \<exists>e. latest (publish_all pub s cs) k = Some e \<and> checkpoint_follows c e"
proof (induction cs arbitrary: s c)
  case Nil
  then show ?case by (auto intro: checkpoint_follows_refl)
next
  case (Cons d cs)
  show ?case
  proof (cases "pub s d")
    case (Err e)
    with Cons show ?thesis by simp
  next
    case (Ok t)
    from step_follows [OF Cons.prems this] obtain e
      where e: "latest t k = Some e" "checkpoint_follows c e" by blast
    from Cons.IH [OF pub_keyed [OF Cons.prems(1) Ok] e(1)] e(2) Ok show ?thesis
      by (auto intro: checkpoint_follows_trans)
  qed
qed

end

definition anchor_keyed :: "InMemoryAuditCheckpointAnchorV1 \<Rightarrow> bool" where
  "anchor_keyed anchor \<longleftrightarrow> (\<forall>k c. anchor k = Some c \<longrightarrow> checkpoint_key c = k)"

interpretation memory_anchor: checkpoint_anchor "\<lambda>anchor. anchor" publish anchor_keyed
  by unfold_locales
    (auto simp: anchor_keyed_def publish_def split: option.splits if_splits)

section \<open>Lemmas on attestation material\<close>

lemma byte_of_char: "unat (of_nat (of_char c) :: u8) = of_char c"
  by (rule unat_of_nat_u8) simp

lemma hex_utf8_inj: "hex_utf8 s = hex_utf8 t \<Longrightarrow> s = t"
proof -
  assume "hex_utf8 s = hex_utf8 t"
  then have "map (\<lambda>c. of_nat (of_char c) :: u8) s = map (\<lambda>c. of_nat (of_char c)) t"
    unfolding hex_utf8_def by (metis decode_pairs_encode option.inject)
  then have "map unat (map (\<lambda>c. of_nat (of_char c) :: u8) s) = map unat (map (\<lambda>c. of_nat (of_char c) :: u8) t)"
    by simp
  then have "map (of_char :: char \<Rightarrow> nat) s = map of_char t" by (simp only: map_map o_def byte_of_char)
  then show "s = t" by (rule list.inj_map_strong [rotated]) simp
qed

lemma hex_digit_code: "n < 16 \<Longrightarrow> (of_char (hex_digit n) :: nat) \<ge> 48"
  by (drule nibble_cases, elim insertE) (simp_all add: hex_digit_def)

lemma hex_digit_no_newline: "n < 16 \<Longrightarrow> hex_digit n \<noteq> CHR 0x0A"
  using hex_digit_code [of n] by auto

definition one_line :: "string \<Rightarrow> bool" where
  "one_line s \<longleftrightarrow> CHR 0x0A \<notin> set s"

lemma one_line_hex: "one_line (hex_utf8 s)"
proof -
  have "CHR 0x0A \<notin> set (encode_hex bs)" for bs
    using nibble_bounds by (induction bs) (auto simp: encode_hex_simps hex_digit_no_newline [THEN not_sym])
  then show ?thesis by (simp add: one_line_def hex_utf8_def)
qed

lemma one_line_show: "one_line (show_nat n)" "one_line (show_int i)"
proof -
  have nat: "one_line (show_nat k)" for k
    using show_nat_digits [of k] by (auto simp: one_line_def list_all_iff is_digit_def)
  show "one_line (show_nat n)" by (rule nat)
  show "one_line (show_int i)"
    using nat [of "nat (- i)"] nat [of "nat i"] by (auto simp: show_int_def one_line_def)
qed

lemma one_line_digest: "valid_digest s \<Longrightarrow> one_line s"
  by (auto simp: valid_digest_def one_line_def list_all_iff hex_byte_def less_eq_char_def)

lemma show_nat_inj: "show_nat m = show_nat n \<Longrightarrow> m = n"
  by (metis read_show_nat)

lemma show_int_inj: "show_int i = show_int j \<Longrightarrow> i = j"
  using show_int_unique [of i "[]" j "[]"] by simp

lemma split_at_newline:
  "one_line x \<Longrightarrow> one_line y \<Longrightarrow> x @ CHR 0x0A # r = y @ CHR 0x0A # s \<Longrightarrow> x = y \<and> r = s"
proof (induction x arbitrary: y)
  case Nil
  then show ?case by (cases y) (auto simp: one_line_def)
next
  case (Cons c x)
  then show ?case by (cases y) (auto simp: one_line_def)
qed

lemma join_lines_inj:
  "length xs = length ys \<Longrightarrow> list_all one_line xs \<Longrightarrow> list_all one_line ys \<Longrightarrow>
     join_lines xs = join_lines ys \<Longrightarrow> xs = ys"
proof (induction xs ys rule: list_induct2)
  case (Cons x xs y ys)
  show ?case
  proof (cases xs)
    case Nil
    with Cons show ?thesis by simp
  next
    case xs: (Cons x2 xs2)
    with Cons.hyps obtain y2 ys2 where ys: "ys = y2 # ys2" by (cases ys) auto
    from Cons.prems(3) have "x @ CHR 0x0A # join_lines xs = y @ CHR 0x0A # join_lines ys"
      by (simp add: xs ys)
    from split_at_newline [OF _ _ this] Cons.prems have "x = y" "join_lines xs = join_lines ys" by auto
    with Cons show ?thesis by simp
  qed
qed simp

text \<open>What the program passes to the material: names and references on one line, digests.\<close>

definition uuid_display_one_line :: "crates \<Rightarrow> bool" where
  "uuid_display_one_line X \<longleftrightarrow> (\<forall>u. one_line (x_uuid_display X u))"

text \<open>
  The bytes an attestation authenticates determine every claim of it: two attestations with the
  same material agree on trust domain, environment, purpose, the identifiers of attestation,
  command and run, tenant, both versions, both digests, transaction, backend, nonce and key
  version, so a MAC over the material binds all fifteen (references may hold any bytes: they are
  hex-encoded; the rest cannot contain the separator).
\<close>

theorem attestation_material_binds_every_claim:
  assumes "uuid_display_injective X" "uuid_display_one_line X"
    and "one_line domain" "one_line purpose" "valid_digest cd" "valid_digest td"
    and "one_line domain'" "one_line purpose'" "valid_digest cd'" "valid_digest td'"
    and "orchestrator_attestation_material_v1 X domain env purpose aid cid rid tenant pre post cd td
      txid pid nonce version = Ok m"
    and "orchestrator_attestation_material_v1 X domain' env' purpose' aid' cid' rid' tenant' pre' post'
      cd' td' txid' pid' nonce' version' = Ok m"
  shows "(domain, env, purpose, aid, cid, rid, tenant, pre, post, cd, td, txid, pid, nonce, version) =
    (domain', env', purpose', aid', cid', rid', tenant', pre', post', cd', td', txid', pid', nonce', version')"
proof -
  let ?lines = "\<lambda>domain env purpose aid cid rid tenant pre post cd td txid pid nonce version.
    [''IDR-ORCHESTRATOR-ATTESTATION-V1'', domain, hex_utf8 env, purpose, x_uuid_display X aid,
     x_uuid_display X cid, x_uuid_display X rid, hex_utf8 tenant, show_nat (unat (pre :: u64)),
     show_nat (unat (post :: u64)), cd, td, show_int txid, show_int pid, x_uuid_display X nonce,
     show_int version]"
  have "one_line ''IDR-ORCHESTRATOR-ATTESTATION-V1''" by (simp add: one_line_def)
  then have "?lines domain env purpose aid cid rid tenant pre post cd td txid pid nonce version =
    ?lines domain' env' purpose' aid' cid' rid' tenant' pre' post' cd' td' txid' pid' nonce' version'"
    using assms
    by (intro join_lines_inj)
      (auto simp: one_line_hex one_line_show one_line_digest uuid_display_one_line_def
        orchestrator_attestation_material_v1_def split: if_splits)
  then show ?thesis
    using assms(1)
    by (auto simp: uuid_display_injective_def
        dest!: hex_utf8_inj show_nat_inj show_int_inj word_unat_eq_iff [THEN iffD2])
qed

section \<open>Key files\<close>

lemma parse_key_pairs_Ok:
  "parse_key_pairs s = Some (Ok bs) \<Longrightarrow> even (length s) \<Longrightarrow> s = hex_utf8 bs"
proof (induction s arbitrary: bs rule: parse_key_pairs.induct)
  case (1 h l rest)
  from 1(2) obtain b bs' where *: "decode_pairs [h, l] = Some [b]" "parse_key_pairs rest = Some (Ok bs')"
      "bs = char_of (unat b) # bs'" "is_char_boundary (h # l # rest)" "is_char_boundary rest"
      "list_all hex_byte [h, l]"
    by (auto simp: and_then_eq_Ok split: if_splits option.splits list.splits)
  from 1(1) * 1(3) have IH: "rest = hex_utf8 bs'" by simp
  have "unat b < 256" using unsigned_less [of b] by simp
  then have "(of_nat (of_char (char_of (unat b) :: char)) :: u8) = b" by simp
  then show ?case
    using encode_decode_pairs [OF *(1)] IH by (simp add: *(3) hex_utf8_def encode_hex_simps)
qed (simp_all add: hex_utf8_def encode_hex_simps)

lemma hex_digit_byte: "n < 16 \<Longrightarrow> hex_byte (hex_digit n)"
  by (drule nibble_cases, elim insertE) (simp_all add: hex_digit_def hex_byte_def less_eq_char_def)

lemma hex_byte_ascii: "hex_byte c \<Longrightarrow> (of_char c :: nat) < 128"
  by (auto simp: hex_byte_def less_eq_char_def)

lemma hex_utf8_hex: "list_all hex_byte (hex_utf8 bs)"
proof -
  have "list_all hex_byte (encode_hex ws)" for ws
    using nibble_bounds by (induction ws) (simp_all add: encode_hex_simps hex_digit_byte)
  then show ?thesis by (simp add: hex_utf8_def)
qed

lemma hex_boundary: "list_all hex_byte s \<Longrightarrow> is_char_boundary s"
  by (cases s) (auto simp: is_char_boundary_def dest: hex_byte_ascii)

lemma parse_key_pairs_hex: "parse_key_pairs (hex_utf8 bs) = Some (Ok bs)"
proof (induction bs)
  case (Cons c bs)
  let ?b = "of_nat (of_char c) :: u8"
  have h: "hex_utf8 (c # bs) = hex_digit (drop_bit 4 ?b) # hex_digit (?b AND 15) # hex_utf8 bs"
    by (simp add: hex_utf8_def encode_hex_simps)
  have d: "decode_pairs [hex_digit (drop_bit 4 ?b), hex_digit (?b AND 15)] = Some [?b]"
    using decode_pairs_encode [of "[?b]"] by (simp add: encode_hex_simps)
  have c: "char_of (unat ?b) = c" by (simp only: byte_of_char) simp
  have ok: "list_all hex_byte (hex_utf8 (c # bs))" by (rule hex_utf8_hex)
  with h have "is_char_boundary (hex_utf8 (c # bs))" "is_char_boundary (hex_utf8 bs)"
    "list_all hex_byte [hex_digit (drop_bit 4 ?b), hex_digit (?b AND 15)]"
    by (auto intro: hex_boundary)
  with h d c Cons show ?case
    by (simp only: h parse_key_pairs.simps) simp
qed (simp add: hex_utf8_def encode_hex_simps)

lemma strip_ws_hex:
  assumes "\<And>a b. hex_byte a \<Longrightarrow> \<not> p2 a b" "\<And>a b c. hex_byte a \<Longrightarrow> \<not> p3 a b c"
  shows "list_all hex_byte s \<Longrightarrow> strip_ws p2 p3 s = s"
proof (cases s)
  case (Cons a r)
  assume "list_all hex_byte s"
  with Cons have a: "hex_byte a" by simp
  then have "\<not> ws1 a" by (auto simp: ws1_def hex_byte_def less_eq_char_def Let_def)
  with a assms Cons show ?thesis by (auto split: list.splits)
qed simp

lemma str_trim_hex_line:
  assumes "list_all hex_byte s"
  shows "str_trim s = s" "str_trim (s @ [CHR 0x0A]) = s"
proof -
  have ascii: "\<not> ws2 a b" "\<not> ws2 b a" "\<not> ws3 a b c" "\<not> ws3 c b a" if "hex_byte a" for a b c
    using hex_byte_ascii [OF that] by (auto simp: ws2_def ws3_def Let_def)
  have rev1: "strip_ws (\<lambda>b a. ws2 a b) (\<lambda>c b a. ws3 a b c) (rev s) = rev s"
    by (rule strip_ws_hex) (auto simp: ascii assms)
  have fwd: "strip_ws ws2 ws3 s = s"
    by (rule strip_ws_hex) (auto simp: ascii assms)
  show "str_trim s = s" by (simp add: str_trim_def fwd rev1)
  have nl: "strip_ws p q (CHR 0x0A # t) = strip_ws p q t" for p q t by (simp add: ws1_def)
  show "str_trim (s @ [CHR 0x0A]) = s"
  proof (cases s)
    case Nil
    then show ?thesis by (simp add: str_trim_def ws1_def)
  next
    case (Cons a r)
    with assms have a: "hex_byte a" by simp
    then have "\<not> ws1 a" by (auto simp: ws1_def hex_byte_def less_eq_char_def Let_def)
    with a Cons have "strip_ws ws2 ws3 (s @ [CHR 0x0A]) = s @ [CHR 0x0A]"
      by (auto simp: ascii split: list.splits)
    then show ?thesis by (simp only: str_trim_def rev_append rev.simps append.simps nl rev1 rev_rev_ident)
  qed
qed

lemma length_hex_utf8: "length (hex_utf8 bs) = 2 * length bs"
  by (simp add: hex_utf8_def length_encode_hex)

text \<open>
  A key file is accepted exactly when its trimmed content is the lower-case hexadecimal form of
  32 bytes, and the key that is read is those bytes with the current key version; so a key written
  in that form, with or without a final newline, is read back unchanged.
\<close>

theorem attestation_key_file_exact:
  "parse_attestation_key content = Some (Ok key) \<longleftrightarrow>
     length (ak_bytes key) = 32 \<and> ak_version key = ORCHESTRATOR_ATTESTATION_KEY_VERSION_V1 \<and>
     str_trim content = hex_utf8 (ak_bytes key)"
proof
  assume "parse_attestation_key content = Some (Ok key)"
  then obtain bs where bs: "parse_key_pairs (str_trim content) = Some (Ok bs)"
      "length (str_trim content) = 64"
      "key = \<lparr>ak_bytes = bs, ak_version = ORCHESTRATOR_ATTESTATION_KEY_VERSION_V1\<rparr>"
    by (auto simp: parse_attestation_key_def and_then_eq_Ok Let_def split: if_splits)
  from parse_key_pairs_Ok [OF bs(1)] bs(2) have "str_trim content = hex_utf8 bs" by simp
  with bs show "length (ak_bytes key) = 32 \<and> ak_version key = ORCHESTRATOR_ATTESTATION_KEY_VERSION_V1 \<and>
     str_trim content = hex_utf8 (ak_bytes key)" by (simp add: length_hex_utf8)
next
  assume "length (ak_bytes key) = 32 \<and> ak_version key = ORCHESTRATOR_ATTESTATION_KEY_VERSION_V1 \<and>
     str_trim content = hex_utf8 (ak_bytes key)"
  then show "parse_attestation_key content = Some (Ok key)"
    by (simp add: parse_attestation_key_def Let_def length_hex_utf8 parse_key_pairs_hex)
qed

text \<open>A 64-byte key file with a character that is not ASCII at an odd offset panics.\<close>

theorem attestation_key_file_panics:
  "parse_attestation_key (CHR ''a'' # CHR 0xC3 # CHR 0xA9 # replicate 61 (CHR ''a'')) = None"
proof -
  let ?s = "CHR ''a'' # CHR 0xC3 # CHR 0xA9 # replicate 61 (CHR ''a'')"
  have "str_trim ?s = ?s" by (simp add: str_trim_def ws1_def ws2_def ws3_def Let_def numeral_eq_Suc)
  then show ?thesis
    by (simp add: parse_attestation_key_def is_char_boundary_def)
qed

section \<open>Gates, trust roots and anchors\<close>

text \<open>The five blocked gates are reported at start-up, in this order.\<close>

lemma startup_gates_blocked:
  "enforce_production_startup_release_gates = Err (RE_Repository
     (''TRUST CHAIN CLOSURE = INCOMPLETE; PRODUCTION TRUST ROOT = BLOCKED; '' @
      ''PRODUCTION AUTHORIZATION = NOT AUTHORIZED; PRODUCTION EXECUTION = NOT AUTHORIZED; '' @
      ''HUMAN MODEL LONG-TERM WRITE = NOT AUTHORIZED''))"
  by (simp add: enforce_production_startup_release_gates_def blocked_startup_gates_def
      release_gates_BLOCKED_def)

lemma connect_production_refused:
  "\<exists>message. connect_production schema security durable K first second = Some (Err (RE_Repository message))"
  by (simp add: connect_production_def startup_gates_blocked)

lemma command_gate_Ok:
  "enforce_production_command_release_gate command = Ok () \<longleftrightarrow>
     \<not> is_execution_command command \<and> \<not> is_human_model_write command \<and>
     (\<forall>a b c d e. command \<noteq> AdmitAction a b c d e)"
  by (cases command) (simp_all add: enforce_production_command_release_gate_def release_gates_BLOCKED_def)

lemma audience_matches_same:
  "audience_matches_trust_domain audience d env = audience_matches_environment d env audience"
  by (simp add: audience_matches_trust_domain_def audience_matches_environment_def)

lemma rotate_monotone:
  "RotatingTrustRootProviderV1_rotate provider snapshot = (r, provider') \<Longrightarrow>
     tr_root_version (rp_current provider) \<le> tr_root_version (rp_current provider') \<and>
     (r = Ok () \<longleftrightarrow> provider' \<noteq> provider)"
  by (cases provider) (auto simp: RotatingTrustRootProviderV1_rotate_def split: if_splits)


definition sample_checkpoint :: "int \<Rightarrow> string \<Rightarrow> AuditCheckpointV1" where
  "sample_checkpoint sequence chain_root = \<lparr>
     ck_trust_domain = TD_Shadow, ck_environment_ref = sample_environment, ck_tenant_ref = ''tenant:1'',
     ck_audit_sequence = sequence, ck_chain_root = chain_root, ck_record_set_root = ''r'',
     ck_execution_state_root = ''e'', ck_checkpoint_id = 5\<rparr>"


lemma attestation_material_binds_every_claim_witness:
  "(''shadow'', ''env'', ''outbox_delivery'', 1 :: uuid, 2 :: uuid, 0 :: uuid, ''*'', 0 :: u64, 0 :: u64,
     replicate 64 (CHR ''a''), replicate 64 (CHR ''b''), 7 :: int, 9 :: int, 3 :: uuid, 1 :: int) =
   (''shadow'', ''env'', ''outbox_delivery'', 1, 2, 0, ''*'', 0, 0,
     replicate 64 (CHR ''a''), replicate 64 (CHR ''b''), 7, 9, 3, 1)"
proof -
  have line: "uuid_display_one_line sample_crates"
    by (simp add: uuid_display_one_line_def sample_crates_def one_line_show)
  have digest: "valid_digest (replicate 64 (CHR ''a''))" "valid_digest (replicate 64 (CHR ''b''))"
    by (simp_all add: valid_digest_def hex_byte_def list_all_iff)
  have name: "one_line ''shadow''" "one_line ''outbox_delivery''" by (simp_all add: one_line_def)
  have ok: "\<exists>m. orchestrator_attestation_material_v1 sample_crates ''shadow'' ''env'' ''outbox_delivery'' 1 2 0
      ''*'' 0 0 (replicate 64 (CHR ''a'')) (replicate 64 (CHR ''b'')) 7 9 3 1 = Ok m"
    by (simp add: orchestrator_attestation_material_v1_def)
  then obtain m where m: "orchestrator_attestation_material_v1 sample_crates ''shadow'' ''env'' ''outbox_delivery'' 1 2 0
      ''*'' 0 0 (replicate 64 (CHR ''a'')) (replicate 64 (CHR ''b'')) 7 9 3 1 = Ok m" ..
  show ?thesis
    by (rule attestation_material_binds_every_claim [OF sample_uuid_display_injective line name digest
          name digest m m])
qed

section \<open>Receipts and records as stored\<close>

record IdrCommandReceiptV1 =
  cr_command_id :: uuid
  cr_attestation_id :: uuid
  cr_trust_domain :: TrustDomainV1
  cr_environment_ref :: ReferenceV1
  cr_run_id :: uuid
  cr_aggregate_version :: u64
  cr_event_sequence :: u64
  cr_state :: IdrRunStateV1
  cr_record_ref :: "AuthoritativeRecordRefV1 option"
  cr_idempotent_replay :: bool

definition IdrCommandReceiptV1_json :: "crates \<Rightarrow> IdrCommandReceiptV1 \<Rightarrow> json" where
  "IdrCommandReceiptV1_json X r = json_object [
     (''command_id'', uuid_json X (cr_command_id r)),
     (''attestation_id'', uuid_json X (cr_attestation_id r)),
     (''trust_domain'', TrustDomainV1_json (cr_trust_domain r)),
     (''environment_ref'', JStr (cr_environment_ref r)),
     (''run_id'', uuid_json X (cr_run_id r)),
     (''aggregate_version'', ju64 (cr_aggregate_version r)),
     (''event_sequence'', ju64 (cr_event_sequence r)),
     (''state'', JStr (IdrRunStateV1_name (cr_state r))),
     (''record_ref'', jopt (AuthoritativeRecordRefV1_json X) (cr_record_ref r)),
     (''idempotent_replay'', JBool (cr_idempotent_replay r))]"

definition AuthoritativeRecordV1_json :: "crates \<Rightarrow> AuthoritativeRecordV1 \<Rightarrow> json" where
  "AuthoritativeRecordV1_json X r = json_object [
     (''record_ref'', AuthoritativeRecordRefV1_json X (ar_record_ref r)),
     (''trust_domain'', TrustDomainV1_json (ar_trust_domain r)),
     (''environment_ref'', JStr (ar_environment_ref r)),
     (''run_id'', uuid_json X (ar_run_id r)),
     (''turn_id'', uuid_json X (ar_turn_id r)),
     (''tenant_ref'', JStr (ar_tenant_ref r)),
     (''subject_ref'', JStr (ar_subject_ref r)),
     (''policy_revision_ref'', JStr (ar_policy_revision_ref r)),
     (''candidate_id'', uuid_json X (ar_candidate_id r)),
     (''candidate_digest'', JStr (ar_candidate_digest r)),
     (''payload'', ar_payload r),
     (''issued_by_command_id'', uuid_json X (ar_issued_by_command_id r)),
     (''issued_at'', ju64 (ar_issued_at r)),
     (''valid_from'', ju64 (ar_valid_from r)),
     (''valid_until'', ju64 (ar_valid_until r)),
     (''proof_ids'', JArr (map (uuid_json X) (ar_proof_ids r)))]"

definition command_receipt_mac ::
  "crates \<Rightarrow> OrchestratorAttestationKeyV1 \<Rightarrow> IdrCommandReceiptV1 \<Rightarrow> (IdrRuntimeErrorV1, string) result" where
  "command_receipt_mac X key receipt =
     (if cr_idempotent_replay receipt then Err RE_IntegrityViolation
      else and_then (from_protocol (canonical_digest_v1 X ''idr-command-receipt-v1''
             (IdrCommandReceiptV1_json X receipt))) (\<lambda>receipt_digest.
           Ok (OrchestratorAttestationKeyV1_mac X key receipt_digest)))"

section \<open>Proofs of a command\<close>

definition expected_command_proof ::
  "TrustDomainV1 \<Rightarrow> PostgresSecurityContextV1 \<Rightarrow> IdrCommandEnvelopeV1 \<Rightarrow> ProductionProofKindV1 \<Rightarrow>
   ReferenceV1 \<Rightarrow> ReferenceV1 \<Rightarrow> string \<Rightarrow> ExpectedProductionProofV1" where
  "expected_command_proof trust_domain security command kind issuer_ref subject_ref subject_digest = \<lparr>
     ep_trust_domain = trust_domain,
     ep_environment_ref = sx_environment_ref security,
     ep_proof_kind = kind,
     ep_issuer_ref = issuer_ref,
     ep_subject_ref = subject_ref,
     ep_subject_digest = subject_digest,
     ep_audience_ref = sx_audience_ref security,
     ep_tenant_ref = ce_tenant_ref command,
     ep_scope_ref = ce_scope_ref command,
     ep_purpose_ref = ce_purpose_ref command,
     ep_policy_revision_ref = ce_policy_revision_ref command\<rparr>"

definition verify_proofs_inside_transaction ::
  "crates \<Rightarrow> TrustDomainV1 \<Rightarrow> PostgresSecurityContextV1 \<Rightarrow> IdrCommandEnvelopeV1 \<Rightarrow> u64 \<Rightarrow>
   TrustRootSnapshotV1 \<Rightarrow> (IdrRuntimeErrorV1, VerifiedProductionProofV1 list) result" where
  "verify_proofs_inside_transaction X trust_domain security command trusted_now trust_root =
     (let required = envelope_required_proof_kinds command;
          found = set (map (\<lambda>proof1. pc_proof_kind (pe_claims proof1)) (ce_proofs command)) in
      if found \<noteq> required \<or> length (ce_proofs command) \<noteq> card required then Err RE_MissingRequiredProof
      else and_then (expected_principal_digest X command) (\<lambda>principal_digest.
      if list_ex (\<lambda>proof1. \<not> proof_assertion_allows (pe_claims proof1) \<or>
                    pc_principal_digest (pe_claims proof1) \<noteq> principal_digest) (ce_proofs command)
      then Err RE_BindingMismatch
      else and_then (proof_subject X command) (\<lambda>(subject_ref, subject_digest).
      collect_results (\<lambda>proof1.
        let kind = pc_proof_kind (pe_claims proof1) in
        and_then (ok_or (bt_get (sx_expected_issuers security) kind) RE_MissingRequiredProof) (\<lambda>issuer_ref.
        from_protocol (TrustRootSnapshotV1_verify_at X trust_root proof1
          (expected_command_proof trust_domain security command kind issuer_ref subject_ref subject_digest)
          trusted_now))) (ce_proofs command))))"

end
