(* ===== verification/IDR_Database.thy ===== *)
theory IDR_Database
  imports IDR_Authority
begin

text \<open>
  The database of the PostgreSQL authority as the statements of \<open>postgres_authority.rs\<close> see it:
  one record per table of the migrations, the view bridge every write passes
  (\<open>idr_attested_authority_view_bridge_v7\<close>), the attestation opener
  (\<open>idr_open_attested_transition_v8\<close>) and transactions.

  A row holds the columns the program reads or writes; a column filled by \<open>to_timestamp\<close> from whole
  seconds holds those seconds, a column filled by a clock holds microseconds. Rows are kept in the
  order they were inserted. Primary keys, unique constraints and the triggers on the updates of
  reservations and attempts are modelled. Everything else that can stop a statement (the remaining
  triggers, \<open>CHECK\<close> and foreign keys, serialization failures, the connection) is a parameter of the
  session that can only refuse.
\<close>

section \<open>Rows\<close>

record run_row =
  qr_run_id :: uuid
  qr_trust_domain :: string
  qr_environment_ref :: string
  qr_tenant_ref :: string
  qr_aggregate_version :: int
  qr_state :: string
  qr_projection :: json
  qr_projection_digest :: string
  qr_last_event_sequence :: int

record event_row =
  qe_global_sequence :: int
  qe_event_id :: uuid
  qe_trust_domain :: string
  qe_environment_ref :: string
  qe_run_id :: uuid
  qe_tenant_ref :: string
  qe_run_event_sequence :: int
  qe_aggregate_version :: int
  qe_event_type :: string
  qe_correlation_ref :: string
  qe_causation_ref :: string
  qe_actor_ref :: string
  qe_caller_ref :: string
  qe_event_payload :: json
  qe_previous_hash :: string
  qe_event_hash :: string
  qe_attestation_id :: uuid

record step_row =
  qs_run_id :: uuid
  qs_trust_domain :: string
  qs_environment_ref :: string
  qs_step_id :: uuid
  qs_step_kind :: string
  qs_step_state :: string
  qs_aggregate_version :: int
  qs_snapshot :: json

record contract_row =
  qc_record_id :: uuid
  qc_revision :: int
  qc_candidate_kind :: string
  qc_trust_domain :: string
  qc_environment_ref :: string
  qc_run_id :: uuid
  qc_tenant_ref :: string
  qc_subject_ref :: string
  qc_record_digest :: string
  qc_record :: json
  qc_issued_by_command_id :: uuid
  qc_issued_at :: int
  qc_valid_from :: int
  qc_valid_until :: int

record current_row =
  qu_run_id :: uuid
  qu_trust_domain :: string
  qu_environment_ref :: string
  qu_candidate_kind :: string
  qu_record_id :: uuid
  qu_revision :: int
  qu_record_digest :: string

record dependency_row =
  qd_dependent_record_id :: uuid
  qd_dependent_revision :: int
  qd_dependency_record_id :: uuid
  qd_dependency_revision :: int
  qd_dependency_digest :: string

record invalidation_row =
  qi_invalidation_id :: uuid
  qi_run_id :: uuid
  qi_record_id :: uuid
  qi_revision :: int
  qi_reason_ref :: string
  qi_command_id :: uuid

record proof_row =
  qp_proof_id :: uuid
  qp_trust_domain :: string
  qp_environment_ref :: string
  qp_proof_kind :: string
  qp_issuer_ref :: string
  qp_key_id :: string
  qp_tenant_ref :: string
  qp_subject_ref :: string
  qp_subject_digest :: string
  qp_nonce :: string
  qp_trust_root_version :: int
  qp_trust_root_digest :: string
  qp_envelope :: json
  qp_verified_at :: int

record consumption_row =
  qn_proof_id :: uuid
  qn_trust_domain :: string
  qn_environment_ref :: string
  qn_tenant_ref :: string
  qn_nonce :: string
  qn_command_id :: uuid
  qn_run_id :: uuid

record send_row =
  qx_tenant_ref :: string
  qx_response_record_id :: uuid
  qx_response_revision :: int
  qx_send_nonce :: string
  qx_command_id :: uuid
  qx_channel_ref :: string
  qx_audience_ref :: string
  qx_rendered_content_digest :: string

record reservation_row =
  qv_reservation_id :: uuid
  qv_fence_id :: uuid
  qv_run_id :: uuid
  qv_tenant_ref :: string
  qv_action_record_id :: uuid
  qv_action_revision :: int
  qv_action_admission_record_id :: uuid
  qv_action_admission_revision :: int
  qv_operation_ref :: string
  qv_idempotency_key :: string
  qv_provider_ref :: string
  qv_owner_ref :: string
  qv_state :: string
  qv_aggregate_version :: int
  qv_action_digest :: string
  qv_parameter_digest :: string
  qv_request_digest :: string
  qv_exact_authorization_proof_id :: uuid
  qv_action_valid_until :: int
  qv_admission_valid_until :: int
  qv_authorization_valid_until :: int
  qv_created_at :: int
  qv_updated_at :: int

record attempt_row =
  qt_reservation_id :: uuid
  qt_attempt :: int
  qt_permit_id :: uuid
  qt_dispatch_nonce :: string
  qt_lease_until :: int
  qt_permit_valid_until :: int
  qt_state :: string
  qt_provider_ref :: string
  qt_owner_ref :: string
  qt_started_at :: "int option"
  qt_completed_at :: "int option"

record execution_receipt_row =
  qz_receipt_record_id :: uuid
  qz_receipt_revision :: int
  qz_reservation_id :: uuid
  qz_attempt :: int
  qz_permit_id :: uuid
  qz_provider_ref :: string
  qz_dispatch_nonce :: string
  qz_receipt :: json

record outcome_row =
  qo_outcome_record_id :: uuid
  qo_outcome_revision :: int
  qo_run_id :: uuid
  qo_execution_receipt_record_id :: uuid
  qo_execution_receipt_revision :: int
  qo_observation_proof_id :: uuid
  qo_outcome :: json

record human_candidate_row =
  qh_candidate_record_id :: uuid
  qh_candidate_revision :: int
  qh_run_id :: uuid
  qh_tenant_ref :: string
  qh_subject_ref :: string
  qh_candidate_digest :: string
  qh_candidate :: json

record promotion_row =
  qm_decision_record_id :: uuid
  qm_decision_revision :: int
  qm_source_candidate_record_id :: uuid
  qm_source_candidate_revision :: int
  qm_promotion_proof_id :: uuid
  qm_candidate_digest :: string
  qm_outcome :: string
  qm_decision :: json

record assertion_row =
  qy_assertion_record_id :: uuid
  qy_assertion_revision :: int
  qy_promotion_decision :: "(uuid \<times> int) option"
  qy_predecessor_assertion :: "(uuid \<times> int) option"
  qy_correction_proof_id :: "uuid option"
  qy_tenant_ref :: string
  qy_subject_ref :: string
  qy_lifecycle_state :: string
  qy_expires_at :: "int option"
  qy_assertion :: json

record audit_row =
  qa_sequence :: int
  qa_event_id :: uuid
  qa_trust_domain :: string
  qa_environment_ref :: string
  qa_tenant_ref :: string
  qa_run_id :: uuid
  qa_aggregate_version :: int
  qa_actor_ref :: string
  qa_caller_ref :: string
  qa_correlation_ref :: string
  qa_causation_ref :: string
  qa_contract_refs :: json
  qa_proof_refs :: json
  qa_policy_revision_ref :: string
  qa_previous_hash :: string
  qa_event_hash :: string
  qa_payload :: json
  qa_attestation_id :: uuid

record outbox_row =
  qb_outbox_id :: uuid
  qb_trust_domain :: string
  qb_environment_ref :: string
  qb_tenant_ref :: string
  qb_run_id :: uuid
  qb_aggregate_version :: int
  qb_event_type :: string
  qb_payload :: json
  qb_created_at :: int
  qb_available_at :: int
  qb_claim :: "(string \<times> int \<times> int) option"
  qb_delivered_at :: "int option"
  qb_delivery_attempts :: int

record checkpoint_row =
  qk_checkpoint_id :: uuid
  qk_trust_domain :: string
  qk_environment_ref :: string
  qk_tenant_ref :: string
  qk_audit_sequence :: int
  qk_chain_root :: string
  qk_record_set_root :: string
  qk_execution_state_root :: string
  qk_signed_checkpoint :: json
  qk_published_at :: "int option"

record receipt_row =
  qq_command_id :: uuid
  qq_trust_domain :: string
  qq_environment_ref :: string
  qq_run_id :: uuid
  qq_aggregate_version :: int
  qq_event_sequence :: int
  qq_receipt :: json
  qq_receipt_mac :: string
  qq_tenant_ref :: string
  qq_actor_ref :: string
  qq_caller_ref :: string
  qq_command_digest :: string
  qq_attestation_id :: uuid

record fence_row =
  qf_fence_id :: uuid
  qf_trust_domain :: string
  qf_environment_ref :: string
  qf_tenant_ref :: string
  qf_operation_ref :: string
  qf_idempotency_key :: string
  qf_first_run_id :: uuid
  qf_first_action_record_id :: uuid
  qf_first_action_revision :: int
  qf_first_action_digest :: string
  qf_fence_digest :: string
  qf_created_at :: int

record attestation_row =
  qg_attestation_id :: uuid
  qg_trust_domain :: string
  qg_environment_ref :: string
  qg_purpose :: string
  qg_command_id :: uuid
  qg_run_id :: uuid
  qg_tenant_ref :: string
  qg_pre_aggregate_version :: int
  qg_post_aggregate_version :: int
  qg_command_digest :: string
  qg_transition_digest :: string
  qg_database_txid :: int
  qg_backend_pid :: int
  qg_nonce :: uuid
  qg_key_version :: int
  qg_mac :: string

record secret_row =
  qw_key_version :: int
  qw_key_digest :: string
  qw_secret :: bytes

section \<open>Tables, writes and sessions\<close>

record authority_db =
  db_runs :: "run_row list"
  db_events :: "event_row list"
  db_steps :: "step_row list"
  db_contracts :: "contract_row list"
  db_current :: "current_row list"
  db_dependencies :: "dependency_row list"
  db_invalidations :: "invalidation_row list"
  db_proofs :: "proof_row list"
  db_consumptions :: "consumption_row list"
  db_sends :: "send_row list"
  db_reservations :: "reservation_row list"
  db_attempts :: "attempt_row list"
  db_execution_receipts :: "execution_receipt_row list"
  db_outcomes :: "outcome_row list"
  db_human_candidates :: "human_candidate_row list"
  db_promotions :: "promotion_row list"
  db_assertions :: "assertion_row list"
  db_audit :: "audit_row list"
  db_outbox :: "outbox_row list"
  db_checkpoints :: "checkpoint_row list"
  db_receipts :: "receipt_row list"
  db_fences :: "fence_row list"
  db_attestations :: "attestation_row list"
  db_secrets :: "secret_row list"

text \<open>An \<open>INSERT\<close> into one of the 22 views, or an \<open>UPDATE\<close> of a checkpoint or an outbox event.\<close>

datatype sql_write =
    W_Run run_row
  | W_Event event_row
  | W_Step step_row
  | W_Contract contract_row
  | W_Current current_row
  | W_Dependency dependency_row
  | W_Invalidation invalidation_row
  | W_Proof proof_row
  | W_Consumption consumption_row
  | W_Send send_row
  | W_Reservation reservation_row
  | W_Attempt attempt_row
  | W_ExecutionReceipt execution_receipt_row
  | W_Outcome outcome_row
  | W_HumanCandidate human_candidate_row
  | W_Promotion promotion_row
  | W_Assertion assertion_row
  | W_Audit audit_row
  | W_Outbox outbox_row
  | W_Checkpoint checkpoint_row
  | W_Receipt receipt_row
  | W_Fence fence_row
  | U_Checkpoint checkpoint_row
  | U_Outbox outbox_row

datatype sql_read =
    SR_Begin | SR_Isolation | SR_Clock | SR_Receipt | SR_Attestation | SR_Checkpoint | SR_Run | SR_AuditedDigest
  | SR_ProofEnvelope uuid | SR_Replay uuid | SR_Closure | SR_Transaction | SR_Open | SR_Fence | SR_PreviousHash
  | SR_RecordSet | SR_Fences | SR_Reservations | SR_Attempts | SR_Outbox | SR_Commit

text \<open>
  The session of one transaction: the values the server and \<open>Uuid::new_v4\<close> return, the serial
  numbers drawn for an event and an audit event, and the refusals.
\<close>

record sql_session =
  q_now :: int
  q_clock :: "string \<Rightarrow> int"
  q_txid :: int
  q_pid :: int
  q_attestation_id :: uuid
  q_nonce :: uuid
  q_event_id :: uuid
  q_outbox_id :: uuid
  q_checkpoint_id :: uuid
  q_invalidation_id :: "AuthoritativeRecordRefV1 \<Rightarrow> uuid"
  q_fresh :: fresh_ids
  q_global_sequence :: int
  q_audit_sequence :: int
  q_read_fails :: "sql_read \<Rightarrow> authority_db \<Rightarrow> string option"
  q_write_refused :: "sql_write \<Rightarrow> authority_db \<Rightarrow> string option"

record transaction =
  tx_db :: authority_db
  tx_active :: "uuid option"

text \<open>A statement or a piece of a transaction: an error drops the transaction, which rolls it back.\<close>

type_synonym 'a sql = "transaction \<Rightarrow> (IdrRuntimeErrorV1, 'a \<times> transaction) result"

definition sql_return :: "'a \<Rightarrow> 'a sql" where
  "sql_return x = (\<lambda>tx. Ok (x, tx))"

definition sql_then :: "'a sql \<Rightarrow> ('a \<Rightarrow> 'b sql) \<Rightarrow> 'b sql" where
  "sql_then m f = (\<lambda>tx. and_then (m tx) (\<lambda>(x, tx'). f x tx'))"

definition sql_lift :: "(IdrRuntimeErrorV1, 'a) result \<Rightarrow> 'a sql" where
  "sql_lift r = (\<lambda>tx. and_then r (\<lambda>x. Ok (x, tx)))"

definition sql_query :: "sql_session \<Rightarrow> sql_read \<Rightarrow> (authority_db \<Rightarrow> 'a) \<Rightarrow> 'a sql" where
  "sql_query Q label f =
     (\<lambda>tx. case q_read_fails Q label (tx_db tx) of
             Some message \<Rightarrow> Err (RE_Repository message)
           | None \<Rightarrow> Ok (f (tx_db tx), tx))"

fun sql_for_each :: "('a \<Rightarrow> unit sql) \<Rightarrow> 'a list \<Rightarrow> unit sql" where
  "sql_for_each f [] = sql_return ()"
| "sql_for_each f (x # xs) = sql_then (f x) (\<lambda>_. sql_for_each f xs)"

section \<open>The view bridge\<close>

text \<open>
  The identity columns of a row that the bridge compares with the attestation; \<open>None\<close> when the
  table has no such column.
\<close>

record row_identity =
  ri_trust_domain :: "string option"
  ri_environment_ref :: "string option"
  ri_tenant_ref :: "string option"
  ri_run_id :: "uuid option"
  ri_command_id :: "uuid option"

definition no_identity :: row_identity where
  "no_identity = \<lparr>ri_trust_domain = None, ri_environment_ref = None, ri_tenant_ref = None,
     ri_run_id = None, ri_command_id = None\<rparr>"

definition placed :: "string \<Rightarrow> string \<Rightarrow> row_identity" where
  "placed trust_domain environment_ref =
     no_identity\<lparr>ri_trust_domain := Some trust_domain, ri_environment_ref := Some environment_ref\<rparr>"

fun write_identity :: "sql_write \<Rightarrow> row_identity" where
  "write_identity (W_Run r) = (placed (qr_trust_domain r) (qr_environment_ref r))
     \<lparr>ri_tenant_ref := Some (qr_tenant_ref r), ri_run_id := Some (qr_run_id r)\<rparr>"
| "write_identity (W_Event r) = (placed (qe_trust_domain r) (qe_environment_ref r))
     \<lparr>ri_tenant_ref := Some (qe_tenant_ref r), ri_run_id := Some (qe_run_id r)\<rparr>"
| "write_identity (W_Step r) = (placed (qs_trust_domain r) (qs_environment_ref r))
     \<lparr>ri_run_id := Some (qs_run_id r), ri_command_id := Some (qs_step_id r)\<rparr>"
| "write_identity (W_Contract r) = (placed (qc_trust_domain r) (qc_environment_ref r))
     \<lparr>ri_tenant_ref := Some (qc_tenant_ref r), ri_run_id := Some (qc_run_id r),
      ri_command_id := Some (qc_issued_by_command_id r)\<rparr>"
| "write_identity (W_Current r) = (placed (qu_trust_domain r) (qu_environment_ref r))
     \<lparr>ri_run_id := Some (qu_run_id r)\<rparr>"
| "write_identity (W_Dependency r) = no_identity"
| "write_identity (W_Invalidation r) = no_identity
     \<lparr>ri_run_id := Some (qi_run_id r), ri_command_id := Some (qi_command_id r)\<rparr>"
| "write_identity (W_Proof r) = (placed (qp_trust_domain r) (qp_environment_ref r))
     \<lparr>ri_tenant_ref := Some (qp_tenant_ref r)\<rparr>"
| "write_identity (W_Consumption r) = (placed (qn_trust_domain r) (qn_environment_ref r))
     \<lparr>ri_tenant_ref := Some (qn_tenant_ref r), ri_run_id := Some (qn_run_id r),
      ri_command_id := Some (qn_command_id r)\<rparr>"
| "write_identity (W_Send r) = no_identity
     \<lparr>ri_tenant_ref := Some (qx_tenant_ref r), ri_command_id := Some (qx_command_id r)\<rparr>"
| "write_identity (W_Reservation r) = no_identity
     \<lparr>ri_tenant_ref := Some (qv_tenant_ref r), ri_run_id := Some (qv_run_id r)\<rparr>"
| "write_identity (W_Attempt r) = no_identity"
| "write_identity (W_ExecutionReceipt r) = no_identity"
| "write_identity (W_Outcome r) = no_identity\<lparr>ri_run_id := Some (qo_run_id r)\<rparr>"
| "write_identity (W_HumanCandidate r) = no_identity
     \<lparr>ri_tenant_ref := Some (qh_tenant_ref r), ri_run_id := Some (qh_run_id r)\<rparr>"
| "write_identity (W_Promotion r) = no_identity"
| "write_identity (W_Assertion r) = no_identity\<lparr>ri_tenant_ref := Some (qy_tenant_ref r)\<rparr>"
| "write_identity (W_Audit r) = (placed (qa_trust_domain r) (qa_environment_ref r))
     \<lparr>ri_tenant_ref := Some (qa_tenant_ref r), ri_run_id := Some (qa_run_id r)\<rparr>"
| "write_identity (W_Outbox r) = (placed (qb_trust_domain r) (qb_environment_ref r))
     \<lparr>ri_tenant_ref := Some (qb_tenant_ref r), ri_run_id := Some (qb_run_id r)\<rparr>"
| "write_identity (W_Checkpoint r) = (placed (qk_trust_domain r) (qk_environment_ref r))
     \<lparr>ri_tenant_ref := Some (qk_tenant_ref r)\<rparr>"
| "write_identity (W_Receipt r) = (placed (qq_trust_domain r) (qq_environment_ref r))
     \<lparr>ri_tenant_ref := Some (qq_tenant_ref r), ri_run_id := Some (qq_run_id r),
      ri_command_id := Some (qq_command_id r)\<rparr>"
| "write_identity (W_Fence r) = (placed (qf_trust_domain r) (qf_environment_ref r))
     \<lparr>ri_tenant_ref := Some (qf_tenant_ref r)\<rparr>"
| "write_identity (U_Checkpoint r) = (placed (qk_trust_domain r) (qk_environment_ref r))
     \<lparr>ri_tenant_ref := Some (qk_tenant_ref r)\<rparr>"
| "write_identity (U_Outbox r) = (placed (qb_trust_domain r) (qb_environment_ref r))
     \<lparr>ri_tenant_ref := Some (qb_tenant_ref r), ri_run_id := Some (qb_run_id r)\<rparr>"

definition allows :: "'a \<Rightarrow> 'a option \<Rightarrow> bool" where
  "allows x column \<longleftrightarrow> column = None \<or> column = Some x"

definition identity_attested :: "attestation_row \<Rightarrow> row_identity \<Rightarrow> bool" where
  "identity_attested a i \<longleftrightarrow>
     allows (qg_trust_domain a) (ri_trust_domain i) \<and>
     allows (qg_environment_ref a) (ri_environment_ref i) \<and>
     (qg_tenant_ref a = ''*'' \<or> allows (qg_tenant_ref a) (ri_tenant_ref i)) \<and>
     (qg_run_id a = ZERO_RUN_ID_V1 \<or> allows (qg_run_id a) (ri_run_id i)) \<and>
     allows (qg_command_id a) (ri_command_id i)"

text \<open>\<open>idr_current_attestation_v7\<close>: the attestation opened in this very transaction.\<close>

definition idr_current_attestation :: "sql_session \<Rightarrow> transaction \<Rightarrow> attestation_row option" where
  "idr_current_attestation Q tx =
     (case tx_active tx of
        None \<Rightarrow> None
      | Some active \<Rightarrow>
          find (\<lambda>a. qg_attestation_id a = active \<and> qg_database_txid a = q_txid Q \<and>
                    qg_backend_pid a = q_pid Q) (db_attestations (tx_db tx)))"

text \<open>Whether a row violates a primary key or a unique constraint of its table.\<close>

fun unique_violation :: "sql_write \<Rightarrow> authority_db \<Rightarrow> bool" where
  "unique_violation (W_Run r) db = list_ex (\<lambda>e. qr_run_id e = qr_run_id r) (db_runs db)"
| "unique_violation (W_Event r) db =
     list_ex (\<lambda>e. qe_global_sequence e = qe_global_sequence r \<or> qe_event_id e = qe_event_id r \<or>
       qe_run_id e = qe_run_id r \<and> (qe_run_event_sequence e = qe_run_event_sequence r \<or>
         qe_aggregate_version e = qe_aggregate_version r)) (db_events db)"
| "unique_violation (W_Step r) db =
     list_ex (\<lambda>e. qs_run_id e = qs_run_id r \<and> qs_step_id e = qs_step_id r) (db_steps db)"
| "unique_violation (W_Contract r) db =
     list_ex (\<lambda>e. qc_record_id e = qc_record_id r \<and> qc_revision e = qc_revision r \<or>
       qc_record_digest e = qc_record_digest r) (db_contracts db)"
| "unique_violation (W_Current r) db =
     list_ex (\<lambda>e. qu_run_id e = qu_run_id r \<and> qu_candidate_kind e = qu_candidate_kind r) (db_current db)"
| "unique_violation (W_Dependency r) db =
     list_ex (\<lambda>e. qd_dependent_record_id e = qd_dependent_record_id r \<and>
       qd_dependent_revision e = qd_dependent_revision r \<and>
       qd_dependency_record_id e = qd_dependency_record_id r \<and>
       qd_dependency_revision e = qd_dependency_revision r) (db_dependencies db)"
| "unique_violation (W_Invalidation r) db =
     list_ex (\<lambda>e. qi_invalidation_id e = qi_invalidation_id r \<or>
       qi_record_id e = qi_record_id r \<and> qi_revision e = qi_revision r) (db_invalidations db)"
| "unique_violation (W_Proof r) db = list_ex (\<lambda>e. qp_proof_id e = qp_proof_id r) (db_proofs db)"
| "unique_violation (W_Consumption r) db =
     list_ex (\<lambda>e. qn_proof_id e = qn_proof_id r \<or>
       qn_tenant_ref e = qn_tenant_ref r \<and> qn_nonce e = qn_nonce r) (db_consumptions db)"
| "unique_violation (W_Send r) db =
     list_ex (\<lambda>e. qx_tenant_ref e = qx_tenant_ref r \<and> qx_send_nonce e = qx_send_nonce r) (db_sends db)"
| "unique_violation (W_Reservation r) db =
     list_ex (\<lambda>e. qv_reservation_id e = qv_reservation_id r \<or> qv_fence_id e = qv_fence_id r \<or>
       qv_action_record_id e = qv_action_record_id r \<and> qv_action_revision e = qv_action_revision r \<or>
       qv_tenant_ref e = qv_tenant_ref r \<and> qv_operation_ref e = qv_operation_ref r \<and>
         qv_idempotency_key e = qv_idempotency_key r) (db_reservations db)"
| "unique_violation (W_Attempt r) db =
     list_ex (\<lambda>e. qt_permit_id e = qt_permit_id r \<or>
       qt_reservation_id e = qt_reservation_id r \<and> (qt_attempt e = qt_attempt r \<or>
         qt_dispatch_nonce e = qt_dispatch_nonce r)) (db_attempts db)"
| "unique_violation (W_ExecutionReceipt r) db =
     list_ex (\<lambda>e. qz_receipt_record_id e = qz_receipt_record_id r \<and>
         qz_receipt_revision e = qz_receipt_revision r \<or>
       qz_reservation_id e = qz_reservation_id r \<and> qz_attempt e = qz_attempt r)
       (db_execution_receipts db)"
| "unique_violation (W_Outcome r) db =
     list_ex (\<lambda>e. qo_outcome_record_id e = qo_outcome_record_id r \<and>
       qo_outcome_revision e = qo_outcome_revision r) (db_outcomes db)"
| "unique_violation (W_HumanCandidate r) db =
     list_ex (\<lambda>e. qh_candidate_record_id e = qh_candidate_record_id r \<and>
       qh_candidate_revision e = qh_candidate_revision r) (db_human_candidates db)"
| "unique_violation (W_Promotion r) db =
     list_ex (\<lambda>e. qm_decision_record_id e = qm_decision_record_id r \<and>
       qm_decision_revision e = qm_decision_revision r) (db_promotions db)"
| "unique_violation (W_Assertion r) db =
     list_ex (\<lambda>e. qy_assertion_record_id e = qy_assertion_record_id r \<and>
       qy_assertion_revision e = qy_assertion_revision r) (db_assertions db)"
| "unique_violation (W_Audit r) db =
     list_ex (\<lambda>e. qa_sequence e = qa_sequence r \<or> qa_event_id e = qa_event_id r) (db_audit db)"
| "unique_violation (W_Outbox r) db = list_ex (\<lambda>e. qb_outbox_id e = qb_outbox_id r) (db_outbox db)"
| "unique_violation (W_Checkpoint r) db =
     list_ex (\<lambda>e. qk_checkpoint_id e = qk_checkpoint_id r \<or>
       qk_tenant_ref e = qk_tenant_ref r \<and> qk_audit_sequence e = qk_audit_sequence r) (db_checkpoints db)"
| "unique_violation (W_Receipt r) db = list_ex (\<lambda>e. qq_command_id e = qq_command_id r) (db_receipts db)"
| "unique_violation (W_Fence r) db =
     list_ex (\<lambda>e. qf_fence_id e = qf_fence_id r \<or>
       qf_trust_domain e = qf_trust_domain r \<and> qf_environment_ref e = qf_environment_ref r \<and>
       qf_tenant_ref e = qf_tenant_ref r \<and> qf_operation_ref e = qf_operation_ref r \<and>
       qf_idempotency_key e = qf_idempotency_key r) (db_fences db)"
| "unique_violation (U_Checkpoint r) db = False"
| "unique_violation (U_Outbox r) db = False"

text \<open>The new row, with the serial numbers and the attestation the bridge assigns.\<close>

fun insert_row :: "sql_session \<Rightarrow> uuid \<Rightarrow> sql_write \<Rightarrow> authority_db \<Rightarrow> authority_db" where
  "insert_row Q aid (W_Run r) db = db\<lparr>db_runs := db_runs db @ [r]\<rparr>"
| "insert_row Q aid (W_Event r) db = db\<lparr>db_events := db_events db @
     [r\<lparr>qe_global_sequence := q_global_sequence Q, qe_attestation_id := aid\<rparr>]\<rparr>"
| "insert_row Q aid (W_Step r) db = db\<lparr>db_steps := db_steps db @ [r]\<rparr>"
| "insert_row Q aid (W_Contract r) db = db\<lparr>db_contracts := db_contracts db @ [r]\<rparr>"
| "insert_row Q aid (W_Current r) db = db\<lparr>db_current := db_current db @ [r]\<rparr>"
| "insert_row Q aid (W_Dependency r) db = db\<lparr>db_dependencies := db_dependencies db @ [r]\<rparr>"
| "insert_row Q aid (W_Invalidation r) db = db\<lparr>db_invalidations := db_invalidations db @ [r]\<rparr>"
| "insert_row Q aid (W_Proof r) db = db\<lparr>db_proofs := db_proofs db @ [r]\<rparr>"
| "insert_row Q aid (W_Consumption r) db = db\<lparr>db_consumptions := db_consumptions db @ [r]\<rparr>"
| "insert_row Q aid (W_Send r) db = db\<lparr>db_sends := db_sends db @ [r]\<rparr>"
| "insert_row Q aid (W_Reservation r) db = db\<lparr>db_reservations := db_reservations db @ [r]\<rparr>"
| "insert_row Q aid (W_Attempt r) db = db\<lparr>db_attempts := db_attempts db @ [r]\<rparr>"
| "insert_row Q aid (W_ExecutionReceipt r) db = db\<lparr>db_execution_receipts := db_execution_receipts db @ [r]\<rparr>"
| "insert_row Q aid (W_Outcome r) db = db\<lparr>db_outcomes := db_outcomes db @ [r]\<rparr>"
| "insert_row Q aid (W_HumanCandidate r) db = db\<lparr>db_human_candidates := db_human_candidates db @ [r]\<rparr>"
| "insert_row Q aid (W_Promotion r) db = db\<lparr>db_promotions := db_promotions db @ [r]\<rparr>"
| "insert_row Q aid (W_Assertion r) db = db\<lparr>db_assertions := db_assertions db @ [r]\<rparr>"
| "insert_row Q aid (W_Audit r) db = db\<lparr>db_audit := db_audit db @
     [r\<lparr>qa_sequence := q_audit_sequence Q, qa_attestation_id := aid\<rparr>]\<rparr>"
| "insert_row Q aid (W_Outbox r) db = db\<lparr>db_outbox := db_outbox db @ [r]\<rparr>"
| "insert_row Q aid (W_Checkpoint r) db = db\<lparr>db_checkpoints := db_checkpoints db @ [r]\<rparr>"
| "insert_row Q aid (W_Receipt r) db = db\<lparr>db_receipts := db_receipts db @ [r\<lparr>qq_attestation_id := aid\<rparr>]\<rparr>"
| "insert_row Q aid (W_Fence r) db = db\<lparr>db_fences := db_fences db @ [r]\<rparr>"
| "insert_row Q aid (U_Checkpoint r) db = db\<lparr>db_checkpoints :=
     map (\<lambda>e. if qk_checkpoint_id e = qk_checkpoint_id r then r else e) (db_checkpoints db)\<rparr>"
| "insert_row Q aid (U_Outbox r) db = db\<lparr>db_outbox :=
     map (\<lambda>e. if qb_outbox_id e = qb_outbox_id r then r else e) (db_outbox db)\<rparr>"

text \<open>The row a serial number completes, as the unique constraints see it.\<close>

fun numbered :: "sql_session \<Rightarrow> sql_write \<Rightarrow> sql_write" where
  "numbered Q (W_Event r) = W_Event (r\<lparr>qe_global_sequence := q_global_sequence Q\<rparr>)"
| "numbered Q (W_Audit r) = W_Audit (r\<lparr>qa_sequence := q_audit_sequence Q\<rparr>)"
| "numbered Q w = w"

definition update_where :: "('a \<Rightarrow> bool) \<Rightarrow> ('a \<Rightarrow> 'a) \<Rightarrow> 'a list \<Rightarrow> 'a list" where
  "update_where P f rows = map (\<lambda>e. if P e then f e else e) rows"

definition raise_exception :: "string \<Rightarrow> (IdrRuntimeErrorV1, 'a) result" where
  "raise_exception message = Err (RE_Repository message)"

text \<open>\<open>COALESCE\<close> on a nullable column.\<close>

definition coalesce :: "'a option \<Rightarrow> 'a option \<Rightarrow> 'a option" where
  "coalesce x y = (case x of None \<Rightarrow> y | Some _ \<Rightarrow> x)"

text \<open>
  The updates of a reservation and of an attempt, and the triggers on them
  (\<open>idr_guard_execution_reservation_update_v5\<close>, \<open>idr_guard_execution_attempt_update_v5\<close>). The updates write
  none of the columns the triggers hold immutable, and keep a time that is already set.
\<close>

definition reservation_updated :: "sql_session \<Rightarrow> reservation_row \<Rightarrow> reservation_row \<Rightarrow> reservation_row" where
  "reservation_updated Q r old = old\<lparr>qv_state := qv_state r, qv_aggregate_version := qv_aggregate_version r,
     qv_updated_at := q_clock Q ''reservation_updated_at''\<rparr>"

definition reservation_update_refused :: "string option \<Rightarrow> reservation_row \<Rightarrow> reservation_row \<Rightarrow> bool" where
  "reservation_update_refused purpose old new \<longleftrightarrow>
     qv_aggregate_version new \<noteq> qv_aggregate_version old + 1 \<or>
     qv_updated_at new < qv_updated_at old \<or>
     \<not> idr_execution_state_transition_allowed purpose (qv_state old) (qv_state new)"

definition attempt_updated :: "attempt_row \<Rightarrow> attempt_row \<Rightarrow> attempt_row" where
  "attempt_updated r old = old\<lparr>qt_state := qt_state r,
     qt_started_at := coalesce (qt_started_at old) (qt_started_at r),
     qt_completed_at := coalesce (qt_completed_at old) (qt_completed_at r)\<rparr>"

definition attempt_update_refused :: "string option \<Rightarrow> attempt_row \<Rightarrow> attempt_row \<Rightarrow> bool" where
  "attempt_update_refused purpose old new \<longleftrightarrow>
     \<not> idr_execution_state_transition_allowed purpose (qt_state old) (qt_state new) \<or>
     qt_started_at old \<noteq> None \<and> qt_started_at new \<noteq> qt_started_at old \<or>
     qt_completed_at old \<noteq> None \<and> qt_completed_at new \<noteq> qt_completed_at old \<or>
     qt_completed_at new \<noteq> None \<and> qt_started_at new = None"

text \<open>
  The handler of \<open>unique_violation\<close>: the number of rows the view reports and the new tables. A
  reservation that collides only with another one of the same action or key matches no row to
  update; the bridge then returns a row all the same.
\<close>

fun on_unique_violation ::
  "sql_session \<Rightarrow> string option \<Rightarrow> sql_write \<Rightarrow> authority_db \<Rightarrow> (IdrRuntimeErrorV1, nat \<times> authority_db) result" where
  "on_unique_violation Q purpose (W_Run r) db =
     (case find (\<lambda>e. qr_run_id e = qr_run_id r) (db_runs db) of
        None \<Rightarrow> raise_exception ''Attested Run aggregate update is invalid''
      | Some e \<Rightarrow>
          if qr_trust_domain e \<noteq> qr_trust_domain r \<or> qr_environment_ref e \<noteq> qr_environment_ref r \<or>
             qr_aggregate_version e + 1 \<noteq> qr_aggregate_version r
          then raise_exception ''Attested Run aggregate update is invalid''
          else Ok (1, db\<lparr>db_runs := update_where (\<lambda>e. qr_run_id e = qr_run_id r)
            (\<lambda>e. e\<lparr>qr_aggregate_version := qr_aggregate_version r, qr_state := qr_state r,
                   qr_projection := qr_projection r, qr_projection_digest := qr_projection_digest r,
                   qr_last_event_sequence := qr_last_event_sequence r\<rparr>) (db_runs db)\<rparr>))"
| "on_unique_violation Q purpose (W_Current r) db =
     (case find (\<lambda>e. qu_run_id e = qu_run_id r \<and> qu_candidate_kind e = qu_candidate_kind r)
             (db_current db) of
        None \<Rightarrow> raise_exception ''Attested current Contract revision is invalid''
      | Some e \<Rightarrow>
          if qu_revision e + 1 \<noteq> qu_revision r
          then raise_exception ''Attested current Contract revision is invalid''
          else Ok (1, db\<lparr>db_current := update_where
            (\<lambda>e. qu_run_id e = qu_run_id r \<and> qu_candidate_kind e = qu_candidate_kind r)
            (\<lambda>e. e\<lparr>qu_record_id := qu_record_id r, qu_revision := qu_revision r,
                   qu_record_digest := qu_record_digest r\<rparr>) (db_current db)\<rparr>))"
| "on_unique_violation Q purpose (W_Reservation r) db =
     (case find (\<lambda>e. qv_reservation_id e = qv_reservation_id r) (db_reservations db) of
        None \<Rightarrow> Ok (1, db)
      | Some e \<Rightarrow>
          if qv_aggregate_version e \<ge> qv_aggregate_version r
          then raise_exception ''Attested execution Reservation version did not advance''
          else if reservation_update_refused purpose e (reservation_updated Q r e)
          then raise_exception ''Execution reservation update is not a contiguous legal transition''
          else Ok (1, db\<lparr>db_reservations := update_where (\<lambda>e. qv_reservation_id e = qv_reservation_id r)
            (reservation_updated Q r) (db_reservations db)\<rparr>))"
| "on_unique_violation Q purpose (W_Attempt r) db =
     (let same = (\<lambda>e. qt_reservation_id e = qt_reservation_id r \<and> qt_attempt e = qt_attempt r \<and>
            qt_permit_id e = qt_permit_id r \<and> qt_dispatch_nonce e = qt_dispatch_nonce r \<and>
            qt_provider_ref e = qt_provider_ref r \<and> qt_owner_ref e = qt_owner_ref r) in
      if \<not> list_ex same (db_attempts db)
      then raise_exception ''Attested execution Attempt identity changed''
      else if list_ex (\<lambda>e. same e \<and> attempt_update_refused purpose e (attempt_updated r e)) (db_attempts db)
      then raise_exception ''Execution attempt update is not a legal monotonic transition''
      else Ok (1, db\<lparr>db_attempts := update_where same (attempt_updated r) (db_attempts db)\<rparr>))"
| "on_unique_violation Q purpose (W_Invalidation r) db = Ok (0, db)"
| "on_unique_violation Q purpose (W_Fence r) db = Ok (0, db)"
| "on_unique_violation Q purpose w db = raise_exception ''duplicate key value violates unique constraint''"

definition idr_attested_authority_view_bridge :: "sql_session \<Rightarrow> sql_write \<Rightarrow> nat sql" where
  "idr_attested_authority_view_bridge Q w tx =
     (case idr_current_attestation Q tx of
        None \<Rightarrow> raise_exception ''IDR authority mutation has no Orchestrator attestation''
      | Some a \<Rightarrow>
          if \<not> identity_attested a (write_identity w)
          then raise_exception ''Authority row is not attested''
          else (case q_write_refused Q w (tx_db tx) of
             Some message \<Rightarrow> Err (RE_Repository message)
           | None \<Rightarrow>
               if unique_violation (numbered Q w) (tx_db tx)
               then and_then (on_unique_violation Q (Some (qg_purpose a)) w (tx_db tx)) (\<lambda>(rows_affected, db).
                      Ok (rows_affected, tx\<lparr>tx_db := db\<rparr>))
               else Ok (1, tx\<lparr>tx_db := insert_row Q (qg_attestation_id a) w (tx_db tx)\<rparr>)))"

text \<open>A write whose row count the caller ignores.\<close>

definition sql_execute :: "sql_session \<Rightarrow> sql_write \<Rightarrow> unit sql" where
  "sql_execute Q w = sql_then (idr_attested_authority_view_bridge Q w) (\<lambda>_. sql_return ())"

section \<open>Attestations of a transaction\<close>

definition attestation_material_of_row ::
  "crates \<Rightarrow> attestation_row \<Rightarrow> u64 \<Rightarrow> u64 \<Rightarrow> (IdrRuntimeErrorV1, bytes) result" where
  "attestation_material_of_row X a pre post =
     orchestrator_attestation_material_v1 X (qg_trust_domain a) (qg_environment_ref a) (qg_purpose a)
       (qg_attestation_id a) (qg_command_id a) (qg_run_id a) (qg_tenant_ref a) pre post
       (qg_command_digest a) (qg_transition_digest a) (qg_database_txid a) (qg_backend_pid a)
       (qg_nonce a) (qg_key_version a)"

text \<open>
  \<open>idr_open_attested_transition_v8\<close>. Its HMAC is the one of the key with the stored secret
  (\<open>idr_hmac_sha256_v7\<close> pads in the same way) over the same lines; comparing the decoded bytes of
  two lower-case digests is comparing the digests.
\<close>

definition idr_open_attested_transition ::
  "crates \<Rightarrow> sql_session \<Rightarrow> attestation_row \<Rightarrow> uuid sql" where
  "idr_open_attested_transition X Q a tx =
     (if qg_database_txid a \<noteq> q_txid Q \<or> qg_backend_pid a \<noteq> q_pid Q \<or>
         qg_post_aggregate_version a < qg_pre_aggregate_version a \<or>
         \<not> valid_digest (qg_command_digest a) \<or> \<not> valid_digest (qg_transition_digest a) \<or>
         \<not> valid_digest (qg_mac a)
      then raise_exception ''IDR Orchestrator attestation transaction binding is invalid''
      else (case find (\<lambda>w. qw_key_version w = qg_key_version a) (db_secrets (tx_db tx)) of
        None \<Rightarrow> raise_exception ''query returned no rows''
      | Some w \<Rightarrow>
          if qw_key_digest w \<noteq> x_sha256_hex X (qw_secret w)
          then raise_exception ''IDR Orchestrator attestation key integrity failure''
          else and_then (attestation_material_of_row X a (word_of_int (qg_pre_aggregate_version a))
                 (word_of_int (qg_post_aggregate_version a))) (\<lambda>material.
            if OrchestratorAttestationKeyV1_mac X
                 \<lparr>ak_bytes = qw_secret w, ak_version = qw_key_version w\<rparr> material \<noteq> qg_mac a
            then raise_exception ''IDR Orchestrator attestation authentication failed''
            else if list_ex (\<lambda>e. qg_attestation_id e = qg_attestation_id a \<or> qg_nonce e = qg_nonce a \<or>
                   qg_purpose e = qg_purpose a \<and> qg_command_id e = qg_command_id a \<and>
                   qg_transition_digest e = qg_transition_digest a) (db_attestations (tx_db tx))
            then raise_exception ''duplicate key value violates unique constraint''
            else Ok (qg_attestation_id a,
                   \<lparr>tx_db = (tx_db tx)\<lparr>db_attestations := db_attestations (tx_db tx) @ [a]\<rparr>,
                    tx_active = Some (qg_attestation_id a)\<rparr>))))"

end
