(* ===== verification/IDR_Persist.thy ===== *)
theory IDR_Persist
  imports IDR_Database
begin

text \<open>
  What a transaction of the PostgreSQL authority reads and writes besides its audit trail
  (\<open>postgres_authority.rs\<close>): proof replay, the run, its step snapshot, the authoritative record and
  its dependencies, the recursive invalidation closure, proof consumptions, the specialized
  projections (sends, invalidations, fences, reservations, attempts, receipts, outcomes, human
  model rows) and the roots of a checkpoint.

  The \<open>serde\<close> implementations derived for the stored types are one record of functions.
\<close>

record authority_serde =
  sv_projection_to_value :: "IdrRunProjectionV1 \<Rightarrow> json"
  sv_projection_from_value :: "json \<Rightarrow> IdrRunProjectionV1 option"
  sv_receipt_from_value :: "json \<Rightarrow> IdrCommandReceiptV1 option"
  sv_envelope_from_value :: "json \<Rightarrow> ProductionProofEnvelopeV1 option"
  sv_checkpoint_from_value :: "json \<Rightarrow> AuditCheckpointV1 option"
  sv_record_from_value :: "json \<Rightarrow> AuthoritativeRecordV1 option"

section \<open>Ordered sets of record references\<close>

definition candidate_kinds :: "CandidateKindV1 list" where
  "candidate_kinds = [CK_CanonicalInput, CK_ContextSnapshot, CK_Intent, CK_Decision, CK_TurnCoordination,
     CK_Response, CK_Action, CK_ActionAdmissionDecision, CK_ExecutionReceipt, CK_Outcome,
     CK_HumanModelCandidate, CK_HumanModelPromotionDecision, CK_HumanModelAssertion]"

definition candidate_kind_from_value :: "string \<Rightarrow> CandidateKindV1 option" where
  "candidate_kind_from_value s = find (\<lambda>k. candidate_kind_name k = s) candidate_kinds"

definition trust_domain_from_value :: "string \<Rightarrow> TrustDomainV1 option" where
  "trust_domain_from_value s = find (\<lambda>d. TrustDomainV1_name d = s) [TD_Shadow, TD_Production]"

lemma candidate_kind_from_name [simp]: "candidate_kind_from_value (candidate_kind_name k) = Some k"
  by (cases k) (simp_all add: candidate_kind_from_value_def candidate_kinds_def)

lemma trust_domain_from_name [simp]: "trust_domain_from_value (TrustDomainV1_name d) = Some d"
  by (cases d) (simp_all add: trust_domain_from_value_def)

text \<open>The derived \<open>Ord\<close> of a reference compares its fields in order, the enums by position.\<close>

definition enum_position :: "'a list \<Rightarrow> 'a \<Rightarrow> nat" where
  "enum_position xs x = length (takeWhile (\<lambda>y. y \<noteq> x) xs)"

definition record_ref_key :: "AuthoritativeRecordRefV1 \<Rightarrow> nat list list" where
  "record_ref_key r = [[unat (rr_record_id r)], [unat (rr_revision r)],
     [enum_position candidate_kinds (rr_candidate_kind r)],
     [enum_position [TD_Shadow, TD_Production] (rr_trust_domain r)],
     map of_char (rr_environment_ref r),
     [unat (rr_valid_from r)], [unat (rr_valid_until r)], map of_char (rr_record_digest r)]"

lemma enum_position_inj:
  "x \<in> set xs \<Longrightarrow> y \<in> set xs \<Longrightarrow> enum_position xs x = enum_position xs y \<Longrightarrow> x = y"
  unfolding enum_position_def by (induction xs) (auto split: if_splits)

lemma candidate_kinds_all: "k \<in> set candidate_kinds"
  by (cases k) (simp_all add: candidate_kinds_def)

lemma record_ref_key_inj: "record_ref_key a = record_ref_key b \<longleftrightarrow> a = b"
proof
  have chars: "map of_char s = (map of_char t :: nat list) \<Longrightarrow> s = t" for s t :: string
    by (induction s arbitrary: t) (auto simp: Cons_eq_map_conv)
  have domain: "enum_position [TD_Shadow, TD_Production] d = enum_position [TD_Shadow, TD_Production] e \<Longrightarrow> d = e"
    for d e by (cases d; cases e) (simp_all add: enum_position_def)
  assume "record_ref_key a = record_ref_key b"
  then show "a = b"
    unfolding record_ref_key_def
    by (intro AuthoritativeRecordRefV1.equality)
      (auto dest!: chars intro: enum_position_inj [OF candidate_kinds_all candidate_kinds_all]
        domain word_unat_eq_iff [THEN iffD2])
qed simp

text \<open>A \<open>BTreeSet\<close> of references as the list of its members in order.\<close>

definition record_set_insert ::
  "AuthoritativeRecordRefV1 \<Rightarrow> AuthoritativeRecordRefV1 list \<Rightarrow> AuthoritativeRecordRefV1 list" where
  "record_set_insert r rs = (if r \<in> set rs then rs else insort_key record_ref_key r rs)"

definition record_set_to_list :: "AuthoritativeRecordRefV1 set \<Rightarrow> AuthoritativeRecordRefV1 list" where
  "record_set_to_list S = sorted_key_list_of_set record_ref_key S"

interpretation record_order: folding_on UNIV "insort_key record_ref_key" "[]"
proof
  show "insort_key record_ref_key s \<circ> insort_key record_ref_key r =
      insort_key record_ref_key r \<circ> insort_key record_ref_key s" for r s
    by (cases "r = s") (auto simp: fun_eq_iff record_ref_key_inj intro!: insort_key_left_comm)
qed

lemma record_set_to_list_set [code]: "record_set_to_list (set rs) = foldr record_set_insert rs []"
proof -
  have "foldr record_set_insert rs [] = record_set_to_list (set rs) \<and> set (foldr record_set_insert rs []) = set rs"
  proof (induction rs)
    case Nil
    show ?case by (simp add: record_set_to_list_def sorted_key_list_of_set_def record_order.empty)
  next
    case (Cons r rs)
    then show ?case
      by (auto simp: record_set_insert_def record_set_to_list_def sorted_key_list_of_set_def record_order.insert
          insert_absorb set_insort_key)
  qed
  then show ?thesis by simp
qed

section \<open>Replay of proofs\<close>

fun check_proof_replay ::
  "sql_session \<Rightarrow> IdrCommandEnvelopeV1 \<Rightarrow> TrustDomainV1 \<Rightarrow> VerifiedProductionProofV1 list \<Rightarrow> unit sql" where
  "check_proof_replay Q command trust_domain [] = sql_return ()"
| "check_proof_replay Q command trust_domain (proof1 # proofs) =
     sql_then (sql_query Q (SR_Replay (vp_proof_id proof1)) (\<lambda>db.
         list_ex (\<lambda>c. qn_trust_domain c = TrustDomainV1_name trust_domain \<and>
           qn_environment_ref c = ce_environment_ref command \<and>
           (qn_proof_id c = vp_proof_id proof1 \<or>
            qn_tenant_ref c = ce_tenant_ref command \<and> qn_nonce c = vp_nonce proof1)) (db_consumptions db)))
       (\<lambda>replay. if replay then sql_lift (Err RE_ProofReplay)
                 else check_proof_replay Q command trust_domain proofs)"

section \<open>The run and its step\<close>

definition upsert_run ::
  "sql_session \<Rightarrow> authority_serde \<Rightarrow> IdrRunProjectionV1 \<Rightarrow> string \<Rightarrow> unit sql" where
  "upsert_run Q S projection projection_digest =
     sql_then (sql_lift (trust_domain_name (pj_trust_domain projection))) (\<lambda>domain.
     sql_then (sql_lift (i64_from_u64 (pj_aggregate_version projection))) (\<lambda>aggregate_version.
     sql_then (sql_lift (i64_from_u64 (pj_last_event_sequence projection))) (\<lambda>last_event_sequence.
     sql_then (idr_attested_authority_view_bridge Q (W_Run \<lparr>
       qr_run_id = pj_run_id projection,
       qr_trust_domain = domain,
       qr_environment_ref = pj_environment_ref projection,
       qr_tenant_ref = pj_tenant_ref projection,
       qr_aggregate_version = aggregate_version,
       qr_state = IdrRunStateV1_name (pj_state projection),
       qr_projection = sv_projection_to_value S projection,
       qr_projection_digest = projection_digest,
       qr_last_event_sequence = last_event_sequence\<rparr>)) (\<lambda>rows_affected.
     if rows_affected \<noteq> 1 then sql_lift (Err RE_AggregateVersionConflict) else sql_return ()))))"

definition step_state :: "IdrTransitionV1 \<Rightarrow> string" where
  "step_state transition =
     (let run_state = pj_state (tn_projection transition) in
      if run_state \<in> {RS_WaitingInput, RS_WaitingAuthorization, RS_WaitingDependency,
           RS_ReconciliationRequired} then ''waiting''
      else if run_state \<in> {RS_Failed, RS_Rejected, RS_TimedOut} then ''failed''
      else if run_state \<in> {RS_Cancelled, RS_Invalidated} then ''cancelled''
      else if tn_event_type transition \<in> {''execution_permit_issued'', ''execution_permit_delivered'',
           ''execution_dispatch_started''} then ''waiting''
      else ''completed'')"

definition persist_step_snapshot ::
  "sql_session \<Rightarrow> authority_serde \<Rightarrow> IdrCommandEnvelopeV1 \<Rightarrow> IdrTransitionV1 \<Rightarrow> unit sql" where
  "persist_step_snapshot Q S command transition =
     (let projection = tn_projection transition in
     sql_then (sql_lift (trust_domain_name (pj_trust_domain projection))) (\<lambda>domain.
     sql_then (sql_lift (i64_from_u64 (pj_aggregate_version projection))) (\<lambda>aggregate_version.
     sql_execute Q (W_Step \<lparr>
       qs_run_id = ce_run_id command,
       qs_trust_domain = domain,
       qs_environment_ref = pj_environment_ref projection,
       qs_step_id = ce_command_id command,
       qs_step_kind = tn_event_type transition,
       qs_step_state = step_state transition,
       qs_aggregate_version = aggregate_version,
       qs_snapshot = sv_projection_to_value S projection\<rparr>))))"

section \<open>The authoritative record\<close>

definition persist_authoritative_record ::
  "crates \<Rightarrow> sql_session \<Rightarrow> AuthoritativeRecordV1 option \<Rightarrow> IdrRunProjectionV1 \<Rightarrow> unit sql" where
  "persist_authoritative_record X Q record1 projection =
     (case record1 of
        None \<Rightarrow> sql_return ()
      | Some r \<Rightarrow>
          let record_json = AuthoritativeRecordV1_json X r; ref1 = ar_record_ref r in
          sql_then (sql_lift (ok_or (Option.bind (Option.bind (json_get record_json ''issued_by_command_id'')
            json_as_str) (x_uuid_parse X)) RE_Serialization)) (\<lambda>issued_by_command_id.
          sql_then (sql_lift (ok_or (Option.bind (json_get record_json ''issued_at'') json_as_u64)
            RE_Serialization)) (\<lambda>issued_at.
          sql_then (sql_lift (i64_from_u64 (rr_revision ref1))) (\<lambda>revision.
          sql_then (sql_lift (i64_from_u64 issued_at)) (\<lambda>issued_at_seconds.
          sql_then (sql_lift (i64_from_u64 (ar_valid_from r))) (\<lambda>valid_from.
          sql_then (sql_lift (i64_from_u64 (ar_valid_until r))) (\<lambda>valid_until.
          sql_then (sql_execute Q (W_Contract \<lparr>
            qc_record_id = rr_record_id ref1,
            qc_revision = revision,
            qc_candidate_kind = candidate_kind_name (rr_candidate_kind ref1),
            qc_trust_domain = TrustDomainV1_name (ar_trust_domain r),
            qc_environment_ref = ar_environment_ref r,
            qc_run_id = ar_run_id r,
            qc_tenant_ref = ar_tenant_ref r,
            qc_subject_ref = ar_subject_ref r,
            qc_record_digest = rr_record_digest ref1,
            qc_record = record_json,
            qc_issued_by_command_id = issued_by_command_id,
            qc_issued_at = issued_at_seconds,
            qc_valid_from = valid_from,
            qc_valid_until = valid_until\<rparr>)) (\<lambda>_.
          sql_then (idr_attested_authority_view_bridge Q (W_Current \<lparr>
            qu_run_id = pj_run_id projection,
            qu_trust_domain = TrustDomainV1_name (pj_trust_domain projection),
            qu_environment_ref = pj_environment_ref projection,
            qu_candidate_kind = candidate_kind_name (rr_candidate_kind ref1),
            qu_record_id = rr_record_id ref1,
            qu_revision = revision,
            qu_record_digest = rr_record_digest ref1\<rparr>)) (\<lambda>rows_affected.
          if rows_affected \<noteq> 1 then sql_lift (Err RE_AggregateVersionConflict) else sql_return ())))))))))"

section \<open>Dependencies of records\<close>

text \<open>
  The set collected before anything is written: \<open>add_current\<close> adds the current record of a kind
  unless it is the record itself.
\<close>

definition add_current ::
  "IdrRunProjectionV1 \<Rightarrow> AuthoritativeRecordRefV1 \<Rightarrow> CandidateKindV1 \<Rightarrow> AuthoritativeRecordRefV1 list \<Rightarrow>
   AuthoritativeRecordRefV1 list" where
  "add_current projection record_ref kind dependencies =
     (case pj_records projection kind of
        None \<Rightarrow> dependencies
      | Some reference \<Rightarrow>
          if reference \<noteq> record_ref then record_set_insert reference dependencies else dependencies)"

definition contract_dependencies ::
  "IdrCommandV1 \<Rightarrow> IdrRunProjectionV1 \<Rightarrow> AuthoritativeRecordRefV1 \<Rightarrow> AuthoritativeRecordRefV1 list" where
  "contract_dependencies command projection record_ref =
     (let current = add_current projection record_ref in
      case command of
        RecordContext _ \<Rightarrow> current CK_CanonicalInput []
      | RecordIntent _ \<Rightarrow> current CK_ContextSnapshot []
      | RecordDecision _ \<Rightarrow> current CK_Intent []
      | RecordTurn _ \<Rightarrow> current CK_Decision (current CK_Intent [])
      | RecordResponse _ \<Rightarrow> current CK_TurnCoordination []
      | RecordAction _ \<Rightarrow>
          (if pj_records projection CK_Decision \<noteq> None
           then current CK_Decision (current CK_TurnCoordination [])
           else current CK_Intent (current CK_TurnCoordination []))
      | AdmitAction action_ref _ _ _ _ \<Rightarrow> [action_ref]
      | CommitExecutionReceipt _ _ _ _ _ _ \<Rightarrow> current CK_Action []
      | RecordOutcome _ \<Rightarrow> current CK_ExecutionReceipt []
      | ProposeHumanModelCandidate _ \<Rightarrow> current CK_Outcome []
      | RecordHumanModelPromotion _ source_candidate_ref \<Rightarrow> [source_candidate_ref]
      | PromoteHumanModelAssertion _ promotion_decision_ref \<Rightarrow> [promotion_decision_ref]
      | CorrectHumanModelAssertion assertion_ref _ \<Rightarrow> [assertion_ref]
      | _ \<Rightarrow> [])"

text \<open>
  The edge to the previous revision is inserted by \<open>INSERT ... SELECT\<close>: one row when that revision
  is stored, none otherwise.
\<close>

definition insert_previous_revision ::
  "sql_session \<Rightarrow> uuid \<Rightarrow> int \<Rightarrow> int \<Rightarrow> unit sql" where
  "insert_previous_revision Q record_id revision previous_revision tx =
     (case find (\<lambda>c. qc_record_id c = record_id \<and> qc_revision c = previous_revision)
             (db_contracts (tx_db tx)) of
        None \<Rightarrow> Err RE_MissingDependency
      | Some c \<Rightarrow> sql_execute Q (W_Dependency \<lparr>
            qd_dependent_record_id = record_id, qd_dependent_revision = revision,
            qd_dependency_record_id = qc_record_id c, qd_dependency_revision = qc_revision c,
            qd_dependency_digest = qc_record_digest c\<rparr>) tx)"

definition insert_dependency ::
  "sql_session \<Rightarrow> AuthoritativeRecordRefV1 \<Rightarrow> AuthoritativeRecordRefV1 \<Rightarrow> unit sql" where
  "insert_dependency Q record_ref dependency =
     sql_then (sql_lift (i64_from_u64 (rr_revision record_ref))) (\<lambda>revision.
     sql_then (sql_lift (i64_from_u64 (rr_revision dependency))) (\<lambda>dependency_revision.
     sql_execute Q (W_Dependency \<lparr>
       qd_dependent_record_id = rr_record_id record_ref,
       qd_dependent_revision = revision,
       qd_dependency_record_id = rr_record_id dependency,
       qd_dependency_revision = dependency_revision,
       qd_dependency_digest = rr_record_digest dependency\<rparr>)))"

definition persist_contract_dependencies ::
  "sql_session \<Rightarrow> IdrCommandEnvelopeV1 \<Rightarrow> IdrTransitionV1 \<Rightarrow> unit sql" where
  "persist_contract_dependencies Q command transition =
     (case tn_authoritative_record transition of
        None \<Rightarrow> sql_return ()
      | Some r \<Rightarrow>
          let record_ref = ar_record_ref r;
              dependencies = contract_dependencies (ce_command command) (tn_projection transition) record_ref in
          sql_then
            (if rr_revision record_ref > 1
             then sql_then (sql_lift (i64_from_u64 (rr_revision record_ref - 1))) (\<lambda>previous_revision.
                  sql_then (sql_lift (i64_from_u64 (rr_revision record_ref))) (\<lambda>revision.
                  insert_previous_revision Q (rr_record_id record_ref) revision previous_revision))
             else sql_return ())
            (\<lambda>_. sql_for_each (insert_dependency Q record_ref) dependencies))"

section \<open>The recursive invalidation closure\<close>

type_synonym record_key = "uuid \<times> int"

definition direct_dependents :: "dependency_row list \<Rightarrow> record_key \<Rightarrow> record_key list" where
  "direct_dependents dependencies current_record =
     map (\<lambda>d. (qd_dependent_record_id d, qd_dependent_revision d))
       (filter (\<lambda>d. (qd_dependency_record_id d, qd_dependency_revision d) = current_record) dependencies)"

lemma direct_dependents_bound:
  "set (direct_dependents ds k) \<subseteq> (\<lambda>d. (qd_dependent_record_id d, qd_dependent_revision d)) ` set ds"
  by (auto simp: direct_dependents_def)

text \<open>
  \<open>WITH RECURSIVE ... UNION\<close>: the rows the recursive term finds from the working table, without
  duplicates and without those already in the result, are appended to the result and become the
  next working table, until there are none.
\<close>

function recursive_union ::
  "dependency_row list \<Rightarrow> record_key list \<Rightarrow> record_key list \<Rightarrow> record_key list" where
  "recursive_union dependencies working result1 =
     (if working = [] then result1
      else let found = remdups (filter (\<lambda>k. k \<notin> set result1)
                 (concat (map (direct_dependents dependencies) working)))
           in recursive_union dependencies found (result1 @ found))"
  by pat_completeness auto

termination
proof (relation "measures [\<lambda>(ds, working, result1).
    card ((\<lambda>d. (qd_dependent_record_id d, qd_dependent_revision d)) ` set ds - set result1),
    \<lambda>(ds, working, result1). length working]", goal_cases)
  case 1
  show ?case by simp
next
  case (2 ds working result1 found)
  let ?all = "(\<lambda>d. (qd_dependent_record_id d, qd_dependent_revision d)) ` set ds"
  show ?case
  proof (cases found)
    case Nil
    with 2(1) show ?thesis by simp
  next
    case (Cons k ks)
    then have "k \<in> set found" by simp
    then have k: "k \<notin> set result1" "k \<in> ?all"
      using 2(2) direct_dependents_bound [of ds] by (auto simp del: split_paired_All)
    have "?all - set (result1 @ found) \<subset> ?all - set result1" using k Cons by auto
    then have "card (?all - set (result1 @ found)) < card (?all - set result1)"
      by (rule psubset_card_mono [rotated]) simp
    then show ?thesis by simp
  qed
qed

declare recursive_union.simps [simp del]

text \<open>A row of the query as a reference; the conversions in the order the source makes them.\<close>

definition closure_row_ref :: "contract_row \<Rightarrow> (IdrRuntimeErrorV1, AuthoritativeRecordRefV1) result" where
  "closure_row_ref row =
     and_then (ok_or (candidate_kind_from_value (qc_candidate_kind row)) RE_Serialization) (\<lambda>kind.
     and_then (ok_or (trust_domain_from_value (qc_trust_domain row)) RE_Serialization) (\<lambda>domain.
     and_then (ok_or (u64_try_from (qc_revision row)) RE_Serialization) (\<lambda>revision.
     and_then (from_reference (ReferenceV1_new (qc_environment_ref row))) (\<lambda>environment_ref.
     and_then (ok_or (u64_try_from (qc_valid_from row)) RE_Serialization) (\<lambda>valid_from.
     and_then (ok_or (u64_try_from (qc_valid_until row)) RE_Serialization) (\<lambda>valid_until.
     Ok \<lparr>rr_record_id = qc_record_id row, rr_revision = revision, rr_candidate_kind = kind,
         rr_trust_domain = domain, rr_environment_ref = environment_ref, rr_valid_from = valid_from,
         rr_valid_until = valid_until, rr_record_digest = qc_record_digest row\<rparr>))))))"

text \<open>The join with the stored records, ordered by \<open>issued_at, record_id, revision\<close>.\<close>

definition closure_rows :: "authority_db \<Rightarrow> record_key \<Rightarrow> contract_row list" where
  "closure_rows db root =
     sort_key qc_issued_at (sort_key qc_record_id (sort_key qc_revision
       (concat (map (\<lambda>k. filter (\<lambda>c. (qc_record_id c, qc_revision c) = k) (db_contracts db))
         (recursive_union (db_dependencies db) [root] [root])))))"

definition load_recursive_invalidation_closure ::
  "sql_session \<Rightarrow> AuthoritativeRecordRefV1 \<Rightarrow> AuthoritativeRecordRefV1 list sql" where
  "load_recursive_invalidation_closure Q root =
     sql_then (sql_lift (i64_from_u64 (rr_revision root))) (\<lambda>revision.
     sql_then (sql_query Q SR_Closure (\<lambda>db. closure_rows db (rr_record_id root, revision))) (\<lambda>rows.
     sql_lift (collect_results closure_row_ref rows)))"

section \<open>Proof consumptions\<close>

definition persist_proof_consumption ::
  "crates \<Rightarrow> sql_session \<Rightarrow> IdrCommandEnvelopeV1 \<Rightarrow> u64 \<Rightarrow> string \<Rightarrow> u64 \<Rightarrow> TrustDomainV1 \<Rightarrow>
   ProductionProofEnvelopeV1 \<times> VerifiedProductionProofV1 \<Rightarrow> unit sql" where
  "persist_proof_consumption X Q command root_version root_digest trusted_now trust_domain ep =
     (let envelope = fst ep; proof1 = snd ep; claims = pe_claims envelope in
     sql_then (sql_lift (i64_from_u64 root_version)) (\<lambda>version.
     sql_then (sql_lift (i64_from_u64 trusted_now)) (\<lambda>verified_at.
     sql_then (sql_execute Q (W_Proof \<lparr>
       qp_proof_id = vp_proof_id proof1,
       qp_trust_domain = TrustDomainV1_name trust_domain,
       qp_environment_ref = ce_environment_ref command,
       qp_proof_kind = proof_kind_name (vp_proof_kind proof1),
       qp_issuer_ref = pc_issuer_ref claims,
       qp_key_id = pe_key_id envelope,
       qp_tenant_ref = pc_tenant_ref claims,
       qp_subject_ref = pc_subject_ref claims,
       qp_subject_digest = pc_subject_digest claims,
       qp_nonce = vp_nonce proof1,
       qp_trust_root_version = version,
       qp_trust_root_digest = root_digest,
       qp_envelope = ProductionProofEnvelopeV1_json X envelope,
       qp_verified_at = verified_at\<rparr>)) (\<lambda>_.
     sql_execute Q (W_Consumption \<lparr>
       qn_proof_id = vp_proof_id proof1,
       qn_trust_domain = TrustDomainV1_name trust_domain,
       qn_environment_ref = ce_environment_ref command,
       qn_tenant_ref = ce_tenant_ref command,
       qn_nonce = vp_nonce proof1,
       qn_command_id = ce_command_id command,
       qn_run_id = ce_run_id command\<rparr>)))))"

definition persist_proof_consumptions ::
  "crates \<Rightarrow> sql_session \<Rightarrow> IdrCommandEnvelopeV1 \<Rightarrow> VerifiedProductionProofV1 list \<Rightarrow> u64 \<Rightarrow> string \<Rightarrow> u64 \<Rightarrow>
   TrustDomainV1 \<Rightarrow> unit sql" where
  "persist_proof_consumptions X Q command verified root_version root_digest trusted_now trust_domain =
     sql_for_each (persist_proof_consumption X Q command root_version root_digest trusted_now trust_domain)
       (zip (ce_proofs command) verified)"

section \<open>Roots of a checkpoint\<close>

definition record_set_root :: "crates \<Rightarrow> authority_db \<Rightarrow> string \<Rightarrow> (IdrRuntimeErrorV1, string) result" where
  "record_set_root X db tenant_ref =
     (let rows = sort_key qc_record_id (sort_key qc_revision
            (filter (\<lambda>c. qc_tenant_ref c = tenant_ref) (db_contracts db)))
      in from_protocol (canonical_digest_v1 X ''idr-authoritative-record-set-v1'' (JArr
           (map (\<lambda>c. JArr [uuid_json X (qc_record_id c), jint (qc_revision c), JStr (qc_record_digest c)]) rows))))"

definition fence_leaf :: "crates \<Rightarrow> fence_row \<Rightarrow> json" where
  "fence_leaf X f = json_object [
     (''fence_id'', uuid_json X (qf_fence_id f)),
     (''trust_domain'', JStr (qf_trust_domain f)),
     (''environment_ref'', JStr (qf_environment_ref f)),
     (''tenant_ref'', JStr (qf_tenant_ref f)),
     (''operation_ref'', JStr (qf_operation_ref f)),
     (''idempotency_key'', JStr (qf_idempotency_key f)),
     (''first_run_id'', uuid_json X (qf_first_run_id f)),
     (''first_action_record_id'', uuid_json X (qf_first_action_record_id f)),
     (''first_action_revision'', jint (qf_first_action_revision f)),
     (''first_action_digest'', JStr (qf_first_action_digest f)),
     (''fence_digest'', JStr (qf_fence_digest f)),
     (''created_at_micros'', jint (qf_created_at f))]"

definition reservation_leaf :: "crates \<Rightarrow> reservation_row \<Rightarrow> json" where
  "reservation_leaf X v = json_object [
     (''reservation_id'', uuid_json X (qv_reservation_id v)),
     (''fence_id'', uuid_json X (qv_fence_id v)),
     (''run_id'', uuid_json X (qv_run_id v)),
     (''tenant_ref'', JStr (qv_tenant_ref v)),
     (''action_record_id'', uuid_json X (qv_action_record_id v)),
     (''action_revision'', jint (qv_action_revision v)),
     (''action_admission_record_id'', uuid_json X (qv_action_admission_record_id v)),
     (''action_admission_revision'', jint (qv_action_admission_revision v)),
     (''operation_ref'', JStr (qv_operation_ref v)),
     (''idempotency_key'', JStr (qv_idempotency_key v)),
     (''provider_ref'', JStr (qv_provider_ref v)),
     (''owner_ref'', JStr (qv_owner_ref v)),
     (''state'', JStr (qv_state v)),
     (''aggregate_version'', jint (qv_aggregate_version v)),
     (''action_digest'', JStr (qv_action_digest v)),
     (''parameter_digest'', JStr (qv_parameter_digest v)),
     (''request_digest'', JStr (qv_request_digest v)),
     (''exact_authorization_proof_id'', uuid_json X (qv_exact_authorization_proof_id v)),
     (''action_valid_until'', jint (qv_action_valid_until v)),
     (''admission_valid_until'', jint (qv_admission_valid_until v)),
     (''authorization_valid_until'', jint (qv_authorization_valid_until v)),
     (''created_at_micros'', jint (qv_created_at v)),
     (''updated_at_micros'', jint (qv_updated_at v))]"

definition attempt_leaf :: "crates \<Rightarrow> attempt_row \<Rightarrow> json" where
  "attempt_leaf X t = json_object [
     (''reservation_id'', uuid_json X (qt_reservation_id t)),
     (''attempt'', jint (qt_attempt t)),
     (''permit_id'', uuid_json X (qt_permit_id t)),
     (''dispatch_nonce'', JStr (qt_dispatch_nonce t)),
     (''lease_until'', jint (qt_lease_until t)),
     (''permit_valid_until'', jint (qt_permit_valid_until t)),
     (''state'', JStr (qt_state t)),
     (''provider_ref'', JStr (qt_provider_ref t)),
     (''owner_ref'', JStr (qt_owner_ref t)),
     (''started_at_micros'', jopt jint (qt_started_at t)),
     (''completed_at_micros'', jopt jint (qt_completed_at t))]"

definition fence_leaves :: "crates \<Rightarrow> authority_db \<Rightarrow> string \<Rightarrow> json list" where
  "fence_leaves X db tenant_ref =
     map (fence_leaf X) (sort_key qf_fence_id (filter (\<lambda>f. qf_tenant_ref f = tenant_ref) (db_fences db)))"

definition reservation_leaves :: "crates \<Rightarrow> authority_db \<Rightarrow> string \<Rightarrow> json list" where
  "reservation_leaves X db tenant_ref =
     map (reservation_leaf X) (sort_key qv_reservation_id
       (filter (\<lambda>v. qv_tenant_ref v = tenant_ref) (db_reservations db)))"

definition attempt_leaves :: "crates \<Rightarrow> authority_db \<Rightarrow> string \<Rightarrow> json list" where
  "attempt_leaves X db tenant_ref =
     map (attempt_leaf X) (sort_key qt_reservation_id (sort_key qt_attempt
       (filter (\<lambda>t. list_ex (\<lambda>v. qv_reservation_id v = qt_reservation_id t \<and> qv_tenant_ref v = tenant_ref)
          (db_reservations db)) (db_attempts db))))"

definition execution_state_root ::
  "crates \<Rightarrow> authority_db \<Rightarrow> string \<Rightarrow> (IdrRuntimeErrorV1, string) result" where
  "execution_state_root X db tenant_ref =
     execution_state_root_from_rows X (fence_leaves X db tenant_ref) (reservation_leaves X db tenant_ref)
       (attempt_leaves X db tenant_ref)"

definition latest_checkpoint_for_tenant ::
  "sql_session \<Rightarrow> TrustDomainV1 \<Rightarrow> string \<Rightarrow> string \<Rightarrow> AuditCheckpointV1 sql" where
  "latest_checkpoint_for_tenant Q trust_domain environment_ref tenant_ref =
     sql_then (sql_query Q SR_Checkpoint (\<lambda>db. rev (sort_key qk_audit_sequence (filter (\<lambda>c.
         qk_trust_domain c = TrustDomainV1_name trust_domain \<and> qk_environment_ref c = environment_ref \<and>
         qk_tenant_ref c = tenant_ref) (db_checkpoints db))))) (\<lambda>rows.
     case rows of
       [] \<Rightarrow> sql_lift (Err (RE_Repository ''no rows returned by a query that expected to return at least one row''))
     | row # _ \<Rightarrow> sql_return \<lparr>
         ck_trust_domain = trust_domain,
         ck_environment_ref = qk_environment_ref row,
         ck_tenant_ref = qk_tenant_ref row,
         ck_audit_sequence = qk_audit_sequence row,
         ck_chain_root = qk_chain_root row,
         ck_record_set_root = qk_record_set_root row,
         ck_execution_state_root = qk_execution_state_root row,
         ck_checkpoint_id = qk_checkpoint_id row\<rparr>)"

section \<open>Specialized projections\<close>

definition i32_try_from :: "u32 \<Rightarrow> (IdrRuntimeErrorV1, int) result" where
  "i32_try_from v = (if uint v < 2 ^ 31 then Ok (uint v) else Err RE_Serialization)"

fun persist_send :: "crates \<Rightarrow> sql_session \<Rightarrow> IdrCommandEnvelopeV1 \<Rightarrow> IdrCommandV1 \<Rightarrow> unit sql" where
  "persist_send X Q command (ConsumeResponseSend response_ref rendered_bytes channel_ref audience_ref send_nonce) =
     sql_then (sql_lift (i64_from_u64 (rr_revision response_ref))) (\<lambda>revision.
     sql_execute Q (W_Send \<lparr>
       qx_tenant_ref = ce_tenant_ref command,
       qx_response_record_id = rr_record_id response_ref,
       qx_response_revision = revision,
       qx_send_nonce = send_nonce,
       qx_command_id = ce_command_id command,
       qx_channel_ref = channel_ref,
       qx_audience_ref = audience_ref,
       qx_rendered_content_digest = x_sha256_hex X (bytes_string rendered_bytes)\<rparr>))"
| "persist_send X Q command _ = sql_return ()"

definition REVOKED_EVENT_PREFIX :: string where
  "REVOKED_EVENT_PREFIX = ''action_admission_proof_revoked_''"

definition invalidation_reason :: "IdrCommandV1 \<Rightarrow> string \<Rightarrow> string" where
  "invalidation_reason command event_type =
     (case command of
        InvalidateRecord _ reason_ref \<Rightarrow> reason_ref
      | _ \<Rightarrow>
          if strip_prefix REVOKED_EVENT_PREFIX event_type \<noteq> None
          then ''reason:bound-action-admission-proof-revoked''
          else ''reason:automatic-successor-invalidation'')"

definition persist_invalidation ::
  "sql_session \<Rightarrow> IdrCommandEnvelopeV1 \<Rightarrow> string \<Rightarrow> AuthoritativeRecordRefV1 \<Rightarrow> unit sql" where
  "persist_invalidation Q command reason record_ref =
     sql_then (sql_lift (i64_from_u64 (rr_revision record_ref))) (\<lambda>revision.
     sql_execute Q (W_Invalidation \<lparr>
       qi_invalidation_id = q_invalidation_id Q record_ref,
       qi_run_id = ce_run_id command,
       qi_record_id = rr_record_id record_ref,
       qi_revision = revision,
       qi_reason_ref = reason,
       qi_command_id = ce_command_id command\<rparr>))"

definition fence_for ::
  "sql_session \<Rightarrow> IdrRunProjectionV1 \<Rightarrow> ExecutionProjectionV1 \<Rightarrow> int \<Rightarrow> string \<Rightarrow> fence_row" where
  "fence_for Q projection execution action_revision fence_digest = \<lparr>
     qf_fence_id = ex_reservation_id execution,
     qf_trust_domain = TrustDomainV1_name (pj_trust_domain projection),
     qf_environment_ref = pj_environment_ref projection,
     qf_tenant_ref = pj_tenant_ref projection,
     qf_operation_ref = ex_operation_ref execution,
     qf_idempotency_key = ex_idempotency_key execution,
     qf_first_run_id = pj_run_id projection,
     qf_first_action_record_id = rr_record_id (ex_action_ref execution),
     qf_first_action_revision = action_revision,
     qf_first_action_digest = rr_record_digest (ex_action_ref execution),
     qf_fence_digest = fence_digest,
     qf_created_at = q_clock Q ''fence_created_at''\<rparr>"

text \<open>The nine columns read back from the fence and compared.\<close>

definition same_fence :: "fence_row \<Rightarrow> fence_row \<Rightarrow> bool" where
  "same_fence stored expected \<longleftrightarrow>
     qf_trust_domain stored = qf_trust_domain expected \<and>
     qf_environment_ref stored = qf_environment_ref expected \<and>
     qf_tenant_ref stored = qf_tenant_ref expected \<and>
     qf_operation_ref stored = qf_operation_ref expected \<and>
     qf_first_run_id stored = qf_first_run_id expected \<and>
     qf_first_action_record_id stored = qf_first_action_record_id expected \<and>
     qf_first_action_revision stored = qf_first_action_revision expected \<and>
     qf_first_action_digest stored = qf_first_action_digest expected \<and>
     qf_fence_digest stored = qf_fence_digest expected"

definition persist_fence ::
  "crates \<Rightarrow> sql_session \<Rightarrow> IdrRunProjectionV1 \<Rightarrow> ExecutionProjectionV1 \<Rightarrow> unit sql" where
  "persist_fence X Q projection execution =
     sql_then (sql_lift (idempotency_fence_digest_v1 X projection execution)) (\<lambda>fence_digest.
     sql_then (sql_lift (i64_from_u64 (rr_revision (ex_action_ref execution)))) (\<lambda>action_revision.
     let expected = fence_for Q projection execution action_revision fence_digest in
     sql_then (sql_execute Q (W_Fence expected)) (\<lambda>_.
     sql_then (sql_query Q SR_Fence (\<lambda>db. find (\<lambda>f. qf_fence_id f = ex_reservation_id execution \<and>
       qf_idempotency_key f = ex_idempotency_key execution) (db_fences db))) (\<lambda>persisted.
     case persisted of
       None \<Rightarrow> sql_lift (Err RE_IntegrityViolation)
     | Some stored \<Rightarrow>
         if \<not> same_fence stored expected then sql_lift (Err RE_IntegrityViolation) else sql_return ()))))"

definition persist_reservation ::
  "sql_session \<Rightarrow> IdrRunProjectionV1 \<Rightarrow> ExecutionProjectionV1 \<Rightarrow> unit sql" where
  "persist_reservation Q projection execution =
     sql_then (sql_lift (i64_from_u64 (rr_revision (ex_action_ref execution)))) (\<lambda>action_revision.
     sql_then (sql_lift (i64_from_u64 (rr_revision (ex_action_admission_ref execution)))) (\<lambda>admission_revision.
     sql_then (sql_lift (i64_from_u64 (pj_aggregate_version projection))) (\<lambda>aggregate_version.
     sql_then (sql_lift (i64_from_u64 (ex_action_valid_until execution))) (\<lambda>action_valid_until.
     sql_then (sql_lift (i64_from_u64 (ex_admission_valid_until execution))) (\<lambda>admission_valid_until.
     sql_then (sql_lift (i64_from_u64 (ex_authorization_valid_until execution))) (\<lambda>authorization_valid_until.
     sql_execute Q (W_Reservation \<lparr>
       qv_reservation_id = ex_reservation_id execution,
       qv_fence_id = ex_reservation_id execution,
       qv_run_id = pj_run_id projection,
       qv_tenant_ref = pj_tenant_ref projection,
       qv_action_record_id = rr_record_id (ex_action_ref execution),
       qv_action_revision = action_revision,
       qv_action_admission_record_id = rr_record_id (ex_action_admission_ref execution),
       qv_action_admission_revision = admission_revision,
       qv_operation_ref = ex_operation_ref execution,
       qv_idempotency_key = ex_idempotency_key execution,
       qv_provider_ref = ex_provider_ref execution,
       qv_owner_ref = ex_owner_ref execution,
       qv_state = ExecutionAggregateStateV1_name (ex_state execution),
       qv_aggregate_version = aggregate_version,
       qv_action_digest = rr_record_digest (ex_action_ref execution),
       qv_parameter_digest = ex_parameter_digest execution,
       qv_request_digest = ex_request_digest execution,
       qv_exact_authorization_proof_id = ex_exact_authorization_proof_id execution,
       qv_action_valid_until = action_valid_until,
       qv_admission_valid_until = admission_valid_until,
       qv_authorization_valid_until = authorization_valid_until,
       qv_created_at = q_clock Q ''reservation_created_at'',
       qv_updated_at = q_clock Q ''reservation_default_updated_at''\<rparr>)))))))"

definition attempt_started_states :: "string set" where
  "attempt_started_states = {''dispatch_started'', ''awaiting_provider'', ''reconciliation_required'',
     ''succeeded'', ''failed'', ''rejected'', ''compensated''}"

definition attempt_completed_states :: "string set" where
  "attempt_completed_states = {''succeeded'', ''failed'', ''rejected'', ''compensated''}"

definition persist_attempt :: "sql_session \<Rightarrow> ExecutionProjectionV1 \<Rightarrow> unit sql" where
  "persist_attempt Q execution =
     (let state = ExecutionAggregateStateV1_name (ex_state execution) in
     sql_then (sql_lift (i32_try_from (ex_attempt execution))) (\<lambda>attempt.
     sql_then (sql_lift (i64_from_u64 (ex_lease_until execution))) (\<lambda>lease_until.
     sql_then (sql_lift (i64_from_u64 (ex_permit_valid_until execution))) (\<lambda>permit_valid_until.
     sql_execute Q (W_Attempt \<lparr>
       qt_reservation_id = ex_reservation_id execution,
       qt_attempt = attempt,
       qt_permit_id = ex_permit_id execution,
       qt_dispatch_nonce = ex_dispatch_nonce execution,
       qt_lease_until = lease_until,
       qt_permit_valid_until = permit_valid_until,
       qt_state = state,
       qt_provider_ref = ex_provider_ref execution,
       qt_owner_ref = ex_owner_ref execution,
       qt_started_at = (if state \<in> attempt_started_states
         then Some (q_clock Q ''attempt_started_at'') else None),
       qt_completed_at = (if state \<in> attempt_completed_states
         then Some (q_clock Q ''attempt_completed_at'') else None)\<rparr>)))))"

definition persist_execution ::
  "crates \<Rightarrow> sql_session \<Rightarrow> IdrRunProjectionV1 \<Rightarrow> unit sql" where
  "persist_execution X Q projection =
     (case pj_execution projection of
        None \<Rightarrow> sql_return ()
      | Some execution \<Rightarrow>
          sql_then (persist_fence X Q projection execution) (\<lambda>_.
          sql_then (persist_reservation Q projection execution) (\<lambda>_.
          persist_attempt Q execution)))"

definition expires_at_column :: "json \<Rightarrow> (IdrRuntimeErrorV1, int option) result" where
  "expires_at_column payload =
     (case Option.bind (json_get payload ''expires_at'') json_as_u64 of
        None \<Rightarrow> Ok None
      | Some v \<Rightarrow> and_then (i64_from_u64 v) (\<lambda>i. Ok (Some i)))"

text \<open>The \<open>match\<close> on the command after the execution rows.\<close>

definition record_or_serialization :: "IdrTransitionV1 \<Rightarrow> AuthoritativeRecordV1 sql" where
  "record_or_serialization transition =
     sql_lift (ok_or (tn_authoritative_record transition) RE_Serialization)"

fun persist_command_rows ::
  "crates \<Rightarrow> sql_session \<Rightarrow> IdrCommandEnvelopeV1 \<Rightarrow> IdrTransitionV1 \<Rightarrow> IdrCommandV1 \<Rightarrow> unit sql" where
  "persist_command_rows X Q command transition
       (CommitExecutionReceipt _ reservation_id permit_id provider_ref dispatch_nonce attempt) =
     sql_then (record_or_serialization transition) (\<lambda>r.
     sql_then (sql_lift (i64_from_u64 (rr_revision (ar_record_ref r)))) (\<lambda>revision.
     sql_then (sql_lift (i32_try_from attempt)) (\<lambda>attempt_number.
     sql_execute Q (W_ExecutionReceipt \<lparr>
       qz_receipt_record_id = rr_record_id (ar_record_ref r),
       qz_receipt_revision = revision,
       qz_reservation_id = reservation_id,
       qz_attempt = attempt_number,
       qz_permit_id = permit_id,
       qz_provider_ref = provider_ref,
       qz_dispatch_nonce = dispatch_nonce,
       qz_receipt = AuthoritativeRecordV1_json X r\<rparr>))))"
| "persist_command_rows X Q command transition (RecordOutcome _) =
     sql_then (record_or_serialization transition) (\<lambda>r.
     sql_then (sql_lift (ok_or (pj_records (tn_projection transition) CK_ExecutionReceipt)
       RE_MissingDependency)) (\<lambda>receipt_ref.
     sql_then (sql_lift (command_proof_id command PK_OutcomeObservation)) (\<lambda>proof_id.
     sql_then (sql_lift (i64_from_u64 (rr_revision (ar_record_ref r)))) (\<lambda>revision.
     sql_then (sql_lift (i64_from_u64 (rr_revision receipt_ref))) (\<lambda>receipt_revision.
     sql_execute Q (W_Outcome \<lparr>
       qo_outcome_record_id = rr_record_id (ar_record_ref r),
       qo_outcome_revision = revision,
       qo_run_id = ce_run_id command,
       qo_execution_receipt_record_id = rr_record_id receipt_ref,
       qo_execution_receipt_revision = receipt_revision,
       qo_observation_proof_id = proof_id,
       qo_outcome = AuthoritativeRecordV1_json X r\<rparr>))))))"
| "persist_command_rows X Q command transition (ProposeHumanModelCandidate _) =
     sql_then (record_or_serialization transition) (\<lambda>r.
     sql_then (sql_lift (i64_from_u64 (rr_revision (ar_record_ref r)))) (\<lambda>revision.
     sql_execute Q (W_HumanCandidate \<lparr>
       qh_candidate_record_id = rr_record_id (ar_record_ref r),
       qh_candidate_revision = revision,
       qh_run_id = ar_run_id r,
       qh_tenant_ref = ar_tenant_ref r,
       qh_subject_ref = ar_subject_ref r,
       qh_candidate_digest = ar_candidate_digest r,
       qh_candidate = AuthoritativeRecordV1_json X r\<rparr>)))"
| "persist_command_rows X Q command transition (RecordHumanModelPromotion _ source_candidate_ref) =
     sql_then (record_or_serialization transition) (\<lambda>r.
     sql_then (sql_lift (command_proof_id command PK_HumanModelPromotion)) (\<lambda>proof_id.
     sql_then (sql_lift (payload_string (ar_payload r) ''outcome'')) (\<lambda>outcome.
     sql_then (sql_lift (i64_from_u64 (rr_revision (ar_record_ref r)))) (\<lambda>revision.
     sql_then (sql_lift (i64_from_u64 (rr_revision source_candidate_ref))) (\<lambda>source_revision.
     sql_execute Q (W_Promotion \<lparr>
       qm_decision_record_id = rr_record_id (ar_record_ref r),
       qm_decision_revision = revision,
       qm_source_candidate_record_id = rr_record_id source_candidate_ref,
       qm_source_candidate_revision = source_revision,
       qm_promotion_proof_id = proof_id,
       qm_candidate_digest = rr_record_digest source_candidate_ref,
       qm_outcome = outcome,
       qm_decision = AuthoritativeRecordV1_json X r\<rparr>))))))"
| "persist_command_rows X Q command transition (PromoteHumanModelAssertion _ promotion_decision_ref) =
     sql_then (record_or_serialization transition) (\<lambda>r.
     sql_then (sql_lift (payload_string (ar_payload r) ''lifecycle_state'')) (\<lambda>lifecycle.
     sql_then (sql_lift (i64_from_u64 (rr_revision (ar_record_ref r)))) (\<lambda>revision.
     sql_then (sql_lift (i64_from_u64 (rr_revision promotion_decision_ref))) (\<lambda>decision_revision.
     sql_then (sql_lift (expires_at_column (ar_payload r))) (\<lambda>expires_at.
     sql_execute Q (W_Assertion \<lparr>
       qy_assertion_record_id = rr_record_id (ar_record_ref r),
       qy_assertion_revision = revision,
       qy_promotion_decision = Some (rr_record_id promotion_decision_ref, decision_revision),
       qy_predecessor_assertion = None,
       qy_correction_proof_id = None,
       qy_tenant_ref = ar_tenant_ref r,
       qy_subject_ref = ar_subject_ref r,
       qy_lifecycle_state = lifecycle,
       qy_expires_at = expires_at,
       qy_assertion = AuthoritativeRecordV1_json X r\<rparr>))))))"
| "persist_command_rows X Q command transition (CorrectHumanModelAssertion assertion_ref _) =
     sql_then (record_or_serialization transition) (\<lambda>r.
     sql_then (sql_lift (payload_string (ar_payload r) ''lifecycle_state'')) (\<lambda>lifecycle.
     sql_then (sql_lift (command_proof_id command PK_HumanModelCorrection)) (\<lambda>proof_id.
     sql_then (sql_lift (i64_from_u64 (rr_revision (ar_record_ref r)))) (\<lambda>revision.
     sql_then (sql_lift (i64_from_u64 (rr_revision assertion_ref))) (\<lambda>predecessor_revision.
     sql_then (sql_lift (expires_at_column (ar_payload r))) (\<lambda>expires_at.
     sql_execute Q (W_Assertion \<lparr>
       qy_assertion_record_id = rr_record_id (ar_record_ref r),
       qy_assertion_revision = revision,
       qy_promotion_decision = None,
       qy_predecessor_assertion = Some (rr_record_id assertion_ref, predecessor_revision),
       qy_correction_proof_id = Some proof_id,
       qy_tenant_ref = ar_tenant_ref r,
       qy_subject_ref = ar_subject_ref r,
       qy_lifecycle_state = lifecycle,
       qy_expires_at = expires_at,
       qy_assertion = AuthoritativeRecordV1_json X r\<rparr>)))))))"
| "persist_command_rows X Q command transition _ = sql_return ()"

definition persist_specialized_projection ::
  "crates \<Rightarrow> sql_session \<Rightarrow> IdrCommandEnvelopeV1 \<Rightarrow> IdrTransitionV1 \<Rightarrow> unit sql" where
  "persist_specialized_projection X Q command transition =
     sql_then (persist_send X Q command (ce_command command)) (\<lambda>_.
     sql_then (sql_for_each
       (persist_invalidation Q command (invalidation_reason (ce_command command) (tn_event_type transition)))
       (record_set_to_list (pj_invalidated_records (tn_projection transition)))) (\<lambda>_.
     sql_then (persist_execution X Q (tn_projection transition)) (\<lambda>_.
     persist_command_rows X Q command transition (ce_command command))))"

section \<open>Reasoning about transactions\<close>

named_theorems sql_simps \<open>success of the pieces of a transaction\<close>

lemma sql_return_Ok [sql_simps]: "sql_return x tx = Ok (y, tx') \<longleftrightarrow> y = x \<and> tx' = tx"
  by (auto simp: sql_return_def)

lemma sql_then_Ok [sql_simps]:
  "sql_then m f tx = Ok r \<longleftrightarrow> (\<exists>x tx'. m tx = Ok (x, tx') \<and> f x tx' = Ok r)"
  by (auto simp: sql_then_def and_then_eq_Ok)

lemma sql_lift_Ok [sql_simps]: "sql_lift r tx = Ok (x, tx') \<longleftrightarrow> r = Ok x \<and> tx' = tx"
  by (auto simp: sql_lift_def and_then_eq_Ok)

lemma sql_query_Ok [sql_simps]:
  "sql_query Q l f tx = Ok (x, tx') \<longleftrightarrow> q_read_fails Q l (tx_db tx) = None \<and> x = f (tx_db tx) \<and> tx' = tx"
  by (auto simp: sql_query_def split: option.splits)

lemma sql_execute_Ok [sql_simps]:
  "sql_execute Q w tx = Ok (u, tx') \<longleftrightarrow>
     (\<exists>n. idr_attested_authority_view_bridge Q w tx = Ok (n, tx'))"
  by (auto simp: sql_execute_def sql_simps)

text \<open>An accepted write: the attestation it runs under and its effect.\<close>

lemma bridge_Ok:
  "idr_attested_authority_view_bridge Q w tx = Ok (n, tx') \<longleftrightarrow>
     (\<exists>a. idr_current_attestation Q tx = Some a \<and> identity_attested a (write_identity w) \<and>
        q_write_refused Q w (tx_db tx) = None \<and>
        (if unique_violation (numbered Q w) (tx_db tx)
         then (\<exists>db. on_unique_violation Q (Some (qg_purpose a)) w (tx_db tx) = Ok (n, db) \<and> tx' = tx\<lparr>tx_db := db\<rparr>)
         else n = 1 \<and> tx' = tx\<lparr>tx_db := insert_row Q (qg_attestation_id a) w (tx_db tx)\<rparr>))"
  by (auto simp: idr_attested_authority_view_bridge_def and_then_eq_Ok raise_exception_def
      split: option.splits if_splits)

lemma raise_exception_simps [simp]: "raise_exception m \<noteq> Ok x" "raise_exception m = Err e \<longleftrightarrow> e = RE_Repository m"
  by (auto simp: raise_exception_def)

text \<open>What a piece of a transaction leaves as it was.\<close>

definition sql_keeps :: "(transaction \<Rightarrow> 'b) \<Rightarrow> 'a sql \<Rightarrow> bool" where
  "sql_keeps f m \<longleftrightarrow> (\<forall>tx x tx'. m tx = Ok (x, tx') \<longrightarrow> f tx' = f tx)"

named_theorems keeps_intros \<open>pieces of a transaction that leave a table as it was\<close>

lemma sql_keepsD: "sql_keeps f m \<Longrightarrow> m tx = Ok (x, tx') \<Longrightarrow> f tx' = f tx"
  by (auto simp: sql_keeps_def)

lemma keeps_basic [keeps_intros]:
  "sql_keeps f (sql_return x)" "sql_keeps f (sql_lift r)" "sql_keeps f (sql_query Q l g)"
  by (auto simp: sql_keeps_def sql_simps)

lemma keeps_then [keeps_intros]:
  "sql_keeps f m \<Longrightarrow> (\<And>x. sql_keeps f (g x)) \<Longrightarrow> sql_keeps f (sql_then m g)"
  unfolding sql_keeps_def sql_then_Ok by metis

lemma keeps_for_each [keeps_intros]:
  "(\<And>x. sql_keeps f (g x)) \<Longrightarrow> sql_keeps f (sql_for_each g xs)"
  by (induction xs) (auto intro: keeps_intros)

lemma keeps_if [keeps_intros]:
  "sql_keeps f m \<Longrightarrow> sql_keeps f m' \<Longrightarrow> sql_keeps f (if b then m else m')"
  by simp

lemma keeps_option [keeps_intros]:
  "sql_keeps f m \<Longrightarrow> (\<And>x. sql_keeps f (g x)) \<Longrightarrow> sql_keeps f (case z of None \<Rightarrow> m | Some x \<Rightarrow> g x)"
  by (cases z) auto

lemma keeps_active [keeps_intros]: "sql_keeps tx_active (idr_attested_authority_view_bridge Q w)"
  by (auto simp: sql_keeps_def bridge_Ok split: if_splits)

lemma keeps_execute [keeps_intros]:
  "sql_keeps f (idr_attested_authority_view_bridge Q w) \<Longrightarrow> sql_keeps f (sql_execute Q w)"
  unfolding sql_execute_def by (intro keeps_intros)

text \<open>A write leaves a function of the tables alone when its row and its handler do.\<close>

lemma keeps_write:
  assumes "\<And>aid db. f (insert_row Q aid w db) = f db"
    and "\<And>n purpose db db'. on_unique_violation Q purpose w db = Ok (n, db') \<Longrightarrow> f db' = f db"
  shows "sql_keeps (\<lambda>tx. f (tx_db tx)) (idr_attested_authority_view_bridge Q w)"
  using assms by (auto simp: sql_keeps_def bridge_Ok split: if_splits)

text \<open>The tables a write never touches, as a function of the write.\<close>

fun written_table :: "sql_write \<Rightarrow> nat" where
  "written_table (W_Run _) = 0"
| "written_table (W_Event _) = 1"
| "written_table (W_Step _) = 2"
| "written_table (W_Contract _) = 3"
| "written_table (W_Current _) = 4"
| "written_table (W_Dependency _) = 5"
| "written_table (W_Invalidation _) = 6"
| "written_table (W_Proof _) = 7"
| "written_table (W_Consumption _) = 8"
| "written_table (W_Send _) = 9"
| "written_table (W_Reservation _) = 10"
| "written_table (W_Attempt _) = 11"
| "written_table (W_ExecutionReceipt _) = 12"
| "written_table (W_Outcome _) = 13"
| "written_table (W_HumanCandidate _) = 14"
| "written_table (W_Promotion _) = 15"
| "written_table (W_Assertion _) = 16"
| "written_table (W_Audit _) = 17"
| "written_table (W_Outbox _) = 18"
| "written_table (W_Checkpoint _) = 19"
| "written_table (W_Receipt _) = 20"
| "written_table (W_Fence _) = 21"
| "written_table (U_Checkpoint _) = 19"
| "written_table (U_Outbox _) = 18"

lemma insert_row_tables:
  "written_table w \<noteq> 0 \<Longrightarrow> db_runs (insert_row Q aid w db) = db_runs db"
  "written_table w \<noteq> 1 \<Longrightarrow> db_events (insert_row Q aid w db) = db_events db"
  "written_table w \<noteq> 3 \<Longrightarrow> db_contracts (insert_row Q aid w db) = db_contracts db"
  "written_table w \<noteq> 5 \<Longrightarrow> db_dependencies (insert_row Q aid w db) = db_dependencies db"
  "written_table w \<noteq> 7 \<Longrightarrow> db_proofs (insert_row Q aid w db) = db_proofs db"
  "written_table w \<noteq> 8 \<Longrightarrow> db_consumptions (insert_row Q aid w db) = db_consumptions db"
  "written_table w \<noteq> 17 \<Longrightarrow> db_audit (insert_row Q aid w db) = db_audit db"
  "written_table w \<noteq> 19 \<Longrightarrow> db_checkpoints (insert_row Q aid w db) = db_checkpoints db"
  "written_table w \<noteq> 20 \<Longrightarrow> db_receipts (insert_row Q aid w db) = db_receipts db"
  "written_table w \<noteq> 21 \<Longrightarrow> db_fences (insert_row Q aid w db) = db_fences db"
  "db_attestations (insert_row Q aid w db) = db_attestations db"
  "db_secrets (insert_row Q aid w db) = db_secrets db"
  by (cases w; simp)+

lemma on_unique_violation_tables:
  assumes "on_unique_violation Q purpose w db = Ok (n, db')"
  shows "written_table w \<noteq> 0 \<Longrightarrow> db_runs db' = db_runs db"
    "db_events db' = db_events db" "db_contracts db' = db_contracts db"
    "db_dependencies db' = db_dependencies db" "db_proofs db' = db_proofs db"
    "db_consumptions db' = db_consumptions db" "db_audit db' = db_audit db"
    "db_checkpoints db' = db_checkpoints db" "db_receipts db' = db_receipts db"
    "db_fences db' = db_fences db" "db_attestations db' = db_attestations db" "db_secrets db' = db_secrets db"
  using assms by (cases w; auto simp: Let_def split: option.splits if_splits)+

lemma keeps_tables [keeps_intros]:
  "written_table w \<noteq> 0 \<Longrightarrow> sql_keeps (\<lambda>tx. db_runs (tx_db tx)) (idr_attested_authority_view_bridge Q w)"
  "written_table w \<noteq> 1 \<Longrightarrow> sql_keeps (\<lambda>tx. db_events (tx_db tx)) (idr_attested_authority_view_bridge Q w)"
  "written_table w \<noteq> 3 \<Longrightarrow> sql_keeps (\<lambda>tx. db_contracts (tx_db tx)) (idr_attested_authority_view_bridge Q w)"
  "written_table w \<noteq> 5 \<Longrightarrow> sql_keeps (\<lambda>tx. db_dependencies (tx_db tx)) (idr_attested_authority_view_bridge Q w)"
  "written_table w \<noteq> 7 \<Longrightarrow> sql_keeps (\<lambda>tx. db_proofs (tx_db tx)) (idr_attested_authority_view_bridge Q w)"
  "written_table w \<noteq> 8 \<Longrightarrow> sql_keeps (\<lambda>tx. db_consumptions (tx_db tx)) (idr_attested_authority_view_bridge Q w)"
  "written_table w \<noteq> 17 \<Longrightarrow> sql_keeps (\<lambda>tx. db_audit (tx_db tx)) (idr_attested_authority_view_bridge Q w)"
  "written_table w \<noteq> 19 \<Longrightarrow> sql_keeps (\<lambda>tx. db_checkpoints (tx_db tx)) (idr_attested_authority_view_bridge Q w)"
  "written_table w \<noteq> 20 \<Longrightarrow> sql_keeps (\<lambda>tx. db_receipts (tx_db tx)) (idr_attested_authority_view_bridge Q w)"
  "written_table w \<noteq> 21 \<Longrightarrow> sql_keeps (\<lambda>tx. db_fences (tx_db tx)) (idr_attested_authority_view_bridge Q w)"
  "sql_keeps (\<lambda>tx. db_attestations (tx_db tx)) (idr_attested_authority_view_bridge Q w)"
  "sql_keeps (\<lambda>tx. db_secrets (tx_db tx)) (idr_attested_authority_view_bridge Q w)"
  by (rule keeps_write; auto simp: insert_row_tables dest: on_unique_violation_tables)+

text \<open>The audit trail, which only the end of a transaction writes.\<close>

definition trail :: "authority_db \<Rightarrow> event_row list \<times> audit_row list \<times> checkpoint_row list \<times> receipt_row list" where
  "trail db = (db_events db, db_audit db, db_checkpoints db, db_receipts db)"

lemma keeps_trail [keeps_intros]:
  "written_table w \<notin> {1, 17, 19, 20} \<Longrightarrow>
     sql_keeps (\<lambda>tx. trail (tx_db tx)) (idr_attested_authority_view_bridge Q w)"
  by (rule keeps_write) (auto simp: trail_def insert_row_tables dest: on_unique_violation_tables)

lemmas persist_defs = upsert_run_def persist_step_snapshot_def persist_authoritative_record_def
  persist_contract_dependencies_def insert_dependency_def persist_proof_consumptions_def
  persist_proof_consumption_def persist_specialized_projection_def persist_invalidation_def
  persist_execution_def persist_fence_def persist_reservation_def persist_attempt_def
  record_or_serialization_def

lemma keeps_previous_revision [keeps_intros]:
  "(\<And>w. written_table w = 5 \<Longrightarrow> sql_keeps f (idr_attested_authority_view_bridge Q w)) \<Longrightarrow>
     sql_keeps f (insert_previous_revision Q record_id revision previous_revision)"
  by (subst sql_keeps_def) (auto simp: insert_previous_revision_def sql_simps split: option.splits
      elim!: sql_keepsD [rotated])

lemma keeps_send [keeps_intros]:
  "(\<And>w. written_table w = 9 \<Longrightarrow> sql_keeps f (idr_attested_authority_view_bridge Q w)) \<Longrightarrow>
     sql_keeps f (persist_send X Q command c)"
  by (cases c; simp only: persist_send.simps; intro keeps_intros; simp)

lemma keeps_command_rows [keeps_intros]:
  "(\<And>w. written_table w \<in> {12, 13, 14, 15, 16} \<Longrightarrow> sql_keeps f (idr_attested_authority_view_bridge Q w)) \<Longrightarrow>
     sql_keeps f (persist_command_rows X Q command transition c)"
  by (cases c; simp only: persist_command_rows.simps record_or_serialization_def; intro keeps_intros; simp)

lemma persist_keep_trail [keeps_intros]:
  "sql_keeps (\<lambda>tx. trail (tx_db tx)) (upsert_run Q S projection digest)"
  "sql_keeps (\<lambda>tx. trail (tx_db tx)) (persist_step_snapshot Q S command transition)"
  "sql_keeps (\<lambda>tx. trail (tx_db tx)) (persist_authoritative_record X Q r projection)"
  "sql_keeps (\<lambda>tx. trail (tx_db tx)) (persist_contract_dependencies Q command transition)"
  "sql_keeps (\<lambda>tx. trail (tx_db tx)) (persist_proof_consumptions X Q command proofs rv rd now d)"
  "sql_keeps (\<lambda>tx. trail (tx_db tx)) (persist_specialized_projection X Q command transition)"
  unfolding persist_defs Let_def by (intro keeps_intros; auto simp: keeps_trail)+

lemma persist_keep_runs [keeps_intros]:
  "sql_keeps (\<lambda>tx. db_runs (tx_db tx)) (persist_step_snapshot Q S command transition)"
  "sql_keeps (\<lambda>tx. db_runs (tx_db tx)) (persist_authoritative_record X Q r projection)"
  "sql_keeps (\<lambda>tx. db_runs (tx_db tx)) (persist_contract_dependencies Q command transition)"
  "sql_keeps (\<lambda>tx. db_runs (tx_db tx)) (persist_proof_consumptions X Q command proofs rv rd now d)"
  "sql_keeps (\<lambda>tx. db_runs (tx_db tx)) (persist_specialized_projection X Q command transition)"
  unfolding persist_defs Let_def by (intro keeps_intros; auto simp: keeps_tables)+

lemma persist_keep_consumptions [keeps_intros]:
  "sql_keeps (\<lambda>tx. db_consumptions (tx_db tx)) (upsert_run Q S projection digest)"
  "sql_keeps (\<lambda>tx. db_consumptions (tx_db tx)) (persist_step_snapshot Q S command transition)"
  "sql_keeps (\<lambda>tx. db_consumptions (tx_db tx)) (persist_authoritative_record X Q r projection)"
  "sql_keeps (\<lambda>tx. db_consumptions (tx_db tx)) (persist_contract_dependencies Q command transition)"
  "sql_keeps (\<lambda>tx. db_consumptions (tx_db tx)) (persist_specialized_projection X Q command transition)"
  unfolding persist_defs Let_def by (intro keeps_intros; auto simp: keeps_tables)+

lemma keeps_replay_check [keeps_intros]:
  "sql_keeps f (check_proof_replay Q command d proofs)"
  by (induction proofs) (auto intro!: keeps_intros)

lemma keeps_closure [keeps_intros]: "sql_keeps f (load_recursive_invalidation_closure Q root)"
  unfolding load_recursive_invalidation_closure_def by (intro keeps_intros)

end
