(* ===== verification/IDR_Transact.thy ===== *)
theory IDR_Transact
  imports IDR_Persist
begin

text \<open>
  The transaction of a command and the entry point of the authority (\<open>postgres_authority.rs\<close>,
  \<open>transact_inner\<close> and \<open>handle\<close>): the stored receipt of a repeated command, the proofs, the stored
  projection with its integrity check, the transition or the revocation of a bound admission, the
  attestation, the writes, the audit trail with its checkpoint, and the publication afterwards.
\<close>

section \<open>The authority\<close>

text \<open>The features of the build that the code branches on are fields of the authority.\<close>

record PostgresIdrOrchestratorV1 =
  og_security :: PostgresSecurityContextV1
  og_trust_domain :: TrustDomainV1
  og_attestation_key :: OrchestratorAttestationKeyV1
  og_production_build :: bool
  og_human_model_write :: bool

definition open_orchestrator_attestation ::
  "crates \<Rightarrow> PostgresIdrOrchestratorV1 \<Rightarrow> sql_session \<Rightarrow> string \<Rightarrow> uuid \<Rightarrow> uuid \<Rightarrow> string \<Rightarrow> u64 \<Rightarrow> u64 \<Rightarrow>
   string \<Rightarrow> string \<Rightarrow> uuid sql" where
  "open_orchestrator_attestation X O1 Q purpose command_id run_id tenant_ref pre_aggregate_version
       post_aggregate_version command_digest transition_digest =
     sql_then (sql_query Q SR_Transaction (\<lambda>_. (q_txid Q, q_pid Q))) (\<lambda>(database_txid, backend_pid).
     let attestation_id = q_attestation_id Q; nonce = q_nonce Q; key = og_attestation_key O1;
         environment_ref = sx_environment_ref (og_security O1) in
     sql_then (sql_lift (trust_domain_name (og_trust_domain O1))) (\<lambda>domain.
     sql_then (sql_lift (orchestrator_attestation_material_v1 X domain environment_ref purpose attestation_id
       command_id run_id tenant_ref pre_aggregate_version post_aggregate_version command_digest
       transition_digest database_txid backend_pid nonce (ak_version key))) (\<lambda>material.
     sql_then (sql_lift (i64_from_u64 pre_aggregate_version)) (\<lambda>pre.
     sql_then (sql_lift (i64_from_u64 post_aggregate_version)) (\<lambda>post.
     sql_then (sql_query Q SR_Open (\<lambda>_. ())) (\<lambda>_.
     sql_then (idr_open_attested_transition X Q \<lparr>
       qg_attestation_id = attestation_id,
       qg_trust_domain = domain,
       qg_environment_ref = environment_ref,
       qg_purpose = purpose,
       qg_command_id = command_id,
       qg_run_id = run_id,
       qg_tenant_ref = tenant_ref,
       qg_pre_aggregate_version = pre,
       qg_post_aggregate_version = post,
       qg_command_digest = command_digest,
       qg_transition_digest = transition_digest,
       qg_database_txid = database_txid,
       qg_backend_pid = backend_pid,
       qg_nonce = nonce,
       qg_key_version = ak_version key,
       qg_mac = OrchestratorAttestationKeyV1_mac X key material\<rparr>) (\<lambda>opened.
     if opened \<noteq> attestation_id then sql_lift (Err RE_IntegrityViolation)
     else sql_return attestation_id)))))))"

definition verify_attestation_row ::
  "crates \<Rightarrow> PostgresIdrOrchestratorV1 \<Rightarrow> attestation_row \<Rightarrow> (IdrRuntimeErrorV1, uuid) result" where
  "verify_attestation_row X O1 row =
     and_then (ok_or (u64_try_from (qg_pre_aggregate_version row)) RE_IntegrityViolation) (\<lambda>pre_version.
     and_then (ok_or (u64_try_from (qg_post_aggregate_version row)) RE_IntegrityViolation) (\<lambda>post_version.
     and_then (trust_domain_name (og_trust_domain O1)) (\<lambda>domain.
     if qg_trust_domain row \<noteq> domain \<or> qg_environment_ref row \<noteq> sx_environment_ref (og_security O1) \<or>
        qg_key_version row \<noteq> ak_version (og_attestation_key O1) \<or> post_version < pre_version
     then Err RE_IntegrityViolation
     else and_then (attestation_material_of_row X row pre_version post_version) (\<lambda>material.
       if OrchestratorAttestationKeyV1_mac X (og_attestation_key O1) material \<noteq> qg_mac row
       then Err RE_IntegrityViolation else Ok (qg_attestation_id row)))))"

section \<open>Repeated commands\<close>

definition same_command ::
  "PostgresIdrOrchestratorV1 \<Rightarrow> IdrCommandEnvelopeV1 \<Rightarrow> string \<Rightarrow> receipt_row \<Rightarrow> bool" where
  "same_command O1 command command_digest row \<longleftrightarrow>
     qq_trust_domain row = TrustDomainV1_name (og_trust_domain O1) \<and>
     qq_environment_ref row = sx_environment_ref (og_security O1) \<and>
     qq_tenant_ref row = ce_tenant_ref command \<and>
     qq_run_id row = ce_run_id command \<and>
     qq_actor_ref row = ce_actor_ref command \<and>
     qq_caller_ref row = ce_caller_ref command \<and>
     qq_command_digest row = command_digest"

definition replay_stored_receipt ::
  "crates \<Rightarrow> authority_serde \<Rightarrow> PostgresIdrOrchestratorV1 \<Rightarrow> sql_session \<Rightarrow> IdrCommandEnvelopeV1 \<Rightarrow> u64 \<Rightarrow>
   TrustRootSnapshotV1 \<Rightarrow> string \<Rightarrow> receipt_row \<Rightarrow> (IdrCommandReceiptV1 \<times> AuditCheckpointV1) sql" where
  "replay_stored_receipt X S O1 Q command trusted_now trust_root command_digest row =
     (if \<not> same_command O1 command command_digest row then sql_lift (Err RE_IdempotencyConflict)
      else
        sql_then (sql_lift (verify_proofs_inside_transaction X (og_trust_domain O1) (og_security O1)
          command trusted_now trust_root)) (\<lambda>_.
        sql_then (sql_lift (ok_or (sv_receipt_from_value S (qq_receipt row)) RE_Serialization)) (\<lambda>receipt.
        if cr_attestation_id receipt \<noteq> qq_attestation_id row then sql_lift (Err RE_IntegrityViolation)
        else
          sql_then (sql_lift (command_receipt_mac X (og_attestation_key O1) receipt)) (\<lambda>mac.
          if mac \<noteq> qq_receipt_mac row then sql_lift (Err RE_IntegrityViolation)
          else
            sql_then (sql_query Q SR_Attestation (\<lambda>db.
              find (\<lambda>a. qg_attestation_id a = qq_attestation_id row) (db_attestations db))) (\<lambda>attestation.
            sql_then (sql_lift (ok_or attestation (RE_Repository
              ''no rows returned by a query that expected to return at least one row''))) (\<lambda>attestation_row1.
            sql_then (sql_lift (verify_attestation_row X O1 attestation_row1)) (\<lambda>verified.
            if verified \<noteq> qq_attestation_id row then sql_lift (Err RE_IntegrityViolation)
            else
              sql_then (latest_checkpoint_for_tenant Q (og_trust_domain O1)
                (sx_environment_ref (og_security O1)) (ce_tenant_ref command)) (\<lambda>checkpoint.
              sql_then (sql_query Q SR_Commit (\<lambda>_. ())) (\<lambda>_.
              sql_return (receipt\<lparr>cr_idempotent_replay := True\<rparr>, checkpoint))))))))))"

section \<open>The stored projection\<close>

definition audited_projection_digest :: "authority_db \<Rightarrow> uuid \<Rightarrow> string option" where
  "audited_projection_digest db run_id =
     (case rev (sort_key qa_sequence (filter (\<lambda>a. qa_run_id a = run_id) (db_audit db))) of
        [] \<Rightarrow> None
      | a # _ \<Rightarrow> Option.bind (json_get (qa_payload a) ''projection_digest'') json_as_str)"

definition load_projection ::
  "crates \<Rightarrow> authority_serde \<Rightarrow> PostgresIdrOrchestratorV1 \<Rightarrow> sql_session \<Rightarrow> IdrCommandEnvelopeV1 \<Rightarrow>
   IdrRunProjectionV1 sql" where
  "load_projection X S O1 Q command =
     sql_then (sql_query Q SR_Run (\<lambda>db. find (\<lambda>r. qr_run_id r = ce_run_id command) (db_runs db))) (\<lambda>projection_row.
     case projection_row of
       Some row \<Rightarrow>
         sql_then (sql_lift (projection_digest_v1 X (qr_projection row))) (\<lambda>computed_digest.
         sql_then (sql_query Q SR_AuditedDigest (\<lambda>db. audited_projection_digest db (ce_run_id command)))
           (\<lambda>audited_digest.
         if qr_trust_domain row \<noteq> TrustDomainV1_name (og_trust_domain O1) \<or>
            qr_environment_ref row \<noteq> sx_environment_ref (og_security O1) \<or>
            Option.bind (json_get (qr_projection row) ''trust_domain'') json_as_str \<noteq> Some (qr_trust_domain row) \<or>
            Option.bind (json_get (qr_projection row) ''environment_ref'') json_as_str
              \<noteq> Some (qr_environment_ref row) \<or>
            qr_projection_digest row \<noteq> computed_digest \<or>
            audited_digest \<noteq> Some (qr_projection_digest row)
         then sql_lift (Err RE_IntegrityViolation)
         else sql_lift (ok_or (sv_projection_from_value S (qr_projection row)) RE_Serialization)))
     | None \<Rightarrow>
         if (case ce_command command of StartRun _ \<Rightarrow> True | _ \<Rightarrow> False) \<and>
            ce_expected_aggregate_version command = 0
         then sql_return (IdrRunProjectionV1_pending (og_trust_domain O1)
                (sx_environment_ref (og_security O1)) (ce_run_id command) (ce_tenant_ref command))
         else sql_lift (Err RE_MissingDependency))"

section \<open>The proofs of a bound admission\<close>

definition bound_proof_kind_check ::
  "crates \<Rightarrow> authority_serde \<Rightarrow> PostgresIdrOrchestratorV1 \<Rightarrow> sql_session \<Rightarrow> ActionAdmissionProjectionV1 \<Rightarrow>
   IdrCommandEnvelopeV1 \<Rightarrow> u64 \<Rightarrow> TrustRootSnapshotV1 \<Rightarrow> ProductionProofKindV1 \<Rightarrow> unit sql" where
  "bound_proof_kind_check X S O1 Q admission command trusted_now trust_root proof_kind =
     sql_then (sql_lift (ok_or (bt_get (aa_proof_bindings admission) proof_kind) RE_ActionNotAdmitted)) (\<lambda>binding.
     sql_then (sql_query Q (SR_ProofEnvelope (pb_proof_id binding)) (\<lambda>db.
         find (\<lambda>p. qp_proof_id p = pb_proof_id binding \<and>
           qp_trust_domain p = TrustDomainV1_name (og_trust_domain O1) \<and>
           qp_environment_ref p = sx_environment_ref (og_security O1)) (db_proofs db))) (\<lambda>stored.
     sql_then (sql_lift (ok_or stored RE_ActionNotAdmitted)) (\<lambda>row.
     sql_then (sql_lift (ok_or (sv_envelope_from_value S (qp_envelope row)) RE_IntegrityViolation)) (\<lambda>envelope.
     let claims = pe_claims envelope in
     sql_then (sql_lift (ok_or (bt_get (sx_expected_issuers (og_security O1)) proof_kind)
       RE_MissingRequiredProof)) (\<lambda>issuer_ref.
     if pc_proof_id claims \<noteq> pb_proof_id binding \<or>
        pc_proof_kind claims \<noteq> proof_kind \<or>
        pc_expires_at claims \<noteq> pb_valid_until binding \<or>
        pc_tenant_ref claims \<noteq> ce_tenant_ref command \<or>
        pc_scope_ref claims \<noteq> ce_scope_ref command \<or>
        pc_purpose_ref claims \<noteq> ce_purpose_ref command \<or>
        pc_policy_revision_ref claims \<noteq> ce_policy_revision_ref command \<or>
        \<not> proof_assertion_allows claims
     then sql_lift (Err RE_ActionNotAdmitted)
     else sql_then (sql_lift (map_err (\<lambda>_. RE_ActionNotAdmitted) (TrustRootSnapshotV1_verify_at X trust_root
            envelope (expected_command_proof (og_trust_domain O1) (og_security O1) command proof_kind
              issuer_ref (pc_subject_ref claims) (pc_subject_digest claims)) trusted_now)))
            (\<lambda>_. sql_return ()))))))"

fun needs_bound_admission :: "IdrCommandV1 \<Rightarrow> bool" where
  "needs_bound_admission (ReserveExecution _ _ _ _ _ _ _ _ _) = True"
| "needs_bound_admission (RecoverPermit _) = True"
| "needs_bound_admission (DeliverPermit _ _) = True"
| "needs_bound_admission (StartDispatch _ _) = True"
| "needs_bound_admission _ = False"

definition admission_bindings_complete :: "ActionAdmissionProjectionV1 \<Rightarrow> bool" where
  "admission_bindings_complete admission \<longleftrightarrow>
     length (aa_proof_bindings admission) = length ACTION_ADMISSION_PROOF_KINDS_V1 \<and>
     (case bt_get (aa_proof_bindings admission) PK_ExactAuthorization of
        None \<Rightarrow> False
      | Some binding \<Rightarrow> pb_proof_id binding = aa_exact_authorization_proof_id admission \<and>
                         pb_valid_until binding = aa_authorization_valid_until admission)"

definition reverify_bound_action_admission_proofs ::
  "crates \<Rightarrow> authority_serde \<Rightarrow> PostgresIdrOrchestratorV1 \<Rightarrow> sql_session \<Rightarrow> IdrRunProjectionV1 \<Rightarrow>
   IdrCommandEnvelopeV1 \<Rightarrow> u64 \<Rightarrow> TrustRootSnapshotV1 \<Rightarrow> unit sql" where
  "reverify_bound_action_admission_proofs X S O1 Q projection command trusted_now trust_root =
     (if \<not> needs_bound_admission (ce_command command) then sql_return ()
      else sql_then (sql_lift (ok_or (pj_action_admission projection) RE_ActionNotAdmitted)) (\<lambda>admission.
        if \<not> admission_bindings_complete admission then sql_lift (Err RE_ActionNotAdmitted)
        else sql_for_each (bound_proof_kind_check X S O1 Q admission command trusted_now trust_root)
               ACTION_ADMISSION_PROOF_KINDS_V1))"

section \<open>The transition of a transaction\<close>

definition superseding_closure ::
  "sql_session \<Rightarrow> IdrTransitionV1 \<Rightarrow> AuthoritativeRecordRefV1 option \<Rightarrow> IdrTransitionV1 sql" where
  "superseding_closure Q transition superseded_record =
     (case superseded_record of
        None \<Rightarrow> sql_return transition
      | Some previous_record \<Rightarrow>
          if (case tn_authoritative_record transition of
                None \<Rightarrow> False
              | Some r \<Rightarrow> rr_candidate_kind (ar_record_ref r) = rr_candidate_kind previous_record \<and>
                          ar_record_ref r \<noteq> previous_record)
          then sql_then (load_recursive_invalidation_closure Q previous_record) (\<lambda>closure.
                 sql_return (apply_repository_invalidation_closure transition closure False))
          else sql_return transition)"

definition next_transition ::
  "crates \<Rightarrow> sql_session \<Rightarrow> IdrRunProjectionV1 \<Rightarrow> IdrCommandEnvelopeV1 \<Rightarrow> u64 \<Rightarrow>
   VerifiedProductionProofV1 list \<Rightarrow> (IdrRuntimeErrorV1, unit) result \<Rightarrow> IdrTransitionV1 sql" where
  "next_transition X Q projection command trusted_now verified_proofs bound_admission_result =
     (case bound_admission_result of
        Ok _ \<Rightarrow>
          let superseded_record =
                Option.bind (expected_candidate_kind (ce_command command)) (pj_records projection) in
          sql_then (sql_lift (evaluate_authoritative_transition_v1 X (q_fresh Q) projection command
            trusted_now verified_proofs)) (\<lambda>transition.
          case ce_command command of
            InvalidateRecord record_ref _ \<Rightarrow>
              sql_then (load_recursive_invalidation_closure Q record_ref) (\<lambda>closure.
                sql_return (apply_repository_invalidation_closure transition closure True))
          | _ \<Rightarrow> superseding_closure Q transition superseded_record)
      | Err e \<Rightarrow>
          if e = RE_ActionNotAdmitted
          then
            sql_then (sql_lift (ok_or (map_option aa_admission_ref (pj_action_admission projection))
              RE_ActionNotAdmitted)) (\<lambda>failed_admission_ref.
            sql_then (load_recursive_invalidation_closure Q failed_admission_ref) (\<lambda>closure.
            sql_then (sql_lift (action_admission_proof_failure X projection command verified_proofs))
              (\<lambda>transition. sql_return (apply_repository_invalidation_closure transition closure False))))
          else sql_lift (Err e))"

definition transition_digest_json ::
  "crates \<Rightarrow> PostgresIdrOrchestratorV1 \<Rightarrow> IdrCommandEnvelopeV1 \<Rightarrow> string \<Rightarrow> u64 \<Rightarrow> string \<Rightarrow> IdrTransitionV1 \<Rightarrow> json" where
  "transition_digest_json X O1 command command_digest pre_aggregate_version projection_digest transition =
     json_object [
       (''trust_domain'', JStr (TrustDomainV1_name (og_trust_domain O1))),
       (''environment_ref'', JStr (sx_environment_ref (og_security O1))),
       (''command_id'', uuid_json X (ce_command_id command)),
       (''command_digest'', JStr command_digest),
       (''run_id'', uuid_json X (ce_run_id command)),
       (''tenant_ref'', JStr (ce_tenant_ref command)),
       (''pre_aggregate_version'', ju64 pre_aggregate_version),
       (''post_aggregate_version'', ju64 (pj_aggregate_version (tn_projection transition))),
       (''projection_digest'', JStr projection_digest),
       (''event_type'', JStr (tn_event_type transition)),
       (''record_ref'', jopt (\<lambda>r. AuthoritativeRecordRefV1_json X (ar_record_ref r))
         (tn_authoritative_record transition)),
       (''consumed_proof_ids'', JArr (map (uuid_json X) (tn_consumed_proof_ids transition)))]"

definition attestation_purpose :: "IdrTransitionV1 \<Rightarrow> string" where
  "attestation_purpose transition =
     (if strip_prefix REVOKED_EVENT_PREFIX (tn_event_type transition) \<noteq> None
      then ''governance_proof_revocation'' else ''command_transition'')"

section \<open>Writes of a transition\<close>

definition persist_transition ::
  "crates \<Rightarrow> authority_serde \<Rightarrow> PostgresIdrOrchestratorV1 \<Rightarrow> sql_session \<Rightarrow> IdrCommandEnvelopeV1 \<Rightarrow>
   VerifiedProductionProofV1 list \<Rightarrow> u64 \<Rightarrow> TrustRootSnapshotV1 \<Rightarrow> string \<Rightarrow> IdrTransitionV1 \<Rightarrow> unit sql" where
  "persist_transition X S O1 Q command verified_proofs trusted_now trust_root projection_digest transition =
     sql_then (upsert_run Q S (tn_projection transition) projection_digest) (\<lambda>_.
     sql_then (persist_step_snapshot Q S command transition) (\<lambda>_.
     sql_then (persist_authoritative_record X Q (tn_authoritative_record transition)
       (tn_projection transition)) (\<lambda>_.
     sql_then (persist_contract_dependencies Q command transition) (\<lambda>_.
     sql_then (persist_proof_consumptions X Q command verified_proofs (tr_root_version trust_root)
       (tr_root_digest trust_root) trusted_now (og_trust_domain O1)) (\<lambda>_.
     persist_specialized_projection X Q command transition)))))"

section \<open>The audit trail\<close>

definition previous_hash :: "authority_db \<Rightarrow> string \<Rightarrow> string" where
  "previous_hash db tenant_ref =
     (case rev (sort_key qa_sequence (filter (\<lambda>a. qa_tenant_ref a = tenant_ref) (db_audit db))) of
        [] \<Rightarrow> replicate 64 (CHR ''0'')
      | a # _ \<Rightarrow> qa_event_hash a)"

definition contract_refs_json :: "crates \<Rightarrow> IdrTransitionV1 \<Rightarrow> json" where
  "contract_refs_json X transition =
     (case tn_authoritative_record transition of
        None \<Rightarrow> JArr []
      | Some r \<Rightarrow> JArr [AuthoritativeRecordRefV1_json X (ar_record_ref r)])"

definition proof_refs_json :: "crates \<Rightarrow> IdrTransitionV1 \<Rightarrow> json" where
  "proof_refs_json X transition = JArr (map (uuid_json X) (tn_consumed_proof_ids transition))"

definition audit_payload ::
  "crates \<Rightarrow> PostgresIdrOrchestratorV1 \<Rightarrow> IdrCommandEnvelopeV1 \<Rightarrow> string \<Rightarrow> string \<Rightarrow> IdrTransitionV1 \<Rightarrow> json" where
  "audit_payload X O1 command command_digest projection_digest transition = json_object [
     (''trust_domain'', JStr (TrustDomainV1_name (og_trust_domain O1))),
     (''environment_ref'', JStr (sx_environment_ref (og_security O1))),
     (''event_type'', JStr (tn_event_type transition)),
     (''command_id'', uuid_json X (ce_command_id command)),
     (''command_digest'', JStr command_digest),
     (''run_id'', uuid_json X (ce_run_id command)),
     (''tenant_ref'', JStr (ce_tenant_ref command)),
     (''aggregate_version'', ju64 (pj_aggregate_version (tn_projection transition))),
     (''actor_ref'', JStr (ce_actor_ref command)),
     (''caller_ref'', JStr (ce_caller_ref command)),
     (''correlation_ref'', JStr (ce_correlation_ref command)),
     (''causation_ref'', JStr (ce_causation_ref command)),
     (''policy_revision_ref'', JStr (ce_policy_revision_ref command)),
     (''contract_refs'', contract_refs_json X transition),
     (''proof_refs'', proof_refs_json X transition),
     (''projection_digest'', JStr projection_digest),
     (''event_payload'', tn_event_payload transition)]"

text \<open>The rows of a transition; the bridge completes their serial numbers and attestation.\<close>

definition event_row_for ::
  "PostgresIdrOrchestratorV1 \<Rightarrow> sql_session \<Rightarrow> IdrCommandEnvelopeV1 \<Rightarrow> string \<Rightarrow> string \<Rightarrow> IdrTransitionV1 \<Rightarrow>
   int \<Rightarrow> int \<Rightarrow> event_row" where
  "event_row_for O1 Q command previous event_hash transition run_event_sequence aggregate_version = \<lparr>
     qe_global_sequence = 0,
     qe_event_id = q_event_id Q,
     qe_trust_domain = TrustDomainV1_name (og_trust_domain O1),
     qe_environment_ref = sx_environment_ref (og_security O1),
     qe_run_id = ce_run_id command,
     qe_tenant_ref = ce_tenant_ref command,
     qe_run_event_sequence = run_event_sequence,
     qe_aggregate_version = aggregate_version,
     qe_event_type = tn_event_type transition,
     qe_correlation_ref = ce_correlation_ref command,
     qe_causation_ref = ce_causation_ref command,
     qe_actor_ref = ce_actor_ref command,
     qe_caller_ref = ce_caller_ref command,
     qe_event_payload = tn_event_payload transition,
     qe_previous_hash = previous,
     qe_event_hash = event_hash,
     qe_attestation_id = 0\<rparr>"

definition audit_row_for ::
  "crates \<Rightarrow> PostgresIdrOrchestratorV1 \<Rightarrow> sql_session \<Rightarrow> IdrCommandEnvelopeV1 \<Rightarrow> json \<Rightarrow> string \<Rightarrow> string \<Rightarrow>
   IdrTransitionV1 \<Rightarrow> int \<Rightarrow> audit_row" where
  "audit_row_for X O1 Q command payload previous event_hash transition aggregate_version = \<lparr>
     qa_sequence = 0,
     qa_event_id = q_event_id Q,
     qa_trust_domain = TrustDomainV1_name (og_trust_domain O1),
     qa_environment_ref = sx_environment_ref (og_security O1),
     qa_tenant_ref = ce_tenant_ref command,
     qa_run_id = ce_run_id command,
     qa_aggregate_version = aggregate_version,
     qa_actor_ref = ce_actor_ref command,
     qa_caller_ref = ce_caller_ref command,
     qa_correlation_ref = ce_correlation_ref command,
     qa_causation_ref = ce_causation_ref command,
     qa_contract_refs = contract_refs_json X transition,
     qa_proof_refs = proof_refs_json X transition,
     qa_policy_revision_ref = ce_policy_revision_ref command,
     qa_previous_hash = previous,
     qa_event_hash = event_hash,
     qa_payload = payload,
     qa_attestation_id = 0\<rparr>"

definition outbox_row_for ::
  "PostgresIdrOrchestratorV1 \<Rightarrow> sql_session \<Rightarrow> IdrCommandEnvelopeV1 \<Rightarrow> json \<Rightarrow> IdrTransitionV1 \<Rightarrow> int \<Rightarrow> outbox_row" where
  "outbox_row_for O1 Q command payload transition aggregate_version = \<lparr>
     qb_outbox_id = q_outbox_id Q,
     qb_trust_domain = TrustDomainV1_name (og_trust_domain O1),
     qb_environment_ref = sx_environment_ref (og_security O1),
     qb_tenant_ref = ce_tenant_ref command,
     qb_run_id = ce_run_id command,
     qb_aggregate_version = aggregate_version,
     qb_event_type = tn_event_type transition,
     qb_payload = payload,
     qb_created_at = q_clock Q ''outbox_created_at'',
     qb_available_at = q_clock Q ''outbox_available_at'',
     qb_claim = None,
     qb_delivered_at = None,
     qb_delivery_attempts = 0\<rparr>"

definition append_events ::
  "crates \<Rightarrow> PostgresIdrOrchestratorV1 \<Rightarrow> sql_session \<Rightarrow> IdrCommandEnvelopeV1 \<Rightarrow> json \<Rightarrow> string \<Rightarrow> string \<Rightarrow>
   IdrTransitionV1 \<Rightarrow> unit sql" where
  "append_events X O1 Q command payload previous event_hash transition =
     sql_then (sql_lift (i64_from_u64 (pj_last_event_sequence (tn_projection transition)))) (\<lambda>run_event_sequence.
     sql_then (sql_lift (i64_from_u64 (pj_aggregate_version (tn_projection transition)))) (\<lambda>aggregate_version.
     sql_then (sql_execute Q (W_Event (event_row_for O1 Q command previous event_hash transition
       run_event_sequence aggregate_version))) (\<lambda>_.
     sql_then (sql_execute Q (W_Audit (audit_row_for X O1 Q command payload previous event_hash transition
       aggregate_version))) (\<lambda>_.
     sql_execute Q (W_Outbox (outbox_row_for O1 Q command payload transition aggregate_version))))))"

definition receipt_for ::
  "PostgresIdrOrchestratorV1 \<Rightarrow> IdrCommandEnvelopeV1 \<Rightarrow> uuid \<Rightarrow> u64 \<Rightarrow> IdrTransitionV1 \<Rightarrow> IdrCommandReceiptV1" where
  "receipt_for O1 command attestation_id event_sequence transition = \<lparr>
     cr_command_id = ce_command_id command,
     cr_attestation_id = attestation_id,
     cr_trust_domain = og_trust_domain O1,
     cr_environment_ref = sx_environment_ref (og_security O1),
     cr_run_id = ce_run_id command,
     cr_aggregate_version = pj_aggregate_version (tn_projection transition),
     cr_event_sequence = event_sequence,
     cr_state = pj_state (tn_projection transition),
     cr_record_ref = map_option ar_record_ref (tn_authoritative_record transition),
     cr_idempotent_replay = False\<rparr>"

definition receipt_row_for ::
  "crates \<Rightarrow> PostgresIdrOrchestratorV1 \<Rightarrow> sql_session \<Rightarrow> IdrCommandEnvelopeV1 \<Rightarrow> string \<Rightarrow> IdrCommandReceiptV1 \<Rightarrow>
   string \<Rightarrow> int \<Rightarrow> receipt_row" where
  "receipt_row_for X O1 Q command command_digest receipt receipt_mac aggregate_version = \<lparr>
     qq_command_id = ce_command_id command,
     qq_trust_domain = TrustDomainV1_name (og_trust_domain O1),
     qq_environment_ref = sx_environment_ref (og_security O1),
     qq_run_id = ce_run_id command,
     qq_aggregate_version = aggregate_version,
     qq_event_sequence = q_global_sequence Q,
     qq_receipt = IdrCommandReceiptV1_json X receipt,
     qq_receipt_mac = receipt_mac,
     qq_tenant_ref = ce_tenant_ref command,
     qq_actor_ref = ce_actor_ref command,
     qq_caller_ref = ce_caller_ref command,
     qq_command_digest = command_digest,
     qq_attestation_id = 0\<rparr>"

definition append_receipt ::
  "crates \<Rightarrow> PostgresIdrOrchestratorV1 \<Rightarrow> sql_session \<Rightarrow> IdrCommandEnvelopeV1 \<Rightarrow> string \<Rightarrow> uuid \<Rightarrow>
   IdrTransitionV1 \<Rightarrow> IdrCommandReceiptV1 sql" where
  "append_receipt X O1 Q command command_digest attestation_id transition =
     sql_then (sql_lift (ok_or (u64_try_from (q_global_sequence Q)) RE_Serialization)) (\<lambda>event_sequence.
     let receipt = receipt_for O1 command attestation_id event_sequence transition in
     sql_then (sql_lift (command_receipt_mac X (og_attestation_key O1) receipt)) (\<lambda>receipt_mac.
     sql_then (sql_lift (i64_from_u64 (cr_aggregate_version receipt))) (\<lambda>aggregate_version.
     sql_then (sql_execute Q (W_Receipt (receipt_row_for X O1 Q command command_digest receipt receipt_mac
       aggregate_version))) (\<lambda>_.
     sql_return receipt))))"

definition checkpoint_row_for :: "crates \<Rightarrow> AuditCheckpointV1 \<Rightarrow> checkpoint_row" where
  "checkpoint_row_for X checkpoint = \<lparr>
     qk_checkpoint_id = ck_checkpoint_id checkpoint,
     qk_trust_domain = TrustDomainV1_name (ck_trust_domain checkpoint),
     qk_environment_ref = ck_environment_ref checkpoint,
     qk_tenant_ref = ck_tenant_ref checkpoint,
     qk_audit_sequence = ck_audit_sequence checkpoint,
     qk_chain_root = ck_chain_root checkpoint,
     qk_record_set_root = ck_record_set_root checkpoint,
     qk_execution_state_root = ck_execution_state_root checkpoint,
     qk_signed_checkpoint = AuditCheckpointV1_json X checkpoint,
     qk_published_at = None\<rparr>"

definition append_checkpoint ::
  "crates \<Rightarrow> PostgresIdrOrchestratorV1 \<Rightarrow> sql_session \<Rightarrow> IdrCommandEnvelopeV1 \<Rightarrow> string \<Rightarrow> AuditCheckpointV1 sql" where
  "append_checkpoint X O1 Q command event_hash =
     (let tenant_ref = ce_tenant_ref command in
     sql_then (sql_query Q SR_RecordSet (\<lambda>db. record_set_root X db tenant_ref)) (\<lambda>record_root.
     sql_then (sql_lift record_root) (\<lambda>record_set_root1.
     sql_then (sql_query Q SR_Fences (\<lambda>db. fence_leaves X db tenant_ref)) (\<lambda>fences.
     sql_then (sql_query Q SR_Reservations (\<lambda>db. reservation_leaves X db tenant_ref)) (\<lambda>reservations.
     sql_then (sql_query Q SR_Attempts (\<lambda>db. attempt_leaves X db tenant_ref)) (\<lambda>attempts.
     sql_then (sql_lift (execution_state_root_from_rows X fences reservations attempts)) (\<lambda>execution_root.
     let checkpoint = \<lparr>
       ck_trust_domain = og_trust_domain O1,
       ck_environment_ref = sx_environment_ref (og_security O1),
       ck_tenant_ref = tenant_ref,
       ck_audit_sequence = q_audit_sequence Q,
       ck_chain_root = event_hash,
       ck_record_set_root = record_set_root1,
       ck_execution_state_root = execution_root,
       ck_checkpoint_id = q_checkpoint_id Q\<rparr> in
     sql_then (sql_execute Q (W_Checkpoint (checkpoint_row_for X checkpoint))) (\<lambda>_.
     sql_return checkpoint))))))))"

section \<open>The transaction\<close>

text \<open>From a decided transition to the checkpoint.\<close>

definition commit_transition ::
  "crates \<Rightarrow> authority_serde \<Rightarrow> PostgresIdrOrchestratorV1 \<Rightarrow> sql_session \<Rightarrow> IdrCommandEnvelopeV1 \<Rightarrow>
   VerifiedProductionProofV1 list \<Rightarrow> u64 \<Rightarrow> TrustRootSnapshotV1 \<Rightarrow> string \<Rightarrow> u64 \<Rightarrow> IdrTransitionV1 \<Rightarrow>
   (IdrCommandReceiptV1 \<times> AuditCheckpointV1) sql" where
  "commit_transition X S O1 Q command verified_proofs trusted_now trust_root command_digest
       pre_aggregate_version transition =
     sql_then (sql_lift (projection_digest_v1 X (sv_projection_to_value S (tn_projection transition))))
       (\<lambda>projection_digest.
     sql_then (sql_lift (from_protocol (canonical_digest_v1 X ''idr-orchestrator-transition-attestation-v1''
       (transition_digest_json X O1 command command_digest pre_aggregate_version projection_digest transition))))
       (\<lambda>transition_digest.
     sql_then (open_orchestrator_attestation X O1 Q (attestation_purpose transition) (ce_command_id command)
       (ce_run_id command) (ce_tenant_ref command) pre_aggregate_version
       (pj_aggregate_version (tn_projection transition)) command_digest transition_digest) (\<lambda>attestation_id.
     sql_then (persist_transition X S O1 Q command verified_proofs trusted_now trust_root projection_digest
       transition) (\<lambda>_.
     sql_then (sql_query Q SR_PreviousHash (\<lambda>db. previous_hash db (ce_tenant_ref command))) (\<lambda>previous.
     let payload = audit_payload X O1 command command_digest projection_digest transition in
     sql_then (sql_lift (hash_event_v1 X previous payload)) (\<lambda>event_hash.
     sql_then (append_events X O1 Q command payload previous event_hash transition) (\<lambda>_.
     sql_then (append_receipt X O1 Q command command_digest attestation_id transition) (\<lambda>receipt.
     sql_then (append_checkpoint X O1 Q command event_hash) (\<lambda>checkpoint.
     sql_then (sql_query Q SR_Commit (\<lambda>_. ())) (\<lambda>_.
     sql_return (receipt, checkpoint)))))))))))"

definition execute_new_command ::
  "crates \<Rightarrow> authority_serde \<Rightarrow> PostgresIdrOrchestratorV1 \<Rightarrow> sql_session \<Rightarrow> IdrCommandEnvelopeV1 \<Rightarrow> u64 \<Rightarrow>
   TrustRootSnapshotV1 \<Rightarrow> string \<Rightarrow> (IdrCommandReceiptV1 \<times> AuditCheckpointV1) sql" where
  "execute_new_command X S O1 Q command trusted_now trust_root command_digest =
     sql_then (sql_lift (verify_proofs_inside_transaction X (og_trust_domain O1) (og_security O1)
       command trusted_now trust_root)) (\<lambda>verified_proofs.
     sql_then (load_projection X S O1 Q command) (\<lambda>projection.
     (\<lambda>tx. let bound_admission_result = and_then (reverify_bound_action_admission_proofs X S O1 Q projection
               command trusted_now trust_root tx) (\<lambda>_. Ok ()) in
       sql_then (check_proof_replay Q command (og_trust_domain O1) verified_proofs) (\<lambda>_.
       sql_then (next_transition X Q projection command trusted_now verified_proofs bound_admission_result)
         (\<lambda>transition.
       commit_transition X S O1 Q command verified_proofs trusted_now trust_root command_digest
         (pj_aggregate_version projection) transition)) tx)))"

definition transact_inner ::
  "crates \<Rightarrow> authority_serde \<Rightarrow> PostgresIdrOrchestratorV1 \<Rightarrow> (IdrRuntimeErrorV1, TrustRootSnapshotV1) result \<Rightarrow>
   sql_session \<Rightarrow> IdrCommandEnvelopeV1 \<Rightarrow> (IdrCommandReceiptV1 \<times> AuditCheckpointV1) sql" where
  "transact_inner X S O1 current_root Q command =
     sql_then (sql_query Q SR_Begin (\<lambda>_. ())) (\<lambda>_.
     sql_then (sql_query Q SR_Isolation (\<lambda>_. ())) (\<lambda>_.
     sql_then (sql_query Q SR_Clock (\<lambda>_. q_now Q)) (\<lambda>now.
     sql_then (sql_lift (ok_or (u64_try_from now) (RE_Repository ''database trusted time is invalid''))) (\<lambda>trusted_now.
     sql_then (sql_lift current_root) (\<lambda>trust_root.
     if tr_trust_domain trust_root \<noteq> og_trust_domain O1 \<or>
        tr_environment_ref trust_root \<noteq> sx_environment_ref (og_security O1)
     then sql_lift (Err RE_BindingMismatch)
     else
       sql_then (sql_lift (IdrCommandEnvelopeV1_canonical_digest X command)) (\<lambda>command_digest.
       sql_then (sql_query Q SR_Receipt (\<lambda>db.
         find (\<lambda>r. qq_command_id r = ce_command_id command) (db_receipts db))) (\<lambda>stored.
       case stored of
         Some row \<Rightarrow> replay_stored_receipt X S O1 Q command trusted_now trust_root command_digest row
       | None \<Rightarrow> execute_new_command X S O1 Q command trusted_now trust_root command_digest)))))))"

section \<open>The entry point\<close>

definition publication_command_json :: "crates \<Rightarrow> IdrCommandReceiptV1 \<Rightarrow> AuditCheckpointV1 \<Rightarrow> json" where
  "publication_command_json X receipt checkpoint = json_object [
     (''command_id'', uuid_json X (cr_command_id receipt)),
     (''attestation_id'', uuid_json X (cr_attestation_id receipt)),
     (''checkpoint'', AuditCheckpointV1_json X checkpoint)]"

definition publication_transition_json :: "crates \<Rightarrow> AuditCheckpointV1 \<Rightarrow> json" where
  "publication_transition_json X checkpoint = json_object [
     (''checkpoint_id'', uuid_json X (ck_checkpoint_id checkpoint)),
     (''audit_sequence'', jint (ck_audit_sequence checkpoint)),
     (''chain_root'', JStr (ck_chain_root checkpoint)),
     (''record_set_root'', JStr (ck_record_set_root checkpoint)),
     (''execution_state_root'', JStr (ck_execution_state_root checkpoint))]"

text \<open>The second transaction, which marks a published checkpoint.\<close>

definition mark_published :: "sql_session \<Rightarrow> AuditCheckpointV1 \<Rightarrow> unit sql" where
  "mark_published Q checkpoint tx =
     (case find (\<lambda>k. qk_checkpoint_id k = ck_checkpoint_id checkpoint) (db_checkpoints (tx_db tx)) of
        None \<Rightarrow> Ok ((), tx)
      | Some row \<Rightarrow> sql_execute Q
          (U_Checkpoint (row\<lparr>qk_published_at := Some (q_clock Q ''published_at'')\<rparr>)) tx)"

definition publication_transaction ::
  "crates \<Rightarrow> PostgresIdrOrchestratorV1 \<Rightarrow> sql_session \<Rightarrow> IdrCommandReceiptV1 \<Rightarrow> AuditCheckpointV1 \<Rightarrow> unit sql" where
  "publication_transaction X O1 Q receipt checkpoint =
     sql_then (sql_lift (from_protocol (canonical_digest_v1 X ''idr-checkpoint-publication-command-v1''
       (publication_command_json X receipt checkpoint)))) (\<lambda>command_digest.
     sql_then (sql_lift (from_protocol (canonical_digest_v1 X ''idr-checkpoint-publication-transition-v1''
       (publication_transition_json X checkpoint)))) (\<lambda>transition_digest.
     sql_then (sql_query Q SR_Begin (\<lambda>_. ())) (\<lambda>_.
     sql_then (sql_query Q SR_Isolation (\<lambda>_. ())) (\<lambda>_.
     sql_then (open_orchestrator_attestation X O1 Q ''checkpoint_publication'' (cr_command_id receipt)
       ZERO_RUN_ID_V1 (ck_tenant_ref checkpoint) (cr_aggregate_version receipt)
       (cr_aggregate_version receipt) command_digest transition_digest) (\<lambda>_.
     sql_then (mark_published Q checkpoint) (\<lambda>_.
     sql_query Q SR_Commit (\<lambda>_. ())))))))"

text \<open>The checks before the transaction.\<close>

definition handle_gates ::
  "crates \<Rightarrow> PostgresIdrOrchestratorV1 \<Rightarrow> IdrCommandEnvelopeV1 \<Rightarrow> (IdrRuntimeErrorV1, unit) result" where
  "handle_gates X O1 command =
     and_then (if og_production_build O1 \<and> og_trust_domain O1 = TD_Production
               then enforce_production_command_release_gate (ce_command command) else Ok ()) (\<lambda>_.
     if is_human_model_write (ce_command command) \<and> \<not> og_human_model_write O1
     then Err (RE_Repository ''HUMAN MODEL LONG-TERM WRITE = NOT AUTHORIZED'')
     else and_then (IdrCommandEnvelopeV1_validate X command) (\<lambda>_.
       if ce_trust_domain command \<noteq> og_trust_domain O1 then Err RE_BindingMismatch
       else if ce_environment_ref command \<noteq> sx_environment_ref (og_security O1)
       then Err RE_BindingMismatch else Ok ()))"

text \<open>
  The state is the committed tables and the anchor. A failure after the first commit is an error
  that keeps the committed tables.
\<close>

definition handle ::
  "crates \<Rightarrow> authority_serde \<Rightarrow> PostgresIdrOrchestratorV1 \<Rightarrow>
   ('s \<Rightarrow> AuditCheckpointV1 \<Rightarrow> (IdrRuntimeErrorV1, 's) result) \<Rightarrow>
   (IdrRuntimeErrorV1, TrustRootSnapshotV1) result \<Rightarrow> sql_session \<Rightarrow> sql_session \<Rightarrow> IdrCommandEnvelopeV1 \<Rightarrow>
   authority_db \<times> 's \<Rightarrow> (IdrRuntimeErrorV1, IdrCommandReceiptV1) result \<times> (authority_db \<times> 's)" where
  "handle X S O1 pub current_root Q Q2 command state =
     (let db = fst state; anchor = snd state in
      case handle_gates X O1 command of
        Err e \<Rightarrow> (Err e, state)
      | Ok _ \<Rightarrow>
          (case transact_inner X S O1 current_root Q command \<lparr>tx_db = db, tx_active = None\<rparr> of
             Err e \<Rightarrow> (Err e, state)
           | Ok ((receipt, checkpoint), tx) \<Rightarrow>
               if cr_idempotent_replay receipt then (Ok receipt, (tx_db tx, anchor))
               else (case pub anchor checkpoint of
                 Err e \<Rightarrow> (Err e, (tx_db tx, anchor))
               | Ok anchor' \<Rightarrow>
                   (case publication_transaction X O1 Q2 receipt checkpoint
                           \<lparr>tx_db = tx_db tx, tx_active = None\<rparr> of
                      Err e \<Rightarrow> (Err e, (tx_db tx, anchor'))
                    | Ok (_, tx2) \<Rightarrow> (Ok receipt, (tx_db tx2, anchor'))))))"

end
