(* ===== verification/IDR_Authority_Props.thy ===== *)
theory IDR_Authority_Props
  imports IDR_Transact
begin

text \<open>
  What the transactions of the PostgreSQL authority guarantee: the effect of an accepted command on
  the audit trail, the runs and the consumed proofs, the invariants of the tables that every
  command keeps, repeated commands, the recursive closure, idempotency fences, and the corrections
  that no transaction accepts.
\<close>

section \<open>Writes that only insert\<close>

lemma insert_only:
  "idr_attested_authority_view_bridge Q w tx = Ok (n, tx') \<Longrightarrow> written_table w \<notin> {0, 4, 6, 10, 11, 21} \<Longrightarrow>
     \<not> unique_violation (numbered Q w) (tx_db tx) \<and>
     (\<exists>aid. tx' = tx\<lparr>tx_db := insert_row Q aid w (tx_db tx)\<rparr>)"
  by (cases w) (auto simp: bridge_Ok split: if_splits)

lemma executeD:
  assumes "sql_execute Q w tx = Ok (u, tx')" "written_table w \<notin> {0, 4, 6, 10, 11, 21}"
  shows "\<not> unique_violation (numbered Q w) (tx_db tx) \<and>
    (\<exists>aid. tx' = tx\<lparr>tx_db := insert_row Q aid w (tx_db tx)\<rparr>)"
proof -
  from assms(1) obtain n where "idr_attested_authority_view_bridge Q w tx = Ok (n, tx')"
    by (auto simp: sql_execute_Ok)
  from insert_only [OF this assms(2)] show ?thesis .
qed

text \<open>Opening an attestation changes nothing but the attestations.\<close>

lemma open_attested_Ok:
  "idr_open_attested_transition X Q a tx = Ok (aid, tx') \<Longrightarrow>
     aid = qg_attestation_id a \<and> tx_active tx' = Some aid \<and>
     tx_db tx' = (tx_db tx)\<lparr>db_attestations := db_attestations (tx_db tx) @ [a]\<rparr>"
  by (auto simp: idr_open_attested_transition_def and_then_eq_Ok split: if_splits option.splits)

lemma open_Ok:
  assumes "open_orchestrator_attestation X O1 Q purpose cid rid tenant pre post cd td tx = Ok (aid, tx')"
  obtains a where "aid = q_attestation_id Q" "tx_active tx' = Some aid"
    "tx_db tx' = (tx_db tx)\<lparr>db_attestations := db_attestations (tx_db tx) @ [a]\<rparr>"
proof -
  from assms have aid: "aid = q_attestation_id Q"
    unfolding open_orchestrator_attestation_def Let_def
    by (auto simp only: sql_simps prod.case split: if_splits)
  from assms obtain a where "idr_open_attested_transition X Q a tx = Ok (q_attestation_id Q, tx')"
    unfolding open_orchestrator_attestation_def Let_def
    by (auto simp only: sql_simps prod.case split: if_splits)
  with open_attested_Ok [of X Q a tx "q_attestation_id Q" tx'] that aid show thesis by blast
qed

text \<open>The attestation every write of a command runs under.\<close>

definition attested_for :: "PostgresIdrOrchestratorV1 \<Rightarrow> IdrCommandEnvelopeV1 \<Rightarrow> attestation_row \<Rightarrow> bool" where
  "attested_for O1 command a \<longleftrightarrow>
     qg_trust_domain a = TrustDomainV1_name (og_trust_domain O1) \<and>
     qg_environment_ref a = sx_environment_ref (og_security O1) \<and>
     qg_command_id a = ce_command_id command \<and> qg_run_id a = ce_run_id command \<and>
     qg_tenant_ref a = ce_tenant_ref command"

lemma open_current:
  assumes "open_orchestrator_attestation X O1 Q purpose cid rid tenant pre post cd td tx = Ok (aid, tx')"
  obtains a where "idr_current_attestation Q tx' = Some a"
    "qg_trust_domain a = TrustDomainV1_name (og_trust_domain O1)"
    "qg_environment_ref a = sx_environment_ref (og_security O1)"
    "qg_command_id a = cid" "qg_run_id a = rid" "qg_tenant_ref a = tenant"
proof -
  from assms obtain a where o: "idr_open_attested_transition X Q a tx = Ok (q_attestation_id Q, tx')"
    and a: "qg_trust_domain a = TrustDomainV1_name (og_trust_domain O1)"
      "qg_environment_ref a = sx_environment_ref (og_security O1)"
      "qg_command_id a = cid" "qg_run_id a = rid" "qg_tenant_ref a = tenant"
    unfolding open_orchestrator_attestation_def Let_def
    by (auto simp: sql_simps split: if_splits)
  have "idr_current_attestation Q tx' = Some a"
  proof -
    from o have f: "list_ex (\<lambda>e. qg_attestation_id e = qg_attestation_id a) (db_attestations (tx_db tx)) = False"
      "qg_database_txid a = q_txid Q" "qg_backend_pid a = q_pid Q"
      by (auto simp: idr_open_attested_transition_def and_then_eq_Ok list_ex_iff split: if_splits option.splits)
    from open_attested_Ok [OF o] have t: "tx_active tx' = Some (qg_attestation_id a)"
      "db_attestations (tx_db tx') = db_attestations (tx_db tx) @ [a]" by simp_all
    have "find P (xs @ [x]) = Some x" if "P x" "\<forall>y \<in> set xs. \<not> P y" for P :: "attestation_row \<Rightarrow> bool" and xs x
      using that by (induction xs) auto
    then show ?thesis using f t by (auto simp: idr_current_attestation_def list_ex_iff)
  qed
  with a that show thesis by blast
qed

section \<open>The audit trail of a committed command\<close>

lemma append_events_Ok:
  assumes "append_events X O1 Q command payload previous event_hash transition tx = Ok (u, tx')"
  obtains a aid version where
    "a = (audit_row_for X O1 Q command payload previous event_hash transition version)
       \<lparr>qa_sequence := q_audit_sequence Q, qa_attestation_id := aid\<rparr>"
    "db_audit (tx_db tx') = db_audit (tx_db tx) @ [a]"
    "\<forall>e \<in> set (db_audit (tx_db tx)). qa_sequence e \<noteq> q_audit_sequence Q"
    "db_runs (tx_db tx') = db_runs (tx_db tx)"
    "db_consumptions (tx_db tx') = db_consumptions (tx_db tx)"
    "db_fences (tx_db tx') = db_fences (tx_db tx)"
    "db_receipts (tx_db tx') = db_receipts (tx_db tx)"
proof -
  from assms obtain tx1 tx2 u1 u2 version sequence where
    w: "sql_execute Q (W_Event (event_row_for O1 Q command previous event_hash transition sequence version)) tx = Ok (u1, tx1)"
      "sql_execute Q (W_Audit (audit_row_for X O1 Q command payload previous event_hash transition version)) tx1 = Ok (u2, tx2)"
      "sql_execute Q (W_Outbox (outbox_row_for O1 Q command payload transition version)) tx2 = Ok (u, tx')"
    unfolding append_events_def sql_then_Ok sql_lift_Ok by blast
  have "\<exists>aid. tx1 = tx\<lparr>tx_db := insert_row Q aid
      (W_Event (event_row_for O1 Q command previous event_hash transition sequence version)) (tx_db tx)\<rparr>"
    by (rule executeD [OF w(1), THEN conjunct2]) simp
  then obtain a1 where 1: "tx1 = tx\<lparr>tx_db := insert_row Q a1
      (W_Event (event_row_for O1 Q command previous event_hash transition sequence version)) (tx_db tx)\<rparr>" ..
  have "\<exists>aid. tx2 = tx1\<lparr>tx_db := insert_row Q aid
      (W_Audit (audit_row_for X O1 Q command payload previous event_hash transition version)) (tx_db tx1)\<rparr>"
    by (rule executeD [OF w(2), THEN conjunct2]) simp
  then obtain a2 where 2: "tx2 = tx1\<lparr>tx_db := insert_row Q a2
      (W_Audit (audit_row_for X O1 Q command payload previous event_hash transition version)) (tx_db tx1)\<rparr>" ..
  have uv: "\<not> unique_violation (numbered Q
      (W_Audit (audit_row_for X O1 Q command payload previous event_hash transition version))) (tx_db tx1)"
    by (rule executeD [OF w(2), THEN conjunct1]) simp
  have "\<exists>aid. tx' = tx2\<lparr>tx_db := insert_row Q aid
      (W_Outbox (outbox_row_for O1 Q command payload transition version)) (tx_db tx2)\<rparr>"
    by (rule executeD [OF w(3), THEN conjunct2]) simp
  then obtain a3 where 3: "tx' = tx2\<lparr>tx_db := insert_row Q a3
      (W_Outbox (outbox_row_for O1 Q command payload transition version)) (tx_db tx2)\<rparr>" ..
  have t1: "db_audit (tx_db tx1) = db_audit (tx_db tx)" by (simp add: 1 insert_row_tables)
  have t2: "db_audit (tx_db tx2) = db_audit (tx_db tx1) @
      [(audit_row_for X O1 Q command payload previous event_hash transition version)
         \<lparr>qa_sequence := q_audit_sequence Q, qa_attestation_id := a2\<rparr>]" by (simp add: 2)
  have t3: "db_audit (tx_db tx') = db_audit (tx_db tx2)" by (simp add: 3 insert_row_tables)
  from uv have fresh: "\<forall>e \<in> set (db_audit (tx_db tx)). qa_sequence e \<noteq> q_audit_sequence Q"
    by (simp add: t1 list_ex_iff)
  have rest: "db_runs (tx_db tx') = db_runs (tx_db tx)" "db_consumptions (tx_db tx') = db_consumptions (tx_db tx)"
      "db_fences (tx_db tx') = db_fences (tx_db tx)" "db_receipts (tx_db tx') = db_receipts (tx_db tx)"
    by (simp_all add: 1 2 3 insert_row_tables)
  from t1 t2 t3 have audit: "db_audit (tx_db tx') = db_audit (tx_db tx) @
      [(audit_row_for X O1 Q command payload previous event_hash transition version)
         \<lparr>qa_sequence := q_audit_sequence Q, qa_attestation_id := a2\<rparr>]" by (simp only:)
  show thesis by (rule that [OF refl audit fresh rest])
qed

lemma keeps_append_receipt [keeps_intros]:
  "sql_keeps (\<lambda>tx. db_runs (tx_db tx)) (append_receipt X O1 Q command cd aid t)"
  "sql_keeps (\<lambda>tx. db_audit (tx_db tx)) (append_receipt X O1 Q command cd aid t)"
  "sql_keeps (\<lambda>tx. db_consumptions (tx_db tx)) (append_receipt X O1 Q command cd aid t)"
  "sql_keeps (\<lambda>tx. db_fences (tx_db tx)) (append_receipt X O1 Q command cd aid t)"
  unfolding append_receipt_def Let_def by (intro keeps_intros; simp)+

lemma keeps_append_checkpoint [keeps_intros]:
  "sql_keeps (\<lambda>tx. db_runs (tx_db tx)) (append_checkpoint X O1 Q command h)"
  "sql_keeps (\<lambda>tx. db_audit (tx_db tx)) (append_checkpoint X O1 Q command h)"
  "sql_keeps (\<lambda>tx. db_consumptions (tx_db tx)) (append_checkpoint X O1 Q command h)"
  "sql_keeps (\<lambda>tx. db_fences (tx_db tx)) (append_checkpoint X O1 Q command h)"
  "sql_keeps (\<lambda>tx. db_receipts (tx_db tx)) (append_checkpoint X O1 Q command h)"
  unfolding append_checkpoint_def Let_def by (intro keeps_intros; simp)+

lemma keeps_persist_transition [keeps_intros]:
  "sql_keeps (\<lambda>tx. trail (tx_db tx)) (persist_transition X S O1 Q command proofs now root digest t)"
  unfolding persist_transition_def by (intro keeps_intros)

lemma append_receipt_Ok:
  assumes "append_receipt X O1 Q command cd aid t tx = Ok (receipt, tx')"
  obtains sequence mac version att where
    "receipt = receipt_for O1 command aid sequence t"
    "u64_try_from (q_global_sequence Q) = Some sequence"
    "command_receipt_mac X (og_attestation_key O1) receipt = Ok mac"
    "db_receipts (tx_db tx') = db_receipts (tx_db tx) @
       [(receipt_row_for X O1 Q command cd receipt mac version)\<lparr>qq_attestation_id := att\<rparr>]"
proof -
  from assms obtain sequence mac version u where r: "receipt = receipt_for O1 command aid sequence t"
      "u64_try_from (q_global_sequence Q) = Some sequence"
      "command_receipt_mac X (og_attestation_key O1) receipt = Ok mac"
      "sql_execute Q (W_Receipt (receipt_row_for X O1 Q command cd receipt mac version)) tx = Ok (u, tx')"
    unfolding append_receipt_def Let_def by (auto simp only: sql_then_Ok sql_lift_Ok sql_return_Ok ok_or_eq_Ok)
  have "\<exists>att. tx' = tx\<lparr>tx_db := insert_row Q att
      (W_Receipt (receipt_row_for X O1 Q command cd receipt mac version)) (tx_db tx)\<rparr>"
    by (rule executeD [OF r(4), THEN conjunct2]) simp
  then obtain att where "tx' = tx\<lparr>tx_db := insert_row Q att
      (W_Receipt (receipt_row_for X O1 Q command cd receipt mac version)) (tx_db tx)\<rparr>" ..
  then have "db_receipts (tx_db tx') = db_receipts (tx_db tx) @
       [(receipt_row_for X O1 Q command cd receipt mac version)\<lparr>qq_attestation_id := att\<rparr>]" by simp
  with r(1-3) that show thesis by blast
qed

lemma commit_transition_Ok:
  assumes "commit_transition X S O1 Q command proofs now root cd pre t tx = Ok ((receipt, checkpoint), tx')"
  obtains digest h version aid tx0 tx1 where
    "projection_digest_v1 X (sv_projection_to_value S (tn_projection t)) = Ok digest"
    "hash_event_v1 X (previous_hash (tx_db tx) (ce_tenant_ref command))
       (audit_payload X O1 command cd digest t) = Ok h"
    "db_audit (tx_db tx') = db_audit (tx_db tx) @
       [(audit_row_for X O1 Q command (audit_payload X O1 command cd digest t)
          (previous_hash (tx_db tx) (ce_tenant_ref command)) h t version)
         \<lparr>qa_sequence := q_audit_sequence Q, qa_attestation_id := aid\<rparr>]"
    "\<forall>e \<in> set (db_audit (tx_db tx)). qa_sequence e \<noteq> q_audit_sequence Q"
    "\<exists>att. tx_db tx0 = (tx_db tx)\<lparr>db_attestations := att\<rparr>"
    "\<exists>a. idr_current_attestation Q tx0 = Some a \<and> attested_for O1 command a"
    "persist_transition X S O1 Q command proofs now root digest t tx0 = Ok ((), tx1)"
    "db_runs (tx_db tx') = db_runs (tx_db tx1)"
    "db_consumptions (tx_db tx') = db_consumptions (tx_db tx1)"
    "db_fences (tx_db tx') = db_fences (tx_db tx1)"
    "\<exists>sequence. receipt = receipt_for O1 command (q_attestation_id Q) sequence t"
    "\<exists>mac v att. command_receipt_mac X (og_attestation_key O1) receipt = Ok mac \<and>
       db_receipts (tx_db tx') = db_receipts (tx_db tx) @
         [(receipt_row_for X O1 Q command cd receipt mac v)\<lparr>qq_attestation_id := att\<rparr>]"
proof -
  from assms obtain digest td opened tx0 tx1 tx2 tx3 h where
    d: "projection_digest_v1 X (sv_projection_to_value S (tn_projection t)) = Ok digest"
    and o: "open_orchestrator_attestation X O1 Q (attestation_purpose t) (ce_command_id command)
       (ce_run_id command) (ce_tenant_ref command) pre (pj_aggregate_version (tn_projection t)) cd td tx
         = Ok (opened, tx0)"
    and p: "persist_transition X S O1 Q command proofs now root digest t tx0 = Ok ((), tx1)"
    and h: "hash_event_v1 X (previous_hash (tx_db tx1) (ce_tenant_ref command))
       (audit_payload X O1 command cd digest t) = Ok h"
    and e: "append_events X O1 Q command (audit_payload X O1 command cd digest t)
       (previous_hash (tx_db tx1) (ce_tenant_ref command)) h t tx1 = Ok ((), tx2)"
    and r: "append_receipt X O1 Q command cd opened t tx2 = Ok (receipt, tx3)"
    and c: "append_checkpoint X O1 Q command h tx3 = Ok (checkpoint, tx')"
    unfolding commit_transition_def Let_def
    by (auto simp only: sql_then_Ok sql_lift_Ok sql_query_Ok sql_return_Ok prod.inject unit_eq result.inject)
  from o obtain a where a: "opened = q_attestation_id Q"
      "tx_db tx0 = (tx_db tx)\<lparr>db_attestations := db_attestations (tx_db tx) @ [a]\<rparr>" by (rule open_Ok)
  from o have attested: "\<exists>a. idr_current_attestation Q tx0 = Some a \<and> attested_for O1 command a"
    by (rule open_current) (auto simp: attested_for_def)
  have "trail (tx_db tx1) = trail (tx_db tx0)" by (rule sql_keepsD [OF keeps_persist_transition p])
  with a(2) have t1: "db_audit (tx_db tx1) = db_audit (tx_db tx)" "db_receipts (tx_db tx1) = db_receipts (tx_db tx)"
    by (simp_all add: trail_def)
  then have prev: "previous_hash (tx_db tx1) tenant = previous_hash (tx_db tx) tenant" for tenant
    by (simp add: previous_hash_def)
  from e obtain row aid version where row: "row = (audit_row_for X O1 Q command (audit_payload X O1 command cd digest t)
          (previous_hash (tx_db tx1) (ce_tenant_ref command)) h t version)
         \<lparr>qa_sequence := q_audit_sequence Q, qa_attestation_id := aid\<rparr>"
      "db_audit (tx_db tx2) = db_audit (tx_db tx1) @ [row]"
      "\<forall>e \<in> set (db_audit (tx_db tx1)). qa_sequence e \<noteq> q_audit_sequence Q"
      "db_runs (tx_db tx2) = db_runs (tx_db tx1)" "db_consumptions (tx_db tx2) = db_consumptions (tx_db tx1)"
      "db_fences (tx_db tx2) = db_fences (tx_db tx1)" "db_receipts (tx_db tx2) = db_receipts (tx_db tx1)"
    by (rule append_events_Ok)
  from r obtain sequence mac v att where rec: "receipt = receipt_for O1 command opened sequence t"
      "command_receipt_mac X (og_attestation_key O1) receipt = Ok mac"
      "db_receipts (tx_db tx3) = db_receipts (tx_db tx2) @
         [(receipt_row_for X O1 Q command cd receipt mac v)\<lparr>qq_attestation_id := att\<rparr>]"
    by (rule append_receipt_Ok)
  note k = keeps_append_receipt [THEN sql_keepsD, OF r] keeps_append_checkpoint [THEN sql_keepsD, OF c]
  show thesis
  proof (rule that [of digest h aid version tx0 tx1])
    show "db_audit (tx_db tx') = db_audit (tx_db tx) @
       [(audit_row_for X O1 Q command (audit_payload X O1 command cd digest t)
          (previous_hash (tx_db tx) (ce_tenant_ref command)) h t version)
         \<lparr>qa_sequence := q_audit_sequence Q, qa_attestation_id := aid\<rparr>]"
      using k row(1,2) t1 by (simp only: prev)
    show "\<exists>mac v att. command_receipt_mac X (og_attestation_key O1) receipt = Ok mac \<and>
       db_receipts (tx_db tx') = db_receipts (tx_db tx) @
         [(receipt_row_for X O1 Q command cd receipt mac v)\<lparr>qq_attestation_id := att\<rparr>]"
      using k rec row(7) t1(2) by (intro exI [of _ mac] exI [of _ v] exI [of _ att]) simp
  qed (use d h p a attested row k rec t1 in \<open>auto simp only: prev\<close>)
qed

section \<open>The recursive closure\<close>

definition depends_edges :: "dependency_row list \<Rightarrow> (record_key \<times> record_key) set" where
  "depends_edges dependencies =
     {((qd_dependency_record_id d, qd_dependency_revision d), (qd_dependent_record_id d, qd_dependent_revision d))
       | d. d \<in> set dependencies}"

lemma direct_dependents_edges: "k' \<in> set (direct_dependents ds k) \<longleftrightarrow> (k, k') \<in> depends_edges ds"
  by (auto simp: direct_dependents_def depends_edges_def)

lemma recursive_union_step:
  assumes "working \<noteq> []"
  shows "recursive_union ds working result1 =
    (let found = remdups (filter (\<lambda>k. k \<notin> set result1) (concat (map (direct_dependents ds) working)))
     in recursive_union ds found (result1 @ found))"
  using assms by (subst recursive_union.simps) simp

lemma recursive_union_spec:
  assumes "set working \<subseteq> set result1" "distinct result1"
    and "\<And>k k'. k \<in> set result1 - set working \<Longrightarrow> (k, k') \<in> depends_edges ds \<Longrightarrow> k' \<in> set result1"
  shows "distinct (recursive_union ds working result1) \<and>
    set (recursive_union ds working result1) = (depends_edges ds)\<^sup>* `` set result1"
  using assms
proof (induction ds working result1 rule: recursive_union.induct)
  case (1 ds working result1)
  show ?case
  proof (cases "working = []")
    case True
    then have step: "\<And>k k'. k \<in> set result1 \<Longrightarrow> (k, k') \<in> depends_edges ds \<Longrightarrow> k' \<in> set result1"
      using 1(4) by simp
    have "k' \<in> set result1" if "(k, k') \<in> (depends_edges ds)\<^sup>*" "k \<in> set result1" for k k'
      using that by (induction rule: rtrancl_induct) (auto dest: step)
    with True 1(3) show ?thesis by (subst (1 2) recursive_union.simps) auto
  next
    case False
    define found where "found = remdups (filter (\<lambda>k. k \<notin> set result1) (concat (map (direct_dependents ds) working)))"
    have f: "k' \<in> set found \<longleftrightarrow> k' \<notin> set result1 \<and> (\<exists>k \<in> set working. (k, k') \<in> depends_edges ds)" for k'
      by (auto simp: found_def direct_dependents_edges)
    have closed: "k' \<in> set (result1 @ found)"
      if k: "k \<in> set (result1 @ found) - set found" and e: "(k, k') \<in> depends_edges ds" for k k'
    proof (cases "k \<in> set working")
      case True
      with e f [of k'] show ?thesis by auto
    next
      case False
      with k 1(4) [OF _ e] show ?thesis by auto
    qed
    have "distinct (result1 @ found)" using 1(3) f by (auto simp: found_def)
    from 1(1) [OF False found_def _ this closed]
    have IH: "distinct (recursive_union ds found (result1 @ found)) \<and>
        set (recursive_union ds found (result1 @ found)) = (depends_edges ds)\<^sup>* `` set (result1 @ found)" by simp
    have "set found \<subseteq> (depends_edges ds)\<^sup>* `` set result1"
    proof
      fix k' assume "k' \<in> set found"
      with f obtain k where "k \<in> set working" "(k, k') \<in> depends_edges ds" by blast
      with 1(2) show "k' \<in> (depends_edges ds)\<^sup>* `` set result1" by (auto intro: ImageI)
    qed
    then have "(depends_edges ds)\<^sup>* `` set found \<subseteq> (depends_edges ds)\<^sup>* `` set result1"
      by (auto intro: rtrancl_trans)
    then have "(depends_edges ds)\<^sup>* `` set (result1 @ found) = (depends_edges ds)\<^sup>* `` set result1" by auto
    with IH False show ?thesis by (simp add: recursive_union_step found_def [symmetric] Let_def)
  qed
qed

text \<open>
  C23: The recursive query computes exactly what it stands for: from the record that is withdrawn
  it collects, each once, the records reachable over the stored dependencies, transitively, cycles
  or not.
\<close>

theorem closure_query_is_reachability:
  "distinct (recursive_union dependencies [root] [root]) \<and>
   set (recursive_union dependencies [root] [root]) = {key. (root, key) \<in> (depends_edges dependencies)\<^sup>*}"
  using recursive_union_spec [of "[root]" "[root]" dependencies] by auto

section \<open>Corrections\<close>

lemma find_SomeD: "find P xs = Some x \<Longrightarrow> P x \<and> x \<in> set xs"
  by (auto simp: find_Some_iff)

lemma executed_dependency:
  assumes "sql_execute Q (W_Dependency d) tx = Ok (u, tx')"
  shows "d \<in> set (db_dependencies (tx_db tx'))" "set (db_dependencies (tx_db tx)) \<subseteq> set (db_dependencies (tx_db tx'))"
    "d \<notin> set (db_dependencies (tx_db tx))" "\<not> unique_violation (W_Dependency d) (tx_db tx)"
proof -
  from executeD [OF assms] obtain aid where
    "\<not> unique_violation (numbered Q (W_Dependency d)) (tx_db tx)"
    "tx' = tx\<lparr>tx_db := insert_row Q aid (W_Dependency d) (tx_db tx)\<rparr>" by auto
  then show "d \<in> set (db_dependencies (tx_db tx'))"
    "set (db_dependencies (tx_db tx)) \<subseteq> set (db_dependencies (tx_db tx'))"
    "d \<notin> set (db_dependencies (tx_db tx))" "\<not> unique_violation (W_Dependency d) (tx_db tx)"
    by (auto simp: list_ex_iff)
qed

text \<open>
  The finding on corrections: the edge from a corrected assertion to its previous revision is
  inserted twice, as the edge every later revision gets and as the declared dependency, and the
  second insertion violates the primary key of the dependencies.
\<close>

theorem correction_dependencies_collide:
  assumes command: "ce_command command = CorrectHumanModelAssertion assertion_ref correction"
    and r: "tn_authoritative_record transition = Some r"
    and next1: "rr_record_id (ar_record_ref r) = rr_record_id assertion_ref"
      "rr_revision (ar_record_ref r) = rr_revision assertion_ref + 1"
      "rr_revision (ar_record_ref r) > 1"
  shows "persist_contract_dependencies Q command transition tx \<noteq> Ok ((), tx')"
proof
  assume ok: "persist_contract_dependencies Q command transition tx = Ok ((), tx')"
  let ?rid = "rr_record_id assertion_ref" and ?rev = "rr_revision assertion_ref"
  have deps: "contract_dependencies (ce_command command) (tn_projection transition) (ar_record_ref r) = [assertion_ref]"
    by (simp add: contract_dependencies_def command Let_def)
  from ok obtain tx1 prev rev where
    p: "i64_from_u64 ?rev = Ok prev" "i64_from_u64 (?rev + 1) = Ok rev"
      "insert_previous_revision Q ?rid rev prev tx = Ok ((), tx1)"
    and d: "sql_for_each (insert_dependency Q (ar_record_ref r)) [assertion_ref] tx1 = Ok ((), tx')"
    unfolding persist_contract_dependencies_def r option.case Let_def deps
    using next1(3)[unfolded next1(2)] by (auto simp: sql_simps next1 split: if_splits)
  from p(3) obtain c where f: "find (\<lambda>c. qc_record_id c = ?rid \<and> qc_revision c = prev) (db_contracts (tx_db tx)) = Some c"
    and w: "sql_execute Q (W_Dependency \<lparr>qd_dependent_record_id = ?rid, qd_dependent_revision = rev,
        qd_dependency_record_id = qc_record_id c, qd_dependency_revision = qc_revision c,
        qd_dependency_digest = qc_record_digest c\<rparr>) tx = Ok ((), tx1)"
    by (auto simp: insert_previous_revision_def split: option.splits)
  from find_SomeD [OF f] have c: "qc_record_id c = ?rid" "qc_revision c = prev" by simp_all
  note w' = w [unfolded c]
  from d p obtain tx2 u2 where second: "sql_execute Q (W_Dependency \<lparr>qd_dependent_record_id = ?rid, qd_dependent_revision = rev,
        qd_dependency_record_id = ?rid, qd_dependency_revision = prev,
        qd_dependency_digest = rr_record_digest assertion_ref\<rparr>) tx1 = Ok (u2, tx2)"
    unfolding sql_for_each.simps insert_dependency_def
    by (auto simp: sql_simps next1)
  from executed_dependency(1) [OF w'] executed_dependency(4) [OF second] show False
    by (auto simp: list_ex_iff)
qed

section \<open>The decided transition\<close>

lemma closure_step_frame:
  "pj_trust_domain (closure_step p r) = pj_trust_domain p" "pj_environment_ref (closure_step p r) = pj_environment_ref p"
  "pj_run_id (closure_step p r) = pj_run_id p" "pj_tenant_ref (closure_step p r) = pj_tenant_ref p"
  "pj_aggregate_version (closure_step p r) = pj_aggregate_version p"
  "pj_last_event_sequence (closure_step p r) = pj_last_event_sequence p"
  by (cases "rr_candidate_kind r"; simp add: closure_step_def closure_clear_bindings_def Let_def)+

lemma closure_steps_frame:
  "pj_trust_domain (foldl closure_step p rs) = pj_trust_domain p"
  "pj_environment_ref (foldl closure_step p rs) = pj_environment_ref p"
  "pj_run_id (foldl closure_step p rs) = pj_run_id p" "pj_tenant_ref (foldl closure_step p rs) = pj_tenant_ref p"
  "pj_aggregate_version (foldl closure_step p rs) = pj_aggregate_version p"
  "pj_last_event_sequence (foldl closure_step p rs) = pj_last_event_sequence p"
  by (induction rs arbitrary: p) (simp_all add: closure_step_frame)

definition transition_refines :: "IdrTransitionV1 \<Rightarrow> IdrTransitionV1 \<Rightarrow> bool" where
  "transition_refines t t1 \<longleftrightarrow>
     tn_authoritative_record t1 = tn_authoritative_record t \<and> tn_event_type t1 = tn_event_type t \<and>
     tn_event_payload t1 = tn_event_payload t \<and> tn_consumed_proof_ids t1 = tn_consumed_proof_ids t \<and>
     tn_consumed_nonces t1 = tn_consumed_nonces t \<and>
     pj_trust_domain (tn_projection t1) = pj_trust_domain (tn_projection t) \<and>
     pj_environment_ref (tn_projection t1) = pj_environment_ref (tn_projection t) \<and>
     pj_run_id (tn_projection t1) = pj_run_id (tn_projection t) \<and>
     pj_tenant_ref (tn_projection t1) = pj_tenant_ref (tn_projection t) \<and>
     pj_aggregate_version (tn_projection t1) = pj_aggregate_version (tn_projection t) \<and>
     pj_last_event_sequence (tn_projection t1) = pj_last_event_sequence (tn_projection t)"

lemma closure_application_refines: "transition_refines t (apply_repository_invalidation_closure t rs b)"
  by (simp add: transition_refines_def apply_repository_invalidation_closure_def Let_def closure_steps_frame)

lemma transition_refines_refl: "transition_refines t t"
  by (simp add: transition_refines_def)

lemma closure_load_same: "load_recursive_invalidation_closure Q root tx = Ok (rs, tx') \<Longrightarrow> tx' = tx"
  by (rule sql_keepsD [OF keeps_closure [where f = "\<lambda>tx. tx"]])

lemma superseding_closure_Ok:
  "superseding_closure Q t s tx = Ok (t1, tx') \<Longrightarrow> tx' = tx \<and> transition_refines t t1"
  by (auto simp: superseding_closure_def sql_simps closure_application_refines transition_refines_refl
      dest: closure_load_same split: option.splits if_splits)

text \<open>
  A decided transition is the engine's, or the revocation of a bound admission, with the closure of
  the withdrawn record applied; deciding it writes nothing.
\<close>

lemma next_transition_Ok:
  assumes "next_transition X Q p command now proofs bound tx = Ok (t1, tx')"
  shows "tx' = tx \<and> (\<exists>t. transition_refines t t1 \<and>
    (evaluate_authoritative_transition_v1 X (q_fresh Q) p command now proofs = Ok t \<or>
     bound = Err RE_ActionNotAdmitted \<and> action_admission_proof_failure X p command proofs = Ok t))"
proof (cases bound)
  case (Ok u)
  with assms obtain t tx1 where t: "evaluate_authoritative_transition_v1 X (q_fresh Q) p command now proofs = Ok t"
    and c: "(case ce_command command of
        InvalidateRecord record_ref _ \<Rightarrow> sql_then (load_recursive_invalidation_closure Q record_ref) (\<lambda>closure.
          sql_return (apply_repository_invalidation_closure t closure True))
      | _ \<Rightarrow> superseding_closure Q t (Option.bind (expected_candidate_kind (ce_command command)) (pj_records p))) tx
        = Ok (t1, tx')"
    by (auto simp: next_transition_def sql_then_Ok sql_lift_Ok Let_def)
  from c have "tx' = tx \<and> transition_refines t t1"
    by (cases "ce_command command")
      (auto dest: superseding_closure_Ok simp: sql_simps closure_application_refines dest: closure_load_same)
  with t show ?thesis by blast
next
  case (Err e)
  with assms show ?thesis
    by (auto simp: next_transition_def sql_simps dest: closure_load_same split: if_splits)
      (blast intro: closure_application_refines)
qed

text \<open>A command that is new to the authority, piece by piece; nothing is written before the commit part.\<close>

lemma keeps_load [keeps_intros]: "sql_keeps f (load_projection X S O1 Q command)"
  unfolding load_projection_def by (intro keeps_intros)

lemma execute_new_command_Ok:
  assumes "execute_new_command X S O1 Q command now root cd tx = Ok (r, tx')"
  obtains proofs p t1 where
    "verify_proofs_inside_transaction X (og_trust_domain O1) (og_security O1) command now root = Ok proofs"
    "load_projection X S O1 Q command tx = Ok (p, tx)"
    "check_proof_replay Q command (og_trust_domain O1) proofs tx = Ok ((), tx)"
    "next_transition X Q p command now proofs
       (and_then (reverify_bound_action_admission_proofs X S O1 Q p command now root tx) (\<lambda>_. Ok ())) tx = Ok (t1, tx)"
    "commit_transition X S O1 Q command proofs now root cd (pj_aggregate_version p) t1 tx = Ok (r, tx')"
proof -
  from assms obtain proofs p tx1 tx2 t1 tx3 where
    e: "verify_proofs_inside_transaction X (og_trust_domain O1) (og_security O1) command now root = Ok proofs"
    "load_projection X S O1 Q command tx = Ok (p, tx1)"
    "check_proof_replay Q command (og_trust_domain O1) proofs tx1 = Ok ((), tx2)"
    "next_transition X Q p command now proofs
       (and_then (reverify_bound_action_admission_proofs X S O1 Q p command now root tx1) (\<lambda>_. Ok ())) tx2 = Ok (t1, tx3)"
    "commit_transition X S O1 Q command proofs now root cd (pj_aggregate_version p) t1 tx3 = Ok (r, tx')"
    unfolding execute_new_command_def Let_def
    by (auto simp only: sql_then_Ok sql_lift_Ok unit_eq prod.inject result.inject)
  have "tx1 = tx" using sql_keepsD [OF keeps_load [where f = "\<lambda>tx. tx"] e(2)] by simp
  moreover have "tx2 = tx1" using sql_keepsD [OF keeps_replay_check [where f = "\<lambda>tx. tx"] e(3)] by simp
  moreover have "tx3 = tx2" using next_transition_Ok [OF e(4)] by simp
  ultimately show thesis using e that by blast
qed

section \<open>Corrections\<close>

lemma correction_record:
  assumes "evaluate_authoritative_transition_v1 X fresh p command now proofs = Ok t"
    and "ce_command command = CorrectHumanModelAssertion assertion_ref correction" "rr_revision assertion_ref \<noteq> 0"
  obtains r where "tn_authoritative_record t = Some r" "rr_record_id (ar_record_ref r) = rr_record_id assertion_ref"
    "rr_revision (ar_record_ref r) = rr_revision assertion_ref + 1" "rr_revision (ar_record_ref r) > 1"
proof -
  from assms(1) obtain q ev pa where
    d: "dispatch_command X fresh pa command now proofs = Ok (q, tn_authoritative_record t, ev)"
    by (auto elim!: transition_cases)
  with assms(2) obtain rv rec where "checked_add (rr_revision assertion_ref) 1 = Some rv"
    "issue_record X correction command now proofs (pj_trust_domain pa) (rr_record_id assertion_ref) rv = Ok rec"
    "tn_authoritative_record t = Some rec"
    by (auto simp: dispatch_command_def dest!: correct_assertion_effect)
  note i = this
  from issue_record_shape [OF i(2)] have "rr_record_id (ar_record_ref rec) = rr_record_id assertion_ref"
      "rr_revision (ar_record_ref rec) = rv"
    by (metis AuthoritativeRecordRefV1.select_convs(1), metis AuthoritativeRecordRefV1.select_convs(2))
  moreover from i(1) have "rv = rr_revision assertion_ref + 1" "1 < rv"
    using assms(3) by (auto dest: checked_add_Some_eq checked_add_1_unat simp: word_less_nat_alt unat_gt_0)
  ultimately show thesis using that [OF i(3)] by simp
qed

text \<open>
  C25: No transaction commits the correction of a human-model assertion, whatever is stored and
  whatever proofs it carries: the edge to the corrected revision is inserted twice.
\<close>

theorem corrections_never_commit:
  assumes "ce_command command = CorrectHumanModelAssertion assertion_ref correction" "rr_revision assertion_ref \<noteq> 0"
  shows "execute_new_command X S O1 Q command now root cd tx \<noteq> Ok r"
proof
  assume "execute_new_command X S O1 Q command now root cd tx = Ok r"
  then obtain proofs p t1 where
    n: "next_transition X Q p command now proofs
          (and_then (reverify_bound_action_admission_proofs X S O1 Q p command now root tx) (\<lambda>_. Ok ())) tx = Ok (t1, tx)"
    and c: "commit_transition X S O1 Q command proofs now root cd (pj_aggregate_version p) t1 tx = Ok (fst r, snd r)"
    by (cases r) (auto elim: execute_new_command_Ok)
  have "reverify_bound_action_admission_proofs X S O1 Q p command now root tx = Ok ((), tx)"
    by (simp add: reverify_bound_action_admission_proofs_def assms sql_return_def)
  with next_transition_Ok [OF n] obtain t where
    t: "evaluate_authoritative_transition_v1 X (q_fresh Q) p command now proofs = Ok t" "transition_refines t t1" by auto
  from t(1) assms obtain a where
    a: "tn_authoritative_record t = Some a" "rr_record_id (ar_record_ref a) = rr_record_id assertion_ref"
      "rr_revision (ar_record_ref a) = rr_revision assertion_ref + 1" "rr_revision (ar_record_ref a) > 1"
    by (rule correction_record)
  with t(2) have "tn_authoritative_record t1 = Some a" by (simp add: transition_refines_def)
  note never = correction_dependencies_collide [OF assms(1) this a(2-4)]
  from c obtain receipt checkpoint tx0 tx1 digest where
    "persist_transition X S O1 Q command proofs now root digest t1 tx0 = Ok ((), tx1)"
    by (cases "fst r") (metis commit_transition_Ok)
  then obtain u tx2 tx3 where "persist_contract_dependencies Q command t1 tx2 = Ok (u, tx3)"
    unfolding persist_transition_def by (auto simp only: sql_then_Ok)
  with never show False by (cases u) blast
qed

section \<open>Late withdrawals\<close>

text \<open>
  The trigger on the reservations refuses what the handlers of the engine compute for an attempt that is
  withdrawn while it waits for reconciliation or after it expired: no transaction stores its cancellation.
\<close>

theorem late_cancellation_not_stored:
  assumes "find (\<lambda>e. qv_reservation_id e = ex_reservation_id x) (db_reservations (tx_db tx)) = Some e"
    and "qv_state e \<in> {''reconciliation_required'', ''expired''}" and "ex_state x = ES_Cancelled"
  shows "persist_reservation Q p x tx \<noteq> Ok r"
proof
  assume "persist_reservation Q p x tx = Ok r"
  then obtain row n tx' where w: "idr_attested_authority_view_bridge Q (W_Reservation row) tx = Ok (n, tx')"
    and row: "qv_reservation_id row = ex_reservation_id x" "qv_state row = ''cancelled''"
    using assms(3) by (cases r) (auto simp: persist_reservation_def sql_simps)
  have refused: "reservation_update_refused purpose e (reservation_updated Q row e)" for purpose
    using assms(2) row(2)
    by (auto simp: reservation_update_refused_def reservation_updated_def idr_execution_state_transition_allowed_def)
  have "unique_violation (numbered Q (W_Reservation row)) (tx_db tx)"
    using find_SomeD [OF assms(1)] row(1) by (auto simp: list_ex_iff)
  with w assms(1) row(1) refused show False unfolding bridge_Ok by (auto split: if_splits)
qed

end
