(* ===== verification/IDR_Authority_Samples.thy ===== *)
theory IDR_Authority_Samples
  imports IDR_Transact IDR_Engine_Runs
begin

text \<open>
  Concrete authorities, sessions and commands on which the properties of the transactions are
  applied: a shadow authority with empty tables, a command that starts a run, and its repetition.
\<close>

definition authority_claims :: "ProductionProofKindV1 \<Rightarrow> uuid \<Rightarrow> char \<Rightarrow> ProductionProofClaimsV1" where
  "authority_claims kind proof_id nonce = sample_claims\<lparr>
     pc_proof_id := proof_id, pc_proof_kind := kind, pc_subject_ref := ''command:21'',
     pc_nonce := replicate 64 nonce, pc_principal_digest := sample_digest,
     pc_assertion := default_proof_assertion kind\<rparr>"

definition authority_proof :: "ProductionProofKindV1 \<Rightarrow> uuid \<Rightarrow> char \<Rightarrow> ProductionProofEnvelopeV1" where
  "authority_proof kind proof_id nonce = sample_envelope\<lparr>pe_claims := authority_claims kind proof_id nonce\<rparr>"

definition authority_root :: TrustRootSnapshotV1 where
  "authority_root = sample_root\<lparr>tr_keys := [(''key:1'', sample_issuer_key\<lparr>
     ik_allowed_proof_kinds := [PK_CallerAuthentication, PK_InputAdmission]\<rparr>)]\<rparr>"

definition authority_sample :: PostgresIdrOrchestratorV1 where
  "authority_sample = \<lparr>
     og_security = \<lparr>sx_trust_domain = TD_Shadow, sx_environment_ref = sample_environment,
       sx_audience_ref = ''audience:idr:shadow:ci'',
       sx_expected_issuers = [(PK_CallerAuthentication, ''issuer:a''), (PK_InputAdmission, ''issuer:a'')]\<rparr>,
     og_trust_domain = TD_Shadow,
     og_attestation_key = \<lparr>ak_bytes = replicate 32 (CHR ''k''), ak_version = 1\<rparr>,
     og_production_build = False, og_human_model_write = False\<rparr>"

definition start_command :: IdrCommandEnvelopeV1 where
  "start_command = (sample_command 0 ''caller:c'' (StartRun (sample_candidate CK_CanonicalInput (JObj []))))
     \<lparr>ce_proofs := [authority_proof PK_CallerAuthentication 7 (CHR ''b''),
       authority_proof PK_InputAdmission 8 (CHR ''c'')]\<rparr>"

definition session_sample :: "nat \<Rightarrow> sql_session" where
  "session_sample n = \<lparr>
     q_now = 150, q_clock = (\<lambda>_. 150), q_txid = int n, q_pid = 9, q_attestation_id = of_nat (100 + n),
     q_nonce = of_nat (200 + n), q_event_id = of_nat (300 + n), q_outbox_id = of_nat (400 + n),
     q_checkpoint_id = of_nat (500 + n), q_invalidation_id = (\<lambda>_. of_nat (600 + n)), q_fresh = sample_fresh,
     q_global_sequence = int n, q_audit_sequence = int n, q_read_fails = (\<lambda>_ _. None),
     q_write_refused = (\<lambda>_ _. None)\<rparr>"

definition empty_tables :: authority_db where
  "empty_tables = \<lparr>
     db_runs = [], db_events = [], db_steps = [], db_contracts = [], db_current = [], db_dependencies = [],
     db_invalidations = [], db_proofs = [], db_consumptions = [], db_sends = [], db_reservations = [],
     db_attempts = [], db_execution_receipts = [], db_outcomes = [], db_human_candidates = [],
     db_promotions = [], db_assertions = [], db_audit = [], db_outbox = [], db_checkpoints = [],
     db_receipts = [], db_fences = [], db_attestations = [],
     db_secrets = [\<lparr>qw_key_version = 1, qw_key_digest = sample_digest, qw_secret = replicate 32 (CHR ''k'')\<rparr>]\<rparr>"

definition serde_sample :: authority_serde where
  "serde_sample = \<lparr>
     sv_projection_to_value = (\<lambda>p. json_object [
       (''trust_domain'', JStr (TrustDomainV1_name (pj_trust_domain p))),
       (''environment_ref'', JStr (pj_environment_ref p))]),
     sv_projection_from_value = (\<lambda>_. None),
     sv_receipt_from_value = (\<lambda>_. None),
     sv_envelope_from_value = (\<lambda>_. None),
     sv_checkpoint_from_value = (\<lambda>_. None),
     sv_record_from_value = (\<lambda>_. None)\<rparr>"


definition receipt_sample :: receipt_row where
  "receipt_sample = \<lparr>
     qq_command_id = 21, qq_trust_domain = ''shadow'', qq_environment_ref = sample_environment, qq_run_id = 1,
     qq_aggregate_version = 1, qq_event_sequence = 1, qq_receipt = JNull, qq_receipt_mac = sample_digest,
     qq_tenant_ref = ''tenant:t'', qq_actor_ref = ''actor:a'', qq_caller_ref = ''caller:c'',
     qq_command_digest = sample_digest, qq_attestation_id = 101\<rparr>"

end
