(* ===== verification/IDR_Authority_History.thy ===== *)
theory IDR_Authority_History
  imports IDR_Authority_Props IDR_Authority_Samples
begin

text \<open>
  Histories of the authority: requests handled one after the other, each with its own transaction,
  accepted or refused, and what the tables satisfy after any history: the hash chain of the audit
  trail, the integrity of the stored runs, commands and proofs that count once, and idempotency
  keys bound to one reservation.
\<close>

section \<open>Histories\<close>

record authority_request =
  aq_root :: "(IdrRuntimeErrorV1, TrustRootSnapshotV1) result"
  aq_session :: sql_session
  aq_publication :: sql_session
  aq_command :: IdrCommandEnvelopeV1

definition handle_request ::
  "crates \<Rightarrow> authority_serde \<Rightarrow> PostgresIdrOrchestratorV1 \<Rightarrow>
   ('s \<Rightarrow> AuditCheckpointV1 \<Rightarrow> (IdrRuntimeErrorV1, 's) result) \<Rightarrow>
   authority_db \<times> 's \<Rightarrow> authority_request \<Rightarrow> authority_db \<times> 's" where
  "handle_request X S O1 pub state i =
     snd (handle X S O1 pub (aq_root i) (aq_session i) (aq_publication i) (aq_command i) state)"

definition handle_history ::
  "crates \<Rightarrow> authority_serde \<Rightarrow> PostgresIdrOrchestratorV1 \<Rightarrow>
   ('s \<Rightarrow> AuditCheckpointV1 \<Rightarrow> (IdrRuntimeErrorV1, 's) result) \<Rightarrow>
   authority_db \<times> 's \<Rightarrow> authority_request list \<Rightarrow> authority_db \<times> 's" where
  "handle_history X S O1 pub = foldl (handle_request X S O1 pub)"

text \<open>
  The contract of a step that every request keeps: an invariant of the tables, given that the
  serial number of the request is above those in use.
\<close>

locale numbered_machine =
  fixes step :: "'s \<Rightarrow> 'i \<Rightarrow> 's" and used :: "'s \<Rightarrow> int set" and number :: "'i \<Rightarrow> int" and inv :: "'s \<Rightarrow> bool"
  assumes step_inv: "inv s \<Longrightarrow> \<forall>n \<in> used s. n < number i \<Longrightarrow> inv (step s i)"
    and step_used: "used (step s i) \<subseteq> insert (number i) (used s)"
begin

lemma run_inv:
  "inv s \<Longrightarrow> sorted_wrt (<) (map number requests) \<Longrightarrow> \<forall>i \<in> set requests. \<forall>n \<in> used s. n < number i \<Longrightarrow>
     inv (foldl step s requests)"
proof (induction requests arbitrary: s)
  case (Cons i requests)
  have "\<forall>j \<in> set requests. \<forall>n \<in> used (step s i). n < number j"
    using step_used [of s i] Cons.prems(2,3) by fastforce
  then show ?case using Cons.IH [of "step s i"] Cons.prems step_inv [of s i] by auto
qed simp

end

locale kept_machine =
  fixes step :: "'s \<Rightarrow> 'i \<Rightarrow> 's" and inv :: "'s \<Rightarrow> bool"
  assumes step_inv: "inv s \<Longrightarrow> inv (step s i)"
begin

lemma run_inv: "inv s \<Longrightarrow> inv (foldl step s requests)"
  by (induction requests arbitrary: s) (auto intro: step_inv)

end

section \<open>What one request does to the tables\<close>

definition core ::
  "authority_db \<Rightarrow> run_row list \<times> audit_row list \<times> consumption_row list \<times> receipt_row list" where
  "core db = (db_runs db, db_audit db, db_consumptions db, db_receipts db)"

lemma core_eq_iff:
  "core db = core db' \<longleftrightarrow> db_runs db = db_runs db' \<and> db_audit db = db_audit db' \<and>
     db_consumptions db = db_consumptions db' \<and> db_receipts db = db_receipts db'"
  by (simp add: core_def)

lemma keeps_core_open [keeps_intros]:
  "sql_keeps (\<lambda>tx. core (tx_db tx))
     (open_orchestrator_attestation X O1 Q purpose cid rid tenant pre post cd td)"
proof -
  have "core (tx_db tx') = core (tx_db tx)"
    if "open_orchestrator_attestation X O1 Q purpose cid rid tenant pre post cd td tx = Ok (aid, tx')" for tx aid tx'
    by (rule open_Ok [OF that]) (simp add: core_def)
  then show ?thesis by (auto simp: sql_keeps_def)
qed

lemma keeps_core_published [keeps_intros]: "sql_keeps (\<lambda>tx. core (tx_db tx)) (mark_published Q checkpoint)"
proof -
  have w: "sql_keeps (\<lambda>tx. core (tx_db tx)) (sql_execute Q (U_Checkpoint row))" for row
    by (rule keeps_execute, rule keeps_write) (auto simp: core_def)
  show ?thesis
    by (subst sql_keeps_def) (auto simp: mark_published_def split: option.splits dest: sql_keepsD [OF w])
qed

lemma keeps_core_publication: "sql_keeps (\<lambda>tx. core (tx_db tx)) (publication_transaction X O1 Q receipt checkpoint)"
  unfolding publication_transaction_def by (intro keeps_intros)

lemma replay_stored_receipt_Ok:
  assumes "replay_stored_receipt X S O1 Q command now root cd row tx = Ok ((receipt, checkpoint), tx')"
  shows "tx' = tx \<and> same_command O1 command cd row \<and> cr_idempotent_replay receipt \<and>
    (\<exists>stored. sv_receipt_from_value S (qq_receipt row) = Some stored \<and>
       command_receipt_mac X (og_attestation_key O1) stored = Ok (qq_receipt_mac row) \<and>
       receipt = stored\<lparr>cr_idempotent_replay := True\<rparr>)"
proof -
  have c: "latest_checkpoint_for_tenant Q d e t tx1 = Ok (k, tx2) \<Longrightarrow> tx2 = tx1" for d e t tx1 k tx2
    by (auto simp: latest_checkpoint_for_tenant_def sql_simps split: list.splits)
  from assms show ?thesis
    unfolding replay_stored_receipt_def
    by (auto simp: sql_simps ok_or_eq_Ok dest!: c split: if_splits)
qed

lemma transact_inner_Ok:
  assumes "transact_inner X S O1 current_root Q command tx = Ok (r, tx')"
  obtains now root cd where
    "current_root = Ok root" "IdrCommandEnvelopeV1_canonical_digest X command = Ok cd"
    "tr_trust_domain root = og_trust_domain O1" "tr_environment_ref root = sx_environment_ref (og_security O1)"
    "case find (\<lambda>r. qq_command_id r = ce_command_id command) (db_receipts (tx_db tx)) of
       Some row \<Rightarrow> replay_stored_receipt X S O1 Q command now root cd row tx = Ok (r, tx')
     | None \<Rightarrow> execute_new_command X S O1 Q command now root cd tx = Ok (r, tx')"
  using assms unfolding transact_inner_def
  by (cases "find (\<lambda>r. qq_command_id r = ce_command_id command) (db_receipts (tx_db tx))")
    (auto simp: sql_simps split: if_splits)

text \<open>A request changes the audit trail, the runs, the proofs and the receipts only by a committed new command.\<close>

lemma handle_cases:
  assumes h: "handle_request X S O1 pub (db, anchor) i = (db', anchor')"
    and command: "command = aq_command i" and Q: "Q = aq_session i"
  obtains (same) "core db' = core db"
    | (committed) root cd now proofs p t receipt checkpoint tx' where
      "IdrCommandEnvelopeV1_validate X command = Ok ()"
      "ce_trust_domain command = og_trust_domain O1" "ce_environment_ref command = sx_environment_ref (og_security O1)"
      "\<forall>r \<in> set (db_receipts db). qq_command_id r \<noteq> ce_command_id command"
      "verify_proofs_inside_transaction X (og_trust_domain O1) (og_security O1) command now root = Ok proofs"
      "load_projection X S O1 Q command \<lparr>tx_db = db, tx_active = None\<rparr> = Ok (p, \<lparr>tx_db = db, tx_active = None\<rparr>)"
      "check_proof_replay Q command (og_trust_domain O1) proofs \<lparr>tx_db = db, tx_active = None\<rparr>
         = Ok ((), \<lparr>tx_db = db, tx_active = None\<rparr>)"
      "next_transition X Q p command now proofs
         (and_then (reverify_bound_action_admission_proofs X S O1 Q p command now root \<lparr>tx_db = db, tx_active = None\<rparr>)
            (\<lambda>_. Ok ())) \<lparr>tx_db = db, tx_active = None\<rparr> = Ok (t, \<lparr>tx_db = db, tx_active = None\<rparr>)"
      "commit_transition X S O1 Q command proofs now root cd (pj_aggregate_version p) t
         \<lparr>tx_db = db, tx_active = None\<rparr> = Ok ((receipt, checkpoint), tx')"
      "core db' = core (tx_db tx')"
proof (cases "core db' = core db")
  case True
  then show thesis by (rule same)
next
  case False
  let ?tx = "\<lparr>tx_db = db, tx_active = None\<rparr>"
  note pubcore = keeps_core_publication [THEN sql_keepsD]
  from h False have g: "handle_gates X O1 command = Ok ()"
    by (auto simp: handle_request_def handle_def Let_def command split: result.splits)
  with h False obtain receipt checkpoint tx' where
    t: "transact_inner X S O1 (aq_root i) Q command ?tx = Ok ((receipt, checkpoint), tx')"
    and new: "core db' = core (tx_db tx')"
    using pubcore
    by (fastforce simp: handle_request_def handle_def Let_def command Q split: result.splits prod.splits if_splits)
  from t obtain root cd now where
    c: "case find (\<lambda>r. qq_command_id r = ce_command_id command) (db_receipts (tx_db ?tx)) of
       Some row \<Rightarrow> replay_stored_receipt X S O1 Q command now root cd row ?tx = Ok ((receipt, checkpoint), tx')
     | None \<Rightarrow> execute_new_command X S O1 Q command now root cd ?tx = Ok ((receipt, checkpoint), tx')"
    by (rule transact_inner_Ok)
  show thesis
  proof (cases "find (\<lambda>r. qq_command_id r = ce_command_id command) (db_receipts (tx_db ?tx))")
    case (Some row)
    with c have "replay_stored_receipt X S O1 Q command now root cd row ?tx = Ok ((receipt, checkpoint), tx')" by simp
    from replay_stored_receipt_Ok [OF this] new False show thesis by simp
  next
    case None
    with c have e: "execute_new_command X S O1 Q command now root cd ?tx = Ok ((receipt, checkpoint), tx')" by simp
    have fresh: "\<forall>r \<in> set (db_receipts db). qq_command_id r \<noteq> ce_command_id command"
      using None by (simp add: find_None_iff)
    have gates: "IdrCommandEnvelopeV1_validate X command = Ok ()"
      "ce_trust_domain command = og_trust_domain O1" "ce_environment_ref command = sx_environment_ref (og_security O1)"
      using g by (auto simp: handle_gates_def and_then_eq_Ok split: if_splits)
    show thesis
      by (rule execute_new_command_Ok [OF e]) (rule committed [OF gates fresh _ _ _ _ _ new])
  qed
qed

definition anchor_sample :: InMemoryAuditCheckpointAnchorV1 where
  "anchor_sample = (\<lambda>_. None)"

text \<open>A run is started, and the command is sent once more.\<close>

definition start_twice :: "authority_request list" where
  "start_twice = map (\<lambda>n. \<lparr>aq_root = Ok authority_root, aq_session = session_sample n,
     aq_publication = session_sample (n + 10), aq_command = start_command\<rparr>) [1, 2]"

section \<open>Repeated commands\<close>

text \<open>
  C13: A command whose receipt is stored is never executed again: handling it leaves the tables and
  the anchor as they are whatever the outcome, and it succeeds only for the very same command and
  caller, with the stored receipt, authenticated and marked as a replay.
\<close>

theorem repeated_command_changes_nothing:
  assumes "find (\<lambda>r. qq_command_id r = ce_command_id command) (db_receipts db) = Some row"
  shows "snd (handle X S O1 pub root Q Q2 command (db, anchor)) = (db, anchor) \<and>
    (case fst (handle X S O1 pub root Q Q2 command (db, anchor)) of
       Err e \<Rightarrow> True
     | Ok receipt \<Rightarrow> \<exists>cd stored. IdrCommandEnvelopeV1_canonical_digest X command = Ok cd \<and>
         same_command O1 command cd row \<and> sv_receipt_from_value S (qq_receipt row) = Some stored \<and>
         command_receipt_mac X (og_attestation_key O1) stored = Ok (qq_receipt_mac row) \<and>
         receipt = stored\<lparr>cr_idempotent_replay := True\<rparr>)"
proof (cases "transact_inner X S O1 root Q command \<lparr>tx_db = db, tx_active = None\<rparr>")
  case (Err e)
  then show ?thesis by (auto simp: handle_def Let_def split: result.splits)
next
  case (Ok r)
  obtain receipt checkpoint tx' where r: "r = ((receipt, checkpoint), tx')" by (metis surj_pair)
  from Ok [unfolded r] assms obtain now root1 cd where
    "IdrCommandEnvelopeV1_canonical_digest X command = Ok cd"
    "replay_stored_receipt X S O1 Q command now root1 cd row \<lparr>tx_db = db, tx_active = None\<rparr>
       = Ok ((receipt, checkpoint), tx')"
    by (auto elim: transact_inner_Ok)
  from this(1) replay_stored_receipt_Ok [OF this(2)] show ?thesis
    using Ok [unfolded r] by (auto simp: handle_def Let_def split: result.splits)
qed

theorem repeated_command_changes_nothing_witness:
  "snd (handle sample_crates serde_sample authority_sample publish (Ok authority_root) (session_sample 2)
     (session_sample 3) start_command (empty_tables\<lparr>db_receipts := [receipt_sample]\<rparr>, anchor_sample))
   = (empty_tables\<lparr>db_receipts := [receipt_sample]\<rparr>, anchor_sample)"
  using repeated_command_changes_nothing [of start_command "empty_tables\<lparr>db_receipts := [receipt_sample]\<rparr>"
    receipt_sample sample_crates serde_sample authority_sample publish "Ok authority_root" "session_sample 2"
    "session_sample 3" anchor_sample]
  by (simp add: start_command_def sample_command_def receipt_sample_def)

section \<open>The run of a command\<close>

definition run_row_for :: "authority_serde \<Rightarrow> IdrRunProjectionV1 \<Rightarrow> string \<Rightarrow> run_row" where
  "run_row_for S p digest = \<lparr>
     qr_run_id = pj_run_id p,
     qr_trust_domain = TrustDomainV1_name (pj_trust_domain p),
     qr_environment_ref = pj_environment_ref p,
     qr_tenant_ref = pj_tenant_ref p,
     qr_aggregate_version = uint (pj_aggregate_version p),
     qr_state = IdrRunStateV1_name (pj_state p),
     qr_projection = sv_projection_to_value S p,
     qr_projection_digest = digest,
     qr_last_event_sequence = uint (pj_last_event_sequence p)\<rparr>"

lemma domain_name_inj: "TrustDomainV1_name d = TrustDomainV1_name e \<longleftrightarrow> d = e"
  by (cases d; cases e) simp_all

lemma upsert_run_bridge:
  assumes "upsert_run Q S p digest tx = Ok (u, tx')"
  shows "\<exists>n. idr_attested_authority_view_bridge Q (W_Run (run_row_for S p digest)) tx = Ok (n, tx')"
  using assms unfolding upsert_run_def
  by (auto simp: sql_simps i64_from_u64_def run_row_for_def split: if_splits)

definition run_rows_after :: "run_row \<Rightarrow> run_row list \<Rightarrow> run_row list \<Rightarrow> bool" where
  "run_rows_after r rows rows' \<longleftrightarrow>
     (if \<exists>e \<in> set rows. qr_run_id e = qr_run_id r
      then (\<exists>e \<in> set rows. qr_run_id e = qr_run_id r \<and> qr_trust_domain e = qr_trust_domain r \<and>
              qr_environment_ref e = qr_environment_ref r \<and> qr_aggregate_version e + 1 = qr_aggregate_version r) \<and>
           rows' = update_where (\<lambda>e. qr_run_id e = qr_run_id r)
             (\<lambda>e. e\<lparr>qr_aggregate_version := qr_aggregate_version r, qr_state := qr_state r,
                   qr_projection := qr_projection r, qr_projection_digest := qr_projection_digest r,
                   qr_last_event_sequence := qr_last_event_sequence r\<rparr>) rows
      else rows' = rows @ [r])"

lemma run_write_Ok:
  assumes "idr_attested_authority_view_bridge Q (W_Run r) tx = Ok (n, tx')"
  shows "run_rows_after r (db_runs (tx_db tx)) (db_runs (tx_db tx'))"
proof (cases "\<exists>e \<in> set (db_runs (tx_db tx)). qr_run_id e = qr_run_id r")
  case True
  then have v: "unique_violation (W_Run r) (tx_db tx)" by (auto simp: list_ex_iff)
  with assms obtain db purpose where o: "on_unique_violation Q purpose (W_Run r) (tx_db tx) = Ok (n, db)" "tx_db tx' = db"
    unfolding bridge_Ok by auto
  from o(1) obtain e where e: "find (\<lambda>e. qr_run_id e = qr_run_id r) (db_runs (tx_db tx)) = Some e"
    by (auto split: option.splits)
  with o(1) have "qr_trust_domain e = qr_trust_domain r \<and> qr_environment_ref e = qr_environment_ref r \<and>
      qr_aggregate_version e + 1 = qr_aggregate_version r"
    and "db = (tx_db tx)\<lparr>db_runs := update_where (\<lambda>e. qr_run_id e = qr_run_id r)
             (\<lambda>e. e\<lparr>qr_aggregate_version := qr_aggregate_version r, qr_state := qr_state r,
                   qr_projection := qr_projection r, qr_projection_digest := qr_projection_digest r,
                   qr_last_event_sequence := qr_last_event_sequence r\<rparr>) (db_runs (tx_db tx))\<rparr>"
    by (auto split: if_splits)
  from this(1) show ?thesis
    using True find_SomeD [OF e] unfolding run_rows_after_def o(2) \<open>db = _\<close> by auto
next
  case False
  then have "\<not> unique_violation (W_Run r) (tx_db tx)" by (auto simp: list_ex_iff)
  with assms False show ?thesis unfolding bridge_Ok by (auto simp: run_rows_after_def)
qed

text \<open>The effect of a committed command on the audit trail and on the runs.\<close>

lemma commit_runs:
  assumes c: "commit_transition X S O1 Q command proofs now root cd pre t tx = Ok ((receipt, checkpoint), tx')"
    and run: "\<not> uuid_is_nil (ce_run_id command)"
  obtains digest h version aid where
    "projection_digest_v1 X (sv_projection_to_value S (tn_projection t)) = Ok digest"
    "hash_event_v1 X (previous_hash (tx_db tx) (ce_tenant_ref command)) (audit_payload X O1 command cd digest t) = Ok h"
    "db_audit (tx_db tx') = db_audit (tx_db tx) @
       [(audit_row_for X O1 Q command (audit_payload X O1 command cd digest t)
          (previous_hash (tx_db tx) (ce_tenant_ref command)) h t version)
         \<lparr>qa_sequence := q_audit_sequence Q, qa_attestation_id := aid\<rparr>]"
    "run_rows_after (run_row_for S (tn_projection t) digest) (db_runs (tx_db tx)) (db_runs (tx_db tx'))"
    "pj_run_id (tn_projection t) = ce_run_id command"
    "pj_trust_domain (tn_projection t) = og_trust_domain O1"
    "pj_environment_ref (tn_projection t) = sx_environment_ref (og_security O1)"
proof -
  from c obtain digest h version aid tx0 tx1 where
    d: "projection_digest_v1 X (sv_projection_to_value S (tn_projection t)) = Ok digest"
    and h: "hash_event_v1 X (previous_hash (tx_db tx) (ce_tenant_ref command))
       (audit_payload X O1 command cd digest t) = Ok h"
    and audit: "db_audit (tx_db tx') = db_audit (tx_db tx) @
       [(audit_row_for X O1 Q command (audit_payload X O1 command cd digest t)
          (previous_hash (tx_db tx) (ce_tenant_ref command)) h t version)
         \<lparr>qa_sequence := q_audit_sequence Q, qa_attestation_id := aid\<rparr>]"
    and "\<forall>e \<in> set (db_audit (tx_db tx)). qa_sequence e \<noteq> q_audit_sequence Q"
    and tx0: "\<exists>att. tx_db tx0 = (tx_db tx)\<lparr>db_attestations := att\<rparr>"
    and a: "\<exists>a. idr_current_attestation Q tx0 = Some a \<and> attested_for O1 command a"
    and p: "persist_transition X S O1 Q command proofs now root digest t tx0 = Ok ((), tx1)"
    and runs: "db_runs (tx_db tx') = db_runs (tx_db tx1)"
    by (rule commit_transition_Ok)
  from p obtain u tx2 u3 where up: "upsert_run Q S (tn_projection t) digest tx0 = Ok (u, tx2)"
    and rest: "sql_then (persist_step_snapshot Q S command t) (\<lambda>_.
       sql_then (persist_authoritative_record X Q (tn_authoritative_record t) (tn_projection t)) (\<lambda>_.
       sql_then (persist_contract_dependencies Q command t) (\<lambda>_.
       sql_then (persist_proof_consumptions X Q command proofs (tr_root_version root)
         (tr_root_digest root) now (og_trust_domain O1)) (\<lambda>_.
       persist_specialized_projection X Q command t)))) tx2 = Ok (u3, tx1)"
    unfolding persist_transition_def by (auto simp only: sql_then_Ok [of "upsert_run _ _ _ _"])
  have "sql_keeps (\<lambda>tx. db_runs (tx_db tx)) (sql_then (persist_step_snapshot Q S command t) (\<lambda>_.
       sql_then (persist_authoritative_record X Q (tn_authoritative_record t) (tn_projection t)) (\<lambda>_.
       sql_then (persist_contract_dependencies Q command t) (\<lambda>_.
       sql_then (persist_proof_consumptions X Q command proofs (tr_root_version root)
         (tr_root_digest root) now (og_trust_domain O1)) (\<lambda>_.
       persist_specialized_projection X Q command t)))))" by (intro keeps_intros)
  from sql_keepsD [OF this rest] have runs1: "db_runs (tx_db tx1) = db_runs (tx_db tx2)" .
  from upsert_run_bridge [OF up] obtain n where
    b: "idr_attested_authority_view_bridge Q (W_Run (run_row_for S (tn_projection t) digest)) tx0 = Ok (n, tx2)" ..
  from b a have "\<exists>a. attested_for O1 command a \<and>
      identity_attested a (write_identity (W_Run (run_row_for S (tn_projection t) digest)))"
    by (auto simp: bridge_Ok)
  then have i: "pj_run_id (tn_projection t) = ce_run_id command"
    "pj_trust_domain (tn_projection t) = og_trust_domain O1"
    "pj_environment_ref (tn_projection t) = sx_environment_ref (og_security O1)"
    using run by (auto simp: identity_attested_def attested_for_def placed_def no_identity_def allows_def run_row_for_def
        uuid_is_nil_def ZERO_RUN_ID_V1_def domain_name_inj)
  from tx0 have "db_runs (tx_db tx0) = db_runs (tx_db tx)" by auto
  with run_write_Ok [OF b] runs runs1 have
    "run_rows_after (run_row_for S (tn_projection t) digest) (db_runs (tx_db tx)) (db_runs (tx_db tx'))" by simp
  from that [OF d h audit this i] show thesis .
qed

section \<open>The hash chain of the audit trail\<close>

fun chain_from :: "crates \<Rightarrow> string \<Rightarrow> audit_row list \<Rightarrow> bool" where
  "chain_from X h [] = True"
| "chain_from X h (a # rows) \<longleftrightarrow>
     qa_previous_hash a = h \<and> hash_event_v1 X h (qa_payload a) = Ok (qa_event_hash a) \<and>
     chain_from X (qa_event_hash a) rows"

definition tenant_trail :: "authority_db \<Rightarrow> string \<Rightarrow> audit_row list" where
  "tenant_trail db tenant = sort_key qa_sequence (filter (\<lambda>a. qa_tenant_ref a = tenant) (db_audit db))"

definition audit_chained :: "crates \<Rightarrow> authority_db \<Rightarrow> bool" where
  "audit_chained X db \<longleftrightarrow> (\<forall>tenant. chain_from X (replicate 64 (CHR ''0'')) (tenant_trail db tenant))"

lemma insort_key_last: "f x \<le> f a \<Longrightarrow> insort_key f x (ys @ [a]) = insort_key f x ys @ [a]"
  by (induction ys) auto

lemma sort_key_last: "\<forall>x \<in> set xs. f x \<le> f a \<Longrightarrow> sort_key f (xs @ [a]) = sort_key f xs @ [a]"
  by (induction xs) (auto simp: insort_key_last)

lemma chain_from_last:
  "chain_from X h (rows @ [a]) \<longleftrightarrow> chain_from X h rows \<and>
     (let last_hash = (case rev rows of [] \<Rightarrow> h | b # _ \<Rightarrow> qa_event_hash b) in
      qa_previous_hash a = last_hash \<and> hash_event_v1 X last_hash (qa_payload a) = Ok (qa_event_hash a))"
proof (induction rows arbitrary: h)
  case (Cons b rows)
  show ?case using Cons [of "qa_event_hash b"] by (cases "rev rows") (auto simp: Let_def)
qed (simp add: Let_def)

lemma tenant_trail_last:
  assumes "db_audit db' = db_audit db @ [a]" "\<forall>e \<in> set (db_audit db). qa_sequence e < qa_sequence a"
  shows "tenant_trail db' tenant =
    (if qa_tenant_ref a = tenant then tenant_trail db tenant @ [a] else tenant_trail db tenant)"
proof -
  have "\<forall>e \<in> set (filter (\<lambda>a. qa_tenant_ref a = tenant) (db_audit db)). qa_sequence e \<le> qa_sequence a"
    using assms(2) by (auto intro: less_imp_le)
  from sort_key_last [OF this] assms(1) show ?thesis by (simp add: tenant_trail_def)
qed

lemma previous_hash_trail:
  "previous_hash db tenant = (case rev (tenant_trail db tenant) of
     [] \<Rightarrow> replicate 64 (CHR ''0'') | a # _ \<Rightarrow> qa_event_hash a)"
  by (simp add: previous_hash_def tenant_trail_def)

lemma audit_chained_last:
  assumes "audit_chained X db" "db_audit db' = db_audit db @ [a]"
    and "\<forall>e \<in> set (db_audit db). qa_sequence e < qa_sequence a"
    and "qa_previous_hash a = previous_hash db (qa_tenant_ref a)"
    and "hash_event_v1 X (qa_previous_hash a) (qa_payload a) = Ok (qa_event_hash a)"
  shows "audit_chained X db'"
  using assms(1,4,5)
  by (auto simp: audit_chained_def tenant_trail_last [OF assms(2,3)] chain_from_last previous_hash_trail Let_def)

lemma audit_of_core: "core db' = core db \<Longrightarrow> db_audit db' = db_audit db"
  by (simp add: core_eq_iff)

lemma handle_audit:
  assumes "handle_request X S O1 pub (db, anchor) i = (db', anchor')"
  obtains (same) "core db' = core db"
    | (committed) a h where "db_audit db' = db_audit db @ [a]" "qa_sequence a = q_audit_sequence (aq_session i)"
      "qa_previous_hash a = previous_hash db (qa_tenant_ref a)" "qa_event_hash a = h"
      "hash_event_v1 X (previous_hash db (qa_tenant_ref a)) (qa_payload a) = Ok h"
proof (rule handle_cases [OF assms refl refl])
  assume "core db' = core db" then show thesis by (rule same)
next
  fix root cd now proofs p t receipt checkpoint tx'
  assume v: "IdrCommandEnvelopeV1_validate X (aq_command i) = Ok ()"
    and c: "commit_transition X S O1 (aq_session i) (aq_command i) proofs now root cd (pj_aggregate_version p) t
         \<lparr>tx_db = db, tx_active = None\<rparr> = Ok ((receipt, checkpoint), tx')"
    and new: "core db' = core (tx_db tx')"
  from v have "\<not> uuid_is_nil (ce_run_id (aq_command i))"
    by (auto simp: IdrCommandEnvelopeV1_validate_def split: if_splits)
  with c obtain digest h version aid where
    "hash_event_v1 X (previous_hash db (ce_tenant_ref (aq_command i))) (audit_payload X O1 (aq_command i) cd digest t) = Ok h"
    "db_audit (tx_db tx') = db_audit db @
       [(audit_row_for X O1 (aq_session i) (aq_command i) (audit_payload X O1 (aq_command i) cd digest t)
          (previous_hash db (ce_tenant_ref (aq_command i))) h t version)
         \<lparr>qa_sequence := q_audit_sequence (aq_session i), qa_attestation_id := aid\<rparr>]"
    by (rule commit_runs) simp_all
  with audit_of_core [OF new] show thesis
    by (intro committed [where h = h]) (auto simp: audit_row_for_def)
qed

interpretation audit_machine: numbered_machine "handle_request X S O1 pub"
  "\<lambda>state. qa_sequence ` set (db_audit (fst state))" "\<lambda>i. q_audit_sequence (aq_session i)"
  "\<lambda>state. audit_chained X (fst state)"
proof
  fix state and i :: authority_request
  obtain db anchor db' anchor' where s: "state = (db, anchor)" "handle_request X S O1 pub state i = (db', anchor')"
    by (metis surj_pair)
  note h = s(2) [unfolded s(1)]
  show "audit_chained X (fst (handle_request X S O1 pub state i))"
    if "audit_chained X (fst state)"
      "\<forall>n \<in> qa_sequence ` set (db_audit (fst state)). n < q_audit_sequence (aq_session i)"
    using h
  proof (cases rule: handle_audit)
    case same
    with that s show ?thesis by (simp add: audit_chained_def tenant_trail_def core_eq_iff)
  next
    case (committed a h)
    with that s show ?thesis by (auto intro: audit_chained_last)
  qed
  show "qa_sequence ` set (db_audit (fst (handle_request X S O1 pub state i)))
      \<subseteq> insert (q_audit_sequence (aq_session i)) (qa_sequence ` set (db_audit (fst state)))"
    using h by (cases rule: handle_audit) (auto simp: s(1) h core_eq_iff)
qed

text \<open>
  C12: Whatever requests the authority handles, accepted, refused or failing halfway, the audit
  trail of every tenant stays one hash chain: read in the order of its sequence numbers, each event
  carries the hash of the one before it and the hash of its own payload chained to it, from the
  64 zeros on. The sequence numbers are those of the table's sequence, which grows.
\<close>

theorem audit_trail_is_a_hash_chain:
  assumes "audit_chained X db"
    and "sorted_wrt (<) (map (\<lambda>i. q_audit_sequence (aq_session i)) requests)"
    and "\<forall>i \<in> set requests. \<forall>a \<in> set (db_audit db). qa_sequence a < q_audit_sequence (aq_session i)"
  shows "audit_chained X (fst (handle_history X S O1 pub (db, anchor) requests))"
  using audit_machine.run_inv [of X "(db, anchor)" requests S O1 pub] assms by (simp add: handle_history_def)

theorem audit_trail_is_a_hash_chain_witness:
  "audit_chained sample_crates (fst (handle_history sample_crates serde_sample authority_sample publish (empty_tables, anchor_sample) start_twice))"
  by (rule audit_trail_is_a_hash_chain)
    (simp_all add: audit_chained_def tenant_trail_def empty_tables_def start_twice_def session_sample_def)

section \<open>The integrity of stored runs\<close>

text \<open>
  What the check of a stored run compares: its digest with its projection, with the last audited
  one and with the authority it belongs to.
\<close>

definition run_intact :: "crates \<Rightarrow> PostgresIdrOrchestratorV1 \<Rightarrow> authority_db \<Rightarrow> run_row \<Rightarrow> bool" where
  "run_intact X O1 db r \<longleftrightarrow>
     projection_digest_v1 X (qr_projection r) = Ok (qr_projection_digest r) \<and>
     audited_projection_digest db (qr_run_id r) = Some (qr_projection_digest r) \<and>
     qr_trust_domain r = TrustDomainV1_name (og_trust_domain O1) \<and>
     qr_environment_ref r = sx_environment_ref (og_security O1) \<and>
     json_get (qr_projection r) ''trust_domain'' = Some (JStr (qr_trust_domain r)) \<and>
     json_get (qr_projection r) ''environment_ref'' = Some (JStr (qr_environment_ref r))"

definition stored_runs_intact :: "crates \<Rightarrow> PostgresIdrOrchestratorV1 \<Rightarrow> authority_db \<Rightarrow> bool" where
  "stored_runs_intact X O1 db \<longleftrightarrow> list_all (run_intact X O1 db) (db_runs db)"

text \<open>The derived serialization of a projection has its two identity fields.\<close>

definition projection_names_itself :: "authority_serde \<Rightarrow> bool" where
  "projection_names_itself S \<longleftrightarrow>
     (\<forall>p. json_get (sv_projection_to_value S p) ''trust_domain'' = Some (JStr (TrustDomainV1_name (pj_trust_domain p))) \<and>
          json_get (sv_projection_to_value S p) ''environment_ref'' = Some (JStr (pj_environment_ref p)))"

lemma audited_digest_last:
  assumes "db_audit db' = db_audit db @ [a]" "\<forall>e \<in> set (db_audit db). qa_sequence e < qa_sequence a"
  shows "audited_projection_digest db' run_id =
    (if qa_run_id a = run_id then Option.bind (json_get (qa_payload a) ''projection_digest'') json_as_str
     else audited_projection_digest db run_id)"
proof -
  have "\<forall>e \<in> set (filter (\<lambda>a. qa_run_id a = run_id) (db_audit db)). qa_sequence e \<le> qa_sequence a"
    using assms(2) by (auto intro: less_imp_le)
  from sort_key_last [OF this] assms(1) show ?thesis by (simp add: audited_projection_digest_def)
qed

lemma audit_payload_digest: "json_get (audit_payload X O1 command cd digest t) ''projection_digest'' = Some (JStr digest)"
  by (simp add: audit_payload_def json_get_object)

lemma run_rows_after_all:
  assumes "run_rows_after r rows rows'" "\<forall>e \<in> set rows. qr_run_id e \<noteq> qr_run_id r \<longrightarrow> P e" "P r"
    and "\<And>e. e \<in> set rows \<Longrightarrow> qr_run_id e = qr_run_id r \<Longrightarrow>
      P (e\<lparr>qr_aggregate_version := qr_aggregate_version r, qr_state := qr_state r,
           qr_projection := qr_projection r, qr_projection_digest := qr_projection_digest r,
           qr_last_event_sequence := qr_last_event_sequence r\<rparr>)"
  shows "\<forall>e \<in> set rows'. P e"
  using assms by (auto simp: run_rows_after_def update_where_def split: if_splits)

lemma run_rows_after_ids:
  assumes "run_rows_after r rows rows'"
  shows "qr_run_id ` set rows' = insert (qr_run_id r) (qr_run_id ` set rows)"
proof (cases "\<exists>e \<in> set rows. qr_run_id e = qr_run_id r")
  case True
  have same: "map qr_run_id (update_where P (\<lambda>e. e\<lparr>qr_aggregate_version := v, qr_state := s, qr_projection := p,
      qr_projection_digest := d, qr_last_event_sequence := l\<rparr>) rows) = map qr_run_id rows" for P v s p d l
    by (simp add: update_where_def)
  from True assms have "map qr_run_id rows' = map qr_run_id rows" by (auto simp: run_rows_after_def same)
  then have "qr_run_id ` set rows' = qr_run_id ` set rows" by (metis list.set_map)
  moreover from True have "qr_run_id r \<in> qr_run_id ` set rows" by (metis imageI)
  ultimately show ?thesis by (simp add: insert_absorb)
next
  case False
  with assms show ?thesis by (simp add: run_rows_after_def)
qed

lemma stored_runs_intact_step:
  assumes S: "projection_names_itself S" and intact: "stored_runs_intact X O1 db"
    and seq: "\<forall>e \<in> set (db_audit db). qa_sequence e < q_audit_sequence (aq_session i)"
    and h: "handle_request X S O1 pub (db, anchor) i = (db', anchor')"
  shows "stored_runs_intact X O1 db'"
proof (rule handle_cases [OF h refl refl])
  assume same: "core db' = core db"
  then have "run_intact X O1 db' = run_intact X O1 db"
    by (simp add: fun_eq_iff core_eq_iff run_intact_def audited_projection_digest_def)
  with intact same show ?thesis by (simp add: stored_runs_intact_def core_eq_iff)
next
  fix root cd now proofs p t receipt checkpoint tx'
  assume v: "IdrCommandEnvelopeV1_validate X (aq_command i) = Ok ()"
    and c: "commit_transition X S O1 (aq_session i) (aq_command i) proofs now root cd (pj_aggregate_version p) t
         \<lparr>tx_db = db, tx_active = None\<rparr> = Ok ((receipt, checkpoint), tx')"
    and new: "core db' = core (tx_db tx')"
  from v have "\<not> uuid_is_nil (ce_run_id (aq_command i))"
    by (auto simp: IdrCommandEnvelopeV1_validate_def split: if_splits)
  with c obtain digest h version aid where
    d: "projection_digest_v1 X (sv_projection_to_value S (tn_projection t)) = Ok digest"
    and audit: "db_audit (tx_db tx') = db_audit (tx_db \<lparr>tx_db = db, tx_active = None\<rparr>) @
       [(audit_row_for X O1 (aq_session i) (aq_command i) (audit_payload X O1 (aq_command i) cd digest t)
          (previous_hash (tx_db \<lparr>tx_db = db, tx_active = None\<rparr>) (ce_tenant_ref (aq_command i))) h t version)
         \<lparr>qa_sequence := q_audit_sequence (aq_session i), qa_attestation_id := aid\<rparr>]"
    and runs: "run_rows_after (run_row_for S (tn_projection t) digest) (db_runs (tx_db \<lparr>tx_db = db, tx_active = None\<rparr>))
       (db_runs (tx_db tx'))"
    and at: "pj_run_id (tn_projection t) = ce_run_id (aq_command i)"
      "pj_trust_domain (tn_projection t) = og_trust_domain O1"
      "pj_environment_ref (tn_projection t) = sx_environment_ref (og_security O1)"
    by (rule commit_runs)
  define a where "a = (audit_row_for X O1 (aq_session i) (aq_command i) (audit_payload X O1 (aq_command i) cd digest t)
          (previous_hash db (ce_tenant_ref (aq_command i))) h t version)
         \<lparr>qa_sequence := q_audit_sequence (aq_session i), qa_attestation_id := aid\<rparr>"
  have a: "db_audit db' = db_audit db @ [a]" using audit new by (simp add: core_eq_iff a_def)
  have a': "qa_sequence a = q_audit_sequence (aq_session i)" "qa_run_id a = ce_run_id (aq_command i)"
      "qa_payload a = audit_payload X O1 (aq_command i) cd digest t" by (simp_all add: a_def audit_row_for_def)
  have dg: "audited_projection_digest db' run_id =
      (if run_id = ce_run_id (aq_command i) then Some digest else audited_projection_digest db run_id)" for run_id
    using audited_digest_last [OF a, of run_id] seq by (auto simp: a' audit_payload_digest)
  let ?r = "run_row_for S (tn_projection t) digest"
  have r: "qr_run_id ?r = ce_run_id (aq_command i)" by (simp add: run_row_for_def at)
  have intact_r: "run_intact X O1 db' ?r"
    using S by (auto simp: run_intact_def run_row_for_def d dg at projection_names_itself_def)
  have kept: "\<forall>e \<in> set (db_runs db). qr_run_id e \<noteq> qr_run_id ?r \<longrightarrow> run_intact X O1 db' e"
    using intact by (auto simp: stored_runs_intact_def list_all_iff run_intact_def dg r)
  have "\<forall>e \<in> set (db_runs (tx_db tx')). run_intact X O1 db' e"
  proof (rule run_rows_after_all [where P = "run_intact X O1 db'", OF runs _ intact_r])
    show "\<forall>e \<in> set (db_runs (tx_db \<lparr>tx_db = db, tx_active = None\<rparr>)). qr_run_id e \<noteq> qr_run_id ?r \<longrightarrow> run_intact X O1 db' e"
      using kept by simp
    fix e assume "e \<in> set (db_runs (tx_db \<lparr>tx_db = db, tx_active = None\<rparr>))" "qr_run_id e = qr_run_id ?r"
    then show "run_intact X O1 db' (e\<lparr>qr_aggregate_version := qr_aggregate_version ?r, qr_state := qr_state ?r,
           qr_projection := qr_projection ?r, qr_projection_digest := qr_projection_digest ?r,
           qr_last_event_sequence := qr_last_event_sequence ?r\<rparr>)"
      using intact intact_r by (auto simp: stored_runs_intact_def list_all_iff run_intact_def r)
  qed
  with new show ?thesis by (simp add: stored_runs_intact_def list_all_iff core_eq_iff)
qed

lemma intact_run_loads:
  assumes "stored_runs_intact X O1 db"
  shows "load_projection X S O1 Q command \<lparr>tx_db = db, tx_active = None\<rparr> \<noteq> Err RE_IntegrityViolation"
proof -
  have i: "run_intact X O1 db r" if "find P (db_runs db) = Some r" for P r
    using assms find_SomeD [OF that] by (simp add: stored_runs_intact_def list_all_iff)
  show ?thesis
  proof (cases "find (\<lambda>r. qr_run_id r = ce_run_id command) (db_runs db)")
    case None
    then show ?thesis
      by (auto simp: load_projection_def sql_then_def sql_query_def sql_lift_def sql_return_def split: option.splits)
  next
    case (Some r)
    with i [OF Some] find_SomeD [OF Some] show ?thesis
      by (cases "sv_projection_from_value S (qr_projection r)")
        (auto simp: load_projection_def run_intact_def sql_then_def sql_query_def sql_lift_def split: option.splits)
  qed
qed

interpretation intact_machine: numbered_machine
  "handle_request X S O1 (pub :: 's \<Rightarrow> AuditCheckpointV1 \<Rightarrow> (IdrRuntimeErrorV1, 's) result)"
  "\<lambda>state. qa_sequence ` set (db_audit (fst state))" "\<lambda>i. q_audit_sequence (aq_session i)"
  "\<lambda>state. projection_names_itself S \<and> stored_runs_intact X O1 (fst state)"
proof
  fix state :: "authority_db \<times> 's" and i :: authority_request
  assume "projection_names_itself S \<and> stored_runs_intact X O1 (fst state)"
    "\<forall>n \<in> qa_sequence ` set (db_audit (fst state)). n < q_audit_sequence (aq_session i)"
  then show "projection_names_itself S \<and> stored_runs_intact X O1 (fst (handle_request X S O1 pub state i))"
    by (cases state; cases "handle_request X S O1 pub state i") (auto intro: stored_runs_intact_step)
qed (rule audit_machine.step_used)

text \<open>
  C15: The integrity check of a stored run never fails on what the authority itself wrote: after
  any requests, accepted or refused, loading a run for a command is never refused as an integrity
  violation, because its digest is that of the projection and the one audited last for the run.
\<close>

theorem stored_runs_keep_their_integrity:
  assumes "projection_names_itself S" "stored_runs_intact X O1 db"
    and "sorted_wrt (<) (map (\<lambda>i. q_audit_sequence (aq_session i)) requests)"
    and "\<forall>i \<in> set requests. \<forall>a \<in> set (db_audit db). qa_sequence a < q_audit_sequence (aq_session i)"
  shows "load_projection X S O1 Q command
     \<lparr>tx_db = fst (handle_history X S O1 pub (db, anchor) requests), tx_active = None\<rparr> \<noteq> Err RE_IntegrityViolation"
proof (rule intact_run_loads)
  show "stored_runs_intact X O1 (fst (handle_history X S O1 pub (db, anchor) requests))"
    using intact_machine.run_inv [of S X O1 "(db, anchor)" requests pub] assms by (simp add: handle_history_def)
qed

theorem stored_runs_keep_their_integrity_witness:
  "load_projection sample_crates serde_sample authority_sample (session_sample 9) start_command
     \<lparr>tx_db = fst (handle_history sample_crates serde_sample authority_sample publish (empty_tables, anchor_sample) start_twice),
      tx_active = None\<rparr> \<noteq> Err RE_IntegrityViolation"
  by (rule stored_runs_keep_their_integrity)
    (simp_all add: projection_names_itself_def serde_sample_def json_get_object stored_runs_intact_def
      empty_tables_def start_twice_def session_sample_def)

section \<open>Proofs and commands count once\<close>

definition consumption_for ::
  "IdrCommandEnvelopeV1 \<Rightarrow> TrustDomainV1 \<Rightarrow> VerifiedProductionProofV1 \<Rightarrow> consumption_row" where
  "consumption_for command d proof1 = \<lparr>
     qn_proof_id = vp_proof_id proof1,
     qn_trust_domain = TrustDomainV1_name d,
     qn_environment_ref = ce_environment_ref command,
     qn_tenant_ref = ce_tenant_ref command,
     qn_nonce = vp_nonce proof1,
     qn_command_id = ce_command_id command,
     qn_run_id = ce_run_id command\<rparr>"

definition spent_ids :: "authority_db \<Rightarrow> uuid set" where
  "spent_ids db = qn_proof_id ` set (db_consumptions db)"

lemma consumption_Ok:
  assumes "persist_proof_consumption X Q command rv rd now d ep tx = Ok (u, tx')"
  shows "db_consumptions (tx_db tx') = db_consumptions (tx_db tx) @ [consumption_for command d (snd ep)] \<and>
    vp_proof_id (snd ep) \<notin> spent_ids (tx_db tx)"
proof -
  from assms obtain w tx1 u1 u2 where w: "written_table w = 7" "sql_execute Q w tx = Ok (u1, tx1)"
    and c: "sql_execute Q (W_Consumption (consumption_for command d (snd ep))) tx1 = Ok (u2, tx')"
    unfolding persist_proof_consumption_def Let_def consumption_for_def
    by (auto simp only: sql_then_Ok sql_lift_Ok) (metis written_table.simps(8))
  have 1: "db_consumptions (tx_db tx1) = db_consumptions (tx_db tx)"
    by (rule sql_keepsD [OF keeps_execute w(2)]) (simp add: keeps_tables w(1))
  have "\<exists>aid. tx' = tx1\<lparr>tx_db := insert_row Q aid (W_Consumption (consumption_for command d (snd ep))) (tx_db tx1)\<rparr>"
    by (rule executeD [OF c, THEN conjunct2]) simp
  then have 2: "db_consumptions (tx_db tx') = db_consumptions (tx_db tx1) @ [consumption_for command d (snd ep)]" by auto
  have "\<not> unique_violation (numbered Q (W_Consumption (consumption_for command d (snd ep)))) (tx_db tx1)"
    by (rule executeD [OF c, THEN conjunct1]) simp
  then have "vp_proof_id (snd ep) \<notin> spent_ids (tx_db tx)"
    by (auto simp: list_ex_iff 1 spent_ids_def consumption_for_def)
  with 1 2 show ?thesis by simp
qed

lemma consumptions_Ok:
  assumes "sql_for_each (persist_proof_consumption X Q command rv rd now d) eps tx = Ok (u, tx')"
  shows "db_consumptions (tx_db tx') = db_consumptions (tx_db tx) @ map (consumption_for command d) (map snd eps) \<and>
    distinct (map vp_proof_id (map snd eps)) \<and>
    set (map vp_proof_id (map snd eps)) \<inter> spent_ids (tx_db tx) = {}"
  using assms
proof (induction eps arbitrary: tx)
  case (Cons ep eps)
  then obtain u1 tx1 where 1: "persist_proof_consumption X Q command rv rd now d ep tx = Ok (u1, tx1)"
    and 2: "sql_for_each (persist_proof_consumption X Q command rv rd now d) eps tx1 = Ok (u, tx')"
    by (auto simp: sql_then_Ok)
  from consumption_Ok [OF 1] have "spent_ids (tx_db tx1) =
      insert (vp_proof_id (snd ep)) (spent_ids (tx_db tx))"
    by (auto simp: spent_ids_def consumption_for_def)
  with consumption_Ok [OF 1] Cons.IH [OF 2] show ?case by auto
qed (simp add: sql_return_Ok)

text \<open>
  What the audit trail says was done: the command of every event and the proofs it consumed, as
  they are serialized.
\<close>

fun json_elements :: "json \<Rightarrow> json list" where
  "json_elements (JArr vs) = vs"
| "json_elements _ = []"

definition audited_proofs :: "authority_db \<Rightarrow> json list" where
  "audited_proofs db = concat (map (\<lambda>a. json_elements (qa_proof_refs a)) (db_audit db))"

definition audited_commands :: "authority_db \<Rightarrow> json option list" where
  "audited_commands db = map (\<lambda>a. json_get (qa_payload a) ''command_id'') (db_audit db)"

definition counted_once :: "crates \<Rightarrow> authority_db \<Rightarrow> bool" where
  "counted_once X db \<longleftrightarrow>
     distinct (audited_proofs db) \<and> set (audited_proofs db) \<subseteq> uuid_json X ` spent_ids db \<and>
     distinct (audited_commands db) \<and>
     set (audited_commands db) \<subseteq> (\<lambda>r. Some (uuid_json X (qq_command_id r))) ` set (db_receipts db)"

lemma audit_payload_command:
  "json_get (audit_payload X O1 command cd digest t) ''command_id'' = Some (uuid_json X (ce_command_id command))"
  by (simp add: audit_payload_def json_get_object)

lemma commit_spends:
  assumes c: "commit_transition X S O1 Q command proofs now root cd pre t tx = Ok ((receipt, checkpoint), tx')"
    and len: "length proofs = length (ce_proofs command)"
  obtains a r where "db_audit (tx_db tx') = db_audit (tx_db tx) @ [a]"
    "json_get (qa_payload a) ''command_id'' = Some (uuid_json X (ce_command_id command))"
    "qa_proof_refs a = proof_refs_json X t"
    "db_receipts (tx_db tx') = db_receipts (tx_db tx) @ [r]" "qq_command_id r = ce_command_id command"
    "spent_ids (tx_db tx') = spent_ids (tx_db tx) \<union> vp_proof_id ` set proofs"
    "distinct (map vp_proof_id proofs)" "vp_proof_id ` set proofs \<inter> spent_ids (tx_db tx) = {}"
proof -
  from c obtain digest h version aid tx0 tx1 where
    "projection_digest_v1 X (sv_projection_to_value S (tn_projection t)) = Ok digest"
    and "hash_event_v1 X (previous_hash (tx_db tx) (ce_tenant_ref command))
       (audit_payload X O1 command cd digest t) = Ok h"
    and audit: "db_audit (tx_db tx') = db_audit (tx_db tx) @
       [(audit_row_for X O1 Q command (audit_payload X O1 command cd digest t)
          (previous_hash (tx_db tx) (ce_tenant_ref command)) h t version)
         \<lparr>qa_sequence := q_audit_sequence Q, qa_attestation_id := aid\<rparr>]"
    and "\<forall>e \<in> set (db_audit (tx_db tx)). qa_sequence e \<noteq> q_audit_sequence Q"
    and tx0: "\<exists>att. tx_db tx0 = (tx_db tx)\<lparr>db_attestations := att\<rparr>"
    and a: "\<exists>a. idr_current_attestation Q tx0 = Some a \<and> attested_for O1 command a"
    and p: "persist_transition X S O1 Q command proofs now root digest t tx0 = Ok ((), tx1)"
    and "db_runs (tx_db tx') = db_runs (tx_db tx1)"
    and cons: "db_consumptions (tx_db tx') = db_consumptions (tx_db tx1)"
    and "db_fences (tx_db tx') = db_fences (tx_db tx1)"
    and "\<exists>sequence. receipt = receipt_for O1 command (q_attestation_id Q) sequence t"
    and rec: "\<exists>mac v att. command_receipt_mac X (og_attestation_key O1) receipt = Ok mac \<and>
       db_receipts (tx_db tx') = db_receipts (tx_db tx) @
         [(receipt_row_for X O1 Q command cd receipt mac v)\<lparr>qq_attestation_id := att\<rparr>]"
    by (rule commit_transition_Ok)
  from p obtain u tx2 u3 tx3 u4 tx4 u5 tx5 where
    k: "upsert_run Q S (tn_projection t) digest tx0 = Ok (u, tx2)"
      "persist_step_snapshot Q S command t tx2 = Ok (u3, tx3)"
      "persist_authoritative_record X Q (tn_authoritative_record t) (tn_projection t) tx3 = Ok (u4, tx4)"
      "persist_contract_dependencies Q command t tx4 = Ok (u5, tx5)"
    and rest: "sql_then (persist_proof_consumptions X Q command proofs (tr_root_version root)
         (tr_root_digest root) now (og_trust_domain O1)) (\<lambda>_. persist_specialized_projection X Q command t) tx5 = Ok ((), tx1)"
    unfolding persist_transition_def
    by (auto simp only: sql_then_Ok [of "upsert_run _ _ _ _"] sql_then_Ok [of "persist_step_snapshot _ _ _ _"]
      sql_then_Ok [of "persist_authoritative_record _ _ _ _"] sql_then_Ok [of "persist_contract_dependencies _ _ _"])
  from rest obtain u6 tx6 where
    s: "persist_proof_consumptions X Q command proofs (tr_root_version root)
         (tr_root_digest root) now (og_trust_domain O1) tx5 = Ok (u6, tx6)"
    and k6: "persist_specialized_projection X Q command t tx6 = Ok ((), tx1)"
    by (auto simp only: sql_then_Ok)
  note same = persist_keep_consumptions [THEN sql_keepsD]
  from tx0 same(1) [OF k(1)] same(2) [OF k(2)] same(3) [OF k(3)] same(4) [OF k(4)]
  have before: "db_consumptions (tx_db tx5) = db_consumptions (tx_db tx)" by auto
  have zip: "map snd (zip (ce_proofs command) proofs) = proofs" using len by simp
  have "spent_ids (tx_db tx5) = spent_ids (tx_db tx)" by (simp add: spent_ids_def before)
  moreover from consumptions_Ok [OF s [unfolded persist_proof_consumptions_def]] same(5) [OF k6] cons
  have "db_consumptions (tx_db tx') = db_consumptions (tx_db tx5) @ map (consumption_for command (og_trust_domain O1)) proofs \<and>
      distinct (map vp_proof_id proofs) \<and> set (map vp_proof_id proofs) \<inter> spent_ids (tx_db tx5) = {}"
    by (simp only: zip)
  moreover from this have "spent_ids (tx_db tx') = spent_ids (tx_db tx5) \<union> vp_proof_id ` set proofs"
    by (simp add: spent_ids_def image_Un image_image consumption_for_def)
  ultimately have spent: "spent_ids (tx_db tx') = spent_ids (tx_db tx) \<union> vp_proof_id ` set proofs"
    "distinct (map vp_proof_id proofs)" "vp_proof_id ` set proofs \<inter> spent_ids (tx_db tx) = {}" by simp_all
  from rec obtain r where "db_receipts (tx_db tx') = db_receipts (tx_db tx) @ [r]" "qq_command_id r = ce_command_id command"
    by (auto simp: receipt_row_for_def)
  with audit spent show thesis
    by (intro that) (auto simp: audit_row_for_def audit_payload_command)
qed

lemma verified_length:
  "verify_proofs_inside_transaction X d sx command now root = Ok proofs \<Longrightarrow> length proofs = length (ce_proofs command)"
  by (auto simp: verify_proofs_inside_transaction_def Let_def and_then_eq_Ok split: if_splits dest: collect_results_length)

lemma decided_proofs:
  assumes "next_transition X Q p command now proofs bound tx = Ok (t, tx')"
  shows "tn_consumed_proof_ids t = map vp_proof_id proofs"
proof -
  from next_transition_Ok [OF assms] obtain t0 where r: "transition_refines t0 t" and
    "evaluate_authoritative_transition_v1 X (q_fresh Q) p command now proofs = Ok t0 \<or>
     action_admission_proof_failure X p command proofs = Ok t0" by blast
  then have "tn_consumed_proof_ids t0 = map vp_proof_id proofs"
    by (auto elim: transition_cases simp: action_admission_proof_failure_def Let_def and_then_eq_Ok)
  with r show ?thesis by (simp add: transition_refines_def)
qed

lemma counted_once_step:
  assumes X: "uuid_display_injective X" and once: "counted_once X db"
    and h: "handle_request X S O1 pub (db, anchor) i = (db', anchor')"
  shows "counted_once X db'"
proof (rule handle_cases [OF h refl refl])
  assume "core db' = core db"
  with once show ?thesis
    by (simp add: counted_once_def audited_proofs_def audited_commands_def spent_ids_def core_eq_iff)
next
  fix root cd now proofs p t receipt checkpoint tx'
  assume fresh: "\<forall>r \<in> set (db_receipts db). qq_command_id r \<noteq> ce_command_id (aq_command i)"
    and v: "verify_proofs_inside_transaction X (og_trust_domain O1) (og_security O1) (aq_command i) now root = Ok proofs"
    and n: "next_transition X (aq_session i) p (aq_command i) now proofs
         (and_then (reverify_bound_action_admission_proofs X S O1 (aq_session i) p (aq_command i) now root
            \<lparr>tx_db = db, tx_active = None\<rparr>) (\<lambda>_. Ok ())) \<lparr>tx_db = db, tx_active = None\<rparr>
         = Ok (t, \<lparr>tx_db = db, tx_active = None\<rparr>)"
    and c: "commit_transition X S O1 (aq_session i) (aq_command i) proofs now root cd (pj_aggregate_version p) t
         \<lparr>tx_db = db, tx_active = None\<rparr> = Ok ((receipt, checkpoint), tx')"
    and new: "core db' = core (tx_db tx')"
  from c verified_length [OF v] obtain a r where
    e: "db_audit (tx_db tx') = db_audit db @ [a]"
      "json_get (qa_payload a) ''command_id'' = Some (uuid_json X (ce_command_id (aq_command i)))"
      "qa_proof_refs a = proof_refs_json X t"
      "db_receipts (tx_db tx') = db_receipts db @ [r]" "qq_command_id r = ce_command_id (aq_command i)"
      "spent_ids (tx_db tx') = spent_ids db \<union> vp_proof_id ` set proofs"
      "distinct (map vp_proof_id proofs)" "vp_proof_id ` set proofs \<inter> spent_ids db = {}"
    by (rule commit_spends) simp_all
  have inj: "uuid_json X u = uuid_json X v \<longleftrightarrow> u = v" for u v by (rule uuid_json_inj [OF X])
  have refs: "json_elements (qa_proof_refs a) = map (uuid_json X) (map vp_proof_id proofs)"
    using e(3) by (simp add: proof_refs_json_def decided_proofs [OF n])
  have "distinct (map (uuid_json X) (map vp_proof_id proofs))"
    using e(7) by (simp add: distinct_map inj_on_def inj)
  moreover have "set (audited_proofs db) \<inter> uuid_json X ` (vp_proof_id ` set proofs) = {}"
  proof -
    have "uuid_json X ` spent_ids db \<inter> uuid_json X ` (vp_proof_id ` set proofs) = {}"
      using e(8) by (auto simp: inj disjoint_iff)
    with once show ?thesis by (auto simp: counted_once_def)
  qed
  ultimately have proofs: "distinct (audited_proofs (tx_db tx'))" "set (audited_proofs (tx_db tx')) \<subseteq> uuid_json X ` spent_ids (tx_db tx')"
    using once by (auto simp: counted_once_def audited_proofs_def e(1,6) refs)
  have "Some (uuid_json X (ce_command_id (aq_command i)))
      \<notin> (\<lambda>r. Some (uuid_json X (qq_command_id r))) ` set (db_receipts db)"
    using fresh by (auto simp: inj)
  with once have "Some (uuid_json X (ce_command_id (aq_command i))) \<notin> set (audited_commands db)"
    unfolding counted_once_def by blast
  then have "distinct (audited_commands (tx_db tx'))"
    "set (audited_commands (tx_db tx')) \<subseteq> (\<lambda>r. Some (uuid_json X (qq_command_id r))) ` set (db_receipts (tx_db tx'))"
    using once by (auto simp: counted_once_def audited_commands_def e(1,2,4,5))
  with proofs new show ?thesis
    by (simp add: counted_once_def audited_proofs_def audited_commands_def spent_ids_def core_eq_iff)
qed

interpretation once_machine: kept_machine
  "handle_request X S O1 (pub :: 's \<Rightarrow> AuditCheckpointV1 \<Rightarrow> (IdrRuntimeErrorV1, 's) result)"
  "\<lambda>state. uuid_display_injective X \<and> counted_once X (fst state)"
proof
  fix state :: "authority_db \<times> 's" and i :: authority_request
  assume "uuid_display_injective X \<and> counted_once X (fst state)"
  then show "uuid_display_injective X \<and> counted_once X (fst (handle_request X S O1 pub state i))"
    by (cases state; cases "handle_request X S O1 pub state i") (auto intro: counted_once_step)
qed

text \<open>
  C11: A command and a proof count once: in the audit trail the authority writes from empty tables
  on, whatever is requested, repeated or refused, no command is recorded twice and no proof is
  consumed twice, by the same command or by two.
\<close>

theorem commands_and_proofs_count_once:
  assumes "uuid_display_injective X" "db_audit db = []"
  shows "distinct (audited_commands (fst (handle_history X S O1 pub (db, anchor) requests))) \<and>
    distinct (audited_proofs (fst (handle_history X S O1 pub (db, anchor) requests)))"
proof -
  have "counted_once X db" by (simp add: counted_once_def audited_proofs_def audited_commands_def assms(2))
  with once_machine.run_inv [of X "(db, anchor)" S O1 pub requests] assms(1)
  have "counted_once X (fst (handle_history X S O1 pub (db, anchor) requests))" by (simp add: handle_history_def)
  then show ?thesis by (simp add: counted_once_def)
qed

theorem commands_and_proofs_count_once_witness:
  "distinct (audited_commands (fst (handle_history sample_crates serde_sample authority_sample publish (empty_tables, anchor_sample) start_twice))) \<and>
   distinct (audited_proofs (fst (handle_history sample_crates serde_sample authority_sample publish (empty_tables, anchor_sample) start_twice)))"
  by (rule commands_and_proofs_count_once) (simp_all add: sample_uuid_display_injective empty_tables_def)

section \<open>Attestations verify\<close>

definition attestations_verify :: "crates \<Rightarrow> PostgresIdrOrchestratorV1 \<Rightarrow> authority_db \<Rightarrow> bool" where
  "attestations_verify X O1 db \<longleftrightarrow>
     list_all (\<lambda>a. verify_attestation_row X O1 a = Ok (qg_attestation_id a)) (db_attestations db)"

lemma opened_verifies:
  assumes "open_orchestrator_attestation X O1 Q purpose cid rid tenant pre post cd td tx = Ok (aid, tx')"
    and "attestations_verify X O1 (tx_db tx)"
  shows "attestations_verify X O1 (tx_db tx')"
proof -
  from assms(1) obtain a material where o: "idr_open_attested_transition X Q a tx = Ok (q_attestation_id Q, tx')"
    and m: "orchestrator_attestation_material_v1 X (qg_trust_domain a) (qg_environment_ref a) (qg_purpose a)
       (qg_attestation_id a) (qg_command_id a) (qg_run_id a) (qg_tenant_ref a) pre post
       (qg_command_digest a) (qg_transition_digest a) (qg_database_txid a) (qg_backend_pid a)
       (qg_nonce a) (qg_key_version a) = Ok material"
      "qg_mac a = OrchestratorAttestationKeyV1_mac X (og_attestation_key O1) material"
    and a: "qg_trust_domain a = TrustDomainV1_name (og_trust_domain O1)"
      "qg_environment_ref a = sx_environment_ref (og_security O1)"
      "qg_key_version a = ak_version (og_attestation_key O1)"
      "i64_from_u64 pre = Ok (qg_pre_aggregate_version a)" "i64_from_u64 post = Ok (qg_post_aggregate_version a)"
    unfolding open_orchestrator_attestation_def Let_def
    by (auto simp: sql_simps split: if_splits)
  from o have "\<not> qg_post_aggregate_version a < qg_pre_aggregate_version a"
    by (auto simp: idr_open_attested_transition_def split: if_splits)
  then have le: "\<not> post < pre" using a(4,5) by (auto simp: i64_from_u64_def word_less_def split: if_splits)
  have "attestation_material_of_row X a pre post = Ok material" using m(1) by (simp add: attestation_material_of_row_def)
  with u64_try_from_i64 [OF a(4)] u64_try_from_i64 [OF a(5)] a(1-3) m(2) le
  have "verify_attestation_row X O1 a = Ok (qg_attestation_id a)" by (simp add: verify_attestation_row_def)
  with open_attested_Ok [OF o] assms(2) show ?thesis by (simp add: attestations_verify_def)
qed

lemma persist_keep_attestations [keeps_intros]:
  "sql_keeps (\<lambda>tx. db_attestations (tx_db tx)) (upsert_run Q S projection digest)"
  "sql_keeps (\<lambda>tx. db_attestations (tx_db tx)) (persist_step_snapshot Q S command transition)"
  "sql_keeps (\<lambda>tx. db_attestations (tx_db tx)) (persist_authoritative_record X Q r projection)"
  "sql_keeps (\<lambda>tx. db_attestations (tx_db tx)) (persist_contract_dependencies Q command transition)"
  "sql_keeps (\<lambda>tx. db_attestations (tx_db tx)) (persist_proof_consumptions X Q command proofs rv rd now d)"
  "sql_keeps (\<lambda>tx. db_attestations (tx_db tx)) (persist_specialized_projection X Q command transition)"
  unfolding persist_defs Let_def by (intro keeps_intros; simp add: keeps_tables)+

lemma keeps_attestations [keeps_intros]:
  "sql_keeps (\<lambda>tx. db_attestations (tx_db tx)) (persist_transition X S O1 Q command proofs now root digest t)"
  "sql_keeps (\<lambda>tx. db_attestations (tx_db tx)) (append_events X O1 Q command payload previous h t)"
  "sql_keeps (\<lambda>tx. db_attestations (tx_db tx)) (append_receipt X O1 Q command cd aid t)"
  "sql_keeps (\<lambda>tx. db_attestations (tx_db tx)) (append_checkpoint X O1 Q command h)"
  unfolding persist_transition_def append_events_def append_receipt_def append_checkpoint_def Let_def
  by (intro keeps_intros; simp)+

lemma attestations_kept:
  assumes "sql_then m f tx = Ok (x, tx')" "attestations_verify X O1 (tx_db tx)"
    and "sql_keeps (\<lambda>tx. db_attestations (tx_db tx)) (sql_then m f)"
  shows "attestations_verify X O1 (tx_db tx')"
  using sql_keepsD [OF assms(3,1)] assms(2) by (simp add: attestations_verify_def)

lemma commit_attestations:
  assumes "commit_transition X S O1 Q command proofs now root cd pre t tx = Ok (r, tx')"
    and "attestations_verify X O1 (tx_db tx)"
  shows "attestations_verify X O1 (tx_db tx')"
proof -
  from assms(1) obtain digest td aid tx0 m where
    o: "open_orchestrator_attestation X O1 Q (attestation_purpose t) (ce_command_id command)
       (ce_run_id command) (ce_tenant_ref command) pre (pj_aggregate_version (tn_projection t)) cd td tx = Ok (aid, tx0)"
    and rest: "sql_then (persist_transition X S O1 Q command proofs now root digest t) (\<lambda>_.
       sql_then (sql_query Q SR_PreviousHash (\<lambda>db. previous_hash db (ce_tenant_ref command))) (\<lambda>previous.
       sql_then (sql_lift (hash_event_v1 X previous (audit_payload X O1 command cd digest t))) (\<lambda>event_hash.
       sql_then (append_events X O1 Q command (audit_payload X O1 command cd digest t) previous event_hash t) (\<lambda>_.
       sql_then (append_receipt X O1 Q command cd aid t) (\<lambda>receipt.
       sql_then (append_checkpoint X O1 Q command event_hash) (\<lambda>checkpoint.
       sql_then (sql_query Q SR_Commit (\<lambda>_. ())) (\<lambda>_.
       sql_return (receipt, checkpoint)))))))) tx0 = Ok (r, tx')"
    unfolding commit_transition_def Let_def
    by (auto simp only: sql_then_Ok [of "sql_lift _"] sql_lift_Ok sql_then_Ok [of "open_orchestrator_attestation _ _ _ _ _ _ _ _ _ _ _"])
  show ?thesis
    by (rule attestations_kept [OF rest opened_verifies [OF o assms(2)]]) (intro keeps_intros)
qed

lemma keeps_attestations_published [keeps_intros]:
  "sql_keeps (\<lambda>tx. db_attestations (tx_db tx)) (mark_published Q checkpoint)"
proof -
  have w: "sql_keeps (\<lambda>tx. db_attestations (tx_db tx)) (sql_execute Q w)" for w
    by (intro keeps_intros)
  show ?thesis
    by (subst sql_keeps_def) (auto simp: mark_published_def split: option.splits dest: sql_keepsD [OF w])
qed

lemma publication_attestations:
  assumes "publication_transaction X O1 Q receipt checkpoint tx = Ok (u, tx')" "attestations_verify X O1 (tx_db tx)"
  shows "attestations_verify X O1 (tx_db tx')"
proof -
  from assms(1) obtain cd td aid tx0 where
    o: "open_orchestrator_attestation X O1 Q ''checkpoint_publication'' (cr_command_id receipt)
       ZERO_RUN_ID_V1 (ck_tenant_ref checkpoint) (cr_aggregate_version receipt)
       (cr_aggregate_version receipt) cd td tx = Ok (aid, tx0)"
    and rest: "sql_then (mark_published Q checkpoint) (\<lambda>_. sql_query Q SR_Commit (\<lambda>_. ())) tx0 = Ok (u, tx')"
    unfolding publication_transaction_def
    by (auto simp only: sql_then_Ok [of "sql_lift _"] sql_lift_Ok sql_then_Ok [of "sql_query _ _ _"] sql_query_Ok
      sql_then_Ok [of "open_orchestrator_attestation _ _ _ _ _ _ _ _ _ _ _"])
  show ?thesis
    by (rule attestations_kept [OF rest opened_verifies [OF o assms(2)]]) (intro keeps_intros)
qed

lemma transact_attestations:
  assumes "transact_inner X S O1 root Q command tx = Ok (r, tx')" "attestations_verify X O1 (tx_db tx)"
  shows "attestations_verify X O1 (tx_db tx')"
proof -
  obtain receipt checkpoint where r: "r = (receipt, checkpoint)" by (cases r)
  from assms(1) obtain now root1 cd where
    c: "case find (\<lambda>r. qq_command_id r = ce_command_id command) (db_receipts (tx_db tx)) of
       Some row \<Rightarrow> replay_stored_receipt X S O1 Q command now root1 cd row tx = Ok (r, tx')
     | None \<Rightarrow> execute_new_command X S O1 Q command now root1 cd tx = Ok (r, tx')"
    by (rule transact_inner_Ok)
  show ?thesis
  proof (cases "find (\<lambda>r. qq_command_id r = ce_command_id command) (db_receipts (tx_db tx))")
    case None
    with c have "execute_new_command X S O1 Q command now root1 cd tx = Ok (r, tx')" by simp
    then show ?thesis by (rule execute_new_command_Ok) (rule commit_attestations [OF _ assms(2)])
  next
    case (Some row)
    with c r replay_stored_receipt_Ok [of X S O1 Q command now root1 cd row tx receipt checkpoint tx'] assms(2)
    show ?thesis by simp
  qed
qed

interpretation attestation_machine: kept_machine
  "handle_request X S O1 (pub :: 's \<Rightarrow> AuditCheckpointV1 \<Rightarrow> (IdrRuntimeErrorV1, 's) result)"
  "\<lambda>state. attestations_verify X O1 (fst state)"
proof
  fix state :: "authority_db \<times> 's" and i :: authority_request
  assume a: "attestations_verify X O1 (fst state)"
  note t = transact_attestations [of X S O1 "aq_root i" "aq_session i" "aq_command i"
    "\<lparr>tx_db = fst state, tx_active = None\<rparr>", simplified, OF _ a]
  note p = publication_attestations [of X O1 "aq_publication i" _ _ "\<lparr>tx_db = _, tx_active = None\<rparr>", simplified]
  show "attestations_verify X O1 (fst (handle_request X S O1 pub state i))"
    using a by (auto simp: handle_request_def handle_def Let_def split: result.splits prod.splits dest!: t dest: p)
qed

text \<open>
  C16: The authority accepts its own attestations: after any requests, every attestation it opened
  passes the verification of stored attestations, so a repeated command is never refused because
  of the attestation of its first execution.
\<close>

theorem opened_attestations_verify:
  assumes "db_attestations db = []"
  shows "list_all (\<lambda>a. verify_attestation_row X O1 a = Ok (qg_attestation_id a))
    (db_attestations (fst (handle_history X S O1 pub (db, anchor) requests)))"
  using attestation_machine.run_inv [of X O1 "(db, anchor)" S pub requests] assms
  by (simp add: handle_history_def attestations_verify_def)

theorem opened_attestations_verify_witness:
  "list_all (\<lambda>a. verify_attestation_row sample_crates authority_sample a = Ok (qg_attestation_id a))
     (db_attestations (fst (handle_history sample_crates serde_sample authority_sample publish (empty_tables, anchor_sample) start_twice)))"
  by (rule opened_attestations_verify) (simp add: empty_tables_def)

section \<open>Versions count the committed commands\<close>

definition versions_counted :: "authority_db \<Rightarrow> bool" where
  "versions_counted db \<longleftrightarrow>
     list_all (\<lambda>r. qr_aggregate_version r = int (length (filter (\<lambda>a. qa_run_id a = qr_run_id r) (db_audit db)))) (db_runs db) \<and>
     list_all (\<lambda>a. list_ex (\<lambda>r. qr_run_id r = qa_run_id a) (db_runs db)) (db_audit db)"

lemma first_transition_version:
  assumes l: "load_projection X S O1 Q command tx = Ok (p, tx)"
    and none: "\<forall>r \<in> set (db_runs (tx_db tx)). qr_run_id r \<noteq> ce_run_id command"
    and n: "next_transition X Q p command now proofs bound tx = Ok (t, tx)"
  shows "uint (pj_aggregate_version (tn_projection t)) = 1"
proof -
  have "find (\<lambda>r. qr_run_id r = ce_run_id command) (db_runs (tx_db tx)) = None"
    using none by (simp add: find_None_iff)
  with l have p: "p = IdrRunProjectionV1_pending (og_trust_domain O1) (sx_environment_ref (og_security O1))
      (ce_run_id command) (ce_tenant_ref command)"
    by (auto simp: load_projection_def sql_simps split: if_splits)
  from next_transition_Ok [OF n] obtain t0 where r: "transition_refines t0 t" and
    "evaluate_authoritative_transition_v1 X (q_fresh Q) p command now proofs = Ok t0 \<or>
     action_admission_proof_failure X p command proofs = Ok t0" by blast
  then have "evaluate_authoritative_transition_v1 X (q_fresh Q) p command now proofs = Ok t0"
    by (auto simp: action_admission_proof_failure_def p IdrRunProjectionV1_pending_def)
  from transition_frame(5) [OF this] r show ?thesis
    by (simp add: p IdrRunProjectionV1_pending_def transition_refines_def uint_nat)
qed

lemma versions_counted_step:
  assumes counted: "versions_counted db"
    and h: "handle_request X S O1 pub (db, anchor) i = (db', anchor')"
  shows "versions_counted db'"
proof (rule handle_cases [OF h refl refl])
  assume "core db' = core db"
  with counted show ?thesis by (simp add: versions_counted_def core_eq_iff)
next
  let ?tx = "\<lparr>tx_db = db, tx_active = None\<rparr>"
  fix root cd now proofs p t receipt checkpoint tx'
  assume v: "IdrCommandEnvelopeV1_validate X (aq_command i) = Ok ()"
    and l: "load_projection X S O1 (aq_session i) (aq_command i) ?tx = Ok (p, ?tx)"
    and n: "next_transition X (aq_session i) p (aq_command i) now proofs
         (and_then (reverify_bound_action_admission_proofs X S O1 (aq_session i) p (aq_command i) now root ?tx)
            (\<lambda>_. Ok ())) ?tx = Ok (t, ?tx)"
    and c: "commit_transition X S O1 (aq_session i) (aq_command i) proofs now root cd (pj_aggregate_version p) t
         ?tx = Ok ((receipt, checkpoint), tx')"
    and new: "core db' = core (tx_db tx')"
  let ?run = "ce_run_id (aq_command i)"
  let ?count = "\<lambda>db id. int (length (filter (\<lambda>a. qa_run_id a = id) (db_audit db)))"
  from v have "\<not> uuid_is_nil ?run"
    by (auto simp: IdrCommandEnvelopeV1_validate_def split: if_splits)
  with c obtain digest h version aid where
    audit: "db_audit (tx_db tx') = db_audit (tx_db ?tx) @
       [(audit_row_for X O1 (aq_session i) (aq_command i) (audit_payload X O1 (aq_command i) cd digest t)
          (previous_hash (tx_db ?tx) (ce_tenant_ref (aq_command i))) h t version)
         \<lparr>qa_sequence := q_audit_sequence (aq_session i), qa_attestation_id := aid\<rparr>]"
    and runs: "run_rows_after (run_row_for S (tn_projection t) digest) (db_runs (tx_db ?tx)) (db_runs (tx_db tx'))"
    and at: "pj_run_id (tn_projection t) = ?run"
    by (rule commit_runs)
  let ?r = "run_row_for S (tn_projection t) digest"
  have r: "qr_run_id ?r = ?run" by (simp add: run_row_for_def at)
  obtain a where a: "db_audit db' = db_audit db @ [a]" "qa_run_id a = ?run"
    using audit new by (auto simp: core_eq_iff audit_row_for_def)
  have runs': "run_rows_after ?r (db_runs db) (db_runs db')" using runs new by (simp add: core_eq_iff)
  have count: "?count db' id = (if id = ?run then ?count db id + 1 else ?count db id)" for id by (simp add: a)
  have old: "\<forall>e \<in> set (db_runs db). qr_aggregate_version e = ?count db (qr_run_id e)"
    using counted by (simp add: versions_counted_def list_all_iff)
  have version: "qr_aggregate_version ?r = ?count db ?run + 1"
  proof (cases "\<exists>e \<in> set (db_runs db). qr_run_id e = qr_run_id ?r")
    case True
    with runs' obtain e where "e \<in> set (db_runs db)" "qr_run_id e = qr_run_id ?r"
        "qr_aggregate_version e + 1 = qr_aggregate_version ?r" by (auto simp: run_rows_after_def)
    with old r show ?thesis by auto
  next
    case False
    with r have none: "\<forall>e \<in> set (db_runs (tx_db ?tx)). qr_run_id e \<noteq> ?run" by auto
    from False have "filter (\<lambda>a. qa_run_id a = ?run) (db_audit db) = []"
      using counted by (auto simp: versions_counted_def list_all_iff list_ex_iff r filter_empty_conv)
    with first_transition_version [OF l none n] show ?thesis by (simp add: run_row_for_def)
  qed
  have "\<forall>e \<in> set (db_runs db'). qr_aggregate_version e = ?count db' (qr_run_id e)"
    by (rule run_rows_after_all [where P = "\<lambda>e. qr_aggregate_version e = ?count db' (qr_run_id e)", OF runs'])
      (use old in \<open>auto simp: count r version\<close>)
  moreover have "\<exists>e \<in> set (db_runs db'). qr_run_id e = id"
    if "id = ?run \<or> (\<exists>e \<in> set (db_runs db). qr_run_id e = id)" for id
    using that run_rows_after_ids [OF runs'] r by (metis imageE imageI insert_iff)
  ultimately show "versions_counted db'"
    using counted by (auto simp: versions_counted_def list_all_iff list_ex_iff a)
qed

interpretation version_machine: kept_machine
  "handle_request X S O1 (pub :: 's \<Rightarrow> AuditCheckpointV1 \<Rightarrow> (IdrRuntimeErrorV1, 's) result)"
  "\<lambda>state. versions_counted (fst state)"
proof
  fix state :: "authority_db \<times> 's" and i :: authority_request
  assume "versions_counted (fst state)"
  then show "versions_counted (fst (handle_request X S O1 pub state i))"
    by (cases state; cases "handle_request X S O1 pub state i") (auto intro: versions_counted_step)
qed

text \<open>
  C14: No update of a run is lost: after any requests from empty tables on, the stored version of
  every run is the number of events the audit trail holds for it, and every audited run is stored.
\<close>

theorem run_versions_count_audited_events:
  assumes "db_audit db = []" "db_runs db = []"
  shows "versions_counted (fst (handle_history X S O1 pub (db, anchor) requests))"
  using version_machine.run_inv [of "(db, anchor)" X S O1 pub requests] assms
  by (simp add: handle_history_def versions_counted_def)

theorem run_versions_count_audited_events_witness:
  "versions_counted (fst (handle_history sample_crates serde_sample authority_sample publish (empty_tables, anchor_sample) start_twice))"
  by (rule run_versions_count_audited_events) (simp_all add: empty_tables_def)

section \<open>Production\<close>

text \<open>
  A production build serves no production effect while its release gates are blocked: a
  command that admits an action, reserves, dispatches or settles an execution or writes the human
  model is refused, and neither the tables nor the anchor change.
\<close>

theorem production_refuses_effects:
  assumes "og_production_build O1" "og_trust_domain O1 = TD_Production"
    and "is_execution_command (ce_command command) \<or> is_human_model_write (ce_command command) \<or>
      (\<exists>a b c d e. ce_command command = AdmitAction a b c d e)"
  shows "\<exists>message. handle X S O1 pub root Q Q2 command state = (Err (RE_Repository message), state)"
proof -
  have "\<exists>message. enforce_production_command_release_gate (ce_command command) = Err (RE_Repository message)"
    using assms(3) by (cases "ce_command command")
      (simp_all add: enforce_production_command_release_gate_def release_gates_BLOCKED_def)
  with assms(1,2) show ?thesis by (auto simp: handle_def handle_gates_def Let_def)
qed

theorem production_refuses_effects_witness:
  "\<exists>message. handle sample_crates serde_sample
     (authority_sample\<lparr>og_production_build := True, og_trust_domain := TD_Production\<rparr>) publish (Ok authority_root)
     (session_sample 1) (session_sample 2) (sample_command 3 ''caller:c'' (RecoverPermit 5)) (empty_tables, anchor_sample)
   = (Err (RE_Repository message), (empty_tables, anchor_sample))"
  by (rule production_refuses_effects) (simp_all add: sample_command_def)

section \<open>Corrections\<close>

theorem corrections_never_commit_witness:
  "\<nexists>r. execute_new_command sample_crates serde_sample authority_sample (session_sample 1)
     (sample_command 3 ''caller:c'' (CorrectHumanModelAssertion (sample_ref CK_HumanModelAssertion)
       (sample_candidate CK_HumanModelAssertion (JObj [])))) 150 authority_root sample_digest
     \<lparr>tx_db = empty_tables, tx_active = None\<rparr> = Ok r"
proof
  assume "\<exists>r. execute_new_command sample_crates serde_sample authority_sample (session_sample 1)
     (sample_command 3 ''caller:c'' (CorrectHumanModelAssertion (sample_ref CK_HumanModelAssertion)
       (sample_candidate CK_HumanModelAssertion (JObj [])))) 150 authority_root sample_digest
     \<lparr>tx_db = empty_tables, tx_active = None\<rparr> = Ok r"
  then show False
    using corrections_never_commit [of _ "sample_ref CK_HumanModelAssertion" "sample_candidate CK_HumanModelAssertion (JObj [])"]
    by (auto simp: sample_command_def sample_ref_def)
qed

end
