(* ===== verification/Spec2Isabelle.thy ===== *)
theory Spec2Isabelle
  imports IDR_Engine_Records IDR_Orchestrator IDR_Store_Props IDR_Authority_History
begin

text \<open>
  A verification development for the Intent and Decision Runtime (IDR).

  The program. IDR keeps the authoritative record of a run that starts from a user's input and may end
  in an external effect and in a change of a model of the user. Candidates (context, intent, decision,
  turn, response, action, receipt, outcome, human-model entries) are submitted in command envelopes
  signed by proofs; a trust root verifies the proofs, and one pure function decides whether the command
  is accepted, what record it issues and how the run's projection moves. The PostgreSQL authority calls
  that function inside a transaction.

  Parts and theories.
  \<^item> \<open>IDR_Prelude\<close>: results as a sum type with \<open>?\<close> as \<open>and_then\<close>, checked arithmetic on words, ordered
    maps (locale \<open>ordered_map\<close>, interpreted on the sorted association lists that stand for \<open>BTreeMap\<close>),
    and runs of step functions (locales \<open>invariant_machine\<close> and \<open>versioned_machine\<close>, interpreted on the
    engine).
  \<^item> \<open>IDR_Json\<close> (\<open>idr-protocol/src/production.rs\<close>, 781-888): JSON values, the number profile, the
    resource limits and the canonical encoder; the record \<open>crates\<close> holds what comes from third-party
    crates (SHA-256, string escaping, the decimals of a float, UUIDs, Ed25519) as a parameter.
  \<^item> \<open>IDR_Reference\<close> (\<open>idr-protocol/src/lib.rs\<close>): references and the authority context.
  \<^item> \<open>IDR_Production\<close> (\<open>production.rs\<close>): candidates, proof claims and envelopes, issuer keys, trust
    roots and the verification of a proof.
  \<^item> \<open>IDR_Command\<close> (\<open>idr-runtime/src/trust_chain.rs\<close>, 20-685): states, record references, commands,
    envelopes and their validation.
  \<^item> \<open>IDR_Payload\<close> (\<open>trust_chain.rs\<close>, 2595-2947): the payload validators; the depth-first search over a
    turn graph has fuel, and \<open>validate_turn_candidate_returns\<close> shows that the fuel chosen (one more than the
    number of nodes) always suffices.
  \<^item> \<open>IDR_Engine\<close> (\<open>trust_chain.rs\<close>, 687-2593): the projection, the shared checks, one definition per
    command handler, the transition and the two hooks the repository uses.
  \<^item> \<open>IDR_Engine_Lemmas\<close>: what each handler checked and returned; what no command changes.
  \<^item> \<open>IDR_Engine_Props\<close>: the execution state machine as an inductive relation, with the late withdrawals by
    which the handlers leave it, and the type invariant.
  \<^item> \<open>IDR_Engine_Runs\<close>, \<open>IDR_Engine_Safety\<close>, \<open>IDR_Engine_Records\<close>: the properties of the transition and
    of whole runs: optimistic concurrency, replay, one dispatch per attempt, what admissions,
    reservations, dispatches, receipts and promotions rest on, finality of invalidation, the hooks, and
    one path on which an attempt of unknown effect is declared cancelled.
  \<^item> \<open>IDR_Contract\<close>, \<open>IDR_Turn_Plan\<close> (\<open>human_centered/common.rs\<close>, \<open>turn.rs\<close>): what the human-centered
    contracts share, and turn plans with their two graph algorithms, both terminating and exact.
  \<^item> \<open>IDR_Assessment\<close>, \<open>IDR_Orchestrator\<close> (\<open>human_centered/guards.rs\<close>, \<open>input.rs\<close>, \<open>runtime.rs\<close>,
    \<open>idr-runtime/src/legacy.rs\<close>, \<open>orchestrator.rs\<close>): the guards and the kernel that assesses an input, and the
    step records with their retry policy (locale \<open>state_table\<close>, interpreted on both state tables).
  \<^item> \<open>IDR_Proof\<close>, \<open>IDR_Action\<close>, \<open>IDR_Execution\<close>, \<open>IDR_Decision\<close>, \<open>IDR_Response\<close>, \<open>IDR_Human_Model\<close>
    (\<open>human_centered/trust.rs\<close>, \<open>action.rs\<close>, \<open>execution.rs\<close>, \<open>intent.rs\<close> and \<open>decision.rs\<close>, \<open>response.rs\<close>
    and \<open>outcome.rs\<close>, \<open>human_model.rs\<close>): the contracts themselves, with their digests, issue and validation.
  \<^item> \<open>IDR_Store_Snapshot\<close>, \<open>IDR_Store_Validate\<close>, \<open>IDR_Store\<close> (\<open>idr-store/src/file_store.rs\<close>): the snapshot
    of the development store, its validation and the invalidation of dependents, and the operations on the
    snapshot file and the anchor log, each write with the points where it may be interrupted.
  \<^item> \<open>IDR_Store_Closure\<close>, \<open>IDR_Store_Disk\<close>, \<open>IDR_Store_Safety\<close>, \<open>IDR_Store_Samples\<close>, \<open>IDR_Store_Props\<close>: the
    work list computes the transitive closure; every interrupted write leaves a disk that loads, unless serde
    does not read its floats back, and then one that nothing loads or changes; the history only grows; then the properties of the store over sequences of calls, with the samples of their witnesses.
  \<^item> \<open>IDR_Authority\<close> (\<open>idr-runtime/src/postgres_authority.rs\<close>, up to 525 and from 2683): the attestation
    key with its file and its HMAC, the rotating trust root, the anchor of checkpoints (locale
    \<open>checkpoint_anchor\<close>, interpreted on the in-memory anchor), the release gates, the attested material and
    the proofs of a command.
  \<^item> \<open>IDR_Database\<close> (\<open>idr-store/migrations\<close>): the tables as lists of rows with their keys, the bridge behind
    the authority views, which checks every write against the open attestation, and the opener of
    attestations; the guard on the states of executions is in \<open>IDR_Engine\<close>. A transaction is a function on the tables that may fail; failing drops its changes.
  \<^item> \<open>IDR_Persist\<close>, \<open>IDR_Transact\<close> (\<open>postgres_authority.rs\<close>, 1974-2911 and 3063-4077): every row a transition
    writes, the recursive closure of an invalidation, the roots of a checkpoint, the stored receipt of a
    repeated command, the stored projection, the transaction of a command and \<open>handle\<close>.
  \<^item> \<open>IDR_Authority_Props\<close>, \<open>IDR_Authority_History\<close>, \<open>IDR_Authority_Samples\<close>: what a committed command leaves
    in the tables, and histories of requests (locales \<open>numbered_machine\<close> and \<open>kept_machine\<close>, interpreted on
    \<open>handle\<close>): the hash chain of the audit trail, stored runs that keep their integrity, commands and proofs
    that count once, attestations that verify, versions that count the audited events.

  How the model reads. A struct is a record with a prefix per type, an enum a datatype with the source's
  constructors, \<open>u64\<close> and \<open>u32\<close> are words, \<open>Result\<close> is \<open>result\<close> with the source's error enums, strings
  are lists of bytes. Deserialization is not modelled: functions start from values. Random identifiers
  (\<open>Uuid::new_v4\<close>) and the trusted time are arguments. A run is a list of inputs, each with its command,
  time, verified proofs and fresh identifiers, folded by \<open>run_steps\<close>.

  What is assumed. Properties that need something of a third-party crate say so as a hypothesis (strings
  are escaped so that they can be read back, UUID display is injective, digests have 64 hexadecimal
  characters, serde reads back the anchor line it wrote and a snapshot whose payloads hold no float, the digest
  of a snapshot tells it from a different one read back of it); each such property has a witness
  on concrete functions that meet it. A rename of the snapshot file is atomic and an append to the anchor
  log leaves a prefix of the line. PostgreSQL runs transactions one after the other (they are serializable),
  its sequences grow, and a session may fail any read and refuse any write; what the triggers refuse, except
  those on the updates of reservations and attempts, is left open, so the properties hold whatever they refuse.

  Not modelled: the verification of the whole database at startup and the check of the runtime role
  (\<open>postgres_authority.rs\<close>, 528-764 and 1015-1972), the queries and the outbox calls compiled for tests, the
  other triggers of the migrations, roles and grants, a commit whose outcome the client does not learn, the
  advisory lock and the cached copy of the file store (every operation reloads it under the lock), serde's
  derived deserializers, the contract generator, and the clients and evaluation tools in other languages.
\<close>

end
